(* ===== verification/GoBase.thy ===== *)
theory GoBase
  imports Complex_Main "HOL-Library.Sublist"
begin

text \<open>
  The prelude of the development: the parts of Go's standard library that the modelled code
  uses, and the generic lemmas the components share.

  Go strings are byte strings, so \<^typ>\<open>string\<close> (a list of 8-bit characters) is used as it is and
  \<^term>\<open>length\<close> is Go's \<open>len\<close>. \<open>strings.TrimSpace\<close> is modelled on the UTF-8 encodings of all
  Unicode white space; \<open>strings.ToLower\<close>, \<open>strings.ToUpper\<close> and \<open>strings.EqualFold\<close> fold the
  ASCII letters only, which is what they do on the ASCII texts the code applies them to
  (addresses, header names, status words, codes).

  Unix times kept as \<open>float64\<close> seconds are \<^typ>\<open>real\<close> numbers (rounding is not modelled);
  \<open>time.Time\<close> and \<open>time.Duration\<close> are \<^typ>\<open>int\<close> nanoseconds, a time counted from Go's zero
  time, so that \<open>IsZero\<close> is equality with 0.
\<close>

named_theorems str_simps \<open>rewrite rules for the string operations\<close>
named_theorems inv_intros \<open>preservation rules: one per operation of a component\<close>

section \<open>Types and small numeric helpers\<close>

type_synonym unixtime = real
type_synonym gotime = int
type_synonym duration = int

definition second :: duration where
  "second = 1000000000"

definition minute :: duration where
  "minute = 60 * second"

definition seconds_of :: "duration \<Rightarrow> real" where
  "seconds_of d = of_int d / 1000000000"

text \<open>Conversion of a float to an int: Go truncates towards zero.\<close>

definition go_trunc :: "real \<Rightarrow> int" where
  "go_trunc x = (if 0 \<le> x then \<lfloor>x\<rfloor> else \<lceil>x\<rceil>)"

lemma go_trunc_mono_zero: "go_trunc x \<le> 0 \<longleftrightarrow> x < 1"
  by (auto simp: go_trunc_def ceiling_le_zero floor_le_iff)

lemma go_trunc_nonneg: "0 \<le> x \<Longrightarrow> 0 \<le> go_trunc x"
  by (simp add: go_trunc_def)

section \<open>Searching a list\<close>

text \<open>The loops that return at the first match.\<close>

lemma find_in: "find P xs = Some x \<Longrightarrow> x \<in> set xs \<and> P x"
  by (auto simp: find_Some_iff)

section \<open>Parts of a list\<close>

lemma subseq_set: "subseq ys xs \<Longrightarrow> set ys \<subseteq> set xs"
  by (induction rule: list_emb.induct) auto

lemma sorted_wrt_subseq: "subseq ys xs \<Longrightarrow> sorted_wrt R xs \<Longrightarrow> sorted_wrt R ys"
proof (induction rule: list_emb.induct)
  case (list_emb_Cons2 x y xs ys)
  then show ?case using subseq_set [of xs ys] by auto
qed simp_all

lemma distinct_subseq: "subseq ys xs \<Longrightarrow> distinct xs \<Longrightarrow> distinct ys"
proof (induction rule: list_emb.induct)
  case (list_emb_Cons2 x y xs ys)
  then show ?case using subseq_set [of xs ys] by auto
qed simp_all

section \<open>Byte strings\<close>

subsection \<open>White space\<close>

text \<open>The number of bytes of the white-space character at the head of a string, 0 if none.\<close>

definition ascii_space :: "char \<Rightarrow> bool" where
  "ascii_space c \<longleftrightarrow> c = CHR 0x09 \<or> c = CHR 0x0A \<or> c = CHR 0x0B \<or> c = CHR 0x0C \<or> c = CHR 0x0D \<or> c = CHR '' ''"

definition space3 :: "char \<Rightarrow> char \<Rightarrow> char \<Rightarrow> bool" where
  "space3 a b c \<longleftrightarrow>
     (a = CHR 0xE1 \<and> b = CHR 0x9A \<and> c = CHR 0x80) \<or>
     (a = CHR 0xE2 \<and> b = CHR 0x80 \<and>
        c \<in> {CHR 0x80, CHR 0x81, CHR 0x82, CHR 0x83, CHR 0x84, CHR 0x85, CHR 0x86, CHR 0x87,
             CHR 0x88, CHR 0x89, CHR 0x8A, CHR 0xA8, CHR 0xA9, CHR 0xAF}) \<or>
     (a = CHR 0xE2 \<and> b = CHR 0x81 \<and> c = CHR 0x9F) \<or>
     (a = CHR 0xE3 \<and> b = CHR 0x80 \<and> c = CHR 0x80)"

definition space2 :: "char \<Rightarrow> char \<Rightarrow> bool" where
  "space2 a b \<longleftrightarrow> a = CHR 0xC2 \<and> (b = CHR 0x85 \<or> b = CHR 0xA0)"

fun space_len :: "string \<Rightarrow> nat" where
  "space_len [] = 0"
| "space_len [a] = (if ascii_space a then 1 else 0)"
| "space_len [a, b] = (if ascii_space a then 1 else if space2 a b then 2 else 0)"
| "space_len (a # b # c # s) =
     (if ascii_space a then 1 else if space2 a b then 2 else if space3 a b c then 3 else 0)"

text \<open>The same at the end of a string, read backwards.\<close>

fun rspace_len :: "string \<Rightarrow> nat" where
  "rspace_len [] = 0"
| "rspace_len [a] = (if ascii_space a then 1 else 0)"
| "rspace_len [a, b] = (if ascii_space a then 1 else if space2 b a then 2 else 0)"
| "rspace_len (a # b # c # s) =
     (if ascii_space a then 1 else if space2 b a then 2 else if space3 c b a then 3 else 0)"

lemma space_len_pos_nonempty: "space_len s \<noteq> 0 \<Longrightarrow> s \<noteq> []"
  by auto

lemma rspace_len_pos_nonempty: "rspace_len s \<noteq> 0 \<Longrightarrow> s \<noteq> []"
  by auto

function trim_left :: "string \<Rightarrow> string" where
  "trim_left s = (if space_len s = 0 then s else trim_left (drop (space_len s) s))"
  by pat_completeness auto
termination
  by (relation "measure length") (auto intro!: diff_less dest: space_len_pos_nonempty)

function trim_rev :: "string \<Rightarrow> string" where
  "trim_rev s = (if rspace_len s = 0 then s else trim_rev (drop (rspace_len s) s))"
  by pat_completeness auto
termination
  by (relation "measure length") (auto intro!: diff_less dest: rspace_len_pos_nonempty)

declare trim_left.simps [simp del] trim_rev.simps [simp del]

definition trim_right :: "string \<Rightarrow> string" where
  "trim_right s = rev (trim_rev (rev s))"

definition trim_space :: "string \<Rightarrow> string" where
  "trim_space s = trim_right (trim_left s)"

lemma space_len_trim_left: "space_len (trim_left s) = 0"
proof (induction s rule: trim_left.induct)
  case (1 s)
  then show ?case by (cases "space_len s = 0") (simp_all add: trim_left.simps [of s])
qed

lemma rspace_len_trim_rev: "rspace_len (trim_rev s) = 0"
proof (induction s rule: trim_rev.induct)
  case (1 s)
  then show ?case by (cases "rspace_len s = 0") (simp_all add: trim_rev.simps [of s])
qed

lemma trim_left_id: "space_len s = 0 \<Longrightarrow> trim_left s = s"
  by (simp add: trim_left.simps)

lemma trim_rev_id: "rspace_len s = 0 \<Longrightarrow> trim_rev s = s"
  by (simp add: trim_rev.simps)

lemma trim_rev_suffix: "suffix (trim_rev s) s"
proof (induction s rule: trim_rev.induct)
  case (1 s)
  show ?case
  proof (cases "rspace_len s = 0")
    case True
    then show ?thesis by (simp add: trim_rev_id)
  next
    case False
    then have "suffix (trim_rev s) (drop (rspace_len s) s)"
      using 1 by (simp add: trim_rev.simps [of s])
    then show ?thesis using suffix_drop suffix_order.trans by blast
  qed
qed

lemma trim_left_suffix: "suffix (trim_left s) s"
proof (induction s rule: trim_left.induct)
  case (1 s)
  show ?case
  proof (cases "space_len s = 0")
    case True
    then show ?thesis by (simp add: trim_left_id)
  next
    case False
    then have "suffix (trim_left s) (drop (space_len s) s)"
      using 1 by (simp add: trim_left.simps [of s])
    then show ?thesis using suffix_drop suffix_order.trans by blast
  qed
qed

lemma trim_right_prefix: "prefix (trim_right s) s"
  using trim_rev_suffix [of "rev s"] by (simp add: trim_right_def suffix_to_prefix)

text \<open>A white-space head stays one when the string is extended, so a prefix of a string without
  one has none either.\<close>

lemma space_len_append: "space_len s \<noteq> 0 \<Longrightarrow> space_len (s @ t) = space_len s"
  by (cases s rule: space_len.cases; cases t rule: space_len.cases) (auto split: if_splits)

lemma space_len_prefix: "prefix p s \<Longrightarrow> space_len s = 0 \<Longrightarrow> space_len p = 0"
  by (metis prefix_def space_len_append)

lemma trim_space_idem [simp]: "trim_space (trim_space s) = trim_space s"
proof -
  have "space_len (trim_space s) = 0"
    unfolding trim_space_def
    by (rule space_len_prefix [OF trim_right_prefix space_len_trim_left])
  moreover have "trim_right (trim_space s) = trim_space s"
    by (simp add: trim_space_def trim_right_def trim_rev_id rspace_len_trim_rev)
  ultimately show ?thesis
    by (simp add: trim_space_def [of "trim_space s"] trim_left_id)
qed

lemma trim_space_Nil [simp]: "trim_space [] = []"
  by (simp add: trim_space_def trim_right_def trim_left.simps trim_rev.simps)

lemma set_trim_space: "set (trim_space s) \<subseteq> set s"
  unfolding trim_space_def
  by (rule order_trans [OF set_mono_prefix [OF trim_right_prefix] set_mono_suffix [OF trim_left_suffix]])

lemma length_trim_space: "length (trim_space s) \<le> length s"
  unfolding trim_space_def
  by (rule order_trans [OF prefix_length_le [OF trim_right_prefix] suffix_length_le [OF trim_left_suffix]])

subsection \<open>ASCII case folding\<close>

definition lower_char :: "char \<Rightarrow> char" where
  "lower_char c = (let n = of_char c :: nat in if 65 \<le> n \<and> n \<le> 90 then char_of (n + 32) else c)"

definition upper_char :: "char \<Rightarrow> char" where
  "upper_char c = (let n = of_char c :: nat in if 97 \<le> n \<and> n \<le> 122 then char_of (n - 32) else c)"

definition to_lower :: "string \<Rightarrow> string" where
  "to_lower s = map lower_char s"

definition to_upper :: "string \<Rightarrow> string" where
  "to_upper s = map upper_char s"

definition equal_fold :: "string \<Rightarrow> string \<Rightarrow> bool" where
  "equal_fold a b \<longleftrightarrow> to_lower a = to_lower b"

lemma of_char_lower:
  "(of_char (lower_char c) :: nat) =
     (if 65 \<le> (of_char c :: nat) \<and> of_char c \<le> (90::nat) then of_char c + 32 else of_char c)"
  by (auto simp: lower_char_def Let_def of_char_of)

lemma lower_char_idem [simp]: "lower_char (lower_char c) = lower_char c"
proof -
  have "(of_char (lower_char (lower_char c)) :: nat) = of_char (lower_char c)"
    by (auto simp: of_char_lower)
  then show ?thesis by (simp only: of_char_eq_iff)
qed

text \<open>A byte that is not a letter is produced by case folding only from itself.\<close>

lemma lower_char_eq_iff:
  assumes "\<not> (97 \<le> (of_char d :: nat) \<and> of_char d \<le> (122::nat))"
    and "\<not> (65 \<le> (of_char d :: nat) \<and> of_char d \<le> (90::nat))"
  shows "lower_char c = d \<longleftrightarrow> c = d"
proof -
  have "lower_char c = d \<longleftrightarrow> (of_char (lower_char c) :: nat) = of_char d"
    by (simp only: of_char_eq_iff)
  also have "\<dots> \<longleftrightarrow> (of_char c :: nat) = of_char d"
    using assms by (auto simp: of_char_lower)
  finally show ?thesis by (simp only: of_char_eq_iff)
qed

lemma ascii_space_lower [simp]: "ascii_space (lower_char c) = ascii_space c"
  by (simp add: ascii_space_def lower_char_eq_iff)

lemma space2_lower [simp]: "space2 (lower_char a) (lower_char b) = space2 a b"
  by (simp add: space2_def lower_char_eq_iff)

lemma space3_lower [simp]: "space3 (lower_char a) (lower_char b) (lower_char c) = space3 a b c"
  by (simp add: space3_def lower_char_eq_iff)

lemma space_len_lower: "space_len (to_lower s) = space_len s"
  by (cases s rule: space_len.cases) (simp_all add: to_lower_def)

lemma rspace_len_lower: "rspace_len (to_lower s) = rspace_len s"
  by (cases s rule: rspace_len.cases) (simp_all add: to_lower_def)

lemma to_lower_trim_left: "to_lower (trim_left s) = trim_left (to_lower s)"
proof (induction s rule: trim_left.induct)
  case (1 s)
  show ?case
  proof (cases "space_len s = 0")
    case True
    then show ?thesis by (simp add: trim_left_id space_len_lower)
  next
    case False
    have "to_lower (trim_left s) = trim_left (to_lower (drop (space_len s) s))"
      using 1 False by (simp add: trim_left.simps [of s])
    also have "\<dots> = trim_left (to_lower s)"
      using False by (simp add: trim_left.simps [of "to_lower s"] space_len_lower)
        (simp add: to_lower_def drop_map)
    finally show ?thesis .
  qed
qed

lemma to_lower_trim_rev: "to_lower (trim_rev s) = trim_rev (to_lower s)"
proof (induction s rule: trim_rev.induct)
  case (1 s)
  show ?case
  proof (cases "rspace_len s = 0")
    case True
    then show ?thesis by (simp add: trim_rev_id rspace_len_lower)
  next
    case False
    have "to_lower (trim_rev s) = trim_rev (to_lower (drop (rspace_len s) s))"
      using 1 False by (simp add: trim_rev.simps [of s])
    also have "\<dots> = trim_rev (to_lower s)"
      using False by (simp add: trim_rev.simps [of "to_lower s"] rspace_len_lower)
        (simp add: to_lower_def drop_map)
    finally show ?thesis .
  qed
qed

lemma to_lower_rev: "to_lower (rev s) = rev (to_lower s)"
  by (simp add: to_lower_def rev_map)

lemma to_lower_trim_space: "to_lower (trim_space s) = trim_space (to_lower s)"
  by (simp add: trim_space_def trim_right_def to_lower_rev to_lower_trim_left to_lower_trim_rev)

lemma to_lower_idem [simp]: "to_lower (to_lower s) = to_lower s"
  by (simp add: to_lower_def comp_def)

lemma to_lower_Nil_iff [simp]: "to_lower s = [] \<longleftrightarrow> s = []"
  by (simp add: to_lower_def)

lemma to_lower_Nil [simp]: "to_lower [] = []"
  by simp

text \<open>The canonical form of an address: \<open>strings.ToLower(strings.TrimSpace(s))\<close>.\<close>

definition norm_alias :: "string \<Rightarrow> string" where
  "norm_alias s = to_lower (trim_space s)"

lemma norm_alias_idem [simp]: "norm_alias (norm_alias s) = norm_alias s"
  by (simp add: norm_alias_def flip: to_lower_trim_space)

lemma trim_norm_alias [simp]: "trim_space (norm_alias s) = norm_alias s"
  by (simp add: norm_alias_def flip: to_lower_trim_space)

lemma lower_norm_alias [simp]: "to_lower (norm_alias s) = norm_alias s"
  by (simp add: norm_alias_def)

lemma norm_alias_Nil [simp]: "norm_alias [] = []"
  by (simp add: norm_alias_def)

lemma equal_fold_refl [simp]: "equal_fold a a"
  by (simp add: equal_fold_def)

end
