(* ===== verification/GoText.thy ===== *)
theory GoText
  imports GoBase "HOL-Library.Char_ord" "HOL-Library.List_Lexorder"
begin

text \<open>
  The searching, splitting and number-formatting functions of Go's \<open>strings\<close>, \<open>strconv\<close> and
  \<open>fmt\<close> packages that the modelled code calls, with the facts the components need of them.
\<close>

section \<open>Searching\<close>

definition has_prefix :: "string \<Rightarrow> string \<Rightarrow> bool" where
  "has_prefix s p \<longleftrightarrow> take (length p) s = p"

definition has_suffix :: "string \<Rightarrow> string \<Rightarrow> bool" where
  "has_suffix s p \<longleftrightarrow> has_prefix (rev s) (rev p)"

definition trim_prefix :: "string \<Rightarrow> string \<Rightarrow> string" where
  "trim_prefix s p = (if has_prefix s p then drop (length p) s else s)"

definition trim_suffix :: "string \<Rightarrow> string \<Rightarrow> string" where
  "trim_suffix s p = (if has_suffix s p then take (length s - length p) s else s)"

fun contains :: "string \<Rightarrow> string \<Rightarrow> bool" where
  "contains [] p = (p = [])"
| "contains (c # s) p = (has_prefix (c # s) p \<or> contains s p)"

text \<open>\<open>strings.Index\<close> and \<open>strings.IndexByte\<close>; \<^const>\<open>None\<close> is Go's -1.\<close>

fun index_byte :: "string \<Rightarrow> char \<Rightarrow> nat option" where
  "index_byte [] c = None"
| "index_byte (x # s) c = (if x = c then Some 0 else map_option Suc (index_byte s c))"

fun str_index :: "string \<Rightarrow> string \<Rightarrow> nat option" where
  "str_index [] p = (if p = [] then Some 0 else None)"
| "str_index (c # s) p = (if has_prefix (c # s) p then Some 0 else map_option Suc (str_index s p))"

lemma has_prefix_append [simp]: "has_prefix (p @ s) p"
  by (simp add: has_prefix_def)

lemma has_prefix_iff: "has_prefix s p \<longleftrightarrow> (\<exists>t. s = p @ t)"
  by (metis append_eq_conv_conj append_take_drop_id has_prefix_def)

lemma has_suffix_iff: "has_suffix s p \<longleftrightarrow> (\<exists>t. s = t @ p)"
proof
  assume "has_suffix s p"
  then obtain t where "rev s = rev p @ t" by (auto simp: has_suffix_def has_prefix_iff)
  then have "s = rev t @ p" by (metis rev_append rev_rev_ident)
  then show "\<exists>t. s = t @ p" by blast
next
  assume "\<exists>t. s = t @ p"
  then show "has_suffix s p" by (auto simp: has_suffix_def has_prefix_iff)
qed

lemma has_suffix_append [simp]: "has_suffix (t @ p) p"
  by (auto simp: has_suffix_iff)

lemma contains_iff: "contains s p \<longleftrightarrow> (\<exists>u v. s = u @ p @ v)"
proof (induction s)
  case Nil
  then show ?case by auto
next
  case (Cons c s)
  show ?case
  proof
    assume "contains (c # s) p"
    then consider "has_prefix (c # s) p" | "contains s p" by auto
    then show "\<exists>u v. c # s = u @ p @ v"
    proof cases
      case 1
      then show ?thesis by (metis append_Nil has_prefix_iff)
    next
      case 2
      then show ?thesis using Cons.IH by (metis append_Cons)
    qed
  next
    assume "\<exists>u v. c # s = u @ p @ v"
    then obtain u v where uv: "c # s = u @ p @ v" by blast
    show "contains (c # s) p"
    proof (cases u)
      case Nil
      then have "has_prefix (c # s) p" using uv by (simp add: has_prefix_iff)
      then show ?thesis by simp
    next
      case (Cons a u')
      then show ?thesis using uv Cons.IH by auto
    qed
  qed
qed

lemma contains_middle [simp]: "contains (u @ p @ v) p"
  by (auto simp: contains_iff)

lemma index_byte_Some:
  "index_byte s c = Some n \<longleftrightarrow> n < length s \<and> s ! n = c \<and> c \<notin> set (take n s)"
proof (induction s arbitrary: n)
  case (Cons x s)
  then show ?case by (cases n) auto
qed simp

lemma index_byte_None: "index_byte s c = None \<longleftrightarrow> c \<notin> set s"
  by (induction s) auto

lemma has_prefix_length: "has_prefix s p \<Longrightarrow> length p \<le> length s"
  by (auto simp: has_prefix_iff)

lemma str_index_bound: "str_index s p = Some n \<Longrightarrow> n + length p \<le> length s"
  by (induction s arbitrary: n) (auto split: if_splits dest: has_prefix_length)

section \<open>Cutting and replacing\<close>

text \<open>\<open>strings.Cut\<close> at a single byte: the text before, the text after, and whether it was found.\<close>

fun cut_byte :: "string \<Rightarrow> char \<Rightarrow> string \<times> string \<times> bool" where
  "cut_byte [] c = ([], [], False)"
| "cut_byte (x # s) c =
     (if x = c then ([], s, True)
      else (let (a, b, ok) = cut_byte s c in (x # a, b, ok)))"

lemma cut_byte_found: "c \<notin> set a \<Longrightarrow> cut_byte (a @ c # b) c = (a, b, True)"
  by (induction a) auto

lemma cut_byte_absent: "c \<notin> set s \<Longrightarrow> cut_byte s c = (s, [], False)"
  by (induction s) auto

text \<open>\<open>strings.ReplaceAll\<close> for a non-empty pattern.\<close>

lemma diff_length_nonempty: "xs \<noteq> [] \<Longrightarrow> Suc n - length xs \<le> n"
  by (cases xs) auto

function replace_all :: "string \<Rightarrow> string \<Rightarrow> string \<Rightarrow> string" where
  "replace_all [] old new = []"
| "replace_all (c # s) old new =
     (if old \<noteq> [] \<and> has_prefix (c # s) old
      then new @ replace_all (drop (length old) (c # s)) old new
      else c # replace_all s old new)"
  by pat_completeness auto
termination
  by (relation "measure (\<lambda>(s, _, _). length s)") (auto simp: less_Suc_eq_le diff_length_nonempty)

text \<open>\<open>strings.Split\<close> at a single byte: never an empty list.\<close>

fun split_byte :: "string \<Rightarrow> char \<Rightarrow> string list" where
  "split_byte [] c = [[]]"
| "split_byte (x # s) c =
     (if x = c then [] # split_byte s c
      else (case split_byte s c of [] \<Rightarrow> [[x]] | p # ps \<Rightarrow> (x # p) # ps))"

lemma split_byte_nonempty [simp]: "split_byte s c \<noteq> []"
  by (induction s) (auto split: list.splits)

lemma split_byte_free: "p \<in> set (split_byte s c) \<Longrightarrow> c \<notin> set p"
  by (induction s arbitrary: p) (auto split: list.splits if_splits)

text \<open>\<open>strings.Join\<close>.\<close>

fun str_join :: "string list \<Rightarrow> string \<Rightarrow> string" where
  "str_join [] sep = []"
| "str_join [x] sep = x"
| "str_join (x # y # r) sep = x @ sep @ str_join (y # r) sep"

lemma join_split: "str_join (split_byte s c) [c] = s"
proof (induction s)
  case (Cons x s)
  obtain p ps where "split_byte s c = p # ps" by (cases "split_byte s c") auto
  then show ?case using Cons by (cases ps) auto
qed simp

text \<open>The slice \<open>value[:max]\<close> behind a length check, as the code's \<open>limit\<close> functions use it.\<close>

lemma length_take_le: "length (take n s) \<le> n"
  by simp

text \<open>The other way round: joining pieces without the separator and splitting again.\<close>

lemma split_byte_snoc: "c \<notin> set a \<Longrightarrow> split_byte (a @ c # b) c = a # split_byte b c"
  by (induction a) auto

lemma split_byte_none: "c \<notin> set a \<Longrightarrow> split_byte a c = [a]"
  by (induction a) auto

lemma split_join: "ps \<noteq> [] \<Longrightarrow> \<forall>p\<in>set ps. c \<notin> set p \<Longrightarrow> split_byte (str_join ps [c]) c = ps"
proof (induction ps)
  case (Cons p ps)
  then show ?case by (cases ps) (simp_all add: split_byte_snoc split_byte_none)
qed simp

section \<open>Decimal numbers\<close>

definition digit_char :: "nat \<Rightarrow> char" where
  "digit_char d = char_of (48 + d)"

definition is_digit :: "char \<Rightarrow> bool" where
  "is_digit c \<longleftrightarrow> 48 \<le> (of_char c :: nat) \<and> of_char c \<le> (57::nat)"

definition digit_val :: "char \<Rightarrow> nat" where
  "digit_val c = of_char c - 48"

fun dec :: "nat \<Rightarrow> string" where
  "dec n = (if n < 10 then [digit_char n] else dec (n div 10) @ [digit_char (n mod 10)])"

declare dec.simps [simp del]

lemma of_char_digit: "d < 10 \<Longrightarrow> (of_char (digit_char d) :: nat) = 48 + d"
  by (simp add: digit_char_def of_char_of)

lemma is_digit_digit [simp]: "d < 10 \<Longrightarrow> is_digit (digit_char d)"
  by (simp add: is_digit_def of_char_digit)

lemma digit_val_digit [simp]: "d < 10 \<Longrightarrow> digit_val (digit_char d) = d"
  by (simp add: digit_val_def of_char_digit)

lemma dec_nonempty [simp]: "dec n \<noteq> []"
  by (subst dec.simps) simp

lemma dec_digits: "c \<in> set (dec n) \<Longrightarrow> is_digit c"
proof (induction n rule: dec.induct)
  case (1 n)
  then show ?case by (subst (asm) (2) dec.simps) (auto split: if_splits)
qed

text \<open>\<open>strconv.ParseUint(s, 10, bits)\<close>: digits only, at least one, value below \<open>2 ^ bits\<close>.\<close>

definition digits_val :: "string \<Rightarrow> nat" where
  "digits_val s = foldl (\<lambda>acc c. 10 * acc + digit_val c) 0 s"

definition parse_uint :: "nat \<Rightarrow> string \<Rightarrow> nat option" where
  "parse_uint bits s =
     (if s \<noteq> [] \<and> list_all is_digit s \<and> digits_val s < 2 ^ bits then Some (digits_val s) else None)"

lemma digits_val_snoc: "digits_val (s @ [c]) = 10 * digits_val s + digit_val c"
  by (simp add: digits_val_def)

lemma digits_val_dec [simp]: "digits_val (dec n) = n"
proof (induction n rule: dec.induct)
  case (1 n)
  show ?case
  proof (cases "n < 10")
    case True
    then show ?thesis by (simp add: dec.simps [of n] digits_val_def)
  next
    case False
    then show ?thesis using 1 by (simp add: dec.simps [of n] digits_val_snoc)
  qed
qed

lemma parse_uint_dec: "n < 2 ^ bits \<Longrightarrow> parse_uint bits (dec n) = Some n"
  by (auto simp: parse_uint_def list_all_iff dec_digits)

lemma dec_inj [simp]: "dec m = dec n \<longleftrightarrow> m = n"
  by (metis digits_val_dec)

text \<open>\<open>fmt.Sprintf("%02d", n)\<close>.\<close>

definition dec02 :: "nat \<Rightarrow> string" where
  "dec02 n = (if n < 10 then CHR ''0'' # dec n else dec n)"

lemma digits_val_dec02 [simp]: "digits_val (dec02 n) = n"
proof (cases "n < 10")
  case True
  then have "dec n = [digit_char n]" by (simp add: dec.simps)
  with True show ?thesis
    by (simp add: dec02_def digits_val_def) (simp add: digit_val_def)
qed (simp add: dec02_def)

lemma dec02_inj [simp]: "dec02 m = dec02 n \<longleftrightarrow> m = n"
  by (metis digits_val_dec02)

lemma parse_uint_bound: "parse_uint bits s = Some n \<Longrightarrow> n < 2 ^ bits"
  by (auto simp: parse_uint_def split: if_splits)

section \<open>Fields and escaping\<close>

text \<open>\<open>strings.Fields\<close>, with the field read so far as accumulator.\<close>

function fields_from :: "string \<Rightarrow> string \<Rightarrow> string list" where
  "fields_from acc s =
     (if s = [] then (if acc = [] then [] else [acc])
      else if space_len s = 0 then fields_from (acc @ [hd s]) (tl s)
      else (if acc = [] then [] else [acc]) @ fields_from [] (drop (space_len s) s))"
  by pat_completeness auto
termination
  by (relation "measure (\<lambda>(_, s). length s)") auto

declare fields_from.simps [simp del]

definition str_fields :: "string \<Rightarrow> string list" where
  "str_fields s = fields_from [] s"

text \<open>\<open>url.PathEscape\<close>.\<close>

definition hex_digit :: "nat \<Rightarrow> char" where
  "hex_digit d = (if d < 10 then char_of (48 + d) else char_of (55 + d))"

definition is_alnum :: "char \<Rightarrow> bool" where
  "is_alnum c = (let n = of_char c :: nat in
     (48 \<le> n \<and> n \<le> 57) \<or> (65 \<le> n \<and> n \<le> 90) \<or> (97 \<le> n \<and> n \<le> 122))"

definition path_char :: "char \<Rightarrow> bool" where
  "path_char c \<longleftrightarrow> is_alnum c \<or> c \<in> set ''-_.~$&+:=@''"

definition path_escape :: "string \<Rightarrow> string" where
  "path_escape s = concat (map (\<lambda>c. if path_char c then [c]
     else [CHR ''%'', hex_digit (of_char c div 16), hex_digit (of_char c mod 16)]) s)"

lemma hex_digit_not_slash: "d < 16 \<Longrightarrow> hex_digit d \<noteq> CHR ''/''"
proof -
  assume d: "d < 16"
  have "(of_char (hex_digit d) :: nat) \<noteq> 47" using d by (simp add: hex_digit_def of_char_of)
  then show ?thesis by auto
qed

lemma path_escape_no_slash: "CHR ''/'' \<notin> set (path_escape s)"
proof -
  have b: "(of_char c :: nat) div 16 < 16" for c :: char
    by (rule less_mult_imp_div_less) simp
  have "CHR ''/'' \<noteq> hex_digit (of_char c div 16)" "CHR ''/'' \<noteq> hex_digit (of_char c mod 16)" for c :: char
    using hex_digit_not_slash [of "of_char c div 16"] hex_digit_not_slash [of "of_char c mod 16"] b [of c]
    by auto
  moreover have "\<not> path_char CHR ''/''" by (simp add: path_char_def is_alnum_def)
  ultimately show ?thesis by (auto simp: path_escape_def)
qed

end
