(* ===== verification/GoSort.thy ===== *)
theory GoSort
  imports GoBase "HOL-Library.Multiset" "HOL-Library.Char_ord" "HOL-Library.List_Lexorder"
begin

text \<open>
  \<open>sort.Slice\<close>, \<open>sort.SliceStable\<close> and \<open>sort.Strings\<close>. The model is a stable insertion sort by
  the comparison the code passes. The locale \<open>go_less\<close> is the contract Go asks of such a
  comparison (a strict weak order); what a component needs of sorting is proved once inside it
  and every comparison of the code is an interpretation. \<open>sort.Slice\<close> promises no order among
  incomparable elements: \<open>sort_unique\<close> says when the result does not depend on that choice.
\<close>

fun go_insert :: "('a \<Rightarrow> 'a \<Rightarrow> bool) \<Rightarrow> 'a \<Rightarrow> 'a list \<Rightarrow> 'a list" where
  "go_insert lt x [] = [x]"
| "go_insert lt x (y # ys) = (if lt y x then y # go_insert lt x ys else x # y # ys)"

fun go_sort :: "('a \<Rightarrow> 'a \<Rightarrow> bool) \<Rightarrow> 'a list \<Rightarrow> 'a list" where
  "go_sort lt [] = []"
| "go_sort lt (x # xs) = go_insert lt x (go_sort lt xs)"

abbreviation in_order :: "('a \<Rightarrow> 'a \<Rightarrow> bool) \<Rightarrow> 'a list \<Rightarrow> bool" where
  "in_order lt xs \<equiv> sorted_wrt (\<lambda>a b. \<not> lt b a) xs"

lemma mset_go_insert [simp]: "mset (go_insert lt x xs) = add_mset x (mset xs)"
  by (induction xs) auto

lemma mset_go_sort [simp]: "mset (go_sort lt xs) = mset xs"
  by (induction xs) auto

lemma set_go_insert [simp]: "set (go_insert lt x xs) = insert x (set xs)"
  by (induction xs) auto

lemma set_go_sort [simp]: "set (go_sort lt xs) = set xs"
  by (induction xs) auto

lemma length_go_sort [simp]: "length (go_sort lt xs) = length xs"
  by (metis mset_go_sort size_mset)

lemma distinct_go_sort [simp]: "distinct (go_sort lt xs) = distinct xs"
  by (metis mset_go_sort mset_eq_imp_distinct_iff)

lemma go_sort_Nil_iff [simp]: "go_sort lt xs = [] \<longleftrightarrow> xs = []"
  by (metis length_0_conv length_go_sort)

text \<open>Sorting an already ordered list leaves it alone: no assumption on the comparison.\<close>

lemma go_insert_head: "\<forall>y\<in>set ys. \<not> lt y x \<Longrightarrow> go_insert lt x ys = x # ys"
  by (cases ys) auto

lemma go_sort_in_order: "in_order lt xs \<Longrightarrow> go_sort lt xs = xs"
  by (induction xs) (auto simp: go_insert_head)

locale go_less =
  fixes lt :: "'a \<Rightarrow> 'a \<Rightarrow> bool"
  assumes irrefl: "\<not> lt x x"
    and trans: "lt x y \<Longrightarrow> lt y z \<Longrightarrow> lt x z"
    and ntrans: "\<not> lt x y \<Longrightarrow> \<not> lt y z \<Longrightarrow> \<not> lt x z"
begin

lemma asym: "lt x y \<Longrightarrow> \<not> lt y x"
  using irrefl trans by blast

lemma in_order_insert: "in_order lt xs \<Longrightarrow> in_order lt (go_insert lt x xs)"
proof (induction xs)
  case (Cons y ys)
  then show ?case by (auto dest: asym) (meson ntrans)
qed simp

lemma in_order_sort: "in_order lt (go_sort lt xs)"
  by (induction xs) (simp_all add: in_order_insert)

lemma sort_idem: "go_sort lt (go_sort lt xs) = go_sort lt xs"
  by (rule go_sort_in_order) (rule in_order_sort)

text \<open>Two ordered rearrangements of one list are equal when any two different elements of it are
  comparable; so any correct sorting algorithm returns what the model returns.\<close>

lemma sort_unique:
  assumes "mset ys = mset xs" and "in_order lt ys"
    and "\<And>a b. a \<in> set xs \<Longrightarrow> b \<in> set xs \<Longrightarrow> a \<noteq> b \<Longrightarrow> lt a b \<or> lt b a"
  shows "go_sort lt xs = ys"
  using assms
proof (induction ys arbitrary: xs)
  case Nil
  then show ?case by simp
next
  case (Cons y ys)
  let ?s = "go_sort lt xs"
  have ms: "mset ?s = mset (y # ys)" using Cons.prems(1) by simp
  then obtain z zs where s: "?s = z # zs" by (cases ?s) auto
  have "z = y"
  proof (rule ccontr)
    assume ne: "z \<noteq> y"
    have "z \<in> set ys" using ms s ne by (metis list.set_intros(1) mset_eq_setD set_ConsD)
    then have nz: "\<not> lt z y" using Cons.prems(2) by simp
    have "y \<in> set zs" using ms s ne by (metis list.set_intros(1) mset_eq_setD set_ConsD)
    then have ny: "\<not> lt y z" using in_order_sort [of xs] s by simp
    have "z \<in> set xs" "y \<in> set xs"
      using ms s Cons.prems(1) by (metis list.set_intros(1) mset_eq_setD mset_go_sort)+
    then show False using Cons.prems(3) ne ny nz by blast
  qed
  moreover have "mset zs = mset ys" using ms s \<open>z = y\<close> by simp
  moreover have "in_order lt zs" using in_order_sort [of xs] s by simp
  moreover have "go_sort lt zs = ys"
  proof (rule Cons.IH)
    show "mset ys = mset zs" using \<open>mset zs = mset ys\<close> by simp
    show "in_order lt ys" using Cons.prems(2) by simp
    fix a b
    assume "a \<in> set zs" "b \<in> set zs" "a \<noteq> b"
    then show "lt a b \<or> lt b a"
      using Cons.prems(3) s by (metis list.set_intros(2) mset_eq_setD mset_go_sort)
  qed
  ultimately show ?case using s by (simp add: go_sort_in_order)
qed

text \<open>A sorted list cut to a prefix keeps elements that nothing dropped beats.\<close>

lemma take_keeps_first:
  assumes "in_order lt xs" and "a \<in> set (take n xs)" and "b \<in> set (drop n xs)"
  shows "\<not> lt b a"
  using assms(1) assms(2,3)
  by (metis append_take_drop_id sorted_wrt_append)

end

text \<open>\<open>sort.Strings\<close> compares byte strings lexicographically.\<close>

interpretation string_order: go_less "(<) :: string \<Rightarrow> string \<Rightarrow> bool"
  by unfold_locales auto

definition sort_strings :: "string list \<Rightarrow> string list" where
  "sort_strings xs = go_sort (<) xs"

lemma set_sort_strings [simp]: "set (sort_strings xs) = set xs"
  by (simp add: sort_strings_def)

lemma distinct_sort_strings [simp]: "distinct (sort_strings xs) = distinct xs"
  by (simp add: sort_strings_def)

lemma sorted_sort_strings: "sorted (sort_strings xs)"
  using string_order.in_order_sort [of xs] by (simp add: sort_strings_def not_less)

lemma sort_strings_sorted: "sorted xs \<Longrightarrow> sort_strings xs = xs"
  by (simp add: sort_strings_def go_sort_in_order not_less)

section \<open>Lists without repetition, in first-occurrence order\<close>

text \<open>The \<open>seen\<close> map idiom: keep an element the first time it is met.\<close>

fun dedup_from :: "'a set \<Rightarrow> 'a list \<Rightarrow> 'a list" where
  "dedup_from seen [] = []"
| "dedup_from seen (x # xs) =
     (if x \<in> seen then dedup_from seen xs else x # dedup_from (insert x seen) xs)"

lemma set_dedup_from: "set (dedup_from seen xs) = set xs - seen"
  by (induction xs arbitrary: seen) auto

lemma distinct_dedup_from: "distinct (dedup_from seen xs)"
  by (induction xs arbitrary: seen) (auto simp: set_dedup_from)

lemma dedup_from_id: "distinct xs \<Longrightarrow> set xs \<inter> seen = {} \<Longrightarrow> dedup_from seen xs = xs"
  by (induction xs arbitrary: seen) auto

end
