(* ===== verification/GoErrors.thy ===== *)
theory GoErrors
  imports GoText
begin

text \<open>
  Error values: the concrete error types of \<open>modules/mail/backend/errors.go\<close> and
  \<open>apple_types.go\<close>, the sentinels of the \<open>context\<close> package, errors made from a text, and errors
  wrapped with \<open>%w\<close>. \<open>errors.As\<close> and \<open>errors.Is\<close> walk the wrapping. A \<open>*url.Error\<close> or another
  \<open>net.Error\<close> is \<open>NetErr\<close>: its prefix, whether it calls itself a timeout or temporary, and its cause.

  An \<open>AppleError\<close> carries an arbitrary decoded JSON value; the model keeps what the code reads
  of it: its rendered text, the rendering of \<open>error.errorCode\<close> (\<^const>\<open>None\<close> for nil) and the two
  \<open>retryAfter\<close> numbers.
\<close>

record protocol_error =
  pe_code :: string
  pe_message :: string
  pe_retryable :: bool
  pe_may_have_created :: bool
  pe_retry_after :: duration

record apple_payload =
  ap_text :: string
  ap_error_code :: "string option"
  ap_retry_nested :: "real option"
  ap_retry_top :: "real option"

datatype go_error =
    Canceled
  | DeadlineExceeded
  | SessionMissing
  | Upstream int string
  | AppleErr apple_payload
  | Protocol protocol_error
  | Plain string
  | Wrapped string go_error
  | NetErr string bool go_error

definition apple_protocol_error :: "string \<Rightarrow> string \<Rightarrow> bool \<Rightarrow> go_error" where
  "apple_protocol_error code message retryable =
     Protocol \<lparr>pe_code = code, pe_message = message, pe_retryable = retryable,
               pe_may_have_created = False, pe_retry_after = 0\<rparr>"

section \<open>Redaction\<close>

definition session_names :: "string list" where
  "session_names =
     [''X-APPLE-DS-WEB-SESSION-TOKEN'', ''X-APPLE-WEBAUTH-TOKEN'', ''X-APPLE-WEBAUTH-LOGIN'',
      ''X-APPLE-WEBAUTH-VALIDATE'']"

text \<open>\<open>safeErrorText\<close> and \<open>safeValue\<close> share the loop over the names and the cut at 500 bytes.\<close>

definition redact_names :: "string \<Rightarrow> string" where
  "redact_names text = foldl (\<lambda>t name. replace_all t name (name @ ''<redacted>'')) text session_names"

definition safe_text :: "string \<Rightarrow> string" where
  "safe_text text = (let t = redact_names text in if length t > 500 then take 500 t else t)"

definition session_missing_text :: string where
  "session_missing_text =
     [CHR 0xE5, CHR 0xB0, CHR 0x9A, CHR 0xE6, CHR 0x9C, CHR 0xAA, CHR 0xE5, CHR 0xAF, CHR 0xBC,
      CHR 0xE5, CHR 0x85, CHR 0xA5] @ '' iCloud session''"

definition dec_int :: "int \<Rightarrow> string" where
  "dec_int i = (if i < 0 then CHR ''-'' # dec (nat (- i)) else dec (nat i))"

fun err_text :: "go_error \<Rightarrow> string" where
  "err_text Canceled = ''context canceled''"
| "err_text DeadlineExceeded = ''context deadline exceeded''"
| "err_text SessionMissing = session_missing_text"
| "err_text (Upstream st body) = ''HTTP '' @ dec_int st @ '': '' @ body"
| "err_text (AppleErr p) = ''iCloud returned success=false: '' @ safe_text (ap_text p)"
| "err_text (Protocol p) = pe_message p"
| "err_text (Plain t) = t"
| "err_text (Wrapped pre e) = pre @ err_text e"
| "err_text (NetErr pre _ e) = pre @ err_text e"

definition safe_error_text :: "go_error \<Rightarrow> string" where
  "safe_error_text e = safe_text (err_text e)"

section \<open>Looking through the wrapping\<close>

fun is_canceled :: "go_error \<Rightarrow> bool" where
  "is_canceled Canceled = True"
| "is_canceled (Wrapped _ e) = is_canceled e"
| "is_canceled (NetErr _ _ e) = is_canceled e"
| "is_canceled _ = False"

fun is_deadline :: "go_error \<Rightarrow> bool" where
  "is_deadline DeadlineExceeded = True"
| "is_deadline (Wrapped _ e) = is_deadline e"
| "is_deadline (NetErr _ _ e) = is_deadline e"
| "is_deadline _ = False"

fun is_session_missing :: "go_error \<Rightarrow> bool" where
  "is_session_missing SessionMissing = True"
| "is_session_missing (Wrapped _ e) = is_session_missing e"
| "is_session_missing (NetErr _ _ e) = is_session_missing e"
| "is_session_missing _ = False"

fun as_upstream :: "go_error \<Rightarrow> (int \<times> string) option" where
  "as_upstream (Upstream st body) = Some (st, body)"
| "as_upstream (Wrapped _ e) = as_upstream e"
| "as_upstream (NetErr _ _ e) = as_upstream e"
| "as_upstream _ = None"

fun as_protocol :: "go_error \<Rightarrow> protocol_error option" where
  "as_protocol (Protocol p) = Some p"
| "as_protocol (Wrapped _ e) = as_protocol e"
| "as_protocol (NetErr _ _ e) = as_protocol e"
| "as_protocol _ = None"

fun as_apple :: "go_error \<Rightarrow> apple_payload option" where
  "as_apple (AppleErr p) = Some p"
| "as_apple (Wrapped _ e) = as_apple e"
| "as_apple (NetErr _ _ e) = as_apple e"
| "as_apple _ = None"

definition is_session_expired :: "go_error \<Rightarrow> bool" where
  "is_session_expired e =
     (case as_upstream e of
        Some (st, _) \<Rightarrow> st = 401 \<or> st = 403 \<or> st = 421
      | None \<Rightarrow> contains (err_text e) ''HTTP 401'' \<or> contains (err_text e) ''HTTP 403'' \<or>
                contains (err_text e) ''HTTP 421'')"

text \<open>\<open>AppleError.CodeAndRetryAfter\<close>; the duration is truncated to whole nanoseconds.\<close>

definition code_and_retry_after :: "apple_payload \<Rightarrow> string \<times> duration" where
  "code_and_retry_after p =
     (let code = (case ap_error_code p of None \<Rightarrow> ''<nil>'' | Some c \<Rightarrow> trim_space c);
          code = (if code = ''<nil>'' then ''ICLOUD_ERROR'' else code);
          nested = (case ap_retry_nested p of None \<Rightarrow> 0 | Some r \<Rightarrow> r);
          retry = (if nested \<le> 0 then (case ap_retry_top p of None \<Rightarrow> 0 | Some r \<Rightarrow> r) else nested)
      in (code, go_trunc (retry * 1000000000)))"

text \<open>\<open>errors.As\<close> to \<open>net.Error\<close>; the deadline error of the context package is one, too.\<close>

fun as_net :: "go_error \<Rightarrow> bool option" where
  "as_net (NetErr _ t _) = Some t"
| "as_net DeadlineExceeded = Some True"
| "as_net (Wrapped _ e) = as_net e"
| "as_net _ = None"

definition is_transient_network_error :: "go_error \<Rightarrow> bool" where
  "is_transient_network_error e =
     (case as_net e of
        Some t \<Rightarrow> t
      | None \<Rightarrow> list_ex (contains (to_lower (err_text e)))
          [''timeout'', ''timed out'', ''connection reset'', ''connection refused'', ''eof'', ''temporary''])"

definition apple_account_requires_reauth :: "go_error \<Rightarrow> bool" where
  "apple_account_requires_reauth e =
     (case as_protocol e of
        None \<Rightarrow> False
      | Some p \<Rightarrow> pe_code p \<in> {''APPLE_ACCOUNT_EXPIRED'', ''APPLE_ACCOUNT_MISMATCH'',
                                ''APPLE_ACCOUNT_SESSION_MISSING''})"

section \<open>Facts\<close>

lemma length_safe_text: "length (safe_text t) \<le> 500"
  by (simp add: safe_text_def Let_def)

lemma length_safe_error_text: "length (safe_error_text e) \<le> 500"
  by (simp add: safe_error_text_def length_safe_text)

lemma contains_append_left: "contains s p \<Longrightarrow> contains (u @ s) p"
  by (auto simp: contains_iff) (metis append.assoc)

lemma has_prefix_app: "has_prefix s p \<Longrightarrow> has_prefix (s @ t) p"
  by (auto simp: has_prefix_iff)

text \<open>What replacing keeps: a byte that is not the head of the pattern is copied.\<close>

lemma replace_all_skip: "old \<noteq> [] \<Longrightarrow> c \<noteq> hd old \<Longrightarrow> replace_all (c # s) old new = c # replace_all s old new"
  by (cases old) (auto simp: has_prefix_def)

lemma replace_all_free:
  "old \<noteq> [] \<Longrightarrow> hd old \<notin> set s \<Longrightarrow> replace_all s old new = s"
  by (induction s) (auto simp: replace_all_skip simp del: replace_all.simps(2))

lemma replace_all_head:
  assumes "old \<noteq> []"
  shows "replace_all (old @ s) old new = new @ replace_all s old new"
proof -
  obtain a l where old: "old = a # l" using assms by (cases old) auto
  have "has_prefix (a # l @ s) (a # l)" by (metis append_Cons has_prefix_append)
  then show ?thesis using old by simp
qed

end
