(* ===== verification/Storage.thy ===== *)
theory Storage
  imports GoBase
begin

text \<open>
  The JSON document store of \<open>internal/platform/storage/jsonfile.go\<close> and the contract its clients
  rely on. A document is an abstract value (its JSON encoding round-trips); a cleaned path is the
  list of its components. The locale \<open>document\<close> is the interface a worker has to its state file;
  it is interpreted on the store at one path and on \<open>'a cell\<close>, the small script-driven view of a
  single document that the worker theories use: the scripts say which of the coming reads and
  writes fail.
\<close>

section \<open>The contract\<close>

locale document =
  fixes rd :: "'s \<Rightarrow> 'd option \<times> 's"
    and wr :: "'d \<Rightarrow> 's \<Rightarrow> bool \<times> 's"
    and stored :: "'s \<Rightarrow> 'd option"
    and healthy :: "'s \<Rightarrow> bool"
  assumes rd_stored: "stored (snd (rd s)) = stored s"
    and rd_value: "fst (rd s) \<noteq> None \<Longrightarrow> fst (rd s) = stored s"
    and rd_healthy: "healthy s \<Longrightarrow> fst (rd s) = stored s"
    and rd_keeps: "healthy s \<Longrightarrow> healthy (snd (rd s))"
    and wr_done: "fst (wr d s) \<Longrightarrow> stored (snd (wr d s)) = Some d"
    and wr_failed: "\<not> fst (wr d s) \<Longrightarrow> stored (snd (wr d s)) = stored s"
    and wr_healthy: "healthy s \<Longrightarrow> fst (wr d s)"
    and wr_keeps: "healthy s \<Longrightarrow> healthy (snd (wr d s))"
begin

lemma read_after_write: "healthy s \<Longrightarrow> fst (rd (snd (wr d s))) = Some d"
  by (simp add: rd_healthy wr_keeps wr_healthy wr_done)

text \<open>A read-modify-write cycle with a default for an unreadable document.\<close>

definition update :: "'d \<Rightarrow> ('d \<Rightarrow> 'd) \<Rightarrow> 's \<Rightarrow> bool \<times> 's" where
  "update dflt f s =
     (let (d, s1) = rd s in wr (f (case d of None \<Rightarrow> dflt | Some x \<Rightarrow> x)) s1)"

lemma update_healthy:
  "healthy s \<Longrightarrow> stored (snd (update dflt f s)) = Some (f (case stored s of None \<Rightarrow> dflt | Some x \<Rightarrow> x))"
  by (simp add: update_def split_beta wr_done wr_healthy rd_keeps rd_healthy)

lemma update_keeps_healthy: "healthy s \<Longrightarrow> healthy (snd (update dflt f s))"
  by (simp add: update_def split_beta wr_keeps rd_keeps)

text \<open>An invariant of the documents survives every cycle, with failing reads and writes too, when
  the default satisfies it and the modification keeps it.\<close>

lemma update_invariant:
  assumes "\<And>d. stored s = Some d \<Longrightarrow> P d" and "P dflt" and "\<And>d. P d \<Longrightarrow> P (f d)"
    and "stored (snd (update dflt f s)) = Some d"
  shows "P d"
proof -
  obtain r s1 where rs: "rd s = (r, s1)" by (cases "rd s")
  let ?v = "f (case r of None \<Rightarrow> dflt | Some x \<Rightarrow> x)"
  have st: "stored s1 = stored s" using rd_stored [of s] rs by simp
  have v: "P ?v"
    using rd_value [of s] rs assms(1-3) by (auto split: option.splits)
  show "P d"
  proof (cases "fst (wr ?v s1)")
    case True
    then show ?thesis using wr_done [OF True] assms(4) v rs by (simp add: update_def)
  next
    case False
    then show ?thesis using wr_failed [OF False] assms(1,4) st rs by (simp add: update_def)
  qed
qed

end

section \<open>One document with scripted faults\<close>

record 'd cell =
  cell_doc :: "'d option"
  read_faults :: "bool list"
  write_faults :: "bool list"

definition cell_read :: "'d cell \<Rightarrow> 'd option \<times> 'd cell" where
  "cell_read c =
     (case read_faults c of
        [] \<Rightarrow> (cell_doc c, c)
      | f # fs \<Rightarrow> (if f then None else cell_doc c, c\<lparr>read_faults := fs\<rparr>))"

definition cell_write :: "'d \<Rightarrow> 'd cell \<Rightarrow> bool \<times> 'd cell" where
  "cell_write d c =
     (case write_faults c of
        [] \<Rightarrow> (True, c\<lparr>cell_doc := Some d\<rparr>)
      | f # fs \<Rightarrow> (if f then (False, c\<lparr>write_faults := fs\<rparr>)
                   else (True, c\<lparr>cell_doc := Some d, write_faults := fs\<rparr>)))"

definition cell_ok :: "'d cell \<Rightarrow> bool" where
  "cell_ok c \<longleftrightarrow> read_faults c = [] \<and> write_faults c = []"

lemma cell_read_ok: "cell_ok c \<Longrightarrow> cell_read c = (cell_doc c, c)"
  by (simp add: cell_ok_def cell_read_def)

lemma cell_write_ok: "cell_ok c \<Longrightarrow> cell_write d c = (True, c\<lparr>cell_doc := Some d\<rparr>)"
  by (simp add: cell_ok_def cell_write_def)

lemma cell_ok_update [simp]: "cell_ok (c\<lparr>cell_doc := d\<rparr>) = cell_ok c"
  by (simp add: cell_ok_def)

interpretation cell_store: document cell_read cell_write cell_doc cell_ok
  by unfold_locales
    (auto simp: cell_read_def cell_write_def cell_ok_def split: list.splits if_splits)

section \<open>The store of jsonfile.go\<close>

type_synonym path = "string list"

datatype 'd blob = Decodable 'd | Corrupt

datatype 'd read_result = Doc 'd | NotExist | ReadFailed

text \<open>
  What the operating system does to a write: everything succeeds, a step before the rename fails,
  the rename fails with another error than \<open>ErrExist\<close>, or it fails with \<open>ErrExist\<close> (Windows) and
  the fallback removes the target and renames again, each of which may fail.
\<close>

datatype file_fault = AllSteps | BeforeRename | RenameFails | RenameExists bool bool

record 'd storage =
  db_configured :: bool
  db_roots :: "path list"
  db_reachable :: bool
  db_rows :: "path \<rightharpoonup> 'd blob"
  disk :: "path \<rightharpoonup> 'd blob"
  disk_fault :: file_fault

fun find_root :: "path list \<Rightarrow> path \<Rightarrow> bool" where
  "find_root [] p = False"
| "find_root (r # rs) p =
     (if prefix r p \<and> \<not> prefix [''system''] (drop (length r) p) then True else find_root rs p)"

text \<open>\<open>stateDB\<close>: the database when one is configured and the path lies under a root, but not in
  its \<open>system\<close> directory.\<close>

definition state_db :: "'d storage \<Rightarrow> path \<Rightarrow> bool" where
  "state_db st p \<longleftrightarrow> find_root (db_roots st) p \<and> db_configured st"

definition configure_postgres :: "path list \<Rightarrow> 'd storage \<Rightarrow> 'd storage" where
  "configure_postgres roots st = st\<lparr>db_configured := True, db_roots := filter (\<lambda>r. r \<noteq> []) roots\<rparr>"

definition reset_postgres :: "'d storage \<Rightarrow> 'd storage" where
  "reset_postgres st = st\<lparr>db_configured := False, db_roots := []\<rparr>"

definition decode_blob :: "'d blob \<Rightarrow> 'd read_result" where
  "decode_blob b = (case b of Decodable d \<Rightarrow> Doc d | Corrupt \<Rightarrow> ReadFailed)"

definition read_json :: "path \<Rightarrow> 'd storage \<Rightarrow> 'd read_result \<times> 'd storage" where
  "read_json p st =
     (if state_db st p then
        (if \<not> db_reachable st then (ReadFailed, st)
         else case db_rows st p of
           Some b \<Rightarrow> (decode_blob b, st)
         | None \<Rightarrow>
             (case disk st p of
                None \<Rightarrow> (NotExist, st)
              | Some Corrupt \<Rightarrow> (ReadFailed, st)
              | Some (Decodable d) \<Rightarrow> (Doc d, st\<lparr>db_rows := (db_rows st)(p \<mapsto> Decodable d)\<rparr>)))
      else
        (case disk st p of None \<Rightarrow> (NotExist, st) | Some b \<Rightarrow> (decode_blob b, st)))"

definition write_json :: "path \<Rightarrow> 'd \<Rightarrow> 'd storage \<Rightarrow> bool \<times> 'd storage" where
  "write_json p d st =
     (if state_db st p then
        (if db_reachable st then (True, st\<lparr>db_rows := (db_rows st)(p \<mapsto> Decodable d)\<rparr>)
         else (False, st))
      else
        (case disk_fault st of
           AllSteps \<Rightarrow> (True, st\<lparr>disk := (disk st)(p \<mapsto> Decodable d)\<rparr>)
         | BeforeRename \<Rightarrow> (False, st)
         | RenameFails \<Rightarrow> (False, st)
         | RenameExists removed renamed \<Rightarrow>
             (if \<not> removed then (False, st)
              else if \<not> renamed then (False, st\<lparr>disk := (disk st)(p := None)\<rparr>)
              else (True, st\<lparr>disk := (disk st)(p \<mapsto> Decodable d)\<rparr>))))"

text \<open>The document a reader of the path gets, and the states without faults at that path.\<close>

definition doc_at :: "path \<Rightarrow> 'd storage \<Rightarrow> 'd option" where
  "doc_at p st =
     (let b = (if state_db st p then (case db_rows st p of Some b \<Rightarrow> Some b | None \<Rightarrow> disk st p)
               else disk st p)
      in case b of Some (Decodable d) \<Rightarrow> Some d | _ \<Rightarrow> None)"

definition read_opt :: "path \<Rightarrow> 'd storage \<Rightarrow> 'd option \<times> 'd storage" where
  "read_opt p st = (case read_json p st of (Doc d, st') \<Rightarrow> (Some d, st') | (_, st') \<Rightarrow> (None, st'))"

definition storage_ok :: "path \<Rightarrow> 'd storage \<Rightarrow> bool" where
  "storage_ok p st \<longleftrightarrow> (if state_db st p then db_reachable st else disk_fault st = AllSteps)"

text \<open>The platforms whose rename replaces the target.\<close>

definition posix :: "'d storage \<Rightarrow> bool" where
  "posix st \<longleftrightarrow> (\<forall>a b. disk_fault st \<noteq> RenameExists a b)"

lemma state_db_update [simp]:
  "state_db (st\<lparr>db_rows := r\<rparr>) p = state_db st p"
  "state_db (st\<lparr>disk := k\<rparr>) p = state_db st p"
  by (simp_all add: state_db_def)

lemma read_json_doc: "doc_at p (snd (read_json q st)) = doc_at p st"
  by (auto simp: read_json_def doc_at_def decode_blob_def split: option.splits blob.splits)

lemma read_opt_fst:
  "fst (read_opt p st) = (if state_db st p \<and> \<not> db_reachable st then None else doc_at p st)"
  by (auto simp: read_opt_def read_json_def doc_at_def decode_blob_def
      split: option.splits blob.splits prod.splits read_result.splits)

lemma snd_read_opt: "snd (read_opt p st) = snd (read_json p st)"
  by (auto simp: read_opt_def split: prod.splits read_result.splits)

lemma snd_read_json:
  "snd (read_json p st) = st \<or>
   (\<exists>d. snd (read_json p st) = st\<lparr>db_rows := (db_rows st)(p \<mapsto> Decodable d)\<rparr>)"
  by (auto simp: read_json_def split: option.splits blob.splits)

lemma storage_ok_read: "storage_ok p (snd (read_json q st)) = storage_ok p st"
  using snd_read_json [of q st] by (auto simp: storage_ok_def)

lemma write_json_done: "fst (write_json p d st) \<Longrightarrow> doc_at p (snd (write_json p d st)) = Some d"
  by (auto simp: write_json_def doc_at_def split: if_splits file_fault.splits)

lemma write_json_failed:
  "\<not> fst (write_json p d st) \<Longrightarrow> disk_fault st \<noteq> RenameExists True False \<Longrightarrow>
   doc_at q (snd (write_json p d st)) = doc_at q st"
  by (auto simp: write_json_def split: if_splits file_fault.splits)

lemma write_json_ok: "storage_ok p st \<Longrightarrow> fst (write_json p d st)"
  by (auto simp: write_json_def storage_ok_def)

lemma storage_ok_write: "storage_ok p st \<Longrightarrow> storage_ok p (snd (write_json p d st))"
  by (auto simp: write_json_def storage_ok_def split: file_fault.splits)

text \<open>Another path is not touched.\<close>

lemma write_json_frame: "q \<noteq> p \<Longrightarrow> doc_at q (snd (write_json p d st)) = doc_at q st"
  by (auto simp: write_json_def doc_at_def split: file_fault.splits option.splits)

text \<open>
  On a store that replaces files atomically the contract holds. The store's state is restricted to
  those platforms by running the operations on the pair of a store and the fault being one of the
  atomic ones.
\<close>

definition atomic_write :: "path \<Rightarrow> 'd \<Rightarrow> 'd storage \<Rightarrow> bool \<times> 'd storage" where
  "atomic_write p d st =
     write_json p d (case disk_fault st of RenameExists _ _ \<Rightarrow> st\<lparr>disk_fault := RenameFails\<rparr> | _ \<Rightarrow> st)"

lemma atomic_write_posix: "posix st \<Longrightarrow> atomic_write p d st = write_json p d st"
  by (auto simp: atomic_write_def posix_def split: file_fault.splits)

lemma doc_at_fault [simp]: "doc_at p (st\<lparr>disk_fault := f\<rparr>) = doc_at p st"
  by (auto simp: doc_at_def state_db_def split: option.splits)

lemma storage_ok_not_exists: "storage_ok p st \<Longrightarrow> \<not> state_db st p \<Longrightarrow> disk_fault st = AllSteps"
  by (simp add: storage_ok_def)

interpretation json_file: document "read_opt p" "atomic_write p" "doc_at p" "storage_ok p" for p
proof
  fix s :: "'d storage" and d :: 'd
  show "doc_at p (snd (read_opt p s)) = doc_at p s"
    by (simp add: snd_read_opt read_json_doc)
  show "fst (read_opt p s) \<noteq> None \<Longrightarrow> fst (read_opt p s) = doc_at p s"
    unfolding read_opt_fst by (meson)
  show "storage_ok p s \<Longrightarrow> fst (read_opt p s) = doc_at p s"
    by (auto simp: read_opt_fst storage_ok_def)
  show "storage_ok p s \<Longrightarrow> storage_ok p (snd (read_opt p s))"
    by (simp add: snd_read_opt storage_ok_read)
  show "fst (atomic_write p d s) \<Longrightarrow> doc_at p (snd (atomic_write p d s)) = Some d"
    by (simp add: atomic_write_def write_json_done)
  show "\<not> fst (atomic_write p d s) \<Longrightarrow> doc_at p (snd (atomic_write p d s)) = doc_at p s"
    by (auto simp: atomic_write_def write_json_failed split: file_fault.splits)
  show "storage_ok p s \<Longrightarrow> fst (atomic_write p d s)"
    by (auto simp: atomic_write_def write_json_def storage_ok_def state_db_def
        split: file_fault.splits if_splits)
  show "storage_ok p s \<Longrightarrow> storage_ok p (snd (atomic_write p d s))"
    by (auto simp: atomic_write_def write_json_def storage_ok_def state_db_def
        split: file_fault.splits if_splits)
qed

section \<open>What the store guarantees\<close>



text \<open>
  A document that exists only as a file of an earlier release is imported by its first read
  through the database and is served from the database from then on: later changes or the removal
  of the file are not seen by any reader.
\<close>

theorem legacy_import_once:
  assumes "state_db st p" and "db_reachable st" and "db_rows st p = None"
    and "disk st p = Some (Decodable d)"
  shows "fst (read_json p st) = Doc d \<and>
    (\<forall>k. fst (read_json p ((snd (read_json p st))\<lparr>disk := k\<rparr>)) = Doc d)"
  using assms by (simp add: read_json_def decode_blob_def)

theorem legacy_import_once_witness:
  "let st = \<lparr>db_configured = True, db_roots = [[''data'']], db_reachable = True, db_rows = Map.empty,
             disk = [[''data'', ''q''] \<mapsto> Decodable (1::nat)], disk_fault = AllSteps\<rparr>
   in fst (read_json [''data'', ''q''] ((snd (read_json [''data'', ''q''] st))\<lparr>disk := Map.empty\<rparr>)) = Doc 1"
  using legacy_import_once [of "\<lparr>db_configured = True, db_roots = [[''data'']], db_reachable = True,
      db_rows = Map.empty, disk = [[''data'', ''q''] \<mapsto> Decodable (1::nat)], disk_fault = AllSteps\<rparr>"
      "[''data'', ''q'']" 1]
  by (simp add: state_db_def)

text \<open>
  Files below the \<open>system\<close> directory of a state root are never kept in the database, whatever
  is configured: they stay on disk, where the host's update worker exchanges them.
\<close>

theorem system_files_stay_on_disk:
  assumes "db_roots st = [base]" and "prefix (base @ [''system'']) p"
  shows "\<not> state_db st p \<and> db_rows (snd (write_json p d st)) = db_rows st"
proof -
  obtain t where "p = (base @ [''system'']) @ t" using assms(2) by (auto simp: prefix_def)
  then have "\<not> state_db st p" using assms(1) by (simp add: state_db_def)
  then show ?thesis by (simp add: write_json_def split: file_fault.splits)
qed

theorem system_files_stay_on_disk_witness:
  "\<not> state_db (configure_postgres [[''data'']] \<lparr>db_configured = False, db_roots = [], db_reachable = True,
      db_rows = Map.empty, disk = (Map.empty :: path \<rightharpoonup> nat blob), disk_fault = AllSteps\<rparr>)
    [''data'', ''system'', ''update.json'']"
  using system_files_stay_on_disk [of "configure_postgres [[''data'']] \<lparr>db_configured = False,
      db_roots = [], db_reachable = True, db_rows = Map.empty, disk = (Map.empty :: path \<rightharpoonup> nat blob),
      disk_fault = AllSteps\<rparr>" "[''data'']" "[''data'', ''system'', ''update.json'']"]
  by (simp add: configure_postgres_def)

text \<open>
  The fallback for platforms whose rename refuses to replace a file is not atomic: when the old
  file has been removed and the second rename fails, the document is lost.
\<close>

theorem rename_fallback_loses:
  assumes "\<not> state_db st p" and "disk_fault st = RenameExists True False"
  shows "\<not> fst (write_json p d st) \<and> doc_at p (snd (write_json p d st)) = None"
  using assms by (simp add: write_json_def doc_at_def)

theorem rename_fallback_loses_witness:
  "doc_at [''a''] (snd (write_json [''a''] (7::nat)
     \<lparr>db_configured = False, db_roots = [], db_reachable = False, db_rows = Map.empty,
      disk = [[''a''] \<mapsto> Decodable 3], disk_fault = RenameExists True False\<rparr>)) = None"
  using rename_fallback_loses [of "\<lparr>db_configured = False, db_roots = [], db_reachable = False,
      db_rows = Map.empty, disk = [[''a''] \<mapsto> Decodable (3::nat)], disk_fault = RenameExists True False\<rparr>"
      "[''a'']" 7]
  by (simp add: state_db_def)

end
