(* ===== verification/Timers.thy ===== *)
theory Timers
  imports GoBase
begin

text \<open>
  The contract of a background worker's timer. The batch queue, the creation scheduler and the
  session refresher each have a \<open>nextWakeDelay\<close>: the idle poll interval when nothing is due, else
  the time to the next deadline, cut to at least a minimum delay and at most the idle interval.
  The locale states the four branches; what the workers need of them is proved once.
\<close>

definition float_duration :: "real \<Rightarrow> duration" where
  "float_duration seconds = go_trunc (seconds * 1000000000)"

lemma float_duration_le: "0 \<le> s \<Longrightarrow> seconds_of (float_duration s) \<le> s"
  using of_int_floor_le [of "s * 1000000000"]
  by (simp add: float_duration_def seconds_of_def go_trunc_def divide_le_eq)

lemma float_duration_gt: "0 \<le> s \<Longrightarrow> s - 1 / 1000000000 < seconds_of (float_duration s)"
proof -
  assume "0 \<le> s"
  then have "s * 1000000000 - 1 < of_int (float_duration s)"
    by (simp add: float_duration_def go_trunc_def)
  then show ?thesis by (simp add: seconds_of_def field_simps)
qed

lemma float_duration_mono: "0 \<le> a \<Longrightarrow> a \<le> b \<Longrightarrow> float_duration a \<le> float_duration b"
  by (simp add: float_duration_def go_trunc_def floor_mono)

lemma float_duration_seconds_of: "float_duration (seconds_of d) = d"
  by (simp add: float_duration_def seconds_of_def go_trunc_def)

locale wake_timer =
  fixes due :: "'s \<Rightarrow> unixtime option"
    and delay :: "'s \<Rightarrow> unixtime \<Rightarrow> duration"
    and idle :: duration
    and minimum :: duration
  assumes min_pos: "0 < minimum"
    and min_idle: "minimum \<le> idle"
    and delay_idle: "due s = None \<Longrightarrow> delay s now = idle"
    and delay_min: "due s = Some t \<Longrightarrow> t - now \<le> seconds_of minimum \<Longrightarrow> delay s now = minimum"
    and delay_max: "due s = Some t \<Longrightarrow> seconds_of minimum < t - now \<Longrightarrow>
                    seconds_of idle \<le> t - now \<Longrightarrow> delay s now = idle"
    and delay_until: "due s = Some t \<Longrightarrow> seconds_of minimum < t - now \<Longrightarrow>
                      t - now < seconds_of idle \<Longrightarrow> delay s now = float_duration (t - now)"
begin

lemma seconds_min_pos: "0 < seconds_of minimum"
  using min_pos by (simp add: seconds_of_def)

text \<open>The timer is never armed for less than the minimum nor for more than the idle interval.\<close>

lemma delay_bounds: "minimum \<le> delay s now \<and> delay s now \<le> idle"
proof (cases "due s")
  case None
  then show ?thesis using min_idle by (simp add: delay_idle)
next
  case (Some t)
  consider "t - now \<le> seconds_of minimum"
    | "seconds_of minimum < t - now" "seconds_of idle \<le> t - now"
    | "seconds_of minimum < t - now" "t - now < seconds_of idle" by linarith
  then show ?thesis
  proof cases
    case 1
    then show ?thesis using Some min_idle by (simp add: delay_min)
  next
    case 2
    then show ?thesis using Some min_idle by (simp add: delay_max)
  next
    case 3
    have "minimum \<le> float_duration (t - now)"
      using float_duration_mono [of "seconds_of minimum" "t - now"] 3 seconds_min_pos
      by (simp add: float_duration_seconds_of)
    moreover have "float_duration (t - now) \<le> idle"
      using float_duration_mono [of "t - now" "seconds_of idle"] 3 seconds_min_pos
      by (simp add: float_duration_seconds_of)
    ultimately show ?thesis using Some 3 by (simp add: delay_until)
  qed
qed

text \<open>A deadline is never overslept by more than the minimum delay.\<close>

lemma no_oversleep:
  assumes "due s = Some t"
  shows "now + seconds_of (delay s now) \<le> max t (now + seconds_of minimum)"
proof -
  consider "t - now \<le> seconds_of minimum"
    | "seconds_of minimum < t - now" "seconds_of idle \<le> t - now"
    | "seconds_of minimum < t - now" "t - now < seconds_of idle" by linarith
  then show ?thesis
  proof cases
    case 1
    then show ?thesis using assms by (simp add: delay_min)
  next
    case 2
    then show ?thesis using assms by (simp add: delay_max)
  next
    case 3
    then have "seconds_of (float_duration (t - now)) \<le> t - now"
      using float_duration_le [of "t - now"] seconds_min_pos by linarith
    then show ?thesis using assms 3 by (simp add: delay_until)
  qed
qed

text \<open>A worker that is not woken wakes by itself within the idle interval.\<close>

lemma wakes_within_idle: "seconds_of (delay s now) \<le> seconds_of idle"
  using delay_bounds by (simp add: seconds_of_def divide_right_mono)

end

end
