(* ===== verification/Queue.thy ===== *)
theory Queue
  imports GoErrors Storage Timers
begin

text \<open>
  The persisted batch queue of hidden-address creations, \<open>modules/mail/backend/alias_queue.go\<close>.
  The job document is a record in a scripted cell (\<^theory_text>\<open>Storage\<close>); every critical section under
  \<open>q.mu\<close> is one function on the queue state, with the clock read once. The goroutine \<open>run\<close> is a
  record with a program counter between those sections: what Apple answers is an argument of its
  steps, and any number of such runs may be under way, since \<open>runIfDue\<close> does not wait for an old
  one. The texts of the user-facing errors are not modelled, their codes are.
\<close>

section \<open>State\<close>

record queue_job =
  aq_job_id :: string
  aq_request_id :: string
  aq_account_dsid :: string
  aq_base_label :: string
  aq_note :: string
  aq_requested :: int
  aq_status :: string
  aq_current :: int
  aq_success :: int
  aq_created_at :: unixtime
  aq_updated_at :: unixtime
  aq_completed_at :: "unixtime option"
  aq_next_attempt_at :: "unixtime option"
  aq_last_error_code :: string
  aq_last_error :: string
  aq_candidate_hme :: string
  aq_candidate_state :: string
  aq_worker_running :: bool
  aq_server_now :: unixtime

definition blank_job :: queue_job where
  "blank_job = \<lparr>aq_job_id = [], aq_request_id = [], aq_account_dsid = [], aq_base_label = [],
     aq_note = [], aq_requested = 0, aq_status = [], aq_current = 0, aq_success = 0,
     aq_created_at = 0, aq_updated_at = 0, aq_completed_at = None, aq_next_attempt_at = None,
     aq_last_error_code = [], aq_last_error = [], aq_candidate_hme = [], aq_candidate_state = [],
     aq_worker_running = False, aq_server_now = 0\<rparr>"

definition idle_job :: queue_job where
  "idle_job = blank_job\<lparr>aq_status := ''idle''\<rparr>"

datatype queue_error = QueueError string bool | ClientError go_error | StoreError

text \<open>Where a run stands between two critical sections.\<close>

datatype run_pc =
    RBegin
  | RLoop
  | RGenerate int string
  | RMark string int string
  | RReserve string int string
  | RSleep

record alias_run =
  run_pc :: run_pc
  run_initial :: queue_job
  run_ctx_done :: bool

record alias_queue =
  q_cell :: "queue_job cell"
  q_worker_running :: bool
  q_wake :: bool
  q_cancel :: "nat option"
  q_runs :: "nat \<rightharpoonup> alias_run"

definition max_alias_queue_count :: int where "max_alias_queue_count = 99"
definition alias_queue_cooldown :: duration where "alias_queue_cooldown = 30 * minute"
definition alias_queue_retry :: duration where "alias_queue_retry = minute"
definition alias_queue_idle_poll :: duration where "alias_queue_idle_poll = 5 * minute"
definition alias_queue_minimum_wake :: duration where "alias_queue_minimum_wake = 100000000"

definition queue_load :: "alias_queue \<Rightarrow> queue_job \<times> alias_queue" where
  "queue_load q =
     (let (d, c) = cell_read (q_cell q)
      in (case d of None \<Rightarrow> idle_job | Some j \<Rightarrow> j, q\<lparr>q_cell := c\<rparr>))"

definition queue_save :: "queue_job \<Rightarrow> alias_queue \<Rightarrow> bool \<times> alias_queue" where
  "queue_save s q = (let (ok, c) = cell_write s (q_cell q) in (ok, q\<lparr>q_cell := c\<rparr>))"

definition signal_wake :: "alias_queue \<Rightarrow> alias_queue" where
  "signal_wake q = q\<lparr>q_wake := True\<rparr>"

text \<open>Calling a stored \<open>context.CancelFunc\<close>.\<close>

definition cancel_run :: "nat option \<Rightarrow> alias_queue \<Rightarrow> alias_queue" where
  "cancel_run c q =
     (case c of
        None \<Rightarrow> q
      | Some n \<Rightarrow> q\<lparr>q_runs := (q_runs q)(n := map_option (\<lambda>r. r\<lparr>run_ctx_done := True\<rparr>) (q_runs q n))\<rparr>)"

section \<open>Status and control\<close>

definition public_status :: "queue_job \<Rightarrow> queue_job" where
  "public_status s = s\<lparr>aq_account_dsid := []\<rparr>"

definition queue_status :: "unixtime \<Rightarrow> alias_queue \<Rightarrow> queue_job \<times> alias_queue" where
  "queue_status now q =
     (let (s, q1) = queue_load q;
          s = s\<lparr>aq_worker_running := q_worker_running q1, aq_server_now := now\<rparr>;
          s = (if aq_status s = [] then s\<lparr>aq_status := ''idle''\<rparr> else s)
      in (public_status s, q1))"

definition queue_active :: "unixtime \<Rightarrow> alias_queue \<Rightarrow> bool" where
  "queue_active now q =
     (let st = aq_status (fst (queue_status now q))
      in st \<noteq> [] \<and> st \<noteq> ''idle'' \<and> st \<noteq> ''completed'' \<and> st \<noteq> ''cancelled'')"

definition queue_account_dsid :: "alias_queue \<Rightarrow> string" where
  "queue_account_dsid q = aq_account_dsid (fst (queue_load q))"

definition restart_text :: string where
  "restart_text =
     [CHR 0xE6, CHR 0x9C, CHR 0x8D, CHR 0xE5, CHR 0x8A, CHR 0xA1, CHR 0xE5, CHR 0x9C, CHR 0xA8,
     CHR 0xE4, CHR 0xBF, CHR 0x9D, CHR 0xE7, CHR 0x95, CHR 0x99, CHR 0xE9, CHR 0x82, CHR 0xAE,
     CHR 0xE7, CHR 0xAE, CHR 0xB1, CHR 0xE6, CHR 0x97, CHR 0xB6, CHR 0xE9, CHR 0x87, CHR 0x8D,
     CHR 0xE5, CHR 0x90, CHR 0xAF, CHR 0xEF, CHR 0xBC, CHR 0x8C, CHR 0xE8, CHR 0xAF, CHR 0xB7,
     CHR 0xE7, CHR 0xA1, CHR 0xAE, CHR 0xE8, CHR 0xAE, CHR 0xA4, CHR 0xE7, CHR 0xBB, CHR 0x93,
     CHR 0xE6, CHR 0x9E, CHR 0x9C, CHR 0xE5, CHR 0x90, CHR 0x8E, CHR 0xE7, CHR 0xBB, CHR 0xA7,
     CHR 0xE7, CHR 0xBB, CHR 0xAD]"

definition queue_start :: "unixtime \<Rightarrow> alias_queue \<Rightarrow> alias_queue" where
  "queue_start now q =
     (if q_worker_running q then q
      else
        let q1 = q\<lparr>q_worker_running := True\<rparr>;
            (s, q2) = queue_load q1
        in if aq_status s = ''running'' then
             let s = s\<lparr>aq_updated_at := now\<rparr>;
                 s = (if aq_candidate_hme s \<noteq> [] \<and> aq_candidate_state s = ''reserving''
                      then s\<lparr>aq_status := ''needs_attention'',
                             aq_last_error_code := ''RESULT_CONFIRMATION_REQUIRED'',
                             aq_last_error := restart_text,
                             aq_next_attempt_at := None\<rparr>
                      else s\<lparr>aq_status := ''queued'', aq_next_attempt_at := Some now\<rparr>)
             in snd (queue_save s q2)
           else q2)"

definition queue_stop :: "alias_queue \<Rightarrow> alias_queue" where
  "queue_stop q =
     (if \<not> q_worker_running q then q
      else cancel_run (q_cancel q) (q\<lparr>q_worker_running := False\<rparr>))"

definition queue_due :: "queue_job \<Rightarrow> unixtime option" where
  "queue_due s =
     (if aq_job_id s = [] \<or> aq_status s \<notin> {''queued'', ''waiting_rate_limit'', ''waiting_retry''}
      then None else aq_next_attempt_at s)"

definition queue_wake_delay :: "queue_job \<Rightarrow> unixtime \<Rightarrow> duration" where
  "queue_wake_delay s now =
     (if aq_job_id s = [] \<or> aq_next_attempt_at s = None then alias_queue_idle_poll
      else if aq_status s = ''queued'' \<or> aq_status s = ''waiting_rate_limit'' \<or> aq_status s = ''waiting_retry'' then
        let secs = the (aq_next_attempt_at s) - now
        in if secs \<le> seconds_of alias_queue_minimum_wake then alias_queue_minimum_wake
           else if secs \<ge> seconds_of alias_queue_idle_poll then alias_queue_idle_poll
           else float_duration secs
      else alias_queue_idle_poll)"

definition enqueue ::
  "bool \<Rightarrow> (go_error + string) \<Rightarrow> string \<Rightarrow> unixtime \<Rightarrow> string \<Rightarrow> int \<Rightarrow> string \<Rightarrow> string \<Rightarrow>
   alias_queue \<Rightarrow> (queue_error + queue_job) \<times> alias_queue" where
  "enqueue blocked client new_id now base count note request_id q =
     (let base = trim_space base; note = trim_space note; request_id = trim_space request_id
      in if base = [] then (Inl (QueueError ''BAD_LABEL'' False), q)
         else if count < 1 \<or> count > max_alias_queue_count then (Inl (QueueError ''BAD_COUNT'' False), q)
         else if length base + 2 > 160 then (Inl (QueueError ''BAD_LABEL'' False), q)
         else if blocked then (Inl (QueueError ''CREATE_IN_PROGRESS'' True), q)
         else
           let (cur, q1) = queue_load q
           in if request_id \<noteq> [] \<and> aq_request_id cur = request_id then
                (if aq_base_label cur = base \<and> aq_requested cur = count \<and> aq_note cur = note
                 then (Inr (public_status cur), q1)
                 else (Inl (QueueError ''IDEMPOTENCY_CONFLICT'' True), q1))
              else if aq_job_id cur \<noteq> [] \<and> aq_status cur \<noteq> ''completed'' \<and> aq_status cur \<noteq> ''cancelled'' \<and>
                      aq_status cur \<noteq> ''idle''
              then (Inl (QueueError ''QUEUE_ACTIVE'' True), q1)
              else
                (case client of
                   Inl e \<Rightarrow> (Inl (ClientError e), q1)
                 | Inr dsid \<Rightarrow>
                     let job = blank_job\<lparr>aq_job_id := new_id, aq_request_id := request_id,
                                 aq_account_dsid := dsid, aq_base_label := base, aq_note := note,
                                 aq_requested := count, aq_status := ''queued'', aq_created_at := now,
                                 aq_updated_at := now, aq_next_attempt_at := Some now\<rparr>;
                         (ok, q2) = queue_save job q1
                     in if ok then (Inr (public_status job), signal_wake q2)
                        else (Inl StoreError, q2)))"

definition queue_control ::
  "unixtime \<Rightarrow> string \<Rightarrow> string \<Rightarrow> alias_queue \<Rightarrow> (queue_error + queue_job) \<times> alias_queue" where
  "queue_control now job_id target q =
     (let (s, q1) = queue_load q
      in if aq_job_id s = [] \<or> (job_id \<noteq> [] \<and> aq_job_id s \<noteq> job_id) \<or> aq_status s = ''completed'' \<or>
            aq_status s = ''cancelled''
         then (Inl (QueueError ''QUEUE_NOT_ACTIVE'' True), q1)
         else
           let s = s\<lparr>aq_status := target, aq_updated_at := now, aq_next_attempt_at := None\<rparr>;
               s = (if target = ''cancelled'' then s\<lparr>aq_completed_at := Some now\<rparr> else s);
               c = q_cancel q1;
               (ok, q2) = queue_save s (q1\<lparr>q_cancel := None\<rparr>)
           in if ok then (Inr (public_status s), cancel_run c q2) else (Inl StoreError, q2))"

definition queue_pause where
  "queue_pause now job_id = queue_control now job_id ''paused''"

definition queue_cancel where
  "queue_cancel now job_id = queue_control now job_id ''cancelled''"

subsection \<open>Resume: four critical sections\<close>

definition resume_begin ::
  "string \<Rightarrow> alias_queue \<Rightarrow> (queue_error + queue_job) \<times> alias_queue" where
  "resume_begin job_id q =
     (let (s, q1) = queue_load q
      in if aq_job_id s = [] \<or> (job_id \<noteq> [] \<and> aq_job_id s \<noteq> job_id) \<or>
            (aq_status s \<noteq> ''paused'' \<and> aq_status s \<noteq> ''needs_attention'')
         then (Inl (QueueError ''QUEUE_NOT_PAUSED'' True), q1)
         else (Inr s, q1))"

text \<open>The addresses are the \<open>hme\<close> values of the listing, as \<open>fmt.Sprint\<close> renders them.\<close>

definition resume_matched :: "queue_job \<Rightarrow> string list \<Rightarrow> bool" where
  "resume_matched s addresses \<longleftrightarrow>
     list_ex (\<lambda>a. equal_fold (trim_space a) (aq_candidate_hme s)) addresses"

definition resume_commit :: "bool \<Rightarrow> alias_queue \<Rightarrow> alias_queue" where
  "resume_commit matched q =
     (let (s, q1) = queue_load q;
          s = (if matched then s\<lparr>aq_current := aq_current s + 1, aq_success := aq_success s + 1\<rparr> else s);
          s = s\<lparr>aq_candidate_hme := [], aq_candidate_state := []\<rparr>
      in snd (queue_save s q1))"

definition resume_finish ::
  "unixtime \<Rightarrow> alias_queue \<Rightarrow> (queue_error + queue_job) \<times> alias_queue" where
  "resume_finish now q =
     (let (s, q1) = queue_load q
      in if aq_current s \<ge> aq_requested s then
           let s = s\<lparr>aq_status := ''completed'', aq_completed_at := Some now,
                     aq_next_attempt_at := None, aq_updated_at := now\<rparr>;
               (ok, q2) = queue_save s q1
           in (if ok then Inr (public_status s) else Inl StoreError, q2)
         else
           let s = s\<lparr>aq_status := ''queued'', aq_next_attempt_at := Some now, aq_updated_at := now\<rparr>;
               (ok, q2) = queue_save s q1
           in if ok then (Inr (public_status s), signal_wake q2) else (Inl StoreError, q2))"

definition queue_resume ::
  "(go_error + unit) \<Rightarrow> (go_error + string list) \<Rightarrow> unixtime \<Rightarrow> string \<Rightarrow> bool \<Rightarrow>
   alias_queue \<Rightarrow> (queue_error + queue_job) \<times> alias_queue" where
  "queue_resume client listing now job_id confirm_uncertain q =
     (case resume_begin job_id q of
        (Inl e, q1) \<Rightarrow> (Inl e, q1)
      | (Inr s, q1) \<Rightarrow>
          if aq_status s = ''needs_attention'' \<and> aq_candidate_hme s \<noteq> [] then
            (case client of
               Inl e \<Rightarrow> (Inl (ClientError e), q1)
             | Inr _ \<Rightarrow>
                 (case listing of
                    Inl e \<Rightarrow> (Inl (ClientError e), q1)
                  | Inr addresses \<Rightarrow>
                      let matched = resume_matched s addresses
                      in if \<not> matched \<and> \<not> confirm_uncertain
                         then (Inl (QueueError ''RESULT_CONFIRMATION_REQUIRED'' True), q1)
                         else resume_finish now (resume_commit matched q1)))
          else resume_finish now q1)"

section \<open>The worker\<close>

definition run_if_due :: "nat \<Rightarrow> unixtime \<Rightarrow> alias_queue \<Rightarrow> alias_queue" where
  "run_if_due n now q =
     (let (s, q1) = queue_load q
      in if aq_job_id s = [] \<or> aq_next_attempt_at s = None \<or> the (aq_next_attempt_at s) > now then q1
         else
           let s = (if aq_status s = ''waiting_rate_limit'' \<or> aq_status s = ''waiting_retry''
                    then s\<lparr>aq_status := ''queued''\<rparr> else s)
           in if aq_status s \<noteq> ''queued'' then q1
              else
                let s = s\<lparr>aq_status := ''running'', aq_updated_at := now\<rparr>;
                    (_, q2) = queue_save s (q1\<lparr>q_cancel := Some n\<rparr>)
                in q2\<lparr>q_runs := (q_runs q2)
                       (n \<mapsto> \<lparr>run_pc = RBegin, run_initial = s, run_ctx_done = False\<rparr>)\<rparr>)"

definition fail_with_delay ::
  "unixtime \<Rightarrow> string \<Rightarrow> go_error \<Rightarrow> string \<Rightarrow> string \<Rightarrow> duration \<Rightarrow> alias_queue \<Rightarrow> alias_queue" where
  "fail_with_delay now job_id e code state delay q =
     (let (s, q1) = queue_load q
      in if aq_job_id s \<noteq> job_id then q1
         else snd (queue_save
                (s\<lparr>aq_status := state, aq_last_error_code := code, aq_last_error := safe_error_text e,
                   aq_updated_at := now,
                   aq_next_attempt_at := (if delay > 0 then Some (now + seconds_of delay) else None)\<rparr>) q1))"

definition queue_fail where
  "queue_fail now job_id e code state = fail_with_delay now job_id e code state 0"

definition handle_create_error ::
  "unixtime \<Rightarrow> string \<Rightarrow> go_error \<Rightarrow> bool \<Rightarrow> alias_queue \<Rightarrow> alias_queue" where
  "handle_create_error now job_id e reserve_started q =
     (if contains (err_text e) ''-41015'' then
        fail_with_delay now job_id e ''RATE_LIMITED'' ''waiting_rate_limit'' alias_queue_cooldown q
      else if contains (err_text e) ''-41003'' then
        (let (s, q1) = queue_load q
         in snd (queue_save
              (s\<lparr>aq_candidate_hme := [], aq_candidate_state := [], aq_status := ''waiting_retry'',
                 aq_last_error_code := ''INVALID_CANDIDATE_RETRY'', aq_last_error := safe_error_text e,
                 aq_next_attempt_at := Some (now + 2), aq_updated_at := now\<rparr>) q1))
      else if is_session_expired e then queue_fail now job_id e ''SESSION_EXPIRED'' ''needs_attention'' q
      else if contains (to_lower (err_text e)) ''network'' \<or> contains (to_lower (err_text e)) ''timeout'' then
        (if reserve_started
         then queue_fail now job_id e ''RESULT_CONFIRMATION_REQUIRED'' ''needs_attention'' q
         else fail_with_delay now job_id e ''NETWORK_RETRY'' ''waiting_retry'' alias_queue_retry q)
      else queue_fail now job_id e ''CREATE_ERROR'' ''needs_attention'' q)"

text \<open>The deferred function of \<open>run\<close>.\<close>

definition end_run :: "nat \<Rightarrow> alias_queue \<Rightarrow> alias_queue" where
  "end_run n q = signal_wake (q\<lparr>q_cancel := None, q_runs := (q_runs q)(n := None)\<rparr>)"

definition goto :: "nat \<Rightarrow> alias_run \<Rightarrow> run_pc \<Rightarrow> alias_queue \<Rightarrow> alias_queue" where
  "goto n r pc q = q\<lparr>q_runs := (q_runs q)(n \<mapsto> r\<lparr>run_pc := pc\<rparr>)\<rparr>"

definition mismatch_error :: go_error where
  "mismatch_error = Plain
    ([CHR 0xE5, CHR 0xBD, CHR 0x93, CHR 0xE5, CHR 0x89, CHR 0x8D] @
     '' Session '' @
     [CHR 0xE4, CHR 0xB8, CHR 0x8E, CHR 0xE9, CHR 0x98, CHR 0x9F, CHR 0xE5, CHR 0x88,
      CHR 0x97, CHR 0xE7, CHR 0xBB, CHR 0x91, CHR 0xE5, CHR 0xAE, CHR 0x9A, CHR 0xE7,
      CHR 0x9A, CHR 0x84] @
     '' iCloud '' @
     [CHR 0xE8, CHR 0xB4, CHR 0xA6, CHR 0xE5, CHR 0x8F, CHR 0xB7, CHR 0xE4, CHR 0xB8,
      CHR 0x8D, CHR 0xE4, CHR 0xB8, CHR 0x80, CHR 0xE8, CHR 0x87, CHR 0xB4])"

text \<open>What the environment contributes to a step of a run.\<close>

datatype run_input =
    ClientAnswer "go_error + string"
  | GenerateAnswer "go_error + string"
  | ReserveAnswer "go_error + unit"
  | Tick
  | TimerFired

definition run_begin :: "nat \<Rightarrow> unixtime \<Rightarrow> alias_run \<Rightarrow> (go_error + string) \<Rightarrow> alias_queue \<Rightarrow> alias_queue" where
  "run_begin n now r client q =
     (let i = run_initial r
      in case client of
           Inl e \<Rightarrow> end_run n (queue_fail now (aq_job_id i) e ''SESSION_ERROR'' ''needs_attention'' q)
         | Inr dsid \<Rightarrow>
             if aq_account_dsid i \<noteq> [] \<and> dsid \<noteq> aq_account_dsid i
             then end_run n (queue_fail now (aq_job_id i) mismatch_error ''QUEUE_ACCOUNT_MISMATCH'' ''needs_attention'' q)
             else goto n r RLoop q)"

definition run_loop_head :: "nat \<Rightarrow> unixtime \<Rightarrow> alias_run \<Rightarrow> alias_queue \<Rightarrow> alias_queue" where
  "run_loop_head n now r q =
     (let i = run_initial r
      in if \<not> aq_current i < aq_requested i then end_run n q
         else if run_ctx_done r then
           (let (cur, q1) = queue_load q
            in if aq_status cur \<noteq> ''cancelled''
               then end_run n (queue_fail now (aq_job_id i) Canceled ''CANCELLED'' ''paused'' q1)
               else end_run n q1)
         else
           let index = aq_current i + 1;
               label = aq_base_label i @ dec02 (nat index)
           in if aq_candidate_hme i = [] then goto n r (RGenerate index label) q
              else goto n r (RMark (aq_candidate_hme i) index label) q)"

definition run_generated ::
  "nat \<Rightarrow> unixtime \<Rightarrow> alias_run \<Rightarrow> int \<Rightarrow> string \<Rightarrow> (go_error + string) \<Rightarrow> alias_queue \<Rightarrow> alias_queue" where
  "run_generated n now r index label answer q =
     (case answer of
        Inl e \<Rightarrow> (if is_canceled e then end_run n q
                  else end_run n (handle_create_error now (aq_job_id (run_initial r)) e False q))
      | Inr candidate \<Rightarrow>
          let (s, q1) = queue_load q;
              s = s\<lparr>aq_candidate_hme := candidate, aq_candidate_state := ''generated'', aq_updated_at := now\<rparr>;
              (_, q2) = queue_save s q1
          in goto n (r\<lparr>run_initial := s\<rparr>) (RMark candidate index label) q2)"

definition run_mark ::
  "nat \<Rightarrow> unixtime \<Rightarrow> alias_run \<Rightarrow> string \<Rightarrow> int \<Rightarrow> string \<Rightarrow> alias_queue \<Rightarrow> alias_queue" where
  "run_mark n now r candidate index label q =
     (let (s, q1) = queue_load q
      in if aq_status s = ''cancelled'' \<or> aq_status s = ''paused'' then end_run n q1
         else goto n r (RReserve candidate index label)
                (snd (queue_save (s\<lparr>aq_candidate_state := ''reserving'', aq_updated_at := now\<rparr>) q1)))"

definition run_reserved ::
  "nat \<Rightarrow> unixtime \<Rightarrow> alias_run \<Rightarrow> int \<Rightarrow> (go_error + unit) \<Rightarrow> alias_queue \<Rightarrow> alias_queue" where
  "run_reserved n now r index answer q =
     (case answer of
        Inl e \<Rightarrow> (if is_canceled e then end_run n q
                  else end_run n (handle_create_error now (aq_job_id (run_initial r)) e True q))
      | Inr _ \<Rightarrow>
          let (s, q1) = queue_load q;
              s = s\<lparr>aq_current := index, aq_success := index, aq_candidate_hme := [],
                    aq_candidate_state := [], aq_updated_at := now\<rparr>;
              s = (if index \<ge> aq_requested s
                   then s\<lparr>aq_completed_at := Some now, aq_next_attempt_at := None, aq_status := ''completed''\<rparr>
                   else s);
              (_, q2) = queue_save s q1;
              r' = r\<lparr>run_initial := s\<rparr>
          in if index < aq_requested s then goto n r' RSleep q2 else goto n r' RLoop q2)"

definition run_step :: "nat \<Rightarrow> unixtime \<Rightarrow> run_input \<Rightarrow> alias_queue \<Rightarrow> alias_queue" where
  "run_step n now input q =
     (case q_runs q n of
        None \<Rightarrow> q
      | Some r \<Rightarrow>
          (case (run_pc r, input) of
             (RBegin, ClientAnswer a) \<Rightarrow> run_begin n now r a q
           | (RLoop, Tick) \<Rightarrow> run_loop_head n now r q
           | (RGenerate index label, GenerateAnswer a) \<Rightarrow> run_generated n now r index label a q
           | (RMark candidate index label, Tick) \<Rightarrow> run_mark n now r candidate index label q
           | (RReserve candidate index label, ReserveAnswer a) \<Rightarrow> run_reserved n now r index a q
           | (RSleep, Tick) \<Rightarrow> (if run_ctx_done r then end_run n q else q)
           | (RSleep, TimerFired) \<Rightarrow> goto n r RLoop q
           | _ \<Rightarrow> q))"

end
