(* ===== verification/QueueProps.thy ===== *)
theory QueueProps
  imports Queue
begin

text \<open>
  What the batch queue guarantees. The first part is an invariant of the stored job under every
  interleaving of the control operations with any number of runs, failing reads and writes
  included; then the functional behaviour of a whole run, of the control operations and of the
  error classification; last, two interleavings the code does not protect itself against.
\<close>

section \<open>Load and save\<close>

lemma queue_load_cell:
  "queue_load q = (s, q1) \<Longrightarrow>
   (s = idle_job \<or> cell_doc (q_cell q) = Some s) \<and> cell_doc (q_cell q1) = cell_doc (q_cell q)"
  using cell_store.rd_value [of "q_cell q"] cell_store.rd_stored [of "q_cell q"]
  by (auto simp: queue_load_def split_beta split: option.splits)

lemma queue_save_cell:
  "cell_doc (q_cell (snd (queue_save s q))) = Some s \<or>
   cell_doc (q_cell (snd (queue_save s q))) = cell_doc (q_cell q)"
  using cell_store.wr_done [of s "q_cell q"] cell_store.wr_failed [of s "q_cell q"]
  by (auto simp: queue_save_def split_beta)

lemma queue_load_ok:
  "cell_ok (q_cell q) \<Longrightarrow>
   queue_load q = (case cell_doc (q_cell q) of None \<Rightarrow> idle_job | Some j \<Rightarrow> j, q)"
  by (simp add: queue_load_def cell_read_ok)

lemma queue_save_ok:
  "cell_ok (q_cell q) \<Longrightarrow> queue_save s q = (True, q\<lparr>q_cell := (q_cell q)\<lparr>cell_doc := Some s\<rparr>\<rparr>)"
  by (simp add: queue_save_def cell_write_ok)

lemma signal_wake_cell [simp]: "q_cell (signal_wake q) = q_cell q"
  by (simp add: signal_wake_def)

lemma cancel_run_cell [simp]: "q_cell (cancel_run c q) = q_cell q"
  by (simp add: cancel_run_def split: option.splits)

lemma end_run_cell [simp]: "q_cell (end_run n q) = q_cell q"
  by (simp add: end_run_def)

lemma goto_cell [simp]: "q_cell (goto n r pc q) = q_cell q"
  by (simp add: goto_def)

section \<open>The shape of the stored job\<close>

definition scheduled_status :: "string \<Rightarrow> bool" where
  "scheduled_status st \<longleftrightarrow>
     st = ''queued'' \<or> st = ''running'' \<or> st = ''waiting_rate_limit'' \<or> st = ''waiting_retry''"

definition parked_status :: "string \<Rightarrow> bool" where
  "parked_status st \<longleftrightarrow>
     st = ''idle'' \<or> st = ''paused'' \<or> st = ''needs_attention'' \<or> st = ''completed'' \<or> st = ''cancelled''"

text \<open>The status is one the code knows, and a job has a next attempt exactly when it is scheduled.\<close>

definition wf_pair :: "string \<Rightarrow> unixtime option \<Rightarrow> bool" where
  "wf_pair st nx \<longleftrightarrow> (scheduled_status st \<or> parked_status st) \<and> (nx \<noteq> None \<longleftrightarrow> scheduled_status st)"

definition job_wf :: "queue_job \<Rightarrow> bool" where
  "job_wf j \<longleftrightarrow> wf_pair (aq_status j) (aq_next_attempt_at j)"

definition queue_inv :: "alias_queue \<Rightarrow> bool" where
  "queue_inv q \<longleftrightarrow> (\<forall>j. cell_doc (q_cell q) = Some j \<longrightarrow> job_wf j)"

lemmas status_defs = scheduled_status_def parked_status_def

lemma wf_pair_simps [simp]:
  "wf_pair ''queued'' nx \<longleftrightarrow> nx \<noteq> None"
  "wf_pair ''running'' nx \<longleftrightarrow> nx \<noteq> None"
  "wf_pair ''waiting_rate_limit'' nx \<longleftrightarrow> nx \<noteq> None"
  "wf_pair ''waiting_retry'' nx \<longleftrightarrow> nx \<noteq> None"
  "wf_pair ''idle'' nx \<longleftrightarrow> nx = None"
  "wf_pair ''paused'' nx \<longleftrightarrow> nx = None"
  "wf_pair ''needs_attention'' nx \<longleftrightarrow> nx = None"
  "wf_pair ''completed'' nx \<longleftrightarrow> nx = None"
  "wf_pair ''cancelled'' nx \<longleftrightarrow> nx = None"
  by (simp_all add: wf_pair_def status_defs)

lemma job_wf_idle [simp]: "job_wf idle_job"
  by (simp add: job_wf_def idle_job_def blank_job_def)

lemma queue_inv_frames [simp]:
  "queue_inv (signal_wake q) = queue_inv q"
  "queue_inv (cancel_run c q) = queue_inv q"
  "queue_inv (end_run n q) = queue_inv q"
  "queue_inv (goto n r pc q) = queue_inv q"
  "queue_inv (q\<lparr>q_wake := b\<rparr>) = queue_inv q"
  "queue_inv (q\<lparr>q_worker_running := b\<rparr>) = queue_inv q"
  "queue_inv (q\<lparr>q_cancel := c\<rparr>) = queue_inv q"
  "queue_inv (q\<lparr>q_runs := rs\<rparr>) = queue_inv q"
  by (simp_all add: queue_inv_def)

lemma load_wf [simp]: "queue_inv q \<Longrightarrow> job_wf (fst (queue_load q))"
  and load_inv [simp]: "queue_inv q \<Longrightarrow> queue_inv (snd (queue_load q))"
  using queue_load_cell [of q "fst (queue_load q)" "snd (queue_load q)"]
  by (auto simp: queue_inv_def)

lemma save_inv [simp]: "queue_inv q \<Longrightarrow> job_wf s \<Longrightarrow> queue_inv (snd (queue_save s q))"
  using queue_save_cell [of s q] by (auto simp: queue_inv_def)

lemma load_pair: "queue_inv q \<Longrightarrow> wf_pair (aq_status (fst (queue_load q))) (aq_next_attempt_at (fst (queue_load q)))"
  using load_wf by (simp only: job_wf_def)

lemmas op_simps = Let_def split_beta job_wf_def load_pair

lemma start_inv [inv_intros]: "queue_inv q \<Longrightarrow> queue_inv (queue_start now q)"
  by (simp add: queue_start_def op_simps)

lemma stop_inv [inv_intros]: "queue_inv q \<Longrightarrow> queue_inv (queue_stop q)"
  by (simp add: queue_stop_def)

lemma enqueue_inv [inv_intros]:
  "queue_inv q \<Longrightarrow> queue_inv (snd (enqueue b cl i now base c note rid q))"
  by (simp add: enqueue_def op_simps split: sum.splits)

lemma control_inv:
  assumes "queue_inv q" and "wf_pair target None"
  shows "queue_inv (snd (queue_control now jid target q))"
  using assms by (simp add: queue_control_def op_simps)

lemma pause_inv [inv_intros]: "queue_inv q \<Longrightarrow> queue_inv (snd (queue_pause now jid q))"
  and cancel_inv [inv_intros]: "queue_inv q \<Longrightarrow> queue_inv (snd (queue_cancel now jid q))"
  by (simp_all add: queue_pause_def queue_cancel_def control_inv)

lemma resume_begin_inv [inv_intros]: "queue_inv q \<Longrightarrow> queue_inv (snd (resume_begin jid q))"
  by (simp add: resume_begin_def op_simps)

lemma resume_commit_inv [inv_intros]: "queue_inv q \<Longrightarrow> queue_inv (resume_commit m q)"
  by (simp add: resume_commit_def op_simps)

lemma resume_finish_inv [inv_intros]: "queue_inv q \<Longrightarrow> queue_inv (snd (resume_finish now q))"
  by (simp add: resume_finish_def op_simps)

lemma run_if_due_inv [inv_intros]: "queue_inv q \<Longrightarrow> queue_inv (run_if_due n now q)"
  by (simp add: run_if_due_def op_simps)

lemma fail_with_delay_inv:
  assumes "queue_inv q" and "wf_pair state (if delay > 0 then Some 0 else None)"
  shows "queue_inv (fail_with_delay now jid e code state delay q)"
  using assms by (auto simp: fail_with_delay_def op_simps wf_pair_def)

lemma queue_fail_inv:
  "queue_inv q \<Longrightarrow> wf_pair state None \<Longrightarrow> queue_inv (queue_fail now jid e code state q)"
  by (simp add: queue_fail_def fail_with_delay_inv)

lemma handle_create_error_inv: "queue_inv q \<Longrightarrow> queue_inv (handle_create_error now jid e rs q)"
  by (simp add: handle_create_error_def op_simps fail_with_delay_inv queue_fail_inv
      alias_queue_cooldown_def alias_queue_retry_def minute_def second_def)

lemma run_begin_inv: "queue_inv q \<Longrightarrow> queue_inv (run_begin n now r cl q)"
  by (simp add: run_begin_def Let_def queue_fail_inv split: sum.splits)

lemma run_loop_head_inv: "queue_inv q \<Longrightarrow> queue_inv (run_loop_head n now r q)"
  by (simp add: run_loop_head_def Let_def split_beta queue_fail_inv)

lemma run_generated_inv: "queue_inv q \<Longrightarrow> queue_inv (run_generated n now r i l a q)"
  by (simp add: run_generated_def op_simps handle_create_error_inv split: sum.splits)

lemma run_mark_inv: "queue_inv q \<Longrightarrow> queue_inv (run_mark n now r c i l q)"
  by (simp add: run_mark_def op_simps)

lemma run_reserved_inv: "queue_inv q \<Longrightarrow> queue_inv (run_reserved n now r i a q)"
  by (simp add: run_reserved_def op_simps handle_create_error_inv split: sum.splits)

lemma run_step_inv [inv_intros]: "queue_inv q \<Longrightarrow> queue_inv (run_step n now input q)"
  by (simp add: run_step_def run_begin_inv run_loop_head_inv run_generated_inv run_mark_inv
      run_reserved_inv split: option.splits run_pc.splits run_input.splits)

section \<open>Interleavings\<close>

inductive queue_step :: "alias_queue \<Rightarrow> alias_queue \<Rightarrow> bool" where
  step_start: "queue_step q (queue_start now q)"
| step_stop: "queue_step q (queue_stop q)"
| step_enqueue: "queue_step q (snd (enqueue b cl i now base c note rid q))"
| step_pause: "queue_step q (snd (queue_pause now jid q))"
| step_cancel: "queue_step q (snd (queue_cancel now jid q))"
| step_resume_begin: "queue_step q (snd (resume_begin jid q))"
| step_resume_commit: "queue_step q (resume_commit m q)"
| step_resume_finish: "queue_step q (snd (resume_finish now q))"
| step_due: "q_runs q n = None \<Longrightarrow> queue_step q (run_if_due n now q)"
| step_run: "queue_step q (run_step n now input q)"
| step_woken: "queue_step q (q\<lparr>q_wake := False\<rparr>)"

inductive queue_reach :: "alias_queue \<Rightarrow> alias_queue \<Rightarrow> bool" for q0 where
  reach_start: "queue_reach q0 q0"
| reach_step: "queue_reach q0 q \<Longrightarrow> queue_step q q' \<Longrightarrow> queue_reach q0 q'"

lemma queue_step_inv: "queue_step q q' \<Longrightarrow> queue_inv q \<Longrightarrow> queue_inv q'"
  by (induction rule: queue_step.induct) (auto intro: inv_intros)

lemma queue_reach_inv: "queue_reach q0 q \<Longrightarrow> queue_inv q0 \<Longrightarrow> queue_inv q"
  by (induction rule: queue_reach.induct) (auto intro: queue_step_inv)

text \<open>
  C1. In every state reachable from a well-formed one, whatever the order of control operations,
  worker steps, answers of Apple and failing reads and writes, the stored job has a known status
  and a next attempt exactly when its status is one the worker acts on: a paused, finished,
  cancelled or attention-seeking job is never picked up by \<open>runIfDue\<close>.
\<close>

theorem queue_reach_wf:
  assumes "queue_reach q0 q" and "\<And>j. cell_doc (q_cell q0) = Some j \<Longrightarrow> job_wf j"
    and "cell_doc (q_cell q) = Some j"
  shows "job_wf j"
proof -
  have "queue_inv q" using queue_reach_inv [OF assms(1)] assms(2) by (simp add: queue_inv_def)
  then show ?thesis using assms(3) by (simp add: queue_inv_def)
qed

section \<open>A whole run\<close>

text \<open>
  The environment that lets everything succeed, and the run it drives: the calls to
  \<open>ReserveAlias\<close> (candidate and label) in order, and the final state.
\<close>

fun good_answer :: "string \<Rightarrow> (int \<Rightarrow> string) \<Rightarrow> run_pc \<Rightarrow> run_input" where
  "good_answer dsid gen RBegin = ClientAnswer (Inr dsid)"
| "good_answer dsid gen RLoop = Tick"
| "good_answer dsid gen (RGenerate i l) = GenerateAnswer (Inr (gen i))"
| "good_answer dsid gen (RMark c i l) = Tick"
| "good_answer dsid gen (RReserve c i l) = ReserveAnswer (Inr ())"
| "good_answer dsid gen RSleep = TimerFired"

fun reserve_call :: "run_pc \<Rightarrow> (string \<times> string) list" where
  "reserve_call (RReserve c i l) = [(c, l)]"
| "reserve_call _ = []"

fun drive :: "nat \<Rightarrow> nat \<Rightarrow> unixtime \<Rightarrow> string \<Rightarrow> (int \<Rightarrow> string) \<Rightarrow> alias_queue \<Rightarrow>
    (string \<times> string) list \<times> alias_queue" where
  "drive 0 n now dsid gen q = ([], q)"
| "drive (Suc k) n now dsid gen q =
     (case q_runs q n of
        None \<Rightarrow> ([], q)
      | Some r \<Rightarrow>
          (let (tr, q') = drive k n now dsid gen (run_step n now (good_answer dsid gen (run_pc r)) q)
           in (reserve_call (run_pc r) @ tr, q')))"

text \<open>The state in which a run of job \<open>j\<close> is about to test its loop condition.\<close>

definition at_loop :: "nat \<Rightarrow> queue_job \<Rightarrow> alias_queue \<Rightarrow> bool" where
  "at_loop n j q \<longleftrightarrow> cell_ok (q_cell q) \<and> cell_doc (q_cell q) = Some j \<and>
     q_runs q n = Some \<lparr>run_pc = RLoop, run_initial = j, run_ctx_done = False\<rparr> \<and>
     aq_candidate_hme j = []"

lemmas step_simps = run_step_def run_loop_head_def run_generated_def run_mark_def run_reserved_def
  goto_def Let_def split_beta queue_load_def queue_save_def cell_read_ok cell_write_ok

text \<open>The call the round from \<open>j\<close> makes, and the job after a round that is not the last.\<close>

definition round_call :: "(int \<Rightarrow> string) \<Rightarrow> queue_job \<Rightarrow> string \<times> string" where
  "round_call gen j =
     (gen (aq_current j + 1), aq_base_label j @ dec02 (nat (aq_current j + 1)))"

definition advanced :: "unixtime \<Rightarrow> queue_job \<Rightarrow> queue_job" where
  "advanced now j = j\<lparr>aq_current := aq_current j + 1, aq_success := aq_current j + 1,
     aq_candidate_hme := [], aq_candidate_state := [], aq_updated_at := now\<rparr>"

definition loop_state :: "nat \<Rightarrow> queue_job \<Rightarrow> alias_queue \<Rightarrow> alias_queue" where
  "loop_state n j q = q\<lparr>q_cell := (q_cell q)\<lparr>cell_doc := Some j\<rparr>,
     q_runs := (q_runs q)(n \<mapsto> \<lparr>run_pc = RLoop, run_initial = j, run_ctx_done = False\<rparr>)\<rparr>"

lemma at_loop_state:
  "cell_ok (q_cell q) \<Longrightarrow> aq_candidate_hme j = [] \<Longrightarrow> at_loop n j (loop_state n j q)"
  by (simp add: at_loop_def loop_state_def)

lemma drive_round:
  assumes "at_loop n j q" and "aq_current j + 1 < aq_requested j" and "aq_status j = ''running''"
  shows "drive (5 + k) n now dsid gen q =
      (round_call gen j # fst (drive k n now dsid gen (loop_state n (advanced now j) q)),
       snd (drive k n now dsid gen (loop_state n (advanced now j) q)))"
proof -
  have five: "5 + k = Suc (Suc (Suc (Suc (Suc k))))" by simp
  show ?thesis
    using assms
    by (simp only: five drive.simps)
      (simp add: at_loop_def step_simps round_call_def advanced_def loop_state_def)
qed

lemma drive_last:
  assumes "at_loop n j q" and "aq_current j + 1 = aq_requested j"
    and "aq_status j = ''running''"
  shows "fst (drive (5 + k) n now dsid gen q) = [round_call gen j] \<and>
    q_runs (snd (drive (5 + k) n now dsid gen q)) n = None \<and>
    cell_doc (q_cell (snd (drive (5 + k) n now dsid gen q))) =
      Some ((advanced now j)\<lparr>aq_completed_at := Some now, aq_next_attempt_at := None,
              aq_status := ''completed''\<rparr>)"
proof -
  have five: "5 + k = Suc (Suc (Suc (Suc (Suc k))))" by simp
  have stop: "q_runs q n = None \<Longrightarrow> drive k n now dsid gen q = ([], q)" for q
    by (cases k) simp_all
  show ?thesis
    using assms
    by (simp only: five drive.simps)
      (simp add: at_loop_def step_simps round_call_def advanced_def stop end_run_def signal_wake_def)
qed


text \<open>The calls that are left for a job, in order.\<close>

definition remaining_calls :: "(int \<Rightarrow> string) \<Rightarrow> queue_job \<Rightarrow> (string \<times> string) list" where
  "remaining_calls gen j =
     map (\<lambda>i. (gen i, aq_base_label j @ dec02 (nat i))) [aq_current j + 1..aq_requested j]"

lemma remaining_calls_step:
  "aq_current j < aq_requested j \<Longrightarrow>
   remaining_calls gen j = round_call gen j # remaining_calls gen (advanced now j)"
  by (simp add: remaining_calls_def round_call_def advanced_def upto_rec1)

lemma drive_completes:
  assumes "at_loop n j q" and "aq_current j < aq_requested j" and "aq_status j = ''running''"
    and "m = nat (aq_requested j - aq_current j)"
  shows "fst (drive (5 * m) n now dsid gen q) = remaining_calls gen j \<and>
    q_runs (snd (drive (5 * m) n now dsid gen q)) n = None \<and>
    (\<exists>f. cell_doc (q_cell (snd (drive (5 * m) n now dsid gen q))) = Some f \<and>
      aq_status f = ''completed'' \<and> aq_success f = aq_requested j \<and> aq_current f = aq_requested j \<and>
      aq_job_id f = aq_job_id j \<and> aq_next_attempt_at f = None \<and> aq_completed_at f = Some now)"
  using assms
proof (induction m arbitrary: j q)
  case 0
  then show ?case by simp
next
  case (Suc m)
  show ?case
  proof (cases "aq_current j + 1 = aq_requested j")
    case True
    then have "m = 0" using Suc.prems(4) by simp
    moreover have "remaining_calls gen j = [round_call gen j]"
      using True by (simp add: remaining_calls_def round_call_def upto_rec1)
    ultimately show ?thesis
      using drive_last [OF Suc.prems(1) True Suc.prems(3), of 0 now dsid gen] True
      by (simp add: advanced_def)
  next
    case False
    let ?j = "advanced now j" and ?q = "loop_state n (advanced now j) q"
    have lt: "aq_current j + 1 < aq_requested j" using False Suc.prems(2) by simp
    have "at_loop n ?j ?q"
      using Suc.prems(1) by (intro at_loop_state) (simp_all add: at_loop_def advanced_def)
    moreover have "aq_current ?j < aq_requested ?j" "aq_status ?j = ''running''"
        "m = nat (aq_requested ?j - aq_current ?j)"
      using lt Suc.prems by (simp_all add: advanced_def)
    ultimately have IH: "fst (drive (5 * m) n now dsid gen ?q) = remaining_calls gen ?j \<and>
      q_runs (snd (drive (5 * m) n now dsid gen ?q)) n = None \<and>
      (\<exists>f. cell_doc (q_cell (snd (drive (5 * m) n now dsid gen ?q))) = Some f \<and>
        aq_status f = ''completed'' \<and> aq_success f = aq_requested ?j \<and> aq_current f = aq_requested ?j \<and>
        aq_job_id f = aq_job_id ?j \<and> aq_next_attempt_at f = None \<and> aq_completed_at f = Some now)"
      by (rule Suc.IH)
    have d: "drive (5 + 5 * m) n now dsid gen q =
        (round_call gen j # fst (drive (5 * m) n now dsid gen ?q), snd (drive (5 * m) n now dsid gen ?q))"
      by (rule drive_round [OF Suc.prems(1) lt Suc.prems(3), of "5 * m"])
    have kept: "aq_requested ?j = aq_requested j" "aq_job_id ?j = aq_job_id j"
      by (simp_all add: advanced_def)
    have five: "5 * Suc m = 5 + 5 * m" by simp
    show ?thesis
      unfolding five d using IH
      by (simp add: remaining_calls_step [OF Suc.prems(2), of gen now] kept)
  qed
qed

text \<open>
  C2. When the worker picks up a queued job and iCloud answers every request, one run reserves
  exactly the candidates generated for the positions that were left, in order, under the labels
  \<open>base01\<close>, \<open>base02\<close>, and so on, and then stores the job as completed with all its addresses counted.
  The number of steps is bounded by five per address and two more.
\<close>

theorem queue_run_completes:
  assumes "cell_ok (q_cell q)" and "cell_doc (q_cell q) = Some j"
    and "aq_job_id j \<noteq> []" and "aq_status j \<in> {''queued'', ''waiting_retry'', ''waiting_rate_limit''}"
    and "aq_next_attempt_at j = Some t" and "t \<le> now"
    and "aq_candidate_hme j = []" and "aq_current j < aq_requested j"
    and "aq_account_dsid j = [] \<or> aq_account_dsid j = dsid"
    and "m = nat (aq_requested j - aq_current j)"
  shows "fst (drive (Suc (5 * m)) n now dsid gen (run_if_due n now q)) = remaining_calls gen j \<and>
    (\<exists>f. cell_doc (q_cell (snd (drive (Suc (5 * m)) n now dsid gen (run_if_due n now q)))) = Some f \<and>
      aq_status f = ''completed'' \<and> aq_success f = aq_requested j \<and> aq_job_id f = aq_job_id j)"
proof -
  define s where "s = j\<lparr>aq_status := ''running'', aq_updated_at := now\<rparr>"
  define q1 where "q1 = run_if_due n now q"
  define q2 where "q2 = goto n \<lparr>run_pc = RBegin, run_initial = s, run_ctx_done = False\<rparr> RLoop q1"
  have q1: "cell_ok (q_cell q1)" "cell_doc (q_cell q1) = Some s"
      "q_runs q1 n = Some \<lparr>run_pc = RBegin, run_initial = s, run_ctx_done = False\<rparr>"
    using assms(1-6) by (auto simp: q1_def run_if_due_def s_def queue_load_ok queue_save_ok Let_def)
  have step: "run_step n now (ClientAnswer (Inr dsid)) q1 = q2"
    using q1 assms(9) by (auto simp: run_step_def run_begin_def q2_def s_def)
  have "at_loop n s q2"
    using q1 assms(7) by (simp add: at_loop_def q2_def s_def goto_def)
  then have "fst (drive (5 * m) n now dsid gen q2) = remaining_calls gen s \<and>
    q_runs (snd (drive (5 * m) n now dsid gen q2)) n = None \<and>
    (\<exists>f. cell_doc (q_cell (snd (drive (5 * m) n now dsid gen q2))) = Some f \<and>
      aq_status f = ''completed'' \<and> aq_success f = aq_requested s \<and> aq_current f = aq_requested s \<and>
      aq_job_id f = aq_job_id s \<and> aq_next_attempt_at f = None \<and> aq_completed_at f = Some now)"
    using assms(8,10) by (intro drive_completes) (simp_all add: s_def)
  moreover have "remaining_calls gen s = remaining_calls gen j"
    by (simp add: remaining_calls_def s_def)
  ultimately show ?thesis
    using q1(3) step by (auto simp: q1_def [symmetric] split_beta s_def)
qed

section \<open>Errors\<close>

text \<open>
  C3. A network failure or timeout of the confirming request leaves the job waiting for the user
  and unscheduled: since the address may exist, the worker never repeats the request by itself.
\<close>

theorem ambiguous_reserve_not_retried:
  assumes "cell_ok (q_cell q)" and "cell_doc (q_cell q) = Some j" and "aq_job_id j = jid"
    and "\<not> contains (err_text e) ''-41015''" and "\<not> contains (err_text e) ''-41003''"
    and "\<not> is_session_expired e"
    and "contains (to_lower (err_text e)) ''network'' \<or> contains (to_lower (err_text e)) ''timeout''"
  shows "\<exists>s. cell_doc (q_cell (handle_create_error now jid e True q)) = Some s \<and>
    aq_status s = ''needs_attention'' \<and> aq_last_error_code s = ''RESULT_CONFIRMATION_REQUIRED'' \<and>
    aq_candidate_hme s = aq_candidate_hme j \<and> aq_next_attempt_at s = None \<and>
    (\<forall>n later. q_runs (run_if_due n later (handle_create_error now jid e True q)) = q_runs q)"
  using assms
  by (auto simp: handle_create_error_def queue_fail_def fail_with_delay_def queue_load_ok queue_save_ok
      run_if_due_def)

section \<open>The timer\<close>

interpretation queue_timer: wake_timer queue_due queue_wake_delay alias_queue_idle_poll alias_queue_minimum_wake
  by unfold_locales
    (auto simp: queue_due_def queue_wake_delay_def alias_queue_idle_poll_def alias_queue_minimum_wake_def
      minute_def second_def Let_def split: if_splits)

text \<open>
  The queue worker's timer is armed for at least 100 milliseconds and at most five minutes,
  and never past the next attempt of a scheduled job by more than those 100 milliseconds.
\<close>

theorem queue_wake_delay_sound:
  "alias_queue_minimum_wake \<le> queue_wake_delay s now \<and> queue_wake_delay s now \<le> alias_queue_idle_poll \<and>
   (\<forall>t. queue_due s = Some t \<longrightarrow>
      now + seconds_of (queue_wake_delay s now) \<le> max t (now + seconds_of alias_queue_minimum_wake))"
  using queue_timer.delay_bounds [of s now] queue_timer.no_oversleep [of s _ now] by blast

section \<open>Idempotent submission\<close>

text \<open>
  A submission that is accepted under a request id can be repeated: the second call returns
  the same job, creates nothing and leaves the stored document alone; with other parameters it is
  refused as a conflict.
\<close>

theorem enqueue_idempotent:
  assumes "cell_ok (q_cell q)" and "trim_space rid \<noteq> []"
    and "enqueue False (Inr dsid) i now base c note rid q = (Inr job, q1)"
    and "aq_request_id (fst (queue_load q)) \<noteq> trim_space rid"
  shows "enqueue False cl i' later base c note rid q1 = (Inr job, q1) \<and>
    (trim_space base' \<noteq> [] \<and> length (trim_space base') + 2 \<le> 160 \<and> trim_space base' \<noteq> trim_space base \<longrightarrow>
     enqueue False cl i' later base' c note rid q1 = (Inl (QueueError ''IDEMPOTENCY_CONFLICT'' True), q1))"
  using assms
  by (auto simp: enqueue_def Let_def queue_load_ok queue_save_ok signal_wake_def public_status_def
      split: if_splits)

section \<open>Interleavings the code does not exclude\<close>

text \<open>
  Cancelling is not final: a run whose confirming request was under way when the job was
  cancelled, and whose answer is a rate limit, stores the job as waiting again, with a next
  attempt, so that the worker resumes a job the user has cancelled.
\<close>

theorem cancelled_job_revived:
  assumes "cell_ok (q_cell q)" and "cell_doc (q_cell q) = Some j" and "aq_job_id j \<noteq> []"
    and "aq_status j = ''running''" and "q_cancel q = Some n"
    and "q_runs q n = Some \<lparr>run_pc = RReserve cand idx label, run_initial = i, run_ctx_done = False\<rparr>"
    and "aq_job_id i = aq_job_id j"
    and "\<not> is_canceled e" and "contains (err_text e) ''-41015''"
  shows "let q1 = snd (queue_cancel now (aq_job_id j) q);
             q2 = run_step n later (ReserveAnswer (Inl e)) q1
         in map_option aq_status (cell_doc (q_cell q1)) = Some ''cancelled'' \<and>
            map_option aq_status (cell_doc (q_cell q2)) = Some ''waiting_rate_limit'' \<and>
            map_option aq_next_attempt_at (cell_doc (q_cell q2)) = Some (Some (later + 1800))"
  using assms
  by (simp add: Let_def queue_cancel_def queue_control_def queue_load_ok queue_save_ok cancel_run_def
      run_step_def run_reserved_def handle_create_error_def fail_with_delay_def alias_queue_cooldown_def
      minute_def second_def seconds_of_def)

text \<open>
  The success section of a run does not compare job ids: when the job it works for has been
  cancelled and another one submitted before the answer arrives, the new job is credited with the
  old job's position, and is even marked completed when that position reaches its size.
\<close>

theorem stale_run_credits_new_job:
  assumes "cell_ok (q_cell q)" and "cell_doc (q_cell q) = Some new"
    and "q_runs q n = Some \<lparr>run_pc = RReserve cand idx label, run_initial = old, run_ctx_done = True\<rparr>"
    and "aq_job_id old \<noteq> aq_job_id new" and "aq_requested new \<le> idx"
  shows "\<exists>s. cell_doc (q_cell (run_step n now (ReserveAnswer (Inr ())) q)) = Some s \<and>
    aq_job_id s = aq_job_id new \<and> aq_status s = ''completed'' \<and> aq_success s = idx"
  using assms
  by (simp add: run_step_def run_reserved_def Let_def queue_load_ok queue_save_ok)

section \<open>Witnesses\<close>

text \<open>A queue whose job of two addresses is due, on a cell without faults.\<close>

definition example_job :: queue_job where
  "example_job = blank_job\<lparr>aq_job_id := ''j1'', aq_account_dsid := ''d'', aq_base_label := ''box'',
     aq_requested := 2, aq_status := ''queued'', aq_next_attempt_at := Some 5\<rparr>"

definition example_queue :: alias_queue where
  "example_queue = \<lparr>q_cell = \<lparr>cell_doc = Some example_job, read_faults = [], write_faults = []\<rparr>,
     q_worker_running = True, q_wake = False, q_cancel = None, q_runs = Map.empty\<rparr>"

text \<open>The same queue while run 1 waits for the answer to its first confirming request.\<close>

definition reserving_queue :: "queue_job \<Rightarrow> alias_queue" where
  "reserving_queue stored = example_queue
     \<lparr>q_cell := \<lparr>cell_doc = Some stored, read_faults = [], write_faults = []\<rparr>, q_cancel := Some 1,
      q_runs := [1 \<mapsto> \<lparr>run_pc = RReserve ''c'' 1 ''box01'',
                      run_initial = example_job\<lparr>aq_status := ''running''\<rparr>, run_ctx_done = False\<rparr>]\<rparr>"

lemmas example_defs = example_job_def example_queue_def reserving_queue_def blank_job_def

lemma example_simps [simp]:
  "cell_ok (q_cell example_queue)" "cell_doc (q_cell example_queue) = Some example_job"
  "aq_job_id example_job = ''j1''" "aq_status example_job = ''queued''"
  "aq_next_attempt_at example_job = Some 5" "aq_requested example_job = 2" "aq_current example_job = 0"
  "aq_candidate_hme example_job = []" "aq_account_dsid example_job = ''d''" "aq_base_label example_job = ''box''"
  "cell_ok (q_cell (reserving_queue s))" "cell_doc (q_cell (reserving_queue s)) = Some s"
  "q_cancel (reserving_queue s) = Some 1"
  "q_runs (reserving_queue s) = [1 \<mapsto> \<lparr>run_pc = RReserve ''c'' 1 ''box01'',
     run_initial = example_job\<lparr>aq_status := ''running''\<rparr>, run_ctx_done = False\<rparr>]"
  by (simp_all add: example_defs cell_ok_def)

theorem queue_reach_wf_witness:
  "job_wf (the (cell_doc (q_cell (snd (queue_pause 7 ''j1'' (run_if_due 1 6 example_queue))))))"
proof -
  let ?q = "snd (queue_pause 7 ''j1'' (run_if_due 1 6 example_queue))"
  have r: "queue_reach example_queue ?q"
    by (intro reach_step [OF reach_step [OF reach_start step_due] step_pause])
      (simp add: example_queue_def)
  have d: "cell_doc (q_cell ?q) = Some (the (cell_doc (q_cell ?q)))"
    by (simp add: run_if_due_def queue_pause_def queue_control_def queue_load_ok queue_save_ok Let_def)
  show ?thesis
    by (rule queue_reach_wf [OF r _ d]) (auto simp: job_wf_def)
qed

theorem queue_run_completes_witness:
  "fst (drive 11 1 6 ''d'' (\<lambda>i. if i = 1 then ''a'' else ''b'') (run_if_due 1 6 example_queue)) =
     [(''a'', ''box01''), (''b'', ''box02'')]"
proof -
  have u: "[1..2] = [1, 2 :: int]" "dec02 (Suc 0) = ''01''" "dec02 2 = ''02''"
    by (simp add: upto_rec1) code_simp+
  show ?thesis
    using queue_run_completes [of example_queue example_job 5 6 "''d''" 2 1 "\<lambda>i. if i = 1 then ''a'' else ''b''"]
    by (simp add: remaining_calls_def u)
qed

theorem ambiguous_reserve_not_retried_witness:
  "\<exists>s. cell_doc (q_cell (handle_create_error 9 ''j1'' (Plain ''network timeout'') True example_queue)) = Some s \<and>
    aq_status s = ''needs_attention'' \<and> aq_next_attempt_at s = None"
proof -
  have "\<not> contains ''network timeout'' ''-41015''" "\<not> contains ''network timeout'' ''-41003''"
    "contains (to_lower ''network timeout'') ''network''" "\<not> is_session_expired (Plain ''network timeout'')"
    by code_simp+
  then show ?thesis
    using ambiguous_reserve_not_retried [of example_queue example_job "''j1''" "Plain ''network timeout''" 9]
    by auto
qed

theorem queue_wake_delay_sound_witness:
  "2 + seconds_of (queue_wake_delay example_job 2) \<le> max 5 (2 + seconds_of alias_queue_minimum_wake)"
  using queue_wake_delay_sound [of example_job 2] by (simp add: queue_due_def)

theorem enqueue_idempotent_witness:
  "let q = example_queue\<lparr>q_cell := \<lparr>cell_doc = None, read_faults = [], write_faults = []\<rparr>\<rparr>;
       (r, q1) = enqueue False (Inr ''d'') ''j1'' 5 '' box'' 2 [] ''k1'' q
   in enqueue False (Inl Canceled) ''j2'' 8 ''box '' 2 [] ''k1'' q1 = (r, q1) \<and>
      fst (enqueue False (Inl Canceled) ''j2'' 8 ''crate'' 2 [] ''k1'' q1) =
        Inl (QueueError ''IDEMPOTENCY_CONFLICT'' True)"
proof -
  let ?q = "example_queue\<lparr>q_cell := \<lparr>cell_doc = None, read_faults = [], write_faults = []\<rparr>\<rparr>"
  have ok: "cell_ok (q_cell ?q)" by (simp add: cell_ok_def)
  have t: "trim_space '' box'' = ''box''" "trim_space ''box '' = ''box''" "trim_space ''crate'' = ''crate''"
      "trim_space ''k1'' = ''k1''"
    by code_simp+
  define job where "job = blank_job\<lparr>aq_job_id := ''j1'', aq_request_id := ''k1'', aq_account_dsid := [],
    aq_base_label := ''box'', aq_requested := 2, aq_status := ''queued'', aq_created_at := 5,
    aq_updated_at := 5, aq_next_attempt_at := Some 5\<rparr>"
  define q1 where "q1 = snd (enqueue False (Inr ''d'') ''j1'' 5 '' box'' 2 [] ''k1'' ?q)"
  have e: "enqueue False (Inr ''d'') ''j1'' 5 '' box'' 2 [] ''k1'' ?q = (Inr job, q1)"
    by (simp add: q1_def enqueue_def t queue_load_ok queue_save_ok cell_ok_def max_alias_queue_count_def idle_job_def
        blank_job_def job_def public_status_def Let_def)
  have f: "aq_request_id (fst (queue_load ?q)) \<noteq> ''k1''"
    by (simp add: queue_load_ok cell_ok_def idle_job_def blank_job_def)
  note i = enqueue_idempotent [OF ok _ e, unfolded t, OF _ f]
  have "enqueue False (Inl Canceled) ''j2'' 8 ''box '' 2 [] ''k1'' q1 = enqueue False (Inl Canceled) ''j2'' 8 '' box'' 2 [] ''k1'' q1"
    by (simp add: enqueue_def t)
  then show ?thesis
    using i [of "Inl Canceled" "''j2''" 8 "''crate''"] by (simp add: e t Let_def)
qed

theorem cancelled_job_revived_witness:
  "map_option aq_status (cell_doc (q_cell (run_step 1 9 (ReserveAnswer (Inl (Plain ''-41015'')))
     (snd (queue_cancel 8 ''j1'' (reserving_queue (example_job\<lparr>aq_status := ''running''\<rparr>)))))))
   = Some ''waiting_rate_limit''"
proof -
  let ?j = "example_job\<lparr>aq_status := ''running''\<rparr>"
  have "contains ''-41015'' ''-41015''" by code_simp
  then show ?thesis
    using cancelled_job_revived [of "reserving_queue ?j" ?j 1 "''c''" 1 "''box01''" ?j "Plain ''-41015''" 8 9]
    by (simp add: Let_def)
qed

definition stale_queue :: alias_queue where
  "stale_queue = (reserving_queue (example_job\<lparr>aq_job_id := ''j2'', aq_requested := 1\<rparr>))
     \<lparr>q_runs := [1 \<mapsto> \<lparr>run_pc = RReserve ''c'' 1 ''box01'', run_initial = example_job, run_ctx_done = True\<rparr>]\<rparr>"

theorem stale_run_credits_new_job_witness:
  "\<exists>s. cell_doc (q_cell (run_step 1 9 (ReserveAnswer (Inr ())) stale_queue)) = Some s \<and>
    aq_job_id s = ''j2'' \<and> aq_status s = ''completed''"
  using stale_run_credits_new_job [of stale_queue "example_job\<lparr>aq_job_id := ''j2'', aq_requested := 1\<rparr>"
      1 "''c''" 1 "''box01''" example_job 9]
  by (auto simp: stale_queue_def)

end
