(* ===== verification/Messages.thy ===== *)
theory Messages
  imports Main
begin

text \<open>
  User-facing texts that the code stores, compares or builds errors from, as their UTF-8 bytes.
  Each is followed by its meaning in English.
\<close>

text \<open>The Apple HTTP client is not initialised.\<close>

definition msg_http_not_ready :: string where
  "msg_http_not_ready =
    ''Apple HTTP '' @
    [CHR 0xE5, CHR 0xAE, CHR 0xA2, CHR 0xE6, CHR 0x88, CHR 0xB7, CHR 0xE7, CHR 0xAB,
      CHR 0xAF, CHR 0xE6, CHR 0x9C, CHR 0xAA, CHR 0xE5, CHR 0x88, CHR 0x9D, CHR 0xE5,
      CHR 0xA7, CHR 0x8B, CHR 0xE5, CHR 0x8C, CHR 0x96]"

text \<open>The retries of the Apple request are exhausted.\<close>

definition msg_retries_exhausted :: string where
  "msg_retries_exhausted =
    ''Apple '' @
    [CHR 0xE8, CHR 0xAF, CHR 0xB7, CHR 0xE6, CHR 0xB1, CHR 0x82, CHR 0xE9, CHR 0x87,
      CHR 0x8D, CHR 0xE8, CHR 0xAF, CHR 0x95, CHR 0xE6, CHR 0xAC, CHR 0xA1, CHR 0xE6,
      CHR 0x95, CHR 0xB0, CHR 0xE5, CHR 0xB7, CHR 0xB2, CHR 0xE7, CHR 0x94, CHR 0xA8,
      CHR 0xE5, CHR 0xB0, CHR 0xBD]"

text \<open>Not logged in to Apple Account.\<close>

definition msg_not_logged_in :: string where
  "msg_not_logged_in =
    [CHR 0xE5, CHR 0xB0, CHR 0x9A, CHR 0xE6, CHR 0x9C, CHR 0xAA, CHR 0xE7, CHR 0x99,
      CHR 0xBB, CHR 0xE5, CHR 0xBD, CHR 0x95] @
    '' Apple Account''"

text \<open>The Apple Account login has expired, log in again.\<close>

definition msg_account_expired :: string where
  "msg_account_expired =
    ''Apple Account '' @
    [CHR 0xE7, CHR 0x99, CHR 0xBB, CHR 0xE5, CHR 0xBD, CHR 0x95, CHR 0xE6, CHR 0x80,
      CHR 0x81, CHR 0xE5, CHR 0xB7, CHR 0xB2, CHR 0xE5, CHR 0xA4, CHR 0xB1, CHR 0xE6,
      CHR 0x95, CHR 0x88, CHR 0xEF, CHR 0xBC, CHR 0x8C, CHR 0xE8, CHR 0xAF, CHR 0xB7,
      CHR 0xE9, CHR 0x87, CHR 0x8D, CHR 0xE6, CHR 0x96, CHR 0xB0, CHR 0xE7, CHR 0x99,
      CHR 0xBB, CHR 0xE5, CHR 0xBD, CHR 0x95]"

text \<open>The Apple Account login has expired, followed by the error.\<close>

definition msg_account_expired_prefix :: string where
  "msg_account_expired_prefix =
    ''Apple Account '' @
    [CHR 0xE7, CHR 0x99, CHR 0xBB, CHR 0xE5, CHR 0xBD, CHR 0x95, CHR 0xE6, CHR 0x80,
      CHR 0x81, CHR 0xE5, CHR 0xB7, CHR 0xB2, CHR 0xE5, CHR 0xA4, CHR 0xB1, CHR 0xE6,
      CHR 0x95, CHR 0x88, CHR 0xEF, CHR 0xBC, CHR 0x9A]"

text \<open>Apple Account is temporarily unavailable and retried in the background.\<close>

definition msg_account_degraded :: string where
  "msg_account_degraded =
    ''Apple Account '' @
    [CHR 0xE6, CHR 0x9A, CHR 0x82, CHR 0xE6, CHR 0x97, CHR 0xB6, CHR 0xE4, CHR 0xB8,
      CHR 0x8D, CHR 0xE5, CHR 0x8F, CHR 0xAF, CHR 0xE7, CHR 0x94, CHR 0xA8, CHR 0xEF,
      CHR 0xBC, CHR 0x8C, CHR 0xE5, CHR 0x90, CHR 0x8E, CHR 0xE5, CHR 0x8F, CHR 0xB0,
      CHR 0xE6, CHR 0xAD, CHR 0xA3, CHR 0xE5, CHR 0x9C, CHR 0xA8, CHR 0xE9, CHR 0x87,
      CHR 0x8D, CHR 0xE8, CHR 0xAF, CHR 0x95]"

text \<open>The Apple Account login is healthy.\<close>

definition msg_account_healthy :: string where
  "msg_account_healthy =
    ''Apple Account '' @
    [CHR 0xE7, CHR 0x99, CHR 0xBB, CHR 0xE5, CHR 0xBD, CHR 0x95, CHR 0xE6, CHR 0x80,
      CHR 0x81, CHR 0xE6, CHR 0xAD, CHR 0xA3, CHR 0xE5, CHR 0xB8, CHR 0xB8]"

text \<open>A request failed temporarily and is retried, followed by the error.\<close>

definition msg_request_failed_prefix :: string where
  "msg_request_failed_prefix =
    ''Apple Account '' @
    [CHR 0xE8, CHR 0xAF, CHR 0xB7, CHR 0xE6, CHR 0xB1, CHR 0x82, CHR 0xE4, CHR 0xB8,
      CHR 0xB4, CHR 0xE6, CHR 0x97, CHR 0xB6, CHR 0xE5, CHR 0xA4, CHR 0xB1, CHR 0xE8,
      CHR 0xB4, CHR 0xA5, CHR 0xEF, CHR 0xBC, CHR 0x8C, CHR 0xE5, CHR 0xB0, CHR 0x86,
      CHR 0xE8, CHR 0x87, CHR 0xAA, CHR 0xE5, CHR 0x8A, CHR 0xA8, CHR 0xE9, CHR 0x87,
      CHR 0x8D, CHR 0xE8, CHR 0xAF, CHR 0x95, CHR 0xEF, CHR 0xBC, CHR 0x9A]"

text \<open>Keeping alive failed temporarily, followed by the error.\<close>

definition msg_keepalive_failed_prefix :: string where
  "msg_keepalive_failed_prefix =
    ''Apple Account '' @
    [CHR 0xE4, CHR 0xBF, CHR 0x9D, CHR 0xE6, CHR 0xB4, CHR 0xBB, CHR 0xE4, CHR 0xB8,
      CHR 0xB4, CHR 0xE6, CHR 0x97, CHR 0xB6, CHR 0xE5, CHR 0xA4, CHR 0xB1, CHR 0xE8,
      CHR 0xB4, CHR 0xA5, CHR 0xEF, CHR 0xBC, CHR 0x8C, CHR 0xE5, CHR 0xB0, CHR 0x86,
      CHR 0xE8, CHR 0x87, CHR 0xAA, CHR 0xE5, CHR 0x8A, CHR 0xA8, CHR 0xE9, CHR 0x87,
      CHR 0x8D, CHR 0xE8, CHR 0xAF, CHR 0x95, CHR 0xEF, CHR 0xBC, CHR 0x9A]"

text \<open>Apple returned an HTML error page.\<close>

definition msg_html_error :: string where
  "msg_html_error =
    ''Apple '' @
    [CHR 0xE8, CHR 0xBF, CHR 0x94, CHR 0xE5, CHR 0x9B, CHR 0x9E, CHR 0xE4, CHR 0xBA,
      CHR 0x86] @
    '' HTML '' @
    [CHR 0xE9, CHR 0x94, CHR 0x99, CHR 0xE8, CHR 0xAF, CHR 0xAF, CHR 0xE9, CHR 0xA1,
      CHR 0xB5]"

text \<open>Apple returned an error response that is not JSON.\<close>

definition msg_not_json_error :: string where
  "msg_not_json_error =
    ''Apple '' @
    [CHR 0xE8, CHR 0xBF, CHR 0x94, CHR 0xE5, CHR 0x9B, CHR 0x9E, CHR 0xE4, CHR 0xBA,
      CHR 0x86, CHR 0xE9, CHR 0x9D, CHR 0x9E] @
    '' JSON '' @
    [CHR 0xE9, CHR 0x94, CHR 0x99, CHR 0xE8, CHR 0xAF, CHR 0xAF, CHR 0xE5, CHR 0x93,
      CHR 0x8D, CHR 0xE5, CHR 0xBA, CHR 0x94]"

text \<open>Apple Account interface HTTP, followed by the status.\<close>

definition msg_interface_http :: string where
  "msg_interface_http =
    ''Apple Account '' @
    [CHR 0xE6, CHR 0x8E, CHR 0xA5, CHR 0xE5, CHR 0x8F, CHR 0xA3] @
    '' HTTP ''"

text \<open>Opening full-width parenthesis.\<close>

definition msg_open_paren :: string where
  "msg_open_paren =
    [CHR 0xEF, CHR 0xBC, CHR 0x88]"

text \<open>Closing full-width parenthesis.\<close>

definition msg_close_paren :: string where
  "msg_close_paren =
    [CHR 0xEF, CHR 0xBC, CHR 0x89]"

text \<open>Full-width colon.\<close>

definition msg_colon :: string where
  "msg_colon =
    [CHR 0xEF, CHR 0xBC, CHR 0x9A]"

text \<open>The current creation limit of Apple Account is reached.\<close>

definition msg_limit :: string where
  "msg_limit =
    ''Apple Account '' @
    [CHR 0xE5, CHR 0xB7, CHR 0xB2, CHR 0xE8, CHR 0xBE, CHR 0xBE, CHR 0xE5, CHR 0x88,
      CHR 0xB0, CHR 0xE5, CHR 0xBD, CHR 0x93, CHR 0xE5, CHR 0x89, CHR 0x8D, CHR 0xE5,
      CHR 0x88, CHR 0x9B, CHR 0xE5, CHR 0xBB, CHR 0xBA, CHR 0xE9, CHR 0x99, CHR 0x90,
      CHR 0xE9, CHR 0xA2, CHR 0x9D, CHR 0xEF, CHR 0xBC, CHR 0x8C, CHR 0xE8, CHR 0xAF,
      CHR 0xB7, CHR 0xE7, CHR 0xA8, CHR 0x8D, CHR 0xE5, CHR 0x90, CHR 0x8E, CHR 0xE5,
      CHR 0x86, CHR 0x8D, CHR 0xE8, CHR 0xAF, CHR 0x95]"

text \<open>Apple Account returned no candidate address.\<close>

definition msg_generate_empty :: string where
  "msg_generate_empty =
    ''Apple Account '' @
    [CHR 0xE6, CHR 0x9C, CHR 0xAA, CHR 0xE8, CHR 0xBF, CHR 0x94, CHR 0xE5, CHR 0x9B,
      CHR 0x9E, CHR 0xE5, CHR 0x80, CHR 0x99, CHR 0xE9, CHR 0x80, CHR 0x89, CHR 0xE9,
      CHR 0x9A, CHR 0x90, CHR 0xE8, CHR 0x97, CHR 0x8F, CHR 0xE9, CHR 0x82, CHR 0xAE,
      CHR 0xE7, CHR 0xAE, CHR 0xB1]"

text \<open>Refreshing the management token.\<close>

definition stage_token :: string where
  "stage_token =
    [CHR 0xE5, CHR 0x88, CHR 0xB7, CHR 0xE6, CHR 0x96, CHR 0xB0, CHR 0xE7, CHR 0xAE,
      CHR 0xA1, CHR 0xE7, CHR 0x90, CHR 0x86] @
    '' token''"

text \<open>Reading the management entry.\<close>

definition stage_manage :: string where
  "stage_manage =
    [CHR 0xE8, CHR 0xAF, CHR 0xBB, CHR 0xE5, CHR 0x8F, CHR 0x96, CHR 0xE7, CHR 0xAE,
      CHR 0xA1, CHR 0xE7, CHR 0x90, CHR 0x86, CHR 0xE5, CHR 0x85, CHR 0xA5, CHR 0xE5,
      CHR 0x8F, CHR 0xA3]"

text \<open>Opening the privacy page.\<close>

definition stage_privacy :: string where
  "stage_privacy =
    [CHR 0xE6, CHR 0x89, CHR 0x93, CHR 0xE5, CHR 0xBC, CHR 0x80, CHR 0xE9, CHR 0x9A,
      CHR 0x90, CHR 0xE7, CHR 0xA7, CHR 0x81, CHR 0xE9, CHR 0xA1, CHR 0xB5, CHR 0xE9,
      CHR 0x9D, CHR 0xA2]"

text \<open>Warming up the portal.\<close>

definition stage_portal :: string where
  "stage_portal =
    [CHR 0xE9, CHR 0xA2, CHR 0x84, CHR 0xE7, CHR 0x83, CHR 0xAD, CHR 0xE9, CHR 0x97,
      CHR 0xA8, CHR 0xE6, CHR 0x88, CHR 0xB7]"

text \<open>Reading the forwarding mailbox.\<close>

definition stage_forward :: string where
  "stage_forward =
    [CHR 0xE8, CHR 0xAF, CHR 0xBB, CHR 0xE5, CHR 0x8F, CHR 0x96, CHR 0xE8, CHR 0xBD,
      CHR 0xAC, CHR 0xE5, CHR 0x8F, CHR 0x91, CHR 0xE9, CHR 0x82, CHR 0xAE, CHR 0xE7,
      CHR 0xAE, CHR 0xB1]"

text \<open>Reading the list of hidden addresses.\<close>

definition stage_list :: string where
  "stage_list =
    [CHR 0xE8, CHR 0xAF, CHR 0xBB, CHR 0xE5, CHR 0x8F, CHR 0x96, CHR 0xE9, CHR 0x9A,
      CHR 0x90, CHR 0xE8, CHR 0x97, CHR 0x8F, CHR 0xE9, CHR 0x82, CHR 0xAE, CHR 0xE7,
      CHR 0xAE, CHR 0xB1, CHR 0xE5, CHR 0x88, CHR 0x97, CHR 0xE8, CHR 0xA1, CHR 0xA8]"

text \<open>Generating a candidate address.\<close>

definition stage_add :: string where
  "stage_add =
    [CHR 0xE7, CHR 0x94, CHR 0x9F, CHR 0xE6, CHR 0x88, CHR 0x90, CHR 0xE5, CHR 0x80,
      CHR 0x99, CHR 0xE9, CHR 0x80, CHR 0x89, CHR 0xE9, CHR 0x9A, CHR 0x90, CHR 0xE8,
      CHR 0x97, CHR 0x8F, CHR 0xE9, CHR 0x82, CHR 0xAE, CHR 0xE7, CHR 0xAE, CHR 0xB1]"

text \<open>Confirming the creation of an address.\<close>

definition stage_complete :: string where
  "stage_complete =
    [CHR 0xE7, CHR 0xA1, CHR 0xAE, CHR 0xE8, CHR 0xAE, CHR 0xA4, CHR 0xE5, CHR 0x88,
      CHR 0x9B, CHR 0xE5, CHR 0xBB, CHR 0xBA, CHR 0xE9, CHR 0x9A, CHR 0x90, CHR 0xE8,
      CHR 0x97, CHR 0x8F, CHR 0xE9, CHR 0x82, CHR 0xAE, CHR 0xE7, CHR 0xAE, CHR 0xB1]"

text \<open>The login account has changed, log in to Apple Account for it.\<close>

definition msg_switched :: string where
  "msg_switched =
    [CHR 0xE7, CHR 0x99, CHR 0xBB, CHR 0xE5, CHR 0xBD, CHR 0x95, CHR 0xE8, CHR 0xB4,
      CHR 0xA6, CHR 0xE5, CHR 0x8F, CHR 0xB7, CHR 0xE5, CHR 0xB7, CHR 0xB2, CHR 0xE5,
      CHR 0x88, CHR 0x87, CHR 0xE6, CHR 0x8D, CHR 0xA2, CHR 0xEF, CHR 0xBC, CHR 0x8C,
      CHR 0xE8, CHR 0xAF, CHR 0xB7, CHR 0xE4, CHR 0xB8, CHR 0xBA, CHR 0xE5, CHR 0xBD,
      CHR 0x93, CHR 0xE5, CHR 0x89, CHR 0x8D, CHR 0xE8, CHR 0xB4, CHR 0xA6, CHR 0xE5,
      CHR 0x8F, CHR 0xB7, CHR 0xE9, CHR 0x87, CHR 0x8D, CHR 0xE6, CHR 0x96, CHR 0xB0,
      CHR 0xE7, CHR 0x99, CHR 0xBB, CHR 0xE5, CHR 0xBD, CHR 0x95] @
    '' Apple Account''"

text \<open>iCloud Web has switched to another account, log in to Apple Account again.\<close>

definition msg_web_switched :: string where
  "msg_web_switched =
    [CHR 0xE5, CHR 0xBD, CHR 0x93, CHR 0xE5, CHR 0x89, CHR 0x8D] @
    '' iCloud Web '' @
    [CHR 0xE5, CHR 0xB7, CHR 0xB2, CHR 0xE5, CHR 0x88, CHR 0x87, CHR 0xE6, CHR 0x8D,
      CHR 0xA2, CHR 0xE8, CHR 0xB4, CHR 0xA6, CHR 0xE5, CHR 0x8F, CHR 0xB7, CHR 0xEF,
      CHR 0xBC, CHR 0x8C, CHR 0xE8, CHR 0xAF, CHR 0xB7, CHR 0xE9, CHR 0x87, CHR 0x8D,
      CHR 0xE6, CHR 0x96, CHR 0xB0, CHR 0xE7, CHR 0x99, CHR 0xBB, CHR 0xE5, CHR 0xBD,
      CHR 0x95] @
    '' Apple Account''"

text \<open>Apple Account and iCloud Web are not the same account.\<close>

definition msg_account_mismatch :: string where
  "msg_account_mismatch =
    ''Apple Account '' @
    [CHR 0xE4, CHR 0xB8, CHR 0x8E, CHR 0xE5, CHR 0xBD, CHR 0x93, CHR 0xE5, CHR 0x89,
      CHR 0x8D] @
    '' iCloud Web '' @
    [CHR 0xE4, CHR 0xB8, CHR 0x8D, CHR 0xE6, CHR 0x98, CHR 0xAF, CHR 0xE5, CHR 0x90,
      CHR 0x8C, CHR 0xE4, CHR 0xB8, CHR 0x80, CHR 0xE8, CHR 0xB4, CHR 0xA6, CHR 0xE5,
      CHR 0x8F, CHR 0xB7, CHR 0xEF, CHR 0xBC, CHR 0x8C, CHR 0xE8, CHR 0xAF, CHR 0xB7,
      CHR 0xE5, CHR 0x85, CHR 0x88, CHR 0xE5, CHR 0x88, CHR 0x87, CHR 0xE6, CHR 0x8D,
      CHR 0xA2] @
    '' iCloud Web '' @
    [CHR 0xE7, CHR 0x99, CHR 0xBB, CHR 0xE5, CHR 0xBD, CHR 0x95]"

text \<open>The batch queue is bound to another iCloud account.\<close>

definition msg_queue_mismatch :: string where
  "msg_queue_mismatch =
    [CHR 0xE5, CHR 0xBD, CHR 0x93, CHR 0xE5, CHR 0x89, CHR 0x8D, CHR 0xE6, CHR 0x89,
      CHR 0xB9, CHR 0xE9, CHR 0x87, CHR 0x8F, CHR 0xE9, CHR 0x98, CHR 0x9F, CHR 0xE5,
      CHR 0x88, CHR 0x97, CHR 0xE7, CHR 0xBB, CHR 0x91, CHR 0xE5, CHR 0xAE, CHR 0x9A,
      CHR 0xE4, CHR 0xBA, CHR 0x86, CHR 0xE5, CHR 0x8F, CHR 0xA6, CHR 0xE4, CHR 0xB8,
      CHR 0x80, CHR 0xE4, CHR 0xB8, CHR 0xAA] @
    '' iCloud '' @
    [CHR 0xE8, CHR 0xB4, CHR 0xA6, CHR 0xE5, CHR 0x8F, CHR 0xB7, CHR 0xEF, CHR 0xBC,
      CHR 0x8C, CHR 0xE8, CHR 0xAF, CHR 0xB7, CHR 0xE5, CHR 0xAE, CHR 0x8C, CHR 0xE6,
      CHR 0x88, CHR 0x90, CHR 0xE6, CHR 0x88, CHR 0x96, CHR 0xE5, CHR 0x8F, CHR 0x96,
      CHR 0xE6, CHR 0xB6, CHR 0x88, CHR 0xE9, CHR 0x98, CHR 0x9F, CHR 0xE5, CHR 0x88,
      CHR 0x97, CHR 0xE5, CHR 0x90, CHR 0x8E, CHR 0xE5, CHR 0x86, CHR 0x8D, CHR 0xE5,
      CHR 0x88, CHR 0x87, CHR 0xE6, CHR 0x8D, CHR 0xA2, CHR 0xE7, CHR 0x99, CHR 0xBB,
      CHR 0xE5, CHR 0xBD, CHR 0x95]"

text \<open>The iCloud Web creation channel is cooling down.\<close>

definition msg_web_cooldown :: string where
  "msg_web_cooldown =
    ''iCloud Web '' @
    [CHR 0xE5, CHR 0x88, CHR 0x9B, CHR 0xE5, CHR 0xBB, CHR 0xBA, CHR 0xE9, CHR 0x80,
      CHR 0x9A, CHR 0xE9, CHR 0x81, CHR 0x93, CHR 0xE4, CHR 0xBB, CHR 0x8D, CHR 0xE5,
      CHR 0x9C, CHR 0xA8, CHR 0xE9, CHR 0x99, CHR 0x90, CHR 0xE9, CHR 0xA2, CHR 0x9D,
      CHR 0xE5, CHR 0x86, CHR 0xB7, CHR 0xE5, CHR 0x8D, CHR 0xB4, CHR 0xE4, CHR 0xB8,
      CHR 0xAD, CHR 0xEF, CHR 0xBC, CHR 0x8C, CHR 0xE8, CHR 0xAF, CHR 0xB7, CHR 0xE7,
      CHR 0xA8, CHR 0x8D, CHR 0xE5, CHR 0x90, CHR 0x8E, CHR 0xE5, CHR 0x86, CHR 0x8D,
      CHR 0xE8, CHR 0xAF, CHR 0x95]"

text \<open>Creation over Apple Account failed, followed by the error.\<close>

definition msg_all_failed_account :: string where
  "msg_all_failed_account =
    ''Apple Account '' @
    [CHR 0xE5, CHR 0x88, CHR 0x9B, CHR 0xE5, CHR 0xBB, CHR 0xBA, CHR 0xE5, CHR 0xA4,
      CHR 0xB1, CHR 0xE8, CHR 0xB4, CHR 0xA5, CHR 0xEF, CHR 0xBC, CHR 0x9A]"

text \<open>Creation over iCloud Web failed, followed by the error.\<close>

definition msg_all_failed_web :: string where
  "msg_all_failed_web =
    [CHR 0xEF, CHR 0xBC, CHR 0x9B] @
    ''iCloud Web '' @
    [CHR 0xE5, CHR 0x88, CHR 0x9B, CHR 0xE5, CHR 0xBB, CHR 0xBA, CHR 0xE5, CHR 0xA4,
      CHR 0xB1, CHR 0xE8, CHR 0xB4, CHR 0xA5, CHR 0xEF, CHR 0xBC, CHR 0x9A]"

text \<open>The iCloud Web login is healthy.\<close>

definition msg_web_healthy :: string where
  "msg_web_healthy =
    ''iCloud Web '' @
    [CHR 0xE7, CHR 0x99, CHR 0xBB, CHR 0xE5, CHR 0xBD, CHR 0x95, CHR 0xE6, CHR 0x80,
      CHR 0x81, CHR 0xE6, CHR 0xAD, CHR 0xA3, CHR 0xE5, CHR 0xB8, CHR 0xB8]"

text \<open>The upstream returned no body.\<close>

definition msg_no_upstream_body :: string where
  "msg_no_upstream_body =
    [CHR 0xEF, CHR 0xBC, CHR 0x88, CHR 0xE4, CHR 0xB8, CHR 0x8A, CHR 0xE6, CHR 0xB8,
      CHR 0xB8, CHR 0xE6, CHR 0x9C, CHR 0xAA, CHR 0xE8, CHR 0xBF, CHR 0x94, CHR 0xE5,
      CHR 0x9B, CHR 0x9E, CHR 0xE6, CHR 0xAD, CHR 0xA3, CHR 0xE6, CHR 0x96, CHR 0x87,
      CHR 0xEF, CHR 0xBC, CHR 0x89]"

text \<open>Saving the Apple Account state, followed by the error.\<close>

definition msg_save_account_state :: string where
  "msg_save_account_state =
    [CHR 0xE4, CHR 0xBF, CHR 0x9D, CHR 0xE5, CHR 0xAD, CHR 0x98] @
    '' Apple Account '' @
    [CHR 0xE8, CHR 0xB4, CHR 0xA6, CHR 0xE5, CHR 0x8F, CHR 0xB7, CHR 0xE7, CHR 0x8A,
      CHR 0xB6, CHR 0xE6, CHR 0x80, CHR 0x81] @
    '': ''"

text \<open>Saving the keep-alive state, followed by the error.\<close>

definition msg_save_keepalive_state :: string where
  "msg_save_keepalive_state =
    [CHR 0xE4, CHR 0xBF, CHR 0x9D, CHR 0xE5, CHR 0xAD, CHR 0x98] @
    '' Apple Account '' @
    [CHR 0xE4, CHR 0xBF, CHR 0x9D, CHR 0xE6, CHR 0xB4, CHR 0xBB, CHR 0xE7, CHR 0x8A,
      CHR 0xB6, CHR 0xE6, CHR 0x80, CHR 0x81] @
    '': ''"

text \<open>Saving the keep-alive result, followed by the error.\<close>

definition msg_save_keepalive_result :: string where
  "msg_save_keepalive_result =
    [CHR 0xE4, CHR 0xBF, CHR 0x9D, CHR 0xE5, CHR 0xAD, CHR 0x98] @
    '' Apple Account '' @
    [CHR 0xE4, CHR 0xBF, CHR 0x9D, CHR 0xE6, CHR 0xB4, CHR 0xBB, CHR 0xE7, CHR 0xBB,
      CHR 0x93, CHR 0xE6, CHR 0x9E, CHR 0x9C] @
    '': ''"

text \<open>The task has been stopped.\<close>

definition reason_stopped :: string where
  "reason_stopped =
    [CHR 0xE4, CHR 0xBB, CHR 0xBB, CHR 0xE5, CHR 0x8A, CHR 0xA1, CHR 0xE5, CHR 0xB7,
      CHR 0xB2, CHR 0xE5, CHR 0x81, CHR 0x9C, CHR 0xE6, CHR 0xAD, CHR 0xA2]"

text \<open>Creation failed.\<close>

definition reason_failed :: string where
  "reason_failed =
    [CHR 0xE5, CHR 0x88, CHR 0x9B, CHR 0xE5, CHR 0xBB, CHR 0xBA, CHR 0xE5, CHR 0xA4,
      CHR 0xB1, CHR 0xE8, CHR 0xB4, CHR 0xA5]"

text \<open>Apple's current creation limit is reached.\<close>

definition reason_limit :: string where
  "reason_limit =
    ''Apple '' @
    [CHR 0xE5, CHR 0xBD, CHR 0x93, CHR 0xE5, CHR 0x89, CHR 0x8D, CHR 0xE5, CHR 0x88,
      CHR 0x9B, CHR 0xE5, CHR 0xBB, CHR 0xBA, CHR 0xE9, CHR 0x99, CHR 0x90, CHR 0xE9,
      CHR 0xA2, CHR 0x9D, CHR 0xE5, CHR 0xB7, CHR 0xB2, CHR 0xE8, CHR 0xBE, CHR 0xBE,
      CHR 0xE5, CHR 0x88, CHR 0xB0]"

text \<open>The session has expired, import it again.\<close>

definition reason_session_expired :: string where
  "reason_session_expired =
    ''Session '' @
    [CHR 0xE5, CHR 0xB7, CHR 0xB2, CHR 0xE5, CHR 0xA4, CHR 0xB1, CHR 0xE6, CHR 0x95,
      CHR 0x88, CHR 0xEF, CHR 0xBC, CHR 0x8C, CHR 0xE8, CHR 0xAF, CHR 0xB7, CHR 0xE9,
      CHR 0x87, CHR 0x8D, CHR 0xE6, CHR 0x96, CHR 0xB0, CHR 0xE5, CHR 0xAF, CHR 0xBC,
      CHR 0xE5, CHR 0x85, CHR 0xA5]"

text \<open>This round of creations is done.\<close>

definition reason_done :: string where
  "reason_done =
    [CHR 0xE6, CHR 0x9C, CHR 0xAC, CHR 0xE8, CHR 0xBD, CHR 0xAE, CHR 0xE5, CHR 0x88,
      CHR 0x9B, CHR 0xE5, CHR 0xBB, CHR 0xBA, CHR 0xE5, CHR 0xAE, CHR 0x8C, CHR 0xE6,
      CHR 0x88, CHR 0x90]"

text \<open>Stopped by hand.\<close>

definition reason_manual :: string where
  "reason_manual =
    [CHR 0xE6, CHR 0x89, CHR 0x8B, CHR 0xE5, CHR 0x8A, CHR 0xA8, CHR 0xE5, CHR 0x81,
      CHR 0x9C, CHR 0xE6, CHR 0xAD, CHR 0xA2]"

text \<open>Session has expired.\<close>

definition word_session_expired :: string where
  "word_session_expired =
    ''Session '' @
    [CHR 0xE5, CHR 0xB7, CHR 0xB2, CHR 0xE5, CHR 0xA4, CHR 0xB1, CHR 0xE6, CHR 0x95,
      CHR 0x88]"

text \<open>Session not imported.\<close>

definition word_session_missing :: string where
  "word_session_missing =
    ''Session '' @
    [CHR 0xE6, CHR 0x9C, CHR 0xAA, CHR 0xE5, CHR 0xAF, CHR 0xBC, CHR 0xE5, CHR 0x85,
      CHR 0xA5]"

text \<open>Limit.\<close>

definition word_limit :: string where
  "word_limit =
    [CHR 0xE9, CHR 0x99, CHR 0x90, CHR 0xE9, CHR 0xA2, CHR 0x9D]"

text \<open>The automatic session check found nothing.\<close>

definition sum_check_ok :: string where
  "sum_check_ok =
    ''Session '' @
    [CHR 0xE8, CHR 0x87, CHR 0xAA, CHR 0xE5, CHR 0x8A, CHR 0xA8, CHR 0xE6, CHR 0xA3,
      CHR 0x80, CHR 0xE6, CHR 0xB5, CHR 0x8B, CHR 0xE6, CHR 0xAD, CHR 0xA3, CHR 0xE5,
      CHR 0xB8, CHR 0xB8]"

text \<open>Keeping Apple Account alive fails temporarily.\<close>

definition sum_check_degraded :: string where
  "sum_check_degraded =
    ''Apple Account '' @
    [CHR 0xE4, CHR 0xBF, CHR 0x9D, CHR 0xE6, CHR 0xB4, CHR 0xBB, CHR 0xE4, CHR 0xB8,
      CHR 0xB4, CHR 0xE6, CHR 0x97, CHR 0xB6, CHR 0xE5, CHR 0xBC, CHR 0x82, CHR 0xE5,
      CHR 0xB8, CHR 0xB8, CHR 0xEF, CHR 0xBC, CHR 0x8C, CHR 0xE5, CHR 0xB0, CHR 0x86,
      CHR 0xE8, CHR 0x87, CHR 0xAA, CHR 0xE5, CHR 0x8A, CHR 0xA8, CHR 0xE9, CHR 0x87,
      CHR 0x8D, CHR 0xE8, CHR 0xAF, CHR 0x95]"

text \<open>The automatic session check found an expired login.\<close>

definition sum_check_expired :: string where
  "sum_check_expired =
    ''Session '' @
    [CHR 0xE8, CHR 0x87, CHR 0xAA, CHR 0xE5, CHR 0x8A, CHR 0xA8, CHR 0xE6, CHR 0xA3,
      CHR 0x80, CHR 0xE6, CHR 0xB5, CHR 0x8B, CHR 0xE5, CHR 0x8F, CHR 0x91, CHR 0xE7,
      CHR 0x8E, CHR 0xB0, CHR 0xE7, CHR 0x99, CHR 0xBB, CHR 0xE5, CHR 0xBD, CHR 0x95,
      CHR 0xE5, CHR 0xA4, CHR 0xB1, CHR 0xE6, CHR 0x95, CHR 0x88]"

text \<open>Apple Account kept alive.\<close>

definition sum_keepalive_ok :: string where
  "sum_keepalive_ok =
    ''Apple Account '' @
    [CHR 0xE4, CHR 0xBF, CHR 0x9D, CHR 0xE6, CHR 0xB4, CHR 0xBB, CHR 0xE6, CHR 0x88,
      CHR 0x90, CHR 0xE5, CHR 0x8A, CHR 0x9F]"

text \<open>Keeping Apple Account alive failed temporarily.\<close>

definition sum_keepalive_failed :: string where
  "sum_keepalive_failed =
    ''Apple Account '' @
    [CHR 0xE4, CHR 0xBF, CHR 0x9D, CHR 0xE6, CHR 0xB4, CHR 0xBB, CHR 0xE4, CHR 0xB8,
      CHR 0xB4, CHR 0xE6, CHR 0x97, CHR 0xB6, CHR 0xE5, CHR 0xA4, CHR 0xB1, CHR 0xE8,
      CHR 0xB4, CHR 0xA5]"

text \<open>The Apple Account login has expired, a new login is needed.\<close>

definition sum_keepalive_expired :: string where
  "sum_keepalive_expired =
    ''Apple Account '' @
    [CHR 0xE7, CHR 0x99, CHR 0xBB, CHR 0xE5, CHR 0xBD, CHR 0x95, CHR 0xE6, CHR 0x80,
      CHR 0x81, CHR 0xE5, CHR 0xA4, CHR 0xB1, CHR 0xE6, CHR 0x95, CHR 0x88, CHR 0xEF,
      CHR 0xBC, CHR 0x8C, CHR 0xE9, CHR 0x9C, CHR 0x80, CHR 0xE8, CHR 0xA6, CHR 0x81,
      CHR 0xE9, CHR 0x87, CHR 0x8D, CHR 0xE6, CHR 0x96, CHR 0xB0, CHR 0xE7, CHR 0x99,
      CHR 0xBB, CHR 0xE5, CHR 0xBD, CHR 0x95]"

text \<open>ChatGPT temporary verification code, the Japanese subject in lower case.\<close>

definition subject_ja_code :: string where
  "subject_ja_code =
    ''chatgpt '' @
    [CHR 0xE3, CHR 0x81, CHR 0xAE, CHR 0xE4, CHR 0xB8, CHR 0x80, CHR 0xE6, CHR 0x99,
      CHR 0x82, CHR 0xE7, CHR 0x9A, CHR 0x84, CHR 0xE3, CHR 0x81, CHR 0xAA, CHR 0xE8,
      CHR 0xAA, CHR 0x8D, CHR 0xE8, CHR 0xA8, CHR 0xBC, CHR 0xE3, CHR 0x82, CHR 0xB3,
      CHR 0xE3, CHR 0x83, CHR 0xBC, CHR 0xE3, CHR 0x83, CHR 0x89]"

text \<open>Reading the mailbox storage failed, followed by the error.\<close>

definition msg_mail_store_prefix :: string where
  "msg_mail_store_prefix =
    [CHR 0xE9, CHR 0x82, CHR 0xAE, CHR 0xE7, CHR 0xAE, CHR 0xB1, CHR 0xE5, CHR 0xAD,
      CHR 0x98, CHR 0xE5, CHR 0x82, CHR 0xA8, CHR 0xE8, CHR 0xAF, CHR 0xBB, CHR 0xE5,
      CHR 0x8F, CHR 0x96, CHR 0xE5, CHR 0xA4, CHR 0xB1, CHR 0xE8, CHR 0xB4, CHR 0xA5] @
    '': ''"

text \<open>Configure the IMAP account and application password in the mailbox settings.\<close>

definition msg_mail_unconfigured :: string where
  "msg_mail_unconfigured =
    [CHR 0xE8, CHR 0xAF, CHR 0xB7, CHR 0xE5, CHR 0x9C, CHR 0xA8, CHR 0xE6, CHR 0x94,
      CHR 0xB6, CHR 0xE4, CHR 0xBB, CHR 0xB6, CHR 0xE7, CHR 0xAE, CHR 0xB1, CHR 0xE8,
      CHR 0xAE, CHR 0xBE, CHR 0xE7, CHR 0xBD, CHR 0xAE, CHR 0xE4, CHR 0xB8, CHR 0xAD,
      CHR 0xE9, CHR 0x85, CHR 0x8D, CHR 0xE7, CHR 0xBD, CHR 0xAE] @
    '' IMAP '' @
    [CHR 0xE8, CHR 0xB4, CHR 0xA6, CHR 0xE5, CHR 0x8F, CHR 0xB7, CHR 0xE5, CHR 0x92,
      CHR 0x8C, CHR 0xE5, CHR 0xBA, CHR 0x94, CHR 0xE7, CHR 0x94, CHR 0xA8, CHR 0xE4,
      CHR 0xB8, CHR 0x93, CHR 0xE7, CHR 0x94, CHR 0xA8, CHR 0xE5, CHR 0xAF, CHR 0x86,
      CHR 0xE7, CHR 0xA0, CHR 0x81]"

text \<open>Selecting the IMAP mailbox failed, followed by the error.\<close>

definition msg_imap_select :: string where
  "msg_imap_select =
    ''IMAP '' @
    [CHR 0xE9, CHR 0x82, CHR 0xAE, CHR 0xE7, CHR 0xAE, CHR 0xB1, CHR 0xE9, CHR 0x80,
      CHR 0x89, CHR 0xE6, CHR 0x8B, CHR 0xA9, CHR 0xE5, CHR 0xA4, CHR 0xB1, CHR 0xE8,
      CHR 0xB4, CHR 0xA5] @
    '': ''"

text \<open>The IMAP search failed, followed by the error.\<close>

definition msg_imap_search :: string where
  "msg_imap_search =
    ''IMAP '' @
    [CHR 0xE6, CHR 0x90, CHR 0x9C, CHR 0xE7, CHR 0xB4, CHR 0xA2, CHR 0xE5, CHR 0xA4,
      CHR 0xB1, CHR 0xE8, CHR 0xB4, CHR 0xA5] @
    '': ''"

text \<open>Reading IMAP headers failed, followed by the error.\<close>

definition msg_imap_headers :: string where
  "msg_imap_headers =
    ''IMAP '' @
    [CHR 0xE9, CHR 0x82, CHR 0xAE, CHR 0xE4, CHR 0xBB, CHR 0xB6, CHR 0xE5, CHR 0xA4,
      CHR 0xB4, CHR 0xE8, CHR 0xAF, CHR 0xBB, CHR 0xE5, CHR 0x8F, CHR 0x96, CHR 0xE5,
      CHR 0xA4, CHR 0xB1, CHR 0xE8, CHR 0xB4, CHR 0xA5] @
    '': ''"

text \<open>Reading IMAP messages failed, followed by the error.\<close>

definition msg_imap_fetch :: string where
  "msg_imap_fetch =
    ''IMAP '' @
    [CHR 0xE9, CHR 0x82, CHR 0xAE, CHR 0xE4, CHR 0xBB, CHR 0xB6, CHR 0xE8, CHR 0xAF,
      CHR 0xBB, CHR 0xE5, CHR 0x8F, CHR 0x96, CHR 0xE5, CHR 0xA4, CHR 0xB1, CHR 0xE8,
      CHR 0xB4, CHR 0xA5] @
    '': ''"

text \<open>The IMAP TLS connection failed, followed by the error.\<close>

definition msg_imap_tls :: string where
  "msg_imap_tls =
    ''IMAP TLS '' @
    [CHR 0xE8, CHR 0xBF, CHR 0x9E, CHR 0xE6, CHR 0x8E, CHR 0xA5, CHR 0xE5, CHR 0xA4,
      CHR 0xB1, CHR 0xE8, CHR 0xB4, CHR 0xA5] @
    '': ''"

text \<open>The proxy for IMAP cannot be set up, followed by the error.\<close>

definition msg_imap_proxy :: string where
  "msg_imap_proxy =
    ''IMAP '' @
    [CHR 0xE4, CHR 0xBB, CHR 0xA3, CHR 0xE7, CHR 0x90, CHR 0x86, CHR 0xE5, CHR 0x88,
      CHR 0x9D, CHR 0xE5, CHR 0xA7, CHR 0x8B, CHR 0xE5, CHR 0x8C, CHR 0x96, CHR 0xE5,
      CHR 0xA4, CHR 0xB1, CHR 0xE8, CHR 0xB4, CHR 0xA5] @
    '': ''"

text \<open>The IMAP proxy has changed, try again.\<close>

definition msg_imap_proxy_changed :: string where
  "msg_imap_proxy_changed =
    ''IMAP '' @
    [CHR 0xE4, CHR 0xBB, CHR 0xA3, CHR 0xE7, CHR 0x90, CHR 0x86, CHR 0xE5, CHR 0xB7,
      CHR 0xB2, CHR 0xE5, CHR 0x8F, CHR 0x98, CHR 0xE6, CHR 0x9B, CHR 0xB4, CHR 0xEF,
      CHR 0xBC, CHR 0x8C, CHR 0xE8, CHR 0xAF, CHR 0xB7, CHR 0xE9, CHR 0x87, CHR 0x8D,
      CHR 0xE8, CHR 0xAF, CHR 0x95]"

text \<open>IMAP authentication failed, followed by the error.\<close>

definition msg_imap_login :: string where
  "msg_imap_login =
    ''IMAP '' @
    [CHR 0xE8, CHR 0xBA, CHR 0xAB, CHR 0xE4, CHR 0xBB, CHR 0xBD, CHR 0xE9, CHR 0xAA,
      CHR 0x8C, CHR 0xE8, CHR 0xAF, CHR 0x81, CHR 0xE5, CHR 0xA4, CHR 0xB1, CHR 0xE8,
      CHR 0xB4, CHR 0xA5] @
    '': ''"

text \<open>IMAP authentication failed: check the server and use an app-specific password; followed by the error.\<close>

definition msg_imap_login_icloud :: string where
  "msg_imap_login_icloud =
    ''IMAP '' @
    [CHR 0xE8, CHR 0xBA, CHR 0xAB, CHR 0xE4, CHR 0xBB, CHR 0xBD, CHR 0xE9, CHR 0xAA,
      CHR 0x8C, CHR 0xE8, CHR 0xAF, CHR 0x81, CHR 0xE5, CHR 0xA4, CHR 0xB1, CHR 0xE8,
      CHR 0xB4, CHR 0xA5] @
    '': '' @
    [CHR 0xE8, CHR 0xAF, CHR 0xB7, CHR 0xE7, CHR 0xA1, CHR 0xAE, CHR 0xE8, CHR 0xAE,
      CHR 0xA4, CHR 0xE6, CHR 0x9C, CHR 0x8D, CHR 0xE5, CHR 0x8A, CHR 0xA1, CHR 0xE5,
      CHR 0x99, CHR 0xA8, CHR 0xE4, CHR 0xB8, CHR 0xBA] @
    '' imap.mail.me.com:993'' @
    [CHR 0xEF, CHR 0xBC, CHR 0x8C, CHR 0xE5, CHR 0xB9, CHR 0xB6, CHR 0xE4, CHR 0xBD,
      CHR 0xBF, CHR 0xE7, CHR 0x94, CHR 0xA8] @
    '' Apple Account '' @
    [CHR 0xE7, CHR 0x94, CHR 0x9F, CHR 0xE6, CHR 0x88, CHR 0x90, CHR 0xE7, CHR 0x9A,
      CHR 0x84] @
    '' App '' @
    [CHR 0xE4, CHR 0xB8, CHR 0x93, CHR 0xE7, CHR 0x94, CHR 0xA8, CHR 0xE5, CHR 0xAF,
      CHR 0x86, CHR 0xE7, CHR 0xA0, CHR 0x81, CHR 0xEF, CHR 0xBC, CHR 0x88, CHR 0xE4,
      CHR 0xB8, CHR 0x8D, CHR 0xE8, CHR 0x83, CHR 0xBD, CHR 0xE4, CHR 0xBD, CHR 0xBF,
      CHR 0xE7, CHR 0x94, CHR 0xA8] @
    '' Apple ID '' @
    [CHR 0xE7, CHR 0x99, CHR 0xBB, CHR 0xE5, CHR 0xBD, CHR 0x95, CHR 0xE5, CHR 0xAF,
      CHR 0x86, CHR 0xE7, CHR 0xA0, CHR 0x81, CHR 0xEF, CHR 0xBC, CHR 0x89] @
    '': ''"

text \<open>Reading the mailbox storage failed, followed by the error (on changes).\<close>

definition msg_mail_read_failed :: string where
  "msg_mail_read_failed =
    [CHR 0xE8, CHR 0xAF, CHR 0xBB, CHR 0xE5, CHR 0x8F, CHR 0x96, CHR 0xE9, CHR 0x82,
      CHR 0xAE, CHR 0xE7, CHR 0xAE, CHR 0xB1, CHR 0xE5, CHR 0xAD, CHR 0x98, CHR 0xE5,
      CHR 0x82, CHR 0xA8, CHR 0xE5, CHR 0xA4, CHR 0xB1, CHR 0xE8, CHR 0xB4, CHR 0xA5] @
    '': ''"

text \<open>The version of the mailbox cache has changed, refresh and retry.\<close>

definition msg_mail_version_changed :: string where
  "msg_mail_version_changed =
    [CHR 0xE9, CHR 0x82, CHR 0xAE, CHR 0xE7, CHR 0xAE, CHR 0xB1, CHR 0xE7, CHR 0xBC,
      CHR 0x93, CHR 0xE5, CHR 0xAD, CHR 0x98, CHR 0xE7, CHR 0x89, CHR 0x88, CHR 0xE6,
      CHR 0x9C, CHR 0xAC, CHR 0xE5, CHR 0xB7, CHR 0xB2, CHR 0xE5, CHR 0x8F, CHR 0x98,
      CHR 0xE5, CHR 0x8C, CHR 0x96, CHR 0xEF, CHR 0xBC, CHR 0x8C, CHR 0xE8, CHR 0xAF,
      CHR 0xB7, CHR 0xE5, CHR 0x88, CHR 0xB7, CHR 0xE6, CHR 0x96, CHR 0xB0, CHR 0xE5,
      CHR 0x90, CHR 0x8E, CHR 0xE9, CHR 0x87, CHR 0x8D, CHR 0xE8, CHR 0xAF, CHR 0x95]"

text \<open>The message was not found.\<close>

definition msg_mail_not_found :: string where
  "msg_mail_not_found =
    [CHR 0xE6, CHR 0x9C, CHR 0xAA, CHR 0xE6, CHR 0x89, CHR 0xBE, CHR 0xE5, CHR 0x88,
      CHR 0xB0, CHR 0xE8, CHR 0xAF, CHR 0xA5, CHR 0xE9, CHR 0x82, CHR 0xAE, CHR 0xE4,
      CHR 0xBB, CHR 0xB6]"

text \<open>Select 1 to 200 messages at a time.\<close>

definition msg_mail_batch_size :: string where
  "msg_mail_batch_size =
    [CHR 0xE6, CHR 0xAF, CHR 0x8F, CHR 0xE6, CHR 0xAC, CHR 0xA1, CHR 0xE9, CHR 0x9C,
      CHR 0x80, CHR 0xE9, CHR 0x80, CHR 0x89, CHR 0xE6, CHR 0x8B, CHR 0xA9] @
    '' 1 '' @
    [CHR 0xE5, CHR 0x88, CHR 0xB0] @
    '' 200 '' @
    [CHR 0xE5, CHR 0xB0, CHR 0x81, CHR 0xE9, CHR 0x82, CHR 0xAE, CHR 0xE4, CHR 0xBB,
      CHR 0xB6]"

text \<open>The selection contains a message that was not found.\<close>

definition msg_mail_batch_unknown :: string where
  "msg_mail_batch_unknown =
    [CHR 0xE6, CHR 0x89, CHR 0xB9, CHR 0xE9, CHR 0x87, CHR 0x8F, CHR 0xE9, CHR 0x80,
      CHR 0x89, CHR 0xE6, CHR 0x8B, CHR 0xA9, CHR 0xE4, CHR 0xB8, CHR 0xAD, CHR 0xE5,
      CHR 0x8C, CHR 0x85, CHR 0xE5, CHR 0x90, CHR 0xAB, CHR 0xE6, CHR 0x9C, CHR 0xAA,
      CHR 0xE6, CHR 0x89, CHR 0xBE, CHR 0xE5, CHR 0x88, CHR 0xB0, CHR 0xE7, CHR 0x9A,
      CHR 0x84, CHR 0xE9, CHR 0x82, CHR 0xAE, CHR 0xE4, CHR 0xBB, CHR 0xB6]"

text \<open>Another instance is synchronising the mailbox.\<close>

definition msg_sync_elsewhere :: string where
  "msg_sync_elsewhere =
    [CHR 0xE5, CHR 0x8F, CHR 0xA6, CHR 0xE4, CHR 0xB8, CHR 0x80, CHR 0xE5, CHR 0xAE,
      CHR 0x9E, CHR 0xE4, CHR 0xBE, CHR 0x8B, CHR 0xE6, CHR 0xAD, CHR 0xA3, CHR 0xE5,
      CHR 0x9C, CHR 0xA8, CHR 0xE5, CHR 0x90, CHR 0x8C, CHR 0xE6, CHR 0xAD, CHR 0xA5,
      CHR 0xE6, CHR 0x94, CHR 0xB6, CHR 0xE4, CHR 0xBB, CHR 0xB6, CHR 0xE7, CHR 0xAE,
      CHR 0xB1]"

text \<open>The proxy address is malformed.\<close>

definition msg_proxy_format :: string where
  "msg_proxy_format =
    [CHR 0xE4, CHR 0xBB, CHR 0xA3, CHR 0xE7, CHR 0x90, CHR 0x86, CHR 0xE5, CHR 0x9C,
      CHR 0xB0, CHR 0xE5, CHR 0x9D, CHR 0x80, CHR 0xE6, CHR 0xA0, CHR 0xBC, CHR 0xE5,
      CHR 0xBC, CHR 0x8F, CHR 0xE6, CHR 0x97, CHR 0xA0, CHR 0xE6, CHR 0x95, CHR 0x88]"

text \<open>Only http, https and socks5 proxies are supported.\<close>

definition msg_proxy_scheme :: string where
  "msg_proxy_scheme =
    [CHR 0xE4, CHR 0xBB, CHR 0xA3, CHR 0xE7, CHR 0x90, CHR 0x86, CHR 0xE4, CHR 0xBB,
      CHR 0x85, CHR 0xE6, CHR 0x94, CHR 0xAF, CHR 0xE6, CHR 0x8C, CHR 0x81] @
    '' http'' @
    [CHR 0xE3, CHR 0x80, CHR 0x81] @
    ''https '' @
    [CHR 0xE6, CHR 0x88, CHR 0x96] @
    '' socks5''"

text \<open>The SOCKS5 proxy configuration is invalid.\<close>

definition msg_proxy_socks :: string where
  "msg_proxy_socks =
    ''SOCKS5 '' @
    [CHR 0xE4, CHR 0xBB, CHR 0xA3, CHR 0xE7, CHR 0x90, CHR 0x86, CHR 0xE9, CHR 0x85,
      CHR 0x8D, CHR 0xE7, CHR 0xBD, CHR 0xAE, CHR 0xE6, CHR 0x97, CHR 0xA0, CHR 0xE6,
      CHR 0x95, CHR 0x88]"

text \<open>CONNECT does not support the network type, followed by it.\<close>

definition msg_proxy_network :: string where
  "msg_proxy_network =
    [CHR 0xE4, CHR 0xBB, CHR 0xA3, CHR 0xE7, CHR 0x90, CHR 0x86] @
    '' CONNECT '' @
    [CHR 0xE4, CHR 0xB8, CHR 0x8D, CHR 0xE6, CHR 0x94, CHR 0xAF, CHR 0xE6, CHR 0x8C,
      CHR 0x81, CHR 0xE7, CHR 0xBD, CHR 0x91, CHR 0xE7, CHR 0xBB, CHR 0x9C, CHR 0xE7,
      CHR 0xB1, CHR 0xBB, CHR 0xE5, CHR 0x9E, CHR 0x8B] @
    '' ''"

text \<open>Connecting to the proxy failed, followed by the error.\<close>

definition msg_proxy_dial :: string where
  "msg_proxy_dial =
    [CHR 0xE8, CHR 0xBF, CHR 0x9E, CHR 0xE6, CHR 0x8E, CHR 0xA5, CHR 0xE4, CHR 0xBB,
      CHR 0xA3, CHR 0xE7, CHR 0x90, CHR 0x86, CHR 0xE5, CHR 0xA4, CHR 0xB1, CHR 0xE8,
      CHR 0xB4, CHR 0xA5] @
    '': ''"

text \<open>The TLS handshake with the proxy failed, followed by the error.\<close>

definition msg_proxy_tls :: string where
  "msg_proxy_tls =
    [CHR 0xE4, CHR 0xBB, CHR 0xA3, CHR 0xE7, CHR 0x90, CHR 0x86] @
    '' TLS '' @
    [CHR 0xE6, CHR 0x8F, CHR 0xA1, CHR 0xE6, CHR 0x89, CHR 0x8B, CHR 0xE5, CHR 0xA4,
      CHR 0xB1, CHR 0xE8, CHR 0xB4, CHR 0xA5] @
    '': ''"

text \<open>Sending the CONNECT request failed, followed by the error.\<close>

definition msg_proxy_send :: string where
  "msg_proxy_send =
    [CHR 0xE5, CHR 0x8F, CHR 0x91, CHR 0xE9, CHR 0x80, CHR 0x81, CHR 0xE4, CHR 0xBB,
      CHR 0xA3, CHR 0xE7, CHR 0x90, CHR 0x86] @
    '' CONNECT '' @
    [CHR 0xE8, CHR 0xAF, CHR 0xB7, CHR 0xE6, CHR 0xB1, CHR 0x82, CHR 0xE5, CHR 0xA4,
      CHR 0xB1, CHR 0xE8, CHR 0xB4, CHR 0xA5] @
    '': ''"

text \<open>Reading the CONNECT response failed, followed by the error.\<close>

definition msg_proxy_read :: string where
  "msg_proxy_read =
    [CHR 0xE8, CHR 0xAF, CHR 0xBB, CHR 0xE5, CHR 0x8F, CHR 0x96, CHR 0xE4, CHR 0xBB,
      CHR 0xA3, CHR 0xE7, CHR 0x90, CHR 0x86] @
    '' CONNECT '' @
    [CHR 0xE5, CHR 0x93, CHR 0x8D, CHR 0xE5, CHR 0xBA, CHR 0x94, CHR 0xE5, CHR 0xA4,
      CHR 0xB1, CHR 0xE8, CHR 0xB4, CHR 0xA5] @
    '': ''"

text \<open>The proxy answered CONNECT with an HTTP status, followed by it.\<close>

definition msg_proxy_status :: string where
  "msg_proxy_status =
    [CHR 0xE4, CHR 0xBB, CHR 0xA3, CHR 0xE7, CHR 0x90, CHR 0x86] @
    '' CONNECT '' @
    [CHR 0xE8, CHR 0xBF, CHR 0x94, CHR 0xE5, CHR 0x9B, CHR 0x9E] @
    '' HTTP ''"

text \<open>Enter a proxy address.\<close>

definition msg_proxy_empty :: string where
  "msg_proxy_empty =
    [CHR 0xE8, CHR 0xAF, CHR 0xB7, CHR 0xE8, CHR 0xBE, CHR 0x93, CHR 0xE5, CHR 0x85,
      CHR 0xA5, CHR 0xE4, CHR 0xBB, CHR 0xA3, CHR 0xE7, CHR 0x90, CHR 0x86, CHR 0xE5,
      CHR 0x9C, CHR 0xB0, CHR 0xE5, CHR 0x9D, CHR 0x80]"

text \<open>The target of the proxy test is invalid.\<close>

definition msg_proxy_target :: string where
  "msg_proxy_target =
    [CHR 0xE4, CHR 0xBB, CHR 0xA3, CHR 0xE7, CHR 0x90, CHR 0x86, CHR 0xE6, CHR 0xB5,
      CHR 0x8B, CHR 0xE8, CHR 0xAF, CHR 0x95, CHR 0xE7, CHR 0x9B, CHR 0xAE, CHR 0xE6,
      CHR 0xA0, CHR 0x87, CHR 0xE6, CHR 0x97, CHR 0xA0, CHR 0xE6, CHR 0x95, CHR 0x88]"

text \<open>The proxy test timed out.\<close>

definition msg_proxy_timeout :: string where
  "msg_proxy_timeout =
    [CHR 0xE4, CHR 0xBB, CHR 0xA3, CHR 0xE7, CHR 0x90, CHR 0x86, CHR 0xE6, CHR 0xB5,
      CHR 0x8B, CHR 0xE8, CHR 0xAF, CHR 0x95, CHR 0xE8, CHR 0xB6, CHR 0x85, CHR 0xE6,
      CHR 0x97, CHR 0xB6, CHR 0xEF, CHR 0xBC, CHR 0x8C, CHR 0xE8, CHR 0xAF, CHR 0xB7,
      CHR 0xE6, CHR 0xA3, CHR 0x80, CHR 0xE6, CHR 0x9F, CHR 0xA5, CHR 0xE4, CHR 0xBB,
      CHR 0xA3, CHR 0xE7, CHR 0x90, CHR 0x86, CHR 0xE5, CHR 0x9C, CHR 0xB0, CHR 0xE5,
      CHR 0x9D, CHR 0x80, CHR 0xE5, CHR 0x92, CHR 0x8C, CHR 0xE7, CHR 0xBD, CHR 0x91,
      CHR 0xE7, CHR 0xBB, CHR 0x9C]"

text \<open>Apple cannot be reached through this proxy.\<close>

definition msg_proxy_unreachable :: string where
  "msg_proxy_unreachable =
    [CHR 0xE6, CHR 0x97, CHR 0xA0, CHR 0xE6, CHR 0xB3, CHR 0x95, CHR 0xE9, CHR 0x80,
      CHR 0x9A, CHR 0xE8, CHR 0xBF, CHR 0x87, CHR 0xE8, CHR 0xAF, CHR 0xA5, CHR 0xE4,
      CHR 0xBB, CHR 0xA3, CHR 0xE7, CHR 0x90, CHR 0x86, CHR 0xE8, CHR 0xAE, CHR 0xBF,
      CHR 0xE9, CHR 0x97, CHR 0xAE] @
    '' Apple'' @
    [CHR 0xEF, CHR 0xBC, CHR 0x8C, CHR 0xE8, CHR 0xAF, CHR 0xB7, CHR 0xE6, CHR 0xA3,
      CHR 0x80, CHR 0xE6, CHR 0x9F, CHR 0xA5, CHR 0xE5, CHR 0x9C, CHR 0xB0, CHR 0xE5,
      CHR 0x9D, CHR 0x80, CHR 0xE3, CHR 0x80, CHR 0x81, CHR 0xE5, CHR 0x87, CHR 0xAD,
      CHR 0xE6, CHR 0x8D, CHR 0xAE, CHR 0xE5, CHR 0x92, CHR 0x8C, CHR 0xE7, CHR 0xBD,
      CHR 0x91, CHR 0xE7, CHR 0xBB, CHR 0x9C]"

text \<open>The proxy works, but Apple answered with an HTTP status, followed by it.\<close>

definition msg_proxy_apple :: string where
  "msg_proxy_apple =
    [CHR 0xE4, CHR 0xBB, CHR 0xA3, CHR 0xE7, CHR 0x90, CHR 0x86, CHR 0xE5, CHR 0x8F,
      CHR 0xAF, CHR 0xE4, CHR 0xBB, CHR 0xA5, CHR 0xE8, CHR 0xBF, CHR 0x9E, CHR 0xE6,
      CHR 0x8E, CHR 0xA5, CHR 0xEF, CHR 0xBC, CHR 0x8C, CHR 0xE4, CHR 0xBD, CHR 0x86] @
    '' Apple '' @
    [CHR 0xE8, CHR 0xBF, CHR 0x94, CHR 0xE5, CHR 0x9B, CHR 0x9E] @
    '' HTTP ''"

text \<open>The mail account was not found.\<close>

definition msg_account_missing :: string where
  "msg_account_missing =
    [CHR 0xE6, CHR 0x9C, CHR 0xAA, CHR 0xE6, CHR 0x89, CHR 0xBE, CHR 0xE5, CHR 0x88,
      CHR 0xB0, CHR 0xE9, CHR 0x82, CHR 0xAE, CHR 0xE4, CHR 0xBB, CHR 0xB6, CHR 0xE8,
      CHR 0xB4, CHR 0xA6, CHR 0xE5, CHR 0x8F, CHR 0xB7]"

text \<open>The default account cannot be deleted.\<close>

definition msg_account_protected :: string where
  "msg_account_protected =
    [CHR 0xE9, CHR 0xBB, CHR 0x98, CHR 0xE8, CHR 0xAE, CHR 0xA4, CHR 0xE8, CHR 0xB4,
      CHR 0xA6, CHR 0xE5, CHR 0x8F, CHR 0xB7, CHR 0xE7, CHR 0x94, CHR 0xA8, CHR 0xE4,
      CHR 0xBA, CHR 0x8E, CHR 0xE5, CHR 0x85, CHR 0xBC, CHR 0xE5, CHR 0xAE, CHR 0xB9,
      CHR 0xE6, CHR 0x97, CHR 0xA7, CHR 0xE6, CHR 0x95, CHR 0xB0, CHR 0xE6, CHR 0x8D,
      CHR 0xAE, CHR 0xEF, CHR 0xBC, CHR 0x8C, CHR 0xE4, CHR 0xB8, CHR 0x8D, CHR 0xE8,
      CHR 0x83, CHR 0xBD, CHR 0xE5, CHR 0x88, CHR 0xA0, CHR 0xE9, CHR 0x99, CHR 0xA4]"

text \<open>An account name has 1 to 120 visible characters.\<close>

definition msg_account_name :: string where
  "msg_account_name =
    [CHR 0xE8, CHR 0xB4, CHR 0xA6, CHR 0xE5, CHR 0x8F, CHR 0xB7, CHR 0xE5, CHR 0x90,
      CHR 0x8D, CHR 0xE7, CHR 0xA7, CHR 0xB0, CHR 0xE5, CHR 0xBF, CHR 0x85, CHR 0xE9,
      CHR 0xA1, CHR 0xBB, CHR 0xE4, CHR 0xB8, CHR 0xBA] @
    '' 1 '' @
    [CHR 0xE5, CHR 0x88, CHR 0xB0] @
    '' 120 '' @
    [CHR 0xE4, CHR 0xB8, CHR 0xAA, CHR 0xE5, CHR 0x8F, CHR 0xAF, CHR 0xE8, CHR 0xA7,
      CHR 0x81, CHR 0xE5, CHR 0xAD, CHR 0x97, CHR 0xE7, CHR 0xAC, CHR 0xA6]"

text \<open>Default account.\<close>

definition msg_account_default :: string where
  "msg_account_default =
    [CHR 0xE9, CHR 0xBB, CHR 0x98, CHR 0xE8, CHR 0xAE, CHR 0xA4, CHR 0xE8, CHR 0xB4,
      CHR 0xA6, CHR 0xE5, CHR 0x8F, CHR 0xB7]"

text \<open>Account, followed by its number.\<close>

definition msg_account_prefix :: string where
  "msg_account_prefix =
    [CHR 0xE8, CHR 0xB4, CHR 0xA6, CHR 0xE5, CHR 0x8F, CHR 0xB7] @
    '' ''"

text \<open>Loading the proxy of the account failed, followed by the error.\<close>

definition msg_account_load_proxy :: string where
  "msg_account_load_proxy =
    [CHR 0xE5, CHR 0x8A, CHR 0xA0, CHR 0xE8, CHR 0xBD, CHR 0xBD, CHR 0xE8, CHR 0xB4,
      CHR 0xA6, CHR 0xE5, CHR 0x8F, CHR 0xB7, CHR 0xE4, CHR 0xBB, CHR 0xA3, CHR 0xE7,
      CHR 0x90, CHR 0x86] @
    '': ''"

text \<open>Initialising the shares failed, followed by the error.\<close>

definition msg_account_shares :: string where
  "msg_account_shares =
    [CHR 0xE5, CHR 0x88, CHR 0x9D, CHR 0xE5, CHR 0xA7, CHR 0x8B, CHR 0xE5, CHR 0x8C,
      CHR 0x96, CHR 0xE5, CHR 0x88, CHR 0x86, CHR 0xE4, CHR 0xBA, CHR 0xAB, CHR 0xE6,
      CHR 0x95, CHR 0xB0, CHR 0xE6, CHR 0x8D, CHR 0xAE] @
    '': ''"

text \<open>Beginning the deletion failed, followed by the error.\<close>

definition msg_account_tx :: string where
  "msg_account_tx =
    [CHR 0xE5, CHR 0xBC, CHR 0x80, CHR 0xE5, CHR 0xA7, CHR 0x8B, CHR 0xE5, CHR 0x88,
      CHR 0xA0, CHR 0xE9, CHR 0x99, CHR 0xA4, CHR 0xE8, CHR 0xB4, CHR 0xA6, CHR 0xE5,
      CHR 0x8F, CHR 0xB7, CHR 0xE4, CHR 0xBA, CHR 0x8B, CHR 0xE5, CHR 0x8A, CHR 0xA1] @
    '': ''"

text \<open>Purging the account's data failed, followed by the error.\<close>

definition msg_account_purge :: string where
  "msg_account_purge =
    [CHR 0xE6, CHR 0xB8, CHR 0x85, CHR 0xE7, CHR 0x90, CHR 0x86, CHR 0xE8, CHR 0xB4,
      CHR 0xA6, CHR 0xE5, CHR 0x8F, CHR 0xB7, CHR 0xE6, CHR 0x95, CHR 0xB0, CHR 0xE6,
      CHR 0x8D, CHR 0xAE] @
    '': ''"

text \<open>Committing the deletion failed, followed by the error.\<close>

definition msg_account_commit :: string where
  "msg_account_commit =
    [CHR 0xE6, CHR 0x8F, CHR 0x90, CHR 0xE4, CHR 0xBA, CHR 0xA4, CHR 0xE8, CHR 0xB4,
      CHR 0xA6, CHR 0xE5, CHR 0x8F, CHR 0xB7, CHR 0xE5, CHR 0x88, CHR 0xA0, CHR 0xE9,
      CHR 0x99, CHR 0xA4, CHR 0xE4, CHR 0xBA, CHR 0x8B, CHR 0xE5, CHR 0x8A, CHR 0xA1] @
    '': ''"

text \<open>Removing the account's directory failed, followed by the error.\<close>

definition msg_account_dir :: string where
  "msg_account_dir =
    [CHR 0xE6, CHR 0xB8, CHR 0x85, CHR 0xE7, CHR 0x90, CHR 0x86, CHR 0xE8, CHR 0xB4,
      CHR 0xA6, CHR 0xE5, CHR 0x8F, CHR 0xB7, CHR 0xE7, CHR 0x9B, CHR 0xAE, CHR 0xE5,
      CHR 0xBD, CHR 0x95] @
    '': ''"

text \<open>The account is disabled.\<close>

definition msg_health_disabled :: string where
  "msg_health_disabled =
    [CHR 0xE8, CHR 0xB4, CHR 0xA6, CHR 0xE5, CHR 0x8F, CHR 0xB7, CHR 0xE5, CHR 0xB7,
      CHR 0xB2, CHR 0xE5, CHR 0x81, CHR 0x9C, CHR 0xE7, CHR 0x94, CHR 0xA8]"

text \<open>Waiting for the first health check.\<close>

definition msg_health_waiting :: string where
  "msg_health_waiting =
    [CHR 0xE7, CHR 0xAD, CHR 0x89, CHR 0xE5, CHR 0xBE, CHR 0x85, CHR 0xE9, CHR 0xA6,
      CHR 0x96, CHR 0xE6, CHR 0xAC, CHR 0xA1, CHR 0xE5, CHR 0x81, CHR 0xA5, CHR 0xE5,
      CHR 0xBA, CHR 0xB7, CHR 0xE6, CHR 0xA3, CHR 0x80, CHR 0xE6, CHR 0xB5, CHR 0x8B]"

text \<open>The login is not healthy.\<close>

definition msg_health_login :: string where
  "msg_health_login =
    [CHR 0xE7, CHR 0x99, CHR 0xBB, CHR 0xE5, CHR 0xBD, CHR 0x95, CHR 0xE7, CHR 0x8A,
      CHR 0xB6, CHR 0xE6, CHR 0x80, CHR 0x81, CHR 0xE5, CHR 0xBC, CHR 0x82, CHR 0xE5,
      CHR 0xB8, CHR 0xB8]"

text \<open>The IMAP synchronisation fails.\<close>

definition msg_health_imap :: string where
  "msg_health_imap =
    ''IMAP '' @
    [CHR 0xE5, CHR 0x90, CHR 0x8C, CHR 0xE6, CHR 0xAD, CHR 0xA5, CHR 0xE5, CHR 0xBC,
      CHR 0x82, CHR 0xE5, CHR 0xB8, CHR 0xB8]"

text \<open>The automatic session check fails.\<close>

definition msg_health_refresh :: string where
  "msg_health_refresh =
    ''Session '' @
    [CHR 0xE8, CHR 0x87, CHR 0xAA, CHR 0xE5, CHR 0x8A, CHR 0xA8, CHR 0xE6, CHR 0xA3,
      CHR 0x80, CHR 0xE6, CHR 0xB5, CHR 0x8B, CHR 0xE5, CHR 0xBC, CHR 0x82, CHR 0xE5,
      CHR 0xB8, CHR 0xB8]"

text \<open>The automatic creation fails.\<close>

definition msg_health_create :: string where
  "msg_health_create =
    [CHR 0xE8, CHR 0x87, CHR 0xAA, CHR 0xE5, CHR 0x8A, CHR 0xA8, CHR 0xE5, CHR 0x88,
      CHR 0x9B, CHR 0xE5, CHR 0xBB, CHR 0xBA, CHR 0xE4, CHR 0xBB, CHR 0xBB, CHR 0xE5,
      CHR 0x8A, CHR 0xA1, CHR 0xE5, CHR 0xBC, CHR 0x82, CHR 0xE5, CHR 0xB8, CHR 0xB8]"

text \<open>The batch queue needs attention.\<close>

definition msg_health_queue :: string where
  "msg_health_queue =
    [CHR 0xE6, CHR 0x89, CHR 0xB9, CHR 0xE9, CHR 0x87, CHR 0x8F, CHR 0xE9, CHR 0x98,
      CHR 0x9F, CHR 0xE5, CHR 0x88, CHR 0x97, CHR 0xE9, CHR 0x9C, CHR 0x80, CHR 0xE8,
      CHR 0xA6, CHR 0x81, CHR 0xE5, CHR 0xA4, CHR 0x84, CHR 0xE7, CHR 0x90, CHR 0x86]"

text \<open>One of the login channels is not healthy.\<close>

definition msg_health_partial :: string where
  "msg_health_partial =
    [CHR 0xE9, CHR 0x83, CHR 0xA8, CHR 0xE5, CHR 0x88, CHR 0x86, CHR 0xE7, CHR 0x99,
      CHR 0xBB, CHR 0xE5, CHR 0xBD, CHR 0x95, CHR 0xE9, CHR 0x80, CHR 0x9A, CHR 0xE9,
      CHR 0x81, CHR 0x93, CHR 0xE5, CHR 0xBC, CHR 0x82, CHR 0xE5, CHR 0xB8, CHR 0xB8]"

text \<open>Running normally.\<close>

definition msg_health_ok :: string where
  "msg_health_ok =
    [CHR 0xE8, CHR 0xBF, CHR 0x90, CHR 0xE8, CHR 0xA1, CHR 0x8C, CHR 0xE6, CHR 0xAD,
      CHR 0xA3, CHR 0xE5, CHR 0xB8, CHR 0xB8]"

text \<open>Waiting for a login.\<close>

definition msg_health_pending :: string where
  "msg_health_pending =
    [CHR 0xE7, CHR 0xAD, CHR 0x89, CHR 0xE5, CHR 0xBE, CHR 0x85, CHR 0xE9, CHR 0x85,
      CHR 0x8D, CHR 0xE7, CHR 0xBD, CHR 0xAE, CHR 0xE7, CHR 0x99, CHR 0xBB, CHR 0xE5,
      CHR 0xBD, CHR 0x95]"

text \<open>The region must be international or china.\<close>

definition msg_import_region :: string where
  "msg_import_region =
    ''icloud_region '' @
    [CHR 0xE5, CHR 0xBF, CHR 0x85, CHR 0xE9, CHR 0xA1, CHR 0xBB, CHR 0xE6, CHR 0x98,
      CHR 0xAF] @
    '' international '' @
    [CHR 0xE6, CHR 0x88, CHR 0x96] @
    '' china''"

text \<open>Paste a cURL command or HAR JSON first.\<close>

definition msg_import_empty :: string where
  "msg_import_empty =
    [CHR 0xE8, CHR 0xAF, CHR 0xB7, CHR 0xE5, CHR 0x85, CHR 0x88, CHR 0xE7, CHR 0xB2,
      CHR 0x98, CHR 0xE8, CHR 0xB4, CHR 0xB4] @
    '' cURL '' @
    [CHR 0xE5, CHR 0x91, CHR 0xBD, CHR 0xE4, CHR 0xBB, CHR 0xA4, CHR 0xE6, CHR 0x88,
      CHR 0x96] @
    '' HAR JSON''"

text \<open>The entries of the HAR log must be an array.\<close>

definition msg_import_entries :: string where
  "msg_import_entries =
    ''HAR log.entries '' @
    [CHR 0xE5, CHR 0xBF, CHR 0x85, CHR 0xE9, CHR 0xA1, CHR 0xBB, CHR 0xE6, CHR 0x98,
      CHR 0xAF, CHR 0xE6, CHR 0x95, CHR 0xB0, CHR 0xE7, CHR 0xBB, CHR 0x84]"

text \<open>The HAR holds no HME request of maildomainws.\<close>

definition msg_import_no_request :: string where
  "msg_import_no_request =
    ''HAR '' @
    [CHR 0xE4, CHR 0xB8, CHR 0xAD, CHR 0xE6, CHR 0xB2, CHR 0xA1, CHR 0xE6, CHR 0x9C,
      CHR 0x89] @
    '' maildomainws '' @
    [CHR 0xE7, CHR 0x9A, CHR 0x84] @
    '' HME '' @
    [CHR 0xE8, CHR 0xAF, CHR 0xB7, CHR 0xE6, CHR 0xB1, CHR 0x82, CHR 0xEF, CHR 0xBC,
      CHR 0x8C, CHR 0xE8, CHR 0xAF, CHR 0xB7, CHR 0xE6, CHR 0x89, CHR 0x93, CHR 0xE5,
      CHR 0xBC, CHR 0x80, CHR 0xE9, CHR 0x9A, CHR 0x90, CHR 0xE8, CHR 0x97, CHR 0x8F,
      CHR 0xE9, CHR 0x82, CHR 0xAE, CHR 0xE4, CHR 0xBB, CHR 0xB6, CHR 0xE5, CHR 0x9C,
      CHR 0xB0, CHR 0xE5, CHR 0x9D, CHR 0x80, CHR 0xE9, CHR 0xA1, CHR 0xB5, CHR 0xE9,
      CHR 0x9D, CHR 0xA2, CHR 0xE5, CHR 0x90, CHR 0x8E, CHR 0xE9, CHR 0x87, CHR 0x8D,
      CHR 0xE6, CHR 0x96, CHR 0xB0, CHR 0xE5, CHR 0xAF, CHR 0xBC, CHR 0xE5, CHR 0x87,
      CHR 0xBA] @
    '' HAR''"

text \<open>The URL must be one of maildomainws.icloud.com or its Chinese twin.\<close>

definition msg_import_host :: string where
  "msg_import_host =
    [CHR 0xE8, CHR 0xAF, CHR 0xB7, CHR 0xE6, CHR 0xB1, CHR 0x82] @
    '' URL '' @
    [CHR 0xE5, CHR 0xBF, CHR 0x85, CHR 0xE9, CHR 0xA1, CHR 0xBB, CHR 0xE6, CHR 0x98,
      CHR 0xAF] @
    '' maildomainws.icloud.com '' @
    [CHR 0xE6, CHR 0x88, CHR 0x96] @
    '' maildomainws.icloud.com.cn''"

text \<open>The URL must point to the HME list or another HME endpoint.\<close>

definition msg_import_path :: string where
  "msg_import_path =
    [CHR 0xE8, CHR 0xAF, CHR 0xB7, CHR 0xE6, CHR 0xB1, CHR 0x82] @
    '' URL '' @
    [CHR 0xE5, CHR 0xBF, CHR 0x85, CHR 0xE9, CHR 0xA1, CHR 0xBB, CHR 0xE6, CHR 0x8C,
      CHR 0x87, CHR 0xE5, CHR 0x90, CHR 0x91] @
    '' /v2/hme/list '' @
    [CHR 0xE6, CHR 0x88, CHR 0x96] @
    '' /v1/hme/*''"

text \<open>A query parameter is missing, followed by its name.\<close>

definition msg_import_query :: string where
  "msg_import_query =
    [CHR 0xE7, CHR 0xBC, CHR 0xBA, CHR 0xE5, CHR 0xB0, CHR 0x91, CHR 0xE6, CHR 0x9F,
      CHR 0xA5, CHR 0xE8, CHR 0xAF, CHR 0xA2, CHR 0xE5, CHR 0x8F, CHR 0x82, CHR 0xE6,
      CHR 0x95, CHR 0xB0, CHR 0xEF, CHR 0xBC, CHR 0x9A]"

text \<open>The cookie lacks session values, followed by their names.\<close>

definition msg_import_cookie :: string where
  "msg_import_cookie =
    ''Cookie '' @
    [CHR 0xE7, CHR 0xBC, CHR 0xBA, CHR 0xE5, CHR 0xB0, CHR 0x91, CHR 0xE5, CHR 0xBF,
      CHR 0x85, CHR 0xE8, CHR 0xA6, CHR 0x81, CHR 0xE7, CHR 0x9A, CHR 0x84] @
    '' iCloud Session '' @
    [CHR 0xE5, CHR 0x80, CHR 0xBC, CHR 0xEF, CHR 0xBC, CHR 0x9A]"

text \<open>Use Copy as cURL on the list request.\<close>

definition msg_import_hint :: string where
  "msg_import_hint =
    [CHR 0xE3, CHR 0x80, CHR 0x82, CHR 0xE8, CHR 0xAF, CHR 0xB7, CHR 0xE5, CHR 0x9C,
      CHR 0xA8] @
    '' /v2/hme/list '' @
    [CHR 0xE8, CHR 0xAF, CHR 0xB7, CHR 0xE6, CHR 0xB1, CHR 0x82, CHR 0xE4, CHR 0xB8,
      CHR 0x8A, CHR 0xE4, CHR 0xBD, CHR 0xBF, CHR 0xE7, CHR 0x94, CHR 0xA8] @
    '' Copy as cURL''"

text \<open>Enter Apple ID and password.\<close>

definition msg_login_credentials :: string where
  "msg_login_credentials =
    [CHR 0xE8, CHR 0xAF, CHR 0xB7, CHR 0xE5, CHR 0xA1, CHR 0xAB, CHR 0xE5, CHR 0x86,
      CHR 0x99] @
    '' Apple ID '' @
    [CHR 0xE5, CHR 0x92, CHR 0x8C, CHR 0xE5, CHR 0xAF, CHR 0x86, CHR 0xE7, CHR 0xA0,
      CHR 0x81]"

text \<open>A code was sent to the trusted devices.\<close>

definition msg_login_device_sent :: string where
  "msg_login_device_sent =
    [CHR 0xE5, CHR 0xB7, CHR 0xB2, CHR 0xE5, CHR 0x90, CHR 0x91, CHR 0xE5, CHR 0x8F,
      CHR 0x97, CHR 0xE4, CHR 0xBF, CHR 0xA1, CHR 0xE4, CHR 0xBB, CHR 0xBB, CHR 0xE8,
      CHR 0xAE, CHR 0xBE, CHR 0xE5, CHR 0xA4, CHR 0x87, CHR 0xE5, CHR 0x8F, CHR 0x91,
      CHR 0xE9, CHR 0x80, CHR 0x81, CHR 0xE9, CHR 0xAA, CHR 0x8C, CHR 0xE8, CHR 0xAF,
      CHR 0x81, CHR 0xE7, CHR 0xA0, CHR 0x81]"

text \<open>A code was sent to the trusted phone number.\<close>

definition msg_login_phone_sent :: string where
  "msg_login_phone_sent =
    [CHR 0xE5, CHR 0xB7, CHR 0xB2, CHR 0xE5, CHR 0x90, CHR 0x91, CHR 0xE5, CHR 0x8F,
      CHR 0x97, CHR 0xE4, CHR 0xBF, CHR 0xA1, CHR 0xE4, CHR 0xBB, CHR 0xBB, CHR 0xE6,
      CHR 0x89, CHR 0x8B, CHR 0xE6, CHR 0x9C, CHR 0xBA, CHR 0xE5, CHR 0x8F, CHR 0xB7,
      CHR 0xE5, CHR 0x8F, CHR 0x91, CHR 0xE9, CHR 0x80, CHR 0x81, CHR 0xE7, CHR 0x9F,
      CHR 0xAD, CHR 0xE4, CHR 0xBF, CHR 0xA1, CHR 0xE9, CHR 0xAA, CHR 0x8C, CHR 0xE8,
      CHR 0xAF, CHR 0x81, CHR 0xE7, CHR 0xA0, CHR 0x81]"

text \<open>Apple asks for a second factor, look at the trusted devices.\<close>

definition msg_login_look :: string where
  "msg_login_look =
    ''Apple '' @
    [CHR 0xE5, CHR 0xB7, CHR 0xB2, CHR 0xE8, CHR 0xA6, CHR 0x81, CHR 0xE6, CHR 0xB1,
      CHR 0x82, CHR 0xE4, CHR 0xBA, CHR 0x8C, CHR 0xE6, CHR 0xAC, CHR 0xA1, CHR 0xE9,
      CHR 0xAA, CHR 0x8C, CHR 0xE8, CHR 0xAF, CHR 0x81, CHR 0xEF, CHR 0xBC, CHR 0x8C,
      CHR 0xE8, CHR 0xAF, CHR 0xB7, CHR 0xE6, CHR 0x9F, CHR 0xA5, CHR 0xE7, CHR 0x9C,
      CHR 0x8B, CHR 0xE5, CHR 0x8F, CHR 0x97, CHR 0xE4, CHR 0xBF, CHR 0xA1, CHR 0xE4,
      CHR 0xBB, CHR 0xBB, CHR 0xE8, CHR 0xAE, CHR 0xBE, CHR 0xE5, CHR 0xA4, CHR 0x87]"

text \<open>Enter the code shown on the trusted device.\<close>

definition msg_login_second :: string where
  "msg_login_second =
    [CHR 0xE7, CHR 0x99, CHR 0xBB, CHR 0xE5, CHR 0xBD, CHR 0x95, CHR 0xE5, CHR 0xB7,
      CHR 0xB2, CHR 0xE8, CHR 0xBF, CHR 0x9B, CHR 0xE5, CHR 0x85, CHR 0xA5, CHR 0xE4,
      CHR 0xBA, CHR 0x8C, CHR 0xE6, CHR 0xAC, CHR 0xA1, CHR 0xE9, CHR 0xAA, CHR 0x8C,
      CHR 0xE8, CHR 0xAF, CHR 0x81, CHR 0xEF, CHR 0xBC, CHR 0x8C, CHR 0xE8, CHR 0xAF,
      CHR 0xB7, CHR 0xE8, CHR 0xBE, CHR 0x93, CHR 0xE5, CHR 0x85, CHR 0xA5, CHR 0xE5,
      CHR 0x8F, CHR 0x97, CHR 0xE4, CHR 0xBF, CHR 0xA1, CHR 0xE4, CHR 0xBB, CHR 0xBB,
      CHR 0xE8, CHR 0xAE, CHR 0xBE, CHR 0xE5, CHR 0xA4, CHR 0x87, CHR 0xE4, CHR 0xB8,
      CHR 0x8A, CHR 0xE7, CHR 0x9A, CHR 0x84, CHR 0xE9, CHR 0xAA, CHR 0x8C, CHR 0xE8,
      CHR 0xAF, CHR 0x81, CHR 0xE7, CHR 0xA0, CHR 0x81]"

text \<open>The code has six digits.\<close>

definition msg_login_code :: string where
  "msg_login_code =
    [CHR 0xE9, CHR 0xAA, CHR 0x8C, CHR 0xE8, CHR 0xAF, CHR 0x81, CHR 0xE7, CHR 0xA0,
      CHR 0x81, CHR 0xE5, CHR 0xBF, CHR 0x85, CHR 0xE9, CHR 0xA1, CHR 0xBB, CHR 0xE6,
      CHR 0x98, CHR 0xAF] @
    '' 6 '' @
    [CHR 0xE4, CHR 0xBD, CHR 0x8D, CHR 0xE6, CHR 0x95, CHR 0xB0, CHR 0xE5, CHR 0xAD,
      CHR 0x97]"

text \<open>The login has expired, start again.\<close>

definition msg_login_expired :: string where
  "msg_login_expired =
    [CHR 0xE7, CHR 0x99, CHR 0xBB, CHR 0xE5, CHR 0xBD, CHR 0x95, CHR 0xE9, CHR 0xAA,
      CHR 0x8C, CHR 0xE8, CHR 0xAF, CHR 0x81, CHR 0xE5, CHR 0xB7, CHR 0xB2, CHR 0xE8,
      CHR 0xBF, CHR 0x87, CHR 0xE6, CHR 0x9C, CHR 0x9F, CHR 0xEF, CHR 0xBC, CHR 0x8C,
      CHR 0xE8, CHR 0xAF, CHR 0xB7, CHR 0xE9, CHR 0x87, CHR 0x8D, CHR 0xE6, CHR 0x96,
      CHR 0xB0, CHR 0xE5, CHR 0xBC, CHR 0x80, CHR 0xE5, CHR 0xA7, CHR 0x8B, CHR 0xE7,
      CHR 0x99, CHR 0xBB, CHR 0xE5, CHR 0xBD, CHR 0x95]"

text \<open>Logged in to Apple Account.\<close>

definition msg_login_account_ok :: string where
  "msg_login_account_ok =
    ''Apple Account '' @
    [CHR 0xE7, CHR 0x99, CHR 0xBB, CHR 0xE5, CHR 0xBD, CHR 0x95, CHR 0xE6, CHR 0x88,
      CHR 0x90, CHR 0xE5, CHR 0x8A, CHR 0x9F]"

text \<open>Logged in to iCloud Web.\<close>

definition msg_login_web_ok :: string where
  "msg_login_web_ok =
    ''iCloud Web '' @
    [CHR 0xE7, CHR 0x99, CHR 0xBB, CHR 0xE5, CHR 0xBD, CHR 0x95, CHR 0xE6, CHR 0x88,
      CHR 0x90, CHR 0xE5, CHR 0x8A, CHR 0x9F]"

text \<open>Wrong Apple ID or password, or the account restricts the login.\<close>

definition msg_login_wrong :: string where
  "msg_login_wrong =
    ''Apple ID '' @
    [CHR 0xE6, CHR 0x88, CHR 0x96, CHR 0xE5, CHR 0xAF, CHR 0x86, CHR 0xE7, CHR 0xA0,
      CHR 0x81, CHR 0xE9, CHR 0x94, CHR 0x99, CHR 0xE8, CHR 0xAF, CHR 0xAF, CHR 0xEF,
      CHR 0xBC, CHR 0x8C, CHR 0xE6, CHR 0x88, CHR 0x96, CHR 0xE8, CHR 0xB4, CHR 0xA6,
      CHR 0xE5, CHR 0x8F, CHR 0xB7, CHR 0xE9, CHR 0x99, CHR 0x90, CHR 0xE5, CHR 0x88,
      CHR 0xB6, CHR 0xE4, CHR 0xBA, CHR 0x86, CHR 0xE5, CHR 0xBD, CHR 0x93, CHR 0xE5,
      CHR 0x89, CHR 0x8D, CHR 0xE7, CHR 0x99, CHR 0xBB, CHR 0xE5, CHR 0xBD, CHR 0x95]"

text \<open>Apple Account returned no hashcash challenge.\<close>

definition msg_hc_missing :: string where
  "msg_hc_missing =
    ''Apple Account '' @
    [CHR 0xE6, CHR 0x9C, CHR 0xAA, CHR 0xE8, CHR 0xBF, CHR 0x94, CHR 0xE5, CHR 0x9B,
      CHR 0x9E, CHR 0xE5, CHR 0x8A, CHR 0xA8, CHR 0xE6, CHR 0x80, CHR 0x81, CHR 0xE9,
      CHR 0xAA, CHR 0x8C, CHR 0xE8, CHR 0xAF, CHR 0x81, CHR 0xE6, CHR 0x8C, CHR 0x91,
      CHR 0xE6, CHR 0x88, CHR 0x98, CHR 0xEF, CHR 0xBC, CHR 0x8C, CHR 0xE8, CHR 0xAF,
      CHR 0xB7, CHR 0xE7, CHR 0xA8, CHR 0x8D, CHR 0xE5, CHR 0x90, CHR 0x8E, CHR 0xE9,
      CHR 0x87, CHR 0x8D, CHR 0xE8, CHR 0xAF, CHR 0x95]"

text \<open>The hashcash challenge is too hard.\<close>

definition msg_hc_hard :: string where
  "msg_hc_hard =
    ''Apple Account '' @
    [CHR 0xE5, CHR 0x8A, CHR 0xA8, CHR 0xE6, CHR 0x80, CHR 0x81, CHR 0xE9, CHR 0xAA,
      CHR 0x8C, CHR 0xE8, CHR 0xAF, CHR 0x81, CHR 0xE9, CHR 0x9A, CHR 0xBE, CHR 0xE5,
      CHR 0xBA, CHR 0xA6, CHR 0xE8, CHR 0xBF, CHR 0x87, CHR 0xE9, CHR 0xAB, CHR 0x98,
      CHR 0xEF, CHR 0xBC, CHR 0x8C, CHR 0xE8, CHR 0xAF, CHR 0xB7, CHR 0xE7, CHR 0xA8,
      CHR 0x8D, CHR 0xE5, CHR 0x90, CHR 0x8E, CHR 0xE9, CHR 0x87, CHR 0x8D, CHR 0xE8,
      CHR 0xAF, CHR 0x95]"

text \<open>No hashcash was found.\<close>

definition msg_hc_failed :: string where
  "msg_hc_failed =
    ''Apple Account '' @
    [CHR 0xE5, CHR 0x8A, CHR 0xA8, CHR 0xE6, CHR 0x80, CHR 0x81, CHR 0xE9, CHR 0xAA,
      CHR 0x8C, CHR 0xE8, CHR 0xAF, CHR 0x81, CHR 0xE7, CHR 0x94, CHR 0x9F, CHR 0xE6,
      CHR 0x88, CHR 0x90, CHR 0xE5, CHR 0xA4, CHR 0xB1, CHR 0xE8, CHR 0xB4, CHR 0xA5]"

text \<open>The code is wrong or has expired.\<close>

definition msg_code_wrong :: string where
  "msg_code_wrong =
    [CHR 0xE9, CHR 0xAA, CHR 0x8C, CHR 0xE8, CHR 0xAF, CHR 0x81, CHR 0xE7, CHR 0xA0,
      CHR 0x81, CHR 0xE4, CHR 0xB8, CHR 0x8D, CHR 0xE6, CHR 0xAD, CHR 0xA3, CHR 0xE7,
      CHR 0xA1, CHR 0xAE, CHR 0xE6, CHR 0x88, CHR 0x96, CHR 0xE5, CHR 0xB7, CHR 0xB2,
      CHR 0xE8, CHR 0xBF, CHR 0x87, CHR 0xE6, CHR 0x9C, CHR 0x9F]"

text \<open>The code of the short message is wrong or has expired.\<close>

definition msg_sms_wrong :: string where
  "msg_sms_wrong =
    [CHR 0xE7, CHR 0x9F, CHR 0xAD, CHR 0xE4, CHR 0xBF, CHR 0xA1, CHR 0xE9, CHR 0xAA,
      CHR 0x8C, CHR 0xE8, CHR 0xAF, CHR 0x81, CHR 0xE7, CHR 0xA0, CHR 0x81, CHR 0xE4,
      CHR 0xB8, CHR 0x8D, CHR 0xE6, CHR 0xAD, CHR 0xA3, CHR 0xE7, CHR 0xA1, CHR 0xAE,
      CHR 0xE6, CHR 0x88, CHR 0x96, CHR 0xE5, CHR 0xB7, CHR 0xB2, CHR 0xE8, CHR 0xBF,
      CHR 0x87, CHR 0xE6, CHR 0x9C, CHR 0x9F]"

text \<open>There is no trusted phone number.\<close>

definition msg_phone_missing :: string where
  "msg_phone_missing =
    [CHR 0xE6, CHR 0x9C, CHR 0xAA, CHR 0xE6, CHR 0x89, CHR 0xBE, CHR 0xE5, CHR 0x88,
      CHR 0xB0, CHR 0xE5, CHR 0x8F, CHR 0xAF, CHR 0xE7, CHR 0x94, CHR 0xA8, CHR 0xE7,
      CHR 0x9A, CHR 0x84, CHR 0xE5, CHR 0x8F, CHR 0x97, CHR 0xE4, CHR 0xBF, CHR 0xA1,
      CHR 0xE4, CHR 0xBB, CHR 0xBB, CHR 0xE6, CHR 0x89, CHR 0x8B, CHR 0xE6, CHR 0x9C,
      CHR 0xBA, CHR 0xE5, CHR 0x8F, CHR 0xB7]"

text \<open>The request to Apple failed, followed by the error.\<close>

definition msg_login_network :: string where
  "msg_login_network =
    ''Apple '' @
    [CHR 0xE7, CHR 0xBD, CHR 0x91, CHR 0xE7, CHR 0xBB, CHR 0x9C, CHR 0xE8, CHR 0xAF,
      CHR 0xB7, CHR 0xE6, CHR 0xB1, CHR 0x82, CHR 0xE5, CHR 0xA4, CHR 0xB1, CHR 0xE8,
      CHR 0xB4, CHR 0xA5] @
    '': ''"

text \<open>Apple refused the login request.\<close>

definition msg_login_refused :: string where
  "msg_login_refused =
    ''Apple '' @
    [CHR 0xE7, CHR 0x99, CHR 0xBB, CHR 0xE5, CHR 0xBD, CHR 0x95, CHR 0xE8, CHR 0xAF,
      CHR 0xB7, CHR 0xE6, CHR 0xB1, CHR 0x82, CHR 0xE8, CHR 0xA2, CHR 0xAB, CHR 0xE6,
      CHR 0x8B, CHR 0x92, CHR 0xE7, CHR 0xBB, CHR 0x9D]"

text \<open>The login service is temporarily unavailable.\<close>

definition msg_login_down :: string where
  "msg_login_down =
    ''Apple '' @
    [CHR 0xE7, CHR 0x99, CHR 0xBB, CHR 0xE5, CHR 0xBD, CHR 0x95, CHR 0xE6, CHR 0x9C,
      CHR 0x8D, CHR 0xE5, CHR 0x8A, CHR 0xA1, CHR 0xE6, CHR 0x9A, CHR 0x82, CHR 0xE6,
      CHR 0x97, CHR 0xB6, CHR 0xE4, CHR 0xB8, CHR 0x8D, CHR 0xE5, CHR 0x8F, CHR 0xAF,
      CHR 0xE7, CHR 0x94, CHR 0xA8]"

text \<open>The answer of the login service cannot be read.\<close>

definition msg_login_unreadable :: string where
  "msg_login_unreadable =
    ''Apple '' @
    [CHR 0xE7, CHR 0x99, CHR 0xBB, CHR 0xE5, CHR 0xBD, CHR 0x95, CHR 0xE6, CHR 0x8E,
      CHR 0xA5, CHR 0xE5, CHR 0x8F, CHR 0xA3, CHR 0xE8, CHR 0xBF, CHR 0x94, CHR 0xE5,
      CHR 0x9B, CHR 0x9E, CHR 0xE6, CHR 0x97, CHR 0xA0, CHR 0xE6, CHR 0xB3, CHR 0x95,
      CHR 0xE8, CHR 0xA7, CHR 0xA3, CHR 0xE6, CHR 0x9E, CHR 0x90]"

text \<open>An opening parenthesis and HTTP, before the status.\<close>

definition msg_login_http :: string where
  "msg_login_http =
    [CHR 0xEF, CHR 0xBC, CHR 0x88] @
    ''HTTP ''"

text \<open>The login returned no session token.\<close>

definition msg_token_missing :: string where
  "msg_token_missing =
    ''Apple '' @
    [CHR 0xE7, CHR 0x99, CHR 0xBB, CHR 0xE5, CHR 0xBD, CHR 0x95, CHR 0xE6, CHR 0xB2,
      CHR 0xA1, CHR 0xE6, CHR 0x9C, CHR 0x89, CHR 0xE8, CHR 0xBF, CHR 0x94, CHR 0xE5,
      CHR 0x9B, CHR 0x9E] @
    '' Session Token'' @
    [CHR 0xEF, CHR 0xBC, CHR 0x8C, CHR 0xE8, CHR 0xAF, CHR 0xB7, CHR 0xE9, CHR 0x87,
      CHR 0x8D, CHR 0xE6, CHR 0x96, CHR 0xB0, CHR 0xE5, CHR 0x8F, CHR 0x91, CHR 0xE8,
      CHR 0xB5, CHR 0xB7, CHR 0xE7, CHR 0x99, CHR 0xBB, CHR 0xE5, CHR 0xBD, CHR 0x95]"

text \<open>Validating the iCloud login failed, followed by the error.\<close>

definition msg_validate_network :: string where
  "msg_validate_network =
    ''iCloud '' @
    [CHR 0xE7, CHR 0x99, CHR 0xBB, CHR 0xE5, CHR 0xBD, CHR 0x95, CHR 0xE6, CHR 0x80,
      CHR 0x81, CHR 0xE6, CHR 0xA0, CHR 0xA1, CHR 0xE9, CHR 0xAA, CHR 0x8C, CHR 0xE5,
      CHR 0xA4, CHR 0xB1, CHR 0xE8, CHR 0xB4, CHR 0xA5] @
    '': ''"

text \<open>Validating the iCloud login failed, followed by the HTTP status.\<close>

definition msg_validate_http :: string where
  "msg_validate_http =
    ''iCloud '' @
    [CHR 0xE7, CHR 0x99, CHR 0xBB, CHR 0xE5, CHR 0xBD, CHR 0x95, CHR 0xE6, CHR 0x80,
      CHR 0x81, CHR 0xE6, CHR 0xA0, CHR 0xA1, CHR 0xE9, CHR 0xAA, CHR 0x8C, CHR 0xE5,
      CHR 0xA4, CHR 0xB1, CHR 0xE8, CHR 0xB4, CHR 0xA5, CHR 0xEF, CHR 0xBC, CHR 0x8C] @
    ''HTTP ''"

text \<open>The answer of the validation cannot be read.\<close>

definition msg_validate_unreadable :: string where
  "msg_validate_unreadable =
    ''iCloud '' @
    [CHR 0xE7, CHR 0x99, CHR 0xBB, CHR 0xE5, CHR 0xBD, CHR 0x95, CHR 0xE6, CHR 0x80,
      CHR 0x81, CHR 0xE6, CHR 0xA0, CHR 0xA1, CHR 0xE9, CHR 0xAA, CHR 0x8C, CHR 0xE8,
      CHR 0xBF, CHR 0x94, CHR 0xE5, CHR 0x9B, CHR 0x9E, CHR 0xE6, CHR 0x97, CHR 0xA0,
      CHR 0xE6, CHR 0xB3, CHR 0x95, CHR 0xE8, CHR 0xA7, CHR 0xA3, CHR 0xE6, CHR 0x9E,
      CHR 0x90]"

text \<open>The account has no service for hidden addresses.\<close>

definition msg_hme_missing :: string where
  "msg_hme_missing =
    [CHR 0xE5, CHR 0xBD, CHR 0x93, CHR 0xE5, CHR 0x89, CHR 0x8D, CHR 0xE8, CHR 0xB4,
      CHR 0xA6, CHR 0xE5, CHR 0x8F, CHR 0xB7, CHR 0xE6, CHR 0xB2, CHR 0xA1, CHR 0xE6,
      CHR 0x9C, CHR 0x89, CHR 0xE8, CHR 0xBF, CHR 0x94, CHR 0xE5, CHR 0x9B, CHR 0x9E,
      CHR 0xE9, CHR 0x9A, CHR 0x90, CHR 0xE8, CHR 0x97, CHR 0x8F, CHR 0xE9, CHR 0x82,
      CHR 0xAE, CHR 0xE4, CHR 0xBB, CHR 0xB6, CHR 0xE5, CHR 0x9C, CHR 0xB0, CHR 0xE5,
      CHR 0x9D, CHR 0x80, CHR 0xE6, CHR 0x9C, CHR 0x8D, CHR 0xE5, CHR 0x8A, CHR 0xA1]"

text \<open>The login gave no usable iCloud cookie.\<close>

definition msg_cookie_missing :: string where
  "msg_cookie_missing =
    ''Apple '' @
    [CHR 0xE7, CHR 0x99, CHR 0xBB, CHR 0xE5, CHR 0xBD, CHR 0x95, CHR 0xE6, CHR 0x88,
      CHR 0x90, CHR 0xE5, CHR 0x8A, CHR 0x9F, CHR 0xEF, CHR 0xBC, CHR 0x8C, CHR 0xE4,
      CHR 0xBD, CHR 0x86, CHR 0xE6, CHR 0x9C, CHR 0xAA, CHR 0xE7, CHR 0x94, CHR 0x9F,
      CHR 0xE6, CHR 0x88, CHR 0x90, CHR 0xE5, CHR 0x8F, CHR 0xAF, CHR 0xE7, CHR 0x94,
      CHR 0xA8, CHR 0xE7, CHR 0x9A, CHR 0x84] @
    '' iCloud Cookie''"

text \<open>No check for updates yet.\<close>

definition msg_update_never :: string where
  "msg_update_never =
    [CHR 0xE5, CHR 0xB0, CHR 0x9A, CHR 0xE6, CHR 0x9C, CHR 0xAA, CHR 0xE6, CHR 0xA3,
      CHR 0x80, CHR 0xE6, CHR 0x9F, CHR 0xA5, CHR 0xE6, CHR 0x9B, CHR 0xB4, CHR 0xE6,
      CHR 0x96, CHR 0xB0]"

text \<open>The check has been requested.\<close>

definition msg_update_checking :: string where
  "msg_update_checking =
    [CHR 0xE6, CHR 0xA3, CHR 0x80, CHR 0xE6, CHR 0x9F, CHR 0xA5, CHR 0xE8, CHR 0xAF,
      CHR 0xB7, CHR 0xE6, CHR 0xB1, CHR 0x82, CHR 0xE5, CHR 0xB7, CHR 0xB2, CHR 0xE6,
      CHR 0x8F, CHR 0x90, CHR 0xE4, CHR 0xBA, CHR 0xA4]"

text \<open>The update has been requested.\<close>

definition msg_update_queued :: string where
  "msg_update_queued =
    [CHR 0xE6, CHR 0x9B, CHR 0xB4, CHR 0xE6, CHR 0x96, CHR 0xB0, CHR 0xE8, CHR 0xAF,
      CHR 0xB7, CHR 0xE6, CHR 0xB1, CHR 0x82, CHR 0xE5, CHR 0xB7, CHR 0xB2, CHR 0xE6,
      CHR 0x8F, CHR 0x90, CHR 0xE4, CHR 0xBA, CHR 0xA4]"

text \<open>The request file for the host cannot be written.\<close>

definition msg_update_unwritable :: string where
  "msg_update_unwritable =
    [CHR 0xE6, CHR 0x97, CHR 0xA0, CHR 0xE6, CHR 0xB3, CHR 0x95, CHR 0xE5, CHR 0x86,
      CHR 0x99, CHR 0xE5, CHR 0x85, CHR 0xA5, CHR 0xE5, CHR 0xAE, CHR 0xBF, CHR 0xE4,
      CHR 0xB8, CHR 0xBB, CHR 0xE6, CHR 0x9C, CHR 0xBA, CHR 0xE6, CHR 0x9B, CHR 0xB4,
      CHR 0xE6, CHR 0x96, CHR 0xB0, CHR 0xE8, CHR 0xAF, CHR 0xB7, CHR 0xE6, CHR 0xB1,
      CHR 0x82, CHR 0xE6, CHR 0x96, CHR 0x87, CHR 0xE4, CHR 0xBB, CHR 0xB6]"

text \<open>The request could not be submitted.\<close>

definition msg_update_failed :: string where
  "msg_update_failed =
    [CHR 0xE8, CHR 0xAF, CHR 0xB7, CHR 0xE6, CHR 0xB1, CHR 0x82, CHR 0xE6, CHR 0x8F,
      CHR 0x90, CHR 0xE4, CHR 0xBA, CHR 0xA4, CHR 0xE5, CHR 0xA4, CHR 0xB1, CHR 0xE8,
      CHR 0xB4, CHR 0xA5]"

text \<open>A version task is already running.\<close>

definition msg_update_task :: string where
  "msg_update_task =
    [CHR 0xE5, CHR 0xB7, CHR 0xB2, CHR 0xE6, CHR 0x9C, CHR 0x89, CHR 0xE7, CHR 0x89,
      CHR 0x88, CHR 0xE6, CHR 0x9C, CHR 0xAC, CHR 0xE4, CHR 0xBB, CHR 0xBB, CHR 0xE5,
      CHR 0x8A, CHR 0xA1, CHR 0xE6, CHR 0xAD, CHR 0xA3, CHR 0xE5, CHR 0x9C, CHR 0xA8,
      CHR 0xE8, CHR 0xBF, CHR 0x90, CHR 0xE8, CHR 0xA1, CHR 0x8C]"

text \<open>An update is already running.\<close>

definition msg_update_running :: string where
  "msg_update_running =
    [CHR 0xE5, CHR 0xB7, CHR 0xB2, CHR 0xE6, CHR 0x9C, CHR 0x89, CHR 0xE6, CHR 0x9B,
      CHR 0xB4, CHR 0xE6, CHR 0x96, CHR 0xB0, CHR 0xE4, CHR 0xBB, CHR 0xBB, CHR 0xE5,
      CHR 0x8A, CHR 0xA1, CHR 0xE6, CHR 0xAD, CHR 0xA3, CHR 0xE5, CHR 0x9C, CHR 0xA8,
      CHR 0xE8, CHR 0xBF, CHR 0x90, CHR 0xE8, CHR 0xA1, CHR 0x8C]"

text \<open>Check for updates first.\<close>

definition msg_update_check_first :: string where
  "msg_update_check_first =
    [CHR 0xE8, CHR 0xAF, CHR 0xB7, CHR 0xE5, CHR 0x85, CHR 0x88, CHR 0xE6, CHR 0xA3,
      CHR 0x80, CHR 0xE6, CHR 0x9F, CHR 0xA5, CHR 0xE6, CHR 0x98, CHR 0xAF, CHR 0xE5,
      CHR 0x90, CHR 0xA6, CHR 0xE6, CHR 0x9C, CHR 0x89, CHR 0xE5, CHR 0x8F, CHR 0xAF,
      CHR 0xE7, CHR 0x94, CHR 0xA8, CHR 0xE6, CHR 0x9B, CHR 0xB4, CHR 0xE6, CHR 0x96,
      CHR 0xB0]"

text \<open>This is already the latest version.\<close>

definition msg_update_latest :: string where
  "msg_update_latest =
    [CHR 0xE5, CHR 0xBD, CHR 0x93, CHR 0xE5, CHR 0x89, CHR 0x8D, CHR 0xE5, CHR 0xB7,
      CHR 0xB2, CHR 0xE7, CHR 0xBB, CHR 0x8F, CHR 0xE6, CHR 0x98, CHR 0xAF, CHR 0xE6,
      CHR 0x9C, CHR 0x80, CHR 0xE6, CHR 0x96, CHR 0xB0, CHR 0xE7, CHR 0x89, CHR 0x88,
      CHR 0xE6, CHR 0x9C, CHR 0xAC]"

text \<open>Success, the end of a summary.\<close>

definition sum_success :: string where
  "sum_success =
    [CHR 0xE6, CHR 0x88, CHR 0x90, CHR 0xE5, CHR 0x8A, CHR 0x9F]"

text \<open>Failure, the end of a summary.\<close>

definition sum_failure :: string where
  "sum_failure =
    [CHR 0xE5, CHR 0xA4, CHR 0xB1, CHR 0xE8, CHR 0xB4, CHR 0xA5]"

text \<open>start must be an RFC 3339 time.\<close>

definition msg_log_start :: string where
  "msg_log_start =
    ''start '' @
    [CHR 0xE5, CHR 0xBF, CHR 0x85, CHR 0xE9, CHR 0xA1, CHR 0xBB, CHR 0xE6, CHR 0x98,
      CHR 0xAF] @
    '' RFC3339 '' @
    [CHR 0xE6, CHR 0x97, CHR 0xB6, CHR 0xE9, CHR 0x97, CHR 0xB4]"

text \<open>end must be an RFC 3339 time.\<close>

definition msg_log_end :: string where
  "msg_log_end =
    ''end '' @
    [CHR 0xE5, CHR 0xBF, CHR 0x85, CHR 0xE9, CHR 0xA1, CHR 0xBB, CHR 0xE6, CHR 0x98,
      CHR 0xAF] @
    '' RFC3339 '' @
    [CHR 0xE6, CHR 0x97, CHR 0xB6, CHR 0xE9, CHR 0x97, CHR 0xB4]"

text \<open>Reading the activity log failed.\<close>

definition msg_log_read :: string where
  "msg_log_read =
    [CHR 0xE8, CHR 0xAF, CHR 0xBB, CHR 0xE5, CHR 0x8F, CHR 0x96, CHR 0xE4, CHR 0xBD,
      CHR 0xBF, CHR 0xE7, CHR 0x94, CHR 0xA8, CHR 0xE6, CHR 0x97, CHR 0xA5, CHR 0xE5,
      CHR 0xBF, CHR 0x97, CHR 0xE5, CHR 0xA4, CHR 0xB1, CHR 0xE8, CHR 0xB4, CHR 0xA5]"

text \<open>Clearing the activity log failed.\<close>

definition msg_log_clear :: string where
  "msg_log_clear =
    [CHR 0xE6, CHR 0xB8, CHR 0x85, CHR 0xE7, CHR 0x90, CHR 0x86, CHR 0xE4, CHR 0xBD,
      CHR 0xBF, CHR 0xE7, CHR 0x94, CHR 0xA8, CHR 0xE6, CHR 0x97, CHR 0xA5, CHR 0xE5,
      CHR 0xBF, CHR 0x97, CHR 0xE5, CHR 0xA4, CHR 0xB1, CHR 0xE8, CHR 0xB4, CHR 0xA5]"

text \<open>The identifier is invalid.\<close>

definition msg_uid_invalid :: string where
  "msg_uid_invalid =
    ''uid '' @
    [CHR 0xE6, CHR 0x97, CHR 0xA0, CHR 0xE6, CHR 0x95, CHR 0x88]"

text \<open>There must be 1 to 200 messages.\<close>

definition msg_batch_messages :: string where
  "msg_batch_messages =
    ''messages '' @
    [CHR 0xE6, CHR 0x95, CHR 0xB0, CHR 0xE9, CHR 0x87, CHR 0x8F, CHR 0xE5, CHR 0xBF,
      CHR 0x85, CHR 0xE9, CHR 0xA1, CHR 0xBB, CHR 0xE4, CHR 0xB8, CHR 0xBA] @
    '' 1 '' @
    [CHR 0xE5, CHR 0x88, CHR 0xB0] @
    '' 200''"

text \<open>Clearing the mailbox cache failed.\<close>

definition msg_clear_failed :: string where
  "msg_clear_failed =
    [CHR 0xE6, CHR 0xB8, CHR 0x85, CHR 0xE7, CHR 0x90, CHR 0x86, CHR 0xE6, CHR 0x94,
      CHR 0xB6, CHR 0xE4, CHR 0xBB, CHR 0xB6, CHR 0xE7, CHR 0xAE, CHR 0xB1, CHR 0xE7,
      CHR 0xBC, CHR 0x93, CHR 0xE5, CHR 0xAD, CHR 0x98, CHR 0xE5, CHR 0xA4, CHR 0xB1,
      CHR 0xE8, CHR 0xB4, CHR 0xA5]"

text \<open>The old share addresses are no longer in use.\<close>

definition msg_share_removed :: string where
  "msg_share_removed =
    [CHR 0xE6, CHR 0x97, CHR 0xA7, CHR 0xE7, CHR 0x89, CHR 0x88] @
    '' /share '' @
    [CHR 0xE5, CHR 0x88, CHR 0x86, CHR 0xE4, CHR 0xBA, CHR 0xAB, CHR 0xE5, CHR 0x9C,
      CHR 0xB0, CHR 0xE5, CHR 0x9D, CHR 0x80, CHR 0xE5, CHR 0xB7, CHR 0xB2, CHR 0xE5,
      CHR 0x81, CHR 0x9C, CHR 0xE7, CHR 0x94, CHR 0xA8, CHR 0xEF, CHR 0xBC, CHR 0x8C,
      CHR 0xE8, CHR 0xAF, CHR 0xB7, CHR 0xE4, CHR 0xBD, CHR 0xBF, CHR 0xE7, CHR 0x94,
      CHR 0xA8] @
    '' /mail?email=...&token=...''"

text \<open>The token is malformed.\<close>

definition msg_share_token :: string where
  "msg_share_token =
    [CHR 0xE4, CHR 0xBB, CHR 0xA4, CHR 0xE7, CHR 0x89, CHR 0x8C, CHR 0xE6, CHR 0xA0,
      CHR 0xBC, CHR 0xE5, CHR 0xBC, CHR 0x8F, CHR 0xE6, CHR 0x97, CHR 0xA0, CHR 0xE6,
      CHR 0x95, CHR 0x88]"

text \<open>The share link has expired or been revoked.\<close>

definition msg_share_gone :: string where
  "msg_share_gone =
    [CHR 0xE5, CHR 0x88, CHR 0x86, CHR 0xE4, CHR 0xBA, CHR 0xAB, CHR 0xE9, CHR 0x93,
      CHR 0xBE, CHR 0xE6, CHR 0x8E, CHR 0xA5, CHR 0xE5, CHR 0xB7, CHR 0xB2, CHR 0xE8,
      CHR 0xBF, CHR 0x87, CHR 0xE6, CHR 0x9C, CHR 0x9F, CHR 0xE6, CHR 0x88, CHR 0x96,
      CHR 0xE5, CHR 0xB7, CHR 0xB2, CHR 0xE6, CHR 0x92, CHR 0xA4, CHR 0xE9, CHR 0x94,
      CHR 0x80]"

text \<open>The share link has expired.\<close>

definition msg_share_expired :: string where
  "msg_share_expired =
    [CHR 0xE5, CHR 0x88, CHR 0x86, CHR 0xE4, CHR 0xBA, CHR 0xAB, CHR 0xE9, CHR 0x93,
      CHR 0xBE, CHR 0xE6, CHR 0x8E, CHR 0xA5, CHR 0xE5, CHR 0xB7, CHR 0xB2, CHR 0xE8,
      CHR 0xBF, CHR 0x87, CHR 0xE6, CHR 0x9C, CHR 0x9F]"

text \<open>The share link is invalid.\<close>

definition msg_share_invalid :: string where
  "msg_share_invalid =
    [CHR 0xE5, CHR 0x88, CHR 0x86, CHR 0xE4, CHR 0xBA, CHR 0xAB, CHR 0xE9, CHR 0x93,
      CHR 0xBE, CHR 0xE6, CHR 0x8E, CHR 0xA5, CHR 0xE6, CHR 0x97, CHR 0xA0, CHR 0xE6,
      CHR 0x95, CHR 0x88]"

text \<open>The share link is invalid or has expired.\<close>

definition msg_share_invalid_expired :: string where
  "msg_share_invalid_expired =
    [CHR 0xE5, CHR 0x88, CHR 0x86, CHR 0xE4, CHR 0xBA, CHR 0xAB, CHR 0xE9, CHR 0x93,
      CHR 0xBE, CHR 0xE6, CHR 0x8E, CHR 0xA5, CHR 0xE6, CHR 0x97, CHR 0xA0, CHR 0xE6,
      CHR 0x95, CHR 0x88, CHR 0xE6, CHR 0x88, CHR 0x96, CHR 0xE5, CHR 0xB7, CHR 0xB2,
      CHR 0xE8, CHR 0xBF, CHR 0x87, CHR 0xE6, CHR 0x9C, CHR 0x9F]"

text \<open>The share link does not belong to the address.\<close>

definition msg_share_mismatch :: string where
  "msg_share_mismatch =
    [CHR 0xE5, CHR 0x88, CHR 0x86, CHR 0xE4, CHR 0xBA, CHR 0xAB, CHR 0xE9, CHR 0x93,
      CHR 0xBE, CHR 0xE6, CHR 0x8E, CHR 0xA5, CHR 0xE4, CHR 0xB8, CHR 0x8E, CHR 0xE9,
      CHR 0x82, CHR 0xAE, CHR 0xE7, CHR 0xAE, CHR 0xB1, CHR 0xE4, CHR 0xB8, CHR 0x8D,
      CHR 0xE5, CHR 0x8C, CHR 0xB9, CHR 0xE9, CHR 0x85, CHR 0x8D]"

text \<open>There is no mail for this address yet.\<close>

definition msg_share_empty :: string where
  "msg_share_empty =
    [CHR 0xE8, CHR 0xAF, CHR 0xA5, CHR 0xE9, CHR 0x82, CHR 0xAE, CHR 0xE7, CHR 0xAE,
      CHR 0xB1, CHR 0xE6, CHR 0x9A, CHR 0x82, CHR 0xE6, CHR 0x97, CHR 0xA0, CHR 0xE9,
      CHR 0x82, CHR 0xAE, CHR 0xE4, CHR 0xBB, CHR 0xB6]"

text \<open>limit must be an integer from 1 to 100.\<close>

definition msg_share_limit :: string where
  "msg_share_limit =
    ''limit '' @
    [CHR 0xE5, CHR 0xBF, CHR 0x85, CHR 0xE9, CHR 0xA1, CHR 0xBB, CHR 0xE6, CHR 0x98,
      CHR 0xAF] @
    '' 1 '' @
    [CHR 0xE5, CHR 0x88, CHR 0xB0] @
    '' 100 '' @
    [CHR 0xE4, CHR 0xB9, CHR 0x8B, CHR 0xE9, CHR 0x97, CHR 0xB4, CHR 0xE7, CHR 0x9A,
      CHR 0x84, CHR 0xE6, CHR 0x95, CHR 0xB4, CHR 0xE6, CHR 0x95, CHR 0xB0]"

text \<open>revision must be a natural number.\<close>

definition msg_share_revision :: string where
  "msg_share_revision =
    ''revision '' @
    [CHR 0xE5, CHR 0xBF, CHR 0x85, CHR 0xE9, CHR 0xA1, CHR 0xBB, CHR 0xE6, CHR 0x98,
      CHR 0xAF, CHR 0xE9, CHR 0x9D, CHR 0x9E, CHR 0xE8, CHR 0xB4, CHR 0x9F, CHR 0xE6,
      CHR 0x95, CHR 0xB4, CHR 0xE6, CHR 0x95, CHR 0xB0]"

text \<open>timeout must be an integer from 1 to 30.\<close>

definition msg_share_timeout :: string where
  "msg_share_timeout =
    ''timeout '' @
    [CHR 0xE5, CHR 0xBF, CHR 0x85, CHR 0xE9, CHR 0xA1, CHR 0xBB, CHR 0xE6, CHR 0x98,
      CHR 0xAF] @
    '' 1 '' @
    [CHR 0xE5, CHR 0x88, CHR 0xB0] @
    '' 30 '' @
    [CHR 0xE4, CHR 0xB9, CHR 0x8B, CHR 0xE9, CHR 0x97, CHR 0xB4, CHR 0xE7, CHR 0x9A,
      CHR 0x84, CHR 0xE6, CHR 0x95, CHR 0xB4, CHR 0xE6, CHR 0x95, CHR 0xB0]"

text \<open>The hidden address was not found.\<close>

definition msg_alias_missing :: string where
  "msg_alias_missing =
    [CHR 0xE6, CHR 0x9C, CHR 0xAA, CHR 0xE6, CHR 0x89, CHR 0xBE, CHR 0xE5, CHR 0x88,
      CHR 0xB0, CHR 0xE8, CHR 0xAF, CHR 0xA5, CHR 0xE9, CHR 0x9A, CHR 0x90, CHR 0xE8,
      CHR 0x97, CHR 0x8F, CHR 0xE9, CHR 0x82, CHR 0xAE, CHR 0xE7, CHR 0xAE, CHR 0xB1]"

text \<open>A deactivated address cannot be shared.\<close>

definition msg_alias_inactive :: string where
  "msg_alias_inactive =
    [CHR 0xE5, CHR 0x81, CHR 0x9C, CHR 0xE7, CHR 0x94, CHR 0xA8, CHR 0xE7, CHR 0x9A,
      CHR 0x84, CHR 0xE9, CHR 0x9A, CHR 0x90, CHR 0xE8, CHR 0x97, CHR 0x8F, CHR 0xE9,
      CHR 0x82, CHR 0xAE, CHR 0xE7, CHR 0xAE, CHR 0xB1, CHR 0xE4, CHR 0xB8, CHR 0x8D,
      CHR 0xE8, CHR 0x83, CHR 0xBD, CHR 0xE7, CHR 0x94, CHR 0x9F, CHR 0xE6, CHR 0x88,
      CHR 0x90, CHR 0xE5, CHR 0x88, CHR 0x86, CHR 0xE4, CHR 0xBA, CHR 0xAB, CHR 0xE9,
      CHR 0x93, CHR 0xBE, CHR 0xE6, CHR 0x8E, CHR 0xA5]"

text \<open>count must be an integer from 1 to 750.\<close>

definition msg_batch_count :: string where
  "msg_batch_count =
    ''count '' @
    [CHR 0xE5, CHR 0xBF, CHR 0x85, CHR 0xE9, CHR 0xA1, CHR 0xBB, CHR 0xE6, CHR 0x98,
      CHR 0xAF] @
    '' 1 '' @
    [CHR 0xE5, CHR 0x88, CHR 0xB0] @
    '' 750 '' @
    [CHR 0xE4, CHR 0xB9, CHR 0x8B, CHR 0xE9, CHR 0x97, CHR 0xB4, CHR 0xE7, CHR 0x9A,
      CHR 0x84, CHR 0xE6, CHR 0x95, CHR 0xB4, CHR 0xE6, CHR 0x95, CHR 0xB0]"

text \<open>scope must be all, gpt_registered or gpt_unregistered.\<close>

definition msg_batch_scope :: string where
  "msg_batch_scope =
    ''scope '' @
    [CHR 0xE5, CHR 0xBF, CHR 0x85, CHR 0xE9, CHR 0xA1, CHR 0xBB, CHR 0xE6, CHR 0x98,
      CHR 0xAF] @
    '' all'' @
    [CHR 0xE3, CHR 0x80, CHR 0x81] @
    ''gpt_registered '' @
    [CHR 0xE6, CHR 0x88, CHR 0x96] @
    '' gpt_unregistered''"

text \<open>Reading the applications of the addresses failed.\<close>

definition msg_apps_failed :: string where
  "msg_apps_failed =
    [CHR 0xE8, CHR 0xAF, CHR 0xBB, CHR 0xE5, CHR 0x8F, CHR 0x96, CHR 0xE9, CHR 0x82,
      CHR 0xAE, CHR 0xE7, CHR 0xAE, CHR 0xB1, CHR 0xE5, CHR 0xBA, CHR 0x94, CHR 0xE7,
      CHR 0x94, CHR 0xA8, CHR 0xE7, CHR 0x8A, CHR 0xB6, CHR 0xE6, CHR 0x80, CHR 0x81,
      CHR 0xE5, CHR 0xA4, CHR 0xB1, CHR 0xE8, CHR 0xB4, CHR 0xA5]"

text \<open>Active addresses.\<close>

definition word_aliases :: string where
  "word_aliases =
    [CHR 0xE5, CHR 0x90, CHR 0xAF, CHR 0xE7, CHR 0x94, CHR 0xA8, CHR 0xE9, CHR 0x82,
      CHR 0xAE, CHR 0xE7, CHR 0xAE, CHR 0xB1]"

text \<open>Active addresses registered with GPT.\<close>

definition word_aliases_gpt :: string where
  "word_aliases_gpt =
    [CHR 0xE5, CHR 0xB7, CHR 0xB2, CHR 0xE6, CHR 0xB3, CHR 0xA8, CHR 0xE5, CHR 0x86,
      CHR 0x8C] @
    '' GPT '' @
    [CHR 0xE7, CHR 0x9A, CHR 0x84, CHR 0xE5, CHR 0x90, CHR 0xAF, CHR 0xE7, CHR 0x94,
      CHR 0xA8, CHR 0xE9, CHR 0x82, CHR 0xAE, CHR 0xE7, CHR 0xAE, CHR 0xB1]"

text \<open>Active addresses not registered with GPT.\<close>

definition word_aliases_no_gpt :: string where
  "word_aliases_no_gpt =
    [CHR 0xE6, CHR 0x9C, CHR 0xAA, CHR 0xE6, CHR 0xB3, CHR 0xA8, CHR 0xE5, CHR 0x86,
      CHR 0x8C] @
    '' GPT '' @
    [CHR 0xE7, CHR 0x9A, CHR 0x84, CHR 0xE5, CHR 0x90, CHR 0xAF, CHR 0xE7, CHR 0x94,
      CHR 0xA8, CHR 0xE9, CHR 0x82, CHR 0xAE, CHR 0xE7, CHR 0xAE, CHR 0xB1]"

text \<open>Only, followed by a number.\<close>

definition msg_batch_only :: string where
  "msg_batch_only =
    [CHR 0xE5, CHR 0x8F, CHR 0xAA, CHR 0xE6, CHR 0x9C, CHR 0x89] @
    '' ''"

text \<open>Of them, cannot create, followed by a number.\<close>

definition msg_batch_of :: string where
  "msg_batch_of =
    '' '' @
    [CHR 0xE4, CHR 0xB8, CHR 0xAA, CHR 0xEF, CHR 0xBC, CHR 0x8C, CHR 0xE6, CHR 0x97,
      CHR 0xA0, CHR 0xE6, CHR 0xB3, CHR 0x95, CHR 0xE7, CHR 0x94, CHR 0x9F, CHR 0xE6,
      CHR 0x88, CHR 0x90] @
    '' ''"

text \<open>Links.\<close>

definition msg_batch_links :: string where
  "msg_batch_links =
    '' '' @
    [CHR 0xE4, CHR 0xB8, CHR 0xAA, CHR 0xE5, CHR 0x8F, CHR 0x96, CHR 0xE4, CHR 0xBB,
      CHR 0xB6, CHR 0xE9, CHR 0x93, CHR 0xBE, CHR 0xE6, CHR 0x8E, CHR 0xA5]"

text \<open>There is no share link to revoke.\<close>

definition msg_revoke_missing :: string where
  "msg_revoke_missing =
    [CHR 0xE6, CHR 0x9C, CHR 0xAA, CHR 0xE6, CHR 0x89, CHR 0xBE, CHR 0xE5, CHR 0x88,
      CHR 0xB0, CHR 0xE5, CHR 0x8F, CHR 0xAF, CHR 0xE6, CHR 0x92, CHR 0xA4, CHR 0xE9,
      CHR 0x94, CHR 0x80, CHR 0xE7, CHR 0x9A, CHR 0x84, CHR 0xE5, CHR 0x88, CHR 0x86,
      CHR 0xE4, CHR 0xBA, CHR 0xAB, CHR 0xE9, CHR 0x93, CHR 0xBE, CHR 0xE6, CHR 0x8E,
      CHR 0xA5]"

text \<open>Clearing inactive share records failed.\<close>

definition msg_share_clear_failed :: string where
  "msg_share_clear_failed =
    [CHR 0xE6, CHR 0xB8, CHR 0x85, CHR 0xE7, CHR 0x90, CHR 0x86, CHR 0xE5, CHR 0xA4,
      CHR 0xB1, CHR 0xE6, CHR 0x95, CHR 0x88, CHR 0xE5, CHR 0x88, CHR 0x86, CHR 0xE4,
      CHR 0xBA, CHR 0xAB, CHR 0xE8, CHR 0xAE, CHR 0xB0, CHR 0xE5, CHR 0xBD, CHR 0x95,
      CHR 0xE5, CHR 0xA4, CHR 0xB1, CHR 0xE8, CHR 0xB4, CHR 0xA5]"

text \<open>A background creation is running, try again later.\<close>

definition msg_create_busy :: string where
  "msg_create_busy =
    [CHR 0xE5, CHR 0x90, CHR 0x8E, CHR 0xE5, CHR 0x8F, CHR 0xB0, CHR 0xE5, CHR 0x88,
      CHR 0x9B, CHR 0xE5, CHR 0xBB, CHR 0xBA, CHR 0xE4, CHR 0xBB, CHR 0xBB, CHR 0xE5,
      CHR 0x8A, CHR 0xA1, CHR 0xE6, CHR 0xAD, CHR 0xA3, CHR 0xE5, CHR 0x9C, CHR 0xA8,
      CHR 0xE6, CHR 0x89, CHR 0xA7, CHR 0xE8, CHR 0xA1, CHR 0x8C, CHR 0xEF, CHR 0xBC,
      CHR 0x8C, CHR 0xE8, CHR 0xAF, CHR 0xB7, CHR 0xE7, CHR 0xA8, CHR 0x8D, CHR 0xE5,
      CHR 0x90, CHR 0x8E, CHR 0xE5, CHR 0x86, CHR 0x8D, CHR 0xE8, CHR 0xAF, CHR 0x95]"

text \<open>The batch queue is bound to another iCloud account.\<close>

definition msg_import_mismatch :: string where
  "msg_import_mismatch =
    [CHR 0xE5, CHR 0xBD, CHR 0x93, CHR 0xE5, CHR 0x89, CHR 0x8D, CHR 0xE6, CHR 0x89,
      CHR 0xB9, CHR 0xE9, CHR 0x87, CHR 0x8F, CHR 0xE9, CHR 0x98, CHR 0x9F, CHR 0xE5,
      CHR 0x88, CHR 0x97, CHR 0xE7, CHR 0xBB, CHR 0x91, CHR 0xE5, CHR 0xAE, CHR 0x9A,
      CHR 0xE4, CHR 0xBA, CHR 0x86, CHR 0xE5, CHR 0x8F, CHR 0xA6, CHR 0xE4, CHR 0xB8,
      CHR 0x80, CHR 0xE4, CHR 0xB8, CHR 0xAA] @
    '' iCloud '' @
    [CHR 0xE8, CHR 0xB4, CHR 0xA6, CHR 0xE5, CHR 0x8F, CHR 0xB7, CHR 0xEF, CHR 0xBC,
      CHR 0x8C, CHR 0xE8, CHR 0xAF, CHR 0xB7, CHR 0xE5, CHR 0xAE, CHR 0x8C, CHR 0xE6,
      CHR 0x88, CHR 0x90, CHR 0xE6, CHR 0x88, CHR 0x96, CHR 0xE5, CHR 0x8F, CHR 0x96,
      CHR 0xE6, CHR 0xB6, CHR 0x88, CHR 0xE9, CHR 0x98, CHR 0x9F, CHR 0xE5, CHR 0x88,
      CHR 0x97, CHR 0xE5, CHR 0x90, CHR 0x8E, CHR 0xE5, CHR 0x86, CHR 0x8D, CHR 0xE5,
      CHR 0x88, CHR 0x87, CHR 0xE6, CHR 0x8D, CHR 0xA2] @
    '' Session''"

end
