(* ===== verification/GoUrl.thy ===== *)
theory GoUrl
  imports GoText
begin

text \<open>
  URLs as \<open>net/url\<close> of Go 1.24 reads and prints them: \<open>url.Parse\<close>, \<open>URL.String\<close>, \<open>URL.Hostname\<close>,
  \<open>URL.Port\<close> and \<open>URL.Query\<close>, on byte strings.
\<close>

section \<open>Escaping\<close>

datatype url_mode = InPath | InSegment | InHost | InZone | InUser | InQuery | InFragment

definition should_escape :: "url_mode \<Rightarrow> char \<Rightarrow> bool" where
  "should_escape mode c =
     (if is_alnum c then False
      else if (mode = InHost \<or> mode = InZone) \<and> (c \<in> set ''!$&()*+,;=:[]<>'' \<or> c = CHR 0x27 \<or> c = CHR 0x22) then False
      else if c \<in> set ''-_.~'' then False
      else if c \<in> set ''$&+,/:;=?@'' then
        (case mode of
           InPath \<Rightarrow> c = CHR ''?''
         | InSegment \<Rightarrow> c \<in> set ''/;,?''
         | InUser \<Rightarrow> c \<in> set ''@/?:''
         | InQuery \<Rightarrow> True
         | InFragment \<Rightarrow> False
         | _ \<Rightarrow> True)
      else \<not> (mode = InFragment \<and> c \<in> set ''!()*''))"

definition percent :: "char \<Rightarrow> string" where
  "percent c = [CHR ''%'', hex_digit (of_char c div 16), hex_digit (of_char c mod 16)]"

definition url_escape :: "url_mode \<Rightarrow> string \<Rightarrow> string" where
  "url_escape mode s =
     concat (map (\<lambda>c. if c = CHR '' '' \<and> mode = InQuery then ''+'' else if should_escape mode c then percent c else [c]) s)"

definition is_hex :: "char \<Rightarrow> bool" where
  "is_hex c = (let n = of_char c :: nat in (48 \<le> n \<and> n \<le> 57) \<or> (65 \<le> n \<and> n \<le> 70) \<or> (97 \<le> n \<and> n \<le> 102))"

definition unhex :: "char \<Rightarrow> nat" where
  "unhex c = (let n = of_char c :: nat in if n \<le> 57 then n - 48 else if n \<le> 70 then n - 55 else n - 87)"

text \<open>An escape sequence that the mode allows.\<close>

definition escape_ok :: "url_mode \<Rightarrow> char \<Rightarrow> char \<Rightarrow> bool" where
  "escape_ok mode a b \<longleftrightarrow> is_hex a \<and> is_hex b \<and>
     (mode = InHost \<longrightarrow> unhex a < 8 \<longrightarrow> a = CHR ''2'' \<and> b = CHR ''5'') \<and>
     (mode = InZone \<longrightarrow> a = CHR ''2'' \<and> b = CHR ''5'' \<or> (let v = char_of (unhex a * 16 + unhex b) in
        v = CHR '' '' \<or> \<not> should_escape InHost v))"

fun url_unescape :: "url_mode \<Rightarrow> string \<Rightarrow> string option" where
  "url_unescape mode [] = Some []"
| "url_unescape mode (c # s) =
     (if c = CHR ''%'' then
        (case s of
           a # b # r \<Rightarrow>
             (if escape_ok mode a b then map_option (Cons (char_of (unhex a * 16 + unhex b))) (url_unescape mode r) else None)
         | _ \<Rightarrow> None)
      else if (mode = InHost \<or> mode = InZone) \<and> (of_char c :: nat) < 128 \<and> should_escape mode c then None
      else map_option (Cons (if c = CHR ''+'' \<and> mode = InQuery then CHR '' '' else c)) (url_unescape mode s))"

section \<open>Parsing\<close>

record url =
  u_scheme :: string
  u_opaque :: string
  u_user :: "(string \<times> string option) option"
  u_host :: string
  u_path :: string
  u_raw_path :: string
  u_omit_host :: bool
  u_force_query :: bool
  u_raw_query :: string
  u_fragment :: string
  u_raw_fragment :: string

definition control_byte :: "char \<Rightarrow> bool" where
  "control_byte c \<longleftrightarrow> (of_char c :: nat) < 32 \<or> (of_char c :: nat) = 127"

definition is_letter :: "char \<Rightarrow> bool" where
  "is_letter c \<longleftrightarrow> is_alnum c \<and> \<not> is_digit c"

text \<open>The scheme and the rest; \<^const>\<open>None\<close> when the text starts with a colon.\<close>

fun scheme_from :: "string \<Rightarrow> string \<Rightarrow> string \<Rightarrow> (string \<times> string) option" where
  "scheme_from raw seen [] = Some ([], raw)"
| "scheme_from raw seen (c # s) =
     (if is_letter c then scheme_from raw (seen @ [c]) s
      else if is_digit c \<or> c \<in> set ''+-.'' then (if seen = [] then Some ([], raw) else scheme_from raw (seen @ [c]) s)
      else if c = CHR '':'' then (if seen = [] then None else Some (seen, s))
      else Some ([], raw))"

definition get_scheme :: "string \<Rightarrow> (string \<times> string) option" where
  "get_scheme raw = scheme_from raw [] raw"

definition optional_port :: "string \<Rightarrow> bool" where
  "optional_port p \<longleftrightarrow> p = [] \<or> hd p = CHR '':'' \<and> list_all is_digit (tl p)"

fun last_byte :: "string \<Rightarrow> char \<Rightarrow> nat option" where
  "last_byte [] c = None"
| "last_byte (x # s) c = (case last_byte s c of Some n \<Rightarrow> Some (Suc n) | None \<Rightarrow> if x = c then Some 0 else None)"

definition userinfo_char :: "char \<Rightarrow> bool" where
  "userinfo_char c \<longleftrightarrow> is_alnum c \<or> c \<in> set ''-._:~!$&()*+,;=%@'' \<or> c = CHR 0x27"

definition append_option :: "string option \<Rightarrow> string option \<Rightarrow> string option" where
  "append_option a b = (case (a, b) of (Some x, Some y) \<Rightarrow> Some (x @ y) | _ \<Rightarrow> None)"

definition parse_host :: "string \<Rightarrow> string option" where
  "parse_host host =
     (if has_prefix host ''['' then
        (case last_byte host (CHR '']'') of
           None \<Rightarrow> None
         | Some i \<Rightarrow>
             (if \<not> optional_port (drop (Suc i) host) then None
              else
                (case str_index (take i host) ''%25'' of
                   Some z \<Rightarrow>
                     append_option (url_unescape InHost (take z host))
                       (append_option (url_unescape InZone (drop z (take i host))) (url_unescape InHost (drop i host)))
                 | None \<Rightarrow> url_unescape InHost host)))
      else
        (case last_byte host (CHR '':'') of
           Some i \<Rightarrow> if \<not> optional_port (drop i host) then None else url_unescape InHost host
         | None \<Rightarrow> url_unescape InHost host))"

definition parse_user :: "string \<Rightarrow> (string \<times> string option) option" where
  "parse_user info =
     (if \<not> list_all userinfo_char info then None
      else
        (case cut_byte info (CHR '':'') of
           (_, _, False) \<Rightarrow> map_option (\<lambda>u. (u, None)) (url_unescape InUser info)
         | (user, password, True) \<Rightarrow>
             (case (url_unescape InUser user, url_unescape InUser password) of
                (Some u, Some p) \<Rightarrow> Some (u, Some p)
              | _ \<Rightarrow> None)))"

definition parse_authority :: "string \<Rightarrow> ((string \<times> string option) option \<times> string) option" where
  "parse_authority authority =
     (case last_byte authority (CHR ''@'') of
        None \<Rightarrow> map_option (\<lambda>h. (None, h)) (parse_host authority)
      | Some i \<Rightarrow>
          (case (parse_host (drop (Suc i) authority), parse_user (take i authority)) of
             (Some h, Some u) \<Rightarrow> Some (Some u, h)
           | _ \<Rightarrow> None))"

definition empty_url :: url where
  "empty_url = \<lparr>u_scheme = [], u_opaque = [], u_user = None, u_host = [], u_path = [], u_raw_path = [], u_omit_host = False,
     u_force_query = False, u_raw_query = [], u_fragment = [], u_raw_fragment = []\<rparr>"

definition set_path :: "string \<Rightarrow> url \<Rightarrow> url option" where
  "set_path p u =
     map_option (\<lambda>path. u\<lparr>u_path := path, u_raw_path := (if url_escape InPath path = p then [] else p)\<rparr>) (url_unescape InPath p)"

definition set_fragment :: "string \<Rightarrow> url \<Rightarrow> url option" where
  "set_fragment f u =
     map_option (\<lambda>frag. u\<lparr>u_fragment := frag, u_raw_fragment := (if url_escape InFragment frag = f then [] else f)\<rparr>)
       (url_unescape InFragment f)"

definition cut_query :: "string \<Rightarrow> string \<times> string \<times> bool" where
  "cut_query rest =
     (if has_suffix rest ''?'' \<and> CHR ''?'' \<notin> set (butlast rest) then (butlast rest, [], True)
      else (let (front, after, _) = cut_byte rest (CHR ''?'') in (front, after, False)))"

definition parse_before_fragment :: "string \<Rightarrow> url option" where
  "parse_before_fragment raw =
     (if list_ex control_byte raw then None
      else if raw = ''*'' then Some (empty_url\<lparr>u_path := ''*''\<rparr>)
      else
        (case get_scheme raw of
           None \<Rightarrow> None
         | Some (scheme, rest) \<Rightarrow>
             (let scheme = to_lower scheme; (rest, query, force) = cut_query rest;
                  u = empty_url\<lparr>u_scheme := scheme, u_raw_query := query, u_force_query := force\<rparr> in
              if \<not> has_prefix rest ''/'' \<and> scheme \<noteq> [] then Some (u\<lparr>u_opaque := rest\<rparr>)
              else if \<not> has_prefix rest ''/'' \<and> CHR '':'' \<in> set (fst (cut_byte rest (CHR ''/''))) then None
              else if (scheme \<noteq> [] \<or> \<not> has_prefix rest ''///'') \<and> has_prefix rest ''//'' then
                (let authority = takeWhile (\<lambda>c. c \<noteq> CHR ''/'') (drop 2 rest); path = dropWhile (\<lambda>c. c \<noteq> CHR ''/'') (drop 2 rest) in
                 (case parse_authority authority of
                    None \<Rightarrow> None
                  | Some (user, host) \<Rightarrow> set_path path (u\<lparr>u_user := user, u_host := host\<rparr>)))
              else set_path rest (if scheme \<noteq> [] \<and> has_prefix rest ''/'' then u\<lparr>u_omit_host := True\<rparr> else u))))"

definition parse_url :: "string \<Rightarrow> url option" where
  "parse_url raw =
     (let (front, frag, _) = cut_byte raw (CHR ''#'') in
      case parse_before_fragment front of
        None \<Rightarrow> None
      | Some u \<Rightarrow> if frag = [] then Some u else set_fragment frag u)"

section \<open>Host and port\<close>

definition split_host_port :: "string \<Rightarrow> string \<times> string" where
  "split_host_port hp =
     (let (host, port) = (case last_byte hp (CHR '':'') of
            Some i \<Rightarrow> if optional_port (drop i hp) then (take i hp, drop (Suc i) hp) else (hp, [])
          | None \<Rightarrow> (hp, []))
      in (if has_prefix host ''['' \<and> has_suffix host '']'' \<and> 2 \<le> length host then butlast (tl host) else host, port))"

definition url_hostname :: "url \<Rightarrow> string" where
  "url_hostname u = fst (split_host_port (u_host u))"

definition url_port :: "url \<Rightarrow> string" where
  "url_port u = snd (split_host_port (u_host u))"

text \<open>\<open>Query().Get(name)\<close>: pairs that cannot be decoded are left out, the first value counts.\<close>

definition query_pair :: "string \<Rightarrow> (string \<times> string) option" where
  "query_pair p =
     (if CHR '';'' \<in> set p \<or> p = [] then None
      else
        (let (k, v, _) = cut_byte p (CHR ''='') in
         (case (url_unescape InQuery k, url_unescape InQuery v) of
            (Some a, Some b) \<Rightarrow> Some (a, b)
          | _ \<Rightarrow> None)))"

definition url_query :: "url \<Rightarrow> string \<Rightarrow> string" where
  "url_query u name =
     (case map_of (List.map_filter query_pair (split_byte (u_raw_query u) (CHR ''&''))) name of
        None \<Rightarrow> [] | Some v \<Rightarrow> v)"

section \<open>Printing\<close>

definition valid_encoded :: "url_mode \<Rightarrow> string \<Rightarrow> bool" where
  "valid_encoded mode s = list_all (\<lambda>c. c \<in> set ''!$&()*+,;=:@[]%'' \<or> c = CHR 0x27 \<or> \<not> should_escape mode c) s"

definition escaped_path :: "url \<Rightarrow> string" where
  "escaped_path u =
     (if u_raw_path u \<noteq> [] \<and> valid_encoded InPath (u_raw_path u) \<and> url_unescape InPath (u_raw_path u) = Some (u_path u)
      then u_raw_path u else if u_path u = ''*'' then ''*'' else url_escape InPath (u_path u))"

definition escaped_fragment :: "url \<Rightarrow> string" where
  "escaped_fragment u =
     (if u_raw_fragment u \<noteq> [] \<and> valid_encoded InFragment (u_raw_fragment u) \<and>
         url_unescape InFragment (u_raw_fragment u) = Some (u_fragment u)
      then u_raw_fragment u else url_escape InFragment (u_fragment u))"

definition user_string :: "string \<times> string option \<Rightarrow> string" where
  "user_string u =
     (case snd u of
        None \<Rightarrow> url_escape InUser (fst u)
      | Some p \<Rightarrow> url_escape InUser (fst u) @ '':'' @ url_escape InUser p)"

definition url_string :: "url \<Rightarrow> string" where
  "url_string u =
     (let scheme = (if u_scheme u = [] then [] else u_scheme u @ '':'');
          authority =
            (if u_scheme u \<noteq> [] \<or> u_host u \<noteq> [] \<or> u_user u \<noteq> None then
               (if u_omit_host u \<and> u_host u = [] \<and> u_user u = None then []
                else (if u_host u \<noteq> [] \<or> u_path u \<noteq> [] \<or> u_user u \<noteq> None then ''//'' else []) @
                  (case u_user u of None \<Rightarrow> [] | Some x \<Rightarrow> user_string x @ ''@'') @ url_escape InHost (u_host u))
             else []);
          path = escaped_path u;
          slash = (if path \<noteq> [] \<and> hd path \<noteq> CHR ''/'' \<and> u_host u \<noteq> [] then ''/'' else []);
          dot = (if scheme @ authority @ slash = [] \<and> CHR '':'' \<in> set (fst (cut_byte path (CHR ''/''))) then ''./'' else []);
          query = (if u_force_query u \<or> u_raw_query u \<noteq> [] then ''?'' @ u_raw_query u else []);
          fragment = (if u_fragment u = [] then [] else ''#'' @ escaped_fragment u)
      in if u_opaque u \<noteq> [] then scheme @ u_opaque u @ query @ fragment
         else scheme @ authority @ slash @ dot @ path @ query @ fragment)"

end
