(* ===== verification/Http.thy ===== *)
theory Http
  imports GoErrors Messages GoUrl
begin

text \<open>
  The network as the Apple clients see it: decoded JSON, cookies, requests and answers, and the
  bounded retries of \<open>doAppleHTTP\<close> (\<open>modules/mail/backend/apple_protocol.go\<close>,
  \<open>apple_types.go\<close>).

  The network is a script: a list of events, one per request, each saying how much time passes,
  whether the context is done afterwards, and what comes back; and the list of the requests sent
  so far, oldest first. An exhausted script answers with an error. A response carries its raw text
  together with what the JSON decoder makes of it (\<^const>\<open>None\<close> for text that is not JSON) and with
  the compact text the encoder gives back for that value.
\<close>

section \<open>JSON values\<close>

text \<open>A number comes with the text \<open>fmt.Sprint\<close> gives for it.\<close>

datatype json =
    JNull
  | JBool bool
  | JNum real string
  | JStr string
  | JArr "json list"
  | JObj "(string \<times> json) list"

type_synonym jmap = "(string \<times> json) list"

text \<open>Reading a key of a \<open>map[string]any\<close>: nil when it is absent.\<close>

definition jget :: "jmap \<Rightarrow> string \<Rightarrow> json" where
  "jget m k = (case map_of m k of None \<Rightarrow> JNull | Some v \<Rightarrow> v)"

definition jput :: "string \<Rightarrow> json \<Rightarrow> jmap \<Rightarrow> jmap" where
  "jput k v m = (k, v) # filter (\<lambda>e. fst e \<noteq> k) m"

text \<open>\<open>value.(map[string]any)\<close>, the empty map when the assertion fails.\<close>

fun as_map :: "json \<Rightarrow> jmap" where
  "as_map (JObj m) = m"
| "as_map _ = []"

fun sprint :: "json \<Rightarrow> string" where
  "sprint JNull = ''<nil>''"
| "sprint (JBool b) = (if b then ''true'' else ''false'')"
| "sprint (JNum _ t) = t"
| "sprint (JStr s) = s"
| "sprint (JArr xs) = ''['' @ str_join (map sprint xs) '' '' @ '']''"
| "sprint (JObj m) = ''map['' @ str_join (map (\<lambda>(k, v). k @ '':'' @ sprint v) m) '' '' @ '']''"

text \<open>\<open>stringValue\<close>.\<close>

definition string_value :: "json \<Rightarrow> string" where
  "string_value v = (case v of JStr s \<Rightarrow> trim_space s | _ \<Rightarrow> [])"

text \<open>
  Decoding into typed struct fields: \<^const>\<open>None\<close> for a type error; null and absent keys leave the
  zero value.
\<close>

definition dec_string :: "json \<Rightarrow> string option" where
  "dec_string v = (case v of JNull \<Rightarrow> Some [] | JStr s \<Rightarrow> Some s | _ \<Rightarrow> None)"

definition dec_bool :: "json \<Rightarrow> bool option" where
  "dec_bool v = (case v of JNull \<Rightarrow> Some False | JBool b \<Rightarrow> Some b | _ \<Rightarrow> None)"

definition dec_float :: "json \<Rightarrow> real option" where
  "dec_float v = (case v of JNull \<Rightarrow> Some 0 | JNum x _ \<Rightarrow> Some x | _ \<Rightarrow> None)"

definition dec_integer :: "json \<Rightarrow> int option" where
  "dec_integer v =
     (case v of JNull \<Rightarrow> Some 0 | JNum x _ \<Rightarrow> (if of_int \<lfloor>x\<rfloor> = x then Some \<lfloor>x\<rfloor> else None) | _ \<Rightarrow> None)"

definition dec_struct :: "json \<Rightarrow> jmap option" where
  "dec_struct v = (case v of JNull \<Rightarrow> Some [] | JObj m \<Rightarrow> Some m | _ \<Rightarrow> None)"

definition first_nonempty :: "string list \<Rightarrow> string" where
  "first_nonempty vs = (case find (\<lambda>v. trim_space v \<noteq> []) vs of None \<Rightarrow> [] | Some v \<Rightarrow> v)"

lemma jget_put [simp]: "jget (jput k v m) k' = (if k' = k then v else jget m k')"
proof -
  have "map_of (filter (\<lambda>e. fst e \<noteq> k) m) k' = map_of m k'" if "k' \<noteq> k"
    using that by (induction m) auto
  then show ?thesis by (simp add: jget_def jput_def)
qed

section \<open>Cookies\<close>

record apple_cookie =
  ck_name :: string
  ck_value :: string
  ck_domain :: string
  ck_path :: string
  ck_expires :: unixtime
  ck_secure :: bool
  ck_http_only :: bool

text \<open>A parsed \<open>Set-Cookie\<close> header; 0 is the zero expiry time.\<close>

record set_cookie =
  sc_name :: string
  sc_value :: string
  sc_domain :: string
  sc_path :: string
  sc_expires :: gotime
  sc_max_age :: int
  sc_secure :: bool
  sc_http_only :: bool

text \<open>Seconds between Go's zero time and the Unix epoch, and \<open>time.Time.Unix\<close>.\<close>

definition unix_epoch :: int where
  "unix_epoch = 62135596800"

definition to_unix :: "gotime \<Rightarrow> int" where
  "to_unix t = t div second - unix_epoch"

definition unix_float :: "gotime \<Rightarrow> unixtime" where
  "unix_float t = seconds_of (t - unix_epoch * second)"

text \<open>The test whether a stored cookie is sent with a request, in the order of the code.\<close>

definition cookie_applies :: "unixtime \<Rightarrow> string \<Rightarrow> string \<Rightarrow> apple_cookie \<Rightarrow> bool" where
  "cookie_applies now host path c =
     (let domain = trim_prefix (to_lower (trim_space (ck_domain c))) ''.''
      in if ck_name c = [] \<or> ck_value c = [] \<or> (ck_expires c > 0 \<and> ck_expires c < now) then False
         else if domain \<noteq> [] \<and> host \<noteq> domain \<and> \<not> has_suffix host (CHR ''.'' # domain) then False
         else if ck_path c \<noteq> [] \<and> \<not> has_prefix path (ck_path c) then False
         else True)"

definition apple_cookie_header :: "gotime \<Rightarrow> apple_cookie list \<Rightarrow> string \<Rightarrow> string" where
  "apple_cookie_header now cookies raw_url =
     (case parse_url raw_url of
        None \<Rightarrow> []
      | Some u \<Rightarrow>
          (let host = to_lower (url_hostname u);
               path = (if escaped_path u = [] then ''/'' else escaped_path u)
           in str_join (map (\<lambda>c. ck_name c @ ''='' @ ck_value c)
                          (filter (cookie_applies (of_int (to_unix now)) host path) cookies)) ''; ''))"

definition same_cookie :: "apple_cookie \<Rightarrow> apple_cookie \<Rightarrow> bool" where
  "same_cookie a b \<longleftrightarrow> ck_name a = ck_name b \<and>
     equal_fold (trim_prefix (ck_domain a) ''.'') (trim_prefix (ck_domain b) ''.'') \<and> ck_path a = ck_path b"

text \<open>The inner loop: the first match is replaced, or removed by an empty value.\<close>

fun merge_one :: "apple_cookie \<Rightarrow> apple_cookie list \<Rightarrow> apple_cookie list" where
  "merge_one nxt [] = (if ck_value nxt \<noteq> [] then [nxt] else [])"
| "merge_one nxt (old # rest) =
     (if same_cookie old nxt then (if ck_value nxt = [] then rest else nxt # rest)
      else old # merge_one nxt rest)"

definition received_cookie :: "string \<Rightarrow> set_cookie \<Rightarrow> apple_cookie" where
  "received_cookie req_host i =
     \<lparr>ck_name = sc_name i, ck_value = sc_value i,
      ck_domain = (if trim_space (sc_domain i) = [] then req_host else trim_space (sc_domain i)),
      ck_path = (if sc_path i = [] then ''/'' else sc_path i),
      ck_expires = (if sc_expires i = 0 then 0 else of_int (to_unix (sc_expires i))),
      ck_secure = sc_secure i, ck_http_only = sc_http_only i\<rparr>"

definition merge_apple_cookies ::
  "string \<Rightarrow> set_cookie list \<Rightarrow> apple_cookie list \<Rightarrow> apple_cookie list" where
  "merge_apple_cookies req_host received cookies =
     foldl (\<lambda>cs i. merge_one (received_cookie req_host i) cs) cookies received"

section \<open>Requests and answers\<close>

record http_request =
  rq_method :: string
  rq_url :: string
  rq_path :: string
  rq_api_key :: string
  rq_scnt :: string
  rq_session_id :: string
  rq_cookie :: string
  rq_body :: "json option"

record http_response =
  rs_status :: int
  rs_host :: string
  rs_text :: string
  rs_json :: "json option"
  rs_render :: string
  rs_cookies :: "set_cookie list"
  rs_scnt :: string
  rs_session_id :: string

text \<open>\<open>Do\<close> fails, reading the body fails, or the whole response arrives.\<close>

datatype outcome =
    DoError go_error
  | BodyError go_error http_response
  | Responded http_response

record net_event =
  ev_elapsed :: nat
  ev_ctx_done :: bool
  ev_wait_error :: "go_error option"
  ev_outcome :: outcome

record net =
  net_ready :: bool
  net_now :: gotime
  net_events :: "net_event list"
  net_sent :: "http_request list"

definition silent_event :: net_event where
  "silent_event = \<lparr>ev_elapsed = 0, ev_ctx_done = True, ev_wait_error = None,
     ev_outcome = DoError Canceled\<rparr>"

text \<open>Sending one request consumes one event.\<close>

definition send :: "http_request \<Rightarrow> net \<Rightarrow> net_event \<times> net" where
  "send rq n =
     (let (ev, rest) = (case net_events n of [] \<Rightarrow> (silent_event, []) | e # es \<Rightarrow> (e, es))
      in (ev, n\<lparr>net_now := net_now n + int (ev_elapsed ev), net_events := rest,
                net_sent := net_sent n @ [rq]\<rparr>))"

definition apple_request_max_attempts :: nat where
  "apple_request_max_attempts = 3"

definition apple_request_retry_base_delay :: duration where
  "apple_request_retry_base_delay = 150000000"

text \<open>\<open>waitAppleRetry\<close>: the context may end during the wait.\<close>

definition wait_delay :: "nat \<Rightarrow> duration" where
  "wait_delay attempt =
     (let delay = apple_request_retry_base_delay * 2 ^ (attempt - 1)
      in if delay > second then second else delay)"

definition wait_apple_retry :: "net_event \<Rightarrow> nat \<Rightarrow> net \<Rightarrow> go_error option \<times> net" where
  "wait_apple_retry ev attempt n =
     (case ev_wait_error ev of
        Some e \<Rightarrow> (Some e, n)
      | None \<Rightarrow> (None, n\<lparr>net_now := net_now n + wait_delay attempt\<rparr>))"

text \<open>What one attempt decides: whether to go on, and the result if not.\<close>

definition attempt_outcome :: "bool \<Rightarrow> net_event \<Rightarrow> bool \<times> (go_error + http_response)" where
  "attempt_outcome again ev =
     (case ev_outcome ev of
        DoError e \<Rightarrow> (again \<and> is_transient_network_error e \<and> \<not> ev_ctx_done ev, Inl e)
      | BodyError e _ \<Rightarrow> (again \<and> is_transient_network_error e \<and> \<not> ev_ctx_done ev, Inl e)
      | Responded r \<Rightarrow>
          (again \<and> rs_status r \<ge> 500 \<and> rs_status r \<le> 599 \<and> \<not> ev_ctx_done ev, Inr r))"

text \<open>
  The loop of \<open>doAppleHTTP\<close>; \<open>left\<close> counts the attempts that remain, this one included, so that
  the current attempt is \<open>apple_request_max_attempts - left + 1\<close>.
\<close>

fun do_apple_loop :: "nat \<Rightarrow> http_request \<Rightarrow> bool \<Rightarrow> net \<Rightarrow> (go_error + http_response) \<times> net" where
  "do_apple_loop 0 rq retryable n = (Inl (Plain msg_retries_exhausted), n)"
| "do_apple_loop (Suc left) rq retryable n =
     (let (ev, n1) = send rq n;
          attempt = apple_request_max_attempts - left;
          (retry, result) = attempt_outcome (retryable \<and> attempt < apple_request_max_attempts) ev
      in if retry then
           (case wait_apple_retry ev attempt n1 of
              (Some e, n2) \<Rightarrow> (Inl e, n2)
            | (None, n2) \<Rightarrow> do_apple_loop left rq retryable n2)
         else (result, n1))"

definition do_apple_http :: "http_request \<Rightarrow> bool \<Rightarrow> net \<Rightarrow> (go_error + http_response) \<times> net" where
  "do_apple_http rq retryable n =
     (if \<not> net_ready n then (Inl (Plain msg_http_not_ready), n)
      else do_apple_loop apple_request_max_attempts rq retryable n)"

section \<open>What was sent\<close>

text \<open>\<open>sent_since n n'\<close>: the requests sent between two states of the network.\<close>

definition sent_since :: "net \<Rightarrow> net \<Rightarrow> http_request list" where
  "sent_since n n' = drop (length (net_sent n)) (net_sent n')"

definition extends :: "net \<Rightarrow> net \<Rightarrow> bool" where
  "extends n n' \<longleftrightarrow> prefix (net_sent n) (net_sent n') \<and> net_now n \<le> net_now n'"

lemma extends_refl [simp]: "extends n n"
  by (simp add: extends_def)

lemma extends_trans: "extends a b \<Longrightarrow> extends b c \<Longrightarrow> extends a c"
  unfolding extends_def by (blast intro: prefix_order.trans order.trans)

lemma sent_since_refl [simp]: "sent_since n n = []"
  by (simp add: sent_since_def)

lemma sent_since_trans:
  "extends a b \<Longrightarrow> extends b c \<Longrightarrow> sent_since a c = sent_since a b @ sent_since b c"
  by (auto simp: extends_def sent_since_def prefix_def)

lemma send_extends: "extends n (snd (send rq n))"
  by (auto simp: send_def extends_def split: list.splits)

lemma sent_send: "sent_since n (snd (send rq n)) = [rq]"
  by (auto simp: send_def sent_since_def split: list.splits)

lemma wait_delay_nonneg: "0 \<le> wait_delay a"
  by (simp add: wait_delay_def Let_def apple_request_retry_base_delay_def second_def)

lemma wait_extends: "extends n (snd (wait_apple_retry ev a n))"
  using wait_delay_nonneg [of a]
  by (auto simp: wait_apple_retry_def extends_def split: option.splits)

lemma sent_wait [simp]: "sent_since n (snd (wait_apple_retry ev a n)) = []"
  by (auto simp: wait_apple_retry_def sent_since_def split: option.splits)

lemma do_apple_loop_sends:
  "extends n (snd (do_apple_loop k rq ret n)) \<and>
   (\<exists>m \<le> (if ret then k else 1). sent_since n (snd (do_apple_loop k rq ret n)) = replicate m rq)"
proof (induction k arbitrary: n)
  case 0
  show ?case by (auto intro: exI [of _ 0])
next
  case (Suc k)
  obtain ev n1 where s: "send rq n = (ev, n1)" by (cases "send rq n")
  let ?a = "apple_request_max_attempts - k"
  obtain w n2 where w: "wait_apple_retry ev ?a n1 = (w, n2)" by (cases "wait_apple_retry ev ?a n1")
  have e1: "extends n n1" "sent_since n n1 = [rq]"
    using send_extends [of n rq] sent_send [of n rq] s by simp_all
  have e2: "extends n1 n2" "sent_since n1 n2 = []"
    using wait_extends [of n1 ev ?a] sent_wait [of n1 ev ?a] w by simp_all
  have e02: "extends n n2" "sent_since n n2 = [rq]"
    using extends_trans [OF e1(1) e2(1)] sent_since_trans [OF e1(1) e2(1)] e1 e2 by simp_all
  obtain m where m: "m \<le> (if ret then k else 1)" "extends n2 (snd (do_apple_loop k rq ret n2))"
      "sent_since n2 (snd (do_apple_loop k rq ret n2)) = replicate m rq"
    using Suc [of n2] by blast
  have e3: "extends n (snd (do_apple_loop k rq ret n2))"
      "sent_since n (snd (do_apple_loop k rq ret n2)) = replicate (Suc m) rq"
    using extends_trans [OF e02(1) m(2)] sent_since_trans [OF e02(1) m(2)] e02 m by simp_all
  define retry where "retry = fst (attempt_outcome (ret \<and> ?a < apple_request_max_attempts) ev)"
  have r: "retry \<Longrightarrow> ret" by (auto simp: retry_def attempt_outcome_def split: outcome.splits)
  have eq: "snd (do_apple_loop (Suc k) rq ret n) =
      (if retry then (case w of Some e \<Rightarrow> n2 | None \<Rightarrow> snd (do_apple_loop k rq ret n2)) else n1)"
    by (simp add: s w retry_def split_beta split: option.splits)
  consider "\<not> retry" | e where "retry" "w = Some e" | "retry" "w = None" by (cases w) auto
  then show ?case
  proof cases
    case 1
    then show ?thesis unfolding eq using e1 by (auto intro!: exI [of _ 1])
  next
    case 2
    then show ?thesis unfolding eq using e02 r by (auto intro!: exI [of _ 1])
  next
    case 3
    then have "Suc m \<le> (if ret then Suc k else 1)" using r m(1) by auto
    then show ?thesis unfolding eq using 3 e3 by (simp del: replicate_Suc)
  qed
qed

lemma do_apple_http_sends:
  obtains m where "m \<le> (if ret then 3 else 1)"
    and "sent_since n (snd (do_apple_http rq ret n)) = replicate m rq"
    and "extends n (snd (do_apple_http rq ret n))"
proof -
  have "extends n (snd (do_apple_http rq ret n)) \<and>
    (\<exists>m \<le> (if ret then 3 else 1). sent_since n (snd (do_apple_http rq ret n)) = replicate m rq)"
    using do_apple_loop_sends [of n apple_request_max_attempts rq ret]
    by (auto simp: do_apple_http_def apple_request_max_attempts_def intro: exI [of _ 0])
  then show thesis using that by blast
qed

end
