(* ===== verification/AliasTime.thy ===== *)
theory AliasTime
  imports Http
begin

text \<open>
  Creation times of hidden addresses, \<open>modules/mail/backend/alias_time.go\<close> and the timestamp cache
  of \<open>session.go\<close>. Times are milliseconds since the Unix epoch. The values come from decoded JSON,
  so of the type switch the cases of \<open>float64\<close>, \<open>string\<close> and nil arise. \<open>strconv.ParseFloat\<close> is
  modelled on decimal numerals and \<open>time.Parse\<close> on the four layouts the code tries.
\<close>

section \<open>Numerals\<close>

fun sign_of :: "string \<Rightarrow> int \<times> string" where
  "sign_of (CHR ''+'' # s) = (1, s)"
| "sign_of (CHR ''-'' # s) = (- 1, s)"
| "sign_of s = (1, s)"

definition digits_of :: "string \<Rightarrow> string \<times> string" where
  "digits_of s = (takeWhile is_digit s, dropWhile is_digit s)"

definition parse_exponent :: "string \<Rightarrow> int option" where
  "parse_exponent s =
     (case s of
        [] \<Rightarrow> Some 0
      | c # r \<Rightarrow>
          (if c = CHR ''e'' \<or> c = CHR ''E'' then
             (let (sg, t) = sign_of r
              in if t \<noteq> [] \<and> list_all is_digit t then Some (sg * int (digits_val t)) else None)
           else None))"

definition scale10 :: "real \<Rightarrow> int \<Rightarrow> real" where
  "scale10 x e = (if 0 \<le> e then x * 10 ^ nat e else x / 10 ^ nat (- e))"

definition parse_float :: "string \<Rightarrow> real option" where
  "parse_float s =
     (let (sg, r) = sign_of s;
          (ip, r1) = digits_of r;
          (fp, r2) = (case r1 of [] \<Rightarrow> ([], []) | c # t \<Rightarrow> (if c = CHR ''.'' then digits_of t else ([], r1)))
      in if ip = [] \<and> fp = [] then None
         else case parse_exponent r2 of
           None \<Rightarrow> None
         | Some e \<Rightarrow>
             (let x = scale10 (of_int sg * of_nat (digits_val (ip @ fp))) (e - int (length fp))
              in if \<bar>x\<bar> < 2 ^ 1024 then Some x else None))"

section \<open>Dates\<close>

definition leap_year :: "nat \<Rightarrow> bool" where
  "leap_year y \<longleftrightarrow> 4 dvd y \<and> (\<not> 100 dvd y \<or> 400 dvd y)"

definition days_in :: "nat \<Rightarrow> nat \<Rightarrow> nat" where
  "days_in y m = (if m = 2 then (if leap_year y then 29 else 28)
                  else if m = 4 \<or> m = 6 \<or> m = 9 \<or> m = 11 then 30 else 31)"

definition days_before_month :: "nat \<Rightarrow> nat \<Rightarrow> nat" where
  "days_before_month y m = sum_list (map (days_in y) [1..<m])"

text \<open>Days from 1970-01-01 to the first day of a year.\<close>

definition days_to_year :: "nat \<Rightarrow> int" where
  "days_to_year y = (let p = int y - 1 in 365 * (int y - 1970) + (p div 4 - p div 100 + p div 400) - 477)"

text \<open>Two digits, or for an hour one or two.\<close>

fun two_digits :: "string \<Rightarrow> (nat \<times> string) option" where
  "two_digits (a # b # s) = (if is_digit a \<and> is_digit b then Some (10 * digit_val a + digit_val b, s) else None)"
| "two_digits _ = None"

definition hour_digits :: "string \<Rightarrow> (nat \<times> string) option" where
  "hour_digits s =
     (case two_digits s of
        Some r \<Rightarrow> Some r
      | None \<Rightarrow> (case s of [] \<Rightarrow> None | a # t \<Rightarrow> (if is_digit a then Some (digit_val a, t) else None)))"

definition expect :: "char \<Rightarrow> string \<Rightarrow> string option" where
  "expect c s = (case s of [] \<Rightarrow> None | a # t \<Rightarrow> (if a = c then Some t else None))"

text \<open>An optional fraction of a second, in whole milliseconds.\<close>

definition fraction_ms :: "string \<Rightarrow> nat \<times> string" where
  "fraction_ms s =
     (case s of
        a # b # t \<Rightarrow>
          (if (a = CHR ''.'' \<or> a = CHR '','') \<and> is_digit b then
             (let (ds, r) = digits_of (b # t) in (digits_val (take 3 (ds @ ''00'')), r))
           else (0, s))
      | _ \<Rightarrow> (0, s))"

text \<open>\<open>Z07:00\<close>: the offset in minutes.\<close>

definition parse_zone :: "string \<Rightarrow> int option" where
  "parse_zone s =
     (if s = ''Z'' then Some 0
      else case s of
        [] \<Rightarrow> None
      | sg # r \<Rightarrow>
          (if sg \<noteq> CHR ''+'' \<and> sg \<noteq> CHR ''-'' then None
           else Option.bind (two_digits r) (\<lambda>(h, r1).
             Option.bind (expect CHR '':'' r1) (\<lambda>r2.
               Option.bind (two_digits r2) (\<lambda>(m, r3).
                 if r3 = [] \<and> h \<le> 24 \<and> m \<le> 60
                 then Some ((if sg = CHR ''-'' then - 1 else 1) * (60 * int h + int m)) else None)))))"

definition parse_date :: "string \<Rightarrow> int option" where
  "parse_date s =
     Option.bind (two_digits s) (\<lambda>(c, s). Option.bind (two_digits s) (\<lambda>(yy, s).
     Option.bind (expect CHR ''-'' s) (\<lambda>s. Option.bind (two_digits s) (\<lambda>(mo, s).
     Option.bind (expect CHR ''-'' s) (\<lambda>s. Option.bind (two_digits s) (\<lambda>(d, s).
     (case s of
        [] \<Rightarrow> None
      | sep # s \<Rightarrow>
          (if sep \<noteq> CHR ''T'' \<and> sep \<noteq> CHR '' '' then None
           else
             Option.bind (hour_digits s) (\<lambda>(h, s). Option.bind (expect CHR '':'' s) (\<lambda>s.
             Option.bind (two_digits s) (\<lambda>(mi, s). Option.bind (expect CHR '':'' s) (\<lambda>s.
             Option.bind (two_digits s) (\<lambda>(sec, s).
               (let y = 100 * c + yy;
                    (ms, z) = fraction_ms s;
                    zone = (if z = [] \<and> sep = CHR '' '' then Some 0 else parse_zone z)
                in if mo < 1 \<or> 12 < mo \<or> d < 1 \<or> days_in y mo < d \<or> 24 \<le> h \<or> 60 \<le> mi \<or> 60 \<le> sec then None
                   else case zone of
                     None \<Rightarrow> None
                   | Some off \<Rightarrow>
                       Some ((((days_to_year y + int (days_before_month y mo) + int d - 1) * 24 + int h) * 60
                          + int mi - off) * 60000 + 1000 * int sec + int ms)))))))))))))))"

section \<open>alias_time.go\<close>

definition alias_timestamp_fields :: "string list" where
  "alias_timestamp_fields = [''createTimestamp'', ''createdTimestamp'', ''createdAt'', ''createdDate'',
     ''creationDate'', ''dateCreated'']"

definition normalize_alias_epoch :: "real \<Rightarrow> real option" where
  "normalize_alias_epoch value =
     (if value \<le> 0 then None
      else Some (if value < 100000000000 then value * 1000 else value))"

definition alias_timestamp :: "json \<Rightarrow> real option" where
  "alias_timestamp v =
     (case v of
        JNum x _ \<Rightarrow> normalize_alias_epoch x
      | JStr t \<Rightarrow>
          (let text = trim_space t
           in if text = [] then None
              else case parse_float text of
                Some x \<Rightarrow> normalize_alias_epoch x
              | None \<Rightarrow> map_option of_int (parse_date text))
      | _ \<Rightarrow> None)"

text \<open>The first of the given fields that holds a usable time.\<close>

fun first_timestamp :: "string list \<Rightarrow> jmap \<Rightarrow> real option" where
  "first_timestamp [] m = None"
| "first_timestamp (f # fs) m =
     (case alias_timestamp (jget m f) of Some t \<Rightarrow> Some t | None \<Rightarrow> first_timestamp fs m)"

definition alias_timestamp_from_map :: "jmap \<Rightarrow> real option" where
  "alias_timestamp_from_map m = first_timestamp alias_timestamp_fields m"

definition normalize_alias_timestamp :: "jmap \<Rightarrow> jmap" where
  "normalize_alias_timestamp m =
     (case alias_timestamp (jget m ''createTimestamp'') of
        Some t \<Rightarrow> jput ''createTimestamp'' (JNum t []) m
      | None \<Rightarrow>
          (case first_timestamp (tl alias_timestamp_fields) m of
             Some t \<Rightarrow> jput ''createTimestamp'' (JNum t []) m
           | None \<Rightarrow> m))"

section \<open>The timestamp cache\<close>

type_synonym stamp_cache = "string \<rightharpoonup> real"

definition alias_timestamp_string :: "json \<Rightarrow> string" where
  "alias_timestamp_string v =
     (if v = JNull then []
      else let text = trim_space (sprint v) in if text = ''<nil>'' then [] else text)"

definition alias_timestamp_keys :: "jmap \<Rightarrow> string list" where
  "alias_timestamp_keys m =
     (let hme = to_lower (alias_timestamp_string (jget m ''hme''));
          i = alias_timestamp_string (jget m ''anonymousId'')
      in (if hme \<noteq> [] then [''hme:'' @ hme] else []) @ (if i \<noteq> [] then [''id:'' @ i] else []))"

definition cache_alias_timestamp :: "stamp_cache \<Rightarrow> jmap \<Rightarrow> real \<Rightarrow> stamp_cache" where
  "cache_alias_timestamp cache m t = foldl (\<lambda>c k. c(k \<mapsto> t)) cache (alias_timestamp_keys m)"

fun first_cached :: "string list \<Rightarrow> stamp_cache \<Rightarrow> real option" where
  "first_cached [] cache = None"
| "first_cached (k # ks) cache = (case cache k of Some t \<Rightarrow> Some t | None \<Rightarrow> first_cached ks cache)"

definition cached_alias_timestamp :: "stamp_cache \<Rightarrow> jmap \<Rightarrow> real option" where
  "cached_alias_timestamp cache m = first_cached (alias_timestamp_keys m) cache"

section \<open>Facts\<close>

lemma normalize_alias_epoch_pos: "normalize_alias_epoch x = Some t \<Longrightarrow> 0 < t"
  by (auto simp: normalize_alias_epoch_def split: if_splits)

text \<open>Whether the service sent seconds or milliseconds, the result is in milliseconds, and times
  from March 1973 on are fixed points.\<close>

lemma normalize_alias_epoch_fixed: "100000000000 \<le> x \<Longrightarrow> normalize_alias_epoch x = Some x"
  by (simp add: normalize_alias_epoch_def)

lemma cached_after_cache:
  assumes "alias_timestamp_keys m \<noteq> []"
  shows "cached_alias_timestamp (cache_alias_timestamp cache m t) m = Some t"
proof -
  have keep: "c k = Some t \<Longrightarrow> (foldl (\<lambda>c k. c(k \<mapsto> t)) c ks) k = Some t" for c k ks
    by (induction ks arbitrary: c) auto
  obtain k ks where ks: "alias_timestamp_keys m = k # ks" using assms by (cases "alias_timestamp_keys m") auto
  have "(foldl (\<lambda>c k. c(k \<mapsto> t)) (cache(k \<mapsto> t)) ks) k = Some t" by (rule keep) simp
  then show ?thesis by (simp add: cached_alias_timestamp_def cache_alias_timestamp_def ks)
qed

text \<open>
  A remembered creation time is found again for every listing entry that names the same address
  (in any letter case) or the same anonymous id, and normalising an entry puts its time, in
  milliseconds, into the field the frontend reads.
\<close>

theorem alias_timestamp_cached:
  assumes "alias_timestamp_keys m \<noteq> []" and "alias_timestamp_keys m' = alias_timestamp_keys m"
    and "alias_timestamp_from_map a = Some t"
  shows "cached_alias_timestamp (cache_alias_timestamp cache m t) m' = Some t \<and>
    jget (normalize_alias_timestamp a) ''createTimestamp'' = JNum t [] \<and>
    (\<forall>k. k \<noteq> ''createTimestamp'' \<longrightarrow> jget (normalize_alias_timestamp a) k = jget a k)"
proof -
  have "cached_alias_timestamp (cache_alias_timestamp cache m t) m' = Some t"
    using cached_after_cache [OF assms(1), of cache t] assms(2) by (simp add: cached_alias_timestamp_def)
  then show ?thesis
    using assms(3)
    by (auto simp: alias_timestamp_from_map_def normalize_alias_timestamp_def alias_timestamp_fields_def
        split: option.splits)
qed

theorem alias_timestamp_cached_witness:
  "cached_alias_timestamp (cache_alias_timestamp Map.empty [(''hme'', JStr ''A@icloud.com'')] 1700000000000)
      [(''hme'', JStr '' a@icloud.com'')] = Some 1700000000000 \<and>
   jget (normalize_alias_timestamp [(''createdAt'', JNum 1700000000 [])]) ''createTimestamp'' =
      JNum 1700000000000 []"
proof -
  have k: "alias_timestamp_keys [(''hme'', JStr ''A@icloud.com'')] = [''hme:a@icloud.com'']"
    "alias_timestamp_keys [(''hme'', JStr '' a@icloud.com'')] = [''hme:a@icloud.com'']"
    by code_simp+
  have f: "alias_timestamp_from_map [(''createdAt'', JNum 1700000000 [])] = Some 1700000000000"
    by (simp add: alias_timestamp_from_map_def alias_timestamp_fields_def alias_timestamp_def jget_def
        normalize_alias_epoch_def)
  show ?thesis
    using alias_timestamp_cached [OF _ _ f, of "[(''hme'', JStr ''A@icloud.com'')]"
        "[(''hme'', JStr '' a@icloud.com'')]" Map.empty] k by simp
qed

end
