(* ===== verification/AppleAccount.thy ===== *)
theory AppleAccount
  imports AliasTime
begin

text \<open>
  The Apple Account channel: the management session (\<open>AppleAccountState\<close> in
  \<open>modules/mail/backend/apple_types.go\<close>) and the requests made with it
  (\<open>apple_protocol.go\<close>). Every operation takes the session and the network and gives back a result,
  the session and the network. The constant headers of the requests are not modelled; the key, the
  session headers, the cookies and the body are.
\<close>

section \<open>The session\<close>

record apple_account =
  aa_apple_id :: string
  aa_host :: string
  aa_origin :: string
  aa_saved_at :: gotime
  aa_cookies :: "apple_cookie list"
  aa_scnt :: string
  aa_session_id :: string
  aa_api_key :: string
  aa_manage_expires_at :: gotime
  aa_last_checked_at :: gotime
  aa_last_check_ok :: bool
  aa_status_message :: string
  aa_health :: string
  aa_last_attempt_at :: gotime

definition blank_account :: apple_account where
  "blank_account = \<lparr>aa_apple_id = [], aa_host = [], aa_origin = [], aa_saved_at = 0, aa_cookies = [],
     aa_scnt = [], aa_session_id = [], aa_api_key = [], aa_manage_expires_at = 0, aa_last_checked_at = 0,
     aa_last_check_ok = False, aa_status_message = [], aa_health = [], aa_last_attempt_at = 0\<rparr>"

definition apple_account_refresh_lead :: duration where
  "apple_account_refresh_lead = 2 * minute"

definition apple_account_minimum_lead :: duration where
  "apple_account_minimum_lead = 30 * second"

definition apple_account_fallback_ttl :: duration where
  "apple_account_fallback_ttl = 4 * minute"

definition requires_reauth :: "apple_account \<Rightarrow> bool" where
  "requires_reauth a \<longleftrightarrow> aa_health a = ''reauth_required''"

definition available_for_use :: "apple_account \<Rightarrow> bool" where
  "available_for_use a \<longleftrightarrow>
     aa_cookies a \<noteq> [] \<and> \<not> requires_reauth a \<and> aa_health a \<noteq> ''degraded'' \<and> aa_last_check_ok a"

definition healthy_for_use :: "gotime \<Rightarrow> apple_account \<Rightarrow> bool" where
  "healthy_for_use now a \<longleftrightarrow>
     available_for_use a \<and> (aa_manage_expires_at a = 0 \<or> now < aa_manage_expires_at a)"

definition refresh_lead :: "apple_account \<Rightarrow> duration" where
  "refresh_lead a =
     (let lead = apple_account_refresh_lead;
          ttl = aa_manage_expires_at a - aa_last_checked_at a;
          lead = (if aa_last_checked_at a \<noteq> 0 \<and> ttl > 0 \<and> ttl div 3 < lead then ttl div 3 else lead)
      in if lead < apple_account_minimum_lead then apple_account_minimum_lead else lead)"

definition refresh_due_at :: "gotime \<Rightarrow> apple_account \<Rightarrow> gotime" where
  "refresh_due_at now a =
     (if aa_manage_expires_at a = 0 then now else aa_manage_expires_at a - refresh_lead a)"

definition needs_refresh :: "gotime \<Rightarrow> apple_account \<Rightarrow> bool" where
  "needs_refresh now a \<longleftrightarrow> trim_space (aa_api_key a) = [] \<or> refresh_due_at now a \<le> now"

definition update_expiry :: "gotime \<Rightarrow> int \<Rightarrow> apple_account \<Rightarrow> apple_account" where
  "update_expiry now minutes a =
     (if minutes \<le> 0 then a else a\<lparr>aa_manage_expires_at := now + minutes * minute\<rparr>)"

definition mark_healthy :: "gotime \<Rightarrow> apple_account \<Rightarrow> apple_account" where
  "mark_healthy now a = a\<lparr>aa_saved_at := now, aa_last_checked_at := now, aa_last_attempt_at := now,
     aa_last_check_ok := True, aa_health := ''healthy'', aa_status_message := msg_account_healthy\<rparr>"

definition mark_failure :: "gotime \<Rightarrow> go_error \<Rightarrow> apple_account \<Rightarrow> apple_account" where
  "mark_failure now e a =
     (let a = a\<lparr>aa_last_attempt_at := now\<rparr>
      in if apple_account_requires_reauth e then
           a\<lparr>aa_last_checked_at := now, aa_last_check_ok := False, aa_health := ''reauth_required'',
             aa_status_message := msg_account_expired_prefix @ safe_error_text e\<rparr>
         else if (case as_protocol e of Some p \<Rightarrow> pe_code p = ''APPLE_ACCOUNT_LIMIT'' | None \<Rightarrow> False) then
           a\<lparr>aa_status_message := safe_error_text e\<rparr>
         else a\<lparr>aa_health := ''degraded'', aa_status_message := msg_request_failed_prefix @ safe_error_text e\<rparr>)"

section \<open>Reading error responses\<close>

definition body_looks_auth_expired :: "string \<Rightarrow> bool" where
  "body_looks_auth_expired text =
     (let lower = to_lower (trim_space text)
      in if lower = [] then False
         else if list_ex (contains lower)
              [''authentication_failed'', ''authentication failed'', ''auth_failed'', ''auth failed'',
               ''gsa_invalid_session'', ''invalid global session'', ''invalid_global_session'',
               ''invalid session'', ''scnt_expired'', ''session expired'', ''session has expired'']
         then True
         else contains lower ''authentication'' \<and> (contains lower ''failed'' \<or> contains lower ''expired''))"

definition truncate_apple_error :: "string \<Rightarrow> string" where
  "truncate_apple_error value =
     (let v = str_join (str_fields (trim_space value)) '' ''
      in if length v > 160 then take 160 v @ ''...'' else v)"

text \<open>The value of a string field of a struct that is decoded with its errors ignored.\<close>

definition lenient_string :: "json \<Rightarrow> string" where
  "lenient_string v = (case v of JStr s \<Rightarrow> s | _ \<Rightarrow> [])"

definition apple_account_error_body :: "http_response \<Rightarrow> string" where
  "apple_account_error_body r =
     (let text = trim_space (rs_text r);
          not_decoded = (if has_prefix (to_lower text) ''<html'' then msg_html_error
                         else if text \<noteq> [] then msg_not_json_error else [])
      in case Option.bind (rs_json r) dec_struct of
           None \<Rightarrow> not_decoded
         | Some m \<Rightarrow>
             (case (dec_string (jget m ''reason''), dec_string (jget m ''message'')) of
                (Some reason, Some message) \<Rightarrow>
                  (let e = jget m ''error'';
                       detail_code = lenient_string (jget (as_map e) ''errorCode'');
                       detail_message = lenient_string (jget (as_map e) ''errorMessage'');
                       v = first_nonempty [detail_message, reason, message];
                       v = (if v = [] \<and> detail_code \<noteq> [] then ''Apple error '' @ detail_code else v);
                       v = (if v = [] then lenient_string e else v)
                   in truncate_apple_error v)
              | _ \<Rightarrow> not_decoded))"

definition apple_retry_after :: "http_response \<Rightarrow> duration" where
  "apple_retry_after r =
     (case Option.bind (rs_json r) dec_struct of
        None \<Rightarrow> 0
      | Some m \<Rightarrow>
          (case (dec_float (jget m ''retryAfter''),
                 Option.bind (dec_struct (jget m ''error'')) (\<lambda>e. dec_float (jget e ''retryAfter''))) of
             (Some outer, Some nested) \<Rightarrow>
               (let seconds = (if outer \<le> 0 then nested else outer)
                in if seconds \<le> 0 then 0 else go_trunc (seconds * 1000000000))
           | _ \<Rightarrow> 0))"

definition apple_account_request_stage :: "string \<Rightarrow> string" where
  "apple_account_request_stage path =
     (if path = ''/account/manage/gs/ws/token'' then stage_token
      else if path = ''/account/manage'' then stage_manage
      else if path = ''/account/manage/section/privacy'' then stage_privacy
      else if path = ''/bootstrap/portal'' then stage_portal
      else if path = ''/v2/jslogs'' then ''Apple browser session hint''
      else if path = ''/account/manage/forwardemail'' then stage_forward
      else if path = ''/account/manage/email/private'' then stage_list
      else if path = ''/account/manage/email/private/add'' then stage_add
      else if path = ''/account/manage/email/private/add/complete'' then stage_complete
      else [])"

definition apple_account_http_error :: "http_response \<Rightarrow> bool \<Rightarrow> string \<Rightarrow> go_error" where
  "apple_account_http_error r may_have_created path =
     (let lower = to_lower (trim_space (rs_text r));
          text = apple_account_error_body r;
          stage = apple_account_request_stage path;
          message = msg_interface_http @ dec_int (rs_status r);
          message = (if stage \<noteq> [] then message @ msg_open_paren @ stage @ msg_close_paren else message);
          message = (if text \<noteq> [] then message @ msg_colon @ text else message);
          (code, message) =
            (if contains lower ''limit'' \<or> contains lower ''too many'' \<or> contains lower ''rate''
             then (''APPLE_ACCOUNT_LIMIT'', msg_limit)
             else if rs_status r = 419 \<or> body_looks_auth_expired lower
             then (''APPLE_ACCOUNT_EXPIRED'', msg_account_expired)
             else (''APPLE_ACCOUNT_ERROR'', message))
      in Protocol \<lparr>pe_code = code, pe_message = message, pe_retryable = code \<noteq> ''APPLE_ACCOUNT_EXPIRED'',
                   pe_may_have_created = may_have_created, pe_retry_after = apple_retry_after r\<rparr>)"

text \<open>\<open>Success *bool\<close> and \<open>Error any\<close>: a decoding error counts as no failure.\<close>

definition apple_account_response_failed :: "http_response \<Rightarrow> bool" where
  "apple_account_response_failed r =
     (case Option.bind (rs_json r) dec_struct of
        None \<Rightarrow> False
      | Some m \<Rightarrow>
          (case jget m ''success'' of
             JNull \<Rightarrow> jget m ''error'' \<noteq> JNull
           | JBool b \<Rightarrow> \<not> b \<or> jget m ''error'' \<noteq> JNull
           | _ \<Rightarrow> False))"

section \<open>Requests\<close>

definition request_retryable :: "string \<Rightarrow> string \<Rightarrow> bool" where
  "request_retryable meth path \<longleftrightarrow>
     meth = ''GET'' \<or> meth = ''HEAD'' \<or> (meth = ''POST'' \<and> path = ''/account/manage/email/private/add'')"

definition update_headers :: "gotime \<Rightarrow> http_response \<Rightarrow> apple_account \<Rightarrow> apple_account" where
  "update_headers now r a =
     (let a = (if rs_scnt r \<noteq> [] then a\<lparr>aa_scnt := rs_scnt r\<rparr> else a);
          a = (if rs_session_id r \<noteq> [] then a\<lparr>aa_session_id := rs_session_id r\<rparr> else a)
      in a\<lparr>aa_saved_at := now\<rparr>)"

definition absorb_response :: "gotime \<Rightarrow> http_response \<Rightarrow> apple_account \<Rightarrow> apple_account" where
  "absorb_response now r a =
     update_headers now r (a\<lparr>aa_cookies := merge_apple_cookies (rs_host r) (rs_cookies r) (aa_cookies a)\<rparr>)"

fun trim_right_slash_rev :: "string \<Rightarrow> string" where
  "trim_right_slash_rev (c # s) = (if c = CHR ''/'' then trim_right_slash_rev s else c # s)"
| "trim_right_slash_rev [] = []"

definition trim_right_slash :: "string \<Rightarrow> string" where
  "trim_right_slash s = rev (trim_right_slash_rev (rev s))"

text \<open>
  A decoder turns the parsed body into the value asked for; \<^const>\<open>None\<close> is a decoding error. A call
  that wants no value accepts every body.
\<close>

type_synonym 'a decoder = "json option \<Rightarrow> 'a option"

definition no_result :: "unit decoder" where
  "no_result j = Some ()"

definition complete_path :: string where
  "complete_path = ''/account/manage/email/private/add/complete''"

definition account_request_of ::
  "string \<Rightarrow> string \<Rightarrow> string \<Rightarrow> json option \<Rightarrow> apple_account \<Rightarrow> gotime \<Rightarrow> http_request" where
  "account_request_of meth path api_key body a now =
     (let raw_url = trim_right_slash (''https://'' @ first_nonempty [aa_host a, ''appleid.apple.com'']) @ path
      in \<lparr>rq_method = meth, rq_url = raw_url, rq_path = path, rq_api_key = api_key, rq_scnt = aa_scnt a,
          rq_session_id = aa_session_id a, rq_cookie = apple_cookie_header now (aa_cookies a) raw_url,
          rq_body = body\<rparr>)"

definition apple_account_request ::
  "string \<Rightarrow> string \<Rightarrow> string \<Rightarrow> json option \<Rightarrow> 'a decoder \<Rightarrow> 'a \<Rightarrow> apple_account \<Rightarrow> net \<Rightarrow>
   (go_error + string \<times> 'a) \<times> apple_account \<times> net" where
  "apple_account_request meth path api_key body decode zero a n =
     (let rq = account_request_of meth path api_key body a (net_now n);
          (answer, n1) = do_apple_http rq (request_retryable meth path) n;
          may_have_created = (meth = ''PUT'' \<and> path = complete_path)
      in case answer of
           Inl e \<Rightarrow> (Inl e, a, n1)
         | Inr r \<Rightarrow>
             (let w = absorb_response (net_now n1) r a
              in if rs_status r < 200 \<or> rs_status r \<ge> 300 \<or> apple_account_response_failed r
                 then (Inl (apple_account_http_error r may_have_created path), a, n1)
                 else if trim_space (rs_text r) = [] then (Inr (rs_scnt r, zero), w, n1)
                 else case decode (rs_json r) of
                   None \<Rightarrow> (Inl (apple_protocol_error ''APPLE_ACCOUNT_BAD_RESPONSE''
                              ''Apple Account response could not be parsed'' True), a, n1)
                 | Some v \<Rightarrow> (Inr (rs_scnt r, v), w, n1)))"

definition portal_request ::
  "string \<Rightarrow> apple_account \<Rightarrow> net \<Rightarrow> (go_error + http_response) \<times> apple_account \<times> net" where
  "portal_request path a n =
     (let raw_url = trim_right_slash (first_nonempty [aa_origin a, ''https://account.apple.com'']) @ path;
          rq = \<lparr>rq_method = ''GET'', rq_url = raw_url, rq_path = path, rq_api_key = [], rq_scnt = [],
                rq_session_id = [], rq_cookie = apple_cookie_header (net_now n) (aa_cookies a) raw_url,
                rq_body = None\<rparr>;
          (answer, n1) = do_apple_http rq True n
      in case answer of
           Inl e \<Rightarrow> (Inl e, a, n1)
         | Inr r \<Rightarrow>
             (if rs_status r < 200 \<or> rs_status r \<ge> 300
              then (Inl (apple_account_http_error r False path), a, n1)
              else (Inr r, absorb_response (net_now n1) r a, n1)))"

text \<open>The decoders of the typed results.\<close>

definition decode_timeout :: "int decoder" where
  "decode_timeout j = Option.bind (Option.bind j dec_struct) (\<lambda>m. dec_integer (jget m ''timeOutInterval''))"

definition decode_api_key :: "string decoder" where
  "decode_api_key j = Option.bind (Option.bind j dec_struct) (\<lambda>m. dec_string (jget m ''apiKey''))"

definition decode_generated :: "string decoder" where
  "decode_generated j = Option.bind (Option.bind j dec_struct) (\<lambda>m. dec_string (jget m ''emailAddress''))"

section \<open>Refreshing\<close>

definition warm_apple_account :: "apple_account \<Rightarrow> net \<Rightarrow> (go_error + unit) \<times> apple_account \<times> net" where
  "warm_apple_account a n =
     (case portal_request ''/account/manage/section/privacy'' a n of
        (Inl e, a1, n1) \<Rightarrow> (Inl e, a1, n1)
      | (Inr _, a1, n1) \<Rightarrow>
          (case portal_request ''/bootstrap/portal'' a1 n1 of
             (Inl e, a2, n2) \<Rightarrow> (Inl e, a2, n2)
           | (Inr r, a2, n2) \<Rightarrow>
               (case decode_timeout (rs_json r) of
                  None \<Rightarrow> (Inr (), a2, n2)
                | Some t \<Rightarrow> (Inr (), update_expiry (net_now n2) t a2, n2))))"

definition token_without_scnt :: "apple_account \<Rightarrow> net \<Rightarrow> (go_error + int) \<times> apple_account \<times> net" where
  "token_without_scnt a n =
     (case apple_account_request ''GET'' ''/account/manage/gs/ws/token'' [] None decode_timeout 0
             (a\<lparr>aa_scnt := []\<rparr>) n of
        (Inl e, _, n1) \<Rightarrow> (Inl e, a, n1)
      | (Inr (scnt, t), w, n1) \<Rightarrow> (Inr t, (if scnt \<noteq> [] then w\<lparr>aa_scnt := scnt\<rparr> else w), n1))"

definition load_api_key :: "apple_account \<Rightarrow> net \<Rightarrow> (go_error + unit) \<times> apple_account \<times> net" where
  "load_api_key a n =
     (case apple_account_request ''GET'' ''/account/manage'' [] None decode_api_key [] a n of
        (Inl e, w, n1) \<Rightarrow> (Inl e, w, n1)
      | (Inr (_, k), w, n1) \<Rightarrow> (Inr (), w\<lparr>aa_api_key := trim_space k\<rparr>, n1))"

text \<open>The first part of \<open>refreshAppleAccountState\<close>: the management token.\<close>

definition refresh_token :: "apple_account \<Rightarrow> net \<Rightarrow> (go_error + int) \<times> apple_account \<times> net" where
  "refresh_token a n =
     (case apple_account_request ''GET'' ''/account/manage/gs/ws/token'' [] None decode_timeout 0 a n of
        (Inl e, w, n1) \<Rightarrow>
          (if apple_account_requires_reauth e then (Inl e, w, n1)
           else case warm_apple_account w n1 of
             (Inl we, w2, n2) \<Rightarrow> (Inl (if apple_account_requires_reauth we then we else e), w2, n2)
           | (Inr _, w2, n2) \<Rightarrow> token_without_scnt w2 n2)
      | (Inr (_, t), w, n1) \<Rightarrow>
          (if t > 0 then (Inr t, w, n1)
           else case warm_apple_account w n1 of
             (Inl we, w2, n2) \<Rightarrow> (if apple_account_requires_reauth we then Inl we else Inr t, w2, n2)
           | (Inr _, w2, n2) \<Rightarrow>
               (case token_without_scnt w2 n2 of
                  (Inr t', w3, n3) \<Rightarrow> (Inr t', w3, n3)
                | (Inl re, w3, n3) \<Rightarrow> (if apple_account_requires_reauth re then Inl re else Inr t, w3, n3))))"

text \<open>The second part: the API key, with one warm-up in between when the first try gives none.\<close>

definition refresh_api_key :: "apple_account \<Rightarrow> net \<Rightarrow> (go_error + unit) \<times> apple_account \<times> net" where
  "refresh_api_key a n =
     (case load_api_key a n of
        (r, w, n1) \<Rightarrow>
          (if (case r of Inl _ \<Rightarrow> False | Inr _ \<Rightarrow> trim_space (aa_api_key w) \<noteq> []) then (Inr (), w, n1)
           else if (case r of Inl e \<Rightarrow> apple_account_requires_reauth e | Inr _ \<Rightarrow> False) then (r, w, n1)
           else case warm_apple_account w n1 of
             (Inl we, w2, n2) \<Rightarrow>
               (if apple_account_requires_reauth we then (Inl we, w2, n2)
                else (case r of Inl e \<Rightarrow> Inl e | Inr _ \<Rightarrow> Inl we, w2, n2))
           | (Inr _, w2, n2) \<Rightarrow>
               (case token_without_scnt w2 n2 of
                  (Inl re, w3, n3) \<Rightarrow> (Inl re, w3, n3)
                | (Inr t, w3, n3) \<Rightarrow> load_api_key (update_expiry (net_now n3) t w3) n3)))"

definition refresh_finish :: "apple_account \<Rightarrow> net \<Rightarrow> (go_error + unit) \<times> apple_account \<times> net" where
  "refresh_finish w n =
     (if trim_space (aa_api_key w) = []
      then (Inl (apple_protocol_error ''APPLE_ACCOUNT_API_KEY_MISSING'' ''Apple Account API key is missing'' True), w, n)
      else case apple_account_request ''GET'' ''/account/manage/forwardemail'' (aa_api_key w) None no_result () w n of
        (Inl e, w1, n1) \<Rightarrow> (Inl e, w1, n1)
      | (Inr _, w1, n1) \<Rightarrow>
          (let (_, w2, n2) = apple_account_request ''POST'' ''/v2/jslogs'' (aa_api_key w1) (Some (JArr []))
                               no_result () w1 n1;
               now = net_now n2;
               w3 = (if aa_manage_expires_at w2 = 0 \<or> \<not> now < aa_manage_expires_at w2
                     then w2\<lparr>aa_manage_expires_at := now + apple_account_fallback_ttl\<rparr> else w2)
           in (Inr (), mark_healthy now w3, n2)))"

text \<open>The whole: a failure leaves the caller's session as it was.\<close>

definition refresh_apple_account ::
  "apple_account \<Rightarrow> net \<Rightarrow> (go_error + unit) \<times> apple_account \<times> net" where
  "refresh_apple_account a n =
     (if aa_cookies a = []
      then (Inl (apple_protocol_error ''APPLE_ACCOUNT_SESSION_MISSING'' ''Apple Account session is missing'' False), a, n)
      else case refresh_token a n of
        (Inl e, _, n1) \<Rightarrow> (Inl e, a, n1)
      | (Inr t, w1, n1) \<Rightarrow>
          (case refresh_api_key (update_expiry (net_now n1) t w1) n1 of
             (Inl e, _, n2) \<Rightarrow> (Inl e, a, n2)
           | (Inr _, w2, n2) \<Rightarrow>
               (case refresh_finish w2 n2 of
                  (Inl e, _, n3) \<Rightarrow> (Inl e, a, n3)
                | (Inr _, w3, n3) \<Rightarrow> (Inr (), w3, n3))))"

definition ensure_ready :: "apple_account \<Rightarrow> net \<Rightarrow> (go_error + unit) \<times> apple_account \<times> net" where
  "ensure_ready a n =
     (if aa_cookies a = []
      then (Inl (apple_protocol_error ''APPLE_ACCOUNT_SESSION_MISSING'' msg_not_logged_in False), a, n)
      else if requires_reauth a
      then (Inl (apple_protocol_error ''APPLE_ACCOUNT_EXPIRED'' msg_account_expired False), a, n)
      else if aa_health a = ''degraded''
      then (Inl (apple_protocol_error ''APPLE_ACCOUNT_DEGRADED'' msg_account_degraded True), a, n)
      else if \<not> needs_refresh (net_now n) a then (Inr (), a, n)
      else refresh_apple_account a n)"

section \<open>Operations on aliases\<close>

text \<open>
  \<open>ListWithAppleAccount\<close>, \<open>UpdateWithAppleAccount\<close>, \<open>SetActiveWithAppleAccount\<close> and
  \<open>DeleteWithAppleAccount\<close> share their frame: make ready, send one request, record the health.
\<close>

definition with_account ::
  "(apple_account \<Rightarrow> net \<Rightarrow> (go_error + 'a) \<times> apple_account \<times> net) \<Rightarrow> apple_account \<Rightarrow> net \<Rightarrow>
   (go_error + 'a) \<times> apple_account \<times> net" where
  "with_account call a n =
     (case ensure_ready a n of
        (Inl e, a1, n1) \<Rightarrow> (Inl e, mark_failure (net_now n1) e a1, n1)
      | (Inr _, a1, n1) \<Rightarrow>
          (case call a1 n1 of
             (Inl e, a2, n2) \<Rightarrow> (Inl e, mark_failure (net_now n2) e a2, n2)
           | (Inr v, a2, n2) \<Rightarrow> (Inr v, mark_healthy (net_now n2) a2, n2)))"

definition normalize_account_alias :: "jmap \<Rightarrow> string \<Rightarrow> jmap" where
  "normalize_account_alias item default_forward =
     (let m = [(''anonymousId'', JStr (trim_space (sprint (jget item ''id'')))),
               (''hme'', JStr (trim_space (sprint (jget item ''emailAddress'')))),
               (''label'', JStr (string_value (jget item ''label''))),
               (''note'', JStr (string_value (jget item ''note''))),
               (''forwardToEmail'', JStr (first_nonempty [string_value (jget item ''forwardToEmail''), default_forward])),
               (''origin'', JStr ''APPLE_ACCOUNT''),
               (''isActive'', JBool True)];
          m = (case alias_timestamp_from_map item of
                 Some t \<Rightarrow> jput ''createTimestamp'' (JNum t []) m | None \<Rightarrow> m)
      in case jget item ''active'' of JBool b \<Rightarrow> jput ''isActive'' (JBool b) m | _ \<Rightarrow> m)"

text \<open>A list of objects: null and absent are the empty list; a null element is an empty map.\<close>

definition dec_objects :: "json \<Rightarrow> jmap list option" where
  "dec_objects v =
     (case v of
        JNull \<Rightarrow> Some []
      | JArr xs \<Rightarrow> (if list_all (\<lambda>x. dec_struct x \<noteq> None) xs then Some (map as_map xs) else None)
      | _ \<Rightarrow> None)"

definition decode_listing :: "(string \<times> jmap list) decoder" where
  "decode_listing j =
     Option.bind (Option.bind j dec_struct) (\<lambda>m.
       Option.bind (dec_string (jget m ''forwardToEmailAddress'')) (\<lambda>f.
         Option.bind (dec_objects (jget m ''privateEmailList'')) (\<lambda>xs.
           map_option (\<lambda>ys. (f, xs @ ys)) (dec_objects (jget m ''inactivePrivateEmailList'')))))"

definition list_with_account :: "apple_account \<Rightarrow> net \<Rightarrow> (go_error + jmap list) \<times> apple_account \<times> net" where
  "list_with_account = with_account (\<lambda>a n.
     case apple_account_request ''GET'' ''/account/manage/email/private'' (aa_api_key a) None
            decode_listing ([], []) a n of
       (Inl e, a1, n1) \<Rightarrow> (Inl e, a1, n1)
     | (Inr (_, f, items), a1, n1) \<Rightarrow> (Inr (map (\<lambda>i. normalize_account_alias i f) items), a1, n1))"

definition private_path :: "string \<Rightarrow> string \<Rightarrow> string" where
  "private_path i action = ''/account/manage/email/private/'' @ path_escape i @ action"

definition simple_call ::
  "string \<Rightarrow> string \<Rightarrow> json option \<Rightarrow> jmap \<Rightarrow> apple_account \<Rightarrow> net \<Rightarrow> (go_error + jmap) \<times> apple_account \<times> net" where
  "simple_call meth path body result a n =
     (case apple_account_request meth path (aa_api_key a) body no_result () a n of
        (Inl e, a1, n1) \<Rightarrow> (Inl e, a1, n1)
      | (Inr _, a1, n1) \<Rightarrow> (Inr result, a1, n1))"

definition update_with_account where
  "update_with_account i label note = with_account
     (simple_call ''POST'' (private_path i ''/note'')
        (Some (JObj [(''id'', JStr i), (''label'', JStr label), (''note'', JStr note)]))
        [(''anonymousId'', JStr i), (''label'', JStr label), (''note'', JStr note)])"

definition set_active_with_account where
  "set_active_with_account i active = with_account
     (simple_call (if active then ''POST'' else ''DELETE'')
        (private_path i (if active then ''/reactivate'' else ''/stop'')) None
        [(''anonymousId'', JStr i), (''isActive'', JBool active)])"

definition delete_with_account where
  "delete_with_account i = with_account
     (simple_call ''DELETE'' (private_path i ''/remove'') None
        [(''anonymousId'', JStr i), (''deleted'', JBool True)])"

section \<open>Creating an alias\<close>

record completed_alias =
  ca_email :: string
  ca_label :: string
  ca_note :: string
  ca_id :: string
  ca_forward :: string
  ca_active :: bool

definition blank_completed :: completed_alias where
  "blank_completed = \<lparr>ca_email = [], ca_label = [], ca_note = [], ca_id = [], ca_forward = [], ca_active = False\<rparr>"

text \<open>The confirmation decodes no forwarding address, the detail request does.\<close>

definition decode_completed :: "bool \<Rightarrow> completed_alias decoder" where
  "decode_completed with_forward j =
     Option.bind (Option.bind j dec_struct) (\<lambda>m.
       (case (dec_string (jget m ''emailAddress''), dec_string (jget m ''label''), dec_string (jget m ''note''),
              dec_string (jget m ''id''),
              (if with_forward then dec_string (jget m ''forwardToEmail'') else Some []),
              dec_bool (jget m ''active'')) of
          (Some e, Some l, Some nt, Some i, Some f, Some a) \<Rightarrow>
            Some \<lparr>ca_email = e, ca_label = l, ca_note = nt, ca_id = i, ca_forward = f, ca_active = a\<rparr>
        | _ \<Rightarrow> None))"

definition unix_milli :: "gotime \<Rightarrow> int" where
  "unix_milli t = (t - unix_epoch * second) div 1000000"

text \<open>The error of a failed confirmation always says that the address may exist.\<close>

definition uncertain_error :: "go_error \<Rightarrow> go_error" where
  "uncertain_error e =
     (case as_protocol e of
        Some p \<Rightarrow> Protocol (p\<lparr>pe_may_have_created := True\<rparr>)
      | None \<Rightarrow> Protocol \<lparr>pe_code = ''APPLE_ACCOUNT_CREATE_UNCERTAIN'', pe_message = err_text e,
                          pe_retryable = True, pe_may_have_created = True, pe_retry_after = 0\<rparr>)"

definition created_alias :: "gotime \<Rightarrow> string \<Rightarrow> completed_alias \<Rightarrow> string \<Rightarrow> string \<Rightarrow> jmap" where
  "created_alias now email c label note =
     [(''anonymousId'', JStr (ca_id c)),
      (''hme'', JStr (first_nonempty [ca_email c, email])),
      (''label'', JStr (first_nonempty [ca_label c, label])),
      (''note'', JStr (first_nonempty [ca_note c, note])),
      (''isActive'', JBool (ca_active c)),
      (''origin'', JStr ''APPLE_ACCOUNT''),
      (''detailConfirmed'', JBool False),
      (''createTimestamp'', JNum (of_int (unix_milli now)) [])]"

definition confirm_detail :: "completed_alias \<Rightarrow> completed_alias \<Rightarrow> jmap \<Rightarrow> jmap" where
  "confirm_detail c d m =
     jput ''detailConfirmed'' (JBool True)
       (jput ''isActive'' (JBool (ca_active d))
       (jput ''forwardToEmail'' (JStr (ca_forward d))
       (jput ''note'' (JStr (first_nonempty [ca_note d, sprint (jget m ''note'')]))
       (jput ''label'' (JStr (first_nonempty [ca_label d, sprint (jget m ''label'')]))
       (jput ''hme'' (JStr (first_nonempty [ca_email d, sprint (jget m ''hme'')]))
       (jput ''anonymousId'' (JStr (first_nonempty [ca_id d, ca_id c])) m))))))"

text \<open>What follows a confirmed creation: the detail request, which cannot fail the call.\<close>

definition create_detail ::
  "completed_alias \<Rightarrow> jmap \<Rightarrow> apple_account \<Rightarrow> net \<Rightarrow> jmap \<times> apple_account \<times> net" where
  "create_detail c m a n =
     (if trim_space (ca_id c) = [] then (m, mark_healthy (net_now n) a, n)
      else case apple_account_request ''GET'' (private_path (ca_id c) ''.em'') (aa_api_key a) None
                  (decode_completed True) blank_completed a n of
        (Inr (_, d), a1, n1) \<Rightarrow> (confirm_detail c d m, mark_healthy (net_now n1) a1, n1)
      | (Inl e, a1, n1) \<Rightarrow>
          (if apple_account_requires_reauth e then (m, mark_failure (net_now n1) e a1, n1)
           else (m, mark_healthy (net_now n1) a1, n1)))"

definition create_with_state ::
  "string \<Rightarrow> string \<Rightarrow> apple_account \<Rightarrow> net \<Rightarrow> (go_error + jmap) \<times> apple_account \<times> net" where
  "create_with_state label note a n =
     (case apple_account_request ''POST'' ''/account/manage/email/private/add'' (aa_api_key a)
             (Some (JObj [])) decode_generated [] a n of
        (Inl e, a1, n1) \<Rightarrow> (Inl e, a1, n1)
      | (Inr (_, email), a1, n1) \<Rightarrow>
          (if trim_space email = []
           then (Inl (apple_protocol_error ''APPLE_ACCOUNT_GENERATE_EMPTY'' msg_generate_empty True), a1, n1)
           else case apple_account_request ''PUT'' complete_path (aa_api_key a1)
                       (Some (JObj [(''emailAddress'', JStr email), (''label'', JStr label), (''note'', JStr note)]))
                       (decode_completed False) blank_completed a1 n1 of
             (Inl e, a2, n2) \<Rightarrow> (Inl (uncertain_error e), a2, n2)
           | (Inr (_, c), a2, n2) \<Rightarrow>
               (let (m, a3, n3) = create_detail c (created_alias (net_now n2) email c label note) a2 n2
                in (Inr m, a3, n3))))"

definition expired_before_confirmation :: "go_error \<Rightarrow> bool" where
  "expired_before_confirmation e =
     (case as_protocol e of
        Some p \<Rightarrow> pe_code p = ''APPLE_ACCOUNT_EXPIRED'' \<and> \<not> pe_may_have_created p
      | None \<Rightarrow> False)"

text \<open>\<open>markAppleAccountFailure\<close> of a possibly nil error.\<close>

definition mark_result :: "gotime \<Rightarrow> (go_error + 'a) \<Rightarrow> apple_account \<Rightarrow> apple_account" where
  "mark_result now r a = (case r of Inl e \<Rightarrow> mark_failure now e a | Inr _ \<Rightarrow> a)"

definition create_with_account ::
  "string \<Rightarrow> string \<Rightarrow> apple_account \<Rightarrow> net \<Rightarrow> (go_error + jmap) \<times> apple_account \<times> net" where
  "create_with_account label note a n =
     (if requires_reauth a then
        (let e = apple_protocol_error ''APPLE_ACCOUNT_EXPIRED'' msg_account_expired False
         in (Inl e, mark_failure (net_now n) e a, n))
      else if aa_health a = ''degraded'' then
        (let e = apple_protocol_error ''APPLE_ACCOUNT_DEGRADED'' msg_account_degraded True
         in (Inl e, mark_failure (net_now n) e a, n))
      else
        (let refresh = needs_refresh (net_now n) a;
             (ready, a1, n1) = (if refresh then refresh_apple_account a n else (Inr (), a, n))
         in case ready of
              Inl e \<Rightarrow> (Inl e, mark_failure (net_now n1) e a1, n1)
            | Inr _ \<Rightarrow>
                (let (r, a2, n2) = create_with_state label note a1 n1
                 in if (case r of Inr _ \<Rightarrow> True | Inl e \<Rightarrow> refresh \<or> \<not> expired_before_confirmation e)
                    then (r, mark_result (net_now n2) r a2, n2)
                    else case refresh_apple_account a2 n2 of
                      (Inl e, a3, n3) \<Rightarrow> (Inl e, mark_failure (net_now n3) e a3, n3)
                    | (Inr _, a3, n3) \<Rightarrow>
                        (let (r', a4, n4) = create_with_state label note a3 n3
                         in (r', mark_result (net_now n4) r' a4, n4)))))"

end
