(* ===== verification/AppleAccountProps.thy ===== *)
theory AppleAccountProps
  imports AppleAccount
begin

text \<open>
  What the Apple Account channel guarantees: how often it confirms a creation, that failed requests
  leave the session alone, and what a successful refresh establishes.
\<close>

section \<open>Counting confirming requests\<close>

text \<open>The requests that create an address: the confirmation of either channel.\<close>

definition confirms :: "http_request \<Rightarrow> bool" where
  "confirms rq \<longleftrightarrow> (rq_method rq = ''PUT'' \<and> rq_path rq = complete_path) \<or>
     (rq_method rq = ''POST'' \<and> rq_path rq = ''/v1/hme/reserve'')"

definition confirmations :: "net \<Rightarrow> net \<Rightarrow> nat" where
  "confirmations n n' = length (filter confirms (sent_since n n'))"

definition issues :: "nat \<Rightarrow> net \<Rightarrow> net \<Rightarrow> bool" where
  "issues k n n' \<longleftrightarrow> extends n n' \<and> confirmations n n' = k"

lemma issues_refl [simp]: "issues 0 n n"
  by (simp add: issues_def confirmations_def)

lemma issues_trans: "issues j a b \<Longrightarrow> issues k b c \<Longrightarrow> issues (j + k) a c"
  using extends_trans [of a b c] sent_since_trans [of a b c] by (simp add: issues_def confirmations_def)

lemma issues_quiet: "issues 0 a b \<Longrightarrow> issues k b c \<Longrightarrow> issues k a c"
  using issues_trans [of 0 a b k c] by simp

lemma issues_then_quiet: "issues k a b \<Longrightarrow> issues 0 b c \<Longrightarrow> issues k a c"
  using issues_trans [of k a b 0 c] by simp

lemma issues_extends: "issues k a b \<Longrightarrow> extends a b"
  by (simp add: issues_def)

lemma http_issues:
  "\<exists>k \<le> (if ret then 3 else 1). issues (if confirms rq then k else 0) n (snd (do_apple_http rq ret n))"
proof -
  obtain m where "m \<le> (if ret then 3 else 1)"
    and "sent_since n (snd (do_apple_http rq ret n)) = replicate m rq"
    and "extends n (snd (do_apple_http rq ret n))"
    by (rule do_apple_http_sends [of ret n rq])
  then show ?thesis by (auto simp: issues_def confirmations_def)
qed

lemma http_quiet: "\<not> confirms rq \<Longrightarrow> issues 0 n (snd (do_apple_http rq ret n))"
  using http_issues [of ret rq n] by auto

section \<open>One request\<close>

lemma account_request_net:
  "snd (snd (apple_account_request meth path key body d z a n)) =
     snd (do_apple_http (account_request_of meth path key body a (net_now n)) (request_retryable meth path) n)"
  by (auto simp: apple_account_request_def Let_def split_beta split: sum.splits option.splits)

lemma account_request_quiet:
  "path \<noteq> complete_path \<Longrightarrow> path \<noteq> ''/v1/hme/reserve'' \<Longrightarrow>
   issues 0 n (snd (snd (apple_account_request meth path key body d z a n)))"
  unfolding account_request_net
  by (rule http_quiet) (simp add: confirms_def account_request_of_def Let_def)

lemma account_request_once:
  "\<exists>k \<le> 1. issues k n (snd (snd (apple_account_request ''PUT'' path key body d z a n)))"
  unfolding account_request_net
  using http_issues [of "request_retryable ''PUT'' path"
      "account_request_of ''PUT'' path key body a (net_now n)" n]
  by (auto simp: request_retryable_def split: if_splits)

text \<open>A failed request changes nothing of the session but, in the callers, its health.\<close>

lemma account_request_failed:
  "apple_account_request meth path key body d z a n = (Inl e, a', n') \<Longrightarrow> a' = a"
  by (auto simp: apple_account_request_def Let_def split_beta split: sum.splits option.splits if_splits)

lemma absorb_keeps [simp]:
  "aa_api_key (absorb_response now r a) = aa_api_key a"
  "aa_manage_expires_at (absorb_response now r a) = aa_manage_expires_at a"
  "aa_health (absorb_response now r a) = aa_health a"
  "aa_apple_id (absorb_response now r a) = aa_apple_id a"
  "aa_last_check_ok (absorb_response now r a) = aa_last_check_ok a"
  by (simp_all add: absorb_response_def update_headers_def Let_def)

lemma account_request_keeps:
  assumes "apple_account_request meth path key body d z a n = (r, a', n')"
  shows "aa_api_key a' = aa_api_key a \<and> aa_manage_expires_at a' = aa_manage_expires_at a \<and>
    aa_health a' = aa_health a \<and> aa_apple_id a' = aa_apple_id a \<and> aa_last_check_ok a' = aa_last_check_ok a"
  using assms
  by (auto simp: apple_account_request_def Let_def split_beta split: sum.splits option.splits if_splits)

lemma portal_quiet: "path \<noteq> complete_path \<Longrightarrow> issues 0 n (snd (snd (portal_request path a n)))"
proof -
  assume p: "path \<noteq> complete_path"
  let ?u = "trim_right_slash (first_nonempty [aa_origin a, ''https://account.apple.com'']) @ path"
  have "snd (snd (portal_request path a n)) = snd (do_apple_http
      \<lparr>rq_method = ''GET'', rq_url = ?u, rq_path = path, rq_api_key = [], rq_scnt = [],
       rq_session_id = [], rq_cookie = apple_cookie_header (net_now n) (aa_cookies a) ?u, rq_body = None\<rparr> True n)"
    by (auto simp: portal_request_def Let_def split_beta split: sum.splits)
  then show ?thesis by (simp add: http_quiet confirms_def)
qed

section \<open>Composed operations confirm nothing\<close>

lemmas path_simps = complete_path_def private_path_def

lemma warm_quiet: "issues 0 n (snd (snd (warm_apple_account a n)))"
proof -
  obtain r a1 n1 where p: "portal_request ''/account/manage/section/privacy'' a n = (r, a1, n1)"
    by (metis surj_pair)
  obtain r2 a2 n2 where p2: "portal_request ''/bootstrap/portal'' a1 n1 = (r2, a2, n2)"
    by (metis surj_pair)
  have "issues 0 n n1" "issues 0 n1 n2"
    using portal_quiet [of "''/account/manage/section/privacy''" n a] p
      portal_quiet [of "''/bootstrap/portal''" n1 a1] p2 by (simp_all add: path_simps)
  then show ?thesis
    using issues_quiet [of n n1 0 n2]
    by (auto simp: warm_apple_account_def p p2 split: sum.splits option.splits)
qed

lemma token_quiet: "issues 0 n (snd (snd (token_without_scnt a n)))"
  using account_request_quiet [of "''/account/manage/gs/ws/token''" n "''GET''" "[]" None decode_timeout 0
      "a\<lparr>aa_scnt := []\<rparr>"]
  by (auto simp: token_without_scnt_def path_simps split: prod.splits sum.splits)

lemma load_key_quiet: "issues 0 n (snd (snd (load_api_key a n)))"
  using account_request_quiet [of "''/account/manage''" n "''GET''" "[]" None decode_api_key "[]" a]
  by (auto simp: load_api_key_def path_simps split: prod.splits sum.splits)

lemmas quiet_intros = warm_quiet token_quiet load_key_quiet

text \<open>Sequencing: what follows a quiet operation decides.\<close>

lemma quiet_case:
  assumes "issues 0 n (snd (snd p))" and "\<And>r a' n'. p = (r, a', n') \<Longrightarrow> issues 0 n' (snd (snd (f r a' n')))"
  shows "issues 0 n (snd (snd (case p of (r, a', n') \<Rightarrow> f r a' n')))"
  using assms by (cases p) (auto intro: issues_quiet)

lemma refresh_token_quiet: "issues 0 n (snd (snd (refresh_token a n)))"
proof -
  let ?p = "apple_account_request ''GET'' ''/account/manage/gs/ws/token'' [] None decode_timeout 0 a n"
  obtain r a1 n1 where p: "?p = (r, a1, n1)" by (metis surj_pair)
  obtain r2 a2 n2 where w: "warm_apple_account a1 n1 = (r2, a2, n2)" by (metis surj_pair)
  obtain r3 a3 n3 where t: "token_without_scnt a2 n2 = (r3, a3, n3)" by (metis surj_pair)
  have q: "issues 0 n n1" "issues 0 n1 n2" "issues 0 n2 n3"
    using account_request_quiet [of "''/account/manage/gs/ws/token''" n "''GET''" "[]" None decode_timeout 0 a]
      warm_quiet [of n1 a1] token_quiet [of n2 a2] p w t by (simp_all add: path_simps)
  then have "issues 0 n n2" "issues 0 n n3" by (blast intro: issues_quiet)+
  then show ?thesis
    using q by (auto simp: refresh_token_def p w t split: sum.splits prod.splits if_splits)
qed

lemma refresh_key_quiet: "issues 0 n (snd (snd (refresh_api_key a n)))"
proof -
  obtain r a1 n1 where p: "load_api_key a n = (r, a1, n1)" by (metis surj_pair)
  obtain r2 a2 n2 where w: "warm_apple_account a1 n1 = (r2, a2, n2)" by (metis surj_pair)
  obtain r3 a3 n3 where t: "token_without_scnt a2 n2 = (r3, a3, n3)" by (metis surj_pair)
  have q: "issues 0 n n1" "issues 0 n1 n2" "issues 0 n2 n3"
    using load_key_quiet [of n a] warm_quiet [of n1 a1] token_quiet [of n2 a2] p w t by simp_all
  then have n3: "issues 0 n n2" "issues 0 n n3" by (blast intro: issues_quiet)+
  then have "issues 0 n (snd (snd (load_api_key b n3)))" for b
    by (rule_tac issues_quiet [OF _ load_key_quiet])
  then show ?thesis
    using q n3 by (auto simp: refresh_api_key_def p w t split: sum.splits if_splits)
qed

lemma refresh_finish_quiet: "issues 0 n (snd (snd (refresh_finish a n)))"
proof -
  obtain r a1 n1 where p: "apple_account_request ''GET'' ''/account/manage/forwardemail'' (aa_api_key a) None
      no_result () a n = (r, a1, n1)" by (metis surj_pair)
  obtain r2 a2 n2 where w: "apple_account_request ''POST'' ''/v2/jslogs'' (aa_api_key a1) (Some (JArr []))
      no_result () a1 n1 = (r2, a2, n2)" by (metis surj_pair)
  have q: "issues 0 n n1" "issues 0 n1 n2"
    using account_request_quiet [of "''/account/manage/forwardemail''" n "''GET''" "aa_api_key a" None no_result "()" a]
      account_request_quiet [of "''/v2/jslogs''" n1 "''POST''" "aa_api_key a1" "Some (JArr [])" no_result "()" a1]
      p w by (simp_all add: path_simps)
  then have "issues 0 n n2" by (blast intro: issues_quiet)
  then show ?thesis using q by (auto simp: refresh_finish_def p w Let_def split: sum.splits)
qed

lemma refresh_quiet: "issues 0 n (snd (snd (refresh_apple_account a n)))"
proof -
  obtain r a1 n1 where p: "refresh_token a n = (r, a1, n1)" by (metis surj_pair)
  have q1: "issues 0 n n1" using refresh_token_quiet [of n a] p by simp
  show ?thesis
  proof (cases r)
    case (Inl e)
    then show ?thesis using q1 by (simp add: refresh_apple_account_def p)
  next
    case (Inr t)
    let ?b = "update_expiry (net_now n1) t a1"
    obtain r2 a2 n2 where k: "refresh_api_key ?b n1 = (r2, a2, n2)" by (metis surj_pair)
    obtain r3 a3 n3 where f: "refresh_finish a2 n2 = (r3, a3, n3)" by (metis surj_pair)
    have "issues 0 n1 n2" "issues 0 n2 n3"
      using refresh_key_quiet [of n1 ?b] refresh_finish_quiet [of n2 a2] k f by simp_all
    then have "issues 0 n n2" "issues 0 n n3" using q1 by (blast intro: issues_quiet)+
    then show ?thesis by (auto simp: refresh_apple_account_def p Inr k f split: sum.splits)
  qed
qed

lemma ensure_ready_quiet: "issues 0 n (snd (snd (ensure_ready a n)))"
  by (simp add: ensure_ready_def refresh_quiet)

section \<open>Creation\<close>

lemma create_detail_quiet: "issues 0 n (snd (snd (create_detail c m a n)))"
proof -
  have "private_path i ''.em'' \<noteq> complete_path" "private_path i ''.em'' \<noteq> ''/v1/hme/reserve''" for i
  proof -
    show "private_path i ''.em'' \<noteq> ''/v1/hme/reserve''" by (simp add: private_path_def)
    have "last (private_path i ''.em'') = CHR ''m''" "last complete_path = CHR ''e''"
      by (simp_all add: private_path_def complete_path_def)
    then show "private_path i ''.em'' \<noteq> complete_path" by auto
  qed
  then have "issues 0 n (snd (snd (apple_account_request ''GET'' (private_path (ca_id c) ''.em'')
      (aa_api_key a) None (decode_completed True) blank_completed a n)))"
    by (intro account_request_quiet)
  then show ?thesis
    by (auto simp: create_detail_def split: prod.splits sum.splits)
qed

text \<open>A creation attempt confirms at most once, and an error it returns tells whether it did.\<close>

definition may_have_created :: "go_error \<Rightarrow> bool" where
  "may_have_created e = (case as_protocol e of Some p \<Rightarrow> pe_may_have_created p | None \<Rightarrow> False)"

lemma may_have_created_uncertain [simp]: "may_have_created (uncertain_error e)"
  by (simp add: may_have_created_def uncertain_error_def split: option.splits)

lemma create_with_state_issues:
  assumes "create_with_state label note a n = (r, a', n')"
  shows "\<exists>k \<le> 1. issues k n n' \<and> (\<forall>e. r = Inl e \<longrightarrow> \<not> may_have_created e \<longrightarrow> k = 0)"
proof -
  obtain r1 a1 n1 where p1: "apple_account_request ''POST'' ''/account/manage/email/private/add'' (aa_api_key a)
      (Some (JObj [])) decode_generated [] a n = (r1, a1, n1)" by (metis surj_pair)
  have q1: "issues 0 n n1"
    using account_request_quiet [of "''/account/manage/email/private/add''" n "''POST''" "aa_api_key a"
        "Some (JObj [])" decode_generated "[]" a] p1 by (simp add: path_simps)
  consider "n' = n1" | s email where "r1 = Inr (s, email)" "trim_space email \<noteq> []"
    using assms p1 by (auto simp: create_with_state_def split: sum.splits if_splits)
  then show ?thesis
  proof cases
    case 1
    then show ?thesis using q1 by auto
  next
    case 2
    let ?body = "Some (JObj [(''emailAddress'', JStr email), (''label'', JStr label), (''note'', JStr note)])"
    obtain r2 a2 n2 where p2: "apple_account_request ''PUT'' complete_path (aa_api_key a1) ?body
        (decode_completed False) blank_completed a1 n1 = (r2, a2, n2)" by (metis surj_pair)
    obtain k where k: "k \<le> 1" "issues k n1 n2"
      using account_request_once [of n1 complete_path "aa_api_key a1" ?body "decode_completed False"
          blank_completed a1] p2 by auto
    have k': "issues k n n2" using q1 k(2) by (rule issues_quiet)
    show ?thesis
    proof (cases r2)
      case (Inl e)
      then have "r = Inl (uncertain_error e)" "n' = n2"
        using assms p1 p2 2 by (simp_all add: create_with_state_def)
      then show ?thesis using k(1) k' by auto
    next
      case (Inr sc)
      obtain s2 c where sc: "sc = (s2, c)" by (cases sc)
      let ?m = "created_alias (net_now n2) email c label note"
      have "n' = snd (snd (create_detail c ?m a2 n2))" "\<exists>m. r = Inr m"
        using assms p1 p2 2 Inr sc by (auto simp: create_with_state_def Let_def split_beta)
      then show ?thesis
        using issues_then_quiet [OF k' create_detail_quiet] k(1) by auto
    qed
  qed
qed

lemma create_with_account_issues:
  assumes "create_with_account label note a n = (r, a', n')"
  shows "\<exists>k \<le> 1. issues k n n' \<and> (\<forall>e. r = Inl e \<longrightarrow> \<not> may_have_created e \<longrightarrow> k = 0)"
proof (cases "requires_reauth a \<or> aa_health a = ''degraded''")
  case True
  then have "n' = n" using assms by (auto simp: create_with_account_def Let_def split: if_splits)
  then show ?thesis by (intro exI [of _ 0]) simp
next
  case False
  let ?ref = "needs_refresh (net_now n) a"
  obtain r1 a1 n1 where p1: "(if ?ref then refresh_apple_account a n else (Inr (), a, n)) = (r1, a1, n1)"
    by (metis surj_pair)
  have q1: "issues 0 n n1" using refresh_quiet [of n a] p1 by (auto split: if_splits)
  obtain r2 a2 n2 where p2: "create_with_state label note a1 n1 = (r2, a2, n2)" by (metis surj_pair)
  obtain k where k: "k \<le> 1" "issues k n1 n2" "\<forall>e. r2 = Inl e \<longrightarrow> \<not> may_have_created e \<longrightarrow> k = 0"
    using create_with_state_issues [OF p2] by blast
  have k': "issues k n n2" using q1 k(2) by (rule issues_quiet)
  note unf = create_with_account_def False p1 p2 Let_def
  show ?thesis
  proof (cases r1)
    case (Inl e)
    then have "n' = n1" using assms False p1 by (simp add: create_with_account_def)
    then show ?thesis using q1 by (intro exI [of _ 0]) simp
  next
    case ready: (Inr u)
    show ?thesis
    proof (cases "case r2 of Inr _ \<Rightarrow> True | Inl e \<Rightarrow> ?ref \<or> \<not> expired_before_confirmation e")
      case True
      then have "r = r2 \<and> n' = n2" using assms False p1 p2 ready by (simp add: create_with_account_def)
      then show ?thesis using k k' by auto
    next
      case retry: False
      then obtain e where e: "r2 = Inl e" "expired_before_confirmation e" by (auto split: sum.splits)
      then have "\<not> may_have_created e"
        by (auto simp: expired_before_confirmation_def may_have_created_def split: option.splits)
      then have k0: "issues 0 n n2" using k k' e by auto
      obtain r3 a3 n3 where p3: "refresh_apple_account a2 n2 = (r3, a3, n3)" by (metis surj_pair)
      have q3: "issues 0 n n3"
        using issues_quiet [OF k0 refresh_quiet [of n2 a2]] p3 by simp
      obtain r4 a4 n4 where p4: "create_with_state label note a3 n3 = (r4, a4, n4)" by (metis surj_pair)
      obtain j where j: "j \<le> 1" "issues j n3 n4" "\<forall>e. r4 = Inl e \<longrightarrow> \<not> may_have_created e \<longrightarrow> j = 0"
        using create_with_state_issues [OF p4] by blast
      have j': "issues j n n4" using q3 j(2) by (rule issues_quiet)
      have "(r3 = Inl e3 \<longrightarrow> n' = n3 \<and> r = Inl e3) \<and> (r3 = Inr () \<longrightarrow> n' = n4 \<and> r = r4)" for e3
        using assms False p1 p2 p3 p4 ready e retry
        by (auto simp: create_with_account_def)
      then show ?thesis using q3 j j' by (cases r3) auto
    qed
  qed
qed

section \<open>The contract of a creation channel\<close>

text \<open>
  A channel creates an address with at most one confirming request. A channel that also tells in
  its error whether it sent one can be followed by another channel without the risk of a second
  address: the client lemma below, which the session manager's fallback rests on.
\<close>

locale creating =
  fixes create :: "'s \<Rightarrow> net \<Rightarrow> (go_error + jmap) \<times> 's \<times> net"
  assumes at_most_one: "create s n = (r, s', n') \<Longrightarrow> \<exists>k \<le> 1. issues k n n'"

locale telling = creating +
  assumes tells: "create s n = (Inl e, s', n') \<Longrightarrow> \<not> may_have_created e \<Longrightarrow> issues 0 n n'"

locale fallback = first: telling first + second: creating second
  for first :: "'a \<Rightarrow> net \<Rightarrow> (go_error + jmap) \<times> 'a \<times> net"
    and second :: "'b \<Rightarrow> net \<Rightarrow> (go_error + jmap) \<times> 'b \<times> net"
begin

text \<open>The second channel runs after a first one that failed without having confirmed, or alone.\<close>

lemma fallback_once:
  assumes "first a n = (Inl e, a', n1)" and "\<not> may_have_created e" and "second b n1 = (r, b', n2)"
  shows "\<exists>k \<le> 1. issues k n n2"
  using first.tells [OF assms(1,2)] second.at_most_one [OF assms(3)] by (blast intro: issues_quiet)

end

interpretation account_channel: telling "create_with_account label memo" for label memo
proof
  fix s s' n n' r e
  show "create_with_account label memo s n = (r, s', n') \<Longrightarrow> \<exists>k \<le> 1. issues k n n'"
    using create_with_account_issues by blast
  show "create_with_account label memo s n = (Inl e, s', n') \<Longrightarrow> \<not> may_have_created e \<Longrightarrow> issues 0 n n'"
    using create_with_account_issues by blast
qed

section \<open>Requests are bounded and isolated\<close>

text \<open>
  One call of the Apple Account API sends its request at most three times, and at most once when
  the request can change an alias: only reads and the candidate request are repeated. If it fails,
  the session (cookies, headers, key) is exactly the one before the call.
\<close>

theorem account_request_bounded:
  "\<exists>m. m \<le> (if request_retryable meth path then 3 else 1) \<and>
     sent_since n (snd (snd (apple_account_request meth path key body d z a n))) =
       replicate m (account_request_of meth path key body a (net_now n)) \<and>
     (\<forall>e a' n'. apple_account_request meth path key body d z a n = (Inl e, a', n') \<longrightarrow> a' = a)"
proof -
  obtain m where "m \<le> (if request_retryable meth path then 3 else 1)"
    and "sent_since n (snd (snd (apple_account_request meth path key body d z a n))) =
       replicate m (account_request_of meth path key body a (net_now n))"
    unfolding account_request_net by (rule do_apple_http_sends) blast
  then show ?thesis
    by (intro exI [of _ m] conjI) (auto dest: account_request_failed)
qed

text \<open>A network that answers nothing.\<close>

definition dead_net :: net where
  "dead_net = \<lparr>net_ready = True, net_now = 63000000000 * second, net_events = [], net_sent = []\<rparr>"

theorem account_request_bounded_witness:
  "length (sent_since dead_net (snd (snd (apple_account_request ''DELETE'' ''/x'' [] None no_result ()
     blank_account dead_net)))) \<le> 1"
  using account_request_bounded [of "''DELETE''" "''/x''" dead_net "[]" None no_result "()" blank_account]
  by (auto simp: request_retryable_def)

section \<open>Refreshing is all or nothing\<close>

lemma refresh_finish_post:
  assumes "refresh_finish w n = (Inr u, w', n')"
  shows "trim_space (aa_api_key w') \<noteq> [] \<and> aa_health w' = ''healthy'' \<and> aa_last_check_ok w' \<and>
    net_now n' < aa_manage_expires_at w' \<and> aa_last_checked_at w' = net_now n' \<and> aa_api_key w' = aa_api_key w"
proof -
  obtain r1 a1 n1 where p: "apple_account_request ''GET'' ''/account/manage/forwardemail'' (aa_api_key w) None
      no_result () w n = (r1, a1, n1)" by (metis surj_pair)
  obtain r2 a2 n2 where q: "apple_account_request ''POST'' ''/v2/jslogs'' (aa_api_key a1) (Some (JArr []))
      no_result () a1 n1 = (r2, a2, n2)" by (metis surj_pair)
  have "aa_api_key a2 = aa_api_key w"
    using account_request_keeps [OF p] account_request_keeps [OF q] by simp
  then show ?thesis
    using assms
    by (auto simp: refresh_finish_def p q mark_healthy_def apple_account_fallback_ttl_def minute_def second_def
        Let_def split: sum.splits if_splits)
qed



section \<open>Health after an operation\<close>

definition is_limit :: "go_error \<Rightarrow> bool" where
  "is_limit e \<longleftrightarrow> (case as_protocol e of Some p \<Rightarrow> pe_code p = ''APPLE_ACCOUNT_LIMIT'' | None \<Rightarrow> False)"

lemma limit_not_reauth: "is_limit e \<Longrightarrow> \<not> apple_account_requires_reauth e"
  by (auto simp: is_limit_def apple_account_requires_reauth_def split: option.splits)

lemma mark_failure_available:
  "available_for_use (mark_failure now e a) \<longleftrightarrow> is_limit e \<and> available_for_use a"
  using limit_not_reauth [of e]
  by (auto simp: mark_failure_def Let_def available_for_use_def requires_reauth_def is_limit_def
      split: option.splits)

lemma mark_failure_keeps [simp]:
  "aa_cookies (mark_failure now e a) = aa_cookies a" "aa_api_key (mark_failure now e a) = aa_api_key a"
  "aa_scnt (mark_failure now e a) = aa_scnt a" "aa_apple_id (mark_failure now e a) = aa_apple_id a"
  by (simp_all add: mark_failure_def Let_def)

text \<open>
  C6. After an alias operation over Apple Account failed, the stored session is not used again
  before the worker or a login has repaired it, unless the error was a creation limit; after one
  that succeeded it counts as checked and healthy. Operations on existing aliases never send a
  request that creates an address, whatever identifier the caller passes.
\<close>

theorem alias_operation_health:
  assumes "op \<in> {update_with_account i label note, set_active_with_account i active, delete_with_account i}"
    and "op a n = (r, a', n')"
  shows "(case r of Inl e \<Rightarrow> available_for_use a' \<longrightarrow> is_limit e
          | Inr _ \<Rightarrow> aa_health a' = ''healthy'' \<and> aa_last_check_ok a') \<and>
    confirmations n n' = 0"
proof -
  obtain meth action body res where "op = with_account (simple_call meth (private_path i action) body res)"
      and m: "meth \<noteq> ''PUT''"
    using assms(1)
    by (auto simp: update_with_account_def set_active_with_account_def delete_with_account_def)
  then have op: "with_account (simple_call meth (private_path i action) body res) a n = (r, a', n')"
    using assms(2) by simp
  obtain r1 a1 n1 where p: "ensure_ready a n = (r1, a1, n1)" by (metis surj_pair)
  obtain r2 a2 n2 where q: "apple_account_request meth (private_path i action) (aa_api_key a1) body no_result () a1 n1
      = (r2, a2, n2)" by (metis surj_pair)
  have "private_path i action \<noteq> ''/v1/hme/reserve''" by (simp add: private_path_def)
  then have "issues 0 n1 n2"
    using http_quiet [of "account_request_of meth (private_path i action) (aa_api_key a1) body a1 (net_now n1)" n1
        "request_retryable meth (private_path i action)"] m q
      account_request_net [of meth "private_path i action" "aa_api_key a1" body no_result "()" a1 n1]
    by (simp add: confirms_def account_request_of_def Let_def)
  moreover have n1: "issues 0 n n1" using ensure_ready_quiet [of n a] p by simp
  ultimately have n2: "issues 0 n n2" by (blast intro: issues_quiet)
  have "confirmations n n' = 0"
    using op n1 n2 by (auto simp: with_account_def p simple_call_def q issues_def split: sum.splits prod.splits)
  moreover have "case r of Inl e \<Rightarrow> available_for_use a' \<longrightarrow> is_limit e
      | Inr _ \<Rightarrow> aa_health a' = ''healthy'' \<and> aa_last_check_ok a'"
    using op
    by (auto simp: with_account_def mark_failure_available mark_healthy_def split: sum.splits prod.splits)
  ultimately show ?thesis by blast
qed

theorem alias_operation_health_witness:
  "\<not> available_for_use (fst (snd (delete_with_account ''x'' blank_account dead_net)))"
proof -
  have "fst (delete_with_account ''x'' blank_account dead_net) =
      Inl (apple_protocol_error ''APPLE_ACCOUNT_SESSION_MISSING'' msg_not_logged_in False)"
    by (simp add: delete_with_account_def with_account_def ensure_ready_def blank_account_def)
  then obtain a' n' where e: "delete_with_account ''x'' blank_account dead_net =
      (Inl (apple_protocol_error ''APPLE_ACCOUNT_SESSION_MISSING'' msg_not_logged_in False), a', n')"
    by (metis fst_conv surj_pair)
  then show ?thesis
    using alias_operation_health [of "delete_with_account ''x''" "''x''" "[]" "[]" True blank_account dead_net]
    by (simp add: is_limit_def apple_protocol_error_def)
qed

section \<open>Classification of errors\<close>

lemma contains_part: "contains s (u @ p @ v) \<Longrightarrow> contains s p"
  by (auto simp: contains_iff) (metis append.assoc)

text \<open>
  The limit markers are tested before the markers of an expired session and match inside
  words: any error text that contains \<open>generate\<close> is taken for a creation limit, an explicit "session expired" and the status 419 included, so that no new login is
  asked for.
\<close>

theorem expired_session_taken_for_limit:
  assumes "contains (to_lower (trim_space (rs_text r))) ''generate''"
  shows "\<exists>p. apple_account_http_error r may path = Protocol p \<and> pe_code p = ''APPLE_ACCOUNT_LIMIT'' \<and>
    \<not> apple_account_requires_reauth (apple_account_http_error r may path) \<and>
    (available_for_use a \<longrightarrow> available_for_use (mark_failure now (apple_account_http_error r may path) a))"
proof -
  have "contains (to_lower (trim_space (rs_text r))) ''rate''"
    using contains_part [of _ "''gene''" "''rate''" "[]"] assms by simp
  then obtain p where p: "apple_account_http_error r may path = Protocol p" "pe_code p = ''APPLE_ACCOUNT_LIMIT''"
    by (simp add: apple_account_http_error_def Let_def)
  then show ?thesis
    using limit_not_reauth [of "Protocol p"]
    by (simp add: mark_failure_available) (simp add: is_limit_def)
qed

definition expired_response :: http_response where
  "expired_response = \<lparr>rs_status = 401, rs_host = ''appleid.apple.com'',
     rs_text = ''cannot generate token: session expired'', rs_json = None, rs_render = [],
     rs_cookies = [], rs_scnt = [], rs_session_id = []\<rparr>"

theorem expired_session_taken_for_limit_witness:
  "body_looks_auth_expired (rs_text expired_response) \<and>
   \<not> apple_account_requires_reauth (apple_account_http_error expired_response False [])"
proof -
  have "contains (to_lower (trim_space (rs_text expired_response))) ''generate''"
    "body_looks_auth_expired (rs_text expired_response)"
    by code_simp+
  then show ?thesis
    using expired_session_taken_for_limit [of expired_response False "[]" blank_account 0] by auto
qed

end
