(* ===== verification/WebClient.thy ===== *)
theory WebClient
  imports AppleAccountProps
begin

text \<open>
  The iCloud Web channel: the stored session (\<open>modules/mail/backend/config.go\<close>) and the client of
  the hidden-address service (\<open>client.go\<close>). The client keeps a configuration whose cookie string is
  merged with the cookies of every response. The constant headers and the query parameters, which
  repeat fields of the configuration, are not modelled.
\<close>

section \<open>Configuration\<close>

record icloud_config =
  ic_apple_id :: string
  ic_host :: string
  ic_dsid :: string
  ic_client_id :: string
  ic_build_number :: string
  ic_mastering_number :: string
  ic_cookie :: string
  ic_lang_code :: string
  ic_origin :: string
  ic_referer :: string
  ic_user_agent :: string

record metadata =
  md_host :: string
  md_dsid :: string
  md_client_id :: string
  md_build_number :: string
  md_mastering_number :: string

definition default_user_agent :: string where
  "default_user_agent = ''Mozilla/5.0 (Windows NT 10.0; Win64; x64) AppleWebKit/537.36 (KHTML, like Gecko) Chrome/151.0.0.0 Safari/537.36''"

definition trim_slashes :: "string \<Rightarrow> string" where
  "trim_slashes s = trim_right_slash (trim_right_slash_rev s)"

definition clean_host :: "string \<Rightarrow> string" where
  "clean_host value =
     (let v = trim_space value;
          host = (case parse_url v of None \<Rightarrow> [] | Some u \<Rightarrow> url_hostname u)
      in if host \<noteq> [] then host else trim_slashes v)"

definition apply_defaults :: "icloud_config \<Rightarrow> icloud_config" where
  "apply_defaults c =
     (let c = c\<lparr>ic_host := clean_host (ic_host c)\<rparr>;
          base = (if has_suffix (to_lower (ic_host c)) ''.icloud.com.cn'' then ''https://www.icloud.com.cn''
                  else ''https://www.icloud.com'');
          c = (if trim_space (ic_lang_code c) = [] then c\<lparr>ic_lang_code := ''zh-cn''\<rparr> else c);
          c = (if trim_space (ic_origin c) = [] then c\<lparr>ic_origin := base\<rparr> else c);
          c = (if trim_space (ic_referer c) = [] then c\<lparr>ic_referer := base @ ''/''\<rparr> else c)
      in if trim_space (ic_user_agent c) = [] then c\<lparr>ic_user_agent := default_user_agent\<rparr> else c)"

definition is_mail_domain_host :: "string \<Rightarrow> bool" where
  "is_mail_domain_host host =
     (let h = to_lower (trim_space host)
      in has_suffix h ''-maildomainws.icloud.com'' \<or> has_suffix h ''-maildomainws.icloud.com.cn'')"

definition icloud_page :: "string \<Rightarrow> bool" where
  "icloud_page raw \<longleftrightarrow> (case parse_url raw of None \<Rightarrow> False | Some u \<Rightarrow> u_scheme u = ''https'' \<and>
     (url_hostname u = ''www.icloud.com'' \<or> url_hostname u = ''www.icloud.com.cn''))"

text \<open>
  \<open>Validate\<close>; the missing keys are reported in the order of a map iteration, here in the order of
  the source.
\<close>

definition validate_config :: "icloud_config \<Rightarrow> go_error option" where
  "validate_config c =
     (let required = [(''host'', ic_host c), (''dsid'', ic_dsid c), (''clientId'', ic_client_id c),
            (''clientBuildNumber'', ic_build_number c), (''clientMasteringNumber'', ic_mastering_number c),
            (''cookie'', ic_cookie c)];
          missing = map fst (filter (\<lambda>(k, v). trim_space v = []) required)
      in if missing \<noteq> [] then Some (Plain (''missing required config value(s): '' @ str_join missing '', ''))
         else if \<not> is_mail_domain_host (ic_host c) then Some (Plain ''invalid iCloud maildomainws host'')
         else if \<not> icloud_page (ic_origin c) then Some (Plain ''invalid origin URL'')
         else if \<not> icloud_page (ic_referer c) then Some (Plain ''invalid referer URL'')
         else None)"

definition config_metadata :: "icloud_config \<Rightarrow> metadata" where
  "config_metadata c = \<lparr>md_host = ic_host c, md_dsid = ic_dsid c, md_client_id = ic_client_id c,
     md_build_number = ic_build_number c, md_mastering_number = ic_mastering_number c\<rparr>"

section \<open>Merging response cookies\<close>

text \<open>The \<open>Cookie\<close> header is read and written by \<open>net/http\<close>.\<close>

definition token_char :: "char \<Rightarrow> bool" where
  "token_char c \<longleftrightarrow> is_alnum c \<or> c \<in> set ''!#$%&*+-.^_`|~'' \<or> c = CHR 0x27"

definition cookie_value_char :: "char \<Rightarrow> bool" where
  "cookie_value_char c \<longleftrightarrow> (let n = of_char c :: nat in
     32 \<le> n \<and> n < 127 \<and> c \<noteq> CHR 0x22 \<and> c \<noteq> CHR '';'' \<and> c \<noteq> CHR 0x5C)"

definition unquote_value :: "string \<Rightarrow> string" where
  "unquote_value v =
     (if length v > 1 \<and> hd v = CHR 0x22 \<and> last v = CHR 0x22 then butlast (tl v) else v)"

text \<open>\<open>textproto.TrimString\<close>: blanks, tabs and line ends.\<close>

definition http_space :: "char \<Rightarrow> bool" where
  "http_space c \<longleftrightarrow> c = CHR '' '' \<or> c = CHR 0x09 \<or> c = CHR 0x0A \<or> c = CHR 0x0D"

definition trim_http :: "string \<Rightarrow> string" where
  "trim_http s = rev (dropWhile http_space (rev (dropWhile http_space s)))"

definition read_cookie_pairs :: "string \<Rightarrow> (string \<times> string) list" where
  "read_cookie_pairs header =
     concat (map (\<lambda>part.
       (let p = trim_http part;
            (name, value, _) = cut_byte p CHR ''='';
            name = trim_http name;
            v = unquote_value value
        in if p = [] \<or> name = [] \<or> \<not> list_all token_char name \<or> \<not> list_all cookie_value_char v
           then [] else [(name, v)])) (split_byte header CHR '';''))"

text \<open>\<open>(&http.Cookie{Name, Value}).String()\<close>.\<close>

definition cookie_string :: "string \<Rightarrow> string \<Rightarrow> string" where
  "cookie_string name value =
     (if name = [] \<or> \<not> list_all token_char name then []
      else (let v = filter cookie_value_char value
            in name @ ''='' @ (if CHR '' '' \<in> set v \<or> CHR '','' \<in> set v
                                then [CHR 0x22] @ v @ [CHR 0x22] else v)))"

text \<open>The two loops of \<open>mergeResponseCookies\<close> over names, first the stored cookies, then the updates.\<close>

type_synonym cookie_jar = "string list \<times> (string \<rightharpoonup> string)"

definition jar_add :: "string \<Rightarrow> string \<Rightarrow> cookie_jar \<Rightarrow> cookie_jar" where
  "jar_add name value jar =
     (let (order, values) = jar
      in (if values name = None then order @ [name] else order, values(name \<mapsto> value)))"

definition jar_update :: "gotime \<Rightarrow> set_cookie \<Rightarrow> cookie_jar \<Rightarrow> cookie_jar" where
  "jar_update now u jar =
     (if sc_name u = [] then jar
      else if sc_max_age u < 0 \<or> (sc_expires u \<noteq> 0 \<and> sc_expires u < now)
      then (fst jar, (snd jar)(sc_name u := None))
      else jar_add (sc_name u) (sc_value u) jar)"

definition merged_jar :: "gotime \<Rightarrow> set_cookie list \<Rightarrow> string \<Rightarrow> cookie_jar" where
  "merged_jar now updates header =
     foldl (\<lambda>j u. jar_update now u j)
       (foldl (\<lambda>j (n, v). jar_add n v j) ([], Map.empty) (read_cookie_pairs header)) updates"

definition jar_pairs :: "cookie_jar \<Rightarrow> (string \<times> string) list" where
  "jar_pairs jar =
     concat (map (\<lambda>n. case snd jar n of None \<Rightarrow> [] | Some v \<Rightarrow> [(n, v)]) (fst jar))"

definition merge_cookie_header :: "gotime \<Rightarrow> set_cookie list \<Rightarrow> string \<Rightarrow> string" where
  "merge_cookie_header now updates header =
     str_join (map (\<lambda>(n, v). cookie_string n v) (jar_pairs (merged_jar now updates header))) ''; ''"

section \<open>The client\<close>

record web_client =
  wc_config :: icloud_config
  wc_dirty :: bool

definition new_client :: "icloud_config \<Rightarrow> go_error + web_client" where
  "new_client config =
     (let c = apply_defaults config
      in case validate_config c of Some e \<Rightarrow> Inl e | None \<Rightarrow> Inr \<lparr>wc_config = c, wc_dirty = False\<rparr>)"

definition absorb_cookies :: "gotime \<Rightarrow> set_cookie list \<Rightarrow> web_client \<Rightarrow> web_client" where
  "absorb_cookies now updates c =
     (if updates = [] then c
      else let merged = merge_cookie_header now updates (ic_cookie (wc_config c))
           in if merged \<noteq> ic_cookie (wc_config c)
              then c\<lparr>wc_config := (wc_config c)\<lparr>ic_cookie := merged\<rparr>, wc_dirty := True\<rparr> else c)"

text \<open>\<open>http.StatusText\<close> for the error statuses.\<close>

definition status_text :: "int \<Rightarrow> string" where
  "status_text st = (case map_of
     [(400, ''Bad Request''), (401, ''Unauthorized''), (402, ''Payment Required''), (403, ''Forbidden''),
      (404, ''Not Found''), (405, ''Method Not Allowed''), (406, ''Not Acceptable''),
      (407, ''Proxy Authentication Required''), (408, ''Request Timeout''), (409, ''Conflict''),
      (410, ''Gone''), (411, ''Length Required''), (412, ''Precondition Failed''),
      (413, ''Request Entity Too Large''), (414, ''Request URI Too Long''), (415, ''Unsupported Media Type''),
      (416, ''Requested Range Not Satisfiable''), (417, ''Expectation Failed''), (418, ''I'' @ [CHR 0x27] @ ''m a teapot''),
      (421, ''Misdirected Request''), (422, ''Unprocessable Entity''), (423, ''Locked''),
      (424, ''Failed Dependency''), (425, ''Too Early''), (426, ''Upgrade Required''),
      (428, ''Precondition Required''), (429, ''Too Many Requests''), (431, ''Request Header Fields Too Large''),
      (451, ''Unavailable For Legal Reasons''), (500, ''Internal Server Error''), (501, ''Not Implemented''),
      (502, ''Bad Gateway''), (503, ''Service Unavailable''), (504, ''Gateway Timeout''),
      (505, ''HTTP Version Not Supported''), (506, ''Variant Also Negotiates''), (507, ''Insufficient Storage''),
      (508, ''Loop Detected''), (510, ''Not Extended''), (511, ''Network Authentication Required'')] st of
     None \<Rightarrow> [] | Some t \<Rightarrow> t)"

definition payload_of :: "string \<Rightarrow> jmap \<Rightarrow> apple_payload" where
  "payload_of render m =
     (let nested = as_map (jget m ''error'');
          number = (\<lambda>v. case v of JNum x _ \<Rightarrow> Some x | _ \<Rightarrow> None)
      in \<lparr>ap_text = render,
          ap_error_code = (if jget nested ''errorCode'' = JNull then None else Some (sprint (jget nested ''errorCode''))),
          ap_retry_nested = number (jget nested ''retryAfter''),
          ap_retry_top = number (jget m ''retryAfter'')\<rparr>)"

definition web_response :: "http_response \<Rightarrow> go_error + jmap" where
  "web_response r =
     (case Option.bind (rs_json r) dec_struct of
        None \<Rightarrow>
          (if rs_status r \<ge> 400 then
             (let body = trim_space (rs_text r)
              in Inl (Upstream (rs_status r)
                   (if body = [] then status_text (rs_status r) @ msg_no_upstream_body else body)))
           else Inl (Plain ''unexpected response: body is not a JSON object''))
      | Some m \<Rightarrow>
          (if rs_status r \<ge> 400 then
             Inl (Upstream (rs_status r)
               (if m = [] then status_text (rs_status r) @ msg_no_upstream_body else safe_text (rs_render r)))
           else if jget m ''success'' = JBool True then Inr m
           else Inl (AppleErr (payload_of (rs_render r) m))))"

definition client_request ::
  "string \<Rightarrow> string \<Rightarrow> json option \<Rightarrow> web_client \<Rightarrow> net \<Rightarrow> (go_error + jmap) \<times> web_client \<times> net" where
  "client_request meth endpoint body c n =
     (let config = wc_config c;
          rq = \<lparr>rq_method = meth, rq_url = ''https://'' @ ic_host config @ endpoint, rq_path = endpoint,
                rq_api_key = [], rq_scnt = [], rq_session_id = [], rq_cookie = ic_cookie config, rq_body = body\<rparr>;
          (ev, n1) = send rq n
      in case ev_outcome ev of
           DoError e \<Rightarrow> (Inl (Wrapped ''network error: '' e), c, n1)
         | BodyError e r \<Rightarrow> (Inl e, absorb_cookies (net_now n1) (rs_cookies r) c, n1)
         | Responded r \<Rightarrow> (web_response r, absorb_cookies (net_now n1) (rs_cookies r) c, n1))"

text \<open>Applying a pure reading of the decoded body to the answer.\<close>

definition read_answer ::
  "(jmap \<Rightarrow> go_error + 'a) \<Rightarrow> (go_error + jmap) \<times> web_client \<times> net \<Rightarrow> (go_error + 'a) \<times> web_client \<times> net" where
  "read_answer f p = (case p of (r, c, n) \<Rightarrow> (case r of Inl e \<Rightarrow> Inl e | Inr m \<Rightarrow> f m, c, n))"

definition web_list_settings where
  "web_list_settings c n = read_answer
     (\<lambda>m. case jget m ''result'' of JObj s \<Rightarrow> Inr s
          | _ \<Rightarrow> Inl (Plain ''unexpected list response: result is not an object''))
     (client_request ''GET'' ''/v2/hme/list'' None c n)"

definition aliases_of_settings :: "jmap \<Rightarrow> go_error + jmap list" where
  "aliases_of_settings s =
     (case jget s ''hmeEmails'' of
        JArr xs \<Rightarrow> Inr (map normalize_alias_timestamp (concat (map (\<lambda>x. case x of JObj m \<Rightarrow> [m] | _ \<Rightarrow> []) xs)))
      | JNull \<Rightarrow> Inr []
      | _ \<Rightarrow> Inl (Plain ''unexpected list response: result.hmeEmails is not a list''))"

definition web_list_aliases :: "web_client \<Rightarrow> net \<Rightarrow> (go_error + jmap list) \<times> web_client \<times> net" where
  "web_list_aliases c n = read_answer aliases_of_settings (web_list_settings c n)"

definition web_generate :: "web_client \<Rightarrow> net \<Rightarrow> (go_error + string) \<times> web_client \<times> net" where
  "web_generate c n = read_answer
     (\<lambda>m. case jget (as_map (jget m ''result'')) ''hme'' of
            JStr h \<Rightarrow> (if h = [] then Inl (Plain ''unexpected generate response: result.hme is missing'') else Inr h)
          | _ \<Rightarrow> Inl (Plain ''unexpected generate response: result.hme is missing''))
     (client_request ''POST'' ''/v1/hme/generate'' (Some (JObj [(''langCode'', JStr (ic_lang_code (wc_config c)))])) c n)"

definition web_reserve ::
  "string \<Rightarrow> string \<Rightarrow> string \<Rightarrow> web_client \<Rightarrow> net \<Rightarrow> (go_error + jmap) \<times> web_client \<times> net" where
  "web_reserve hme label note c n = read_answer
     (\<lambda>m. case jget (as_map (jget m ''result'')) ''hme'' of
            JObj a \<Rightarrow> Inr a
          | _ \<Rightarrow> Inl (Plain ''unexpected reserve response: result.hme is missing''))
     (client_request ''POST'' ''/v1/hme/reserve''
        (Some (JObj [(''hme'', JStr hme), (''label'', JStr label), (''note'', JStr note)])) c n)"

definition web_create :: "string \<Rightarrow> string \<Rightarrow> web_client \<Rightarrow> net \<Rightarrow> (go_error + jmap) \<times> web_client \<times> net" where
  "web_create label note c n =
     (case web_generate c n of
        (Inl e, c1, n1) \<Rightarrow> (Inl e, c1, n1)
      | (Inr candidate, c1, n1) \<Rightarrow> web_reserve candidate label note c1 n1)"

text \<open>The result object, or the given one when the service returns none.\<close>

definition result_or :: "jmap \<Rightarrow> jmap \<Rightarrow> jmap" where
  "result_or dflt m = (case jget m ''result'' of JObj s \<Rightarrow> s | _ \<Rightarrow> dflt)"

definition web_update where
  "web_update i label note c n = read_answer
     (\<lambda>m. let s = result_or [(''anonymousId'', JStr i), (''label'', JStr label), (''note'', JStr note)] m
          in Inr (case jget s ''hme'' of JObj a \<Rightarrow> a | _ \<Rightarrow> s))
     (client_request ''POST'' ''/v1/hme/updateMetaData''
        (Some (JObj [(''anonymousId'', JStr i), (''label'', JStr label), (''note'', JStr note)])) c n)"

definition web_set_active where
  "web_set_active i active c n = read_answer
     (\<lambda>m. Inr (result_or [(''anonymousId'', JStr i), (''isActive'', JBool active)] m))
     (client_request ''POST'' (''/v1/hme/'' @ (if active then ''reactivate'' else ''deactivate''))
        (Some (JObj [(''anonymousId'', JStr i)])) c n)"

definition web_delete where
  "web_delete i c n = read_answer
     (\<lambda>m. Inr (result_or [(''anonymousId'', JStr i), (''deleted'', JBool True)] m))
     (client_request ''POST'' ''/v1/hme/delete'' (Some (JObj [(''anonymousId'', JStr i)])) c n)"

definition list_length_text :: "json \<Rightarrow> json" where
  "list_length_text v = (case v of JArr xs \<Rightarrow> JNum (of_nat (length xs)) (dec (length xs)) | _ \<Rightarrow> JNum 0 ''0'')"

definition web_check where
  "web_check c n = read_answer
     (\<lambda>s. Inr [(''selectedForwardTo'', jget s ''selectedForwardTo''),
                (''forwardToEmails'', jget s ''forwardToEmails''),
                (''aliasCount'', list_length_text (jget s ''hmeEmails''))])
     (web_list_settings c n)"

section \<open>Facts\<close>

lemma client_request_sent:
  "extends n (snd (snd (client_request meth endpoint body c n))) \<and>
   (\<exists>rq. sent_since n (snd (snd (client_request meth endpoint body c n))) = [rq] \<and> rq_method rq = meth \<and>
      rq_path rq = endpoint)"
proof -
  let ?rq = "\<lparr>rq_method = meth, rq_url = ''https://'' @ ic_host (wc_config c) @ endpoint, rq_path = endpoint,
                rq_api_key = [], rq_scnt = [], rq_session_id = [], rq_cookie = ic_cookie (wc_config c), rq_body = body\<rparr>"
  have "snd (snd (client_request meth endpoint body c n)) = snd (send ?rq n)"
    by (simp add: client_request_def Let_def split_beta split: outcome.splits)
  then show ?thesis using send_extends [of n ?rq] sent_send [of n ?rq] by simp
qed

lemma client_request_issues:
  "\<exists>k \<le> 1. issues k n (snd (snd (client_request meth endpoint body c n))) \<and>
     (meth \<noteq> ''PUT'' \<longrightarrow> endpoint \<noteq> ''/v1/hme/reserve'' \<longrightarrow> k = 0)"
  using client_request_sent [of n meth endpoint body c]
  by (auto simp: issues_def confirmations_def confirms_def)

lemma snd_read_answer [simp]: "snd (read_answer f p) = snd p"
  by (simp add: read_answer_def split_beta)

lemma web_generate_quiet: "issues 0 n (snd (snd (web_generate c n)))"
  using client_request_issues [of n "''POST''" "''/v1/hme/generate''"
      "Some (JObj [(''langCode'', JStr (ic_lang_code (wc_config c)))])" c]
  by (auto simp: web_generate_def)

lemma web_create_issues: "web_create label note c n = (r, c', n') \<Longrightarrow> \<exists>k \<le> 1. issues k n n'"
proof -
  assume w: "web_create label note c n = (r, c', n')"
  obtain r1 c1 n1 where g: "web_generate c n = (r1, c1, n1)" by (metis surj_pair)
  have q: "issues 0 n n1" using web_generate_quiet [of n c] g by simp
  show ?thesis
  proof (cases r1)
    case (Inl e)
    then have "n' = n1" using w g by (simp add: web_create_def)
    then show ?thesis using q by auto
  next
    case (Inr h)
    then have "n' = snd (snd (client_request ''POST'' ''/v1/hme/reserve''
        (Some (JObj [(''hme'', JStr h), (''label'', JStr label), (''note'', JStr note)])) c1 n1))"
      using w g by (simp add: web_create_def web_reserve_def flip: snd_conv) (metis snd_conv snd_read_answer)
    then show ?thesis
      using client_request_issues [of n1 "''POST''" "''/v1/hme/reserve''"
          "Some (JObj [(''hme'', JStr h), (''label'', JStr label), (''note'', JStr note)])" c1] q
      by (auto intro: issues_quiet)
  qed
qed

interpretation web_channel: creating "web_create label memo" for label memo
  by unfold_locales (rule web_create_issues)

interpretation both_channels: fallback "create_with_account label memo" "web_create label memo" for label memo
  by unfold_locales

section \<open>Merged cookies\<close>

definition removes :: "gotime \<Rightarrow> set_cookie \<Rightarrow> bool" where
  "removes now u \<longleftrightarrow> sc_max_age u < 0 \<or> (sc_expires u \<noteq> 0 \<and> sc_expires u < now)"

definition jar_ok :: "cookie_jar \<Rightarrow> bool" where
  "jar_ok jar \<longleftrightarrow> distinct (fst jar) \<and> set (fst jar) = dom (snd jar)"

definition jar_adds :: "(string \<times> string) list \<Rightarrow> cookie_jar \<Rightarrow> cookie_jar" where
  "jar_adds ps jar = foldl (\<lambda>j (n, v). jar_add n v j) jar ps"

lemma jar_adds_ok:
  "jar_ok jar \<Longrightarrow> jar_ok (jar_adds ps jar) \<and> snd (jar_adds ps jar) = snd jar ++ map_of (rev ps)"
proof (induction ps arbitrary: jar)
  case Nil
  then show ?case by (simp add: jar_adds_def)
next
  case (Cons p ps)
  obtain n v where p: "p = (n, v)" by (cases p)
  have "jar_ok (jar_add n v jar)"
    using Cons.prems by (auto simp: jar_ok_def jar_add_def split_beta)
  moreover have "snd (jar_add n v jar) = (snd jar)(n \<mapsto> v)" by (simp add: jar_add_def split_beta)
  ultimately show ?case using Cons.IH [of "jar_add n v jar"] p by (simp add: jar_adds_def del: fun_upd_apply)
qed

lemma jar_updates_adds:
  "\<forall>u \<in> set us. \<not> removes now u \<Longrightarrow>
   foldl (\<lambda>j u. jar_update now u j) jar us =
     jar_adds (map (\<lambda>u. (sc_name u, sc_value u)) (filter (\<lambda>u. sc_name u \<noteq> []) us)) jar"
  by (induction us arbitrary: jar) (auto simp: jar_adds_def jar_update_def removes_def)

lemma jar_pairs_map:
  assumes "jar_ok jar"
  shows "map fst (jar_pairs jar) = fst jar \<and> map_of (jar_pairs jar) = snd jar"
proof -
  have p: "map fst (concat (map (\<lambda>n. case f n of None \<Rightarrow> [] | Some v \<Rightarrow> [(n, v)]) ns)) = ns"
    if "set ns \<subseteq> dom f" for ns and f :: "string \<rightharpoonup> string"
    using that by (induction ns) auto
  have keys: "map fst (jar_pairs jar) = fst jar"
    using p [of "fst jar" "snd jar"] assms by (simp add: jar_pairs_def jar_ok_def)
  have "map_of (jar_pairs jar) k = snd jar k" for k
  proof (cases "snd jar k")
    case None
    then have "k \<notin> fst ` set (jar_pairs jar)"
      using keys assms by (metis domIff jar_ok_def list.set_map)
    then show ?thesis using None by (metis map_of_eq_None_iff)
  next
    case (Some v)
    then have "k \<in> set (fst jar)" using assms by (auto simp: jar_ok_def)
    then have "(k, v) \<in> set (jar_pairs jar)" using Some by (force simp: jar_pairs_def)
    moreover have "distinct (map fst (jar_pairs jar))" using keys assms by (simp add: jar_ok_def)
    ultimately show ?thesis using Some by simp
  qed
  then show ?thesis using keys by blast
qed

text \<open>
  As long as a response removes no cookie, the merged cookie string names every cookie once,
  with the value of its last update, or its stored value if the response does not mention it.
\<close>

theorem merged_cookies_last_wins:
  assumes "\<forall>u \<in> set updates. \<not> removes now u"
  shows "distinct (map fst (jar_pairs (merged_jar now updates header))) \<and>
    map_of (jar_pairs (merged_jar now updates header)) =
      map_of (rev (read_cookie_pairs header)) ++
      map_of (rev (map (\<lambda>u. (sc_name u, sc_value u)) (filter (\<lambda>u. sc_name u \<noteq> []) updates)))"
proof -
  let ?new = "map (\<lambda>u. (sc_name u, sc_value u)) (filter (\<lambda>u. sc_name u \<noteq> []) updates)"
  let ?j0 = "jar_adds (read_cookie_pairs header) ([], Map.empty)"
  have j: "merged_jar now updates header = jar_adds ?new ?j0"
    unfolding merged_jar_def jar_updates_adds [OF assms] by (simp add: jar_adds_def)
  have "jar_ok ([], Map.empty)" by (simp add: jar_ok_def)
  then have 0: "jar_ok ?j0" "snd ?j0 = map_of (rev (read_cookie_pairs header))"
    using jar_adds_ok [of "([], Map.empty)" "read_cookie_pairs header"] by simp_all
  have 1: "jar_ok (jar_adds ?new ?j0)" "snd (jar_adds ?new ?j0) = snd ?j0 ++ map_of (rev ?new)"
    using jar_adds_ok [OF 0(1), of ?new] by simp_all
  show ?thesis
    using jar_pairs_map [OF 1(1)] 1 0(2) unfolding j by (simp add: jar_ok_def)
qed

definition plain_cookie :: "string \<Rightarrow> string \<Rightarrow> int \<Rightarrow> set_cookie" where
  "plain_cookie n v age = \<lparr>sc_name = n, sc_value = v, sc_domain = [], sc_path = [], sc_expires = 0,
     sc_max_age = age, sc_secure = True, sc_http_only = True\<rparr>"

theorem merged_cookies_last_wins_witness:
  "map_of (jar_pairs (merged_jar 5 [plain_cookie ''a'' ''2'' 0, plain_cookie ''a'' ''3'' 0] ''a=1; b=4'')) ''a'' =
     Some ''3''"
  using merged_cookies_last_wins [of "[plain_cookie ''a'' ''2'' 0, plain_cookie ''a'' ''3'' 0]" 5 "''a=1; b=4''"]
  by (simp add: removes_def plain_cookie_def)

text \<open>
  A response that removes a cookie and sets it again is merged wrongly: the name stays in the
  order list twice, so that the cookie string repeats the new cookie.
\<close>

theorem removed_cookie_repeated:
  "merge_cookie_header 5 [plain_cookie ''a'' [] (- 1), plain_cookie ''a'' ''2'' 0] ''a=1'' = ''a=2; a=2''"
  by code_simp

end
