(* ===== verification/Channels.thy ===== *)
theory Channels
  imports WebClient Storage
begin

text \<open>
  The session manager, \<open>modules/mail/backend/session.go\<close>, with the cooldowns of the two creation
  channels, \<open>create_channels.go\<close>. Its documents are scripted cells; the network is part of its
  state and supplies the clock. Each exported operation runs under the manager's locks and is one
  function on the state.
\<close>

section \<open>State\<close>

record create_runtime =
  cr_cooldown_until :: "unixtime option"
  cr_last_create_at :: "unixtime option"
  cr_error_code :: string
  cr_error :: string
  cr_failures :: int

definition blank_runtime :: create_runtime where
  "blank_runtime = \<lparr>cr_cooldown_until = None, cr_last_create_at = None, cr_error_code = [], cr_error = [],
     cr_failures = 0\<rparr>"

record session_state =
  ss_valid :: bool
  ss_last_refresh :: "unixtime option"
  ss_last_valid :: "unixtime option"
  ss_expires_hint :: string
  ss_last_error :: "string option"
  ss_needs_reauth :: bool
  ss_hme :: "jmap option"

definition blank_session :: session_state where
  "blank_session = \<lparr>ss_valid = False, ss_last_refresh = None, ss_last_valid = None,
     ss_expires_hint = ''apple-controlled'', ss_last_error = None, ss_needs_reauth = False, ss_hme = None\<rparr>"

record session_manager =
  sm_config :: "icloud_config cell"
  sm_metadata :: "metadata cell"
  sm_state :: "session_state cell"
  sm_account :: "apple_account cell"
  sm_channels :: "(string \<rightharpoonup> create_runtime) cell"
  sm_stamps :: "stamp_cache cell"
  sm_net :: net

definition channel_web :: string where "channel_web = ''icloud_web''"
definition channel_account :: string where "channel_account = ''apple_account''"

definition sm_now :: "session_manager \<Rightarrow> gotime" where
  "sm_now s = net_now (sm_net s)"

definition unix_now :: "session_manager \<Rightarrow> unixtime" where
  "unix_now s = unix_float (sm_now s)"

section \<open>Documents\<close>

text \<open>\<open>LoadICloudConfig\<close>: a missing document is \<open>ErrSessionMissing\<close>, a failing read another error.\<close>

definition load_config :: "session_manager \<Rightarrow> (go_error + icloud_config) \<times> session_manager" where
  "load_config s =
     (let fault = (case read_faults (sm_config s) of [] \<Rightarrow> False | f # _ \<Rightarrow> f);
          (d, c) = cell_read (sm_config s)
      in (case d of
            None \<Rightarrow> Inl (if fault then Plain ''read error'' else SessionMissing)
          | Some raw \<Rightarrow>
              (let cfg = apply_defaults raw
               in case validate_config cfg of Some e \<Rightarrow> Inl e | None \<Rightarrow> Inr cfg),
          s\<lparr>sm_config := c\<rparr>))"

definition manager_client :: "session_manager \<Rightarrow> (go_error + web_client) \<times> session_manager" where
  "manager_client s =
     (let (r, s1) = load_config s in (case r of Inl e \<Rightarrow> Inl e | Inr c \<Rightarrow> new_client c, s1))"

definition persist_client_config :: "web_client \<Rightarrow> session_manager \<Rightarrow> session_manager" where
  "persist_client_config c s =
     (if \<not> wc_dirty c then s
      else let (r, s1) = load_config s
           in if (case r of Inr cur \<Rightarrow> ic_cookie cur = ic_cookie (wc_config c) | Inl _ \<Rightarrow> False) then s1
              else s1\<lparr>sm_config := snd (cell_write (wc_config c) (sm_config s1))\<rparr>)"

definition read_account :: "session_manager \<Rightarrow> apple_account option \<times> session_manager" where
  "read_account s = (let (d, c) = cell_read (sm_account s) in (d, s\<lparr>sm_account := c\<rparr>))"

definition write_account :: "apple_account \<Rightarrow> session_manager \<Rightarrow> bool \<times> session_manager" where
  "write_account a s = (let (ok, c) = cell_write a (sm_account s) in (ok, s\<lparr>sm_account := c\<rparr>))"

definition same_apple_account :: "string \<Rightarrow> string \<Rightarrow> bool" where
  "same_apple_account l r \<longleftrightarrow>
     trim_space l = [] \<or> trim_space r = [] \<or> equal_fold (trim_space l) (trim_space r)"

section \<open>Cooldowns of the creation channels\<close>

definition default_channel_cooldown :: duration where
  "default_channel_cooldown = 2 * minute"

definition transient_channel_cooldown :: duration where
  "transient_channel_cooldown = 30 * second"

definition create_channel_runtime :: "string \<Rightarrow> session_manager \<Rightarrow> create_runtime \<times> session_manager" where
  "create_channel_runtime ch s =
     (let (d, c) = cell_read (sm_channels s);
          s1 = s\<lparr>sm_channels := c\<rparr>
      in case d of
           None \<Rightarrow> (blank_runtime, s1)
         | Some m \<Rightarrow>
             (let r = (case m ch of None \<Rightarrow> blank_runtime | Some r \<Rightarrow> r)
              in (case cr_cooldown_until r of
                    Some u \<Rightarrow> (if u \<le> unix_now s then r\<lparr>cr_cooldown_until := None\<rparr> else r)
                  | None \<Rightarrow> r, s1)))"

definition channel_cooling_down :: "string \<Rightarrow> session_manager \<Rightarrow> bool \<times> session_manager" where
  "channel_cooling_down ch s =
     (let (r, s1) = create_channel_runtime ch s
      in (case cr_cooldown_until r of Some u \<Rightarrow> u > unix_now s | None \<Rightarrow> False, s1))"

definition update_runtime ::
  "string \<Rightarrow> (create_runtime \<Rightarrow> create_runtime) \<Rightarrow> session_manager \<Rightarrow> session_manager" where
  "update_runtime ch f s =
     (let (d, c) = cell_read (sm_channels s);
          m = (case d of None \<Rightarrow> Map.empty | Some m \<Rightarrow> m);
          r = (case m ch of None \<Rightarrow> blank_runtime | Some r \<Rightarrow> r)
      in s\<lparr>sm_channels := snd (cell_write (m(ch \<mapsto> f r)) c)\<rparr>)"

definition record_create_success :: "string \<Rightarrow> session_manager \<Rightarrow> session_manager" where
  "record_create_success ch s = update_runtime ch
     (\<lambda>r. r\<lparr>cr_last_create_at := Some (unix_now s), cr_cooldown_until := None, cr_error_code := [],
            cr_error := [], cr_failures := 0\<rparr>) s"

definition create_error_details :: "go_error \<Rightarrow> string \<times> duration \<times> bool" where
  "create_error_details e =
     (case as_protocol e of
        Some p \<Rightarrow> (pe_code p, pe_retry_after p, pe_code p = ''APPLE_ACCOUNT_LIMIT'')
      | None \<Rightarrow>
          (case as_apple e of
             Some p \<Rightarrow>
               (let (code, retry) = code_and_retry_after p
                in (code, retry, code = ''-41015'' \<or> contains (to_lower (err_text (AppleErr p))) ''reached the limit''))
           | None \<Rightarrow>
               (''CREATE_ERROR'', 0,
                contains (to_lower (err_text e)) ''reached the limit'' \<or> contains (err_text e) ''-41015'')))"

definition failure_cooldown :: "go_error \<Rightarrow> duration" where
  "failure_cooldown e =
     (let (_, retry, limited) = create_error_details e
      in if retry > 0 then retry
         else if limited then default_channel_cooldown else transient_channel_cooldown)"

definition record_create_failure :: "string \<Rightarrow> go_error \<Rightarrow> session_manager \<Rightarrow> session_manager" where
  "record_create_failure ch e s = update_runtime ch
     (\<lambda>r. r\<lparr>cr_error_code := fst (create_error_details e), cr_error := safe_error_text e,
            cr_failures := cr_failures r + 1,
            cr_cooldown_until := Some (unix_now s + seconds_of (failure_cooldown e))\<rparr>) s"

definition all_create_channels_failed :: "go_error option \<Rightarrow> go_error \<Rightarrow> go_error" where
  "all_create_channels_failed account_err web_err =
     (case account_err of
        None \<Rightarrow> web_err
      | Some a \<Rightarrow> apple_protocol_error ''CREATE_ALL_CHANNELS_FAILED''
          (msg_all_failed_account @ safe_error_text a @ msg_all_failed_web @ safe_error_text web_err) True)"

section \<open>Creation times\<close>

definition remember_alias_timestamp :: "jmap \<Rightarrow> session_manager \<Rightarrow> jmap \<times> session_manager" where
  "remember_alias_timestamp m s =
     (let m = normalize_alias_timestamp m
      in case alias_timestamp (jget m ''createTimestamp'') of
           None \<Rightarrow> (m, s)
         | Some t \<Rightarrow>
             (if alias_timestamp_keys m = [] then (m, s)
              else let (d, c) = cell_read (sm_stamps s);
                       cache = (case d of None \<Rightarrow> Map.empty | Some x \<Rightarrow> x)
                   in (m, s\<lparr>sm_stamps := snd (cell_write (cache_alias_timestamp cache m t) c)\<rparr>)))"

text \<open>The first pass over the listing: normalise, feed the cache or read from it.\<close>

fun enrich_pass :: "jmap list \<Rightarrow> stamp_cache \<Rightarrow> jmap list \<times> stamp_cache \<times> bool" where
  "enrich_pass [] cache = ([], cache, False)"
| "enrich_pass (m # ms) cache =
     (let m = normalize_alias_timestamp m
      in case alias_timestamp (jget m ''createTimestamp'') of
           Some t \<Rightarrow>
             (let (ms', c', missing) = enrich_pass ms (cache_alias_timestamp cache m t) in (m # ms', c', missing))
         | None \<Rightarrow>
             (case cached_alias_timestamp cache m of
                Some t \<Rightarrow>
                  (let (ms', c', missing) = enrich_pass ms cache
                   in (jput ''createTimestamp'' (JNum t []) m # ms', c', missing))
              | None \<Rightarrow>
                  (let (ms', c', _) = enrich_pass ms cache in (m # ms', c', True))))"

definition cache_all :: "jmap list \<Rightarrow> stamp_cache \<Rightarrow> stamp_cache" where
  "cache_all ms cache = foldl (\<lambda>c m.
     case alias_timestamp (jget (normalize_alias_timestamp m) ''createTimestamp'') of
       None \<Rightarrow> c | Some t \<Rightarrow> cache_alias_timestamp c (normalize_alias_timestamp m) t) cache ms"

definition fill_from_cache :: "stamp_cache \<Rightarrow> jmap \<Rightarrow> jmap" where
  "fill_from_cache cache m =
     (case alias_timestamp (jget m ''createTimestamp'') of
        Some _ \<Rightarrow> m
      | None \<Rightarrow> (case cached_alias_timestamp cache m of
                   Some t \<Rightarrow> jput ''createTimestamp'' (JNum t []) m | None \<Rightarrow> m))"

definition enrich_alias_timestamps :: "jmap list \<Rightarrow> session_manager \<Rightarrow> jmap list \<times> session_manager" where
  "enrich_alias_timestamps ms s =
     (if ms = [] then (ms, s)
      else
        let (d, c) = cell_read (sm_stamps s);
            s1 = s\<lparr>sm_stamps := c\<rparr>;
            (ms1, cache, missing) = enrich_pass ms (case d of None \<Rightarrow> Map.empty | Some x \<Rightarrow> x);
            (ms2, cache2, s2) =
              (if \<not> missing then (ms1, cache, s1)
               else case manager_client s1 of
                 (Inl _, s2) \<Rightarrow> (ms1, cache, s2)
               | (Inr cl, s2) \<Rightarrow>
                   (let (r, cl', n') = web_list_aliases cl (sm_net s2);
                        s3 = s2\<lparr>sm_net := n'\<rparr>
                    in case r of
                         Inl _ \<Rightarrow> (ms1, cache, persist_client_config cl' s3)
                       | Inr web \<Rightarrow>
                           (let cache' = cache_all web cache
                            in (map (fill_from_cache cache') ms1, cache', persist_client_config cl' s3))))
        in (ms2, if cache2 = Map.empty then s2
                 else s2\<lparr>sm_stamps := snd (cell_write cache2 (sm_stamps s2))\<rparr>))"

section \<open>Creating an alias\<close>

definition decorate_create_result :: "jmap \<Rightarrow> string \<Rightarrow> string list \<Rightarrow> jmap" where
  "decorate_create_result m used attempted =
     (let m = jput ''nextRetryAt'' JNull
            (jput ''fallbackUsed'' (JBool (used = channel_web \<and> length attempted > 1))
            (jput ''attemptedChannels'' (JArr (map JStr attempted))
            (jput ''usedChannel'' (JStr used) m)))
      in if ''detailConfirmed'' \<in> fst ` set m then m
         else jput ''detailConfirmed'' (JBool (used = channel_web)) m)"

definition create_over_web ::
  "go_error option \<Rightarrow> string list \<Rightarrow> string \<Rightarrow> string \<Rightarrow> session_manager \<Rightarrow> (go_error + jmap) \<times> session_manager" where
  "create_over_web account_err attempted label note s =
     (let (cooling, s1) = channel_cooling_down channel_web s
      in if cooling then
           (Inl (case account_err of Some e \<Rightarrow> e
                 | None \<Rightarrow> apple_protocol_error ''ICLOUD_WEB_COOLDOWN'' msg_web_cooldown True), s1)
         else case manager_client s1 of
           (Inl e, s2) \<Rightarrow> (Inl (case account_err of Some ae \<Rightarrow> ae | None \<Rightarrow> e), s2)
         | (Inr cl, s2) \<Rightarrow>
             (let (r, cl', n') = web_create label note cl (sm_net s2);
                  s3 = s2\<lparr>sm_net := n'\<rparr>
              in case r of
                   Inl e \<Rightarrow>
                     (Inl (all_create_channels_failed account_err e),
                      persist_client_config cl' (record_create_failure channel_web e s3))
                 | Inr m \<Rightarrow>
                     (let s4 = record_create_success channel_web s3;
                          (m', s5) = remember_alias_timestamp
                            (decorate_create_result m channel_web (attempted @ [channel_web])) s4
                      in (Inr m', persist_client_config cl' s5))))"

text \<open>The account that a creation uses: none while its channel cools down.\<close>

definition usable_account :: "session_manager \<Rightarrow> apple_account option \<times> session_manager" where
  "usable_account s =
     (let (cfg, s1) = load_config s;
          web_id = (case cfg of Inl _ \<Rightarrow> [] | Inr c \<Rightarrow> ic_apple_id c);
          (cooling, s2) = channel_cooling_down channel_account s1
      in if cooling then (None, s2)
         else let (d, s3) = read_account s2
              in (case d of
                    Some a \<Rightarrow> (if available_for_use a \<and> same_apple_account web_id (aa_apple_id a) then Some a else None)
                  | None \<Rightarrow> None, s3))"

definition create_alias :: "string \<Rightarrow> string \<Rightarrow> session_manager \<Rightarrow> (go_error + jmap) \<times> session_manager" where
  "create_alias label note s =
     (case usable_account s of
        (None, s1) \<Rightarrow> create_over_web None [] label note s1
      | (Some a, s1) \<Rightarrow>
          (let (r, a', n') = create_with_account label note a (sm_net s1);
               s2 = snd (write_account a' (s1\<lparr>sm_net := n'\<rparr>))
           in case r of
                Inr m \<Rightarrow>
                  (let (m', s4) = remember_alias_timestamp (decorate_create_result m channel_account [channel_account])
                                    (record_create_success channel_account s2)
                   in (Inr m', s4))
              | Inl e \<Rightarrow>
                  (let s3 = record_create_failure channel_account e s2
                   in if may_have_created e then (Inl e, s3)
                      else create_over_web (Some e) [channel_account] label note s3)))"

section \<open>Operations on existing aliases\<close>

definition apple_account_allows_web_fallback :: "go_error \<Rightarrow> bool" where
  "apple_account_allows_web_fallback e =
     (if is_canceled e \<or> is_deadline e then False
      else case as_protocol e of
        Some p \<Rightarrow> pe_code p = ''APPLE_ACCOUNT_SESSION_MISSING'' \<or> pe_code p = ''APPLE_ACCOUNT_EXPIRED'' \<or> pe_retryable p
      | None \<Rightarrow> is_transient_network_error e)"

text \<open>A call of the web client, with the cookies stored afterwards.\<close>

definition over_web ::
  "(web_client \<Rightarrow> net \<Rightarrow> (go_error + 'a) \<times> web_client \<times> net) \<Rightarrow> session_manager \<Rightarrow> (go_error + 'a) \<times> session_manager" where
  "over_web call s =
     (case manager_client s of
        (Inl e, s1) \<Rightarrow> (Inl e, s1)
      | (Inr cl, s1) \<Rightarrow>
          (let (r, cl', n') = call cl (sm_net s1) in (r, persist_client_config cl' (s1\<lparr>sm_net := n'\<rparr>))))"

definition over_account ::
  "(apple_account \<Rightarrow> net \<Rightarrow> (go_error + 'a) \<times> apple_account \<times> net) \<Rightarrow> apple_account \<Rightarrow> session_manager \<Rightarrow>
   (go_error + 'a) \<times> session_manager" where
  "over_account call a s =
     (let (r, a', n') = call a (sm_net s) in (r, snd (write_account a' (s\<lparr>sm_net := n'\<rparr>))))"

definition list_aliases :: "session_manager \<Rightarrow> (go_error + jmap list) \<times> string \<times> session_manager" where
  "list_aliases s =
     (case read_account s of
        (d, s1) \<Rightarrow>
          (case (case d of Some a \<Rightarrow> (if available_for_use a then Some a else None) | None \<Rightarrow> None) of
             Some a \<Rightarrow>
               (let (r, s2) = over_account list_with_account a s1
                in case r of
                     Inr ms \<Rightarrow> (let (ms', s3) = enrich_alias_timestamps ms s2 in (Inr ms', channel_account, s3))
                   | Inl e \<Rightarrow>
                       (if \<not> apple_account_allows_web_fallback e then (Inl e, channel_account, s2)
                        else case manager_client s2 of
                          (Inl _, s3) \<Rightarrow> (Inl e, channel_account, s3)
                        | (Inr cl, s3) \<Rightarrow>
                            (let (r', cl', n') = web_list_aliases cl (sm_net s3)
                             in (r', channel_web, persist_client_config cl' (s3\<lparr>sm_net := n'\<rparr>)))))
           | None \<Rightarrow> (let (r, s2) = over_web web_list_aliases s1 in (r, channel_web, s2))))"

text \<open>The three operations that change an alias use the account channel when it is available.\<close>

definition on_alias ::
  "(apple_account \<Rightarrow> net \<Rightarrow> (go_error + jmap) \<times> apple_account \<times> net) \<Rightarrow>
   (web_client \<Rightarrow> net \<Rightarrow> (go_error + jmap) \<times> web_client \<times> net) \<Rightarrow> session_manager \<Rightarrow>
   (go_error + jmap) \<times> session_manager" where
  "on_alias account_call web_call s =
     (case read_account s of
        (Some a, s1) \<Rightarrow> (if available_for_use a then over_account account_call a s1 else over_web web_call s1)
      | (None, s1) \<Rightarrow> over_web web_call s1)"

definition update_alias where
  "update_alias i label note = on_alias (update_with_account i label note) (web_update i label note)"

definition set_alias_active where
  "set_alias_active i active = on_alias (set_active_with_account i active) (web_set_active i active)"

definition delete_alias where
  "delete_alias i = on_alias (delete_with_account i) (web_delete i)"

section \<open>Checking the account session\<close>

definition apple_keep_alive_interval :: duration where
  "apple_keep_alive_interval = 3 * minute"

definition account_refresh_due_at :: "session_manager \<Rightarrow> gotime option \<times> session_manager" where
  "account_refresh_due_at s =
     (let (d, s1) = read_account s; now = sm_now s
      in (case d of
            Some a \<Rightarrow> (if aa_cookies a = [] then None
                       else if needs_refresh now a then Some now else Some (refresh_due_at now a))
          | None \<Rightarrow> None, s1))"

text \<open>Anchor and deadline of the next keep-alive.\<close>

definition keep_alive_schedule :: "session_manager \<Rightarrow> (gotime \<times> gotime) option \<times> session_manager" where
  "keep_alive_schedule s =
     (let (d, s1) = read_account s
      in (case d of
            Some a \<Rightarrow>
              (if aa_cookies a = [] \<or> requires_reauth a then None
               else
                 let anchor = (if aa_last_attempt_at a > aa_last_checked_at a then aa_last_attempt_at a
                               else aa_last_checked_at a);
                     deadline = refresh_due_at (sm_now s) a;
                     minimum = aa_last_attempt_at a + apple_keep_alive_interval;
                     deadline = (if aa_last_attempt_at a > aa_last_checked_at a \<and> deadline < minimum
                                 then minimum else deadline)
                 in Some (anchor, deadline))
          | None \<Rightarrow> None, s1))"

definition write_error :: go_error where
  "write_error = Plain ''write error''"

definition check_account_with_force :: "bool \<Rightarrow> session_manager \<Rightarrow> go_error option \<times> session_manager" where
  "check_account_with_force force s =
     (case read_account s of
        (None, s1) \<Rightarrow> (None, s1)
      | (Some a, s1) \<Rightarrow>
          (if aa_cookies a = [] then (None, s1)
           else if requires_reauth a
           then (Some (apple_protocol_error ''APPLE_ACCOUNT_EXPIRED'' (aa_status_message a) False), s1)
           else if \<not> force \<and> healthy_for_use (sm_now s1) a \<and> \<not> needs_refresh (sm_now s1) a then (None, s1)
           else
             let (cfg, s2) = load_config s1;
                 web_id = (case cfg of Inl _ \<Rightarrow> [] | Inr c \<Rightarrow> ic_apple_id c);
                 now = sm_now s2
             in if \<not> same_apple_account web_id (aa_apple_id a) then
                  (let a' = a\<lparr>aa_last_checked_at := now, aa_last_attempt_at := now, aa_last_check_ok := False,
                              aa_status_message := msg_web_switched, aa_health := ''reauth_required''\<rparr>;
                       (ok, s3) = write_account a' s2
                   in if \<not> ok then (Some (Wrapped msg_save_account_state write_error), s3)
                      else (Some (apple_protocol_error ''APPLE_ACCOUNT_MISMATCH'' msg_web_switched False), s3))
                else
                  (case refresh_apple_account a (sm_net s2) of
                     (Inl e, _, n') \<Rightarrow>
                       (let s3 = s2\<lparr>sm_net := n'\<rparr>; now' = net_now n';
                            a' = (if apple_account_requires_reauth e
                                  then a\<lparr>aa_last_checked_at := now', aa_last_attempt_at := now', aa_last_check_ok := False,
                                         aa_health := ''reauth_required'', aa_status_message := safe_error_text e\<rparr>
                                  else a\<lparr>aa_last_attempt_at := now', aa_health := ''degraded'',
                                         aa_status_message := msg_keepalive_failed_prefix @ safe_error_text e\<rparr>);
                            (ok, s4) = write_account a' s3
                        in if \<not> ok then (Some (Wrapped msg_save_keepalive_state write_error), s4) else (Some e, s4))
                   | (Inr _, w, n') \<Rightarrow>
                       (let (ok, s4) = write_account
                              (w\<lparr>aa_health := ''healthy'', aa_last_attempt_at := aa_last_checked_at w\<rparr>)
                              (s2\<lparr>sm_net := n'\<rparr>)
                        in if \<not> ok then (Some (Wrapped msg_save_keepalive_result write_error), s4) else (None, s4)))))"

definition keep_alive_account :: "session_manager \<Rightarrow> go_error option \<times> session_manager" where
  "keep_alive_account = check_account_with_force True"

section \<open>Status\<close>

record channel_status =
  cs_configured :: bool
  cs_healthy :: bool
  cs_state :: string
  cs_requires_reauth :: bool
  cs_apple_id :: string
  cs_last_checked :: "unixtime option"
  cs_last_attempt :: "unixtime option"
  cs_expires :: "unixtime option"
  cs_message :: string
  cs_cooldown_until :: "unixtime option"
  cs_cooldown_remaining :: int
  cs_last_create :: "unixtime option"
  cs_create_error :: string
  cs_create_error_code :: string
  cs_failures :: int

definition blank_status :: channel_status where
  "blank_status = \<lparr>cs_configured = False, cs_healthy = False, cs_state = [], cs_requires_reauth = False,
     cs_apple_id = [], cs_last_checked = None, cs_last_attempt = None, cs_expires = None, cs_message = [],
     cs_cooldown_until = None, cs_cooldown_remaining = 0, cs_last_create = None, cs_create_error = [],
     cs_create_error_code = [], cs_failures = 0\<rparr>"

definition unix_pointer :: "gotime \<Rightarrow> unixtime option" where
  "unix_pointer t = (if t = 0 then None else Some (unix_float t))"

definition apply_create_runtime :: "unixtime \<Rightarrow> create_runtime \<Rightarrow> channel_status \<Rightarrow> channel_status" where
  "apply_create_runtime now r st =
     st\<lparr>cs_cooldown_until := cr_cooldown_until r,
        cs_cooldown_remaining := (case cr_cooldown_until r of
            None \<Rightarrow> cs_cooldown_remaining st | Some u \<Rightarrow> max 0 (go_trunc (u - now + 1 / 2))),
        cs_last_create := cr_last_create_at r, cs_create_error := cr_error r,
        cs_create_error_code := cr_error_code r, cs_failures := cr_failures r\<rparr>"

definition derived_state :: "bool \<Rightarrow> bool \<Rightarrow> apple_account \<Rightarrow> string" where
  "derived_state matches healthy a =
     (if \<not> matches \<or> requires_reauth a then ''reauth_required''
      else if aa_health a = ''healthy'' then (if healthy then ''healthy'' else ''degraded'')
      else if aa_health a = ''degraded'' then ''degraded''
      else if healthy then ''healthy'' else ''degraded'')"

definition account_status :: "gotime \<Rightarrow> string \<Rightarrow> apple_account \<Rightarrow> channel_status" where
  "account_status now web_id a =
     (let matches = same_apple_account web_id (aa_apple_id a);
          healthy = matches \<and> healthy_for_use now a
      in blank_status\<lparr>cs_configured := True, cs_healthy := healthy, cs_state := derived_state matches healthy a,
           cs_requires_reauth := \<not> matches \<or> requires_reauth a, cs_apple_id := aa_apple_id a,
           cs_last_checked := unix_pointer (aa_last_checked_at a),
           cs_last_attempt := unix_pointer (aa_last_attempt_at a),
           cs_expires := unix_pointer (aa_manage_expires_at a), cs_message := aa_status_message a\<rparr>)"

definition web_status :: "icloud_config \<Rightarrow> session_state option \<Rightarrow> channel_status" where
  "web_status c st =
     (let r = blank_status\<lparr>cs_configured := True, cs_apple_id := ic_apple_id c\<rparr>
      in case st of
           None \<Rightarrow> r
         | Some s \<Rightarrow>
             (let healthy = ss_valid s \<and> \<not> ss_needs_reauth s
              in r\<lparr>cs_healthy := healthy, cs_last_checked := ss_last_refresh s,
                   cs_message := (case ss_last_error s of
                       Some m \<Rightarrow> m | None \<Rightarrow> if healthy then msg_web_healthy else [])\<rparr>))"

record login_status =
  ls_web :: channel_status
  ls_account :: channel_status
  ls_create_channel :: string

definition apple_login_status :: "session_manager \<Rightarrow> login_status \<times> session_manager" where
  "apple_login_status s =
     (let (cfg, s1) = load_config s;
          (web, s2) = (case cfg of
             Inl _ \<Rightarrow> (blank_status, s1)
           | Inr c \<Rightarrow> (let (st, k) = cell_read (sm_state s1) in (web_status c st, s1\<lparr>sm_state := k\<rparr>)));
          (rt, s3) = create_channel_runtime channel_web s2;
          web = apply_create_runtime (unix_now s) rt web;
          (d, s4) = read_account s3;
          (acc, s5) = (case d of
             Some a \<Rightarrow>
               (if aa_cookies a = [] then (blank_status, s4)
                else let (raw, k) = cell_read (sm_config s4)
                     in (account_status (sm_now s) (case raw of None \<Rightarrow> [] | Some c \<Rightarrow> ic_apple_id c) a,
                         s4\<lparr>sm_config := k\<rparr>))
           | None \<Rightarrow> (blank_status, s4));
          (rt, s6) = create_channel_runtime channel_account s5;
          acc = apply_create_runtime (unix_now s) rt acc
      in (\<lparr>ls_web = web, ls_account = acc,
           ls_create_channel =
             (if cs_healthy acc \<and> same_apple_account (cs_apple_id web) (cs_apple_id acc) \<and> cs_cooldown_remaining acc = 0
              then channel_account else channel_web)\<rparr>, s6))"

definition stored_session :: "session_manager \<Rightarrow> session_state \<times> session_manager" where
  "stored_session s =
     (let (d, k) = cell_read (sm_state s)
      in (case d of
            None \<Rightarrow> blank_session
          | Some st \<Rightarrow> (if ss_expires_hint st = [] then st\<lparr>ss_expires_hint := ''apple-controlled''\<rparr> else st),
          s\<lparr>sm_state := k\<rparr>))"

definition apple_alias_summary :: "jmap list \<Rightarrow> jmap" where
  "apple_alias_summary ms =
     (let forward = foldl (\<lambda>f m. first_nonempty [f, string_value (jget m ''forwardToEmail'')]) [] ms
      in [(''aliasCount'', JNum (of_nat (length ms)) (dec (length ms))), (''selectedForwardTo'', JStr forward)])"

text \<open>\<open>Check\<close>: the web session, then the account session if due, then the summary of a fallback
  listing.\<close>

definition check_session :: "session_manager \<Rightarrow> session_state \<times> login_status \<times> session_manager" where
  "check_session s =
     (let (st, s1) = stored_session s;
          now = unix_now s;
          (r, s2) = over_web web_check s1;
          st = (case r of
                  Inr hme \<Rightarrow> \<lparr>ss_valid = True, ss_last_refresh = Some now, ss_last_valid = Some now,
                              ss_expires_hint = ''apple-controlled'', ss_last_error = None,
                              ss_needs_reauth = False, ss_hme = Some hme\<rparr>
                | Inl e \<Rightarrow> st\<lparr>ss_valid := False, ss_last_refresh := Some now,
                              ss_last_error := Some (safe_error_text e),
                              ss_needs_reauth := is_session_expired e \<and> \<not> is_session_missing e\<rparr>);
          s3 = s2\<lparr>sm_state := snd (cell_write st (sm_state s2))\<rparr>;
          (_, s4) = check_account_with_force False s3;
          (st', s5) = (if ss_valid st then (st, s4)
                       else let (r, source, s5) = list_aliases s4
                            in (case r of
                                  Inr ms \<Rightarrow> (if source = channel_account
                                             then st\<lparr>ss_hme := Some (apple_alias_summary ms)\<rparr> else st)
                                | Inl _ \<Rightarrow> st, s5));
          (login, s6) = apple_login_status s5
      in (st', login, s6))"

section \<open>Login results and import\<close>

record login_result =
  lr_web :: "icloud_config option"
  lr_account :: "apple_account option"
  lr_needs_2fa :: bool

definition ensure_login_account :: "login_result \<Rightarrow> string \<Rightarrow> go_error option" where
  "ensure_login_account r expected =
     (let e = trim_space expected
      in case lr_web r of
           Some c \<Rightarrow> (if e \<noteq> [] \<and> ic_dsid c \<noteq> e
                      then Some (apple_protocol_error ''QUEUE_ACCOUNT_MISMATCH'' msg_queue_mismatch False) else None)
         | None \<Rightarrow> None)"

text \<open>Storing the three documents of a web session; the first failing write ends it.\<close>

definition store_web_session :: "icloud_config \<Rightarrow> session_manager \<Rightarrow> bool \<times> session_manager" where
  "store_web_session c s =
     (let (ok1, k1) = cell_write c (sm_config s);
          s1 = s\<lparr>sm_config := k1\<rparr>
      in if \<not> ok1 then (False, s1)
         else
           let (ok2, k2) = cell_write (config_metadata c) (sm_metadata s1);
               s2 = s1\<lparr>sm_metadata := k2\<rparr>
           in if \<not> ok2 then (False, s2)
              else let (ok3, k3) = cell_write blank_session (sm_state s2) in (ok3, s2\<lparr>sm_state := k3\<rparr>))"

definition persist_login_web :: "icloud_config \<Rightarrow> session_manager \<Rightarrow> go_error option \<times> session_manager" where
  "persist_login_web c s =
     (let (ok, s1) = store_web_session c s
      in if \<not> ok then (Some write_error, s1)
         else
           let (d, s2) = read_account s1
           in case d of
                Some a \<Rightarrow>
                  (if \<not> same_apple_account (ic_apple_id c) (aa_apple_id a) then
                     (None, snd (write_account
                        (a\<lparr>aa_last_checked_at := sm_now s2, aa_last_attempt_at := sm_now s2, aa_last_check_ok := False,
                           aa_status_message := msg_switched, aa_health := ''reauth_required''\<rparr>) s2))
                   else (None, s2))
              | None \<Rightarrow> (None, s2))"

definition persist_login_account :: "apple_account \<Rightarrow> session_manager \<Rightarrow> go_error option \<times> session_manager" where
  "persist_login_account a s =
     (let (cfg, s1) = load_config s
      in if (case cfg of Inr c \<Rightarrow> \<not> same_apple_account (ic_apple_id c) (aa_apple_id a) | Inl _ \<Rightarrow> False)
         then (Some (apple_protocol_error ''APPLE_ACCOUNT_MISMATCH'' msg_account_mismatch False), s1)
         else
           let (ok, s2) = write_account a s1
           in if \<not> ok then (Some write_error, s2) else (None, record_create_success channel_account s2))"

definition persist_login_result :: "login_result \<Rightarrow> session_manager \<Rightarrow> go_error option \<times> session_manager" where
  "persist_login_result r s =
     (let (e, s1) = (case lr_web r of None \<Rightarrow> (None, s) | Some c \<Rightarrow> persist_login_web c s)
      in case e of
           Some err \<Rightarrow> (Some err, s1)
         | None \<Rightarrow> (case lr_account r of None \<Rightarrow> (None, s1) | Some a \<Rightarrow> persist_login_account a s1))"

text \<open>\<open>StartAppleLogin\<close> and \<open>VerifyAppleLogin\<close>, given what the login protocol answered.\<close>

definition complete_login ::
  "bool \<Rightarrow> (go_error + login_result) \<Rightarrow> string \<Rightarrow> session_manager \<Rightarrow> go_error option \<times> session_manager" where
  "complete_login verifying answer expected s =
     (case answer of
        Inl e \<Rightarrow> (Some e, s)
      | Inr r \<Rightarrow>
          (if \<not> verifying \<and> lr_needs_2fa r then (None, s)
           else case ensure_login_account r expected of
             Some e \<Rightarrow> (Some e, s)
           | None \<Rightarrow> persist_login_result r s))"

end
