(* ===== verification/ChannelsProps.thy ===== *)
theory ChannelsProps
  imports Channels
begin

text \<open>
  What the session manager guarantees: no second address after an ambiguous answer, cooldowns that
  keep a channel out of use for the time the service asked for, an account switch that retires the
  other channel, and a status that agrees with what a creation would do.
\<close>

section \<open>What leaves the network and the account alone\<close>

lemma load_config_frame [simp]:
  "sm_net (snd (load_config s)) = sm_net s" "sm_account (snd (load_config s)) = sm_account s"
  "sm_channels (snd (load_config s)) = sm_channels s" "sm_stamps (snd (load_config s)) = sm_stamps s"
  "sm_state (snd (load_config s)) = sm_state s"
  by (simp_all add: load_config_def Let_def split_beta)

lemma manager_client_frame [simp]:
  "sm_net (snd (manager_client s)) = sm_net s" "sm_account (snd (manager_client s)) = sm_account s"
  "sm_channels (snd (manager_client s)) = sm_channels s"
  by (simp_all add: manager_client_def Let_def split_beta)

lemma persist_frame [simp]:
  "sm_net (persist_client_config c s) = sm_net s" "sm_account (persist_client_config c s) = sm_account s"
  "sm_channels (persist_client_config c s) = sm_channels s"
  by (simp_all add: persist_client_config_def Let_def split_beta)

lemma read_account_frame [simp]:
  "sm_net (snd (read_account s)) = sm_net s" "sm_channels (snd (read_account s)) = sm_channels s"
  "sm_config (snd (read_account s)) = sm_config s"
  by (simp_all add: read_account_def split_beta)

lemma write_account_frame [simp]:
  "sm_net (snd (write_account a s)) = sm_net s" "sm_channels (snd (write_account a s)) = sm_channels s"
  by (simp_all add: write_account_def split_beta)

lemma runtime_frame [simp]:
  "sm_net (snd (create_channel_runtime ch s)) = sm_net s"
  "sm_account (snd (create_channel_runtime ch s)) = sm_account s"
  "sm_net (update_runtime ch f s) = sm_net s" "sm_account (update_runtime ch f s) = sm_account s"
  by (simp_all add: create_channel_runtime_def update_runtime_def Let_def split_beta split: option.splits)

lemma cooling_frame [simp]:
  "sm_net (snd (channel_cooling_down ch s)) = sm_net s"
  "sm_account (snd (channel_cooling_down ch s)) = sm_account s"
  by (simp_all add: channel_cooling_down_def split_beta)

lemma record_frame [simp]:
  "sm_net (record_create_success ch s) = sm_net s" "sm_net (record_create_failure ch e s) = sm_net s"
  by (simp_all add: record_create_success_def record_create_failure_def)

lemma remember_frame [simp]: "sm_net (snd (remember_alias_timestamp m s)) = sm_net s"
  by (simp add: remember_alias_timestamp_def Let_def split_beta split: option.splits)

lemma usable_frame [simp]: "sm_net (snd (usable_account s)) = sm_net s"
  by (simp add: usable_account_def Let_def split_beta)

section \<open>One creation, one confirmation\<close>

lemma over_web_issues:
  "\<exists>k \<le> 1. issues k (sm_net s) (sm_net (snd (create_over_web ae attempted label note s)))"
proof -
  obtain cool s1 where c: "channel_cooling_down channel_web s = (cool, s1)" by (metis surj_pair)
  obtain m s2 where m: "manager_client s1 = (m, s2)" by (metis surj_pair)
  have n: "sm_net s1 = sm_net s" "sm_net s2 = sm_net s"
    using cooling_frame(1) [of channel_web s] manager_client_frame(1) [of s1] c m by simp_all
  consider "sm_net (snd (create_over_web ae attempted label note s)) = sm_net s"
    | cl where "\<not> cool" "m = Inr cl"
    using n by (cases cool; cases m) (auto simp: create_over_web_def c m)
  then show ?thesis
  proof cases
    case 1
    then show ?thesis by (intro exI [of _ 0]) simp
  next
    case 2
    obtain r cl' n' where w: "web_create label note cl (sm_net s2) = (r, cl', n')" by (metis surj_pair)
    have "sm_net (snd (create_over_web ae attempted label note s)) = n'"
      using 2 by (auto simp: create_over_web_def c m w Let_def split_beta split: sum.splits)
    then show ?thesis using web_channel.at_most_one [OF w] n by simp
  qed
qed

text \<open>
  C7. One call of \<open>CreateAlias\<close> sends at most one request that can create an address, over both
  channels together and whatever the service answers: the fallback to iCloud Web only runs after an
  account attempt whose confirmation was never sent.
\<close>

theorem create_alias_confirms_once:
  "confirmations (sm_net s) (sm_net (snd (create_alias label note s))) \<le> 1"
proof -
  obtain d s1 where u: "usable_account s = (d, s1)" by (metis surj_pair)
  have n1: "sm_net s1 = sm_net s" using usable_frame [of s] u by simp
  have "\<exists>k \<le> 1. issues k (sm_net s) (sm_net (snd (create_alias label note s)))"
  proof (cases d)
    case None
    then show ?thesis using over_web_issues [of s1 None "[]" label "note"] n1 by (simp add: create_alias_def u)
  next
    case (Some a)
    obtain r a' n' where c: "create_with_account label note a (sm_net s1) = (r, a', n')" by (metis surj_pair)
    show ?thesis
    proof (cases "\<exists>e. r = Inl e \<and> \<not> may_have_created e")
      case True
      then obtain e where e: "r = Inl e" "\<not> may_have_created e" by blast
      define s3 where "s3 = record_create_failure channel_account e (snd (write_account a' (s1\<lparr>sm_net := n'\<rparr>)))"
      have "issues 0 (sm_net s) n'"
        using account_channel.tells [of label "note" a "sm_net s1" e a' n'] c e n1 by simp
      moreover have "sm_net s3 = n'" by (simp add: s3_def)
      moreover have "snd (create_alias label note s) = snd (create_over_web (Some e) [channel_account] label note s3)"
        using e by (simp add: create_alias_def u Some c s3_def)
      ultimately show ?thesis
        using over_web_issues [of s3 "Some e" "[channel_account]" label "note"] by (auto intro: issues_quiet)
    next
      case False
      then have "sm_net (snd (create_alias label note s)) = n'"
        by (auto simp: create_alias_def u Some c Let_def split_beta split: sum.splits)
      then show ?thesis using account_channel.at_most_one [OF c] n1 by simp
    qed
  qed
  then show ?thesis by (auto simp: issues_def)
qed

section \<open>Cooldowns\<close>

lemma update_runtime_doc:
  "cell_ok (sm_channels s) \<Longrightarrow>
   update_runtime ch f s = s\<lparr>sm_channels := (sm_channels s)\<lparr>cell_doc :=
     Some ((case cell_doc (sm_channels s) of None \<Rightarrow> Map.empty | Some m \<Rightarrow> m)
       (ch \<mapsto> f (case (case cell_doc (sm_channels s) of None \<Rightarrow> Map.empty | Some m \<Rightarrow> m) ch of
                   None \<Rightarrow> blank_runtime | Some r \<Rightarrow> r)))\<rparr>\<rparr>"
  by (simp add: update_runtime_def cell_read_ok cell_write_ok Let_def)

lemma cooling_iff:
  "cell_ok (sm_channels s) \<Longrightarrow>
   fst (channel_cooling_down ch s) \<longleftrightarrow>
     (\<exists>m r u. cell_doc (sm_channels s) = Some m \<and> m ch = Some r \<and> cr_cooldown_until r = Some u \<and> u > unix_now s)"
  by (auto simp: channel_cooling_down_def create_channel_runtime_def cell_read_ok blank_runtime_def Let_def
      split: option.splits)

text \<open>Letting time pass.\<close>

definition at_time :: "gotime \<Rightarrow> session_manager \<Rightarrow> session_manager" where
  "at_time t s = s\<lparr>sm_net := (sm_net s)\<lparr>net_now := t\<rparr>\<rparr>"

text \<open>
  After a failed creation its channel cools down for the time the service asked for, else two
  minutes for a creation limit and thirty seconds for any other error, and not longer; the other
  channel is not affected; a successful creation ends the cooldown at once.
\<close>

theorem failure_cools_channel:
  assumes "cell_ok (sm_channels s)" and "other \<noteq> ch"
  shows "(fst (channel_cooling_down ch (at_time t (record_create_failure ch e s))) \<longleftrightarrow>
      unix_float t < unix_now s + seconds_of (failure_cooldown e)) \<and>
    (fst (channel_cooling_down other (record_create_failure ch e s)) \<longleftrightarrow> fst (channel_cooling_down other s)) \<and>
    \<not> fst (channel_cooling_down ch (at_time t (record_create_success ch (record_create_failure ch e s)))) \<and>
    failure_cooldown e > 0"
proof -
  have ok: "cell_ok (sm_channels (at_time t (record_create_failure ch e s)))"
    "cell_ok (sm_channels (record_create_failure ch e s))"
    "cell_ok (sm_channels (at_time t (record_create_success ch (record_create_failure ch e s))))"
    using assms(1)
    by (simp_all add: at_time_def record_create_failure_def record_create_success_def update_runtime_doc)
  have "failure_cooldown e > 0"
    by (simp add: failure_cooldown_def split_beta default_channel_cooldown_def transient_channel_cooldown_def
        minute_def second_def)
  moreover have "unix_now (record_create_failure ch e s) = unix_now s"
    by (simp add: unix_now_def sm_now_def)
  moreover have "unix_now (at_time t s') = unix_float t" for s'
    by (simp add: unix_now_def sm_now_def at_time_def)
  ultimately show ?thesis
    using assms
    by (auto simp: cooling_iff ok)
      (auto simp: at_time_def record_create_failure_def record_create_success_def update_runtime_doc
        split: option.splits)
qed

section \<open>Switching accounts\<close>

text \<open>
  Logging in to iCloud Web with another Apple ID retires the stored Apple Account session: it is
  marked as needing a new login and no creation, listing or keep-alive uses it any more.
\<close>

theorem web_login_retires_other_account:
  assumes "cell_ok (sm_config s)" and "cell_ok (sm_metadata s)" and "cell_ok (sm_state s)"
    and "cell_ok (sm_account s)" and "cell_doc (sm_account s) = Some a"
    and "\<not> same_apple_account (ic_apple_id c) (aa_apple_id a)"
  shows "fst (persist_login_web c s) = None \<and>
    (\<exists>a'. cell_doc (sm_account (snd (persist_login_web c s))) = Some a' \<and> requires_reauth a' \<and>
       \<not> available_for_use a' \<and> aa_cookies a' = aa_cookies a) \<and>
    fst (usable_account (snd (persist_login_web c s))) = None \<and>
    fst (keep_alive_schedule (snd (persist_login_web c s))) = None"
proof -
  let ?s = "snd (persist_login_web c s)"
  let ?a = "a\<lparr>aa_last_checked_at := sm_now s, aa_last_attempt_at := sm_now s, aa_last_check_ok := False,
              aa_status_message := msg_switched, aa_health := ''reauth_required''\<rparr>"
  have d: "cell_doc (sm_account ?s) = Some ?a" "cell_ok (sm_account ?s)" "fst (persist_login_web c s) = None"
    using assms
    by (simp_all add: persist_login_web_def store_web_session_def cell_write_ok read_account_def cell_read_ok
        write_account_def Let_def sm_now_def)
  have "fst (usable_account ?s) = None"
    using d by (simp add: usable_account_def Let_def split_beta read_account_def cell_read_ok
        available_for_use_def requires_reauth_def)
  moreover have "fst (keep_alive_schedule ?s) = None"
    using d by (simp add: keep_alive_schedule_def read_account_def cell_read_ok requires_reauth_def)
  ultimately show ?thesis
    using d by (auto simp: requires_reauth_def available_for_use_def)
qed

section \<open>Keep-alive\<close>

text \<open>
  A keep-alive that fails for a temporary reason keeps the session (cookies, key, last good
  check) and parks it as degraded; the next attempt is then due no earlier than three minutes later,
  so an expired deadline does not turn into a tight retry loop.
\<close>

theorem keep_alive_failure_backs_off:
  assumes "cell_ok (sm_account s)" and "cell_ok (sm_config s)" and "cell_doc (sm_account s) = Some a"
    and "aa_cookies a \<noteq> []" and "\<not> requires_reauth a" and "0 < sm_now s" and "aa_last_checked_at a < sm_now s"
    and "same_apple_account (case fst (load_config s) of Inl _ \<Rightarrow> [] | Inr c \<Rightarrow> ic_apple_id c) (aa_apple_id a)"
    and "refresh_apple_account a (sm_net s) = (Inl e, w, n')" and "\<not> apple_account_requires_reauth e"
  shows "fst (keep_alive_account s) = Some e \<and>
    (\<exists>a'. cell_doc (sm_account (snd (keep_alive_account s))) = Some a' \<and> aa_health a' = ''degraded'' \<and>
       aa_cookies a' = aa_cookies a \<and> aa_api_key a' = aa_api_key a \<and> aa_last_check_ok a' = aa_last_check_ok a) \<and>
    (\<exists>anchor deadline. fst (keep_alive_schedule (snd (keep_alive_account s))) = Some (anchor, deadline) \<and>
       anchor = net_now n' \<and> net_now n' + apple_keep_alive_interval \<le> deadline)"
proof -
  obtain cfg s2 where l: "load_config s = (cfg, s2)" by (metis surj_pair)
  have s2: "sm_net s2 = sm_net s" "sm_account s2 = sm_account s"
    using load_config_frame [of s] l by simp_all
  have r: "read_account s = (Some a, s)" using assms by (simp add: read_account_def cell_read_ok)
  let ?a = "a\<lparr>aa_last_attempt_at := net_now n', aa_health := ''degraded'',
              aa_status_message := msg_keepalive_failed_prefix @ safe_error_text e\<rparr>"
  have k: "keep_alive_account s = (Some e, s2\<lparr>sm_net := n', sm_account := (sm_account s)\<lparr>cell_doc := Some ?a\<rparr>\<rparr>)"
    using assms s2
    by (simp add: keep_alive_account_def check_account_with_force_def r l Let_def write_account_def cell_write_ok)
  have "net_now (sm_net s) \<le> net_now n'"
    using issues_extends [OF refresh_quiet [of "sm_net s" a]] assms by (simp add: extends_def)
  then have "aa_last_checked_at a < net_now n'" using assms by (simp add: sm_now_def)
  then show ?thesis
    using assms by (simp add: k keep_alive_schedule_def read_account_def cell_read_ok requires_reauth_def Let_def)
qed

section \<open>Status\<close>

text \<open>
  The displayed state of the Apple Account channel is one of three words and agrees with its
  other two indicators: healthy exactly when the channel can be used, reauth exactly when a login is
  required, and never healthy while the stored session belongs to another Apple ID.
\<close>

theorem account_status_consistent:
  "cs_state (account_status now web a) \<in> {''healthy'', ''degraded'', ''reauth_required''} \<and>
   (cs_state (account_status now web a) = ''reauth_required'' \<longleftrightarrow> cs_requires_reauth (account_status now web a)) \<and>
   (cs_state (account_status now web a) = ''healthy'' \<longleftrightarrow> cs_healthy (account_status now web a)) \<and>
   (cs_healthy (account_status now web a) \<longleftrightarrow> same_apple_account web (aa_apple_id a) \<and> healthy_for_use now a)"
  by (auto simp: account_status_def derived_state_def Let_def healthy_for_use_def available_for_use_def
      requires_reauth_def blank_status_def)

section \<open>Witnesses\<close>

definition full :: "'d \<Rightarrow> 'd cell" where
  "full d = \<lparr>cell_doc = Some d, read_faults = [], write_faults = []\<rparr>"

definition empty_cell :: "'d cell" where
  "empty_cell = \<lparr>cell_doc = None, read_faults = [], write_faults = []\<rparr>"

lemma full_simps [simp]:
  "cell_ok (full d)" "cell_doc (full d) = Some d" "cell_ok empty_cell" "cell_doc empty_cell = None"
  by (simp_all add: full_def empty_cell_def cell_ok_def)

definition example_account :: apple_account where
  "example_account = blank_account\<lparr>aa_apple_id := ''a@x.org'', aa_api_key := ''k'',
     aa_cookies := [\<lparr>ck_name = ''c'', ck_value = ''v'', ck_domain = ''apple.com'', ck_path = ''/'',
                     ck_expires = 0, ck_secure = True, ck_http_only = True\<rparr>],
     aa_last_check_ok := True, aa_health := ''healthy''\<rparr>"

definition example_config :: icloud_config where
  "example_config = \<lparr>ic_apple_id = ''b@x.org'', ic_host = ''p1-maildomainws.icloud.com'', ic_dsid = ''1'',
     ic_client_id = ''2'', ic_build_number = ''3'', ic_mastering_number = ''4'', ic_cookie = ''c=v'',
     ic_lang_code = [], ic_origin = [], ic_referer = [], ic_user_agent = []\<rparr>"

definition example_manager :: session_manager where
  "example_manager = \<lparr>sm_config = empty_cell, sm_metadata = empty_cell, sm_state = empty_cell,
     sm_account = full example_account, sm_channels = empty_cell, sm_stamps = empty_cell, sm_net = dead_net\<rparr>"

theorem failure_cools_channel_witness:
  "fst (channel_cooling_down channel_web (record_create_failure channel_web (Plain ''reached the limit'') example_manager))"
proof -
  let ?s = "record_create_failure channel_web (Plain ''reached the limit'') example_manager"
  have ok: "cell_ok (sm_channels example_manager)" by (simp add: example_manager_def)
  have "at_time (net_now dead_net) ?s = ?s"
    by (simp add: at_time_def record_create_failure_def update_runtime_doc [OF ok] example_manager_def)
  moreover have "unix_now example_manager = unix_float (net_now dead_net)"
    by (simp add: unix_now_def sm_now_def example_manager_def)
  ultimately show ?thesis
    using failure_cools_channel [OF ok, of channel_account channel_web "net_now dead_net" "Plain ''reached the limit''"]
    by (simp add: channel_web_def channel_account_def seconds_of_def)
qed

theorem web_login_retires_other_account_witness:
  "fst (usable_account example_manager) = Some example_account \<and>
   fst (usable_account (snd (persist_login_web example_config example_manager))) = None"
proof -
  have "fst (usable_account example_manager) = Some example_account"
    by (simp add: usable_account_def load_config_def channel_cooling_down_def create_channel_runtime_def
        read_account_def cell_read_ok example_manager_def blank_runtime_def available_for_use_def
        requires_reauth_def example_account_def same_apple_account_def Let_def split_beta)
  moreover have "\<not> same_apple_account ''b@x.org'' ''a@x.org''" by code_simp
  ultimately show ?thesis
    using web_login_retires_other_account [of example_manager example_account example_config]
    by (simp add: example_manager_def example_account_def example_config_def)
qed

theorem keep_alive_failure_backs_off_witness:
  "\<exists>anchor deadline. fst (keep_alive_schedule (snd (keep_alive_account example_manager))) = Some (anchor, deadline) \<and>
     anchor + apple_keep_alive_interval \<le> deadline"
proof -
  have c: "fst (refresh_apple_account example_account dead_net) = Inl Canceled" by code_simp
  then obtain w n' where r: "refresh_apple_account example_account dead_net = (Inl Canceled, w, n')"
    by (metis fst_conv surj_pair)
  have m: "sm_account example_manager = full example_account" "sm_config example_manager = empty_cell"
      "sm_net example_manager = dead_net"
    by (simp_all add: example_manager_def)
  have a: "aa_cookies example_account \<noteq> []" "\<not> requires_reauth example_account"
      "aa_last_checked_at example_account < sm_now example_manager" "0 < sm_now example_manager"
    by (simp_all add: example_account_def blank_account_def requires_reauth_def sm_now_def m dead_net_def second_def)
  have "fst (load_config example_manager) = Inl SessionMissing"
    by (simp add: load_config_def m cell_read_ok) (simp add: empty_cell_def)
  then have "same_apple_account (case fst (load_config example_manager) of Inl _ \<Rightarrow> [] | Inr c \<Rightarrow> ic_apple_id c)
      (aa_apple_id example_account)"
    by (simp add: same_apple_account_def)
  note k = keep_alive_failure_backs_off [OF _ _ _ a(1,2,4,3) this, unfolded m, OF _ _ _ r]
  show ?thesis using k by (auto simp: apple_account_requires_reauth_def)
qed

end
