(* ===== verification/Schedule.thy ===== *)
theory Schedule
  imports Channels Timers
begin

text \<open>
  The scheduler of creation batches, \<open>modules/mail/backend/create_schedule.go\<close>. Its configuration is
  a scripted cell; a batch is a goroutine, here a program counter between the critical sections,
  with the answers of \<open>CreateAlias\<close> as inputs of its steps. The one-place channel \<open>runLock\<close> is the
  flag \<open>sc_lock\<close>.
\<close>

section \<open>State\<close>

record create_config =
  cc_enabled :: bool
  cc_batch_size :: int
  cc_alias_interval :: int
  cc_interval :: int
  cc_label :: string
  cc_note :: string
  cc_last_run_at :: "unixtime option"
  cc_last_success_at :: "unixtime option"
  cc_last_disabled_at :: "unixtime option"
  cc_last_error :: "string option"
  cc_disabled_reason :: "string option"
  cc_last_requested :: int
  cc_last_success :: int
  cc_stopped_reason :: "string option"
  cc_last_channel :: string
  cc_last_fallback :: bool
  cc_last_attempted :: "string list"
  cc_worker_running :: bool
  cc_running :: bool
  cc_current_index :: int
  cc_current_total :: int
  cc_current_success :: int
  cc_remaining :: "int option"
  cc_next_run_at :: "unixtime option"
  cc_server_now :: unixtime

definition default_create_config :: create_config where
  "default_create_config = \<lparr>cc_enabled = False, cc_batch_size = 5, cc_alias_interval = 3, cc_interval = 180,
     cc_label = ''shopping'', cc_note = [], cc_last_run_at = None, cc_last_success_at = None,
     cc_last_disabled_at = None, cc_last_error = None, cc_disabled_reason = None, cc_last_requested = 0,
     cc_last_success = 0, cc_stopped_reason = None, cc_last_channel = [], cc_last_fallback = False,
     cc_last_attempted = [], cc_worker_running = False, cc_running = False, cc_current_index = 0,
     cc_current_total = 0, cc_current_success = 0, cc_remaining = None, cc_next_run_at = None,
     cc_server_now = 0\<rparr>"

text \<open>An entry handed to the activity log.\<close>

record log_input =
  lg_category :: string
  lg_action :: string
  lg_level :: string
  lg_outcome :: string
  lg_summary :: string
  lg_source :: string
  lg_detail :: string
  lg_meta :: "(string \<times> int) list"

datatype batch_pc = BStart | BHead int | BCreate int | BWait int

record batch_run =
  br_pc :: batch_pc
  br_config :: create_config
  br_manual :: bool
  br_ctx_done :: bool

record create_scheduler =
  sc_cell :: "create_config cell"
  sc_worker_running :: bool
  sc_wake :: bool
  sc_lock :: bool
  sc_cancel :: bool
  sc_run :: "batch_run option"
  sc_logs :: bool
  sc_log :: "log_input list"

definition schedule_idle_poll :: duration where "schedule_idle_poll = 5 * minute"
definition schedule_minimum_wake :: duration where "schedule_minimum_wake = 100000000"

definition clamp :: "int \<Rightarrow> int \<Rightarrow> int \<Rightarrow> int" where
  "clamp value low high = (if value < low then low else if value > high then high else value)"

definition normalized_create_config :: "create_config \<Rightarrow> create_config" where
  "normalized_create_config c =
     (let c = c\<lparr>cc_batch_size := clamp (cc_batch_size c) 1 20,
                cc_alias_interval := clamp (cc_alias_interval c) 1 3600,
                cc_interval := clamp (cc_interval c) 60 (7 * 24 * 60 * 60)\<rparr>
      in if trim_space (cc_label c) = [] then c\<lparr>cc_label := ''shopping''\<rparr> else c)"

definition persistent_create_config :: "create_config \<Rightarrow> create_config" where
  "persistent_create_config c = c\<lparr>cc_worker_running := False, cc_running := False, cc_remaining := None,
     cc_next_run_at := None, cc_server_now := 0\<rparr>"

definition schedule_load :: "create_scheduler \<Rightarrow> create_config \<times> create_scheduler" where
  "schedule_load s =
     (let (d, c) = cell_read (sc_cell s)
      in (normalized_create_config (case d of None \<Rightarrow> default_create_config | Some x \<Rightarrow> x), s\<lparr>sc_cell := c\<rparr>))"

definition schedule_save :: "create_config \<Rightarrow> create_scheduler \<Rightarrow> bool \<times> create_scheduler" where
  "schedule_save cfg s =
     (let (ok, c) = cell_write (persistent_create_config cfg) (sc_cell s) in (ok, s\<lparr>sc_cell := c\<rparr>))"

section \<open>Status and configuration\<close>

definition next_run_at :: "unixtime \<Rightarrow> create_config \<Rightarrow> unixtime" where
  "next_run_at now c = (case cc_last_run_at c of None \<Rightarrow> now | Some t \<Rightarrow> t) + of_int (cc_interval c)"

definition schedule_status :: "unixtime \<Rightarrow> create_scheduler \<Rightarrow> create_config \<times> create_scheduler" where
  "schedule_status now s =
     (let (c, s1) = schedule_load s;
          c = c\<lparr>cc_server_now := now, cc_worker_running := sc_worker_running s, cc_running := sc_lock s\<rparr>;
          c = (if cc_enabled c \<and> \<not> cc_running c
               then c\<lparr>cc_next_run_at := Some (next_run_at now c),
                      cc_remaining := Some (max 0 (go_trunc (next_run_at now c - now + 1 / 2)))\<rparr>
               else c)
      in (if cc_running c then c\<lparr>cc_next_run_at := None, cc_remaining := None\<rparr> else c, s1))"

definition cancel_batch :: "create_scheduler \<Rightarrow> create_scheduler" where
  "cancel_batch s =
     (if sc_cancel s then s\<lparr>sc_run := map_option (\<lambda>r. r\<lparr>br_ctx_done := True\<rparr>) (sc_run s)\<rparr> else s)"

definition schedule_update ::
  "unixtime \<Rightarrow> bool option \<Rightarrow> int option \<Rightarrow> int option \<Rightarrow> int option \<Rightarrow> string option \<Rightarrow> string option \<Rightarrow>
   create_scheduler \<Rightarrow> create_config option \<times> create_scheduler" where
  "schedule_update now enabled batch_size alias_interval interval label note s =
     (let (c, s1) = schedule_load s;
          c = (case enabled of
                 None \<Rightarrow> c
               | Some True \<Rightarrow>
                   c\<lparr>cc_enabled := True,
                     cc_last_run_at := (case cc_last_run_at c of None \<Rightarrow> Some now | Some t \<Rightarrow> Some t),
                     cc_last_disabled_at := None, cc_disabled_reason := None, cc_last_error := None\<rparr>
               | Some False \<Rightarrow>
                   c\<lparr>cc_enabled := False, cc_last_disabled_at := Some now, cc_disabled_reason := Some reason_manual\<rparr>);
          c = (case batch_size of None \<Rightarrow> c | Some v \<Rightarrow> c\<lparr>cc_batch_size := clamp v 1 20\<rparr>);
          c = (case alias_interval of None \<Rightarrow> c | Some v \<Rightarrow> c\<lparr>cc_alias_interval := clamp v 1 3600\<rparr>);
          c = (case interval of None \<Rightarrow> c | Some v \<Rightarrow> c\<lparr>cc_interval := clamp v 60 (7 * 24 * 60 * 60)\<rparr>);
          c = (case label of None \<Rightarrow> c
               | Some l \<Rightarrow> c\<lparr>cc_label := take 100 (if trim_space l = [] then ''shopping'' else trim_space l)\<rparr>);
          c = (case note of None \<Rightarrow> c | Some n \<Rightarrow> c\<lparr>cc_note := take 500 n\<rparr>);
          c = normalized_create_config c;
          (ok, s2) = schedule_save c s1;
          s3 = (if enabled = Some False then cancel_batch s2 else s2)
      in if \<not> ok then (None, s3)
         else let (st, s4) = schedule_status now (s3\<lparr>sc_wake := True\<rparr>) in (Some st, s4))"

definition schedule_stop :: "unixtime \<Rightarrow> create_scheduler \<Rightarrow> create_config option \<times> create_scheduler" where
  "schedule_stop now s = schedule_update now (Some False) None None None None None s"

definition schedule_start :: "unixtime \<Rightarrow> create_scheduler \<Rightarrow> create_scheduler" where
  "schedule_start now s =
     (if sc_worker_running s then s
      else
        let (c, s1) = schedule_load (s\<lparr>sc_worker_running := True\<rparr>);
            c = (if cc_enabled c \<and> cc_last_run_at c = None then c\<lparr>cc_last_run_at := Some now\<rparr> else c)
        in snd (schedule_save (c\<lparr>cc_current_index := 0, cc_current_total := 0, cc_current_success := 0\<rparr>) s1))"

definition schedule_shutdown :: "create_scheduler \<Rightarrow> create_scheduler" where
  "schedule_shutdown s =
     (if \<not> sc_worker_running s then s else cancel_batch (s\<lparr>sc_worker_running := False\<rparr>))"

definition schedule_wake_delay :: "create_config \<Rightarrow> unixtime \<Rightarrow> duration" where
  "schedule_wake_delay st now =
     (if \<not> cc_enabled st \<or> cc_running st \<or> cc_next_run_at st = None then schedule_idle_poll
      else
        let secs = the (cc_next_run_at st) - now
        in if secs \<le> seconds_of schedule_minimum_wake then schedule_minimum_wake
           else if secs \<ge> seconds_of schedule_idle_poll then schedule_idle_poll
           else float_duration secs)"

section \<open>A batch\<close>

text \<open>\<open>startRun\<close>: \<^const>\<open>False\<close> is \<open>ErrCreateInProgress\<close>.\<close>

definition start_run :: "bool \<Rightarrow> bool \<Rightarrow> create_scheduler \<Rightarrow> bool \<times> create_scheduler" where
  "start_run blocked manual s =
     (if blocked then (False, s)
      else if sc_lock s then (False, s)
      else (True, s\<lparr>sc_lock := True, sc_cancel := True,
                    sc_run := Some \<lparr>br_pc = BStart, br_config = default_create_config, br_manual = manual,
                                    br_ctx_done = False\<rparr>\<rparr>))"

definition schedule_run_if_due :: "bool \<Rightarrow> unixtime \<Rightarrow> create_scheduler \<Rightarrow> create_scheduler" where
  "schedule_run_if_due blocked now s =
     (let (c, s1) = schedule_status now s
      in if cc_enabled c \<and> \<not> cc_running c \<and> (case cc_remaining c of Some r \<Rightarrow> r \<le> 0 | None \<Rightarrow> False)
         then snd (start_run blocked False s1) else s1)"

definition end_batch :: "create_scheduler \<Rightarrow> create_scheduler" where
  "end_batch s = s\<lparr>sc_lock := False, sc_cancel := False, sc_run := None, sc_wake := True\<rparr>"

definition finish_batch ::
  "unixtime \<Rightarrow> go_error option \<Rightarrow> string \<Rightarrow> bool \<Rightarrow> create_scheduler \<Rightarrow> create_scheduler" where
  "finish_batch now err reason manual s =
     (let (c, s1) = schedule_load s;
          c = c\<lparr>cc_current_index := 0, cc_current_total := 0, cc_current_success := 0,
                cc_stopped_reason := Some reason\<rparr>;
          c = (case err of
                 Some e \<Rightarrow> (if is_canceled e then c else c\<lparr>cc_last_error := Some (err_text e)\<rparr>)
               | None \<Rightarrow> c);
          c = (if contains reason word_session_expired \<or> contains reason word_session_missing
               then c\<lparr>cc_enabled := False, cc_last_disabled_at := Some now, cc_disabled_reason := Some reason\<rparr>
               else c);
          c = (if err = None then c\<lparr>cc_last_success_at := Some now, cc_last_error := None\<rparr> else c);
          (_, s2) = schedule_save c s1;
          entry = \<lparr>lg_category = ''automation'', lg_action = ''alias.schedule.batch'',
                   lg_level = (case err of None \<Rightarrow> ''info''
                     | Some e \<Rightarrow> if is_canceled e \<or> contains reason word_limit then ''warning'' else ''error''),
                   lg_outcome = (if err = None then ''success'' else ''failure''), lg_summary = reason,
                   lg_source = (if manual then ''user'' else ''background''),
                   lg_detail = (case err of None \<Rightarrow> [] | Some e \<Rightarrow> safe_error_text e),
                   lg_meta = [(''requested'', cc_last_requested c), (''success'', cc_last_success c)]\<rparr>
      in if sc_logs s2 then s2\<lparr>sc_log := sc_log s2 @ [entry]\<rparr> else s2)"

definition set_progress :: "int \<Rightarrow> int \<Rightarrow> int \<Rightarrow> create_scheduler \<Rightarrow> create_scheduler" where
  "set_progress index tot success s =
     (let (c, s1) = schedule_load s
      in snd (schedule_save (c\<lparr>cc_current_index := index, cc_current_total := tot, cc_current_success := success,
                               cc_last_success := success\<rparr>) s1))"

definition set_last_route :: "jmap \<Rightarrow> create_scheduler \<Rightarrow> create_scheduler" where
  "set_last_route created s =
     (let (c, s1) = schedule_load s
      in snd (schedule_save
           (c\<lparr>cc_last_channel := trim_space (sprint (jget created ''usedChannel'')),
              cc_last_fallback := (jget created ''fallbackUsed'' = JBool True),
              cc_last_attempted := (case jget created ''attemptedChannels'' of
                 JArr xs \<Rightarrow> map string_value xs | _ \<Rightarrow> [])\<rparr>) s1))"

datatype batch_input = Proceed | Created "go_error + jmap" | WaitOver

definition batch_goto :: "batch_pc \<Rightarrow> batch_run \<Rightarrow> create_scheduler \<Rightarrow> create_scheduler" where
  "batch_goto pc r s = s\<lparr>sc_run := Some (r\<lparr>br_pc := pc\<rparr>)\<rparr>"

definition batch_start :: "unixtime \<Rightarrow> batch_run \<Rightarrow> create_scheduler \<Rightarrow> create_scheduler" where
  "batch_start now r s =
     (let (c, s1) = schedule_load s;
          c = normalized_create_config c
      in if \<not> br_manual r \<and> \<not> cc_enabled c then end_batch s1
         else
           let c = c\<lparr>cc_last_run_at := Some now, cc_last_error := None, cc_stopped_reason := None,
                     cc_last_requested := cc_batch_size c, cc_last_success := 0, cc_current_index := 0,
                     cc_current_total := cc_batch_size c, cc_current_success := 0\<rparr>
           in batch_goto (BHead 1) (r\<lparr>br_config := c\<rparr>) (snd (schedule_save c s1)))"

definition batch_head :: "unixtime \<Rightarrow> batch_run \<Rightarrow> int \<Rightarrow> create_scheduler \<Rightarrow> create_scheduler" where
  "batch_head now r index s =
     (let c = br_config r
      in if index > cc_batch_size c then end_batch (finish_batch now None reason_done (br_manual r) s)
         else if br_ctx_done r then end_batch (finish_batch now (Some Canceled) reason_stopped (br_manual r) s)
         else batch_goto (BCreate index) r (set_progress index (cc_batch_size c) (cc_last_success c) s))"

definition failure_reason :: "go_error \<Rightarrow> string" where
  "failure_reason e =
     (if contains (err_text e) ''-41015'' then reason_limit
      else if is_session_expired e then reason_session_expired
      else reason_failed)"

definition batch_created ::
  "unixtime \<Rightarrow> batch_run \<Rightarrow> int \<Rightarrow> (go_error + jmap) \<Rightarrow> create_scheduler \<Rightarrow> create_scheduler" where
  "batch_created now r index answer s =
     (case answer of
        Inl e \<Rightarrow> end_batch (finish_batch now (Some e) (failure_reason e) (br_manual r) s)
      | Inr created \<Rightarrow>
          (let c = (br_config r)\<lparr>cc_last_success := cc_last_success (br_config r) + 1\<rparr>;
               s1 = set_progress index (cc_batch_size c) (cc_last_success c) (set_last_route created s);
               r1 = r\<lparr>br_config := c\<rparr>
           in if index < cc_batch_size c then batch_goto (BWait index) r1 s1
              else batch_goto (BHead (index + 1)) r1 s1))"

definition batch_step :: "unixtime \<Rightarrow> batch_input \<Rightarrow> create_scheduler \<Rightarrow> create_scheduler" where
  "batch_step now input s =
     (case sc_run s of
        None \<Rightarrow> s
      | Some r \<Rightarrow>
          (case (br_pc r, input) of
             (BStart, Proceed) \<Rightarrow> batch_start now r s
           | (BHead index, Proceed) \<Rightarrow> batch_head now r index s
           | (BCreate index, Created a) \<Rightarrow> batch_created now r index a s
           | (BWait index, WaitOver) \<Rightarrow> batch_goto (BHead (index + 1)) r s
           | (BWait index, Proceed) \<Rightarrow>
               (if br_ctx_done r then end_batch (finish_batch now (Some Canceled) reason_stopped (br_manual r) s)
                else s)
           | _ \<Rightarrow> s))"

section \<open>Configuration invariant\<close>

definition config_bounded :: "create_config \<Rightarrow> bool" where
  "config_bounded c \<longleftrightarrow> 1 \<le> cc_batch_size c \<and> cc_batch_size c \<le> 20 \<and> 1 \<le> cc_alias_interval c \<and>
     cc_alias_interval c \<le> 3600 \<and> 60 \<le> cc_interval c \<and> cc_interval c \<le> 604800 \<and> trim_space (cc_label c) \<noteq> []"

definition stored_ok :: "create_config \<Rightarrow> bool" where
  "stored_ok c \<longleftrightarrow> config_bounded c \<and> \<not> cc_running c \<and> \<not> cc_worker_running c \<and> cc_next_run_at c = None"

text \<open>The lock is held exactly while a batch exists, and only then is there something to cancel.\<close>

definition schedule_inv :: "create_scheduler \<Rightarrow> bool" where
  "schedule_inv s \<longleftrightarrow> (\<forall>c. cell_doc (sc_cell s) = Some c \<longrightarrow> stored_ok c) \<and>
     (sc_lock s \<longleftrightarrow> sc_run s \<noteq> None) \<and> (sc_cancel s \<longrightarrow> sc_lock s) \<and>
     (\<forall>r. sc_run s = Some r \<longrightarrow> cc_batch_size (br_config r) \<le> 20)"

lemma normalized_bounded [simp]: "config_bounded (normalized_create_config c)"
  by (auto simp: config_bounded_def normalized_create_config_def clamp_def Let_def) code_simp

lemma stored_persistent: "config_bounded c \<Longrightarrow> stored_ok (persistent_create_config c)"
  by (simp add: stored_ok_def persistent_create_config_def config_bounded_def)

lemma load_bounded [simp]: "config_bounded (fst (schedule_load s))"
  by (simp add: schedule_load_def split_beta)

lemma load_frame [simp]:
  "sc_lock (snd (schedule_load s)) = sc_lock s" "sc_run (snd (schedule_load s)) = sc_run s"
  "sc_cancel (snd (schedule_load s)) = sc_cancel s" "sc_worker_running (snd (schedule_load s)) = sc_worker_running s"
  "sc_logs (snd (schedule_load s)) = sc_logs s" "sc_log (snd (schedule_load s)) = sc_log s"
  "cell_doc (sc_cell (snd (schedule_load s))) = cell_doc (sc_cell s)"
  using cell_store.rd_stored [of "sc_cell s"] by (simp_all add: schedule_load_def split_beta)

lemma save_frame [simp]:
  "sc_lock (snd (schedule_save c s)) = sc_lock s" "sc_run (snd (schedule_save c s)) = sc_run s"
  "sc_cancel (snd (schedule_save c s)) = sc_cancel s"
  "sc_logs (snd (schedule_save c s)) = sc_logs s" "sc_log (snd (schedule_save c s)) = sc_log s"
  by (simp_all add: schedule_save_def split_beta)

lemma load_keeps_inv [simp]: "schedule_inv (snd (schedule_load s)) = schedule_inv s"
  by (simp add: schedule_inv_def)

lemma save_keeps_inv: "schedule_inv s \<Longrightarrow> config_bounded c \<Longrightarrow> schedule_inv (snd (schedule_save c s))"
  using cell_store.wr_done [of "persistent_create_config c" "sc_cell s"]
    cell_store.wr_failed [of "persistent_create_config c" "sc_cell s"] stored_persistent [of c]
  by (cases "fst (cell_write (persistent_create_config c) (sc_cell s))")
    (auto simp: schedule_inv_def schedule_save_def split_beta)

text \<open>Fields that do not matter for the bounds.\<close>

lemma bounded_fields [simp]:
  "config_bounded (c\<lparr>cc_last_run_at := a\<rparr>) = config_bounded c" "config_bounded (c\<lparr>cc_enabled := b\<rparr>) = config_bounded c"
  "config_bounded (c\<lparr>cc_last_error := e\<rparr>) = config_bounded c" "config_bounded (c\<lparr>cc_stopped_reason := e\<rparr>) = config_bounded c"
  "config_bounded (c\<lparr>cc_last_requested := i\<rparr>) = config_bounded c" "config_bounded (c\<lparr>cc_last_success := i\<rparr>) = config_bounded c"
  "config_bounded (c\<lparr>cc_current_index := i\<rparr>) = config_bounded c" "config_bounded (c\<lparr>cc_current_total := i\<rparr>) = config_bounded c"
  "config_bounded (c\<lparr>cc_current_success := i\<rparr>) = config_bounded c" "config_bounded (c\<lparr>cc_last_disabled_at := a\<rparr>) = config_bounded c"
  "config_bounded (c\<lparr>cc_disabled_reason := e\<rparr>) = config_bounded c" "config_bounded (c\<lparr>cc_last_success_at := a\<rparr>) = config_bounded c"
  "config_bounded (c\<lparr>cc_last_channel := l\<rparr>) = config_bounded c" "config_bounded (c\<lparr>cc_last_fallback := b\<rparr>) = config_bounded c"
  "config_bounded (c\<lparr>cc_last_attempted := ls\<rparr>) = config_bounded c"
  by (simp_all add: config_bounded_def)

lemma inv_run_update [simp]:
  "schedule_inv s \<Longrightarrow> sc_run s = Some r0 \<Longrightarrow> cc_batch_size (br_config r) \<le> 20 \<Longrightarrow> schedule_inv (s\<lparr>sc_run := Some r\<rparr>)"
  by (simp add: schedule_inv_def)

lemma end_batch_inv: "schedule_inv s \<Longrightarrow> schedule_inv (end_batch s)"
  by (simp add: schedule_inv_def end_batch_def)

lemma cancel_batch_inv: "schedule_inv s \<Longrightarrow> schedule_inv (cancel_batch s)"
  by (auto simp: schedule_inv_def cancel_batch_def)

lemma log_inv [simp]: "schedule_inv (s\<lparr>sc_log := l\<rparr>) = schedule_inv s" "schedule_inv (s\<lparr>sc_wake := w\<rparr>) = schedule_inv s"
  "schedule_inv (s\<lparr>sc_worker_running := w\<rparr>) = schedule_inv s"
  by (simp_all add: schedule_inv_def)

lemma finish_batch_inv: "schedule_inv s \<Longrightarrow> schedule_inv (finish_batch now err reason manual s)"
  by (simp add: finish_batch_def Let_def split_beta save_keeps_inv split: option.splits)

lemma set_progress_inv: "schedule_inv s \<Longrightarrow> schedule_inv (set_progress i t k s)"
  by (simp add: set_progress_def split_beta save_keeps_inv)

lemma set_progress_run [simp]: "sc_run (set_progress i t k s) = sc_run s"
  by (simp add: set_progress_def split_beta)

lemma set_route_inv: "schedule_inv s \<Longrightarrow> schedule_inv (set_last_route m s)"
  by (simp add: set_last_route_def split_beta save_keeps_inv)

lemma set_route_run [simp]: "sc_run (set_last_route m s) = sc_run s"
  by (simp add: set_last_route_def split_beta)

end
