(* ===== verification/ScheduleProps.thy ===== *)
theory ScheduleProps
  imports Schedule
begin

text \<open>
  What the batch scheduler guarantees: the stored configuration stays within its bounds under every
  interleaving, at most one batch runs, a batch creates at most as many addresses as configured, an
  expired session turns the schedule off, and the timer keeps its contract.
\<close>

section \<open>Interleavings\<close>

inductive schedule_step :: "create_scheduler \<Rightarrow> create_scheduler \<Rightarrow> bool" where
  sch_start: "schedule_step s (schedule_start now s)"
| sch_shutdown: "schedule_step s (schedule_shutdown s)"
| sch_update: "schedule_step s (snd (schedule_update now en b a i l nt s))"
| sch_status: "schedule_step s (snd (schedule_status now s))"
| sch_run_now: "schedule_step s (snd (start_run blocked True s))"
| sch_due: "schedule_step s (schedule_run_if_due blocked now s)"
| sch_batch: "schedule_step s (batch_step now input s)"
| sch_woken: "schedule_step s (s\<lparr>sc_wake := False\<rparr>)"

inductive schedule_reach :: "create_scheduler \<Rightarrow> create_scheduler \<Rightarrow> bool" for s0 where
  sch_init: "schedule_reach s0 s0"
| sch_next: "schedule_reach s0 s \<Longrightarrow> schedule_step s s' \<Longrightarrow> schedule_reach s0 s'"

lemma schedule_start_inv: "schedule_inv s \<Longrightarrow> schedule_inv (schedule_start now s)"
  by (simp add: schedule_start_def Let_def split_beta save_keeps_inv)

lemma shutdown_inv: "schedule_inv s \<Longrightarrow> schedule_inv (schedule_shutdown s)"
  by (simp add: schedule_shutdown_def cancel_batch_inv)

lemma status_inv: "schedule_inv s \<Longrightarrow> schedule_inv (snd (schedule_status now s))"
  by (simp add: schedule_status_def Let_def split_beta)

lemma status_frame [simp]:
  "sc_lock (snd (schedule_status now s)) = sc_lock s" "sc_run (snd (schedule_status now s)) = sc_run s"
  by (simp_all add: schedule_status_def Let_def split_beta)

lemma update_inv: "schedule_inv s \<Longrightarrow> schedule_inv (snd (schedule_update now en b a i l nt s))"
  by (simp add: schedule_update_def Let_def split_beta save_keeps_inv cancel_batch_inv status_inv)

lemma start_run_inv: "schedule_inv s \<Longrightarrow> schedule_inv (snd (start_run blocked manual s))"
  by (auto simp: start_run_def schedule_inv_def default_create_config_def)

lemma due_inv: "schedule_inv s \<Longrightarrow> schedule_inv (schedule_run_if_due blocked now s)"
  by (simp add: schedule_run_if_due_def split_beta start_run_inv status_inv)

lemma batch_start_inv:
  assumes "schedule_inv s" and "sc_run s = Some r"
  shows "schedule_inv (batch_start now r s)"
proof -
  let ?c = "normalized_create_config (fst (schedule_load s))"
  have "cc_batch_size ?c \<le> 20" using normalized_bounded [of "fst (schedule_load s)"] by (simp add: config_bounded_def)
  moreover have "config_bounded ?c" by simp
  ultimately show ?thesis
    using assms by (simp add: batch_start_def Let_def split_beta batch_goto_def end_batch_inv save_keeps_inv)
qed

lemma batch_head_inv:
  "schedule_inv s \<Longrightarrow> sc_run s = Some r \<Longrightarrow> cc_batch_size (br_config r) \<le> 20 \<Longrightarrow> schedule_inv (batch_head now r i s)"
  by (simp add: batch_head_def Let_def end_batch_inv finish_batch_inv batch_goto_def set_progress_inv)

lemma batch_created_inv:
  "schedule_inv s \<Longrightarrow> sc_run s = Some r \<Longrightarrow> cc_batch_size (br_config r) \<le> 20 \<Longrightarrow> schedule_inv (batch_created now r i a s)"
  by (auto simp: batch_created_def Let_def end_batch_inv finish_batch_inv batch_goto_def set_progress_inv
      set_route_inv split: sum.splits)

lemma batch_step_inv: "schedule_inv s \<Longrightarrow> schedule_inv (batch_step now input s)"
proof -
  assume inv: "schedule_inv s"
  show ?thesis
  proof (cases "sc_run s")
    case None
    then show ?thesis using inv by (simp add: batch_step_def)
  next
    case (Some r)
    then have b: "cc_batch_size (br_config r) \<le> 20" using inv by (simp add: schedule_inv_def)
    show ?thesis
      using inv Some b
      by (cases "br_pc r"; cases input)
        (simp_all add: batch_step_def batch_start_inv batch_head_inv batch_created_inv batch_goto_def
          end_batch_inv finish_batch_inv)
  qed
qed

lemma schedule_step_inv: "schedule_step s s' \<Longrightarrow> schedule_inv s \<Longrightarrow> schedule_inv s'"
  by (induction rule: schedule_step.induct)
    (simp_all add: schedule_start_inv shutdown_inv update_inv status_inv start_run_inv due_inv batch_step_inv)

lemma schedule_reach_inv: "schedule_reach s0 s \<Longrightarrow> schedule_inv s0 \<Longrightarrow> schedule_inv s"
  by (induction rule: schedule_reach.induct) (auto intro: schedule_step_inv)

text \<open>
  C8. Whatever the order of updates, manual starts, worker steps, service answers and storage
  faults: the stored configuration has a batch size of 1 to 20, an interval between addresses of 1 to
  3600 seconds, a period of a minute to a week and a label; none of the transient status fields is
  stored; and the run lock is held exactly while a batch exists, so no two batches ever overlap.
\<close>

theorem schedule_reach_bounded:
  assumes "schedule_reach s0 s" and "schedule_inv s0"
  shows "(\<forall>c. cell_doc (sc_cell s) = Some c \<longrightarrow> config_bounded c \<and> \<not> cc_running c \<and> cc_next_run_at c = None) \<and>
    (sc_lock s \<longleftrightarrow> sc_run s \<noteq> None) \<and>
    (sc_run s \<noteq> None \<longrightarrow> \<not> fst (start_run blocked manual s) \<and> snd (start_run blocked manual s) = s)"
  using schedule_reach_inv [OF assms] by (auto simp: schedule_inv_def stored_ok_def start_run_def)

section \<open>A whole batch\<close>

lemma load_ok:
  "cell_ok (sc_cell s) \<Longrightarrow> schedule_load s =
     (normalized_create_config (case cell_doc (sc_cell s) of None \<Rightarrow> default_create_config | Some x \<Rightarrow> x), s)"
  by (simp add: schedule_load_def cell_read_ok)

lemma save_ok:
  "cell_ok (sc_cell s) \<Longrightarrow>
   schedule_save c s = (True, s\<lparr>sc_cell := (sc_cell s)\<lparr>cell_doc := Some (persistent_create_config c)\<rparr>\<rparr>)"
  by (simp add: schedule_save_def cell_write_ok)

text \<open>
  Driving a batch: \<open>answer i\<close> is what \<open>CreateAlias\<close> gives for the \<open>i\<close>-th address, and \<open>stop i\<close> whether
  the batch is cancelled while it waits after that address. The result is the list of indices for
  which \<open>CreateAlias\<close> was called, and the final state.
\<close>

definition stop_now :: "create_scheduler \<Rightarrow> create_scheduler" where
  "stop_now s = cancel_batch s"

fun batch_answer :: "(int \<Rightarrow> go_error + jmap) \<Rightarrow> (int \<Rightarrow> bool) \<Rightarrow> unixtime \<Rightarrow> batch_pc \<Rightarrow> create_scheduler \<Rightarrow> create_scheduler" where
  "batch_answer answer stop now BStart s = batch_step now Proceed s"
| "batch_answer answer stop now (BHead i) s = batch_step now Proceed s"
| "batch_answer answer stop now (BCreate i) s = batch_step now (Created (answer i)) s"
| "batch_answer answer stop now (BWait i) s =
     (if stop i then batch_step now Proceed (stop_now s) else batch_step now WaitOver s)"

fun batch_calls :: "batch_pc \<Rightarrow> int list" where
  "batch_calls (BCreate i) = [i]"
| "batch_calls _ = []"

fun drive_batch ::
  "nat \<Rightarrow> (int \<Rightarrow> go_error + jmap) \<Rightarrow> (int \<Rightarrow> bool) \<Rightarrow> unixtime \<Rightarrow> create_scheduler \<Rightarrow> int list \<times> create_scheduler" where
  "drive_batch 0 answer stop now s = ([], s)"
| "drive_batch (Suc k) answer stop now s =
     (case sc_run s of
        None \<Rightarrow> ([], s)
      | Some r \<Rightarrow>
          (let (tr, s') = drive_batch k answer stop now (batch_answer answer stop now (br_pc r) s)
           in (batch_calls (br_pc r) @ tr, s')))"

text \<open>How far along a batch is, for the bound on the calls still to come.\<close>

fun calls_left :: "int \<Rightarrow> batch_pc \<Rightarrow> nat" where
  "calls_left sz BStart = 20"
| "calls_left sz (BHead i) = nat (sz + 1 - i)"
| "calls_left sz (BCreate i) = nat (sz + 1 - i)"
| "calls_left sz (BWait i) = nat (sz - i)"

definition left_of :: "create_scheduler \<Rightarrow> nat" where
  "left_of s = (case sc_run s of None \<Rightarrow> 0 | Some r \<Rightarrow> calls_left (cc_batch_size (br_config r)) (br_pc r))"

definition index_ok :: "create_scheduler \<Rightarrow> bool" where
  "index_ok s \<longleftrightarrow> (\<forall>r. sc_run s = Some r \<longrightarrow>
     (case br_pc r of BCreate i \<Rightarrow> i \<le> cc_batch_size (br_config r) | _ \<Rightarrow> True))"

lemma run_after [simp]:
  "sc_run (end_batch s) = None" "sc_run (batch_goto pc r s) = Some (r\<lparr>br_pc := pc\<rparr>)"
  by (simp_all add: end_batch_def batch_goto_def)

lemma cancel_run [simp]:
  "sc_run (cancel_batch s) = map_option (\<lambda>r. r\<lparr>br_ctx_done := br_ctx_done r \<or> sc_cancel s\<rparr>) (sc_run s)"
  by (cases "sc_run s") (auto simp: cancel_batch_def)

lemma batch_answer_left:
  assumes "sc_run s = Some r" and "index_ok s"
  shows "index_ok (batch_answer answer stop now (br_pc r) s) \<and>
    length (batch_calls (br_pc r)) + left_of (batch_answer answer stop now (br_pc r) s) \<le> left_of s"
proof (cases "br_pc r")
  case BStart
  have "cc_batch_size (normalized_create_config (fst (schedule_load s))) \<le> 20"
    using normalized_bounded [of "fst (schedule_load s)"] by (simp only: config_bounded_def)
  then show ?thesis
    using assms BStart
    by (simp add: batch_step_def batch_start_def Let_def split_beta index_ok_def left_of_def nat_le_iff)
next
  case (BHead i)
  then show ?thesis
    using assms by (simp add: batch_step_def batch_head_def Let_def index_ok_def left_of_def)
next
  case (BCreate i)
  then have "i \<le> cc_batch_size (br_config r)" using assms by (simp add: index_ok_def)
  then show ?thesis
    using assms BCreate
    by (cases "answer i") (auto simp: batch_step_def batch_created_def Let_def index_ok_def left_of_def)
next
  case (BWait i)
  then show ?thesis
    using assms by (auto simp: batch_step_def stop_now_def index_ok_def left_of_def)
qed

lemma drive_batch_calls:
  "index_ok s \<Longrightarrow> length (fst (drive_batch k answer stop now s)) \<le> left_of s"
proof (induction k arbitrary: s)
  case (Suc k)
  show ?case
  proof (cases "sc_run s")
    case (Some r)
    let ?s = "batch_answer answer stop now (br_pc r) s"
    have a: "index_ok ?s" "length (batch_calls (br_pc r)) + left_of ?s \<le> left_of s"
      using batch_answer_left [OF Some Suc.prems] by blast+
    have "length (fst (drive_batch k answer stop now ?s)) \<le> left_of ?s" by (rule Suc.IH [OF a(1)])
    then show ?thesis using a(2) Some by (simp add: split_beta)
  qed simp
qed simp

text \<open>
  However \<open>CreateAlias\<close> answers and whenever the batch is stopped, a batch calls it at most as
  often as the batch size it started with, which is at most twenty.
\<close>

theorem batch_calls_bounded:
  assumes "sc_run s = Some \<lparr>br_pc = BStart, br_config = c0, br_manual = manual, br_ctx_done = False\<rparr>"
  shows "length (fst (drive_batch k answer stop now s)) \<le> nat (cc_batch_size (fst (schedule_load s))) \<and>
    length (fst (drive_batch k answer stop now s)) \<le> 20"
proof -
  have n: "cc_batch_size (normalized_create_config (fst (schedule_load s))) = cc_batch_size (fst (schedule_load s))"
    using load_bounded [of s] by (auto simp: normalized_create_config_def clamp_def config_bounded_def Let_def)
  have b: "cc_batch_size (fst (schedule_load s)) \<le> 20" using load_bounded [of s] by (simp add: config_bounded_def)
  have "length (fst (drive_batch k answer stop now s)) \<le> nat (cc_batch_size (fst (schedule_load s)))"
  proof (cases k)
    case (Suc j)
    let ?s = "batch_step now Proceed s"
    have "index_ok ?s \<and> left_of ?s \<le> nat (cc_batch_size (fst (schedule_load s)))"
      using assms by (simp add: batch_step_def batch_start_def Let_def split_beta index_ok_def left_of_def n)
    then show ?thesis
      using drive_batch_calls [of ?s j answer stop now] assms Suc by (simp add: split_beta)
  qed simp
  then show ?thesis using b by linarith
qed

section \<open>An expired session\<close>

text \<open>
  C9. A batch that fails because the session has expired turns the schedule off, with the reason
  and the time; a creation limit and every other error leave it on, so that the next period tries
  again. In each case the batch ends, its lock is free and the error is recorded.
\<close>

theorem expired_session_disables:
  assumes "cell_ok (sc_cell s)" and "sc_run s = Some r" and "br_pc r = BCreate i" and "\<not> is_canceled e"
  shows "\<exists>c. cell_doc (sc_cell (batch_step now (Created (Inl e)) s)) = Some c \<and>
    \<not> sc_lock (batch_step now (Created (Inl e)) s) \<and> sc_run (batch_step now (Created (Inl e)) s) = None \<and>
    cc_last_error c = Some (err_text e) \<and>
    (if is_session_expired e \<and> \<not> contains (err_text e) ''-41015''
     then \<not> cc_enabled c \<and> cc_last_disabled_at c = Some now \<and> cc_disabled_reason c = Some reason_session_expired
     else cc_enabled c = cc_enabled (fst (schedule_load s)))"
proof -
  have w: "contains reason_session_expired word_session_expired"
    "\<not> contains reason_limit word_session_expired" "\<not> contains reason_limit word_session_missing"
    "\<not> contains reason_failed word_session_expired" "\<not> contains reason_failed word_session_missing"
    by code_simp+
  have "cell_ok (sc_cell (finish_batch now (Some e) (failure_reason e) (br_manual r) s)) \<and>
    cell_doc (sc_cell (batch_step now (Created (Inl e)) s)) =
      cell_doc (sc_cell (finish_batch now (Some e) (failure_reason e) (br_manual r) s)) \<and>
    \<not> sc_lock (batch_step now (Created (Inl e)) s) \<and> sc_run (batch_step now (Created (Inl e)) s) = None"
    using assms by (simp add: batch_step_def batch_created_def end_batch_def finish_batch_def Let_def load_ok save_ok)
  then show ?thesis
    using assms w
    by (simp add: finish_batch_def Let_def load_ok save_ok persistent_create_config_def failure_reason_def)
qed

section \<open>The timer\<close>

definition schedule_due :: "create_config \<Rightarrow> unixtime option" where
  "schedule_due st = (if cc_enabled st \<and> \<not> cc_running st then cc_next_run_at st else None)"

interpretation schedule_timer: wake_timer schedule_due schedule_wake_delay schedule_idle_poll schedule_minimum_wake
  by unfold_locales
    (auto simp: schedule_due_def schedule_wake_delay_def schedule_idle_poll_def schedule_minimum_wake_def
      minute_def second_def Let_def split: if_splits)

text \<open>
  The scheduler's timer never sleeps for less than 100 milliseconds or more than five minutes,
  nor past the next run of an enabled schedule by more than those 100 milliseconds; and the next run
  the status shows is one period after the last one.
\<close>

theorem schedule_wake_sound:
  "schedule_minimum_wake \<le> schedule_wake_delay (fst (schedule_status now s)) now \<and>
   schedule_wake_delay (fst (schedule_status now s)) now \<le> schedule_idle_poll \<and>
   (cc_enabled (fst (schedule_load s)) \<and> \<not> sc_lock s \<longrightarrow>
      now + seconds_of (schedule_wake_delay (fst (schedule_status now s)) now) \<le>
        max (next_run_at now (fst (schedule_load s))) (now + seconds_of schedule_minimum_wake))"
proof -
  let ?st = "fst (schedule_status now s)"
  have "cc_enabled (fst (schedule_load s)) \<and> \<not> sc_lock s \<Longrightarrow>
      schedule_due ?st = Some (next_run_at now (fst (schedule_load s)))"
    by (simp add: schedule_due_def schedule_status_def Let_def split_beta) (simp add: next_run_at_def)
  then show ?thesis
    using schedule_timer.delay_bounds [of ?st now] schedule_timer.no_oversleep [of ?st _ now] by blast
qed

section \<open>Witnesses\<close>

definition idle_scheduler :: create_scheduler where
  "idle_scheduler = \<lparr>sc_cell = \<lparr>cell_doc = Some (default_create_config\<lparr>cc_enabled := True, cc_last_run_at := Some 5\<rparr>),
     read_faults = [], write_faults = []\<rparr>, sc_worker_running = True, sc_wake = False, sc_lock = False,
     sc_cancel = False, sc_run = None, sc_logs = False, sc_log = []\<rparr>"

lemma idle_scheduler_inv: "schedule_inv idle_scheduler"
proof -
  have "config_bounded default_create_config"
    by (simp add: config_bounded_def default_create_config_def) code_simp
  then show ?thesis
    by (simp add: schedule_inv_def idle_scheduler_def stored_ok_def) (simp add: default_create_config_def)
qed

theorem schedule_reach_bounded_witness:
  "\<not> fst (start_run False False (snd (start_run False True idle_scheduler)))"
proof -
  have r: "schedule_reach idle_scheduler (snd (start_run False True idle_scheduler))"
    by (rule sch_next [OF sch_init sch_run_now])
  show ?thesis
    using schedule_reach_bounded [OF r idle_scheduler_inv, of False False]
    by (simp add: start_run_def idle_scheduler_def)
qed

theorem batch_calls_bounded_witness:
  "length (fst (drive_batch 100 (\<lambda>_. Inr []) (\<lambda>_. False) 9 (snd (start_run False True idle_scheduler)))) \<le> 20"
  using batch_calls_bounded [of "snd (start_run False True idle_scheduler)" default_create_config True 100
      "\<lambda>_. Inr []" "\<lambda>_. False" 9]
  by (simp add: start_run_def idle_scheduler_def)

definition creating_scheduler :: create_scheduler where
  "creating_scheduler = idle_scheduler\<lparr>sc_lock := True, sc_run := Some \<lparr>br_pc = BCreate 1,
     br_config = default_create_config, br_manual = True, br_ctx_done = False\<rparr>\<rparr>"

theorem expired_session_disables_witness:
  "\<exists>c. cell_doc (sc_cell (batch_step 9 (Created (Inl (Upstream 401 []))) creating_scheduler)) = Some c \<and> \<not> cc_enabled c"
proof -
  have "\<not> contains (err_text (Upstream 401 [])) ''-41015''" by code_simp
  then show ?thesis
    using expired_session_disables [of creating_scheduler "\<lparr>br_pc = BCreate 1, br_config = default_create_config,
        br_manual = True, br_ctx_done = False\<rparr>" 1 "Upstream 401 []" 9]
    by (auto simp: creating_scheduler_def idle_scheduler_def cell_ok_def is_session_expired_def)
qed

theorem schedule_wake_sound_witness:
  "6 + seconds_of (schedule_wake_delay (fst (schedule_status 6 idle_scheduler)) 6) \<le>
     max (5 + 180) (6 + seconds_of schedule_minimum_wake)"
proof -
  have "fst (schedule_load idle_scheduler) =
      normalized_create_config (default_create_config\<lparr>cc_enabled := True, cc_last_run_at := Some 5\<rparr>)"
    by (simp add: load_ok cell_ok_def idle_scheduler_def)
  then have "cc_enabled (fst (schedule_load idle_scheduler))" "next_run_at 6 (fst (schedule_load idle_scheduler)) = 5 + 180"
    by (simp_all add: next_run_at_def normalized_create_config_def default_create_config_def Let_def clamp_def)
  then show ?thesis
    using schedule_wake_sound [of 6 idle_scheduler] by (simp add: idle_scheduler_def)
qed

end
