(* ===== verification/Refresh.thy ===== *)
theory Refresh
  imports ScheduleProps ChannelsProps
begin

text \<open>
  The session refresher, \<open>modules/mail/backend/autorefresh.go\<close>: a periodic check of the sessions and,
  between two checks, the keep-alive of the short-lived Apple Account session at a time with random
  jitter. The jitter drawn by \<open>rand.Int64N\<close> is an argument; the clock is the session manager's.
\<close>

section \<open>State\<close>

record refresh_config =
  rc_enabled :: bool
  rc_interval :: int
  rc_last_run_at :: "unixtime option"
  rc_last_success_at :: "unixtime option"
  rc_last_disabled_at :: "unixtime option"
  rc_last_error :: "string option"
  rc_disabled_reason :: "string option"
  rc_worker_running :: bool
  rc_remaining :: "int option"
  rc_next_run_at :: "unixtime option"
  rc_server_now :: unixtime

record auto_refresh =
  ar_cell :: "refresh_config cell"
  ar_session :: session_manager
  ar_running :: bool
  ar_wake :: bool
  ar_default_interval :: int
  ar_logs :: bool
  ar_log :: "log_input list"
  ar_last_logged :: string
  ar_last_apple_logged :: string
  ar_apple_target :: gotime
  ar_apple_checked :: gotime

definition minimum_refresh_interval :: int where "minimum_refresh_interval = 300"
definition default_refresh_interval :: int where "default_refresh_interval = 600"
definition refresh_idle_poll :: duration where "refresh_idle_poll = 30 * second"
definition refresh_minimum_wake :: duration where "refresh_minimum_wake = 100000000"
definition keep_alive_jitter :: int where "keep_alive_jitter = 15"

text \<open>\<open>NewAutoRefresh\<close>, given what \<open>strconv.Atoi\<close> makes of the environment variable.\<close>

definition configured_interval :: "int option \<Rightarrow> int" where
  "configured_interval env =
     (case env of
        Some v \<Rightarrow> (if v > 0 then max minimum_refresh_interval v else default_refresh_interval)
      | None \<Rightarrow> default_refresh_interval)"

definition refresh_now :: "auto_refresh \<Rightarrow> unixtime" where
  "refresh_now s = unix_now (ar_session s)"

definition fresh_refresh_config :: "int \<Rightarrow> refresh_config" where
  "fresh_refresh_config interval = \<lparr>rc_enabled = True, rc_interval = interval, rc_last_run_at = None,
     rc_last_success_at = None, rc_last_disabled_at = None, rc_last_error = None, rc_disabled_reason = None,
     rc_worker_running = False, rc_remaining = None, rc_next_run_at = None, rc_server_now = 0\<rparr>"

definition refresh_load :: "auto_refresh \<Rightarrow> refresh_config \<times> auto_refresh" where
  "refresh_load s =
     (let (d, k) = cell_read (ar_cell s);
          c = (case d of
                 Some c \<Rightarrow> c
               | None \<Rightarrow> fresh_refresh_config (ar_default_interval s))
      in (if rc_interval c < minimum_refresh_interval then c\<lparr>rc_interval := minimum_refresh_interval\<rparr> else c,
          s\<lparr>ar_cell := k\<rparr>))"

definition persistent_auto_refresh :: "refresh_config \<Rightarrow> refresh_config" where
  "persistent_auto_refresh c = c\<lparr>rc_worker_running := False, rc_remaining := None, rc_next_run_at := None,
     rc_server_now := 0\<rparr>"

definition refresh_save :: "refresh_config \<Rightarrow> auto_refresh \<Rightarrow> bool \<times> auto_refresh" where
  "refresh_save c s = (let (ok, k) = cell_write (persistent_auto_refresh c) (ar_cell s) in (ok, s\<lparr>ar_cell := k\<rparr>))"

definition refresh_log :: "log_input \<Rightarrow> auto_refresh \<Rightarrow> auto_refresh" where
  "refresh_log e s = s\<lparr>ar_log := ar_log s @ [e]\<rparr>"

section \<open>The keep-alive time\<close>

definition jitter_spread :: duration where
  "jitter_spread = apple_keep_alive_interval * keep_alive_jitter div 100"

text \<open>\<open>appleKeepAliveDueAtLocked\<close>: a new target is drawn only when the anchor has changed.\<close>

definition keep_alive_due :: "int \<Rightarrow> auto_refresh \<Rightarrow> gotime option \<times> auto_refresh" where
  "keep_alive_due offset s =
     (let now = sm_now (ar_session s);
          (plan, sm) = keep_alive_schedule (ar_session s);
          s1 = s\<lparr>ar_session := sm\<rparr>
      in case plan of
           None \<Rightarrow> (None, s1\<lparr>ar_apple_target := 0, ar_apple_checked := 0\<rparr>)
         | Some (checked, deadline) \<Rightarrow>
             (let s2 = (if ar_apple_target s = 0 \<or> ar_apple_checked s \<noteq> checked
                        then s1\<lparr>ar_apple_checked := checked,
                                ar_apple_target := (if checked \<noteq> 0
                                  then checked + (apple_keep_alive_interval + offset) else now)\<rparr>
                        else s1)
              in (Some (if deadline \<noteq> 0 \<and> deadline < ar_apple_target s2 then deadline else ar_apple_target s2), s2)))"

section \<open>Status and configuration\<close>

definition refresh_status :: "int \<Rightarrow> auto_refresh \<Rightarrow> refresh_config \<times> auto_refresh" where
  "refresh_status offset s =
     (let (c, s1) = refresh_load s;
          now = refresh_now s;
          c = c\<lparr>rc_server_now := now, rc_worker_running := ar_running s\<rparr>
      in if \<not> rc_enabled c then (c, s1)
         else
           let next = (case rc_last_run_at c of None \<Rightarrow> now | Some t \<Rightarrow> t) + of_int (rc_interval c);
               (due, s2) = keep_alive_due offset s1;
               next = (case due of
                         None \<Rightarrow> next
                       | Some d \<Rightarrow> (if unix_float d \<le> now then now
                                    else if unix_float d < next then unix_float d else next))
           in (c\<lparr>rc_next_run_at := Some next, rc_remaining := Some (max 0 (go_trunc (next - now + 1 / 2)))\<rparr>, s2))"

definition refresh_update :: "bool option \<Rightarrow> int option \<Rightarrow> auto_refresh \<Rightarrow> refresh_config option \<times> auto_refresh" where
  "refresh_update enabled interval s =
     (let (c, s1) = refresh_load s;
          c = (case enabled of
                 None \<Rightarrow> c
               | Some True \<Rightarrow> c\<lparr>rc_enabled := True, rc_last_disabled_at := None, rc_disabled_reason := None,
                               rc_last_error := None\<rparr>
               | Some False \<Rightarrow> c\<lparr>rc_enabled := False\<rparr>);
          c = (case interval of None \<Rightarrow> c | Some v \<Rightarrow> c\<lparr>rc_interval := max minimum_refresh_interval v\<rparr>);
          (ok, s2) = refresh_save c s1
      in if ok then (Some c, s2\<lparr>ar_wake := True\<rparr>) else (None, s2))"

section \<open>A check\<close>

definition should_disable_auto_refresh :: "session_state \<Rightarrow> channel_status \<Rightarrow> bool" where
  "should_disable_auto_refresh st account \<longleftrightarrow>
     ss_needs_reauth st \<and> (\<not> cs_configured account \<or> cs_requires_reauth account)"

definition apple_reauth :: "channel_status \<Rightarrow> bool" where
  "apple_reauth a \<longleftrightarrow> cs_configured a \<and> cs_requires_reauth a"

definition apple_degraded :: "channel_status \<Rightarrow> bool" where
  "apple_degraded a \<longleftrightarrow> cs_configured a \<and> cs_state a = ''degraded''"

definition check_healthy :: "session_state \<Rightarrow> channel_status \<Rightarrow> bool" where
  "check_healthy st a \<longleftrightarrow> ss_valid st \<and> \<not> ss_needs_reauth st \<and> \<not> apple_reauth a \<and> \<not> apple_degraded a"

text \<open>The effect of a check on the configuration.\<close>

definition checked_config ::
  "unixtime \<Rightarrow> session_state \<Rightarrow> channel_status \<Rightarrow> refresh_config \<Rightarrow> refresh_config" where
  "checked_config now st a c =
     (let c = c\<lparr>rc_last_run_at := Some now\<rparr>
      in if should_disable_auto_refresh st a then
           (let reason = (case ss_last_error st of Some e \<Rightarrow> e | None \<Rightarrow> ''session requires re-import'')
            in c\<lparr>rc_enabled := False, rc_last_disabled_at := Some now, rc_disabled_reason := Some reason,
                 rc_last_error := Some reason\<rparr>)
         else if check_healthy st a then
           c\<lparr>rc_last_success_at := Some now, rc_last_error := None, rc_disabled_reason := None\<rparr>
         else
           (let message = (if apple_reauth a \<or> apple_degraded a then cs_message a else []);
                message = (if message = [] then (case ss_last_error st of Some e \<Rightarrow> e | None \<Rightarrow> []) else message)
            in if message \<noteq> [] then c\<lparr>rc_last_error := Some message\<rparr> else c))"

definition check_entry :: "string \<Rightarrow> session_state \<Rightarrow> channel_status \<Rightarrow> log_input" where
  "check_entry source st a =
     (let base = \<lparr>lg_category = ''session'', lg_action = ''session.auto_refresh.check'', lg_level = ''info'',
                  lg_outcome = ''success'', lg_summary = sum_check_ok, lg_source = source, lg_detail = [], lg_meta = []\<rparr>
      in if apple_degraded a \<and> ss_valid st \<and> \<not> ss_needs_reauth st \<and> \<not> apple_reauth a then
           base\<lparr>lg_level := ''warning'', lg_outcome := ''failure'', lg_summary := sum_check_degraded,
                lg_detail := cs_message a\<rparr>
         else if \<not> check_healthy st a then
           (let detail = (case ss_last_error st of Some e \<Rightarrow> e | None \<Rightarrow> []);
                detail = (if detail = [] \<and> (apple_reauth a \<or> apple_degraded a) then cs_message a else detail)
            in base\<lparr>lg_level := ''error'', lg_outcome := ''failure'', lg_summary := sum_check_expired,
                    lg_detail := detail\<rparr>)
         else base)"

text \<open>\<open>run\<close>: \<^const>\<open>None\<close> when the configuration could not be stored.\<close>

definition refresh_run :: "string \<Rightarrow> auto_refresh \<Rightarrow> refresh_config option \<times> auto_refresh" where
  "refresh_run source s =
     (let (st, login, sm) = check_session (ar_session s);
          a = ls_account login;
          s1 = s\<lparr>ar_session := sm, ar_wake := True\<rparr>;
          (c, s2) = refresh_load s1;
          c = checked_config (refresh_now s1) st a c;
          (ok, s3) = refresh_save c s2
      in if \<not> ok then (None, s3)
         else
           let e = check_entry source st a
           in if ar_logs s3 \<and> source = ''background'' \<and> ar_last_logged s3 \<noteq> lg_outcome e
              then (Some c, (refresh_log e s3)\<lparr>ar_last_logged := lg_outcome e\<rparr>) else (Some c, s3))"

definition record_keep_alive_result :: "go_error option \<Rightarrow> auto_refresh \<Rightarrow> auto_refresh" where
  "record_keep_alive_result err s =
     (let e = (case err of
                 None \<Rightarrow> \<lparr>lg_category = ''session'', lg_action = ''session.apple_account.keepalive'', lg_level = ''info'',
                         lg_outcome = ''success'', lg_summary = sum_keepalive_ok, lg_source = ''background'',
                         lg_detail = [], lg_meta = []\<rparr>
               | Some x \<Rightarrow> \<lparr>lg_category = ''session'', lg_action = ''session.apple_account.keepalive'',
                           lg_level = (if apple_account_requires_reauth x then ''error'' else ''warning''),
                           lg_outcome = ''failure'',
                           lg_summary = (if apple_account_requires_reauth x then sum_keepalive_expired
                                         else sum_keepalive_failed),
                           lg_source = ''background'', lg_detail = safe_error_text x, lg_meta = []\<rparr>);
          key = ''apple:'' @ lg_outcome e @ '':'' @ lg_level e;
          (c, s1) = refresh_load s;
          c = (if err = None
               then c\<lparr>rc_last_success_at := Some (refresh_now s), rc_last_error := None, rc_disabled_reason := None\<rparr>
               else c\<lparr>rc_last_error := Some (lg_detail e)\<rparr>);
          (_, s2) = refresh_save c s1;
          s3 = s2\<lparr>ar_wake := True\<rparr>
      in if ar_logs s3 \<and> ar_last_apple_logged s3 \<noteq> key
         then (refresh_log e s3)\<lparr>ar_last_apple_logged := key\<rparr> else s3)"

section \<open>The worker\<close>

definition refresh_start :: "auto_refresh \<Rightarrow> auto_refresh" where
  "refresh_start s = (if ar_running s then s else s\<lparr>ar_running := True\<rparr>)"

definition refresh_stop :: "auto_refresh \<Rightarrow> auto_refresh" where
  "refresh_stop s = (if \<not> ar_running s then s else s\<lparr>ar_running := False\<rparr>)"

text \<open>The last part of \<open>nextWakeDelay\<close>, from the next deadline on.\<close>

definition delay_to :: "unixtime option \<Rightarrow> unixtime \<Rightarrow> duration" where
  "delay_to next now =
     (case next of
        None \<Rightarrow> refresh_idle_poll
      | Some t \<Rightarrow>
          (if t - now \<le> seconds_of refresh_minimum_wake then refresh_minimum_wake
           else if t - now \<ge> seconds_of refresh_idle_poll then refresh_idle_poll
           else float_duration (t - now)))"

definition refresh_wake_delay :: "int \<Rightarrow> auto_refresh \<Rightarrow> duration \<times> auto_refresh" where
  "refresh_wake_delay offset s =
     (let (c, s1) = refresh_load s
      in if \<not> rc_enabled c then (delay_to None (refresh_now s), s1)
         else case rc_last_run_at c of
           None \<Rightarrow> (refresh_minimum_wake, s1)
         | Some t \<Rightarrow>
             (let next = t + of_int (rc_interval c);
                  (due, s2) = keep_alive_due offset s1;
                  next = (case due of Some d \<Rightarrow> (if unix_float d < next then unix_float d else next) | None \<Rightarrow> next)
              in (delay_to (Some next) (refresh_now s), s2)))"

definition refresh_run_if_due :: "int \<Rightarrow> auto_refresh \<Rightarrow> auto_refresh" where
  "refresh_run_if_due offset s =
     (let (c, s1) = refresh_load s;
          now = sm_now (ar_session s);
          web_due = (case rc_last_run_at c of None \<Rightarrow> True | Some t \<Rightarrow> unix_float now \<ge> t + of_int (rc_interval c));
          (due, s2) = keep_alive_due offset s1
      in if \<not> rc_enabled c then s2
         else if web_due then snd (refresh_run ''background'' s2)
         else case due of
           Some d \<Rightarrow>
             (if d \<le> now then
                let (err, sm) = keep_alive_account (ar_session s2)
                in record_keep_alive_result err (s2\<lparr>ar_session := sm\<rparr>)
              else s2)
         | None \<Rightarrow> s2)"

section \<open>When the refresher turns itself off\<close>

lemma refresh_load_ok:
  "cell_ok (ar_cell s) \<Longrightarrow> snd (refresh_load s) = s"
  by (simp add: refresh_load_def cell_read_ok Let_def)

lemma refresh_load_frame [simp]:
  "ar_session (snd (refresh_load s)) = ar_session s" "ar_apple_target (snd (refresh_load s)) = ar_apple_target s"
  "ar_apple_checked (snd (refresh_load s)) = ar_apple_checked s" "ar_running (snd (refresh_load s)) = ar_running s"
  by (simp_all add: refresh_load_def split_beta Let_def)

lemma refresh_load_interval: "minimum_refresh_interval \<le> rc_interval (fst (refresh_load s))"
  by (simp add: refresh_load_def split_beta Let_def)

text \<open>
  A check turns the refresher off exactly when the web session needs a new import and there is no
  Apple Account session that could be repaired in its place; a degraded Apple Account alone never
  does. A healthy check clears the last error; the time of the check is always recorded, and the
  check interval stays at least five minutes.
\<close>

theorem check_disables_only_without_channel:
  assumes "cell_ok (ar_cell s)" and "rc_enabled (fst (refresh_load s))"
    and "check_session (ar_session s) = (st, login, sm)"
  shows "\<exists>c. fst (refresh_run source s) = Some c \<and>
    cell_doc (ar_cell (snd (refresh_run source s))) = Some (persistent_auto_refresh c) \<and>
    (rc_enabled c \<longleftrightarrow> \<not> (ss_needs_reauth st \<and>
       (\<not> cs_configured (ls_account login) \<or> cs_requires_reauth (ls_account login)))) \<and>
    (check_healthy st (ls_account login) \<longrightarrow> rc_last_error c = None) \<and>
    rc_last_run_at c = Some (unix_now sm) \<and> minimum_refresh_interval \<le> rc_interval c"
proof -
  define s1 where "s1 = s\<lparr>ar_session := sm, ar_wake := True\<rparr>"
  have l: "refresh_load s1 = (fst (refresh_load s), s1)" "cell_ok (ar_cell s1)" "refresh_now s1 = unix_now sm"
    using assms(1)
    by (cases "cell_doc (ar_cell s)"; simp add: s1_def refresh_load_def cell_read_ok Let_def refresh_now_def)+
  let ?c = "checked_config (unix_now sm) st (ls_account login) (fst (refresh_load s))"
  have r: "fst (refresh_run source s) = Some ?c"
    "cell_doc (ar_cell (snd (refresh_run source s))) = Some (persistent_auto_refresh ?c)"
    using l assms(3)
    by (simp_all add: refresh_run_def s1_def [symmetric] refresh_save_def cell_write_ok refresh_log_def Let_def)
  have "rc_interval ?c = rc_interval (fst (refresh_load s))" "rc_last_run_at ?c = Some (unix_now sm)"
    by (simp_all add: checked_config_def Let_def)
  then show ?thesis
    using r assms(2) refresh_load_interval [of s]
    by (auto simp: checked_config_def should_disable_auto_refresh_def check_healthy_def apple_reauth_def Let_def)
qed

section \<open>The keep-alive time\<close>

text \<open>
  The next keep-alive of the Apple Account session falls within 15 percent of three minutes after
  the last check or attempt, or earlier if the session is about to expire; once drawn, the time does
  not change until the session is checked or attempted again, whatever is drawn later.
\<close>

theorem keep_alive_time_stable:
  assumes "\<bar>offset\<bar> \<le> jitter_spread" and "0 < checked" and "ar_apple_checked s \<noteq> checked"
    and "cell_ok (sm_account (ar_session s))"
    and "fst (keep_alive_schedule (ar_session s)) = Some (checked, deadline)"
  shows "\<exists>due. fst (keep_alive_due offset s) = Some due \<and>
    due \<le> checked + 207 * second \<and> (deadline = 0 \<or> due \<le> deadline) \<and>
    (due = deadline \<or> checked + 153 * second \<le> due) \<and>
    (\<forall>other. fst (keep_alive_due other (snd (keep_alive_due offset s))) = Some due)"
proof -
  have sm: "snd (keep_alive_schedule (ar_session s)) = ar_session s"
    using assms(4) by (simp add: keep_alive_schedule_def read_account_def cell_read_ok Let_def)
  then have p: "keep_alive_schedule (ar_session s) = (Some (checked, deadline), ar_session s)"
    using assms(5) by (metis prod.collapse)
  let ?t = "checked + (apple_keep_alive_interval + offset)"
  let ?s = "s\<lparr>ar_apple_checked := checked, ar_apple_target := ?t\<rparr>"
  let ?due = "if deadline \<noteq> 0 \<and> deadline < ?t then deadline else ?t"
  have k: "keep_alive_due offset s = (Some ?due, ?s)"
    using assms(2,3) by (simp add: keep_alive_due_def p Let_def)
  have t: "153 * second \<le> apple_keep_alive_interval + offset" "apple_keep_alive_interval + offset \<le> 207 * second"
    using assms(1) by (simp_all add: jitter_spread_def apple_keep_alive_interval_def keep_alive_jitter_def minute_def second_def)
  then have "?t \<noteq> 0" using assms(2) by (simp add: second_def)
  then have "fst (keep_alive_due other ?s) = Some ?due" for other
    by (simp add: keep_alive_due_def p Let_def)
  then show ?thesis using k t by auto
qed

section \<open>The timer\<close>

interpretation refresh_timer: wake_timer "\<lambda>t. t" delay_to refresh_idle_poll refresh_minimum_wake
  by unfold_locales
    (auto simp: delay_to_def refresh_idle_poll_def refresh_minimum_wake_def second_def)

text \<open>
  The refresher wakes at least every thirty seconds and never busier than every 100 milliseconds;
  while it is enabled it does not sleep past the end of the configured interval, nor past the
  keep-alive time, by more than those 100 milliseconds.
\<close>

theorem refresh_wake_sound:
  "refresh_minimum_wake \<le> fst (refresh_wake_delay offset s) \<and> fst (refresh_wake_delay offset s) \<le> refresh_idle_poll \<and>
   (\<forall>t. rc_enabled (fst (refresh_load s)) \<and> rc_last_run_at (fst (refresh_load s)) = Some t \<longrightarrow>
      refresh_now s + seconds_of (fst (refresh_wake_delay offset s)) \<le>
        max (t + of_int (rc_interval (fst (refresh_load s)))) (refresh_now s + seconds_of refresh_minimum_wake) \<and>
      (\<forall>d. fst (keep_alive_due offset (snd (refresh_load s))) = Some d \<longrightarrow>
        refresh_now s + seconds_of (fst (refresh_wake_delay offset s)) \<le>
          max (unix_float d) (refresh_now s + seconds_of refresh_minimum_wake)))"
proof -
  have b: "refresh_minimum_wake \<le> delay_to n (refresh_now s) \<and> delay_to n (refresh_now s) \<le> refresh_idle_poll" for n
    using refresh_timer.delay_bounds .
  have o: "refresh_now s + seconds_of (delay_to (Some n) (refresh_now s)) \<le>
      max n (refresh_now s + seconds_of refresh_minimum_wake)" for n
    using refresh_timer.no_oversleep [of "Some n" n "refresh_now s"] by simp
  have mi: "refresh_minimum_wake \<le> refresh_idle_poll" by (simp add: refresh_minimum_wake_def refresh_idle_poll_def second_def)
  have "refresh_minimum_wake \<le> fst (refresh_wake_delay offset s) \<and> fst (refresh_wake_delay offset s) \<le> refresh_idle_poll"
    using b mi by (simp add: refresh_wake_delay_def Let_def split_beta split: option.splits)
  moreover have "refresh_now s + seconds_of (fst (refresh_wake_delay offset s)) \<le>
        max (t + of_int (rc_interval (fst (refresh_load s)))) (refresh_now s + seconds_of refresh_minimum_wake) \<and>
      (\<forall>d. fst (keep_alive_due offset (snd (refresh_load s))) = Some d \<longrightarrow>
        refresh_now s + seconds_of (fst (refresh_wake_delay offset s)) \<le>
          max (unix_float d) (refresh_now s + seconds_of refresh_minimum_wake))"
    if "rc_enabled (fst (refresh_load s))" "rc_last_run_at (fst (refresh_load s)) = Some t" for t
  proof -
    let ?n0 = "t + of_int (rc_interval (fst (refresh_load s)))"
    let ?n = "case fst (keep_alive_due offset (snd (refresh_load s))) of
        Some d \<Rightarrow> (if unix_float d < ?n0 then unix_float d else ?n0) | None \<Rightarrow> ?n0"
    have eq: "fst (refresh_wake_delay offset s) = delay_to (Some ?n) (refresh_now s)"
      using that by (simp add: refresh_wake_delay_def Let_def split_beta)
    have mono: "refresh_now s + seconds_of (delay_to (Some ?n) (refresh_now s)) \<le>
        max m (refresh_now s + seconds_of refresh_minimum_wake)" if "?n \<le> m" for m
      using o [of ?n] that by (auto simp: le_max_iff_disj)
    show ?thesis unfolding eq by (intro conjI allI impI mono) (auto split: option.splits)
  qed
  ultimately show ?thesis by blast
qed

section \<open>Witnesses\<close>

definition example_refresh :: auto_refresh where
  "example_refresh = \<lparr>ar_cell = full \<lparr>rc_enabled = True, rc_interval = 600, rc_last_run_at = Some 5,
       rc_last_success_at = None, rc_last_disabled_at = None, rc_last_error = None, rc_disabled_reason = None,
       rc_worker_running = False, rc_remaining = None, rc_next_run_at = None, rc_server_now = 0\<rparr>,
     ar_session = example_manager\<lparr>sm_account := full (example_account\<lparr>aa_last_checked_at := 62999999999 * second\<rparr>)\<rparr>,
     ar_running = True, ar_wake = False, ar_default_interval = 600, ar_logs = False, ar_log = [],
     ar_last_logged = [], ar_last_apple_logged = [], ar_apple_target = 0, ar_apple_checked = 0\<rparr>"

lemma example_refresh_load:
  "rc_enabled (fst (refresh_load example_refresh))" "rc_last_run_at (fst (refresh_load example_refresh)) = Some 5"
  "rc_interval (fst (refresh_load example_refresh)) = 600" "cell_ok (ar_cell example_refresh)"
  "cell_ok (sm_account (ar_session example_refresh))"
  by (simp_all add: refresh_load_def example_refresh_def cell_read_ok minimum_refresh_interval_def)

theorem check_disables_only_without_channel_witness:
  "\<exists>c. fst (refresh_run ''user'' example_refresh) = Some c \<and> minimum_refresh_interval \<le> rc_interval c"
proof -
  obtain st login sm where "check_session (ar_session example_refresh) = (st, login, sm)" by (metis surj_pair)
  then show ?thesis
    using check_disables_only_without_channel [of example_refresh st login sm "''user''"] example_refresh_load by blast
qed

theorem keep_alive_time_stable_witness:
  "\<exists>due. fst (keep_alive_due 7 example_refresh) = Some due \<and>
     fst (keep_alive_due (- 9) (snd (keep_alive_due 7 example_refresh))) = Some due"
proof -
  have r: "\<not> requires_reauth (example_account\<lparr>aa_last_checked_at := 62999999999 * second\<rparr>)"
    by (simp add: requires_reauth_def example_account_def)
  obtain dl where p: "fst (keep_alive_schedule (ar_session example_refresh)) = Some (62999999999 * second, dl)"
    by (simp add: keep_alive_schedule_def example_refresh_def read_account_def cell_read_ok example_account_def
        requires_reauth_def blank_account_def second_def)
  show ?thesis
    using keep_alive_time_stable [OF _ _ _ _ p, of 7] example_refresh_load
    by (auto simp: jitter_spread_def apple_keep_alive_interval_def keep_alive_jitter_def minute_def second_def
        example_refresh_def)
qed

theorem refresh_wake_sound_witness:
  "refresh_now example_refresh + seconds_of (fst (refresh_wake_delay 3 example_refresh)) \<le>
     max (5 + 600) (refresh_now example_refresh + seconds_of refresh_minimum_wake)"
  using refresh_wake_sound [of 3 example_refresh] example_refresh_load by simp

end
