(* ===== verification/Share.thy ===== *)
theory Share
  imports Http Storage GoSort
begin

text \<open>
  Share links (\<open>modules/mail/backend/share_links.go\<close>): a link gives the holder of its token read
  access to one address; a session is a browser's short-lived ticket for a link. Both are stored by
  digest only. \<open>ShareLinkStore\<close> has two back ends, a JSON document and two Postgres tables, and
  every method branches on which one is configured; the model has the same shape.

  SHA-256 (as hexadecimal text) is the argument \<open>sha\<close>; random tokens and the nanosecond ids are
  inputs. A \<open>clock\<close> is a reading of the two clocks involved, the program's and the database's. The
  database is its two tables, in insertion order, the marker of the legacy import, and a script of
  the coming statements that fail; \<open>db_column\<close> is what a timestamp column keeps of a time.
\<close>

section \<open>Data\<close>

record share_link =
  sl_id :: string
  sl_alias :: string
  sl_hash :: string
  sl_created :: unixtime
  sl_expires :: "unixtime option"
  sl_last_used :: "unixtime option"
  sl_revoked :: "unixtime option"

record share_session =
  ss_hash :: string
  ss_link :: string
  ss_expires :: unixtime

record share_state =
  sh_links :: "share_link list"
  sh_sessions :: "share_session list"

text \<open>What the state file holds: the current layout, a bare list of links of an old release, or
  something else.\<close>

datatype share_doc = StateDoc share_state | LinkList "share_link list" | OtherDoc

record link_row =
  lr_id :: string
  lr_account :: string
  lr_alias :: string
  lr_hash :: string
  lr_created :: gotime
  lr_expires :: "gotime option"
  lr_last_used :: "gotime option"
  lr_revoked :: "gotime option"

record session_row =
  sr_hash :: string
  sr_account :: string
  sr_link :: string
  sr_expires :: gotime

record share_db =
  link_table :: "link_row list"
  session_table :: "session_row list"
  stmt_faults :: "bool list"
  db_column :: "gotime \<Rightarrow> gotime"
  import_marker :: bool
  state_row :: "share_doc option"

record share_store =
  sh_account :: string
  sh_file :: "share_doc cell"
  sh_db :: "share_db option"

record clock =
  ck_app :: unixtime
  ck_db :: gotime

definition empty_share_state :: share_state where
  "empty_share_state = \<lparr>sh_links = [], sh_sessions = []\<rparr>"

definition share_alias :: "string \<Rightarrow> string" where
  "share_alias v = to_lower (trim_space v)"

section \<open>Times in the database\<close>

definition time_from_unix :: "unixtime \<Rightarrow> gotime" where
  "time_from_unix v =
     (let seconds = go_trunc v; nanos = go_trunc ((v - of_int seconds) * 1000000000)
      in (unix_epoch + seconds) * second + nanos)"

definition sql_time :: "share_db \<Rightarrow> unixtime \<Rightarrow> gotime" where
  "sql_time db v = db_column db (time_from_unix v)"

definition scan_share_link :: "link_row \<Rightarrow> share_link" where
  "scan_share_link r =
     \<lparr>sl_id = lr_id r, sl_alias = lr_alias r, sl_hash = lr_hash r, sl_created = unix_float (lr_created r),
      sl_expires = map_option unix_float (lr_expires r), sl_last_used = map_option unix_float (lr_last_used r),
      sl_revoked = map_option unix_float (lr_revoked r)\<rparr>"

definition link_to_row :: "share_db \<Rightarrow> string \<Rightarrow> share_link \<Rightarrow> link_row" where
  "link_to_row db acc l =
     \<lparr>lr_id = sl_id l, lr_account = acc, lr_alias = sl_alias l, lr_hash = sl_hash l,
      lr_created = sql_time db (sl_created l), lr_expires = map_option (sql_time db) (sl_expires l),
      lr_last_used = map_option (sql_time db) (sl_last_used l),
      lr_revoked = map_option (sql_time db) (sl_revoked l)\<rparr>"

definition session_to_row :: "share_db \<Rightarrow> string \<Rightarrow> share_session \<Rightarrow> session_row" where
  "session_to_row db acc s =
     \<lparr>sr_hash = ss_hash s, sr_account = acc, sr_link = ss_link s, sr_expires = sql_time db (ss_expires s)\<rparr>"

section \<open>Statements\<close>

text \<open>Whether the next statement reaches the database.\<close>

definition sql_stmt :: "share_db \<Rightarrow> bool \<times> share_db" where
  "sql_stmt db = (case stmt_faults db of [] \<Rightarrow> (True, db) | f # fs \<Rightarrow> (\<not> f, db\<lparr>stmt_faults := fs\<rparr>))"

definition rollback :: "share_db \<Rightarrow> share_db \<Rightarrow> share_db" where
  "rollback db later = db\<lparr>stmt_faults := stmt_faults later\<rparr>"

text \<open>The constraints of the tables: the primary key and the unique digest of a link; the primary
  key of a session and its reference to a link.\<close>

definition link_conflict :: "share_db \<Rightarrow> link_row \<Rightarrow> bool" where
  "link_conflict db r \<longleftrightarrow> (\<exists>x\<in>set (link_table db). lr_id x = lr_id r \<or> lr_hash x = lr_hash r)"

definition session_conflict :: "share_db \<Rightarrow> session_row \<Rightarrow> bool" where
  "session_conflict db r \<longleftrightarrow> (\<exists>x\<in>set (session_table db). sr_hash x = sr_hash r)"

definition link_exists :: "share_db \<Rightarrow> string \<Rightarrow> bool" where
  "link_exists db i \<longleftrightarrow> (\<exists>x\<in>set (link_table db). lr_id x = i)"

definition insert_link :: "link_row \<Rightarrow> share_db \<Rightarrow> bool \<times> share_db" where
  "insert_link r db =
     (let (ok, db1) = sql_stmt db
      in if \<not> ok \<or> link_conflict db1 r then (False, db1)
         else (True, db1\<lparr>link_table := link_table db1 @ [r]\<rparr>))"

definition insert_session :: "session_row \<Rightarrow> share_db \<Rightarrow> bool \<times> share_db" where
  "insert_session r db =
     (let (ok, db1) = sql_stmt db
      in if \<not> ok \<or> session_conflict db1 r \<or> \<not> link_exists db1 (sr_link r) then (False, db1)
         else (True, db1\<lparr>session_table := session_table db1 @ [r]\<rparr>))"

text \<open>The same with \<open>ON CONFLICT DO NOTHING\<close>; a broken reference is still an error.\<close>

definition insert_link_once :: "link_row \<Rightarrow> share_db \<Rightarrow> bool \<times> share_db" where
  "insert_link_once r db =
     (let (ok, db1) = sql_stmt db
      in if \<not> ok then (False, db1)
         else if link_conflict db1 r then (True, db1)
         else (True, db1\<lparr>link_table := link_table db1 @ [r]\<rparr>))"

definition insert_session_once :: "session_row \<Rightarrow> share_db \<Rightarrow> bool \<times> share_db" where
  "insert_session_once r db =
     (let (ok, db1) = sql_stmt db
      in if \<not> ok then (False, db1)
         else if session_conflict db1 r then (True, db1)
         else if \<not> link_exists db1 (sr_link r) then (False, db1)
         else (True, db1\<lparr>session_table := session_table db1 @ [r]\<rparr>))"

fun run_all :: "('r \<Rightarrow> share_db \<Rightarrow> bool \<times> share_db) \<Rightarrow> 'r list \<Rightarrow> share_db \<Rightarrow> bool \<times> share_db" where
  "run_all f [] db = (True, db)"
| "run_all f (r # rs) db = (case f r db of (False, db1) \<Rightarrow> (False, db1) | (True, db1) \<Rightarrow> run_all f rs db1)"

section \<open>The state file\<close>

definition share_load :: "share_doc cell \<Rightarrow> share_state \<times> share_doc cell" where
  "share_load c =
     (case cell_read c of
        (Some (StateDoc st), c1) \<Rightarrow> (st, c1)
      | (_, c1) \<Rightarrow>
          (case cell_read c1 of
             (Some (LinkList ls), c2) \<Rightarrow> (\<lparr>sh_links = ls, sh_sessions = []\<rparr>, c2)
           | (_, c2) \<Rightarrow> (empty_share_state, c2)))"

definition share_save :: "share_state \<Rightarrow> share_doc cell \<Rightarrow> bool \<times> share_doc cell" where
  "share_save st c = cell_write (StateDoc st) c"

text \<open>
  \<open>importLegacy\<close>: what a former JSON store held is copied into the tables, once. The document is
  the row of the general state table or, without one, the file; the argument tells what reading the
  file gives: \<^const>\<open>None\<close> for a file that does not exist, an error for one that cannot be read.
\<close>

definition import_rows :: "string \<Rightarrow> share_state \<Rightarrow> share_db \<Rightarrow> bool \<times> share_db" where
  "import_rows acc st db =
     (let (begun, db1) = sql_stmt db in
      if \<not> begun then (False, db1)
      else
        (case run_all insert_link_once (map (link_to_row db acc) (sh_links st)) db1 of
           (False, db2) \<Rightarrow> (False, rollback db db2)
         | (True, db2) \<Rightarrow>
             (case run_all insert_session_once (map (session_to_row db acc) (sh_sessions st)) db2 of
                (False, db3) \<Rightarrow> (False, rollback db db3)
              | (True, db3) \<Rightarrow>
                  (let (m, db4) = sql_stmt db3; (d, db5) = sql_stmt db4; (c, db6) = sql_stmt db5
                   in if \<not> m then (False, rollback db db4)
                      else if \<not> d then (False, rollback db db5)
                      else if \<not> c then (False, rollback db db6)
                      else (True, db6\<lparr>import_marker := True, state_row := None\<rparr>)))))"

definition import_legacy :: "string \<Rightarrow> (go_error + share_doc option) \<Rightarrow> share_db \<Rightarrow> bool \<times> share_db" where
  "import_legacy acc disk_file db =
     (let (ok, db1) = sql_stmt db in
      if \<not> ok then (False, db1)
      else if import_marker db1 then (True, db1)
      else
        (let (ok2, db2) = sql_stmt db1 in
         if \<not> ok2 then (False, db2)
         else
           (case (case state_row db2 of Some d \<Rightarrow> Inr (Some d) | None \<Rightarrow> disk_file) of
              Inl e \<Rightarrow> (False, db2)
            | Inr None \<Rightarrow> import_rows acc empty_share_state db2
            | Inr (Some (StateDoc st)) \<Rightarrow> import_rows acc st db2
            | Inr (Some (LinkList ls)) \<Rightarrow> import_rows acc (empty_share_state\<lparr>sh_links := ls\<rparr>) db2
            | Inr (Some OtherDoc) \<Rightarrow> (False, db2))))"

section \<open>Creating links\<close>

definition query_escape :: "string \<Rightarrow> string" where
  "query_escape s = concat (map (\<lambda>c. if is_alnum c \<or> c \<in> set ''-_.~'' then [c]
     else if c = CHR '' '' then ''+''
     else [CHR ''%'', hex_digit (of_char c div 16), hex_digit (of_char c mod 16)]) s)"

text \<open>An entry of the answer.\<close>

record share_item =
  si_id :: string
  si_alias :: string
  si_created :: unixtime
  si_expires :: "unixtime option"
  si_url :: string
  si_alias_created :: "unixtime option"

text \<open>The links of a batch with their tokens. An input is an address and its creation time; the
  entropy of the k-th entry is the token (or the generator's error) and the id. The text of a storage error
  is not modelled.\<close>

fun build_links ::
  "(string \<Rightarrow> string) \<Rightarrow> unixtime \<Rightarrow> int option \<Rightarrow> (nat \<Rightarrow> (go_error + string) \<times> string) \<Rightarrow> nat \<Rightarrow>
   (string \<times> unixtime) list \<Rightarrow> go_error + (share_link \<times> string) list" where
  "build_links sha now expires_in entropy k [] = Inr []"
| "build_links sha now expires_in entropy k (i # inputs) =
     (let alias = share_alias (fst i); (token, ident) = entropy k in
      if alias = [] then Inl (Plain ''alias is required'')
      else
        (case token of
           Inl e \<Rightarrow> Inl e
         | Inr t \<Rightarrow>
             (case build_links sha now expires_in entropy (Suc k) inputs of
                Inl e \<Rightarrow> Inl e
              | Inr rest \<Rightarrow>
                  Inr ((\<lparr>sl_id = ident, sl_alias = alias, sl_hash = sha t, sl_created = now,
                         sl_expires = map_option (\<lambda>d. now + of_int d) expires_in,
                         sl_last_used = None, sl_revoked = None\<rparr>, t) # rest))))"

definition share_item_of :: "share_link \<times> string \<Rightarrow> string \<times> unixtime \<Rightarrow> share_item" where
  "share_item_of lt i =
     \<lparr>si_id = sl_id (fst lt), si_alias = sl_alias (fst lt), si_created = sl_created (fst lt),
      si_expires = sl_expires (fst lt),
      si_url = ''/mail?email='' @ query_escape (sl_alias (fst lt)) @ ''&token='' @ query_escape (snd lt),
      si_alias_created = (if 0 < snd i then Some (snd i) else None)\<rparr>"

definition json_add_links :: "share_link list \<Rightarrow> share_doc cell \<Rightarrow> bool \<times> share_doc cell" where
  "json_add_links links c =
     (let (st, c1) = share_load c in share_save (st\<lparr>sh_links := sh_links st @ links\<rparr>) c1)"

definition sql_add_links :: "string \<Rightarrow> share_link list \<Rightarrow> share_db \<Rightarrow> bool \<times> share_db" where
  "sql_add_links acc links db =
     (let (begun, db1) = sql_stmt db in
      if \<not> begun then (False, db1)
      else
        (case run_all insert_link (map (link_to_row db acc) links) db1 of
           (False, db2) \<Rightarrow> (False, rollback db db2)
         | (True, db2) \<Rightarrow>
             (let (ok, db3) = sql_stmt db2 in if ok then (True, db3) else (False, rollback db db3))))"

definition add_links :: "share_link list \<Rightarrow> share_store \<Rightarrow> bool \<times> share_store" where
  "add_links links s =
     (case sh_db s of
        Some db \<Rightarrow> (let (ok, db1) = sql_add_links (sh_account s) links db in (ok, s\<lparr>sh_db := Some db1\<rparr>))
      | None \<Rightarrow> (let (ok, c) = json_add_links links (sh_file s) in (ok, s\<lparr>sh_file := c\<rparr>)))"

definition create_batch ::
  "(string \<Rightarrow> string) \<Rightarrow> clock \<Rightarrow> (string \<times> unixtime) list \<Rightarrow> int option \<Rightarrow>
   (nat \<Rightarrow> (go_error + string) \<times> string) \<Rightarrow> share_store \<Rightarrow> (go_error + share_item list) \<times> share_store" where
  "create_batch sha clk inputs expires_in entropy s =
     (if inputs = [] then (Inl (Plain ''at least one alias is required''), s)
      else if (case expires_in of Some d \<Rightarrow> d < 5 * 60 \<or> d > 365 * 24 * 3600 | None \<Rightarrow> False)
      then (Inl (Plain ''expiresInSeconds must be between 300 and 31536000''), s)
      else
        (case build_links sha (ck_app clk) expires_in entropy 0 inputs of
           Inl e \<Rightarrow> (Inl e, s)
         | Inr built \<Rightarrow>
             (let (ok, s1) = add_links (map fst built) s
              in if ok then (Inr (map2 share_item_of built inputs), s1)
                 else (Inl (Plain ''storage failed''), s1))))"

section \<open>Listing\<close>

definition link_live :: "unixtime \<Rightarrow> share_link \<Rightarrow> bool" where
  "link_live now l \<longleftrightarrow> sl_revoked l = None \<and> (case sl_expires l of None \<Rightarrow> True | Some e \<Rightarrow> e > now)"

text \<open>\<open>publicShareLink\<close> copies the link without its digest and adds whether it is live.\<close>

definition public_share_link :: "unixtime \<Rightarrow> share_link \<Rightarrow> share_link \<times> bool" where
  "public_share_link now l = (l\<lparr>sl_hash := []\<rparr>, link_live now l)"

definition newest_first :: "link_row \<Rightarrow> link_row \<Rightarrow> bool" where
  "newest_first a b \<longleftrightarrow> lr_created b < lr_created a"

definition share_list :: "clock \<Rightarrow> string \<Rightarrow> share_store \<Rightarrow> (share_link \<times> bool) list \<times> share_store" where
  "share_list clk alias s =
     (case sh_db s of
        Some db \<Rightarrow>
          (let (ok, db1) = sql_stmt db;
               rows = go_sort newest_first
                 (filter (\<lambda>r. lr_account r = sh_account s \<and> lr_alias r = share_alias alias) (link_table db1))
           in (if ok then map (public_share_link (ck_app clk))
                 (filter (\<lambda>l. sl_alias l = share_alias alias) (map scan_share_link rows)) else [],
               s\<lparr>sh_db := Some db1\<rparr>))
      | None \<Rightarrow>
          (let (st, c) = share_load (sh_file s)
           in (map (public_share_link (ck_app clk)) (filter (\<lambda>l. sl_alias l = share_alias alias) (sh_links st)),
               s\<lparr>sh_file := c\<rparr>)))"

section \<open>Revoking\<close>

text \<open>The two methods differ only in which links they revoke. Each returns how many it changed;
  the JSON store ignores a failed save.\<close>

definition json_revoke :: "clock \<Rightarrow> (share_link \<Rightarrow> bool) \<Rightarrow> share_doc cell \<Rightarrow> nat \<times> share_doc cell" where
  "json_revoke clk P c =
     (let (st, c1) = share_load c;
          hit = (\<lambda>l. P l \<and> sl_revoked l = None);
          count = length (filter hit (sh_links st));
          links = map (\<lambda>l. if hit l then l\<lparr>sl_revoked := Some (ck_app clk)\<rparr> else l) (sh_links st)
      in if count > 0 then (count, snd (share_save (st\<lparr>sh_links := links\<rparr>) c1)) else (0, c1))"

definition sql_revoke ::
  "clock \<Rightarrow> string \<Rightarrow> (link_row \<Rightarrow> bool) \<Rightarrow> share_db \<Rightarrow> nat \<times> share_db" where
  "sql_revoke clk acc P db =
     (let (ok, db1) = sql_stmt db;
          hit = (\<lambda>r. lr_account r = acc \<and> P r \<and> lr_revoked r = None)
      in if \<not> ok then (0, db1)
         else (length (filter hit (link_table db1)),
               db1\<lparr>link_table := map (\<lambda>r. if hit r then r\<lparr>lr_revoked := Some (sql_time db (ck_app clk))\<rparr> else r)
                                   (link_table db1)\<rparr>))"

definition share_revoke :: "clock \<Rightarrow> string \<Rightarrow> share_store \<Rightarrow> bool \<times> share_store" where
  "share_revoke clk ident s =
     (case sh_db s of
        Some db \<Rightarrow> (let (n, db1) = sql_revoke clk (sh_account s) (\<lambda>r. lr_id r = ident) db
                   in (n > 0, s\<lparr>sh_db := Some db1\<rparr>))
      | None \<Rightarrow> (let (n, c) = json_revoke clk (\<lambda>l. sl_id l = ident) (sh_file s)
                in (n > 0, s\<lparr>sh_file := c\<rparr>)))"

definition revoke_for_alias :: "clock \<Rightarrow> string \<Rightarrow> share_store \<Rightarrow> nat \<times> share_store" where
  "revoke_for_alias clk alias s =
     (case sh_db s of
        Some db \<Rightarrow> (let (n, db1) = sql_revoke clk (sh_account s) (\<lambda>r. lr_alias r = share_alias alias) db
                   in (n, s\<lparr>sh_db := Some db1\<rparr>))
      | None \<Rightarrow> (let (n, c) = json_revoke clk (\<lambda>l. sl_alias l = share_alias alias) (sh_file s)
                in (n, s\<lparr>sh_file := c\<rparr>)))"

section \<open>Resolving a token\<close>

definition row_live :: "gotime \<Rightarrow> link_row \<Rightarrow> bool" where
  "row_live now r \<longleftrightarrow> lr_revoked r = None \<and> (case lr_expires r of None \<Rightarrow> True | Some e \<Rightarrow> e > now)"

text \<open>The loop over the links: the first match is stamped.\<close>

fun stamp_first :: "(share_link \<Rightarrow> bool) \<Rightarrow> unixtime \<Rightarrow> share_link list \<Rightarrow> (share_link \<times> share_link list) option" where
  "stamp_first P now [] = None"
| "stamp_first P now (l # ls) =
     (if P l then Some (l\<lparr>sl_last_used := Some now\<rparr>, l\<lparr>sl_last_used := Some now\<rparr> # ls)
      else map_option (apsnd ((#) l)) (stamp_first P now ls))"

definition json_resolve :: "clock \<Rightarrow> string \<Rightarrow> share_doc cell \<Rightarrow> share_link option \<times> share_doc cell" where
  "json_resolve clk digest c =
     (let (st, c1) = share_load c
      in case stamp_first (\<lambda>l. sl_hash l = digest \<and> link_live (ck_app clk) l) (ck_app clk) (sh_links st) of
           None \<Rightarrow> (None, c1)
         | Some (l, links) \<Rightarrow> (Some l, snd (share_save (st\<lparr>sh_links := links\<rparr>) c1)))"

definition sql_touch :: "clock \<Rightarrow> string \<Rightarrow> string \<Rightarrow> share_db \<Rightarrow> share_db" where
  "sql_touch clk acc ident db =
     (let (ok, db1) = sql_stmt db
      in if \<not> ok then db1
         else db1\<lparr>link_table := map (\<lambda>r. if lr_account r = acc \<and> lr_id r = ident
                then r\<lparr>lr_last_used := Some (sql_time db (ck_app clk))\<rparr> else r) (link_table db1)\<rparr>)"

definition sql_resolve :: "clock \<Rightarrow> string \<Rightarrow> string \<Rightarrow> share_db \<Rightarrow> share_link option \<times> share_db" where
  "sql_resolve clk acc digest db =
     (let (ok, db1) = sql_stmt db
      in if \<not> ok then (None, db1)
         else
           (case find (\<lambda>r. lr_account r = acc \<and> lr_hash r = digest \<and> row_live (ck_db clk) r) (link_table db1) of
              None \<Rightarrow> (None, db1)
            | Some r \<Rightarrow> (Some ((scan_share_link r)\<lparr>sl_last_used := Some (ck_app clk)\<rparr>),
                         sql_touch clk acc (lr_id r) db1)))"

text \<open>\<open>resolveLocked\<close>, which \<open>Resolve\<close> and \<open>CreateSession\<close> call.\<close>

definition share_resolve ::
  "(string \<Rightarrow> string) \<Rightarrow> clock \<Rightarrow> string \<Rightarrow> share_store \<Rightarrow> share_link option \<times> share_store" where
  "share_resolve sha clk token s =
     (let token = trim_space token
      in if token = [] then (None, s)
         else
           (case sh_db s of
              Some db \<Rightarrow> (let (l, db1) = sql_resolve clk (sh_account s) (sha token) db
                         in (l, s\<lparr>sh_db := Some db1\<rparr>))
            | None \<Rightarrow> (let (l, c) = json_resolve clk (sha token) (sh_file s) in (l, s\<lparr>sh_file := c\<rparr>))))"

section \<open>Sessions\<close>

definition json_add_session :: "clock \<Rightarrow> share_session \<Rightarrow> share_doc cell \<Rightarrow> bool \<times> share_doc cell" where
  "json_add_session clk ses c =
     (let (st, c1) = share_load c
      in share_save (st\<lparr>sh_sessions := filter (\<lambda>x. ss_expires x > ck_app clk) (sh_sessions st) @ [ses]\<rparr>) c1)"

definition sql_drop_sessions :: "clock \<Rightarrow> string \<Rightarrow> share_db \<Rightarrow> bool \<times> share_db" where
  "sql_drop_sessions clk acc db =
     (let (ok, db1) = sql_stmt db
      in (ok, if ok then db1\<lparr>session_table :=
                filter (\<lambda>r. \<not> (sr_account r = acc \<and> sr_expires r \<le> ck_db clk)) (session_table db1)\<rparr>
              else db1))"

definition sql_add_session :: "clock \<Rightarrow> string \<Rightarrow> share_session \<Rightarrow> share_db \<Rightarrow> bool \<times> share_db" where
  "sql_add_session clk acc ses db =
     (let (_, db1) = sql_drop_sessions clk acc db in insert_session (session_to_row db1 acc ses) db1)"

definition add_session :: "clock \<Rightarrow> share_session \<Rightarrow> share_store \<Rightarrow> bool \<times> share_store" where
  "add_session clk ses s =
     (case sh_db s of
        Some db \<Rightarrow> (let (ok, db1) = sql_add_session clk (sh_account s) ses db in (ok, s\<lparr>sh_db := Some db1\<rparr>))
      | None \<Rightarrow> (let (ok, c) = json_add_session clk ses (sh_file s) in (ok, s\<lparr>sh_file := c\<rparr>)))"

text \<open>When a new session ends: after its age, and not after its link.\<close>

definition session_expiry :: "unixtime \<Rightarrow> int \<Rightarrow> share_link \<Rightarrow> unixtime" where
  "session_expiry now max_age l =
     (let expires = now + of_int max_age
      in case sl_expires l of None \<Rightarrow> expires | Some e \<Rightarrow> if e < expires then e else expires)"

text \<open>The clock is read twice: when the link is resolved and when the session is stored.\<close>

definition create_session ::
  "(string \<Rightarrow> string) \<Rightarrow> clock \<Rightarrow> clock \<Rightarrow> string \<Rightarrow> int \<Rightarrow> (go_error + string) \<Rightarrow> share_store \<Rightarrow>
   (string \<times> share_link) option \<times> share_store" where
  "create_session sha clk clk' token max_age fresh s =
     (if max_age \<le> 0 then (None, s)
      else
        (case share_resolve sha clk token s of
           (None, s1) \<Rightarrow> (None, s1)
         | (Some link, s1) \<Rightarrow>
             (case fresh of
                Inl e \<Rightarrow> (None, s1)
              | Inr session_token \<Rightarrow>
                  (let expires = session_expiry (ck_app clk') max_age link
                   in if expires \<le> ck_app clk' then (None, s1)
                      else
                        (let (ok, s2) = add_session clk'
                           \<lparr>ss_hash = sha session_token, ss_link = sl_id link, ss_expires = expires\<rparr> s1
                         in (if ok then Some (session_token, link) else None, s2))))))"

fun json_find_session :: "clock \<Rightarrow> string \<Rightarrow> share_link list \<Rightarrow> share_session list \<Rightarrow> share_link option" where
  "json_find_session clk digest links [] = None"
| "json_find_session clk digest links (x # xs) =
     (if ss_hash x \<noteq> digest \<or> ss_expires x \<le> ck_app clk then json_find_session clk digest links xs
      else (case find (\<lambda>l. sl_id l = ss_link x \<and> link_live (ck_app clk) l) links of
              Some l \<Rightarrow> Some l
            | None \<Rightarrow> json_find_session clk digest links xs))"

text \<open>The join of the two tables; the link may belong to any account.\<close>

definition sql_join :: "clock \<Rightarrow> string \<Rightarrow> string \<Rightarrow> share_db \<Rightarrow> link_row list" where
  "sql_join clk acc digest db =
     concat (map (\<lambda>x. filter (\<lambda>r. lr_id r = sr_link x \<and> row_live (ck_db clk) r) (link_table db))
       (filter (\<lambda>x. sr_account x = acc \<and> sr_hash x = digest \<and> sr_expires x > ck_db clk) (session_table db)))"

definition resolve_session ::
  "(string \<Rightarrow> string) \<Rightarrow> clock \<Rightarrow> string \<Rightarrow> share_store \<Rightarrow> share_link option \<times> share_store" where
  "resolve_session sha clk token s =
     (if trim_space token = [] then (None, s)
      else
        (case sh_db s of
           Some db \<Rightarrow>
             (let (ok, db1) = sql_stmt db
              in (if ok then (case sql_join clk (sh_account s) (sha token) db1 of
                                [] \<Rightarrow> None | r # _ \<Rightarrow> Some (scan_share_link r)) else None,
                  s\<lparr>sh_db := Some db1\<rparr>))
         | None \<Rightarrow>
             (let (st, c) = share_load (sh_file s)
              in (json_find_session clk (sha token) (sh_links st) (sh_sessions st), s\<lparr>sh_file := c\<rparr>))))"

section \<open>Clearing\<close>

definition json_clear :: "clock \<Rightarrow> share_doc cell \<Rightarrow> (nat \<times> bool) \<times> share_doc cell" where
  "json_clear clk c =
     (let (st, c1) = share_load c;
          dead = (\<lambda>l. sl_revoked l \<noteq> None \<or> (case sl_expires l of None \<Rightarrow> False | Some e \<Rightarrow> e \<le> ck_app clk));
          removed = remdups (map sl_id (filter dead (sh_links st)));
          (ok, c2) = share_save \<lparr>sh_links = filter (\<lambda>l. \<not> dead l) (sh_links st),
             sh_sessions = filter (\<lambda>x. ss_expires x > ck_app clk \<and> ss_link x \<notin> set removed) (sh_sessions st)\<rparr> c1
      in ((length removed, ok), c2))"

text \<open>Deleting links deletes the sessions that refer to them.\<close>

definition delete_links :: "(link_row \<Rightarrow> bool) \<Rightarrow> share_db \<Rightarrow> share_db" where
  "delete_links P db =
     (let gone = map lr_id (filter P (link_table db))
      in db\<lparr>link_table := filter (\<lambda>r. \<not> P r) (link_table db),
            session_table := filter (\<lambda>x. sr_link x \<notin> set gone) (session_table db)\<rparr>)"

definition sql_clear :: "clock \<Rightarrow> string \<Rightarrow> share_db \<Rightarrow> (nat \<times> bool) \<times> share_db" where
  "sql_clear clk acc db =
     (let (begun, db1) = sql_stmt db;
          (ok, db2) = sql_drop_sessions clk acc db1;
          (ok2, db3) = sql_stmt db2;
          dead = (\<lambda>r. lr_account r = acc \<and>
            (lr_revoked r \<noteq> None \<or> (case lr_expires r of None \<Rightarrow> False | Some e \<Rightarrow> e \<le> ck_db clk)));
          count = length (filter dead (link_table db3));
          (committed, db4) = sql_stmt (delete_links dead db3)
      in if \<not> begun then ((0, False), db1)
         else if \<not> ok then ((0, False), rollback db db2)
         else if \<not> ok2 then ((0, False), rollback db db3)
         else if \<not> committed then ((count, False), rollback db db4)
         else ((count, True), db4))"

definition clear_inactive :: "clock \<Rightarrow> share_store \<Rightarrow> (nat \<times> bool) \<times> share_store" where
  "clear_inactive clk s =
     (case sh_db s of
        Some db \<Rightarrow> (let (r, db1) = sql_clear clk (sh_account s) db in (r, s\<lparr>sh_db := Some db1\<rparr>))
      | None \<Rightarrow> (let (r, c) = json_clear clk (sh_file s) in (r, s\<lparr>sh_file := c\<rparr>)))"

section \<open>Opening the store\<close>

definition new_share_store ::
  "string \<Rightarrow> share_doc cell \<Rightarrow> share_db option \<Rightarrow> (go_error + share_doc option) \<Rightarrow> share_store option" where
  "new_share_store account file db disk_file =
     (let acc = (if trim_space account = [] then ''default'' else trim_space account)
      in case db of
           None \<Rightarrow> Some \<lparr>sh_account = acc, sh_file = file, sh_db = None\<rparr>
         | Some d \<Rightarrow> (let (ok, d1) = import_legacy acc disk_file d
                    in if ok then Some \<lparr>sh_account = acc, sh_file = file, sh_db = Some d1\<rparr> else None))"

end
