(* ===== verification/Revocation.thy ===== *)
theory Revocation
  imports Main
begin

text \<open>
  Credentials that can be withdrawn for good. Share links, login sessions and API tokens are rows that
  are marked as revoked and never unmarked. The locale \<open>revocable\<close> is that contract: an operation may
  bring to life only the keys it creates. Then a key that is dead stays dead under any sequence of
  operations that do not create it anew.
\<close>

locale revocable =
  fixes alive :: "'s \<Rightarrow> 'k set"
    and wf :: "'s \<Rightarrow> bool"
    and step :: "'k set \<Rightarrow> 's \<Rightarrow> 's \<Rightarrow> bool"
  assumes step_wf: "wf s \<Longrightarrow> step I s s' \<Longrightarrow> wf s'"
    and step_alive: "wf s \<Longrightarrow> step I s s' \<Longrightarrow> alive s' \<subseteq> alive s \<union> I"
begin

definition avoids :: "'k \<Rightarrow> 's \<Rightarrow> 's \<Rightarrow> bool" where
  "avoids k s s' \<longleftrightarrow> (\<exists>I. step I s s' \<and> k \<notin> I)"

lemma stays_dead:
  assumes "(avoids k)\<^sup>*\<^sup>* s s'" and "wf s" and "k \<notin> alive s"
  shows "wf s' \<and> k \<notin> alive s'"
  using assms
proof (induction rule: rtranclp_induct)
  case (step y z)
  then show ?case using step_wf step_alive unfolding avoids_def by blast
qed simp

end

end
