(* ===== verification/ShareProps.thy ===== *)
theory ShareProps
  imports Share Revocation
begin

text \<open>
  What the share store guarantees. Both back ends meet the contract \<open>share_backend\<close>: they give out
  only unrevoked, unexpired links, a revocation takes effect, and nothing brings a revoked id back.
  Then the agreement of the two back ends where no statement fails.
\<close>

section \<open>The contract of a back end\<close>

definition unrevoked_ids :: "share_link list \<Rightarrow> string set" where
  "unrevoked_ids ls = sl_id ` {l \<in> set ls. sl_revoked l = None}"

lemma unrevoked_iff: "i \<in> unrevoked_ids ls \<longleftrightarrow> (\<exists>l\<in>set ls. sl_id l = i \<and> sl_revoked l = None)"
  by (auto simp: unrevoked_ids_def)

lemma unrevoked_mono: "set a \<subseteq> set b \<Longrightarrow> unrevoked_ids a \<subseteq> unrevoked_ids b"
  by (auto simp: unrevoked_ids_def)

lemma unrevoked_Nil [simp]: "unrevoked_ids [] = {}"
  by (simp add: unrevoked_ids_def)

lemma unrevoked_Cons: "unrevoked_ids (l # ls) = (if sl_revoked l = None then {sl_id l} else {}) \<union> unrevoked_ids ls"
  by (auto simp: unrevoked_ids_def)

lemma unrevoked_append: "unrevoked_ids (a @ b) = unrevoked_ids a \<union> unrevoked_ids b"
  by (auto simp: unrevoked_ids_def)

lemma unrevoked_map:
  "(\<And>l. l \<in> set ls \<Longrightarrow> sl_id (f l) = sl_id l \<and> (sl_revoked (f l) = None \<longrightarrow> sl_revoked l = None)) \<Longrightarrow>
   unrevoked_ids (map f ls) \<subseteq> unrevoked_ids ls"
  by (fastforce simp: unrevoked_iff)

lemma unrevoked_filter: "unrevoked_ids (filter P ls) \<subseteq> unrevoked_ids ls"
  by (auto simp: unrevoked_iff)

locale share_backend = revocable "\<lambda>s. unrevoked_ids (held s)" wf step
  for held :: "'s \<Rightarrow> share_link list"
    and wf :: "'s \<Rightarrow> bool"
    and step :: "string set \<Rightarrow> 's \<Rightarrow> 's \<Rightarrow> bool" +
  fixes durable :: "'s \<Rightarrow> bool"
    and clock_of :: "clock \<Rightarrow> unixtime"
    and resolve :: "clock \<Rightarrow> string \<Rightarrow> 's \<Rightarrow> share_link option \<times> 's"
    and by_session :: "clock \<Rightarrow> string \<Rightarrow> 's \<Rightarrow> share_link option \<times> 's"
    and revoke :: "clock \<Rightarrow> string \<Rightarrow> 's \<Rightarrow> nat \<times> 's"
  assumes resolved: "fst (resolve clk d s) = Some l \<Longrightarrow>
      \<exists>l0\<in>set (held s). sl_id l0 = sl_id l \<and> sl_hash l0 = d \<and> link_live (clock_of clk) l0"
    and ticket: "fst (by_session clk d s) = Some l \<Longrightarrow> l \<in> set (held s) \<and> link_live (clock_of clk) l"
    and revoked: "wf s \<Longrightarrow> durable s \<Longrightarrow> 0 < fst (revoke clk i s) \<Longrightarrow>
      i \<notin> unrevoked_ids (held (snd (revoke clk i s)))"
    and revoke_wf: "wf s \<Longrightarrow> wf (snd (revoke clk i s))"
begin

lemma revoked_not_given:
  assumes "i \<notin> unrevoked_ids (held s)"
  shows "fst (resolve clk d s) = Some l \<Longrightarrow> sl_id l \<noteq> i"
    and "fst (by_session clk d s) = Some l \<Longrightarrow> sl_id l \<noteq> i"
proof -
  show "fst (resolve clk d s) = Some l \<Longrightarrow> sl_id l \<noteq> i"
    using assms resolved [of clk d s l] unfolding unrevoked_iff link_live_def by blast
  show "fst (by_session clk d s) = Some l \<Longrightarrow> sl_id l \<noteq> i"
    using assms ticket [of clk d s l] unfolding unrevoked_iff link_live_def by blast
qed

lemma revoked_forever:
  assumes "wf s" and "durable s" and "0 < fst (revoke clk i s)"
    and "(avoids i)\<^sup>*\<^sup>* (snd (revoke clk i s)) s'"
  shows "fst (resolve clk' d s') = Some l \<Longrightarrow> sl_id l \<noteq> i"
    and "fst (by_session clk' d s') = Some l \<Longrightarrow> sl_id l \<noteq> i"
  using stays_dead [OF assms(4) revoke_wf [OF assms(1)] revoked [OF assms(1-3)]] revoked_not_given
  by blast+

end

section \<open>The JSON back end\<close>

definition doc_state :: "share_doc option \<Rightarrow> share_state" where
  "doc_state d =
     (case d of
        Some (StateDoc st) \<Rightarrow> st
      | Some (LinkList ls) \<Rightarrow> \<lparr>sh_links = ls, sh_sessions = []\<rparr>
      | _ \<Rightarrow> empty_share_state)"

definition json_held :: "share_doc cell \<Rightarrow> share_link list" where
  "json_held c = sh_links (doc_state (cell_doc c))"

definition json_by_session :: "clock \<Rightarrow> string \<Rightarrow> share_doc cell \<Rightarrow> share_link option \<times> share_doc cell" where
  "json_by_session clk digest c =
     (let (st, c1) = share_load c in (json_find_session clk digest (sh_links st) (sh_sessions st), c1))"

text \<open>The operations of any caller, with the ids of the links they create.\<close>

inductive json_step :: "string set \<Rightarrow> share_doc cell \<Rightarrow> share_doc cell \<Rightarrow> bool" where
  js_add: "json_step (sl_id ` set links) c (snd (json_add_links links c))"
| js_read: "json_step {} c (snd (share_load c))"
| js_revoke: "json_step {} c (snd (json_revoke clk P c))"
| js_resolve: "json_step {} c (snd (json_resolve clk d c))"
| js_session: "json_step {} c (snd (json_add_session clk ses c))"
| js_clear: "json_step {} c (snd (json_clear clk c))"

lemma cell_read_doc: "fst (cell_read c) = None \<or> fst (cell_read c) = cell_doc c"
  "cell_doc (snd (cell_read c)) = cell_doc c"
  "write_faults (snd (cell_read c)) = write_faults c"
  by (auto simp: cell_read_def split: list.splits)

lemma share_load_fst:
  "fst (share_load c) =
     (case fst (cell_read c) of Some (StateDoc st) \<Rightarrow> st
      | _ \<Rightarrow> (case fst (cell_read (snd (cell_read c))) of Some (LinkList ls) \<Rightarrow> \<lparr>sh_links = ls, sh_sessions = []\<rparr>
              | _ \<Rightarrow> empty_share_state))"
  unfolding share_load_def by (simp add: split_beta split: option.split share_doc.split)

lemma share_load_snd: "snd (share_load c) = snd (cell_read c) \<or> snd (share_load c) = snd (cell_read (snd (cell_read c)))"
  unfolding share_load_def by (simp add: split_beta split: option.split share_doc.split)

lemma share_load_cell:
  "cell_doc (snd (share_load c)) = cell_doc c" "write_faults (snd (share_load c)) = write_faults c"
  using share_load_snd [of c] by (auto simp: cell_read_doc)

lemma share_load_state: "fst (share_load c) = doc_state (cell_doc c) \<or> fst (share_load c) = empty_share_state"
proof -
  have "fst (cell_read (snd (cell_read c))) = None \<or> fst (cell_read (snd (cell_read c))) = cell_doc c"
    using cell_read_doc(1) [of "snd (cell_read c)"] by (simp only: cell_read_doc)
  then show ?thesis
    using cell_read_doc(1) [of c] unfolding share_load_fst
    by (elim disjE) (simp_all add: doc_state_def split: option.split share_doc.split)
qed

lemma load_links: "set (sh_links (fst (share_load c))) \<subseteq> set (json_held c)"
  using share_load_state [of c] by (auto simp: json_held_def empty_share_state_def)

lemma share_save_doc:
  "cell_doc (snd (share_save st c)) = Some (StateDoc st) \<or> cell_doc (snd (share_save st c)) = cell_doc c"
  "write_faults c = [] \<Longrightarrow> cell_doc (snd (share_save st c)) = Some (StateDoc st)"
  by (auto simp: share_save_def cell_write_def split: list.splits)

text \<open>A save of links whose unrevoked ids come from the loaded ones or from \<open>I\<close>.\<close>

lemma save_ids:
  assumes "unrevoked_ids (sh_links st) \<subseteq> unrevoked_ids (sh_links (fst (share_load c))) \<union> I"
  shows "unrevoked_ids (json_held (snd (share_save st (snd (share_load c))))) \<subseteq> unrevoked_ids (json_held c) \<union> I"
  using assms unrevoked_mono [OF load_links [of c]] share_save_doc(1) [of st "snd (share_load c)"]
  by (auto simp: json_held_def doc_state_def share_load_cell)

lemma held_load [simp]: "json_held (snd (share_load c)) = json_held c"
  by (simp add: json_held_def share_load_cell)

lemma read_ids: "unrevoked_ids (json_held (snd (share_load c))) \<subseteq> unrevoked_ids (json_held c) \<union> I"
  by (simp add: json_held_def share_load_cell)

lemma stamp_first_ids:
  "stamp_first P now ls = Some (l, ls') \<Longrightarrow> unrevoked_ids ls' \<subseteq> unrevoked_ids ls"
proof (induction ls arbitrary: ls')
  case (Cons a ls)
  show ?case
  proof (cases "P a")
    case True
    then show ?thesis using Cons.prems by (auto simp: unrevoked_Cons)
  next
    case False
    then obtain r where "stamp_first P now ls = Some (l, r)" "ls' = a # r"
      using Cons.prems by (auto simp: map_option_case apsnd_def split: option.splits)
    then show ?thesis using Cons.IH [of r] by (auto simp: unrevoked_Cons)
  qed
qed simp

lemma stamp_first_found:
  "stamp_first P now ls = Some (l, ls') \<Longrightarrow> \<exists>l0\<in>set ls. P l0 \<and> l = l0\<lparr>sl_last_used := Some now\<rparr>"
  by (induction ls arbitrary: ls') (auto split: if_splits)

lemma json_find_session_found:
  "json_find_session clk d links xs = Some l \<Longrightarrow>
   l \<in> set links \<and> link_live (ck_app clk) l \<and>
   (\<exists>x\<in>set xs. ss_hash x = d \<and> ck_app clk < ss_expires x \<and> ss_link x = sl_id l)"
  by (induction xs) (auto split: if_splits option.splits simp: find_Some_iff in_set_conv_nth)

lemma json_step_ids: "json_step I c c' \<Longrightarrow> unrevoked_ids (json_held c') \<subseteq> unrevoked_ids (json_held c) \<union> I"
proof (induction rule: json_step.induct)
  case (js_add links c)
  show ?case unfolding json_add_links_def split_beta Let_def
    by (rule save_ids) (auto simp: unrevoked_append unrevoked_iff)
next
  case (js_read c)
  show ?case by (rule read_ids)
next
  case (js_revoke c clk P)
  let ?f = "\<lambda>l. if P l \<and> sl_revoked l = None then l\<lparr>sl_revoked := Some (ck_app clk)\<rparr> else l"
  let ?st = "(fst (share_load c))\<lparr>sh_links := map ?f (sh_links (fst (share_load c)))\<rparr>"
  have "unrevoked_ids (sh_links ?st) \<subseteq> unrevoked_ids (sh_links (fst (share_load c))) \<union> {}"
    using unrevoked_map [of "sh_links (fst (share_load c))" ?f] by simp
  then show ?case using read_ids [of c "{}"] save_ids [of ?st c "{}"]
    unfolding json_revoke_def by (simp only: Let_def split_beta fst_conv snd_conv split: if_split) blast
next
  case (js_resolve c clk d)
  show ?case
  proof (cases "stamp_first (\<lambda>l. sl_hash l = d \<and> link_live (ck_app clk) l) (ck_app clk) (sh_links (fst (share_load c)))")
    case None
    then show ?thesis by (simp add: json_resolve_def split_beta read_ids)
  next
    case (Some p)
    obtain l ls where p: "p = (l, ls)" by (cases p)
    have "unrevoked_ids (json_held (snd (share_save (fst (share_load c)\<lparr>sh_links := ls\<rparr>) (snd (share_load c)))))
        \<subseteq> unrevoked_ids (json_held c) \<union> {}"
      by (rule save_ids) (use stamp_first_ids [OF Some [unfolded p]] in simp)
    then show ?thesis using Some p by (simp add: json_resolve_def split_beta)
  qed
next
  case (js_session c clk ses)
  show ?case unfolding json_add_session_def split_beta Let_def by (rule save_ids) simp
next
  case (js_clear c clk)
  show ?case unfolding json_clear_def Let_def split_beta snd_conv
    by (rule save_ids) (simp add: unrevoked_filter)
qed

lemma json_revoke_done:
  assumes "write_faults c = []" and "0 < fst (json_revoke clk P c)"
    and "l \<in> set (json_held (snd (json_revoke clk P c)))" and "sl_revoked l = None"
  shows "\<exists>l0. sl_revoked l0 = None \<and> \<not> P l0 \<and> l = l0"
proof -
  let ?n = "length (filter (\<lambda>l. P l \<and> sl_revoked l = None) (sh_links (fst (share_load c))))"
  have n: "?n > 0" using assms(2) by (auto simp: json_revoke_def Let_def split_beta split: if_splits)
  have "write_faults (snd (share_load c)) = []" using assms(1) by (simp add: share_load_cell)
  note share_save_doc(2) [OF this]
  then have "json_held (snd (json_revoke clk P c)) =
      map (\<lambda>l. if P l \<and> sl_revoked l = None then l\<lparr>sl_revoked := Some (ck_app clk)\<rparr> else l)
        (sh_links (fst (share_load c)))"
    using n by (simp add: json_revoke_def Let_def split_beta json_held_def doc_state_def)
  then show ?thesis using assms(3,4) by (auto split: if_splits)
qed

definition json_revoke_id :: "clock \<Rightarrow> string \<Rightarrow> share_doc cell \<Rightarrow> nat \<times> share_doc cell" where
  "json_revoke_id clk i c = json_revoke clk (\<lambda>l. sl_id l = i) c"

interpretation json_links: share_backend json_held "\<lambda>_. True" json_step "\<lambda>c. write_faults c = []" ck_app
  json_resolve json_by_session json_revoke_id
proof unfold_locales
  fix clk d c l
  assume "fst (json_resolve clk d c) = Some l"
  then show "\<exists>l0\<in>set (json_held c). sl_id l0 = sl_id l \<and> sl_hash l0 = d \<and> link_live (ck_app clk) l0"
    using load_links [of c]
    by (auto simp: json_resolve_def split_beta split: option.splits dest!: stamp_first_found)
next
  fix clk d c l
  assume "fst (json_by_session clk d c) = Some l"
  then show "l \<in> set (json_held c) \<and> link_live (ck_app clk) l"
    using load_links [of c] by (auto simp: json_by_session_def split_beta dest!: json_find_session_found)
next
  fix c clk i
  assume "write_faults c = []" "0 < fst (json_revoke_id clk i c)"
  then show "i \<notin> unrevoked_ids (json_held (snd (json_revoke_id clk i c)))"
    using json_revoke_done [of c clk "\<lambda>l. sl_id l = i"] unfolding json_revoke_id_def unrevoked_iff by blast
qed (use json_step_ids in auto)

section \<open>The Postgres back end\<close>

definition sql_held :: "share_db \<Rightarrow> share_link list" where
  "sql_held db = map scan_share_link (link_table db)"

definition ids_unique :: "share_db \<Rightarrow> bool" where
  "ids_unique db \<longleftrightarrow> distinct (map lr_id (link_table db))"

definition sql_by_session :: "string \<Rightarrow> clock \<Rightarrow> string \<Rightarrow> share_db \<Rightarrow> share_link option \<times> share_db" where
  "sql_by_session acc clk digest db =
     (let (ok, db1) = sql_stmt db
      in (if ok then (case sql_join clk acc digest db1 of [] \<Rightarrow> None | r # _ \<Rightarrow> Some (scan_share_link r))
          else None, db1))"

definition sql_revoke_id :: "string \<Rightarrow> clock \<Rightarrow> string \<Rightarrow> share_db \<Rightarrow> nat \<times> share_db" where
  "sql_revoke_id acc clk i db = sql_revoke clk acc (\<lambda>r. lr_id r = i) db"

text \<open>The operations of the stores of all accounts on the shared tables.\<close>

inductive sql_step :: "string set \<Rightarrow> share_db \<Rightarrow> share_db \<Rightarrow> bool" where
  ss_add: "sql_step (sl_id ` set links) db (snd (sql_add_links acc links db))"
| ss_import: "sql_step (sl_id ` set (sh_links st)) db (snd (import_rows acc st db))"
| ss_read: "sql_step {} db (snd (sql_stmt db))"
| ss_revoke: "sql_step {} db (snd (sql_revoke clk acc P db))"
| ss_resolve: "sql_step {} db (snd (sql_resolve clk acc d db))"
| ss_session: "sql_step {} db (snd (sql_add_session clk acc ses db))"
| ss_clear: "sql_step {} db (snd (sql_clear clk acc db))"

lemma scan_fields [simp]:
  "sl_id (scan_share_link r) = lr_id r" "sl_hash (scan_share_link r) = lr_hash r"
  "sl_alias (scan_share_link r) = lr_alias r"
  "sl_revoked (scan_share_link r) = map_option unix_float (lr_revoked r)"
  "sl_expires (scan_share_link r) = map_option unix_float (lr_expires r)"
  by (simp_all add: scan_share_link_def)

text \<open>What a statement may do to the links: keep the ids unique and add unrevoked ids of \<open>I\<close> only.\<close>

definition grows :: "string set \<Rightarrow> share_db \<Rightarrow> share_db \<Rightarrow> bool" where
  "grows I db db' \<longleftrightarrow> (ids_unique db \<longrightarrow> ids_unique db') \<and>
     unrevoked_ids (sql_held db') \<subseteq> unrevoked_ids (sql_held db) \<union> I"

lemma grows_same: "link_table db' = link_table db \<Longrightarrow> grows I db db'"
  by (simp add: grows_def ids_unique_def sql_held_def)

lemma grows_trans: "grows I a b \<Longrightarrow> grows I b c \<Longrightarrow> grows I a c"
  by (auto simp: grows_def)

lemma grows_append: "\<not> link_conflict db r \<Longrightarrow> grows {lr_id r} db (db\<lparr>link_table := link_table db @ [r]\<rparr>)"
  by (auto simp: grows_def ids_unique_def sql_held_def link_conflict_def unrevoked_append unrevoked_iff scan_share_link_def)

lemma stmt_frame [simp]: "link_table (snd (sql_stmt db)) = link_table db"
  "session_table (snd (sql_stmt db)) = session_table db" "db_column (snd (sql_stmt db)) = db_column db"
  by (auto simp: sql_stmt_def split: list.splits)

lemma rollback_frame [simp]: "link_table (rollback db x) = link_table db"
  "session_table (rollback db x) = session_table db" "db_column (rollback db x) = db_column db"
  by (simp_all add: rollback_def)

lemma grows_weaken: "grows I db db' \<Longrightarrow> I \<subseteq> J \<Longrightarrow> grows J db db'"
  by (auto simp: grows_def)

lemma grows_map:
  assumes "\<And>r. lr_id (f r) = lr_id r \<and> (lr_revoked (f r) = None \<longrightarrow> lr_revoked r = None)"
    and "link_table db' = map f (link_table db)"
  shows "grows I db db'"
proof -
  have "unrevoked_ids (sql_held db') \<subseteq> unrevoked_ids (sql_held db)"
    using assms(1) by (fastforce simp: sql_held_def assms(2) unrevoked_iff scan_share_link_def)
  then show ?thesis using assms by (auto simp: grows_def ids_unique_def comp_def)
qed

lemma grows_filter: "link_table db' = filter P (link_table db) \<Longrightarrow> grows I db db'"
  by (auto simp: grows_def ids_unique_def sql_held_def unrevoked_iff distinct_map_filter)

lemma grows_run_all:
  assumes "\<And>r db. r \<in> set rs \<Longrightarrow> grows I db (snd (f r db))"
  shows "grows I db (snd (run_all f rs db))"
  using assms
proof (induction rs arbitrary: db)
  case Nil
  then show ?case by (simp add: grows_same)
next
  case (Cons r rs)
  have "grows I db (snd (f r db))" using Cons.prems by simp
  moreover have "grows I (snd (f r db)) (snd (run_all f rs (snd (f r db))))" using Cons by simp
  ultimately show ?case by (auto split: prod.splits bool.splits intro: grows_trans)
qed

lemma insert_link_grows: "grows {lr_id r} db (snd (insert_link r db))"
proof -
  let ?db = "snd (sql_stmt db)"
  have a: "grows {lr_id r} db ?db" by (simp add: grows_same)
  have "\<not> link_conflict ?db r \<Longrightarrow> grows {lr_id r} db (?db\<lparr>link_table := link_table ?db @ [r]\<rparr>)"
    by (rule grows_trans [OF a grows_append])
  then show ?thesis using a by (auto simp: insert_link_def split_beta)
qed

lemma insert_link_once_grows: "grows {lr_id r} db (snd (insert_link_once r db))"
proof -
  let ?db = "snd (sql_stmt db)"
  have a: "grows {lr_id r} db ?db" by (simp add: grows_same)
  have "\<not> link_conflict ?db r \<Longrightarrow> grows {lr_id r} db (?db\<lparr>link_table := link_table ?db @ [r]\<rparr>)"
    by (rule grows_trans [OF a grows_append])
  then show ?thesis using a by (auto simp: insert_link_once_def split_beta)
qed

lemma insert_session_links [simp]: "link_table (snd (insert_session r db)) = link_table db"
  by (simp add: insert_session_def split_beta)

lemma insert_session_once_links [simp]: "link_table (snd (insert_session_once r db)) = link_table db"
  by (simp add: insert_session_once_def split_beta)

lemma drop_sessions_links [simp]: "link_table (snd (sql_drop_sessions clk acc db)) = link_table db"
  by (simp add: sql_drop_sessions_def split_beta)

lemma link_to_row_id [simp]: "lr_id (link_to_row db acc l) = sl_id l"
  by (simp add: link_to_row_def)

lemma add_links_grows: "grows (sl_id ` set links) db (snd (sql_add_links acc links db))"
proof -
  let ?db = "snd (sql_stmt db)" and ?rows = "map (link_to_row db acc) links"
  have a: "grows (sl_id ` set links) db ?db" by (simp add: grows_same)
  have "grows (sl_id ` set links) ?db (snd (run_all insert_link ?rows ?db))"
    by (rule grows_run_all) (auto intro: grows_weaken [OF insert_link_grows])
  then have "grows (sl_id ` set links) db (snd (run_all insert_link ?rows ?db))"
    by (rule grows_trans [OF a])
  then show ?thesis using a
    by (auto simp: sql_add_links_def split_beta grows_same intro: grows_trans split: prod.splits bool.splits)
qed

lemma import_rows_grows: "grows (sl_id ` set (sh_links st)) db (snd (import_rows acc st db))"
proof -
  let ?I = "sl_id ` set (sh_links st)" and ?db = "snd (sql_stmt db)"
    and ?rows = "map (link_to_row db acc) (sh_links st)" and ?ses = "map (session_to_row db acc) (sh_sessions st)"
  let ?db2 = "snd (run_all insert_link_once ?rows ?db)"
  let ?db3 = "snd (run_all insert_session_once ?ses ?db2)"
  have a: "grows ?I db ?db" by (simp add: grows_same)
  have b: "grows ?I ?db ?db2"
    by (rule grows_run_all) (auto intro: grows_weaken [OF insert_link_once_grows])
  have c: "grows ?I ?db2 ?db3"
    by (rule grows_run_all) (simp add: grows_same)
  have d: "grows ?I db ?db3" by (rule grows_trans [OF grows_trans [OF a b] c])
  have e: "link_table y = link_table ?db3 \<Longrightarrow> grows ?I db y" for y by (rule grows_trans [OF d grows_same])
  have "link_table (snd (import_rows acc st db)) = link_table db \<or>
      link_table (snd (import_rows acc st db)) = link_table ?db3"
    by (simp add: import_rows_def Let_def split_beta split: prod.split bool.split)
  then show ?thesis using e grows_same by blast
qed

lemma touch_grows: "grows I db (snd (sql_stmt db)) \<and> grows I (snd (sql_stmt db)) (sql_touch clk acc i (snd (sql_stmt db)))"
proof -
  let ?db = "snd (sql_stmt db)"
  let ?f = "\<lambda>r. if lr_account r = acc \<and> lr_id r = i
    then r\<lparr>lr_last_used := Some (sql_time ?db (ck_app clk))\<rparr> else r"
  have "fst (sql_stmt ?db) \<Longrightarrow> grows I ?db (sql_touch clk acc i ?db)"
    by (intro grows_map [where f = ?f]) (auto simp: sql_touch_def split_beta)
  then show ?thesis
    by (cases "fst (sql_stmt ?db)") (simp_all add: grows_same sql_touch_def split_beta)
qed

lemma sql_step_grows: "sql_step I db db' \<Longrightarrow> grows I db db'"
proof (induction rule: sql_step.induct)
  case (ss_add links db acc)
  show ?case by (rule add_links_grows)
next
  case (ss_import st db acc)
  show ?case by (rule import_rows_grows)
next
  case (ss_read db)
  show ?case by (simp add: grows_same)
next
  case (ss_revoke db clk acc P)
  show ?case
  proof (cases "fst (sql_stmt db)")
    case True
    let ?f = "\<lambda>r. if lr_account r = acc \<and> P r \<and> lr_revoked r = None
      then r\<lparr>lr_revoked := Some (sql_time db (ck_app clk))\<rparr> else r"
    show ?thesis using True by (intro grows_map [where f = ?f]) (auto simp: sql_revoke_def split_beta Let_def)
  qed (simp add: sql_revoke_def split_beta Let_def grows_same)
next
  case (ss_resolve db clk acc d)
  show ?case unfolding sql_resolve_def split_beta Let_def
    using touch_grows [of "{}" db clk acc] by (auto split: option.split intro: grows_trans)
next
  case (ss_session db clk acc ses)
  show ?case by (simp add: sql_add_session_def split_beta grows_same)
next
  case (ss_clear db clk acc)
  show ?case unfolding sql_clear_def split_beta Let_def
    by (auto simp: grows_same delete_links_def Let_def intro!: grows_filter)
qed

lemma sql_revoke_done:
  assumes "ids_unique db" and "0 < fst (sql_revoke clk acc (\<lambda>r. lr_id r = i) db)"
    and "r \<in> set (link_table (snd (sql_revoke clk acc (\<lambda>r. lr_id r = i) db)))" and "lr_revoked r = None"
  shows "lr_id r \<noteq> i"
proof
  assume ri: "lr_id r = i"
  let ?hit = "\<lambda>r. lr_account r = acc \<and> lr_id r = i \<and> lr_revoked r = None"
  have "filter ?hit (link_table db) \<noteq> []"
    using assms(2) by (auto simp: sql_revoke_def Let_def split_beta split: if_splits)
  then obtain h where h: "h \<in> set (link_table db)" "?hit h"
    by (auto simp: filter_empty_conv)
  obtain r0 where r0: "r0 \<in> set (link_table db)" "\<not> ?hit r0" "r0 = r"
    using assms(2-4) by (auto simp: sql_revoke_def Let_def split_beta split: if_splits)
  have "r0 = h" using assms(1) r0 h ri by (auto simp: ids_unique_def distinct_map inj_on_def)
  then show False using h r0 by simp
qed

lemma sql_join_found:
  "r \<in> set (sql_join clk acc d db) \<Longrightarrow>
   r \<in> set (link_table db) \<and> row_live (ck_db clk) r \<and>
   (\<exists>x\<in>set (session_table db). sr_account x = acc \<and> sr_hash x = d \<and> ck_db clk < sr_expires x \<and> sr_link x = lr_id r)"
  by (auto simp: sql_join_def)

lemma unix_float_less [simp]: "unix_float a < unix_float b \<longleftrightarrow> a < b"
  by (simp add: unix_float_def seconds_of_def divide_less_cancel)

lemma unix_float_le [simp]: "unix_float a \<le> unix_float b \<longleftrightarrow> a \<le> b"
  by (simp add: not_less flip: not_less)

lemma scan_live [simp]: "link_live (unix_float t) (scan_share_link r) = row_live t r"
  by (simp add: link_live_def row_live_def scan_share_link_def split: option.split)

interpretation sql_links: share_backend sql_held ids_unique sql_step "\<lambda>_. True" "\<lambda>c. unix_float (ck_db c)"
  "\<lambda>clk. sql_resolve clk acc" "sql_by_session acc" "sql_revoke_id acc" for acc
proof unfold_locales
  fix clk d db l
  assume "fst (sql_resolve clk acc d db) = Some l"
  then obtain r where r: "find (\<lambda>r. lr_account r = acc \<and> lr_hash r = d \<and> row_live (ck_db clk) r)
      (link_table db) = Some r" "l = (scan_share_link r)\<lparr>sl_last_used := Some (ck_app clk)\<rparr>"
    by (auto simp: sql_resolve_def split_beta split: if_splits option.splits)
  then have "r \<in> set (link_table db)" "lr_hash r = d" "row_live (ck_db clk) r"
    by (auto simp: find_Some_iff)
  then show "\<exists>l0\<in>set (sql_held db). sl_id l0 = sl_id l \<and> sl_hash l0 = d \<and> link_live (unix_float (ck_db clk)) l0"
    using r(2) by (intro bexI [of _ "scan_share_link r"]) (auto simp: sql_held_def)
next
  fix clk d db l
  assume "fst (sql_by_session acc clk d db) = Some l"
  then obtain r where "r \<in> set (sql_join clk acc d (snd (sql_stmt db)))" "l = scan_share_link r"
    by (auto simp: sql_by_session_def split_beta split: if_splits list.splits)
  then show "l \<in> set (sql_held db) \<and> link_live (unix_float (ck_db clk)) l"
    by (auto dest!: sql_join_found simp: sql_held_def)
next
  fix db clk i
  assume "ids_unique db" "0 < fst (sql_revoke_id acc clk i db)"
  then show "i \<notin> unrevoked_ids (sql_held (snd (sql_revoke_id acc clk i db)))"
    using sql_revoke_done [of db clk acc i]
    by (auto simp: sql_revoke_id_def unrevoked_iff sql_held_def scan_share_link_def)
next
  fix db clk i
  show "ids_unique db \<Longrightarrow> ids_unique (snd (sql_revoke_id acc clk i db))"
    using sql_step_grows [OF ss_revoke] by (auto simp: grows_def sql_revoke_id_def)
qed (use sql_step_grows in \<open>auto simp: grows_def\<close>)

section \<open>The store\<close>

text \<open>The calls of a store, with the ids of the links they create; and what the stores of other
  accounts do to the shared tables in between.\<close>

inductive share_step :: "string set \<Rightarrow> share_store \<Rightarrow> share_store \<Rightarrow> bool" where
  sh_create: "share_step ((\<lambda>k. snd (entropy k)) ` {..<length inputs}) s
     (snd (create_batch sha clk inputs expires_in entropy s))"
| sh_list: "share_step {} s (snd (share_list clk alias s))"
| sh_revoke: "share_step {} s (snd (share_revoke clk i s))"
| sh_revoke_alias: "share_step {} s (snd (revoke_for_alias clk alias s))"
| sh_resolve: "share_step {} s (snd (share_resolve sha clk token s))"
| sh_create_session: "share_step {} s (snd (create_session sha clk clk' token max_age fresh s))"
| sh_resolve_session: "share_step {} s (snd (resolve_session sha clk token s))"
| sh_clear: "share_step {} s (snd (clear_inactive clk s))"
| sh_other: "sh_db s = Some db \<Longrightarrow> sql_step I db db' \<Longrightarrow> share_step I s (s\<lparr>sh_db := Some db'\<rparr>)"

inductive share_reach :: "string \<Rightarrow> share_store \<Rightarrow> share_store \<Rightarrow> bool" for i where
  shr_refl: "share_reach i s s"
| shr_step: "share_reach i s s1 \<Longrightarrow> share_step I s1 s2 \<Longrightarrow> i \<notin> I \<Longrightarrow> share_reach i s s2"

definition backend_reach :: "string \<Rightarrow> share_store \<Rightarrow> share_store \<Rightarrow> bool" where
  "backend_reach i s s' \<longleftrightarrow> sh_account s' = sh_account s \<and>
     (case sh_db s of
        None \<Rightarrow> sh_db s' = None \<and> (json_links.avoids i)\<^sup>*\<^sup>* (sh_file s) (sh_file s')
      | Some db \<Rightarrow> (\<exists>db'. sh_db s' = Some db' \<and> (sql_links.avoids i)\<^sup>*\<^sup>* db db'))"

lemma backend_refl [simp]: "backend_reach i s s"
  by (auto simp: backend_reach_def split: option.split)

lemma backend_trans: "backend_reach i a b \<Longrightarrow> backend_reach i b c \<Longrightarrow> backend_reach i a c"
  by (auto simp: backend_reach_def split: option.splits dest: rtranclp_trans)

lemma backend_json:
  "sh_db s = None \<Longrightarrow> json_step I (sh_file s) c \<Longrightarrow> i \<notin> I \<Longrightarrow> backend_reach i s (s\<lparr>sh_file := c\<rparr>)"
  using json_links.avoids_def [of i "sh_file s" c] by (auto simp: backend_reach_def)

lemma backend_sql:
  "sh_db s = Some db \<Longrightarrow> sql_step I db db' \<Longrightarrow> i \<notin> I \<Longrightarrow> backend_reach i s (s\<lparr>sh_db := Some db'\<rparr>)"
  using sql_links.avoids_def [of i db db'] by (auto simp: backend_reach_def)

lemma build_links_ids:
  "build_links sha now d entropy k inputs = Inr built \<Longrightarrow>
   sl_id ` set (map fst built) \<subseteq> (\<lambda>j. snd (entropy j)) ` {k..<k + length inputs}"
proof (induction inputs arbitrary: k built)
  case (Cons i inputs)
  obtain tok ident where e: "entropy k = (tok, ident)" by (cases "entropy k")
  obtain h rest where r: "build_links sha now d entropy (Suc k) inputs = Inr rest"
    and b: "built = h # rest" "sl_id (fst h) = ident"
    using Cons.prems e by (auto split: if_splits sum.splits simp: Let_def)
  have a: "ident \<in> (\<lambda>j. snd (entropy j)) ` {k..<k + length (i # inputs)}"
    by (rule image_eqI [of _ _ k]) (simp_all add: e)
  have c: "(\<lambda>j. snd (entropy j)) ` {Suc k..<Suc k + length inputs}
      \<subseteq> (\<lambda>j. snd (entropy j)) ` {k..<k + length (i # inputs)}"
    by (rule image_mono) auto
  have "sl_id ` set (map fst built) = insert ident (sl_id ` set (map fst rest))"
    by (simp add: b)
  then show ?case using a order_trans [OF Cons.IH [OF r] c] by (simp only: insert_subset)
qed simp

lemma add_links_reach: "i \<notin> sl_id ` set links \<Longrightarrow> backend_reach i s (snd (add_links links s))"
  using backend_json [OF _ js_add] backend_sql [OF _ ss_add]
  by (cases "sh_db s") (simp_all add: add_links_def split_beta)

lemma resolve_reach: "backend_reach i s (snd (share_resolve sha clk token s))"
  using backend_json [OF _ js_resolve] backend_sql [OF _ ss_resolve]
  by (cases "sh_db s") (simp_all add: share_resolve_def split_beta Let_def)

lemma add_session_reach: "backend_reach i s (snd (add_session clk ses s))"
  using backend_json [OF _ js_session] backend_sql [OF _ ss_session]
  by (cases "sh_db s") (simp_all add: add_session_def split_beta)

lemma create_session_reach: "backend_reach i s (snd (create_session sha clk clk' token max_age fresh s))"
  using resolve_reach [of i s sha clk token]
    backend_trans [OF resolve_reach [of i s sha clk token] add_session_reach]
  by (auto simp: create_session_def split_beta Let_def split: option.split sum.split prod.split)

lemma share_step_reach: "share_step I s s' \<Longrightarrow> i \<notin> I \<Longrightarrow> backend_reach i s s'"
proof (induction rule: share_step.induct)
  case (sh_create entropy inputs s sha clk expires_in)
  have "backend_reach i s (snd (add_links (map fst built) s))"
    if "build_links sha (ck_app clk) expires_in entropy 0 inputs = Inr built" for built
    by (rule add_links_reach) (use build_links_ids [OF that] sh_create in \<open>auto simp: atLeast0LessThan\<close>)
  then show ?case by (auto simp: create_batch_def split_beta Let_def split: sum.split)
next
  case (sh_list s clk al)
  then show ?case using backend_json [OF _ js_read] backend_sql [OF _ ss_read]
    by (cases "sh_db s") (simp_all add: share_list_def split_beta Let_def)
next
  case (sh_revoke s clk j)
  then show ?case using backend_json [OF _ js_revoke] backend_sql [OF _ ss_revoke]
    by (cases "sh_db s") (simp_all add: share_revoke_def split_beta)
next
  case (sh_revoke_alias s clk al)
  then show ?case using backend_json [OF _ js_revoke] backend_sql [OF _ ss_revoke]
    by (cases "sh_db s") (simp_all add: revoke_for_alias_def split_beta)
next
  case (sh_resolve s sha clk token)
  show ?case by (rule resolve_reach)
next
  case (sh_create_session s sha clk clk' token max_age fresh)
  show ?case by (rule create_session_reach)
next
  case (sh_resolve_session s sha clk token)
  then show ?case using backend_json [OF _ js_read] backend_sql [OF _ ss_read]
    by (cases "sh_db s") (simp_all add: resolve_session_def split_beta Let_def)
next
  case (sh_clear s clk)
  then show ?case using backend_json [OF _ js_clear] backend_sql [OF _ ss_clear]
    by (cases "sh_db s") (simp_all add: clear_inactive_def split_beta)
next
  case (sh_other s db I db')
  then show ?case by (rule backend_sql)
qed

lemma share_reach_backend: "share_reach i s s' \<Longrightarrow> backend_reach i s s'"
  by (induction rule: share_reach.induct) (auto intro: share_step_reach backend_trans)

definition store_wf :: "share_store \<Rightarrow> bool" where
  "store_wf s \<longleftrightarrow> (\<forall>db. sh_db s = Some db \<longrightarrow> ids_unique db)"

text \<open>The two reads of a store as the reads of its back end.\<close>

lemma share_resolve_backend:
  assumes "fst (share_resolve sha clk token s) = Some l"
  shows "case sh_db s of
      None \<Rightarrow> fst (json_resolve clk (sha (trim_space token)) (sh_file s)) = Some l
    | Some db \<Rightarrow> fst (sql_resolve clk (sh_account s) (sha (trim_space token)) db) = Some l"
  using assms by (auto simp: share_resolve_def Let_def split_beta split: if_splits option.splits)

lemma resolve_session_backend:
  assumes "fst (resolve_session sha clk token s) = Some l"
  shows "case sh_db s of
      None \<Rightarrow> fst (json_by_session clk (sha token) (sh_file s)) = Some l
    | Some db \<Rightarrow> fst (sql_by_session (sh_account s) clk (sha token) db) = Some l"
  using assms
  by (auto simp: resolve_session_def json_by_session_def sql_by_session_def Let_def split_beta
      split: if_splits option.splits)


text \<open>
  With the JSON store the success \<open>Revoke\<close> reports need not have happened: when the file cannot
  be written the link stays in force and its token still resolves.
\<close>

theorem revoke_reports_unsaved:
  assumes "sh_db s = None" and "sh_file s = \<lparr>cell_doc = Some (StateDoc st), read_faults = [], write_faults = [True]\<rparr>"
    and "l \<in> set (sh_links st)" and "link_live (ck_app clk) l" and "sl_hash l = sha (trim_space token)"
    and "trim_space token \<noteq> []"
  shows "fst (share_revoke clk (sl_id l) s) \<and>
    fst (share_resolve sha clk token (snd (share_revoke clk (sl_id l) s))) \<noteq> None"
proof -
  have f: "filter (\<lambda>x. sl_id x = sl_id l \<and> sl_revoked x = None) (sh_links st) \<noteq> []"
    using assms(3,4) by (auto simp: filter_empty_conv link_live_def)
  have n: "stamp_first P now ls \<noteq> None" if "x \<in> set ls" "P x" for P now x and ls :: "share_link list"
    using that by (induction ls) auto
  show ?thesis
    using f n [OF assms(3), of "\<lambda>x. sl_hash x = sl_hash l \<and> link_live (ck_app clk) x" "ck_app clk"] assms
    by (auto simp: share_revoke_def json_revoke_def share_load_def cell_read_def share_save_def cell_write_def
        Let_def share_resolve_def json_resolve_def split_beta)
qed

section \<open>Sessions\<close>

text \<open>
  A session resolves only before its stored end and only to a link that is neither revoked nor
  expired by the clock of the back end, whatever statements fail.
\<close>

theorem session_resolves_only_live:
  assumes "fst (resolve_session sha clk token s) = Some l"
  shows "case sh_db s of
      None \<Rightarrow> link_live (ck_app clk) l \<and> (\<exists>x\<in>set (sh_sessions (doc_state (cell_doc (sh_file s)))).
          ss_hash x = sha token \<and> ck_app clk < ss_expires x \<and> ss_link x = sl_id l)
    | Some db \<Rightarrow> link_live (unix_float (ck_db clk)) l \<and> (\<exists>x\<in>set (session_table db). sr_account x = sh_account s \<and>
          sr_hash x = sha token \<and> ck_db clk < sr_expires x \<and> sr_link x = sl_id l)"
proof (cases "sh_db s")
  case None
  let ?st = "fst (share_load (sh_file s))"
  have j: "json_find_session clk (sha token) (sh_links ?st) (sh_sessions ?st) = Some l"
    using resolve_session_backend [OF assms] None by (simp add: json_by_session_def split_beta)
  have "?st = doc_state (cell_doc (sh_file s))"
    using share_load_state [of "sh_file s"] json_find_session_found [OF j]
    by (auto simp: empty_share_state_def)
  then show ?thesis using None json_find_session_found [OF j] by auto
next
  case (Some db)
  obtain r where "r \<in> set (sql_join clk (sh_account s) (sha token) (snd (sql_stmt db)))" "l = scan_share_link r"
    using resolve_session_backend [OF assms] Some
    by (auto simp: sql_by_session_def split_beta split: if_splits list.splits)
  then show ?thesis using Some by (auto dest!: sql_join_found)
qed

text \<open>A store none of whose reads, writes and statements fails.\<close>

definition store_ok :: "share_store \<Rightarrow> bool" where
  "store_ok s \<longleftrightarrow> (case sh_db s of None \<Rightarrow> cell_ok (sh_file s) | Some db \<Rightarrow> stmt_faults db = [])"

lemma share_load_ok: "cell_ok c \<Longrightarrow> share_load c = (doc_state (cell_doc c), c)"
  by (simp add: share_load_def cell_read_ok doc_state_def split: option.split share_doc.split)

lemma sql_stmt_ok: "stmt_faults db = [] \<Longrightarrow> sql_stmt db = (True, db)"
  by (simp add: sql_stmt_def)

lemma share_resolve_ok: "store_ok s \<Longrightarrow> store_ok (snd (share_resolve sha clk token s))"
  by (auto simp: store_ok_def share_resolve_def json_resolve_def sql_resolve_def sql_touch_def share_load_ok
      sql_stmt_ok share_save_def cell_write_ok Let_def split_beta split: option.splits)

text \<open>The ends of the stored sessions with a digest, by the clock of the back end, and the links a
  session may lead to.\<close>

definition session_ends :: "string \<Rightarrow> share_store \<Rightarrow> unixtime set" where
  "session_ends d s =
     (case sh_db s of
        None \<Rightarrow> ss_expires ` {x \<in> set (sh_sessions (doc_state (cell_doc (sh_file s)))). ss_hash x = d}
      | Some db \<Rightarrow> (unix_float \<circ> sr_expires) ` {x \<in> set (session_table db). sr_hash x = d})"

definition backend_time :: "share_store \<Rightarrow> clock \<Rightarrow> unixtime" where
  "backend_time s clk = (case sh_db s of None \<Rightarrow> ck_app clk | Some _ \<Rightarrow> unix_float (ck_db clk))"

definition kept_time :: "share_store \<Rightarrow> unixtime \<Rightarrow> unixtime" where
  "kept_time s t = (case sh_db s of None \<Rightarrow> t | Some db \<Rightarrow> unix_float (sql_time db t))"

definition store_links :: "share_store \<Rightarrow> share_link list" where
  "store_links s = (case sh_db s of None \<Rightarrow> json_held (sh_file s) | Some db \<Rightarrow> sql_held db)"

lemma share_resolve_frame:
  "store_ok s \<Longrightarrow> session_ends d (snd (share_resolve sha clk token s)) = session_ends d s \<and>
     (sh_db (snd (share_resolve sha clk token s)) = None \<longleftrightarrow> sh_db s = None) \<and>
     sh_account (snd (share_resolve sha clk token s)) = sh_account s"
  by (auto simp: session_ends_def store_ok_def share_resolve_def json_resolve_def sql_resolve_def sql_touch_def
      share_load_ok sql_stmt_ok share_save_def cell_write_ok doc_state_def Let_def split_beta split: option.splits)

lemma json_find_session_new:
  "\<forall>x\<in>set xs. ss_hash x \<noteq> d \<Longrightarrow>
   json_find_session clk d links (xs @ [y]) =
     (if ss_hash y = d \<and> ck_app clk < ss_expires y
      then find (\<lambda>l. sl_id l = ss_link y \<and> link_live (ck_app clk) l) links else None)"
  by (induction xs) (auto split: option.split)

lemma find_guarded:
  "((if b then find P xs else None) \<noteq> None \<longleftrightarrow> b \<and> (\<exists>x\<in>set xs. P x)) \<and>
   (\<forall>x. (if b then find P xs else None) = Some x \<longrightarrow> P x)"
  by (cases b) (auto simp: find_None_iff find_Some_iff)

text \<open>The session just stored is the only one with its digest.\<close>

lemma new_session_resolves:
  assumes ok: "store_ok s" and add: "fst (add_session clk' ses s)" and fresh: "session_ends (ss_hash ses) s = {}"
    and h: "ss_hash ses = sha t" and t: "trim_space t \<noteq> []" and s': "s' = snd (add_session clk' ses s)"
  shows "(fst (resolve_session sha c t s') \<noteq> None \<longleftrightarrow>
      backend_time s' c < kept_time s' (ss_expires ses) \<and>
      (\<exists>x\<in>set (store_links s'). sl_id x = ss_link ses \<and> link_live (backend_time s' c) x)) \<and>
    (\<forall>l. fst (resolve_session sha c t s') = Some l \<longrightarrow> sl_id l = ss_link ses)"
proof (cases "sh_db s")
  case None
  let ?st = "doc_state (cell_doc (sh_file s))"
  let ?old = "filter (\<lambda>x. ck_app clk' < ss_expires x) (sh_sessions ?st)"
  have c: "cell_ok (sh_file s)" using ok None by (simp add: store_ok_def)
  have n: "\<forall>x\<in>set ?old. ss_hash x \<noteq> sha t" using fresh None h by (auto simp: session_ends_def)
  have "s' = s\<lparr>sh_file := (sh_file s)\<lparr>cell_doc := Some (StateDoc (?st\<lparr>sh_sessions := ?old @ [ses]\<rparr>))\<rparr>\<rparr>"
    using None c s' by (simp add: add_session_def json_add_session_def share_load_ok share_save_def cell_write_ok)
  then have r: "fst (resolve_session sha c t s') =
      (if ck_app c < ss_expires ses then find (\<lambda>l. sl_id l = ss_link ses \<and> link_live (ck_app c) l) (sh_links ?st) else None)"
    and v: "store_links s' = sh_links ?st" "backend_time s' c = ck_app c" "kept_time s' (ss_expires ses) = ss_expires ses"
    using None t h c json_find_session_new [OF n, of c]
    by (simp_all add: resolve_session_def share_load_ok doc_state_def store_links_def json_held_def
        backend_time_def kept_time_def)
  show ?thesis unfolding r v
    using find_guarded [of "ck_app c < ss_expires ses" "\<lambda>l. sl_id l = ss_link ses \<and> link_live (ck_app c) l"
        "sh_links ?st"] by blast
next
  case (Some db)
  let ?row = "session_to_row db (sh_account s) ses"
  let ?db = "snd (sql_drop_sessions clk' (sh_account s) db)"
  let ?hit = "\<lambda>r. lr_id r = ss_link ses \<and> row_live (ck_db c) r"
  have f: "stmt_faults db = []" using ok Some by (simp add: store_ok_def)
  have d: "?db = db\<lparr>session_table := filter (\<lambda>r. \<not> (sr_account r = sh_account s \<and> sr_expires r \<le> ck_db clk'))
      (session_table db)\<rparr>"
    using f by (simp add: sql_drop_sessions_def sql_stmt_ok)
  have row: "session_to_row ?db (sh_account s) ses = ?row" by (simp add: d session_to_row_def sql_time_def)
  have n: "\<forall>x\<in>set (session_table db). sr_hash x \<noteq> sha t" using fresh Some h by (auto simp: session_ends_def)
  have "s' = s\<lparr>sh_db := Some (?db\<lparr>session_table := session_table ?db @ [?row]\<rparr>)\<rparr>"
    using add Some s' f d row
    by (auto simp: add_session_def sql_add_session_def insert_session_def sql_stmt_ok split_beta split: if_splits)
  moreover have "filter (\<lambda>x. sr_account x = sh_account s \<and> sr_hash x = sha t \<and> ck_db c < sr_expires x)
      (session_table ?db @ [?row]) = (if ck_db c < sr_expires ?row then [?row] else [])"
    using n h by (auto simp: d session_to_row_def filter_empty_conv)
  ultimately have r: "fst (resolve_session sha c t s') =
      (if ck_db c < sr_expires ?row
       then (case filter ?hit (link_table db) of [] \<Rightarrow> None | r # _ \<Rightarrow> Some (scan_share_link r)) else None)"
    and v: "store_links s' = sql_held db" "backend_time s' c = unix_float (ck_db c)"
      "kept_time s' (ss_expires ses) = unix_float (sr_expires ?row)"
    using f t by (simp_all add: resolve_session_def sql_stmt_ok d sql_join_def store_links_def sql_held_def
        backend_time_def kept_time_def session_to_row_def sql_time_def)
  have e: "(\<exists>x\<in>set (sql_held db). sl_id x = ss_link ses \<and> link_live (unix_float (ck_db c)) x) \<longleftrightarrow>
      filter ?hit (link_table db) \<noteq> []"
    by (auto simp: sql_held_def filter_empty_conv)
  have i: "filter ?hit (link_table db) = r # rs \<Longrightarrow> lr_id r = ss_link ses" for r rs
    by (metis (mono_tags, lifting) filter_eq_Cons_iff)
  show ?thesis
  proof (cases "filter ?hit (link_table db)")
    case Nil
    show ?thesis unfolding r v e Nil by simp
  next
    case (Cons x xs)
    show ?thesis unfolding r v e Cons using i [OF Cons] by simp
  qed
qed

text \<open>
  A created session works, for exactly as long as it should: with the digest of a new random
  token and no failing statement, the returned token resolves to the link it was created for until
  the stored end, which is after now, within the requested age and not after the link's own end, and
  only while the link lives.
\<close>

theorem share_session_roundtrip:
  assumes "store_ok s" and "create_session sha clk clk' token max_age (Inr t) s = (Some (t', l), s')"
    and "session_ends (sha t) s = {}" and "trim_space t \<noteq> []"
  shows "t' = t \<and> ck_app clk' < session_expiry (ck_app clk') max_age l \<and>
    session_expiry (ck_app clk') max_age l \<le> ck_app clk' + of_int max_age \<and>
    (\<forall>e. sl_expires l = Some e \<longrightarrow> session_expiry (ck_app clk') max_age l \<le> e) \<and>
    (fst (resolve_session sha c t s') \<noteq> None \<longleftrightarrow>
      backend_time s' c < kept_time s' (session_expiry (ck_app clk') max_age l) \<and>
      (\<exists>x\<in>set (store_links s'). sl_id x = sl_id l \<and> link_live (backend_time s' c) x)) \<and>
    (\<forall>l'. fst (resolve_session sha c t s') = Some l' \<longrightarrow> sl_id l' = sl_id l)"
proof -
  let ?s1 = "snd (share_resolve sha clk token s)"
  let ?ses = "\<lparr>ss_hash = sha t, ss_link = sl_id l, ss_expires = session_expiry (ck_app clk') max_age l\<rparr>"
  have a: "t' = t" "ck_app clk' < session_expiry (ck_app clk') max_age l"
    "fst (add_session clk' ?ses ?s1)" "s' = snd (add_session clk' ?ses ?s1)"
    using assms(2) by (auto simp: create_session_def Let_def split_beta split: if_splits option.splits prod.splits)
  have b: "session_expiry (ck_app clk') max_age l \<le> ck_app clk' + of_int max_age \<and>
    (\<forall>e. sl_expires l = Some e \<longrightarrow> session_expiry (ck_app clk') max_age l \<le> e)"
    by (auto simp: session_expiry_def Let_def split: option.split)
  have ok: "store_ok ?s1" by (rule share_resolve_ok [OF assms(1)])
  have "session_ends (ss_hash ?ses) ?s1 = {}" using share_resolve_frame [OF assms(1)] assms(3) by simp
  note new_session_resolves [OF ok a(3) this _ assms(4) a(4), of sha c, unfolded share_session.select_convs, OF refl]
  then show ?thesis using a(1,2) b by blast
qed

section \<open>Agreement of the two back ends\<close>

definition scan_session :: "session_row \<Rightarrow> share_session" where
  "scan_session r = \<lparr>ss_hash = sr_hash r, ss_link = sr_link r, ss_expires = unix_float (sr_expires r)\<rparr>"

definition account_state :: "string \<Rightarrow> share_db \<Rightarrow> share_state" where
  "account_state acc db =
     \<lparr>sh_links = map scan_share_link (filter (\<lambda>r. lr_account r = acc) (link_table db)),
      sh_sessions = map scan_session (filter (\<lambda>r. sr_account r = acc) (session_table db))\<rparr>"

definition file_of :: "share_state \<Rightarrow> share_doc cell" where
  "file_of st = \<lparr>cell_doc = Some (StateDoc st), read_faults = [], write_faults = []\<rparr>"

text \<open>The JSON store that holds what the tables hold for the account of a store.\<close>

definition json_twin :: "share_store \<Rightarrow> share_store" where
  "json_twin s = s\<lparr>sh_db := None, sh_file := (case sh_db s of None \<Rightarrow> sh_file s
     | Some db \<Rightarrow> file_of (account_state (sh_account s) db))\<rparr>"

text \<open>The sessions of an account refer to its own links.\<close>

definition own_sessions :: "string \<Rightarrow> share_db \<Rightarrow> bool" where
  "own_sessions acc db \<longleftrightarrow> (\<forall>x\<in>set (session_table db). \<forall>r\<in>set (link_table db).
     sr_account x = acc \<longrightarrow> lr_id r = sr_link x \<longrightarrow> lr_account r = acc)"

lemma file_of_simps [simp]: "share_load (file_of st) = (st, file_of st)"
  "share_save st' (file_of st) = (True, file_of st')"
  by (simp_all add: share_load_def share_save_def file_of_def cell_read_def cell_write_def)

text \<open>Both clocks agree and the columns keep the present time.\<close>

definition clocks_agree :: "clock \<Rightarrow> share_db \<Rightarrow> bool" where
  "clocks_agree clk db \<longleftrightarrow> ck_app clk = unix_float (ck_db clk) \<and> sql_time db (ck_app clk) = ck_db clk"

lemma scan_updates:
  "scan_share_link (r\<lparr>lr_revoked := Some t\<rparr>) = (scan_share_link r)\<lparr>sl_revoked := Some (unix_float t)\<rparr>"
  "scan_share_link (r\<lparr>lr_last_used := Some t\<rparr>) = (scan_share_link r)\<lparr>sl_last_used := Some (unix_float t)\<rparr>"
  by (simp_all add: scan_share_link_def)

lemma map_hits:
  assumes "\<And>r. r \<in> set t \<Longrightarrow> acc (f r) = acc r"
    and "\<And>r. r \<in> set t \<Longrightarrow> acc r \<Longrightarrow> scan (f r) = g (scan r)"
  shows "map scan (filter acc (map f t)) = map g (map scan (filter acc t))"
  using assms by (induction t) auto

lemma count_hits: "length (filter (\<lambda>r. acc r \<and> P (scan r)) t) = length (filter P (map scan (filter acc t)))"
  by (induction t) auto

lemma map_no_hit: "filter P xs = [] \<Longrightarrow> map (\<lambda>x. if P x then f x else x) xs = xs"
  by (induction xs) (auto split: if_splits)

lemma json_revoke_file:
  "json_revoke clk Q (file_of st) =
     (length (filter (\<lambda>l. Q l \<and> sl_revoked l = None) (sh_links st)),
      file_of (st\<lparr>sh_links := map (\<lambda>l. if Q l \<and> sl_revoked l = None
        then l\<lparr>sl_revoked := Some (ck_app clk)\<rparr> else l) (sh_links st)\<rparr>))"
  using map_no_hit [of "\<lambda>l. Q l \<and> sl_revoked l = None" "sh_links st"]
  by (cases "filter (\<lambda>l. Q l \<and> sl_revoked l = None) (sh_links st) = []")
    (simp_all add: json_revoke_def Let_def)

lemma revoke_agrees:
  assumes "stmt_faults db = []" and "clocks_agree clk db" and PQ: "\<And>r. P r = Q (scan_share_link r)"
  shows "fst (sql_revoke clk acc P db) = fst (json_revoke clk Q (file_of (account_state acc db)))"
    and "file_of (account_state acc (snd (sql_revoke clk acc P db))) =
      snd (json_revoke clk Q (file_of (account_state acc db)))"
proof -
  let ?t = "link_table db" and ?acc = "\<lambda>r. lr_account r = acc"
  let ?ls = "map scan_share_link (filter ?acc ?t)"
  let ?hit = "\<lambda>l. Q l \<and> sl_revoked l = None"
  let ?g = "\<lambda>l. if ?hit l then l\<lparr>sl_revoked := Some (ck_app clk)\<rparr> else l"
  let ?f = "\<lambda>r. if ?acc r \<and> P r \<and> lr_revoked r = None then r\<lparr>lr_revoked := Some (sql_time db (ck_app clk))\<rparr> else r"
  have n: "length (filter (\<lambda>r. ?acc r \<and> P r \<and> lr_revoked r = None) ?t) = length (filter ?hit ?ls)"
    using count_hits [of ?acc ?hit scan_share_link ?t] by (simp add: PQ)
  have m: "map scan_share_link (filter ?acc (map ?f ?t)) = map ?g ?ls"
    by (rule map_hits) (use assms(2) in \<open>auto simp: PQ clocks_agree_def scan_updates\<close>)
  have q: "sql_revoke clk acc P db = (length (filter ?hit ?ls), db\<lparr>link_table := map ?f ?t\<rparr>)"
    using assms(1) n by (simp add: sql_revoke_def sql_stmt_ok Let_def)
  have j: "json_revoke clk Q (file_of (account_state acc db)) =
      (length (filter ?hit ?ls), file_of ((account_state acc db)\<lparr>sh_links := map ?g ?ls\<rparr>))"
    by (simp add: json_revoke_file account_state_def)
  show "fst (sql_revoke clk acc P db) = fst (json_revoke clk Q (file_of (account_state acc db)))"
    by (simp add: q j)
  show "file_of (account_state acc (snd (sql_revoke clk acc P db))) =
      snd (json_revoke clk Q (file_of (account_state acc db)))"
    unfolding q j snd_conv by (simp add: account_state_def m)
qed

lemma stamp_agrees:
  assumes "distinct (map lr_id t)" and "\<And>r. P r = Q (scan_share_link r)"
    and f: "\<And>i r. f i r = (if lr_account r = acc \<and> lr_id r = i then r\<lparr>lr_last_used := Some u\<rparr> else r)"
    and u: "unix_float u = now"
  shows "stamp_first Q now (map scan_share_link (filter (\<lambda>r. lr_account r = acc) t)) =
    (case find (\<lambda>r. lr_account r = acc \<and> P r) t of
       None \<Rightarrow> None
     | Some r \<Rightarrow> Some ((scan_share_link r)\<lparr>sl_last_used := Some now\<rparr>,
         map scan_share_link (filter (\<lambda>r. lr_account r = acc) (map (f (lr_id r)) t))))"
  using assms(1)
proof (induction t)
  case (Cons a t)
  have same: "map (f (lr_id a)) t = t"
    using Cons.prems by (intro map_idI) (auto simp: f image_iff)
  have other: "r \<in> set t \<Longrightarrow> f (lr_id r) a = a" for r using Cons.prems by (auto simp: f image_iff)
  show ?case
  proof (cases "lr_account a = acc \<and> P a")
    case True
    then show ?thesis using same by (simp add: assms(2) f u scan_updates)
  next
    case False
    show ?thesis
    proof (cases "find (\<lambda>r. lr_account r = acc \<and> P r) t")
      case None
      then show ?thesis using Cons False by (auto simp: assms(2))
    next
      case (Some r)
      then have "f (lr_id r) a = a" using other find_in by fast
      then show ?thesis using Cons False Some by (auto simp: assms(2))
    qed
  qed
qed simp

lemma resolve_agrees:
  assumes "stmt_faults db = []" and "clocks_agree clk db" and "ids_unique db"
  shows "fst (sql_resolve clk acc d db) = fst (json_resolve clk d (file_of (account_state acc db)))"
    and "file_of (account_state acc (snd (sql_resolve clk acc d db))) =
      snd (json_resolve clk d (file_of (account_state acc db)))"
proof -
  let ?t = "link_table db" and ?P = "\<lambda>r. lr_hash r = d \<and> row_live (ck_db clk) r"
  let ?f = "\<lambda>i r. if lr_account r = acc \<and> lr_id r = i then r\<lparr>lr_last_used := Some (ck_db clk)\<rparr> else r"
  have now: "unix_float (ck_db clk) = ck_app clk" "sql_time db (ck_app clk) = ck_db clk"
    using assms(2) unfolding clocks_agree_def by (elim conjE, simp only:)+
  have PQ: "?P r = (sl_hash (scan_share_link r) = d \<and> link_live (ck_app clk) (scan_share_link r))" for r
    by (simp flip: now(1))
  note st = stamp_agrees [where f = ?f and P = ?P and acc = acc and
      Q = "\<lambda>l. sl_hash l = d \<and> link_live (ck_app clk) l", OF assms(3) [unfolded ids_unique_def] PQ refl now(1)]
  have j: "json_resolve clk d (file_of (account_state acc db)) =
      (case find (\<lambda>r. lr_account r = acc \<and> ?P r) ?t of
         None \<Rightarrow> (None, file_of (account_state acc db))
       | Some r \<Rightarrow> (Some ((scan_share_link r)\<lparr>sl_last_used := Some (ck_app clk)\<rparr>),
           file_of ((account_state acc db)\<lparr>sh_links := map scan_share_link
             (filter (\<lambda>r. lr_account r = acc) (map (?f (lr_id r)) ?t))\<rparr>)))"
    unfolding json_resolve_def file_of_simps prod.case
    by (simp add: account_state_def st split: option.split)
  have q: "sql_resolve clk acc d db =
      (case find (\<lambda>r. lr_account r = acc \<and> ?P r) ?t of
         None \<Rightarrow> (None, db)
       | Some r \<Rightarrow> (Some ((scan_share_link r)\<lparr>sl_last_used := Some (ck_app clk)\<rparr>),
           db\<lparr>link_table := map (?f (lr_id r)) ?t\<rparr>))"
    using assms(1) now by (simp add: sql_resolve_def sql_touch_def sql_stmt_ok Let_def split: option.split)
  show "fst (sql_resolve clk acc d db) = fst (json_resolve clk d (file_of (account_state acc db)))"
    unfolding j q by (simp split: option.split)
  show "file_of (account_state acc (snd (sql_resolve clk acc d db))) =
      snd (json_resolve clk d (file_of (account_state acc db)))"
    unfolding j q by (simp add: account_state_def split: option.split)
qed

lemma find_map_filter:
  assumes "\<And>r. r \<in> set t \<Longrightarrow> R r \<Longrightarrow> A r" and "\<And>r. R r = Q (g r)"
  shows "find Q (map g (filter A t)) = (case filter R t of [] \<Rightarrow> None | r # _ \<Rightarrow> Some (g r))"
  using assms by (induction t) (auto split: list.split)

lemma find_session_agrees:
  assumes "ck_app clk = unix_float (ck_db clk)"
    and "\<And>x r. x \<in> set xs \<Longrightarrow> r \<in> set t \<Longrightarrow> sr_account x = acc \<Longrightarrow> lr_id r = sr_link x \<Longrightarrow> lr_account r = acc"
  shows "json_find_session clk d (map scan_share_link (filter (\<lambda>r. lr_account r = acc) t))
      (map scan_session (filter (\<lambda>x. sr_account x = acc) xs)) =
    (case concat (map (\<lambda>x. filter (\<lambda>r. lr_id r = sr_link x \<and> row_live (ck_db clk) r) t)
        (filter (\<lambda>x. sr_account x = acc \<and> sr_hash x = d \<and> sr_expires x > ck_db clk) xs)) of
       [] \<Rightarrow> None | r # _ \<Rightarrow> Some (scan_share_link r))"
  using assms(2)
proof (induction xs)
  case (Cons x xs)
  have f: "sr_account x = acc \<Longrightarrow>
      find (\<lambda>l. sl_id l = sr_link x \<and> link_live (ck_app clk) l) (map scan_share_link (filter (\<lambda>r. lr_account r = acc) t)) =
      (case filter (\<lambda>r. lr_id r = sr_link x \<and> row_live (ck_db clk) r) t of [] \<Rightarrow> None | r # _ \<Rightarrow> Some (scan_share_link r))"
    by (rule find_map_filter) (use Cons.prems [of x] in \<open>auto simp: assms(1)\<close>)
  have IH: "json_find_session clk d (map scan_share_link (filter (\<lambda>r. lr_account r = acc) t))
      (map scan_session (filter (\<lambda>x. sr_account x = acc) xs)) =
    (case concat (map (\<lambda>x. filter (\<lambda>r. lr_id r = sr_link x \<and> row_live (ck_db clk) r) t)
        (filter (\<lambda>x. sr_account x = acc \<and> sr_hash x = d \<and> sr_expires x > ck_db clk) xs)) of
       [] \<Rightarrow> None | r # _ \<Rightarrow> Some (scan_share_link r))"
    by (rule Cons.IH) (rule Cons.prems, auto)
  have e: "ss_expires (scan_session x) \<le> ck_app clk \<longleftrightarrow> \<not> ck_db clk < sr_expires x"
    using unix_float_less [of "ck_db clk" "sr_expires x"] by (simp add: scan_session_def assms(1) not_less)
  have h: "ss_hash (scan_session x) = sr_hash x" "ss_link (scan_session x) = sr_link x"
    by (simp_all add: scan_session_def)
  show ?case
    by (cases "filter (\<lambda>r. lr_id r = sr_link x \<and> row_live (ck_db clk) r) t")
      (auto simp: f IH e h split: list.split)
qed simp

lemma resolve_session_agrees:
  assumes "stmt_faults db = []" and "clocks_agree clk db" and "own_sessions acc db"
  shows "sql_by_session acc clk d db = (fst (json_by_session clk d (file_of (account_state acc db))), db)"
    and "snd (json_by_session clk d (file_of (account_state acc db))) = file_of (account_state acc db)"
proof -
  have a: "ck_app clk = unix_float (ck_db clk)" using assms(2) by (simp add: clocks_agree_def)
  have "json_find_session clk d (map scan_share_link (filter (\<lambda>r. lr_account r = acc) (link_table db)))
      (map scan_session (filter (\<lambda>x. sr_account x = acc) (session_table db))) =
    (case sql_join clk acc d db of [] \<Rightarrow> None | r # _ \<Rightarrow> Some (scan_share_link r))"
    unfolding sql_join_def
    by (rule find_session_agrees [OF a]) (use assms(3) in \<open>auto simp: own_sessions_def\<close>)
  then show "sql_by_session acc clk d db = (fst (json_by_session clk d (file_of (account_state acc db))), db)"
    using assms(1) by (simp add: sql_by_session_def json_by_session_def sql_stmt_ok account_state_def)
  show "snd (json_by_session clk d (file_of (account_state acc db))) = file_of (account_state acc db)"
    by (simp add: json_by_session_def)
qed

lemma scan_filters:
  assumes "\<And>r. over (scan_share_link r) = bad r"
  shows "map sl_id (filter over (map scan_share_link (filter A t))) = map lr_id (filter (\<lambda>r. A r \<and> bad r) t)"
    and "filter (\<lambda>l. \<not> over l) (map scan_share_link (filter A t)) =
      map scan_share_link (filter A (filter (\<lambda>r. \<not> (A r \<and> bad r)) t))"
  using assms by (induction t) auto

lemma clear_agrees:
  assumes "stmt_faults db = []" and "clocks_agree clk db" and "ids_unique db"
  shows "fst (sql_clear clk acc db) = fst (json_clear clk (file_of (account_state acc db)))"
    and "file_of (account_state acc (snd (sql_clear clk acc db))) =
      snd (json_clear clk (file_of (account_state acc db)))"
proof -
  let ?t = "link_table db" and ?ses = "session_table db"
  let ?ls = "map scan_share_link (filter (\<lambda>r. lr_account r = acc) ?t)"
  let ?dead = "\<lambda>r. lr_account r = acc \<and>
    (lr_revoked r \<noteq> None \<or> (case lr_expires r of None \<Rightarrow> False | Some e \<Rightarrow> e \<le> ck_db clk))"
  let ?over = "\<lambda>l. sl_revoked l \<noteq> None \<or> (case sl_expires l of None \<Rightarrow> False | Some e \<Rightarrow> e \<le> ck_app clk)"
  let ?gone = "map lr_id (filter ?dead ?t)"
  have now: "ck_app clk = unix_float (ck_db clk)" using assms(2) by (simp add: clocks_agree_def)
  have d: "?over (scan_share_link r) \<longleftrightarrow>
      lr_revoked r \<noteq> None \<or> (case lr_expires r of None \<Rightarrow> False | Some e \<Rightarrow> e \<le> ck_db clk)" for r
    by (simp add: now split: option.split)
  have g: "map sl_id (filter ?over ?ls) = ?gone"
    by (rule scan_filters(1)) (rule d)
  have l: "filter (\<lambda>l. \<not> ?over l) ?ls =
      map scan_share_link (filter (\<lambda>r. lr_account r = acc) (filter (\<lambda>r. \<not> ?dead r) ?t))"
    by (rule scan_filters(2)) (rule d)
  have u: "remdups ?gone = ?gone" using assms(3) by (simp add: ids_unique_def distinct_map_filter)
  have x: "filter (\<lambda>x. ss_expires x > ck_app clk \<and> ss_link x \<notin> G)
        (map scan_session (filter (\<lambda>r. sr_account r = acc) xs)) =
      map scan_session (filter (\<lambda>r. sr_account r = acc) (filter (\<lambda>x. sr_link x \<notin> G)
        (filter (\<lambda>r. \<not> (sr_account r = acc \<and> sr_expires r \<le> ck_db clk)) xs)))" for G xs
    by (induction xs) (auto simp: scan_session_def now)
  have j: "json_clear clk (file_of (account_state acc db)) =
      ((length ?gone, True), file_of \<lparr>sh_links = filter (\<lambda>l. \<not> ?over l) ?ls, sh_sessions =
        filter (\<lambda>x. ss_expires x > ck_app clk \<and> ss_link x \<notin> set ?gone)
        (map scan_session (filter (\<lambda>r. sr_account r = acc) ?ses))\<rparr>)"
    unfolding json_clear_def file_of_simps prod.case Let_def
    by (simp only: account_state_def share_state.select_convs g u file_of_simps prod.case)
  have q: "sql_clear clk acc db = ((length (filter ?dead ?t), True),
      delete_links ?dead (db\<lparr>session_table := filter (\<lambda>r. \<not> (sr_account r = acc \<and> sr_expires r \<le> ck_db clk)) ?ses\<rparr>))"
    using assms(1) by (simp add: sql_clear_def sql_drop_sessions_def sql_stmt_ok Let_def delete_links_def)
  show "fst (sql_clear clk acc db) = fst (json_clear clk (file_of (account_state acc db)))"
    unfolding j q by simp
  show "file_of (account_state acc (snd (sql_clear clk acc db))) =
      snd (json_clear clk (file_of (account_state acc db)))"
    unfolding j q snd_conv l x by (simp add: account_state_def delete_links_def Let_def)
qed


section \<open>Batches\<close>

lemma sql_add_failed: "\<not> fst (sql_add_links acc links db) \<Longrightarrow> link_table (snd (sql_add_links acc links db)) = link_table db"
  by (auto simp: sql_add_links_def split_beta Let_def split: prod.splits bool.splits)

lemma json_add_failed:
  "\<not> fst (json_add_links links c) \<Longrightarrow> json_held (snd (json_add_links links c)) = json_held c"
proof -
  have "\<not> fst (share_save st d) \<Longrightarrow> cell_doc (snd (share_save st d)) = cell_doc d" for st d
    by (auto simp: share_save_def cell_write_def split: list.splits if_splits)
  then show "\<not> fst (json_add_links links c) \<Longrightarrow> json_held (snd (json_add_links links c)) = json_held c"
    by (simp add: json_add_links_def split_beta Let_def json_held_def share_load_cell)
qed

lemma run_inserts:
  "stmt_faults db = [] \<Longrightarrow> fst (run_all insert_link rs db) \<Longrightarrow>
   stmt_faults (snd (run_all insert_link rs db)) = [] \<and>
   link_table (snd (run_all insert_link rs db)) = link_table db @ rs"
proof (induction rs arbitrary: db)
  case (Cons r rs)
  let ?db = "db\<lparr>link_table := link_table db @ [r]\<rparr>"
  have "\<not> link_conflict db r" "run_all insert_link (r # rs) db = run_all insert_link rs ?db"
    using Cons.prems by (auto simp: insert_link_def sql_stmt_ok split: if_splits)
  then show ?case using Cons.IH [of ?db] Cons.prems by simp
qed simp

lemma add_links_done:
  assumes "store_ok s" and "fst (add_links links s)"
  shows "store_links (snd (add_links links s)) = store_links s @
    (case sh_db s of None \<Rightarrow> links | Some db \<Rightarrow> map (scan_share_link \<circ> link_to_row db (sh_account s)) links)"
proof (cases "sh_db s")
  case None
  then show ?thesis using assms
    by (simp add: store_ok_def add_links_def split_beta json_add_links_def share_load_ok share_save_def
        cell_write_ok store_links_def json_held_def doc_state_def)
next
  case (Some db)
  let ?rows = "map (link_to_row db (sh_account s)) links"
  have f: "stmt_faults db = []" using assms(1) Some by (simp add: store_ok_def)
  have "fst (run_all insert_link ?rows db)"
    using assms(2) Some f by (auto simp: add_links_def split_beta sql_add_links_def sql_stmt_ok split: prod.splits bool.splits)
  then show ?thesis
    using Some run_inserts [OF f, of ?rows]
    by (cases "run_all insert_link ?rows db")
      (auto simp: add_links_def sql_add_links_def f sql_stmt_ok store_links_def sql_held_def)
qed

lemma build_links_spec:
  "build_links sha now d entropy k inputs = Inr built \<Longrightarrow>
   map (\<lambda>x. sl_alias (fst x)) built = map (\<lambda>i. share_alias (fst i)) inputs \<and> length built = length inputs \<and>
   (\<forall>x\<in>set built. sl_alias (fst x) \<noteq> [] \<and> sl_hash (fst x) = sha (snd x) \<and> sl_revoked (fst x) = None \<and>
      sl_expires (fst x) = map_option (\<lambda>d. now + of_int d) d)"
proof (induction inputs arbitrary: k built)
  case (Cons i inputs)
  obtain h rest where r: "build_links sha now d entropy (Suc k) inputs = Inr rest" and b: "built = h # rest"
    and h: "sl_alias (fst h) = share_alias (fst i)" "share_alias (fst i) \<noteq> []" "sl_hash (fst h) = sha (snd h)"
      "sl_revoked (fst h) = None" "sl_expires (fst h) = map_option (\<lambda>d. now + of_int d) d"
    using Cons.prems by (auto split: if_splits sum.splits prod.splits simp: Let_def)
  show ?case using Cons.IH [OF r] h by (simp add: b)
qed simp

text \<open>
  Creating links is all or nothing on both back ends. An error leaves the stored links as they
  were, even when it strikes in the middle of the inserts. Success appends one unrevoked link per
  requested address, in order and under its canonical form, with the digest of its token and an end
  five minutes to one year from now when one was asked for.
\<close>

theorem share_batch_atomic:
  "(\<forall>e. fst (create_batch sha clk inputs d entropy s) = Inl e \<longrightarrow>
      store_links (snd (create_batch sha clk inputs d entropy s)) = store_links s) \<and>
   (\<forall>items. store_ok s \<and> fst (create_batch sha clk inputs d entropy s) = Inr items \<longrightarrow>
      inputs \<noteq> [] \<and> (\<forall>n. d = Some n \<longrightarrow> 300 \<le> n \<and> n \<le> 365 * 24 * 3600) \<and>
      (\<exists>built. build_links sha (ck_app clk) d entropy 0 inputs = Inr built \<and>
         items = map2 share_item_of built inputs \<and>
         map (\<lambda>x. sl_alias (fst x)) built = map (\<lambda>i. share_alias (fst i)) inputs \<and>
         (\<forall>x\<in>set built. sl_hash (fst x) = sha (snd x) \<and> sl_revoked (fst x) = None \<and>
            sl_expires (fst x) = map_option (\<lambda>n. ck_app clk + of_int n) d) \<and>
         store_links (snd (create_batch sha clk inputs d entropy s)) = store_links s @
           (case sh_db s of None \<Rightarrow> map fst built
            | Some db \<Rightarrow> map (scan_share_link \<circ> link_to_row db (sh_account s)) (map fst built))))"
proof -
  have f: "\<not> fst (add_links ls s) \<Longrightarrow> store_links (snd (add_links ls s)) = store_links s" for ls
    using sql_add_failed [of "sh_account s" ls] json_add_failed [of ls "sh_file s"]
    by (cases "sh_db s") (auto simp: add_links_def split_beta store_links_def sql_held_def)
  have one: "fst (create_batch sha clk inputs d entropy s) = Inl e \<Longrightarrow>
      store_links (snd (create_batch sha clk inputs d entropy s)) = store_links s" for e
    by (auto simp: create_batch_def split_beta Let_def f split: sum.splits if_splits)
  have two: "inputs \<noteq> [] \<and> (\<forall>n. d = Some n \<longrightarrow> 300 \<le> n \<and> n \<le> 365 * 24 * 3600) \<and>
      (\<exists>built. build_links sha (ck_app clk) d entropy 0 inputs = Inr built \<and>
         items = map2 share_item_of built inputs \<and> fst (add_links (map fst built) s) \<and>
         snd (create_batch sha clk inputs d entropy s) = snd (add_links (map fst built) s))"
    if "fst (create_batch sha clk inputs d entropy s) = Inr items" for items
    using that by (auto simp: create_batch_def split_beta Let_def split: sum.splits if_splits option.splits)
  show ?thesis
  proof (intro conjI allI impI)
    fix e assume "fst (create_batch sha clk inputs d entropy s) = Inl e"
    then show "store_links (snd (create_batch sha clk inputs d entropy s)) = store_links s" by (rule one)
  next
    fix items n
    assume a: "store_ok s \<and> fst (create_batch sha clk inputs d entropy s) = Inr items"
    note t = two [OF conjunct2 [OF a]]
    show "inputs \<noteq> []" using t by blast
    show "d = Some n \<Longrightarrow> 300 \<le> n" "d = Some n \<Longrightarrow> n \<le> 365 * 24 * 3600" using t by blast+
    obtain built where b: "build_links sha (ck_app clk) d entropy 0 inputs = Inr built"
      "items = map2 share_item_of built inputs" "fst (add_links (map fst built) s)"
      "snd (create_batch sha clk inputs d entropy s) = snd (add_links (map fst built) s)" using t by blast
    show "\<exists>built. build_links sha (ck_app clk) d entropy 0 inputs = Inr built \<and>
         items = map2 share_item_of built inputs \<and>
         map (\<lambda>x. sl_alias (fst x)) built = map (\<lambda>i. share_alias (fst i)) inputs \<and>
         (\<forall>x\<in>set built. sl_hash (fst x) = sha (snd x) \<and> sl_revoked (fst x) = None \<and>
            sl_expires (fst x) = map_option (\<lambda>n. ck_app clk + of_int n) d) \<and>
         store_links (snd (create_batch sha clk inputs d entropy s)) = store_links s @
           (case sh_db s of None \<Rightarrow> map fst built
            | Some db \<Rightarrow> map (scan_share_link \<circ> link_to_row db (sh_account s)) (map fst built))"
      by (rule exI [of _ built])
        (use b build_links_spec [OF b(1)] add_links_done [OF conjunct1 [OF a] b(3)] in \<open>simp add: b(4)\<close>)
  qed
qed

section \<open>Witnesses\<close>

text \<open>One link on either back end, with the identity for the digest.\<close>

definition example_link :: share_link where
  "example_link = \<lparr>sl_id = ''7'', sl_alias = ''a@b'', sl_hash = ''tok'', sl_created = 0, sl_expires = None,
     sl_last_used = None, sl_revoked = None\<rparr>"

definition example_share :: share_store where
  "example_share = \<lparr>sh_account = ''default'', sh_file = file_of \<lparr>sh_links = [example_link], sh_sessions = []\<rparr>,
     sh_db = None\<rparr>"

definition example_row :: link_row where
  "example_row = \<lparr>lr_id = ''7'', lr_account = ''default'', lr_alias = ''a@b'', lr_hash = ''tok'', lr_created = 0,
     lr_expires = None, lr_last_used = None, lr_revoked = None\<rparr>"

definition example_db :: share_db where
  "example_db = \<lparr>link_table = [example_row], session_table = [], stmt_faults = [], db_column = (\<lambda>t. t),
     import_marker = True, state_row = None\<rparr>"

definition example_sql :: share_store where
  "example_sql = \<lparr>sh_account = ''default'', sh_file = file_of empty_share_state, sh_db = Some example_db\<rparr>"

definition example_clock :: clock where
  "example_clock = \<lparr>ck_app = 0, ck_db = unix_epoch * second\<rparr>"

lemma trim_tok: "trim_space ''tok'' = ''tok''"
  by code_simp


theorem revoke_reports_unsaved_witness:
  "fst (share_resolve id example_clock ''tok'' (snd (share_revoke example_clock ''7''
     (example_share\<lparr>sh_file := \<lparr>cell_doc = Some (StateDoc \<lparr>sh_links = [example_link], sh_sessions = []\<rparr>),
        read_faults = [], write_faults = [True]\<rparr>\<rparr>)))) \<noteq> None"
  using revoke_reports_unsaved [of "example_share\<lparr>sh_file := \<lparr>cell_doc = Some (StateDoc \<lparr>sh_links = [example_link],
      sh_sessions = []\<rparr>), read_faults = [], write_faults = [True]\<rparr>\<rparr>"
      "\<lparr>sh_links = [example_link], sh_sessions = []\<rparr>" example_link example_clock id "''tok''"]
  by (simp add: example_share_def link_live_def trim_tok) (simp add: example_link_def)

definition example_session :: share_store where
  "example_session = \<lparr>sh_account = ''default'', sh_file = file_of \<lparr>sh_links = [example_link],
     sh_sessions = [\<lparr>ss_hash = ''tok'', ss_link = ''7'', ss_expires = 60\<rparr>]\<rparr>, sh_db = None\<rparr>"

theorem session_resolves_only_live_witness:
  "link_live (ck_app example_clock) example_link"
proof -
  have "fst (resolve_session id example_clock ''tok'' example_session) = Some example_link"
    by (simp add: resolve_session_def trim_tok example_session_def example_clock_def link_live_def example_link_def)
  from session_resolves_only_live [OF this] show ?thesis by (simp add: example_session_def)
qed

theorem share_session_roundtrip_witness:
  "fst (resolve_session id example_clock ''tok''
     (snd (create_session id example_clock example_clock ''tok'' 60 (Inr ''tok'') example_share))) \<noteq> None"
proof -
  let ?r = "create_session id example_clock example_clock ''tok'' 60 (Inr ''tok'') example_share"
  let ?l = "example_link\<lparr>sl_last_used := Some 0\<rparr>"
  let ?ses = "\<lparr>ss_hash = ''tok'', ss_link = ''7'', ss_expires = 60\<rparr>"
  have r: "?r = (Some (''tok'', ?l), example_share\<lparr>sh_file := file_of \<lparr>sh_links = [?l], sh_sessions = [?ses]\<rparr>\<rparr>)"
    by (simp add: create_session_def share_resolve_def trim_tok example_share_def json_resolve_def example_clock_def
        example_link_def link_live_def session_expiry_def add_session_def json_add_session_def Let_def)
  have "store_ok example_share" "session_ends (id ''tok'') example_share = {}" "trim_space ''tok'' \<noteq> []"
    by (simp_all add: store_ok_def example_share_def session_ends_def cell_ok_def file_of_def doc_state_def trim_tok)
  note q = share_session_roundtrip [OF this(1) r this(2,3), of example_clock]
  let ?s = "example_share\<lparr>sh_file := file_of \<lparr>sh_links = [?l], sh_sessions = [?ses]\<rparr>\<rparr>"
  have "backend_time ?s example_clock < kept_time ?s (session_expiry (ck_app example_clock) 60 ?l)"
    "\<exists>x\<in>set (store_links ?s). sl_id x = sl_id ?l \<and> link_live (backend_time ?s example_clock) x"
    by (simp_all add: example_share_def backend_time_def kept_time_def store_links_def json_held_def doc_state_def
        file_of_def session_expiry_def example_clock_def example_link_def link_live_def)
  then show ?thesis unfolding r snd_conv using q by blast
qed


theorem share_batch_atomic_witness:
  "length (store_links (snd (create_batch id example_clock [(''a@b'', 0)] None (\<lambda>_. (Inr ''new'', ''8'')) example_share))) = 2"
proof -
  have a: "share_alias ''a@b'' = ''a@b''" by code_simp
  let ?r = "create_batch id example_clock [(''a@b'', 0)] None (\<lambda>_. (Inr ''new'', ''8'')) example_share"
  let ?b = "[(\<lparr>sl_id = ''8'', sl_alias = ''a@b'', sl_hash = ''new'', sl_created = 0, sl_expires = None,
      sl_last_used = None, sl_revoked = None\<rparr>, ''new'')]"
  have b: "build_links id (ck_app example_clock) None (\<lambda>_. (Inr ''new'', ''8'')) 0 [(''a@b'', 0)] = Inr ?b"
    by (simp add: a example_clock_def)
  then have "fst ?r = Inr (map2 share_item_of ?b [(''a@b'', 0)])"
    by (simp add: create_batch_def add_links_def example_share_def json_add_links_def)
  moreover have "store_ok example_share"
    by (simp add: store_ok_def example_share_def cell_ok_def file_of_def)
  ultimately show ?thesis
    using share_batch_atomic [of id example_clock "[(''a@b'', 0)]" None "\<lambda>_. (Inr ''new'', ''8'')" example_share] b
    by (auto simp: example_share_def store_links_def json_held_def file_of_def doc_state_def)
qed

end
