(* ===== verification/Sql.thy ===== *)
theory Sql
  imports GoErrors
begin

text \<open>
  A database connection as the stores use it: the tables, and a script that says which of the coming
  statements fail. A statement changes the tables or, when it fails or violates a constraint, leaves
  them alone; a transaction installs all its changes or none. The statements themselves are functions
  on the tables, written out by the stores from their SQL.
\<close>

record 't sqldb =
  tables :: 't
  script :: "bool list"

definition db_up :: "'t sqldb \<Rightarrow> bool" where
  "db_up db \<longleftrightarrow> script db = []"

text \<open>\<^const>\<open>None\<close> is an error of the driver; a statement that yields \<^const>\<open>None\<close> violates a constraint.\<close>

definition sql_run :: "('t \<Rightarrow> ('a \<times> 't) option) \<Rightarrow> 't sqldb \<Rightarrow> 'a option \<times> 't sqldb" where
  "sql_run f db =
     (let db1 = db\<lparr>script := tl (script db)\<rparr>
      in if script db \<noteq> [] \<and> hd (script db) then (None, db1)
         else (case f (tables db) of None \<Rightarrow> (None, db1) | Some (a, t) \<Rightarrow> (Some a, db1\<lparr>tables := t\<rparr>)))"

definition sql_exec :: "('t \<Rightarrow> 't) \<Rightarrow> 't sqldb \<Rightarrow> bool \<times> 't sqldb" where
  "sql_exec f db = (let (r, db1) = sql_run (\<lambda>t. Some ((), f t)) db in (r \<noteq> None, db1))"

definition sql_query :: "('t \<Rightarrow> 'a) \<Rightarrow> 't sqldb \<Rightarrow> 'a option \<times> 't sqldb" where
  "sql_query f db = sql_run (\<lambda>t. Some (f t, t)) db"

text \<open>Begin, the body, commit; an error of the body or of the commit rolls back. The error of the
  driver is the first argument.\<close>

definition sql_tx :: "'e \<Rightarrow> ('t sqldb \<Rightarrow> ('e + 'a) \<times> 't sqldb) \<Rightarrow> 't sqldb \<Rightarrow> ('e + 'a) \<times> 't sqldb" where
  "sql_tx err body db =
     (let (begun, db1) = sql_exec (\<lambda>t. t) db
      in if \<not> begun then (Inl err, db1)
         else
           (case body db1 of
              (Inl e, db2) \<Rightarrow> (Inl e, db2\<lparr>tables := tables db\<rparr>)
            | (Inr a, db2) \<Rightarrow>
                (let (done, db3) = sql_exec (\<lambda>t. t) db2
                 in if done then (Inr a, db3) else (Inl err, db3\<lparr>tables := tables db\<rparr>))))"

section \<open>Facts\<close>

lemma sql_run_tables:
  "tables (snd (sql_run f db)) = tables db \<or>
   (\<exists>a. fst (sql_run f db) = Some a \<and> f (tables db) = Some (a, tables (snd (sql_run f db))))"
  by (auto simp: sql_run_def Let_def split: option.splits)

lemma sql_run_done:
  "fst (sql_run f db) = Some a \<Longrightarrow> f (tables db) = Some (a, tables (snd (sql_run f db)))"
  by (auto simp: sql_run_def Let_def split: option.splits if_splits)

lemma sql_run_up: "db_up db \<Longrightarrow> sql_run f db =
    (case f (tables db) of None \<Rightarrow> (None, db) | Some (a, t) \<Rightarrow> (Some a, db\<lparr>tables := t\<rparr>))"
  by (auto simp: sql_run_def db_up_def Let_def split: option.split)

lemma sql_exec_tables:
  "tables (snd (sql_exec f db)) = (if fst (sql_exec f db) then f (tables db) else tables db)"
  by (auto simp: sql_exec_def sql_run_def Let_def split: option.splits)

lemma sql_exec_up: "db_up db \<Longrightarrow> sql_exec f db = (True, db\<lparr>tables := f (tables db)\<rparr>)"
  by (simp add: sql_exec_def sql_run_up)

lemma sql_query_tables [simp]: "tables (snd (sql_query f db)) = tables db"
  by (auto simp: sql_query_def sql_run_def Let_def)

lemma sql_query_value: "fst (sql_query f db) = Some a \<Longrightarrow> a = f (tables db)"
  by (auto simp: sql_query_def sql_run_def Let_def split: if_splits)

lemma sql_query_up: "db_up db \<Longrightarrow> sql_query f db = (Some (f (tables db)), db)"
  by (simp add: sql_query_def sql_run_up)

lemma db_up_tables [simp]: "db_up (db\<lparr>tables := t\<rparr>) = db_up db"
  by (simp add: db_up_def)

text \<open>A transaction is its body or nothing.\<close>

lemma sql_tx_failed: "fst (sql_tx err body db) = Inl e \<Longrightarrow> tables (snd (sql_tx err body db)) = tables db"
  by (auto simp: sql_tx_def Let_def split_beta sql_exec_tables split: if_splits sum.splits prod.splits)

lemma sql_tx_done:
  assumes "fst (sql_tx err body db) = Inr a"
  shows "\<exists>db1. tables db1 = tables db \<and> fst (body db1) = Inr a \<and>
    tables (snd (sql_tx err body db)) = tables (snd (body db1))"
proof -
  let ?db1 = "snd (sql_exec (\<lambda>t. t) db)"
  have t: "tables ?db1 = tables db" by (simp add: sql_exec_tables)
  obtain r db2 where b: "body ?db1 = (r, db2)" by (cases "body ?db1")
  have "fst (body ?db1) = Inr a \<and> tables (snd (sql_tx err body db)) = tables (snd (body ?db1))"
    using assms b by (auto simp: sql_tx_def Let_def split_beta sql_exec_tables split: if_splits sum.splits)
  then show ?thesis using t by blast
qed

lemma tables_same [simp]: "db\<lparr>tables := tables db\<rparr> = db"
  by (cases db) simp

lemma sql_tx_up:
  assumes "db_up db" and "db_up (snd (body db))"
  shows "sql_tx err body db =
     (case body db of (Inl e, db2) \<Rightarrow> (Inl e, db2\<lparr>tables := tables db\<rparr>) | (Inr a, db2) \<Rightarrow> (Inr a, db2))"
proof -
  obtain r d where b: "body db = (r, d)" by (cases "body db")
  then have "db_up d" using assms(2) by simp
  then show ?thesis using assms(1) b by (simp add: sql_tx_def sql_exec_up split: sum.split)
qed

end
