(* ===== verification/AuthStore.thy ===== *)
theory AuthStore
  imports Sql GoSort
begin

text \<open>
  The authentication store: \<open>sqlStore\<close> of \<open>internal/platform/auth/store.go\<close> over the tables of
  migration 7. Each method is its SQL statement as a function on the tables. \<open>NOW()\<close> is the argument
  \<open>db_now\<close>; the columns keep times exactly.
\<close>

section \<open>Tables\<close>

record auth_user =
  au_id :: int
  au_username :: string
  au_password_hash :: string
  au_must_change :: bool
  au_disabled :: bool
  au_created :: gotime
  au_last_login :: "gotime option"

record auth_session =
  as_hash :: string
  as_user :: int
  as_ip :: string
  as_agent :: string
  as_created :: gotime
  as_last_seen :: gotime
  as_expires :: gotime
  as_revoked :: "gotime option"

record api_token =
  at_id :: string
  at_user :: int
  at_name :: string
  at_hash :: string
  at_prefix :: string
  at_created :: gotime
  at_last_used :: "gotime option"
  at_expires :: "gotime option"
  at_revoked :: "gotime option"

record login_event =
  le_user :: "int option"
  le_username :: string
  le_outcome :: string
  le_reason :: string
  le_ip :: string
  le_agent :: string
  le_created :: gotime

record auth_tables =
  t_users :: "auth_user list"
  t_sessions :: "auth_session list"
  t_tokens :: "api_token list"
  t_events :: "login_event list"
  t_next_user :: int

datatype credential = SessionCredential | ApiTokenCredential

text \<open>\<open>principalRecord\<close>.\<close>

record principal_record =
  pr_user :: auth_user
  pr_hash :: string
  pr_kind :: credential
  pr_last_seen :: gotime
  pr_expires :: "gotime option"

datatype auth_error =
    DbError
  | NotFound
  | InvalidCredentials
  | RateLimited
  | Unauthorized
  | SessionRequired
  | StorageError string
  | Rejected string
  | EntropyError

section \<open>Users\<close>

definition user_by_name :: "string \<Rightarrow> auth_tables \<Rightarrow> auth_user option" where
  "user_by_name n t = find (\<lambda>u. au_username u = n) (t_users t)"

definition user_by_id :: "int \<Rightarrow> auth_tables \<Rightarrow> auth_user option" where
  "user_by_id i t = find (\<lambda>u. au_id u = i) (t_users t)"

definition scan_user :: "auth_user option option \<Rightarrow> auth_error + auth_user" where
  "scan_user r = (case r of None \<Rightarrow> Inl DbError | Some None \<Rightarrow> Inl NotFound | Some (Some u) \<Rightarrow> Inr u)"

definition find_user_by_username :: "string \<Rightarrow> auth_tables sqldb \<Rightarrow> (auth_error + auth_user) \<times> auth_tables sqldb" where
  "find_user_by_username n db = apfst scan_user (sql_query (user_by_name n) db)"

definition find_user_by_id :: "int \<Rightarrow> auth_tables sqldb \<Rightarrow> (auth_error + auth_user) \<times> auth_tables sqldb" where
  "find_user_by_id i db = apfst scan_user (sql_query (user_by_id i) db)"

definition insert_user :: "gotime \<Rightarrow> string \<Rightarrow> string \<Rightarrow> auth_tables \<Rightarrow> (unit \<times> auth_tables) option" where
  "insert_user db_now n hash t =
     (if user_by_name n t \<noteq> None then None
      else Some ((), t\<lparr>t_users := t_users t @ [\<lparr>au_id = t_next_user t, au_username = n, au_password_hash = hash,
             au_must_change = True, au_disabled = False, au_created = db_now, au_last_login = None\<rparr>],
             t_next_user := t_next_user t + 1\<rparr>))"

text \<open>
  \<open>BootstrapUser\<close>: with no user yet, the administrator; otherwise the initial password replaces one
  that still waits for its mandatory change. The advisory lock is a statement without effect.
\<close>

definition bootstrap_user ::
  "gotime \<Rightarrow> string \<Rightarrow> string \<Rightarrow> auth_tables sqldb \<Rightarrow> (auth_error + bool) \<times> auth_tables sqldb" where
  "bootstrap_user db_now n hash db =
     sql_tx DbError (\<lambda>db.
       (let (locked, db) = sql_exec (\<lambda>t. t) db in
        if \<not> locked then (Inl DbError, db)
        else
          (case sql_query (\<lambda>t. length (t_users t)) db of
             (None, db) \<Rightarrow> (Inl DbError, db)
           | (Some n_users, db) \<Rightarrow>
               (if n_users > 0 then
                  (let (ok, db) = sql_exec (\<lambda>t. t\<lparr>t_users := map (\<lambda>u. if au_username u = n \<and> au_must_change u
                         then u\<lparr>au_password_hash := hash\<rparr> else u) (t_users t)\<rparr>) db
                   in if ok then (Inr False, db) else (Inl DbError, db))
                else
                  (case sql_run (insert_user db_now n hash) db of
                     (None, db) \<Rightarrow> (Inl DbError, db)
                   | (Some _, db) \<Rightarrow> (Inr True, db)))))) db"

definition set_last_login :: "int \<Rightarrow> gotime \<Rightarrow> auth_tables sqldb \<Rightarrow> bool \<times> auth_tables sqldb" where
  "set_last_login i now db =
     sql_exec (\<lambda>t. t\<lparr>t_users := map (\<lambda>u. if au_id u = i then u\<lparr>au_last_login := Some now\<rparr> else u) (t_users t)\<rparr>) db"

definition record_login ::
  "int option \<Rightarrow> string \<Rightarrow> string \<Rightarrow> string \<Rightarrow> string \<Rightarrow> string \<Rightarrow> gotime \<Rightarrow> auth_tables sqldb \<Rightarrow> bool \<times> auth_tables sqldb" where
  "record_login u n outcome reason ip agent now db =
     sql_exec (\<lambda>t. t\<lparr>t_events := t_events t @ [\<lparr>le_user = u, le_username = n, le_outcome = outcome,
       le_reason = reason, le_ip = ip, le_agent = agent, le_created = now\<rparr>]\<rparr>) db"

section \<open>Sessions\<close>

definition insert_auth_session ::
  "gotime \<Rightarrow> string \<Rightarrow> int \<Rightarrow> string \<Rightarrow> string \<Rightarrow> gotime \<Rightarrow> auth_tables \<Rightarrow> (unit \<times> auth_tables) option" where
  "insert_auth_session db_now hash u ip agent expires t =
     (if (\<exists>s\<in>set (t_sessions t). as_hash s = hash) \<or> user_by_id u t = None then None
      else Some ((), t\<lparr>t_sessions := t_sessions t @ [\<lparr>as_hash = hash, as_user = u, as_ip = ip, as_agent = agent,
        as_created = db_now, as_last_seen = db_now, as_expires = expires, as_revoked = None\<rparr>]\<rparr>))"

definition create_auth_session ::
  "gotime \<Rightarrow> string \<Rightarrow> int \<Rightarrow> string \<Rightarrow> string \<Rightarrow> gotime \<Rightarrow> auth_tables sqldb \<Rightarrow> bool \<times> auth_tables sqldb" where
  "create_auth_session db_now hash u ip agent expires db =
     apfst (\<lambda>r. r \<noteq> None) (sql_run (insert_auth_session db_now hash u ip agent expires) db)"

definition auth_session_row :: "string \<Rightarrow> gotime \<Rightarrow> auth_tables \<Rightarrow> principal_record option" where
  "auth_session_row hash now t =
     (case find (\<lambda>s. as_hash s = hash \<and> as_revoked s = None \<and> as_expires s > now \<and> user_by_id (as_user s) t \<noteq> None)
        (t_sessions t) of
        None \<Rightarrow> None
      | Some s \<Rightarrow> map_option (\<lambda>u. \<lparr>pr_user = u, pr_hash = hash, pr_kind = SessionCredential,
          pr_last_seen = as_last_seen s, pr_expires = Some (as_expires s)\<rparr>) (user_by_id (as_user s) t))"

definition scan_principal :: "principal_record option option \<Rightarrow> auth_error + principal_record" where
  "scan_principal r = (case r of None \<Rightarrow> Inl DbError | Some None \<Rightarrow> Inl NotFound | Some (Some p) \<Rightarrow> Inr p)"

definition find_session :: "string \<Rightarrow> gotime \<Rightarrow> auth_tables sqldb \<Rightarrow> (auth_error + principal_record) \<times> auth_tables sqldb" where
  "find_session hash now db = apfst scan_principal (sql_query (auth_session_row hash now) db)"

definition map_sessions :: "(auth_session \<Rightarrow> bool) \<Rightarrow> (auth_session \<Rightarrow> auth_session) \<Rightarrow> auth_tables \<Rightarrow> auth_tables" where
  "map_sessions P f t = t\<lparr>t_sessions := map (\<lambda>s. if P s then f s else s) (t_sessions t)\<rparr>"

definition touch_session :: "string \<Rightarrow> gotime \<Rightarrow> auth_tables sqldb \<Rightarrow> bool \<times> auth_tables sqldb" where
  "touch_session hash now db =
     sql_exec (map_sessions (\<lambda>s. as_hash s = hash \<and> as_revoked s = None) (\<lambda>s. s\<lparr>as_last_seen := now\<rparr>)) db"

definition revoke_session :: "string \<Rightarrow> gotime \<Rightarrow> auth_tables sqldb \<Rightarrow> bool \<times> auth_tables sqldb" where
  "revoke_session hash now db =
     sql_exec (map_sessions (\<lambda>s. as_hash s = hash)
       (\<lambda>s. s\<lparr>as_revoked := Some (case as_revoked s of None \<Rightarrow> now | Some r \<Rightarrow> r)\<rparr>)) db"

section \<open>API tokens\<close>

definition token_live :: "gotime \<Rightarrow> api_token \<Rightarrow> bool" where
  "token_live now k \<longleftrightarrow> at_revoked k = None \<and> (case at_expires k of None \<Rightarrow> True | Some e \<Rightarrow> e > now)"

definition insert_token :: "api_token \<Rightarrow> auth_tables \<Rightarrow> (unit \<times> auth_tables) option" where
  "insert_token k t =
     (if (\<exists>x\<in>set (t_tokens t). at_id x = at_id k \<or> at_hash x = at_hash k) \<or> user_by_id (at_user k) t = None then None
      else Some ((), t\<lparr>t_tokens := t_tokens t @ [k]\<rparr>))"

definition create_api_token :: "api_token \<Rightarrow> auth_tables sqldb \<Rightarrow> bool \<times> auth_tables sqldb" where
  "create_api_token k db = apfst (\<lambda>r. r \<noteq> None) (sql_run (insert_token k) db)"

definition token_row :: "string \<Rightarrow> gotime \<Rightarrow> auth_tables \<Rightarrow> principal_record option" where
  "token_row hash now t =
     (case find (\<lambda>k. at_hash k = hash \<and> token_live now k \<and> user_by_id (at_user k) t \<noteq> None) (t_tokens t) of
        None \<Rightarrow> None
      | Some k \<Rightarrow> map_option (\<lambda>u. \<lparr>pr_user = u, pr_hash = hash, pr_kind = ApiTokenCredential,
          pr_last_seen = (case at_last_used k of None \<Rightarrow> at_created k | Some l \<Rightarrow> l), pr_expires = at_expires k\<rparr>)
          (user_by_id (at_user k) t))"

definition find_api_token :: "string \<Rightarrow> gotime \<Rightarrow> auth_tables sqldb \<Rightarrow> (auth_error + principal_record) \<times> auth_tables sqldb" where
  "find_api_token hash now db = apfst scan_principal (sql_query (token_row hash now) db)"

definition map_tokens :: "(api_token \<Rightarrow> bool) \<Rightarrow> (api_token \<Rightarrow> api_token) \<Rightarrow> auth_tables \<Rightarrow> auth_tables" where
  "map_tokens P f t = t\<lparr>t_tokens := map (\<lambda>k. if P k then f k else k) (t_tokens t)\<rparr>"

definition touch_api_token :: "string \<Rightarrow> gotime \<Rightarrow> auth_tables sqldb \<Rightarrow> bool \<times> auth_tables sqldb" where
  "touch_api_token hash now db =
     sql_exec (map_tokens (\<lambda>k. at_hash k = hash \<and> at_revoked k = None) (\<lambda>k. k\<lparr>at_last_used := Some now\<rparr>)) db"

definition newer_token :: "api_token \<Rightarrow> api_token \<Rightarrow> bool" where
  "newer_token a b \<longleftrightarrow> at_created b < at_created a"

definition list_api_tokens :: "int \<Rightarrow> gotime \<Rightarrow> auth_tables sqldb \<Rightarrow> api_token list option \<times> auth_tables sqldb" where
  "list_api_tokens u now db =
     sql_query (\<lambda>t. go_sort newer_token (filter (\<lambda>k. at_user k = u \<and> token_live now k) (t_tokens t))) db"

definition revoke_api_token :: "int \<Rightarrow> string \<Rightarrow> gotime \<Rightarrow> auth_tables sqldb \<Rightarrow> (auth_error + unit) \<times> auth_tables sqldb" where
  "revoke_api_token u i now db =
     (let hit = (\<lambda>k. at_user k = u \<and> at_id k = i \<and> at_revoked k = None)
      in case sql_run (\<lambda>t. Some (length (filter hit (t_tokens t)),
             map_tokens hit (\<lambda>k. k\<lparr>at_revoked := Some now\<rparr>) t)) db of
           (None, db1) \<Rightarrow> (Inl DbError, db1)
         | (Some n, db1) \<Rightarrow> (if n \<noteq> 1 then Inl NotFound else Inr (), db1))"

section \<open>Changing the password and cleaning up\<close>

definition revoke_other_sessions :: "int \<Rightarrow> string \<Rightarrow> gotime \<Rightarrow> auth_tables \<Rightarrow> auth_tables" where
  "revoke_other_sessions u keep now =
     map_sessions (\<lambda>s. as_user s = u \<and> as_hash s \<noteq> keep \<and> as_revoked s = None) (\<lambda>s. s\<lparr>as_revoked := Some now\<rparr>)"

definition revoke_user_tokens :: "int \<Rightarrow> gotime \<Rightarrow> auth_tables \<Rightarrow> auth_tables" where
  "revoke_user_tokens u now =
     map_tokens (\<lambda>k. at_user k = u \<and> at_revoked k = None) (\<lambda>k. k\<lparr>at_revoked := Some now\<rparr>)"

definition set_password :: "int \<Rightarrow> string \<Rightarrow> auth_tables \<Rightarrow> auth_tables" where
  "set_password u hash t = t\<lparr>t_users := map (\<lambda>x. if au_id x = u
     then x\<lparr>au_password_hash := hash, au_must_change := False\<rparr> else x) (t_users t)\<rparr>"

definition password_statements ::
  "int \<Rightarrow> string \<Rightarrow> string \<Rightarrow> gotime \<Rightarrow> auth_tables sqldb \<Rightarrow> (auth_error + unit) \<times> auth_tables sqldb" where
  "password_statements u hash keep now db =
     (case sql_run (\<lambda>t. Some (length (filter (\<lambda>x. au_id x = u) (t_users t)), set_password u hash t)) db of
        (None, db) \<Rightarrow> (Inl DbError, db)
      | (Some n, db) \<Rightarrow>
          (if n \<noteq> 1 then (Inl NotFound, db)
           else
             (let (ok, db) = sql_exec (revoke_other_sessions u keep now) db in
              if \<not> ok then (Inl DbError, db)
              else
                (let (ok, db) = sql_exec (revoke_user_tokens u now) db
                 in if ok then (Inr (), db) else (Inl DbError, db)))))"

definition update_password ::
  "int \<Rightarrow> string \<Rightarrow> string \<Rightarrow> gotime \<Rightarrow> auth_tables sqldb \<Rightarrow> (auth_error + unit) \<times> auth_tables sqldb" where
  "update_password u hash keep now db = sql_tx DbError (password_statements u hash keep now) db"

definition days :: "int \<Rightarrow> duration" where
  "days n = n * 24 * 60 * minute"

text \<open>A comparison with NULL is not true.\<close>

definition before :: "gotime option \<Rightarrow> gotime \<Rightarrow> bool" where
  "before r t \<longleftrightarrow> (case r of None \<Rightarrow> False | Some x \<Rightarrow> x < t)"

definition delete_expired :: "gotime \<Rightarrow> auth_tables sqldb \<Rightarrow> bool \<times> auth_tables sqldb" where
  "delete_expired now db =
     (let (ok, db) = sql_exec (\<lambda>t. t\<lparr>t_sessions := filter (\<lambda>s. \<not> (as_expires s \<le> now \<or>
            before (as_revoked s) (now - days 7))) (t_sessions t)\<rparr>) db in
      if \<not> ok then (False, db)
      else
        (let (ok, db) = sql_exec (\<lambda>t. t\<lparr>t_tokens := filter (\<lambda>k. \<not> ((case at_expires k of None \<Rightarrow> False | Some e \<Rightarrow> e \<le> now) \<or>
              before (at_revoked k) (now - days 30))) (t_tokens t)\<rparr>) db in
         if \<not> ok then (False, db)
         else sql_exec (\<lambda>t. t\<lparr>t_events := filter (\<lambda>e. \<not> le_created e < now - days 90) (t_events t)\<rparr>) db))"

end
