(* ===== verification/Codec.thy ===== *)
theory Codec
  imports GoText
begin

text \<open>
  The encodings of Go's standard library that the credentials use: unpadded base64 with the standard
  and with the URL alphabet (\<open>base64.RawStdEncoding\<close>, \<open>base64.RawURLEncoding\<close>) and the unsigned
  decimal scanner of \<open>fmt.Sscanf\<close>. A byte is a \<^typ>\<open>char\<close>. The decoder skips line breaks and does not
  check the unused bits of the last character, as Go's does outside strict mode.
\<close>

section \<open>Base64\<close>

definition std_alphabet :: string where
  "std_alphabet = ''ABCDEFGHIJKLMNOPQRSTUVWXYZabcdefghijklmnopqrstuvwxyz0123456789+/''"

definition url_alphabet :: string where
  "url_alphabet = ''ABCDEFGHIJKLMNOPQRSTUVWXYZabcdefghijklmnopqrstuvwxyz0123456789-_''"

text \<open>Three bytes are four 6-bit digits, written with one number for each byte.\<close>

fun b64_digits :: "nat list \<Rightarrow> nat list" where
  "b64_digits [] = []"
| "b64_digits [a] = [a div 4, (a mod 4) * 16]"
| "b64_digits [a, b] = [a div 4, (a mod 4) * 16 + b div 16, (b mod 16) * 4]"
| "b64_digits (a # b # c # r) =
     a div 4 # ((a mod 4) * 16 + b div 16) # ((b mod 16) * 4 + c div 64) # c mod 64 # b64_digits r"

fun b64_bytes :: "nat list \<Rightarrow> nat list option" where
  "b64_bytes [] = Some []"
| "b64_bytes [p] = None"
| "b64_bytes [p, q] = Some [p * 4 + q div 16]"
| "b64_bytes [p, q, r] = Some [p * 4 + q div 16, (q mod 16) * 16 + r div 4]"
| "b64_bytes (p # q # r # s # t) =
     map_option (\<lambda>w. (p * 4 + q div 16) # ((q mod 16) * 16 + r div 4) # ((r mod 4) * 64 + s) # w) (b64_bytes t)"

definition b64_encode :: "string \<Rightarrow> string \<Rightarrow> string" where
  "b64_encode alphabet s = map (\<lambda>d. alphabet ! d) (b64_digits (map of_char s))"

fun digit_values :: "string \<Rightarrow> string \<Rightarrow> nat list option" where
  "digit_values alphabet [] = Some []"
| "digit_values alphabet (c # s) =
     (case (index_byte alphabet c, digit_values alphabet s) of
        (Some v, Some vs) \<Rightarrow> Some (v # vs)
      | _ \<Rightarrow> None)"

definition b64_decode :: "string \<Rightarrow> string \<Rightarrow> string option" where
  "b64_decode alphabet s =
     (case digit_values alphabet (filter (\<lambda>c. c \<noteq> CHR 0x0A \<and> c \<noteq> CHR 0x0D) s) of
        None \<Rightarrow> None
      | Some vs \<Rightarrow> map_option (map char_of) (b64_bytes vs))"

lemma b64_digits_bound: "\<forall>x\<in>set xs. x < 256 \<Longrightarrow> d \<in> set (b64_digits xs) \<Longrightarrow> d < 64"
  by (induction xs rule: b64_digits.induct) auto

lemma b64_bytes_digits: "\<forall>x\<in>set xs. x < 256 \<Longrightarrow> b64_bytes (b64_digits xs) = Some xs"
  by (induction xs rule: b64_digits.induct) (auto simp: mod_mult_self4)

lemma digit_values_map:
  assumes "distinct alphabet" and "\<forall>d\<in>set ds. d < length alphabet"
  shows "digit_values alphabet (map (\<lambda>d. alphabet ! d) ds) = Some ds"
  using assms(2)
proof (induction ds)
  case (Cons d ds)
  have "index_byte alphabet (alphabet ! d) = Some d"
    using Cons.prems assms(1) by (auto simp: index_byte_Some in_set_conv_nth nth_eq_iff_index_eq)
  then show ?case using Cons by simp
qed simp

lemma b64_encode_alphabet:
  assumes "length alphabet = 64"
  shows "set (b64_encode alphabet s) \<subseteq> set alphabet"
proof -
  have "d < 64" if "d \<in> set (b64_digits (map of_char s))" for d
    by (rule b64_digits_bound [OF _ that]) auto
  then show ?thesis using assms by (auto simp: b64_encode_def)
qed

lemma b64_roundtrip:
  assumes "length alphabet = 64" and "distinct alphabet" and "CHR 0x0A \<notin> set alphabet" and "CHR 0x0D \<notin> set alphabet"
  shows "b64_decode alphabet (b64_encode alphabet s) = Some s"
proof -
  let ?ds = "b64_digits (map of_char s)"
  have b: "\<forall>x\<in>set (map of_char s :: nat list). x < 256" by auto
  have d: "\<forall>d\<in>set ?ds. d < length alphabet" using b64_digits_bound [OF b] assms(1) by auto
  have "set (b64_encode alphabet s) \<subseteq> set alphabet" by (rule b64_encode_alphabet [OF assms(1)])
  then have "filter (\<lambda>c. c \<noteq> CHR 0x0A \<and> c \<noteq> CHR 0x0D) (b64_encode alphabet s) = b64_encode alphabet s"
    using assms(3,4) by (auto simp: filter_id_conv)
  then show ?thesis
    using digit_values_map [OF assms(2) d] b64_bytes_digits [OF b]
    by (simp add: b64_decode_def b64_encode_def comp_def)
qed

lemma length_b64_encode: "length (b64_encode alphabet s) = (4 * length s + 2) div 3"
proof -
  have "length (b64_digits xs) = (4 * length xs + 2) div 3" for xs
    by (induction xs rule: b64_digits.induct) auto
  then show ?thesis by (simp add: b64_encode_def)
qed

lemma alphabets:
  "length std_alphabet = 64" "distinct std_alphabet" "CHR 0x0A \<notin> set std_alphabet" "CHR 0x0D \<notin> set std_alphabet"
  "CHR ''$'' \<notin> set std_alphabet" "length url_alphabet = 64"
  by code_simp+

section \<open>Scanning numbers\<close>

text \<open>\<open>SkipSpace\<close> of the scanner: all white space except a line feed, which is an error later.\<close>

function skip_space :: "string \<Rightarrow> string" where
  "skip_space s =
     (if space_len s = 0 \<or> take 1 s = [CHR 0x0A] then s else skip_space (drop (space_len s) s))"
  by pat_completeness auto
termination
  by (relation "measure length") (auto intro!: diff_less dest: space_len_pos_nonempty)

declare skip_space.simps [simp del]

text \<open>The verb \<open>%d\<close> on an unsigned field of the given width: the value and the rest of the input.\<close>

definition scan_uint :: "nat \<Rightarrow> string \<Rightarrow> (nat \<times> string) option" where
  "scan_uint bits s =
     (let t = skip_space s
      in map_option (\<lambda>n. (n, dropWhile is_digit t)) (parse_uint bits (takeWhile is_digit t)))"

definition scan_text :: "string \<Rightarrow> string \<Rightarrow> string option" where
  "scan_text p s = (if has_prefix s p then Some (drop (length p) s) else None)"

lemma takeWhile_dec: "\<not> is_digit c \<Longrightarrow> takeWhile is_digit (dec n @ c # r) = dec n"
  "\<not> is_digit c \<Longrightarrow> dropWhile is_digit (dec n @ c # r) = c # r"
  "takeWhile is_digit (dec n) = dec n" "dropWhile is_digit (dec n) = []"
  using dec_digits [of _ n] by (auto simp: takeWhile_append2 dropWhile_append2 dropWhile_eq_Nil_conv takeWhile_eq_all_conv)

lemma skip_space_dec: "skip_space (dec n @ r) = dec n @ r"
proof -
  obtain c s where d: "dec n = c # s" by (cases "dec n") auto
  have "is_digit c" using dec_digits [of c n] d by simp
  then have "48 \<le> (of_char c :: nat) \<and> of_char c \<le> (57::nat)" by (simp add: is_digit_def)
  then have "\<not> ascii_space c" "c \<noteq> CHR 0xC2" "c \<noteq> CHR 0xE1" "c \<noteq> CHR 0xE2" "c \<noteq> CHR 0xE3"
    by (auto simp: ascii_space_def)
  then have "space_len (c # s @ r) = 0"
    by (cases "c # s @ r" rule: space_len.cases) (auto simp: space2_def space3_def)
  then show ?thesis by (simp add: skip_space.simps d)
qed

lemma scan_uint_dec:
  "n < 2 ^ bits \<Longrightarrow> \<not> is_digit c \<Longrightarrow> scan_uint bits (dec n @ c # r) = Some (n, c # r)"
  "n < 2 ^ bits \<Longrightarrow> scan_uint bits (dec n) = Some (n, [])"
  using skip_space_dec [of n "[]"]
  by (simp_all add: scan_uint_def skip_space_dec takeWhile_dec parse_uint_dec)

end
