(* ===== verification/Password.thy ===== *)
theory Password
  imports Codec GoErrors
begin

text \<open>
  Passwords (\<open>internal/platform/auth/password.go\<close>): the encoded Argon2id hash, its verification, and
  the rule for new passwords. Argon2 itself is third-party code: the argument \<open>argon\<close>, applied to
  password, salt, iterations, memory, threads and the length of the key. The salt is an input.
\<close>

definition argon_memory :: nat where "argon_memory = 64 * 1024"
definition argon_time :: nat where "argon_time = 3"
definition argon_threads :: nat where "argon_threads = 2"
definition argon_key_len :: nat where "argon_key_len = 32"
definition argon_salt_len :: nat where "argon_salt_len = 16"

type_synonym argon2 = "string \<Rightarrow> string \<Rightarrow> nat \<Rightarrow> nat \<Rightarrow> nat \<Rightarrow> nat \<Rightarrow> string"

definition hash_password :: "argon2 \<Rightarrow> (go_error + string) \<Rightarrow> string \<Rightarrow> go_error + string" where
  "hash_password argon salt password =
     (case salt of
        Inl e \<Rightarrow> Inl e
      | Inr s \<Rightarrow>
          Inr (''$argon2id$v=19$m='' @ dec argon_memory @ '',t='' @ dec argon_time @ '',p='' @ dec argon_threads @
               ''$'' @ b64_encode std_alphabet s @ ''$'' @
               b64_encode std_alphabet (argon password s argon_time argon_memory argon_threads argon_key_len)))"

text \<open>\<open>fmt.Sscanf(s, "m=%d,t=%d,p=%d", ...)\<close> into fields of 32, 32 and 8 bits; input after the last
  number is ignored.\<close>

definition scan_params :: "string \<Rightarrow> (nat \<times> nat \<times> nat) option" where
  "scan_params s =
     (case scan_text ''m='' s of None \<Rightarrow> None | Some s \<Rightarrow>
      case scan_uint 32 s of None \<Rightarrow> None | Some (m, s) \<Rightarrow>
      case scan_text '',t='' s of None \<Rightarrow> None | Some s \<Rightarrow>
      case scan_uint 32 s of None \<Rightarrow> None | Some (t, s) \<Rightarrow>
      case scan_text '',p='' s of None \<Rightarrow> None | Some s \<Rightarrow>
      case scan_uint 8 s of None \<Rightarrow> None | Some (p, s) \<Rightarrow> Some (m, t, p))"

definition verify_password :: "argon2 \<Rightarrow> string \<Rightarrow> string \<Rightarrow> bool" where
  "verify_password argon encoded password =
     (case split_byte encoded (CHR ''$'') of
        [_, kind, version, params, salt64, key64] \<Rightarrow>
          (if kind \<noteq> ''argon2id'' \<or> version \<noteq> ''v=19'' then False
           else
             (case scan_params params of
                None \<Rightarrow> False
              | Some (memory, iterations, threads) \<Rightarrow>
                  (if memory < 8 * 1024 \<or> memory > 256 * 1024 \<or> iterations < 1 \<or> iterations > 10 \<or>
                      threads < 1 \<or> threads > 16 then False
                   else
                     (case b64_decode std_alphabet salt64 of
                        None \<Rightarrow> False
                      | Some salt \<Rightarrow>
                          (if length salt < 8 \<or> length salt > 64 then False
                           else
                             (case b64_decode std_alphabet key64 of
                                None \<Rightarrow> False
                              | Some expected \<Rightarrow>
                                  (if length expected < 16 \<or> length expected > 64 then False
                                   else argon password salt iterations memory threads (length expected) = expected)))))))
      | _ \<Rightarrow> False)"

text \<open>The four classes of characters; a class counts when the password contains one of its bytes
  (all of them are ASCII, so runes and bytes agree).\<close>

definition password_classes :: "string list" where
  "password_classes =
     [''abcdefghijklmnopqrstuvwxyz'', ''ABCDEFGHIJKLMNOPQRSTUVWXYZ'', ''0123456789'',
      ''!@#$%^&*()-_=+[]{};:,.?/'']"

datatype password_fault = TooShort | TooLong | TooFewClasses

definition validate_new_password :: "string \<Rightarrow> password_fault option" where
  "validate_new_password p =
     (if length p < 10 then Some TooShort
      else if length p > 128 then Some TooLong
      else if length (filter (\<lambda>checks. list_ex (\<lambda>c. c \<in> set checks) p) password_classes) < 2 then Some TooFewClasses
      else None)"

section \<open>What a stored hash verifies\<close>

lemma dollar_free_b64: "CHR ''$'' \<notin> set (b64_encode std_alphabet s)"
  using b64_encode_alphabet [OF alphabets(1)] alphabets(5) by blast

lemma dollar_free_dec: "CHR ''$'' \<notin> set (dec n)"
  using dec_digits [of "CHR ''$''" n] by (auto simp: is_digit_def)

lemma scan_params_hash:
  "m < 2 ^ 32 \<Longrightarrow> t < 2 ^ 32 \<Longrightarrow> p < 2 ^ 8 \<Longrightarrow>
   scan_params (''m='' @ dec m @ '',t='' @ dec t @ '',p='' @ dec p) = Some (m, t, p)"
proof -
  assume a: "m < 2 ^ 32" "t < 2 ^ 32" "p < 2 ^ 8"
  have c: "\<not> is_digit CHR '',''" by (simp add: is_digit_def)
  note u = scan_uint_dec(1) [OF a(1) c] scan_uint_dec(1) [OF a(2) c] scan_uint_dec(2) [OF a(3)]
  show ?thesis by (simp add: scan_params_def scan_text_def has_prefix_def u)
qed

lemma hash_parts:
  assumes "hash_password argon (Inr salt) password = Inr h"
  shows "split_byte h (CHR ''$'') =
    [[], ''argon2id'', ''v=19'', ''m='' @ dec argon_memory @ '',t='' @ dec argon_time @ '',p='' @ dec argon_threads,
     b64_encode std_alphabet salt,
     b64_encode std_alphabet (argon password salt argon_time argon_memory argon_threads argon_key_len)]"
proof -
  let ?ps = "[[], ''argon2id'', ''v=19'',
     ''m='' @ dec argon_memory @ '',t='' @ dec argon_time @ '',p='' @ dec argon_threads,
     b64_encode std_alphabet salt,
     b64_encode std_alphabet (argon password salt argon_time argon_memory argon_threads argon_key_len)]"
  have "h = str_join ?ps [CHR ''$'']" using assms by (simp add: hash_password_def)
  then show ?thesis using split_join [of ?ps "CHR ''$''"] dollar_free_b64 dollar_free_dec by auto
qed

lemma verify_hash:
  assumes "hash_password argon (Inr salt) password = Inr h" and "length salt = argon_salt_len"
    and "length (argon password salt argon_time argon_memory argon_threads argon_key_len) = argon_key_len"
  shows "(verify_password argon h candidate \<longleftrightarrow>
      argon candidate salt argon_time argon_memory argon_threads argon_key_len =
      argon password salt argon_time argon_memory argon_threads argon_key_len) \<and>
    verify_password argon h password"
proof -
  have p: "scan_params (''m='' @ dec argon_memory @ '',t='' @ dec argon_time @ '',p='' @ dec argon_threads) =
      Some (argon_memory, argon_time, argon_threads)"
    by (rule scan_params_hash) (simp_all add: argon_memory_def argon_time_def argon_threads_def)
  note r = b64_roundtrip [OF alphabets(1-4)]
  have v: "verify_password argon h candidate \<longleftrightarrow>
      argon candidate salt argon_time argon_memory argon_threads argon_key_len =
      argon password salt argon_time argon_memory argon_threads argon_key_len" for candidate
    using assms(2,3) unfolding verify_password_def hash_parts [OF assms(1)] list.case p option.case prod.case r
    by (simp add: argon_salt_len_def argon_key_len_def argon_memory_def argon_time_def argon_threads_def)
  then show ?thesis by simp
qed

text \<open>
  C12. What \<open>hashPassword\<close> stores is what \<open>verifyPassword\<close> accepts: with a salt of the length the code
  draws and a key function that returns keys of the requested length, the encoded hash of a password
  verifies exactly the passwords with the same Argon2 key, its own among them, in spite of the text
  format in between.
\<close>

theorem password_hash_verifies:
  assumes "hash_password argon (Inr salt) password = Inr h" and "length salt = argon_salt_len"
    and "length (argon password salt argon_time argon_memory argon_threads argon_key_len) = argon_key_len"
  shows "(verify_password argon h candidate \<longleftrightarrow>
      argon candidate salt argon_time argon_memory argon_threads argon_key_len =
      argon password salt argon_time argon_memory argon_threads argon_key_len) \<and>
    verify_password argon h password"
  by (rule verify_hash [OF assms])

theorem password_hash_verifies_witness:
  "\<exists>h. verify_password (\<lambda>p s t m k n. take n (p @ replicate n CHR ''x'')) h ''admin123''"
proof -
  let ?a = "\<lambda>p s t m k n. take n (p @ replicate n CHR ''x'')"
  obtain h where "hash_password ?a (Inr (replicate 16 CHR ''s'')) ''admin123'' = Inr h"
    by (auto simp: hash_password_def)
  from password_hash_verifies [OF this] show ?thesis
    by (auto simp: argon_salt_len_def argon_key_len_def)
qed

end
