(* ===== verification/Auth.thy ===== *)
theory Auth
  imports AuthStore Password
begin

text \<open>
  The authentication service and its HTTP gate (\<open>internal/platform/auth/service.go\<close>, \<open>limiter.go\<close>,
  \<open>http.go\<close>). Argon2 and SHA-256 (as hexadecimal text) are the arguments \<open>argon\<close> and \<open>sha\<close>; random
  tokens are inputs. A Redis server is third-party code: its answers to the counting pipeline are a
  script, \<^const>\<open>None\<close> for a failed call, after which the in-memory limiter decides.
\<close>

section \<open>The login limiter\<close>

record attempt =
  la_count :: int
  la_expires :: gotime

record limiter =
  lim_prefix :: string
  lim_redis :: "int option list option"
  lim_local :: "string \<rightharpoonup> attempt"

definition limiter_key :: "(string \<Rightarrow> string) \<Rightarrow> limiter \<Rightarrow> string \<Rightarrow> string" where
  "limiter_key sha l v = lim_prefix l @ sha v"

definition local_allow :: "string \<Rightarrow> gotime \<Rightarrow> limiter \<Rightarrow> bool \<times> limiter" where
  "local_allow key now l =
     (let entry = (case lim_local l key of None \<Rightarrow> \<lparr>la_count = 0, la_expires = 0\<rparr> | Some e \<Rightarrow> e);
          entry = (if \<not> la_expires entry > now then \<lparr>la_count = 0, la_expires = now + 15 * minute\<rparr> else entry);
          entry = entry\<lparr>la_count := la_count entry + 1\<rparr>
      in (la_count entry \<le> 5, l\<lparr>lim_local := (lim_local l)(key \<mapsto> entry)\<rparr>))"

definition limiter_allow :: "(string \<Rightarrow> string) \<Rightarrow> string \<Rightarrow> gotime \<Rightarrow> limiter \<Rightarrow> bool \<times> limiter" where
  "limiter_allow sha v now l =
     (let key = limiter_key sha l v
      in case lim_redis l of
           None \<Rightarrow> local_allow key now l
         | Some [] \<Rightarrow> local_allow key now l
         | Some (answer # rest) \<Rightarrow>
             (let l1 = l\<lparr>lim_redis := Some rest\<rparr>
              in case answer of Some n \<Rightarrow> (n \<le> 5, l1) | None \<Rightarrow> local_allow key now l1))"

definition limiter_clear :: "(string \<Rightarrow> string) \<Rightarrow> string list \<Rightarrow> limiter \<Rightarrow> limiter" where
  "limiter_clear sha vs l =
     l\<lparr>lim_local := foldl (\<lambda>m v. m(limiter_key sha l v := None)) (lim_local l) vs\<rparr>"

section \<open>The service\<close>

record auth_config =
  cfg_admin :: string
  cfg_ttl :: duration
  cfg_trust_proxy :: bool

record auth_service =
  sv_db :: "auth_tables sqldb"
  sv_limiter :: limiter
  sv_config :: auth_config
  sv_dummy_hash :: string

text \<open>\<open>Principal\<close>; the user is kept with its private fields, which \<open>publicUser\<close> drops.\<close>

record principal =
  pc_user :: auth_user
  pc_hash :: string
  pc_credential :: credential

record auth_login_result =
  lr_user :: auth_user
  lr_expires_at :: gotime
  lr_token :: string

definition normalize_username :: "string \<Rightarrow> string" where
  "normalize_username v = to_lower (trim_space v)"

definition is_lower_alnum :: "char \<Rightarrow> bool" where
  "is_lower_alnum c \<longleftrightarrow> (let n = of_char c :: nat in (97 \<le> n \<and> n \<le> 122) \<or> (48 \<le> n \<and> n \<le> 57))"

text \<open>\<open>^[a-z0-9][a-z0-9._@-]{2,63}$\<close>\<close>

definition username_pattern :: "string \<Rightarrow> bool" where
  "username_pattern s \<longleftrightarrow>
     (case s of [] \<Rightarrow> False
      | c # r \<Rightarrow> is_lower_alnum c \<and> 2 \<le> length r \<and> length r \<le> 63 \<and>
                list_all (\<lambda>x. is_lower_alnum x \<or> x \<in> set ''._@-'') r)"

definition truncate_text :: "string \<Rightarrow> nat \<Rightarrow> string" where
  "truncate_text v n = (let v = trim_space v in if length v > n then take n v else v)"

definition random_token :: "(string \<Rightarrow> string) \<Rightarrow> string \<Rightarrow> (auth_error + string) \<Rightarrow> auth_error + (string \<times> string)" where
  "random_token sha pre bytes =
     (case bytes of
        Inl e \<Rightarrow> Inl e
      | Inr b \<Rightarrow> (let token = pre @ b64_encode url_alphabet b in Inr (token, sha token)))"

definition new_service ::
  "argon2 \<Rightarrow> gotime \<Rightarrow> (go_error + string) \<Rightarrow> (go_error + string) \<Rightarrow> auth_config \<Rightarrow> limiter \<Rightarrow>
   auth_tables sqldb \<Rightarrow> auth_service option \<times> auth_tables sqldb" where
  "new_service argon db_now salt1 salt2 cfg lm db =
     (if cfg_ttl cfg < 60 * minute \<or> cfg_ttl cfg > 30 * 24 * 60 * minute then (None, db)
      else
        (let cfg = cfg\<lparr>cfg_admin := normalize_username (cfg_admin cfg)\<rparr>
         in if \<not> username_pattern (cfg_admin cfg) then (None, db)
            else
              (case hash_password argon salt1 ''running-tools-dummy-password'' of
                 Inl e \<Rightarrow> (None, db)
               | Inr dummy \<Rightarrow>
                   (case hash_password argon salt2 ''admin123'' of
                      Inl e \<Rightarrow> (None, db)
                    | Inr hash \<Rightarrow>
                        (case bootstrap_user db_now (cfg_admin cfg) hash db of
                           (Inl e, db1) \<Rightarrow> (None, db1)
                         | (Inr _, db1) \<Rightarrow>
                             (Some \<lparr>sv_db = db1, sv_limiter = lm, sv_config = cfg, sv_dummy_hash = dummy\<rparr>, db1))))))"

definition with_db :: "(auth_tables sqldb \<Rightarrow> 'a \<times> auth_tables sqldb) \<Rightarrow> auth_service \<Rightarrow> 'a \<times> auth_service" where
  "with_db f s = (let (a, db) = f (sv_db s) in (a, s\<lparr>sv_db := db\<rparr>))"

section \<open>Logging in\<close>

text \<open>
  \<open>Login\<close> is not one transaction: the first part checks the limits and the password and reads the
  user, the second draws a token and stores the session. Both are calls of their own here, so that
  other requests can come between them; \<open>login\<close> is their composition.
\<close>

definition log_login ::
  "int option \<Rightarrow> string \<Rightarrow> string \<Rightarrow> string \<Rightarrow> string \<Rightarrow> string \<Rightarrow> gotime \<Rightarrow> auth_service \<Rightarrow> auth_service" where
  "log_login u username outcome reason ip agent now s =
     snd (with_db (record_login u username outcome reason ip agent now) s)"

text \<open>The part behind the limits: an unknown user costs a verification of the dummy hash.\<close>

definition login_verify ::
  "argon2 \<Rightarrow> (string \<Rightarrow> string) \<Rightarrow> gotime \<Rightarrow> string \<Rightarrow> string \<Rightarrow> string \<Rightarrow> string \<Rightarrow> auth_service \<Rightarrow>
   (auth_error + auth_user) \<times> auth_service" where
  "login_verify argon sha now username password ip agent s =
     (case with_db (find_user_by_username username) s of
        (Inl NotFound, s) \<Rightarrow>
          (let matches = verify_password argon (sv_dummy_hash s) password
           in (Inl InvalidCredentials, log_login None username ''failure'' ''invalid_credentials'' ip agent now s))
      | (Inl e, s) \<Rightarrow> (Inl e, s)
      | (Inr u, s) \<Rightarrow>
          (if verify_password argon (au_password_hash u) password \<and> \<not> au_disabled u
           then (Inr u, s\<lparr>sv_limiter := limiter_clear sha [''user:'' @ username, ''ip:'' @ ip] (sv_limiter s)\<rparr>)
           else (Inl InvalidCredentials,
                 log_login (Some (au_id u)) username ''failure'' ''invalid_credentials'' ip agent now s)))"

definition login_check ::
  "argon2 \<Rightarrow> (string \<Rightarrow> string) \<Rightarrow> gotime \<Rightarrow> string \<Rightarrow> string \<Rightarrow> string \<Rightarrow> string \<Rightarrow> auth_service \<Rightarrow>
   (auth_error + auth_user) \<times> auth_service" where
  "login_check argon sha now username password ip agent s =
     (let username = normalize_username username;
          ip = truncate_text ip 128;
          agent = truncate_text agent 500;
          (allowed, lm) = limiter_allow sha (''ip:'' @ ip) now (sv_limiter s);
          s = s\<lparr>sv_limiter := lm\<rparr>
      in if \<not> allowed then
           (Inl RateLimited, log_login None (truncate_text username 64) ''blocked'' ''rate_limited'' ip agent now s)
         else if \<not> username_pattern username \<or> length password = 0 \<or> length password > 256 then
           (Inl InvalidCredentials,
            log_login None (truncate_text username 64) ''failure'' ''invalid_credentials'' ip agent now s)
         else
           (let (allowed, lm) = limiter_allow sha (''user:'' @ username) now (sv_limiter s);
                s = s\<lparr>sv_limiter := lm\<rparr>
            in if \<not> allowed then
                 (Inl RateLimited, log_login None username ''blocked'' ''rate_limited'' ip agent now s)
               else login_verify argon sha now username password ip agent s))"

definition login_finish ::
  "(string \<Rightarrow> string) \<Rightarrow> gotime \<Rightarrow> gotime \<Rightarrow> string \<Rightarrow> string \<Rightarrow> string \<Rightarrow> (auth_error + string) \<Rightarrow> auth_user \<Rightarrow>
   auth_service \<Rightarrow> (auth_error + auth_login_result) \<times> auth_service" where
  "login_finish sha db_now now username ip agent bytes u s =
     (let username = normalize_username username; ip = truncate_text ip 128; agent = truncate_text agent 500
      in case random_token sha [] bytes of
           Inl e \<Rightarrow> (Inl e, s)
         | Inr (token, hash) \<Rightarrow>
             (let expires = now + cfg_ttl (sv_config s);
                  (ok, s) = with_db (create_auth_session db_now hash (au_id u) ip agent expires) s
              in if \<not> ok then (Inl DbError, s)
                 else
                   (let (_, s) = with_db (set_last_login (au_id u) now) s;
                        (_, s) = with_db (record_login (Some (au_id u)) username ''success'' [] ip agent now) s
                    in (Inr \<lparr>lr_user = u\<lparr>au_last_login := Some now\<rparr>, lr_expires_at = expires, lr_token = token\<rparr>, s))))"

definition login ::
  "argon2 \<Rightarrow> (string \<Rightarrow> string) \<Rightarrow> gotime \<Rightarrow> gotime \<Rightarrow> string \<Rightarrow> string \<Rightarrow> string \<Rightarrow> string \<Rightarrow> (auth_error + string) \<Rightarrow>
   auth_service \<Rightarrow> (auth_error + auth_login_result) \<times> auth_service" where
  "login argon sha db_now now username password ip agent bytes s =
     (case login_check argon sha now username password ip agent s of
        (Inl e, s1) \<Rightarrow> (Inl e, s1)
      | (Inr u, s1) \<Rightarrow> login_finish sha db_now now username ip agent bytes u s1)"

section \<open>Requests\<close>

text \<open>
  What the code reads of a request. \<open>rq_origin_host\<close> is the host \<open>url.Parse\<close> finds in the Origin
  header, \<^const>\<open>None\<close> when it fails or finds none.
\<close>

record request =
  rq_method :: string
  rq_path :: string
  rq_authorization :: string
  rq_cookie :: "string option"
  rq_origin :: string
  rq_origin_host :: "string option"
  rq_host :: string
  rq_forwarded_host :: string

definition same_origin :: "auth_config \<Rightarrow> request \<Rightarrow> bool" where
  "same_origin cfg r =
     (if trim_space (rq_origin r) = [] then True
      else
        (case rq_origin_host r of
           None \<Rightarrow> False
         | Some origin \<Rightarrow>
             (let forwarded = trim_space (fst (cut_byte (rq_forwarded_host r) (CHR '','')));
                  host = (if cfg_trust_proxy cfg \<and> forwarded \<noteq> [] then forwarded else rq_host r)
              in equal_fold origin host)))"

definition touch_when_stale ::
  "gotime \<Rightarrow> principal_record \<Rightarrow> (string \<Rightarrow> gotime \<Rightarrow> auth_tables sqldb \<Rightarrow> bool \<times> auth_tables sqldb) \<Rightarrow>
   auth_service \<Rightarrow> auth_service" where
  "touch_when_stale now p touch s =
     (if now - pr_last_seen p \<ge> 5 * minute then snd (with_db (touch (pr_hash p) now) s) else s)"

definition authenticate ::
  "(string \<Rightarrow> string) \<Rightarrow> gotime \<Rightarrow> request \<Rightarrow> auth_service \<Rightarrow> (auth_error + principal) \<times> auth_service" where
  "authenticate sha now r s =
     (let authorization = trim_space (rq_authorization r)
      in if has_prefix (to_lower authorization) ''bearer '' then
           (let token = trim_space (drop 7 authorization)
            in if \<not> has_prefix token ''rtk_'' then (Inl Unauthorized, s)
               else
                 (case with_db (find_api_token (sha token) now) s of
                    (Inl e, s1) \<Rightarrow> (Inl Unauthorized, s1)
                  | (Inr p, s1) \<Rightarrow>
                      (if au_disabled (pr_user p) \<or> au_must_change (pr_user p) then (Inl Unauthorized, s1)
                       else (Inr \<lparr>pc_user = pr_user p, pc_hash = pr_hash p, pc_credential = ApiTokenCredential\<rparr>,
                             touch_when_stale now p touch_api_token s1))))
         else
           (case rq_cookie r of
              None \<Rightarrow> (Inl Unauthorized, s)
            | Some v \<Rightarrow>
                (if v = [] then (Inl Unauthorized, s)
                 else
                   (case with_db (find_session (sha v) now) s of
                      (Inl e, s1) \<Rightarrow> (Inl Unauthorized, s1)
                    | (Inr p, s1) \<Rightarrow>
                        (if au_disabled (pr_user p) then (Inl Unauthorized, s1)
                         else (Inr \<lparr>pc_user = pr_user p, pc_hash = pr_hash p, pc_credential = SessionCredential\<rparr>,
                               touch_when_stale now p touch_session s1))))))"

section \<open>Account operations\<close>

definition change_password ::
  "argon2 \<Rightarrow> gotime \<Rightarrow> principal \<Rightarrow> string \<Rightarrow> string \<Rightarrow> (go_error + string) \<Rightarrow> auth_service \<Rightarrow>
   (auth_error + auth_user) \<times> auth_service" where
  "change_password argon now pc current new salt s =
     (if pc_credential pc \<noteq> SessionCredential then (Inl SessionRequired, s)
      else
        (case with_db (find_user_by_id (au_id (pc_user pc))) s of
           (Inl e, s1) \<Rightarrow> (Inl Unauthorized, s1)
         | (Inr u, s1) \<Rightarrow>
             (if \<not> verify_password argon (au_password_hash u) current then (Inl (Rejected ''wrong current password''), s1)
              else
                (case validate_new_password new of
                   Some f \<Rightarrow> (Inl (Rejected ''invalid new password''), s1)
                 | None \<Rightarrow>
                     (if verify_password argon (au_password_hash u) new then (Inl (Rejected ''password unchanged''), s1)
                      else
                        (case hash_password argon salt new of
                           Inl e \<Rightarrow> (Inl (StorageError ''hash password''), s1)
                         | Inr hash \<Rightarrow>
                             (case with_db (update_password (au_id u) hash (pc_hash pc) now) s1 of
                                (Inl e, s2) \<Rightarrow> (Inl (StorageError ''update password''), s2)
                              | (Inr _, s2) \<Rightarrow> (Inr (u\<lparr>au_must_change := False\<rparr>), s2)))))))) "

definition logout :: "gotime \<Rightarrow> principal \<Rightarrow> auth_service \<Rightarrow> auth_error option \<times> auth_service" where
  "logout now pc s =
     (if pc_credential pc \<noteq> SessionCredential then (Some SessionRequired, s)
      else (let (ok, s1) = with_db (revoke_session (pc_hash pc) now) s
            in (if ok then None else Some (StorageError ''revoke session''), s1)))"

definition list_tokens :: "gotime \<Rightarrow> principal \<Rightarrow> auth_service \<Rightarrow> (auth_error + api_token list) \<times> auth_service" where
  "list_tokens now pc s =
     (if pc_credential pc \<noteq> SessionCredential then (Inl SessionRequired, s)
      else (case with_db (list_api_tokens (au_id (pc_user pc)) now) s of
              (None, s1) \<Rightarrow> (Inl (StorageError ''list API tokens''), s1)
            | (Some ks, s1) \<Rightarrow> (Inr (map (\<lambda>k. k\<lparr>at_user := 0, at_hash := [], at_revoked := None\<rparr>) ks), s1)))"

definition create_token ::
  "(string \<Rightarrow> string) \<Rightarrow> gotime \<Rightarrow> principal \<Rightarrow> string \<Rightarrow> int \<Rightarrow> (auth_error + string) \<Rightarrow> (auth_error + string) \<Rightarrow>
   auth_service \<Rightarrow> (auth_error + (api_token \<times> string)) \<times> auth_service" where
  "create_token sha now pc name expires_in id_bytes bytes s =
     (if pc_credential pc \<noteq> SessionCredential then (Inl SessionRequired, s)
      else
        (let name = trim_space name
         in if name = [] \<or> length name > 100 then (Inl (Rejected ''invalid token name''), s)
            else if expires_in < 1 \<or> expires_in > 365 then (Inl (Rejected ''invalid token expiry''), s)
            else
              (case random_token sha ''tok_'' id_bytes of
                 Inl e \<Rightarrow> (Inl e, s)
               | Inr (ident, _) \<Rightarrow>
                   (case random_token sha ''rtk_'' bytes of
                      Inl e \<Rightarrow> (Inl e, s)
                    | Inr (token, hash) \<Rightarrow>
                        (let k = \<lparr>at_id = ident, at_user = au_id (pc_user pc), at_name = name, at_hash = hash,
                                  at_prefix = take 12 token, at_created = now, at_last_used = None,
                                  at_expires = Some (now + days expires_in), at_revoked = None\<rparr>;
                             (ok, s1) = with_db (create_api_token k) s
                         in if ok then (Inr (k, token), s1)
                            else (Inl (StorageError ''create API token''), s1))))))"

definition revoke_token :: "gotime \<Rightarrow> principal \<Rightarrow> string \<Rightarrow> auth_service \<Rightarrow> auth_error option \<times> auth_service" where
  "revoke_token now pc ident s =
     (if pc_credential pc \<noteq> SessionCredential then (Some SessionRequired, s)
      else (case with_db (revoke_api_token (au_id (pc_user pc)) (trim_space ident) now) s of
              (Inl NotFound, s1) \<Rightarrow> (Some NotFound, s1)
            | (Inl e, s1) \<Rightarrow> (Some (StorageError ''revoke API token''), s1)
            | (Inr _, s1) \<Rightarrow> (None, s1)))"

definition cleanup :: "gotime \<Rightarrow> auth_service \<Rightarrow> bool \<times> auth_service" where
  "cleanup now s = with_db (delete_expired now) s"

section \<open>The gate\<close>

definition is_public_auth_route :: "string \<Rightarrow> string \<Rightarrow> bool" where
  "is_public_auth_route m p \<longleftrightarrow>
     (m = ''GET'' \<and> p = ''/api/auth/status'') \<or> (m = ''POST'' \<and> p = ''/api/auth/login'')"

definition password_change_allowed :: "string \<Rightarrow> string \<Rightarrow> bool" where
  "password_change_allowed m p \<longleftrightarrow>
     (m = ''GET'' \<and> p = ''/api/auth/me'') \<or> (m = ''PUT'' \<and> p = ''/api/auth/password'') \<or>
     (m = ''POST'' \<and> p = ''/api/auth/logout'')"

definition is_safe_method :: "string \<Rightarrow> bool" where
  "is_safe_method m \<longleftrightarrow> m = ''GET'' \<or> m = ''HEAD'' \<or> m = ''OPTIONS''"

text \<open>What \<open>ProtectAPIs\<close> does with a request: the next handler runs, with the principal if one was
  established, or an error is written.\<close>

datatype gate_result = Serve "principal option" | Refuse int string

definition protect_apis ::
  "(string \<Rightarrow> string) \<Rightarrow> gotime \<Rightarrow> request \<Rightarrow> auth_service \<Rightarrow> gate_result \<times> auth_service" where
  "protect_apis sha now r s =
     (if \<not> has_prefix (rq_path r) ''/api/'' \<and> \<not> has_prefix (rq_path r) ''/v1/'' then (Serve None, s)
      else if is_public_auth_route (rq_method r) (rq_path r) then (Serve None, s)
      else
        (case authenticate sha now r s of
           (Inl e, s1) \<Rightarrow> (Refuse 401 ''UNAUTHORIZED'', s1)
         | (Inr pc, s1) \<Rightarrow>
             (if au_must_change (pc_user pc) \<and> \<not> password_change_allowed (rq_method r) (rq_path r)
              then (Refuse 403 ''PASSWORD_CHANGE_REQUIRED'', s1)
              else if pc_credential pc = SessionCredential \<and> \<not> is_safe_method (rq_method r) \<and> \<not> same_origin (sv_config s) r
              then (Refuse 403 ''ORIGIN_REJECTED'', s1)
              else (Serve (Some pc), s1))))"

section \<open>Handlers\<close>

text \<open>The status and the error code a handler answers with; code [] is success. The cookie a login
  sets holds the token.\<close>

definition login_error :: "auth_error \<Rightarrow> int \<times> string" where
  "login_error e = (case e of RateLimited \<Rightarrow> (429, ''LOGIN_RATE_LIMITED'')
     | InvalidCredentials \<Rightarrow> (401, ''INVALID_CREDENTIALS'') | _ \<Rightarrow> (500, ''AUTH_STORAGE_ERROR''))"

definition http_login ::
  "argon2 \<Rightarrow> (string \<Rightarrow> string) \<Rightarrow> gotime \<Rightarrow> gotime \<Rightarrow> request \<Rightarrow> (string \<times> string) option \<Rightarrow> string \<Rightarrow> string \<Rightarrow>
   (auth_error + string) \<Rightarrow> auth_service \<Rightarrow> (int \<times> string) \<times> string option \<times> auth_service" where
  "http_login argon sha db_now now r body ip agent bytes s =
     (if \<not> same_origin (sv_config s) r then ((403, ''ORIGIN_REJECTED''), None, s)
      else
        (case body of
           None \<Rightarrow> ((400, ''BAD_REQUEST''), None, s)
         | Some (username, password) \<Rightarrow>
             (case login argon sha db_now now username password ip agent bytes s of
                (Inl e, s1) \<Rightarrow> (login_error e, None, s1)
              | (Inr result, s1) \<Rightarrow> ((200, []), Some (lr_token result), s1))))"

definition http_logout :: "gotime \<Rightarrow> principal option \<Rightarrow> auth_service \<Rightarrow> (int \<times> string) \<times> auth_service" where
  "http_logout now pc s =
     (case pc of
        None \<Rightarrow> ((200, []), s)
      | Some p \<Rightarrow>
          (case logout now p s of
             (None, s1) \<Rightarrow> ((200, []), s1)
           | (Some SessionRequired, s1) \<Rightarrow> ((403, ''SESSION_REQUIRED''), s1)
           | (Some _, s1) \<Rightarrow> ((500, ''AUTH_STORAGE_ERROR''), s1)))"

definition password_error :: "auth_error \<Rightarrow> int \<times> string" where
  "password_error e = (case e of StorageError _ \<Rightarrow> (500, ''AUTH_STORAGE_ERROR'') | Unauthorized \<Rightarrow> (401, ''UNAUTHORIZED'')
     | SessionRequired \<Rightarrow> (403, ''SESSION_REQUIRED'') | _ \<Rightarrow> (400, ''PASSWORD_INVALID''))"

definition http_change_password ::
  "argon2 \<Rightarrow> gotime \<Rightarrow> principal option \<Rightarrow> (string \<times> string) option \<Rightarrow> (go_error + string) \<Rightarrow> auth_service \<Rightarrow>
   (int \<times> string) \<times> auth_service" where
  "http_change_password argon now pc body salt s =
     (case pc of
        None \<Rightarrow> ((401, ''UNAUTHORIZED''), s)
      | Some p \<Rightarrow>
          (case body of
             None \<Rightarrow> ((400, ''BAD_REQUEST''), s)
           | Some (current, new) \<Rightarrow>
               (case change_password argon now p current new salt s of
                  (Inl e, s1) \<Rightarrow> (password_error e, s1)
                | (Inr _, s1) \<Rightarrow> ((200, []), s1))))"

end
