(* ===== verification/AuthProps.thy ===== *)
theory AuthProps
  imports Auth Revocation
begin

text \<open>
  What authentication guarantees: withdrawn credentials stay withdrawn (two interpretations of the
  contract \<open>revocable\<close>), the gate fails closed, a password change ends every other session and token,
  and the limiter bounds the attempts. One theorem shows the race a login can win against a password
  change.
\<close>

section \<open>Sessions and tokens are revocable\<close>

definition live_sessions :: "auth_tables \<Rightarrow> string set" where
  "live_sessions t = as_hash ` {x \<in> set (t_sessions t). as_revoked x = None}"

definition live_tokens :: "auth_tables \<Rightarrow> string set" where
  "live_tokens t = at_hash ` {k \<in> set (t_tokens t). at_revoked k = None}"

lemma live_sessions_iff: "h \<in> live_sessions t \<longleftrightarrow> (\<exists>x\<in>set (t_sessions t). as_hash x = h \<and> as_revoked x = None)"
  by (auto simp: live_sessions_def)

lemma live_tokens_iff: "h \<in> live_tokens t \<longleftrightarrow> (\<exists>k\<in>set (t_tokens t). at_hash k = h \<and> at_revoked k = None)"
  by (auto simp: live_tokens_def)

definition keys_unique :: "auth_tables \<Rightarrow> bool" where
  "keys_unique t \<longleftrightarrow> distinct (map as_hash (t_sessions t)) \<and> distinct (map at_hash (t_tokens t)) \<and>
     distinct (map au_id (t_users t))"

text \<open>The tables a call may leave: keys stay unique, live sessions beyond the old ones are in \<open>S\<close>, live
  tokens in \<open>K\<close>.\<close>

definition evolves :: "string set \<Rightarrow> string set \<Rightarrow> auth_tables \<Rightarrow> auth_tables \<Rightarrow> bool" where
  "evolves S K t t' \<longleftrightarrow> (keys_unique t \<longrightarrow> keys_unique t') \<and>
     live_sessions t' \<subseteq> live_sessions t \<union> S \<and> live_tokens t' \<subseteq> live_tokens t \<union> K"

lemma evolves_refl [simp]: "evolves S K t t"
  by (simp add: evolves_def)

lemma evolves_trans: "evolves S K a b \<Longrightarrow> evolves S K b c \<Longrightarrow> evolves S K a c"
  by (auto simp: evolves_def)

lemma evolves_mono: "evolves S K a b \<Longrightarrow> S \<subseteq> S' \<Longrightarrow> K \<subseteq> K' \<Longrightarrow> evolves S' K' a b"
  by (auto simp: evolves_def)

lemma evolves_frame:
  "t_sessions t' = t_sessions t \<Longrightarrow> t_tokens t' = t_tokens t \<Longrightarrow> map au_id (t_users t') = map au_id (t_users t) \<Longrightarrow>
   evolves S K t t'"
  by (simp add: evolves_def keys_unique_def live_sessions_def live_tokens_def)

lemma evolves_map_sessions:
  assumes "\<And>x. as_hash (f x) = as_hash x \<and> (as_revoked (f x) = None \<longrightarrow> as_revoked x = None)"
  shows "evolves S K t (map_sessions P f t)"
proof -
  have "map as_hash (t_sessions (map_sessions P f t)) = map as_hash (t_sessions t)"
    using assms by (simp add: map_sessions_def)
  moreover have "live_sessions (map_sessions P f t) \<subseteq> live_sessions t"
    using assms by (fastforce simp: live_sessions_def map_sessions_def split: if_splits)
  moreover have "t_tokens (map_sessions P f t) = t_tokens t" "t_users (map_sessions P f t) = t_users t"
    by (simp_all add: map_sessions_def)
  ultimately show ?thesis
    by (simp only: evolves_def keys_unique_def live_tokens_def) blast
qed

lemma evolves_map_tokens:
  assumes "\<And>x. at_hash (f x) = at_hash x \<and> (at_revoked (f x) = None \<longrightarrow> at_revoked x = None)"
  shows "evolves S K t (map_tokens P f t)"
proof -
  have "map at_hash (t_tokens (map_tokens P f t)) = map at_hash (t_tokens t)"
    using assms by (simp add: map_tokens_def)
  moreover have "live_tokens (map_tokens P f t) \<subseteq> live_tokens t"
    using assms by (fastforce simp: live_tokens_def map_tokens_def split: if_splits)
  moreover have "t_sessions (map_tokens P f t) = t_sessions t" "t_users (map_tokens P f t) = t_users t"
    by (simp_all add: map_tokens_def)
  ultimately show ?thesis
    by (simp only: evolves_def keys_unique_def live_sessions_def) blast
qed

lemma evolves_filter:
  "evolves S K t (t\<lparr>t_sessions := filter P (t_sessions t)\<rparr>)"
  "evolves S K t (t\<lparr>t_tokens := filter Q (t_tokens t)\<rparr>)"
  by (auto simp: evolves_def keys_unique_def live_sessions_def live_tokens_def distinct_map_filter)

lemma evolves_insert_session:
  "insert_auth_session db_now h u ip agent e t = Some (r, t') \<Longrightarrow> evolves {h} K t t'"
  by (auto simp: insert_auth_session_def evolves_def keys_unique_def live_sessions_def live_tokens_def split: if_splits)

lemma evolves_insert_token:
  "insert_token k t = Some (r, t') \<Longrightarrow> evolves S {at_hash k} t t'"
  by (force simp: insert_token_def evolves_def keys_unique_def live_sessions_def live_tokens_def split: if_splits)

subsection \<open>The methods of the store\<close>

abbreviation db_evolves :: "string set \<Rightarrow> string set \<Rightarrow> auth_tables sqldb \<Rightarrow> auth_tables sqldb \<Rightarrow> bool" where
  "db_evolves S K db db' \<equiv> evolves S K (tables db) (tables db')"

lemma exec_evolves: "evolves S K (tables db) (f (tables db)) \<Longrightarrow> db_evolves S K db (snd (sql_exec f db))"
  by (simp add: sql_exec_tables)

lemma run_evolves:
  "(\<And>a t. f (tables db) = Some (a, t) \<Longrightarrow> evolves S K (tables db) t) \<Longrightarrow> db_evolves S K db (snd (sql_run f db))"
  using sql_run_tables [of f db] by auto

lemma find_evolves [simp]:
  "tables (snd (find_user_by_username n db)) = tables db" "tables (snd (find_user_by_id i db)) = tables db"
  "tables (snd (find_session h now db)) = tables db" "tables (snd (find_api_token h now db)) = tables db"
  "tables (snd (list_api_tokens u now db)) = tables db"
  by (simp_all add: find_user_by_username_def find_user_by_id_def find_session_def find_api_token_def list_api_tokens_def)

lemma users_map_id: "(\<And>u. au_id (f u) = au_id u) \<Longrightarrow> map au_id (map f us) = map au_id us"
  by simp

lemma store_evolves:
  "db_evolves S K db (snd (record_login u n oc re ip ag now db))"
  "db_evolves S K db (snd (set_last_login i now db))"
  "db_evolves S K db (snd (touch_session h now db))"
  "db_evolves S K db (snd (revoke_session h now db))"
  "db_evolves S K db (snd (touch_api_token h now db))"
  unfolding record_login_def set_last_login_def touch_session_def revoke_session_def touch_api_token_def
  by (rule exec_evolves; (rule evolves_map_sessions evolves_map_tokens evolves_frame; simp add: comp_def))+

lemma create_session_evolves: "db_evolves {h} K db (snd (create_auth_session db_now h u ip ag e db))"
  by (auto simp: create_auth_session_def intro!: run_evolves dest: evolves_insert_session)

lemma create_api_token_evolves: "db_evolves S {at_hash k} db (snd (create_api_token k db))"
  by (auto simp: create_api_token_def intro!: run_evolves dest: evolves_insert_token)

lemma revoke_api_token_evolves: "db_evolves S K db (snd (revoke_api_token u i now db))"
  unfolding revoke_api_token_def Let_def
  by (cases "sql_run (\<lambda>t. Some (length (filter (\<lambda>k. at_user k = u \<and> at_id k = i \<and> at_revoked k = None) (t_tokens t)),
      map_tokens (\<lambda>k. at_user k = u \<and> at_id k = i \<and> at_revoked k = None) (\<lambda>k. k\<lparr>at_revoked := Some now\<rparr>) t)) db")
    (use run_evolves [of "\<lambda>t. Some (length (filter (\<lambda>k. at_user k = u \<and> at_id k = i \<and> at_revoked k = None) (t_tokens t)),
      map_tokens (\<lambda>k. at_user k = u \<and> at_id k = i \<and> at_revoked k = None) (\<lambda>k. k\<lparr>at_revoked := Some now\<rparr>) t)" db S K]
     in \<open>auto simp: evolves_map_tokens split: option.splits\<close>)

lemma delete_expired_evolves: "db_evolves S K db (snd (delete_expired now db))"
  unfolding delete_expired_def Let_def split_beta
  by (auto simp: sql_exec_tables intro!: evolves_filter evolves_trans [OF evolves_filter(1) evolves_filter(2)]
      evolves_trans [OF evolves_trans [OF evolves_filter(1) evolves_filter(2)] evolves_frame])

text \<open>What a successful password change leaves.\<close>

definition password_tables :: "int \<Rightarrow> string \<Rightarrow> string \<Rightarrow> gotime \<Rightarrow> auth_tables \<Rightarrow> auth_tables" where
  "password_tables u hash keep now t = revoke_user_tokens u now (revoke_other_sessions u keep now (set_password u hash t))"

lemma password_statements_done:
  assumes "fst (password_statements u hash keep now db) = Inr a"
  shows "tables (snd (password_statements u hash keep now db)) = password_tables u hash keep now (tables db) \<and>
    length (filter (\<lambda>x. au_id x = u) (t_users (tables db))) = 1"
proof -
  let ?run = "sql_run (\<lambda>t. Some (length (filter (\<lambda>x. au_id x = u) (t_users t)), set_password u hash t)) db"
  obtain n d1 where r: "?run = (Some n, d1)" "n = 1"
    using assms by (auto simp: password_statements_def split: prod.splits option.splits if_splits)
  have n: "n = length (filter (\<lambda>x. au_id x = u) (t_users (tables db)))" "tables d1 = set_password u hash (tables db)"
    using sql_run_done [of "\<lambda>t. Some (length (filter (\<lambda>x. au_id x = u) (t_users t)), set_password u hash t)" db n] r(1)
    by simp_all
  let ?e1 = "sql_exec (revoke_other_sessions u keep now) d1"
  let ?e2 = "sql_exec (revoke_user_tokens u now) (snd ?e1)"
  have e: "fst ?e1" "fst ?e2" "snd (password_statements u hash keep now db) = snd ?e2"
    using assms r by (auto simp: password_statements_def Let_def split_beta split: if_splits)
  then show ?thesis using n r(2) by (simp add: sql_exec_tables password_tables_def)
qed

lemma update_password_done:
  "fst (update_password u hash keep now db) = Inr a \<Longrightarrow>
   tables (snd (update_password u hash keep now db)) = password_tables u hash keep now (tables db) \<and>
   length (filter (\<lambda>x. au_id x = u) (t_users (tables db))) = 1"
  unfolding update_password_def by (drule sql_tx_done) (auto dest!: password_statements_done)

lemma update_password_failed:
  "fst (update_password u hash keep now db) = Inl e \<Longrightarrow> tables (snd (update_password u hash keep now db)) = tables db"
  unfolding update_password_def by (rule sql_tx_failed)

lemma password_tables_evolves: "evolves S K t (password_tables u hash keep now t)"
proof -
  have "evolves S K t (set_password u hash t)"
    by (rule evolves_frame) (simp_all add: set_password_def comp_def if_distrib [of au_id])
  moreover have "evolves S K x (revoke_other_sessions u keep now x)" for x
    unfolding revoke_other_sessions_def by (rule evolves_map_sessions) simp
  moreover have "evolves S K x (revoke_user_tokens u now x)" for x
    unfolding revoke_user_tokens_def by (rule evolves_map_tokens) simp
  ultimately show ?thesis unfolding password_tables_def by (blast intro: evolves_trans)
qed

lemma update_password_evolves: "db_evolves S K db (snd (update_password u hash keep now db))"
  using update_password_done [of u hash keep now db] update_password_failed [of u hash keep now db]
  by (cases "fst (update_password u hash keep now db)") (simp_all add: password_tables_evolves)

subsection \<open>The calls of the service\<close>

abbreviation sv_tables :: "auth_service \<Rightarrow> auth_tables" where
  "sv_tables s \<equiv> tables (sv_db s)"

lemma with_db_simps [simp]:
  "sv_db (snd (with_db f s)) = snd (f (sv_db s))" "fst (with_db f s) = fst (f (sv_db s))"
  "sv_limiter (snd (with_db f s)) = sv_limiter s" "sv_config (snd (with_db f s)) = sv_config s"
  "sv_dummy_hash (snd (with_db f s)) = sv_dummy_hash s"
  by (simp_all add: with_db_def split_beta)

lemma touch_evolves:
  assumes "touch = touch_session \<or> touch = touch_api_token"
  shows "evolves S K (sv_tables s) (sv_tables (touch_when_stale now p touch s))"
  using assms by (auto simp: touch_when_stale_def store_evolves)

lemma authenticate_evolves: "evolves S K (sv_tables s) (sv_tables (snd (authenticate sha now r s)))"
proof -
  have t: "evolves S K (sv_tables s) (sv_tables (touch_when_stale now p touch (snd (with_db (find h now) s))))"
    if "find = find_session \<and> touch = touch_session \<or> find = find_api_token \<and> touch = touch_api_token" for find touch p h
    using that touch_evolves [of touch S K "snd (with_db (find h now) s)" now p] by auto
  have f: "sv_tables (snd (with_db (find_session h now) s)) = sv_tables s"
    "sv_tables (snd (with_db (find_api_token h now) s)) = sv_tables s" for h by simp_all
  show ?thesis unfolding authenticate_def Let_def split_beta
    using t f
    by (auto split: option.split sum.split prod.split simp: if_distrib [of snd] split_beta)
qed

lemma log_login_evolves: "evolves S K (sv_tables s) (sv_tables (log_login u n oc re ip ag now s))"
  by (simp add: log_login_def store_evolves)

lemma login_verify_evolves: "evolves S K (sv_tables s) (sv_tables (snd (login_verify argon sha now un pw ip ag s)))"
proof -
  let ?s = "snd (with_db (find_user_by_username un) s)"
  have t: "sv_tables ?s = sv_tables s" by simp
  have "evolves S K (sv_tables s) (sv_tables (log_login u n oc re ip ag now ?s))" for u n oc re
    using log_login_evolves [of S K ?s u n oc re ip ag now] t by simp
  then show ?thesis using t
    by (cases "with_db (find_user_by_username un) s")
      (auto simp: login_verify_def Let_def split: sum.split auth_error.split)
qed

lemma login_check_evolves: "evolves S K (sv_tables s) (sv_tables (snd (login_check argon sha now un pw ip ag s)))"
proof -
  have l: "evolves S K (sv_tables s) (sv_tables (log_login u n oc re i g now (s\<lparr>sv_limiter := m\<rparr>)))" for u n oc re i g m
    using log_login_evolves [of S K "s\<lparr>sv_limiter := m\<rparr>" u n oc re i g now] by simp
  have v: "evolves S K (sv_tables s) (sv_tables (snd (login_verify argon sha now n pw i g (s\<lparr>sv_limiter := m\<rparr>))))" for n i g m
    using login_verify_evolves [of S K "s\<lparr>sv_limiter := m\<rparr>" argon sha now n pw i g] by simp
  show ?thesis by (simp add: login_check_def Let_def split_beta l v)
qed

lemma token_hash_unfold: "random_token sha p b = Inr (tok, h) \<Longrightarrow> h = sha tok"
  by (auto simp: random_token_def Let_def split: sum.splits)

definition created_hash :: "(auth_error + string \<times> string) \<Rightarrow> string set" where
  "created_hash r = (case r of Inl _ \<Rightarrow> {} | Inr (_, h) \<Rightarrow> {h})"

lemma login_finish_evolves:
  "evolves (created_hash (random_token sha [] bytes)) K (sv_tables s)
     (sv_tables (snd (login_finish sha db_now now un ip ag bytes u s)))"
proof (cases "random_token sha [] bytes")
  case (Inr p)
  obtain tok h where p: "p = (tok, h)" by (cases p)
  let ?c = "create_auth_session db_now h (au_id u) (truncate_text ip 128) (truncate_text ag 500) (now + cfg_ttl (sv_config s))"
  let ?s1 = "snd (with_db ?c s)"
  let ?s2 = "snd (with_db (set_last_login (au_id u) now) ?s1)"
  have a: "evolves {h} K (sv_tables s) (sv_tables ?s1)" by (simp add: create_session_evolves)
  have b: "evolves {h} K (sv_tables ?s1) (sv_tables ?s2)" by (simp add: store_evolves)
  have c: "evolves {h} K (sv_tables ?s2) (sv_tables (snd (with_db (record_login u' n oc re i g now) ?s2)))" for u' n oc re i g
    by (simp add: store_evolves)
  show ?thesis
    using a evolves_trans [OF evolves_trans [OF a b] c] Inr p
    by (auto simp: login_finish_def Let_def split_beta created_hash_def)
qed (simp add: login_finish_def Let_def)

lemma change_password_evolves:
  "evolves S K (sv_tables s) (sv_tables (snd (change_password argon now pc cur new salt s)))"
proof -
  let ?s1 = "snd (with_db (find_user_by_id (au_id (pc_user pc))) s)"
  have u: "evolves S K (sv_tables s) (sv_tables (snd (with_db (update_password i h k now) ?s1)))" for i h k
    using update_password_evolves [of S K "sv_db ?s1" i h k now] by simp
  show ?thesis unfolding change_password_def Let_def
    using u by (auto simp: split_beta split: sum.split option.split prod.split)
qed

lemma logout_evolves: "evolves S K (sv_tables s) (sv_tables (snd (logout now pc s)))"
  by (simp add: logout_def Let_def split_beta store_evolves)

lemma list_tokens_evolves: "evolves S K (sv_tables s) (sv_tables (snd (list_tokens now pc s)))"
  by (auto simp: list_tokens_def split_beta split: prod.split option.split)

lemma create_token_evolves:
  "evolves S (created_hash (random_token sha ''rtk_'' bytes)) (sv_tables s)
     (sv_tables (snd (create_token sha now pc name d id_bytes bytes s)))"
  by (auto simp: create_token_def Let_def split_beta created_hash_def
      intro!: create_api_token_evolves [THEN evolves_mono] split: sum.split prod.split)

lemma revoke_token_evolves: "evolves S K (sv_tables s) (sv_tables (snd (revoke_token now pc i s)))"
  using revoke_api_token_evolves [of S K "sv_db s" "au_id (pc_user pc)" "trim_space i" now]
  by (auto simp: revoke_token_def split_beta with_db_def split: prod.split sum.split auth_error.split)

subsection \<open>Histories\<close>

text \<open>One call of the service by anyone, with the digests of the session and of the API token it draws.
  A login is two calls, so that others may come between them.\<close>

inductive auth_step :: "string set \<Rightarrow> string set \<Rightarrow> auth_service \<Rightarrow> auth_service \<Rightarrow> bool" where
  au_check: "auth_step {} {} s (snd (login_check argon sha now un pw ip ag s))"
| au_finish: "auth_step (created_hash (random_token sha [] bytes)) {} s
     (snd (login_finish sha db_now now un ip ag bytes u s))"
| au_request: "auth_step {} {} s (snd (authenticate sha now r s))"
| au_password: "auth_step {} {} s (snd (change_password argon now pc cur new salt s))"
| au_logout: "auth_step {} {} s (snd (logout now pc s))"
| au_list: "auth_step {} {} s (snd (list_tokens now pc s))"
| au_token: "auth_step {} (created_hash (random_token sha ''rtk_'' bytes)) s
     (snd (create_token sha now pc name d id_bytes bytes s))"
| au_revoke: "auth_step {} {} s (snd (revoke_token now pc i s))"
| au_cleanup: "auth_step {} {} s (snd (cleanup now s))"

lemma auth_step_evolves: "auth_step S K s s' \<Longrightarrow> evolves S K (sv_tables s) (sv_tables s')"
  by (induction rule: auth_step.induct)
    (simp_all add: login_check_evolves login_finish_evolves authenticate_evolves change_password_evolves
      logout_evolves list_tokens_evolves create_token_evolves revoke_token_evolves cleanup_def delete_expired_evolves)

interpretation login_sessions: revocable "\<lambda>s. live_sessions (sv_tables s)" "\<lambda>s. keys_unique (sv_tables s)"
  "\<lambda>S s s'. \<exists>K. auth_step S K s s'"
  by unfold_locales (auto simp: evolves_def dest!: auth_step_evolves)

interpretation api_tokens: revocable "\<lambda>s. live_tokens (sv_tables s)" "\<lambda>s. keys_unique (sv_tables s)"
  "\<lambda>K s s'. \<exists>S. auth_step S K s s'"
  by unfold_locales (auto simp: evolves_def dest!: auth_step_evolves)

text \<open>Histories in which nobody draws a token with a given digest.\<close>

inductive auth_reach :: "string \<Rightarrow> auth_service \<Rightarrow> auth_service \<Rightarrow> bool" for h where
  aur_refl: "auth_reach h s s"
| aur_step: "auth_reach h s s1 \<Longrightarrow> auth_step S K s1 s2 \<Longrightarrow> h \<notin> S \<Longrightarrow> h \<notin> K \<Longrightarrow> auth_reach h s s2"

lemma reach_sessions: "auth_reach h s s' \<Longrightarrow> (login_sessions.avoids h)\<^sup>*\<^sup>* s s'"
proof (induction rule: auth_reach.induct)
  case (aur_step s s1 S K s2)
  then have "login_sessions.avoids h s1 s2" by (auto simp: login_sessions.avoids_def)
  with aur_step.IH show ?case by (rule rtranclp.rtrancl_into_rtrancl)
qed simp

lemma reach_tokens: "auth_reach h s s' \<Longrightarrow> (api_tokens.avoids h)\<^sup>*\<^sup>* s s'"
proof (induction rule: auth_reach.induct)
  case (aur_step s s1 S K s2)
  then have "api_tokens.avoids h s1 s2" by (auto simp: api_tokens.avoids_def)
  with aur_step.IH show ?case by (rule rtranclp.rtrancl_into_rtrancl)
qed simp

subsection \<open>Authentication needs a live credential\<close>

definition bearer_token :: "request \<Rightarrow> string option" where
  "bearer_token r =
     (let a = trim_space (rq_authorization r)
      in if has_prefix (to_lower a) ''bearer '' then Some (trim_space (drop 7 a)) else None)"

lemma auth_session_row_found:
  assumes "auth_session_row h now t = Some p"
  shows "(\<exists>x\<in>set (t_sessions t). as_hash x = h \<and> as_revoked x = None \<and> now < as_expires x \<and>
      user_by_id (as_user x) t = Some (pr_user p)) \<and> pr_hash p = h"
proof -
  obtain x where x: "find (\<lambda>s. as_hash s = h \<and> as_revoked s = None \<and> as_expires s > now \<and> user_by_id (as_user s) t \<noteq> None)
      (t_sessions t) = Some x" "user_by_id (as_user x) t = Some (pr_user p)" "pr_hash p = h"
    using assms by (auto simp: auth_session_row_def split: option.splits)
  then show ?thesis using find_in [OF x(1)] by blast
qed

lemma token_row_found:
  assumes "token_row h now t = Some p"
  shows "(\<exists>k\<in>set (t_tokens t). at_hash k = h \<and> token_live now k \<and> user_by_id (at_user k) t = Some (pr_user p)) \<and>
    pr_hash p = h"
proof -
  obtain k where k: "find (\<lambda>k. at_hash k = h \<and> token_live now k \<and> user_by_id (at_user k) t \<noteq> None) (t_tokens t) = Some k"
      "user_by_id (at_user k) t = Some (pr_user p)" "pr_hash p = h"
    using assms by (auto simp: token_row_def split: option.splits)
  then show ?thesis using find_in [OF k(1)] by blast
qed

lemma scan_principal_Inr: "scan_principal r = Inr p \<longleftrightarrow> r = Some (Some p)"
  by (auto simp: scan_principal_def split: option.splits)

lemma find_session_found:
  "fst (find_session h now db) = Inr p \<Longrightarrow> auth_session_row h now (tables db) = Some p"
  using sql_query_value [of "auth_session_row h now" db] by (auto simp: find_session_def scan_principal_Inr)

lemma find_token_found:
  "fst (find_api_token h now db) = Inr p \<Longrightarrow> token_row h now (tables db) = Some p"
  using sql_query_value [of "token_row h now" db] by (auto simp: find_api_token_def scan_principal_Inr)

lemma authenticate_found:
  assumes "fst (authenticate sha now r s) = Inr pc"
  shows "\<not> au_disabled (pc_user pc) \<and>
    (case bearer_token r of
       Some tok \<Rightarrow> has_prefix tok ''rtk_'' \<and> pc_credential pc = ApiTokenCredential \<and> pc_hash pc = sha tok \<and>
         \<not> au_must_change (pc_user pc) \<and>
         (\<exists>k\<in>set (t_tokens (sv_tables s)). at_hash k = sha tok \<and> token_live now k \<and>
            user_by_id (at_user k) (sv_tables s) = Some (pc_user pc))
     | None \<Rightarrow> (\<exists>v. rq_cookie r = Some v \<and> v \<noteq> [] \<and> pc_credential pc = SessionCredential \<and> pc_hash pc = sha v \<and>
         (\<exists>x\<in>set (t_sessions (sv_tables s)). as_hash x = sha v \<and> as_revoked x = None \<and> now < as_expires x \<and>
            user_by_id (as_user x) (sv_tables s) = Some (pc_user pc))))"
proof (cases "bearer_token r")
  case (Some tok)
  then have b: "has_prefix (to_lower (trim_space (rq_authorization r))) ''bearer ''"
    "trim_space (drop 7 (trim_space (rq_authorization r))) = tok"
    by (auto simp: bearer_token_def Let_def split: if_splits)
  obtain p where "fst (find_api_token (sha tok) now (sv_db s)) = Inr p" "has_prefix tok ''rtk_''"
    "pc = \<lparr>pc_user = pr_user p, pc_hash = pr_hash p, pc_credential = ApiTokenCredential\<rparr>"
    "\<not> au_disabled (pr_user p)" "\<not> au_must_change (pr_user p)"
    using assms b by (auto simp: authenticate_def with_db_def split_beta split: if_splits sum.splits prod.splits)
  then show ?thesis using Some token_row_found [OF find_token_found] by auto
next
  case None
  then have b: "\<not> has_prefix (to_lower (trim_space (rq_authorization r))) ''bearer ''"
    by (auto simp: bearer_token_def Let_def split: if_splits)
  obtain v p where "rq_cookie r = Some v" "v \<noteq> []" "fst (find_session (sha v) now (sv_db s)) = Inr p"
    "pc = \<lparr>pc_user = pr_user p, pc_hash = pr_hash p, pc_credential = SessionCredential\<rparr>" "\<not> au_disabled (pr_user p)"
    using assms b by (auto simp: authenticate_def with_db_def split_beta split: if_splits sum.splits prod.splits option.splits)
  then show ?thesis using None auth_session_row_found [OF find_session_found] by auto
qed

section \<open>The gate fails closed\<close>


section \<open>Changing the password\<close>

lemma change_password_done:
  assumes "fst (change_password argon now pc cur new salt s) = Inr u"
  shows "pc_credential pc = SessionCredential \<and> (\<exists>hash. hash_password argon salt new = Inr hash \<and>
    sv_tables (snd (change_password argon now pc cur new salt s)) =
      password_tables (au_id (pc_user pc)) hash (pc_hash pc) now (sv_tables s)) \<and>
    validate_new_password new = None"
proof -
  let ?s1 = "snd (with_db (find_user_by_id (au_id (pc_user pc))) s)"
  obtain u0 hash where a: "pc_credential pc = SessionCredential"
    "fst (find_user_by_id (au_id (pc_user pc)) (sv_db s)) = Inr u0" "hash_password argon salt new = Inr hash"
    "validate_new_password new = None"
    "fst (update_password (au_id u0) hash (pc_hash pc) now (sv_db ?s1)) = Inr ()"
    "snd (change_password argon now pc cur new salt s) = snd (with_db (update_password (au_id u0) hash (pc_hash pc) now) ?s1)"
    using assms
    by (cases "with_db (find_user_by_id (au_id (pc_user pc))) s"; cases "hash_password argon salt new")
      (auto simp: change_password_def with_db_def split_beta split: if_splits sum.splits option.splits prod.splits)
  have "user_by_id (au_id (pc_user pc)) (sv_tables s) = Some u0"
    using a(2) sql_query_value [of "user_by_id (au_id (pc_user pc))" "sv_db s"]
    by (auto simp: find_user_by_id_def scan_user_def split: option.splits)
  then have "au_id u0 = au_id (pc_user pc)" unfolding user_by_id_def using find_in by fast
  then show ?thesis using a update_password_done [OF a(5)] by simp
qed

lemma password_tables_dead:
  assumes "keys_unique t"
  shows "x \<in> set (t_sessions t) \<Longrightarrow> as_user x = u \<Longrightarrow> as_hash x \<noteq> keep \<Longrightarrow>
      as_hash x \<notin> live_sessions (password_tables u hash keep now t)"
    and "k \<in> set (t_tokens t) \<Longrightarrow> at_user k = u \<Longrightarrow> at_hash k \<notin> live_tokens (password_tables u hash keep now t)"
proof -
  have s: "t_sessions (password_tables u hash keep now t) = map (\<lambda>s. if as_user s = u \<and> as_hash s \<noteq> keep \<and>
      as_revoked s = None then s\<lparr>as_revoked := Some now\<rparr> else s) (t_sessions t)"
    by (simp add: password_tables_def revoke_user_tokens_def map_tokens_def revoke_other_sessions_def
        map_sessions_def set_password_def)
  have k: "t_tokens (password_tables u hash keep now t) = map (\<lambda>k. if at_user k = u \<and> at_revoked k = None
      then k\<lparr>at_revoked := Some now\<rparr> else k) (t_tokens t)"
    by (simp add: password_tables_def revoke_user_tokens_def map_tokens_def revoke_other_sessions_def
        map_sessions_def set_password_def)
  have us: "inj_on as_hash (set (t_sessions t))" and ut: "inj_on at_hash (set (t_tokens t))"
    using assms by (simp_all add: keys_unique_def distinct_map)
  show "x \<in> set (t_sessions t) \<Longrightarrow> as_user x = u \<Longrightarrow> as_hash x \<noteq> keep \<Longrightarrow>
      as_hash x \<notin> live_sessions (password_tables u hash keep now t)"
    by (auto simp: live_sessions_iff s split: if_splits dest: inj_onD [OF us])
  show "k \<in> set (t_tokens t) \<Longrightarrow> at_user k = u \<Longrightarrow> at_hash k \<notin> live_tokens (password_tables u hash keep now t)"
    by (auto simp: live_tokens_iff k split: if_splits dest: inj_onD [OF ut])
qed

text \<open>
  C14. A password change ends every other login: no session of the user except the one that made the
  change, and no API token of the user, is ever accepted again, whatever calls follow, as long as
  nobody draws the same random token.
\<close>

theorem password_change_revokes:
  assumes "keys_unique (sv_tables s)" and "fst (change_password argon now pc cur new salt s) = Inr u"
    and "auth_reach (sha secret) (snd (change_password argon now pc cur new salt s)) s'"
    and "(\<exists>x\<in>set (t_sessions (sv_tables s)). as_user x = au_id (pc_user pc) \<and> as_hash x = sha secret \<and>
            sha secret \<noteq> pc_hash pc \<and> bearer_token r = None \<and> rq_cookie r = Some secret) \<or>
         (\<exists>k\<in>set (t_tokens (sv_tables s)). at_user k = au_id (pc_user pc) \<and> at_hash k = sha secret \<and>
            bearer_token r = Some secret)"
  shows "\<exists>e. fst (authenticate sha now' r s') = Inl e"
proof -
  let ?s1 = "snd (change_password argon now pc cur new salt s)"
  obtain hash where t: "sv_tables ?s1 = password_tables (au_id (pc_user pc)) hash (pc_hash pc) now (sv_tables s)"
    using change_password_done [OF assms(2)] by blast
  have k: "keys_unique (sv_tables ?s1)"
    using change_password_evolves [of "{}" "{}" s argon now pc cur new salt] assms(1) by (simp add: evolves_def)
  note dead = password_tables_dead [OF assms(1), where u = "au_id (pc_user pc)" and keep = "pc_hash pc" and
      hash = hash and now = now, folded t]
  show ?thesis
  proof (cases "fst (authenticate sha now' r s')")
    case (Inr p)
    note f = authenticate_found [OF Inr]
    from assms(4) show ?thesis
    proof
      assume x: "\<exists>x\<in>set (t_sessions (sv_tables s)). as_user x = au_id (pc_user pc) \<and> as_hash x = sha secret \<and>
            sha secret \<noteq> pc_hash pc \<and> bearer_token r = None \<and> rq_cookie r = Some secret"
      then obtain y where "y \<in> set (t_sessions (sv_tables s))" "as_user y = au_id (pc_user pc)"
        "as_hash y = sha secret" "as_hash y \<noteq> pc_hash pc" by auto
      then have "sha secret \<notin> live_sessions (sv_tables ?s1)" using dead(1) [of y] by simp
      then have "sha secret \<notin> live_sessions (sv_tables s')"
        using login_sessions.stays_dead [OF reach_sessions [OF assms(3)] k] by blast
      then show ?thesis using f x by (fastforce simp: live_sessions_iff)
    next
      assume x: "\<exists>k\<in>set (t_tokens (sv_tables s)). at_user k = au_id (pc_user pc) \<and> at_hash k = sha secret \<and>
            bearer_token r = Some secret"
      then obtain y where "y \<in> set (t_tokens (sv_tables s))" "at_user y = au_id (pc_user pc)"
        "at_hash y = sha secret" by auto
      then have "sha secret \<notin> live_tokens (sv_tables ?s1)" using dead(2) [of y] by simp
      then have "sha secret \<notin> live_tokens (sv_tables s')"
        using api_tokens.stays_dead [OF reach_tokens [OF assms(3)] k] by blast
      then show ?thesis using f x by (fastforce simp: live_tokens_iff token_live_def)
    qed
  qed simp
qed

section \<open>A login in flight\<close>

lemma find_Some_intro: "x \<in> set xs \<Longrightarrow> P x \<Longrightarrow> \<exists>y. find P xs = Some y"
  by (cases "find P xs") (auto simp: find_None_iff)

lemma user_by_id_password:
  "user_by_id i t = Some u \<Longrightarrow>
   \<exists>u'. user_by_id i (password_tables k hash keep now t) = Some u' \<and> au_id u' = au_id u \<and> au_disabled u' = au_disabled u"
proof -
  assume a: "user_by_id i t = Some u"
  have us: "t_users (password_tables k hash keep now t) = map (\<lambda>x. if au_id x = k
      then x\<lparr>au_password_hash := hash, au_must_change := False\<rparr> else x) (t_users t)"
    by (simp add: password_tables_def revoke_user_tokens_def map_tokens_def revoke_other_sessions_def
        map_sessions_def set_password_def)
  have m: "find (\<lambda>u. au_id u = i) (map (\<lambda>x. if au_id x = k then x\<lparr>au_password_hash := hash, au_must_change := False\<rparr> else x) us)
      = map_option (\<lambda>x. if au_id x = k then x\<lparr>au_password_hash := hash, au_must_change := False\<rparr> else x)
          (find (\<lambda>u. au_id u = i) us)" for us
    by (induction us) auto
  show ?thesis using a m [of "t_users t"] by (cases "au_id u = k") (simp_all add: user_by_id_def us)
qed

lemma user_by_id_found: "distinct (map au_id (t_users t)) \<Longrightarrow> u \<in> set (t_users t) \<Longrightarrow> user_by_id (au_id u) t = Some u"
proof -
  have "distinct (map au_id us) \<Longrightarrow> u \<in> set us \<Longrightarrow> find (\<lambda>x. au_id x = au_id u) us = Some u" for us
    by (induction us) auto
  then show "distinct (map au_id (t_users t)) \<Longrightarrow> u \<in> set (t_users t) \<Longrightarrow> user_by_id (au_id u) t = Some u"
    by (simp add: user_by_id_def)
qed

lemma login_verify_done:
  assumes "fst (login_verify argon sha now un pw ip ag s) = Inr u"
  shows "u \<in> set (t_users (sv_tables s)) \<and> \<not> au_disabled u \<and>
    sv_tables (snd (login_verify argon sha now un pw ip ag s)) = sv_tables s"
proof -
  have f: "fst (find_user_by_username un (sv_db s)) = Inr u"
    "\<not> au_disabled u"
    "sv_tables (snd (login_verify argon sha now un pw ip ag s)) = sv_tables (snd (with_db (find_user_by_username un) s))"
    using assms by (cases "find_user_by_username un (sv_db s)";
      auto simp: login_verify_def with_db_def Let_def split: sum.splits auth_error.splits if_splits)+
  have "user_by_name un (sv_tables s) = Some u"
    using f(1) sql_query_value [of "user_by_name un" "sv_db s"]
    by (auto simp: find_user_by_username_def scan_user_def split: option.splits)
  then show ?thesis using f find_in unfolding user_by_name_def by fastforce
qed

lemma login_check_done:
  assumes "fst (login_check argon sha now un pw ip ag s) = Inr u"
  shows "u \<in> set (t_users (sv_tables s)) \<and> \<not> au_disabled u \<and>
    sv_tables (snd (login_check argon sha now un pw ip ag s)) = sv_tables s"
proof -
  obtain m n i g where "login_check argon sha now un pw ip ag s = login_verify argon sha now n pw i g (s\<lparr>sv_limiter := m\<rparr>)"
    using assms by (auto simp: login_check_def Let_def split_beta split: if_splits)
  then show ?thesis using login_verify_done [of argon sha now n pw i g "s\<lparr>sv_limiter := m\<rparr>" u] assms by simp
qed

lemma find_last: "\<forall>x\<in>set xs. \<not> P x \<Longrightarrow> P y \<Longrightarrow> find P (xs @ [y]) = Some y"
  by (induction xs) auto

text \<open>With the database up, a fresh digest and an existing user, finishing a login yields a session
  that the store finds.\<close>

lemma login_finish_up:
  assumes "db_up (sv_db s)" and x: "user_by_id (au_id u) (sv_tables s) = Some x" "au_id x = au_id u" "\<not> au_disabled x"
    and fresh: "\<forall>y\<in>set (t_sessions (sv_tables s)). as_hash y \<noteq> sha (b64_encode url_alphabet bytes)"
    and ttl: "0 < cfg_ttl (sv_config s)"
  shows "\<exists>res s3. login_finish sha db_now now un ip ag (Inr bytes) u s = (Inr res, s3) \<and>
    lr_token res = b64_encode url_alphabet bytes \<and> db_up (sv_db s3) \<and>
    (\<exists>y. auth_session_row (sha (b64_encode url_alphabet bytes)) now (sv_tables s3) = Some y \<and>
       au_id (pr_user y) = au_id u \<and> \<not> au_disabled (pr_user y))"
proof -
  let ?tok = "b64_encode url_alphabet bytes" and ?t = "sv_tables s"
  let ?row = "\<lparr>as_hash = sha ?tok, as_user = au_id u, as_ip = truncate_text ip 128, as_agent = truncate_text ag 500,
    as_created = db_now, as_last_seen = db_now, as_expires = now + cfg_ttl (sv_config s), as_revoked = None\<rparr>"
  let ?seen = "\<lambda>v. if au_id v = au_id u then v\<lparr>au_last_login := Some now\<rparr> else v"
  have c: "create_auth_session db_now (sha ?tok) (au_id u) (truncate_text ip 128) (truncate_text ag 500)
      (now + cfg_ttl (sv_config s)) (sv_db s) = (True, (sv_db s)\<lparr>tables := ?t\<lparr>t_sessions := t_sessions ?t @ [?row]\<rparr>\<rparr>)"
    using assms(1) x(1) fresh by (auto simp: create_auth_session_def sql_run_up insert_auth_session_def)
  obtain res s3 where f: "login_finish sha db_now now un ip ag (Inr bytes) u s = (Inr res, s3)" "lr_token res = ?tok"
    "db_up (sv_db s3)" "t_sessions (sv_tables s3) = t_sessions ?t @ [?row]" "t_users (sv_tables s3) = map ?seen (t_users ?t)"
    using assms(1) by (simp add: login_finish_def random_token_def Let_def with_db_def c set_last_login_def
        record_login_def sql_exec_up)
  have m: "find (\<lambda>v. au_id v = au_id u) (map ?seen us) = map_option ?seen (find (\<lambda>v. au_id v = au_id u) us)" for us
    by (induction us) auto
  have y: "user_by_id (au_id u) (sv_tables s3) = Some (?seen x)"
    using x(1) f(5) m [of "t_users ?t"] by (simp add: user_by_id_def)
  have "find (\<lambda>z. as_hash z = sha ?tok \<and> as_revoked z = None \<and> as_expires z > now \<and>
      user_by_id (as_user z) (sv_tables s3) \<noteq> None) (t_sessions ?t @ [?row]) = Some ?row"
    by (rule find_last) (use fresh ttl y in auto)
  then have "auth_session_row (sha ?tok) now (sv_tables s3) = Some \<lparr>pr_user = ?seen x, pr_hash = sha ?tok,
      pr_kind = SessionCredential, pr_last_seen = db_now, pr_expires = Some (now + cfg_ttl (sv_config s))\<rparr>"
    using y by (simp add: auth_session_row_def f(4))
  then show ?thesis using f(1-3) x(2,3) by auto
qed

text \<open>
  C15. The promise of a password change has a gap. A login that has already verified the old password
  when the change commits still stores its session afterwards, and that session is accepted: changing
  the password does not shut out a login in flight, because \<open>Login\<close> verifies and stores in separate
  statements and a session does not record which password it rests on.
\<close>

theorem login_in_flight_survives:
  assumes "db_up (sv_db s)" and "keys_unique (sv_tables s)"
    and "fst (login_check argon sha now username old ip agent s) = Inr u"
    and "s1 = snd (login_check argon sha now username old ip agent s)"
    and "au_id (pc_user pc) = au_id u" and "fst (change_password argon now pc old new salt s1) = Inr u'"
    and "s2 = snd (change_password argon now pc old new salt s1)" and "db_up (sv_db s2)"
    and "\<forall>x\<in>set (t_sessions (sv_tables s2)). as_hash x \<noteq> sha (b64_encode url_alphabet bytes)"
    and "bytes \<noteq> []" and "0 < cfg_ttl (sv_config s2)"
    and "rq_cookie r = Some (b64_encode url_alphabet bytes)" and "bearer_token r = None"
  shows "\<exists>res s3. login_finish sha db_now now username ip agent (Inr bytes) u s2 = (Inr res, s3) \<and>
    lr_token res = b64_encode url_alphabet bytes \<and>
    (\<exists>p. fst (authenticate sha now r s3) = Inr p \<and> au_id (pc_user p) = au_id u)"
proof -
  let ?tok = "b64_encode url_alphabet bytes"
  have c: "user_by_id (au_id u) (sv_tables s) = Some u \<and> \<not> au_disabled u \<and> sv_tables s1 = sv_tables s"
    using login_check_done [OF assms(3)] assms(2,4) by (auto simp: user_by_id_found keys_unique_def)
  obtain hash where t: "sv_tables s2 = password_tables (au_id u) hash (pc_hash pc) now (sv_tables s1)"
    using change_password_done [OF assms(6)] assms(5,7) by auto
  obtain x where x: "user_by_id (au_id u) (sv_tables s2) = Some x" "au_id x = au_id u" "\<not> au_disabled x"
    using user_by_id_password [of "au_id u" "sv_tables s1" u "au_id u" hash "pc_hash pc" now] c t by auto
  obtain res s3 where f: "login_finish sha db_now now username ip agent (Inr bytes) u s2 = (Inr res, s3)"
    "lr_token res = ?tok" "db_up (sv_db s3)"
    "\<exists>y. auth_session_row (sha ?tok) now (sv_tables s3) = Some y \<and> au_id (pr_user y) = au_id u \<and> \<not> au_disabled (pr_user y)"
    using login_finish_up [where u = u and s = s2 and sha = sha and bytes = bytes, OF assms(8) x assms(9,11)] by blast
  have "?tok \<noteq> []" using assms(10) length_b64_encode [of url_alphabet bytes] by (cases bytes) auto
  then have "\<exists>p. fst (authenticate sha now r s3) = Inr p \<and> au_id (pc_user p) = au_id u"
    using f(3,4) assms(12,13)
    by (auto simp: authenticate_def bearer_token_def Let_def find_session_def sql_query_up scan_principal_def
        with_db_def split: if_splits)
  then show ?thesis using f(1,2) by blast
qed

section \<open>The limiter\<close>

fun local_run :: "string \<Rightarrow> gotime list \<Rightarrow> limiter \<Rightarrow> nat" where
  "local_run key [] l = 0"
| "local_run key (t # ts) l = (let (ok, l1) = local_allow key t l in (if ok then 1 else 0) + local_run key ts l1)"

definition window_open :: "string \<Rightarrow> gotime \<Rightarrow> limiter \<Rightarrow> bool" where
  "window_open key now l \<longleftrightarrow> (\<exists>e. lim_local l key = Some e \<and> now < la_expires e)"

text \<open>Inside an open window exactly the rest of the five attempts is allowed.\<close>

lemma run_in_window:
  "lim_local l key = Some e \<Longrightarrow> \<forall>t\<in>set ts. t < la_expires e \<Longrightarrow>
   int (local_run key ts l) = min (int (length ts)) (max 0 (5 - la_count e))"
proof (induction ts arbitrary: l e)
  case (Cons t ts)
  let ?e = "e\<lparr>la_count := la_count e + 1\<rparr>" and ?l = "snd (local_allow key t l)"
  have a: "lim_local ?l key = Some ?e" "fst (local_allow key t l) \<longleftrightarrow> la_count e + 1 \<le> 5"
    using Cons.prems by (simp_all add: local_allow_def Let_def)
  have "int (local_run key ts ?l) = min (int (length ts)) (max 0 (5 - la_count ?e))"
    by (rule Cons.IH [OF a(1)]) (use Cons.prems(2) in simp)
  then show ?case using a(2) by (auto simp: Let_def split_beta)
qed simp

text \<open>A fresh window allows five.\<close>

lemma run_fresh:
  assumes "\<not> window_open key t l" and "0 \<le> t" and "\<forall>x\<in>set ts. x < t + 15 * minute"
  shows "local_run key (t # ts) l = min 5 (Suc (length ts))"
proof -
  let ?l = "snd (local_allow key t l)" and ?e = "\<lparr>la_count = 1, la_expires = t + 15 * minute\<rparr>"
  have a: "lim_local ?l key = Some ?e" "fst (local_allow key t l)"
    using assms(1,2) by (auto simp: local_allow_def window_open_def Let_def split: option.splits)
  have "int (local_run key ts ?l) = min (int (length ts)) (max 0 (5 - la_count ?e))"
    by (rule run_in_window [OF a(1)]) (use assms(3) in simp)
  then show ?thesis using a(2) by (simp add: Let_def split_beta min_def split: if_splits)
qed

lemma run_span:
  assumes "lim_local l key = Some e" and "0 \<le> la_count e" and "0 \<le> start"
    and "\<forall>t\<in>set ts. start \<le> t \<and> t < start + 15 * minute"
  shows "int (local_run key ts l) \<le> 5 + max 0 (5 - la_count e)"
  using assms
proof (induction ts arbitrary: l e)
  case (Cons t ts)
  show ?case
  proof (cases "t < la_expires e")
    case True
    let ?e = "e\<lparr>la_count := la_count e + 1\<rparr>" and ?l = "snd (local_allow key t l)"
    have a: "lim_local ?l key = Some ?e" "fst (local_allow key t l) \<longleftrightarrow> la_count e + 1 \<le> 5"
      using Cons.prems True by (simp_all add: local_allow_def Let_def)
    have "int (local_run key ts ?l) \<le> 5 + max 0 (5 - la_count ?e)"
      by (rule Cons.IH [OF a(1)]) (use Cons.prems in simp_all)
    then show ?thesis using a(2) by (auto simp: Let_def split_beta)
  next
    case False
    have "local_run key (t # ts) l = min 5 (Suc (length ts))"
      by (rule run_fresh) (use Cons.prems False in \<open>auto simp: window_open_def\<close>)
    then show ?thesis by simp
  qed
qed simp


section \<open>A concrete service\<close>

text \<open>One user with one session and one token; the key function and the digest are simple stand-ins of
  the documented shape.\<close>

definition idle_limiter :: limiter where
  "idle_limiter = \<lparr>lim_prefix = ''p:'', lim_redis = None, lim_local = (\<lambda>k. None)\<rparr>"

definition demo_argon :: argon2 where
  "demo_argon p s t m k n = take n (p @ replicate n CHR ''x'')"

definition demo_user :: "string \<Rightarrow> auth_user" where
  "demo_user h = \<lparr>au_id = 1, au_username = ''admin'', au_password_hash = h, au_must_change = False,
     au_disabled = False, au_created = 0, au_last_login = None\<rparr>"

definition demo_session :: "string \<Rightarrow> auth_session" where
  "demo_session v = \<lparr>as_hash = v, as_user = 1, as_ip = [], as_agent = [], as_created = 0, as_last_seen = 0,
     as_expires = 100, as_revoked = None\<rparr>"

definition demo_service :: "string \<Rightarrow> auth_service" where
  "demo_service h = \<lparr>sv_db = \<lparr>tables = \<lparr>t_users = [demo_user h], t_sessions = [demo_session ''one'', demo_session ''two''],
       t_tokens = [], t_events = [], t_next_user = 2\<rparr>, script = []\<rparr>,
     sv_limiter = idle_limiter, sv_config = \<lparr>cfg_admin = ''admin'', cfg_ttl = 100, cfg_trust_proxy = False\<rparr>,
     sv_dummy_hash = []\<rparr>"

definition demo_request :: "string \<Rightarrow> request" where
  "demo_request cookie = \<lparr>rq_method = ''GET'', rq_path = ''/api/mail'', rq_authorization = [], rq_cookie = Some cookie,
     rq_origin = [], rq_origin_host = None, rq_host = ''localhost'', rq_forwarded_host = []\<rparr>"

definition demo_principal :: "string \<Rightarrow> string \<Rightarrow> principal" where
  "demo_principal h v = \<lparr>pc_user = demo_user h, pc_hash = v, pc_credential = SessionCredential\<rparr>"

lemmas demo_defs = demo_user_def demo_session_def demo_service_def demo_request_def demo_principal_def idle_limiter_def

lemmas service_defs = with_db_def sql_query_def sql_run_def sql_exec_def sql_tx_def


lemma demo_bearer: "bearer_token (demo_request v) = None"
  by (simp add: bearer_token_def demo_request_def to_lower_def has_prefix_def)

lemma demo_authenticates:
  "v = ''one'' \<or> v = ''two'' \<Longrightarrow>
   authenticate (\<lambda>x. x) 5 (demo_request v) (demo_service h) = (Inr (demo_principal h v), demo_service h)"
  by (auto simp: authenticate_def demo_defs service_defs find_session_def auth_session_row_def scan_principal_def
      user_by_id_def touch_when_stale_def to_lower_def has_prefix_def minute_def second_def)

lemma demo_serves:
  "fst (protect_apis (\<lambda>x. x) 5 (demo_request ''two'') (demo_service h)) = Serve (Some (demo_principal h ''two''))"
  using demo_authenticates [of "''two''" h]
  by (simp add: protect_apis_def demo_request_def demo_principal_def demo_user_def is_safe_method_def
      is_public_auth_route_def has_prefix_def)


text \<open>A hash for the concrete user.\<close>

lemma demo_hash:
  "\<exists>h. verify_password demo_argon h ''admin123'' \<and> \<not> verify_password demo_argon h ''Longer-password-1''"
proof -
  obtain h where "hash_password demo_argon (Inr (replicate 16 CHR ''s'')) ''admin123'' = Inr h"
    by (auto simp: hash_password_def)
  note v = verify_hash [OF this]
  have l: "length (take 32 (''admin123'' @ replicate 32 CHR ''x'')) = 32" by simp
  have "take 32 (''Longer-password-1'' @ replicate 32 CHR ''x'') \<noteq> take 32 (''admin123'' @ replicate 32 CHR ''x'')"
    by code_simp
  then have "verify_password demo_argon h ''admin123'' \<and> \<not> verify_password demo_argon h ''Longer-password-1''"
    using v [of "''Longer-password-1''"] l by (simp only: argon_salt_len_def argon_key_len_def demo_argon_def length_replicate) blast
  then show ?thesis by blast
qed

lemma demo_change:
  assumes "verify_password demo_argon h ''admin123''" and "\<not> verify_password demo_argon h ''Longer-password-1''"
  shows "fst (change_password demo_argon 6 (demo_principal h ''one'') ''admin123'' ''Longer-password-1''
    (Inr (replicate 16 CHR ''t'')) (demo_service h)) = Inr ((demo_user h)\<lparr>au_must_change := False\<rparr>)"
proof -
  have "validate_new_password ''Longer-password-1'' = None" by code_simp
  then show ?thesis using assms
    by (simp add: change_password_def demo_defs service_defs find_user_by_id_def scan_user_def user_by_id_def
        hash_password_def update_password_def password_statements_def)
qed

lemma demo_unique: "keys_unique (sv_tables (demo_service h))"
  by (simp add: keys_unique_def demo_service_def demo_session_def)

lemma password_change_revokes_witness:
  "\<exists>h e. fst (authenticate (\<lambda>x. x) 7 (demo_request ''two'') (snd (change_password demo_argon 6 (demo_principal h ''one'')
     ''admin123'' ''Longer-password-1'' (Inr (replicate 16 CHR ''t'')) (demo_service h)))) = Inl e"
proof -
  obtain h where "verify_password demo_argon h ''admin123''" "\<not> verify_password demo_argon h ''Longer-password-1''"
    using demo_hash by blast
  note c = demo_change [OF this]
  have "\<exists>e. fst (authenticate (\<lambda>x. x) 7 (demo_request ''two'') (snd (change_password demo_argon 6 (demo_principal h ''one'')
     ''admin123'' ''Longer-password-1'' (Inr (replicate 16 CHR ''t'')) (demo_service h)))) = Inl e"
    by (rule password_change_revokes [where secret = "''two''" and sha = "\<lambda>x. x", OF demo_unique c aur_refl])
      (simp add: demo_bearer, simp add: demo_defs)
  then show ?thesis by blast
qed

text \<open>The login in flight, on the same service.\<close>

lemma demo_login_check:
  assumes "verify_password demo_argon h ''admin123''"
  shows "\<exists>lm. login_check demo_argon (\<lambda>x. x) 6 ''admin'' ''admin123'' [] [] (demo_service h) =
    (Inr (demo_user h), (demo_service h)\<lparr>sv_limiter := lm\<rparr>)"
proof -
  have n: "normalize_username ''admin'' = ''admin''" and p: "username_pattern ''admin''" by code_simp+
  have t: "truncate_text [] k = []" for k by (simp add: truncate_text_def)
  show ?thesis using assms
    by (simp add: login_check_def Let_def split_beta n p t limiter_allow_def limiter_key_def local_allow_def login_verify_def find_user_by_username_def
        user_by_name_def scan_user_def demo_defs service_defs minute_def second_def)
qed

lemma demo_change_limiter:
  assumes "verify_password demo_argon h ''admin123''" and "\<not> verify_password demo_argon h ''Longer-password-1''"
  shows "\<exists>db. change_password demo_argon 6 (demo_principal h ''one'') ''admin123'' ''Longer-password-1''
    (Inr (replicate 16 CHR ''t'')) ((demo_service h)\<lparr>sv_limiter := lm\<rparr>) =
    (Inr ((demo_user h)\<lparr>au_must_change := False\<rparr>), (demo_service h)\<lparr>sv_limiter := lm, sv_db := db\<rparr>) \<and>
    db_up db \<and> map as_hash (t_sessions (tables db)) = [''one'', ''two'']"
proof -
  have "validate_new_password ''Longer-password-1'' = None" by code_simp
  then show ?thesis using assms
    by (simp add: change_password_def demo_defs service_defs find_user_by_id_def scan_user_def user_by_id_def
        hash_password_def update_password_def password_statements_def revoke_other_sessions_def map_sessions_def
        set_password_def revoke_user_tokens_def map_tokens_def db_up_def)
qed

lemma login_in_flight_survives_witness:
  "\<exists>h lm res s3 p. login_finish (\<lambda>x. x) 7 6 ''admin'' [] [] (Inr ''abc'') (demo_user h)
      (snd (change_password demo_argon 6 (demo_principal h ''one'') ''admin123'' ''Longer-password-1''
        (Inr (replicate 16 CHR ''t'')) ((demo_service h)\<lparr>sv_limiter := lm\<rparr>))) = (Inr res, s3) \<and>
    fst (authenticate (\<lambda>x. x) 6 (demo_request (b64_encode url_alphabet ''abc'')) s3) = Inr p \<and> au_id (pc_user p) = 1"
proof -
  obtain h where h: "verify_password demo_argon h ''admin123''" "\<not> verify_password demo_argon h ''Longer-password-1''"
    using demo_hash by blast
  obtain lm where l: "login_check demo_argon (\<lambda>x. x) 6 ''admin'' ''admin123'' [] [] (demo_service h) =
    (Inr (demo_user h), (demo_service h)\<lparr>sv_limiter := lm\<rparr>)"
    using demo_login_check [OF h(1)] by blast
  obtain db where c: "change_password demo_argon 6 (demo_principal h ''one'') ''admin123'' ''Longer-password-1''
    (Inr (replicate 16 CHR ''t'')) ((demo_service h)\<lparr>sv_limiter := lm\<rparr>) =
    (Inr ((demo_user h)\<lparr>au_must_change := False\<rparr>), (demo_service h)\<lparr>sv_limiter := lm, sv_db := db\<rparr>)"
    "db_up db" "map as_hash (t_sessions (tables db)) = [''one'', ''two'']"
    using demo_change_limiter [OF h, of lm] by (elim exE conjE)
  have e: "b64_encode url_alphabet ''abc'' = ''YWJj''" by code_simp
  have fresh: "\<forall>x\<in>set (t_sessions (tables db)). as_hash x \<noteq> b64_encode url_alphabet ''abc''"
  proof
    fix x assume "x \<in> set (t_sessions (tables db))"
    then have "as_hash x \<in> set (map as_hash (t_sessions (tables db)))" by simp
    then show "as_hash x \<noteq> b64_encode url_alphabet ''abc''" unfolding c(3) e by auto
  qed
  let ?s1 = "(demo_service h)\<lparr>sv_limiter := lm\<rparr>"
  let ?c = "change_password demo_argon 6 (demo_principal h ''one'') ''admin123'' ''Longer-password-1''
      (Inr (replicate 16 CHR ''t'')) ?s1"
  have f: "db_up (sv_db (demo_service h))" "fst (login_check demo_argon (\<lambda>x. x) 6 ''admin'' ''admin123'' [] [] (demo_service h)) =
      Inr (demo_user h)" "?s1 = snd (login_check demo_argon (\<lambda>x. x) 6 ''admin'' ''admin123'' [] [] (demo_service h))"
    by (simp_all add: l) (simp add: demo_service_def db_up_def)
  have g: "au_id (pc_user (demo_principal h ''one'')) = au_id (demo_user h)" by (simp add: demo_principal_def)
  have d: "fst ?c = Inr ((demo_user h)\<lparr>au_must_change := False\<rparr>)" "db_up (sv_db (snd ?c))"
    "\<forall>x\<in>set (t_sessions (sv_tables (snd ?c))). as_hash x \<noteq> b64_encode url_alphabet ''abc''"
    "0 < cfg_ttl (sv_config (snd ?c))"
    unfolding c(1) using c(2) fresh by (simp_all add: demo_service_def)
  have "\<exists>res s3. login_finish (\<lambda>x. x) 7 6 ''admin'' [] [] (Inr ''abc'') (demo_user h) (snd ?c) = (Inr res, s3) \<and>
    lr_token res = b64_encode url_alphabet ''abc'' \<and>
    (\<exists>p. fst (authenticate (\<lambda>x. x) 6 (demo_request (b64_encode url_alphabet ''abc'')) s3) = Inr p \<and>
      au_id (pc_user p) = au_id (demo_user h))"
    by (rule login_in_flight_survives [OF f(1) demo_unique f(2,3) g d(1) refl d(2,3) _ d(4) _ demo_bearer])
      (simp_all add: demo_request_def)
  moreover have "au_id (demo_user h) = 1" by (simp add: demo_user_def)
  ultimately obtain res s3 p where "login_finish (\<lambda>x. x) 7 6 ''admin'' [] [] (Inr ''abc'') (demo_user h) (snd ?c) = (Inr res, s3)"
    "fst (authenticate (\<lambda>x. x) 6 (demo_request (b64_encode url_alphabet ''abc'')) s3) = Inr p" "au_id (pc_user p) = 1"
    by auto
  then show ?thesis by (intro exI conjI)
qed

end
