(* ===== verification/GoRunes.thy ===== *)
theory GoRunes
  imports GoText
begin

text \<open>
  Runes. A Go string is a byte string; \<open>[]rune(s)\<close> and \<open>range s\<close> decode it as UTF-8, an invalid byte
  counting as the replacement character. A rune is kept as the bytes that encode it.
\<close>

definition byte_in :: "nat \<Rightarrow> nat \<Rightarrow> char \<Rightarrow> bool" where
  "byte_in a b c \<longleftrightarrow> a \<le> (of_char c :: nat) \<and> (of_char c :: nat) \<le> b"

text \<open>The length a first byte announces, 0 if it cannot start a rune.\<close>

definition rune_need :: "char \<Rightarrow> nat" where
  "rune_need a =
     (if byte_in 0 127 a then 1 else if byte_in 194 223 a then 2 else if byte_in 224 239 a then 3
      else if byte_in 240 244 a then 4 else 0)"

definition second_ok :: "char \<Rightarrow> char \<Rightarrow> bool" where
  "second_ok a b =
     (if a = CHR 0xE0 then byte_in 160 191 b else if a = CHR 0xED then byte_in 128 159 b
      else if a = CHR 0xF0 then byte_in 144 191 b else if a = CHR 0xF4 then byte_in 128 143 b
      else byte_in 128 191 b)"

text \<open>The bytes of the first rune, 0 if the string does not start with a valid one.\<close>

definition rune_width :: "string \<Rightarrow> nat" where
  "rune_width s =
     (case s of [] \<Rightarrow> 0
      | a # r \<Rightarrow>
          (let n = rune_need a
           in if n \<le> 1 then n
              else if n \<le> length s \<and> second_ok a (hd r) \<and> list_all (byte_in 128 191) (take (n - 2) (tl r)) then n
              else 0))"

definition replacement :: string where
  "replacement = [CHR 0xEF, CHR 0xBF, CHR 0xBD]"

lemma rune_width_le: "rune_width s \<le> length s"
  by (cases s) (auto simp: rune_width_def Let_def)

function runes :: "string \<Rightarrow> string list" where
  "runes [] = []"
| "runes (c # s) =
     (if rune_width (c # s) = 0 then replacement # runes s
      else take (rune_width (c # s)) (c # s) # runes (drop (rune_width (c # s)) (c # s)))"
  by pat_completeness auto
termination
  by (relation "measure length") auto

declare runes.simps(2) [simp del]

text \<open>\<open>string(runes)\<close> is concatenation. Valid text consists of the bytes of its runes.\<close>

function valid_utf8 :: "string \<Rightarrow> bool" where
  "valid_utf8 [] = True"
| "valid_utf8 (c # s) =
     (if rune_width (c # s) = 0 then False else valid_utf8 (drop (rune_width (c # s)) (c # s)))"
  by pat_completeness auto
termination
  by (relation "measure length") auto

declare valid_utf8.simps(2) [simp del]

lemma concat_runes: "valid_utf8 s \<Longrightarrow> concat (runes s) = s"
proof (induction s rule: runes.induct)
  case (2 c s)
  then have "rune_width (c # s) \<noteq> 0" "valid_utf8 (drop (rune_width (c # s)) (c # s))"
    by (auto simp: valid_utf8.simps(2) split: if_splits)
  then show ?case using 2 by (simp add: runes.simps(2))
qed simp

lemma runes_ascii: "byte_in 0 127 c \<Longrightarrow> runes (c # s) = [c] # runes s"
  by (simp add: runes.simps(2) rune_width_def rune_need_def)

lemma length_runes: "length (runes s) \<le> length s"
proof (induction s rule: runes.induct)
  case (2 c s)
  show ?case
  proof (cases "rune_width (c # s) = 0")
    case False
    then have "length (runes (drop (rune_width (c # s)) (c # s))) \<le> length (c # s) - rune_width (c # s)"
      using 2 by simp
    then show ?thesis using False rune_width_le [of "c # s"] by (simp add: runes.simps(2))
  qed (use 2 in \<open>simp add: runes.simps(2)\<close>)
qed simp

text \<open>The runes with the bytes as they stand: an invalid byte is a piece of its own.\<close>

function pieces :: "string \<Rightarrow> string list" where
  "pieces [] = []"
| "pieces (c # s) =
     (if rune_width (c # s) = 0 then [c] # pieces s
      else take (rune_width (c # s)) (c # s) # pieces (drop (rune_width (c # s)) (c # s)))"
  by pat_completeness auto
termination
  by (relation "measure length") auto

declare pieces.simps(2) [simp del]

lemma concat_pieces [simp]: "concat (pieces s) = s"
proof (induction s rule: pieces.induct)
  case (2 c s)
  then show ?case by (simp add: pieces.simps(2))
qed simp

text \<open>\<open>truncateText\<close> of \<open>mailbox.go\<close>: white space cut off, then at most the given number of runes.\<close>

definition truncate_runes :: "string \<Rightarrow> int \<Rightarrow> string" where
  "truncate_runes v m =
     (let v = trim_space v; rs = runes v
      in if m < 1 then [] else if int (length rs) > m then concat (take (nat m) rs) else v)"

text \<open>Postgres' \<open>LEFT\<close> on a text column, which holds valid UTF-8.\<close>

definition sql_left :: "string \<Rightarrow> nat \<Rightarrow> string" where
  "sql_left s n = concat (take n (runes s))"

lemma sql_left_truncate:
  "valid_utf8 v \<Longrightarrow> trim_space v = v \<Longrightarrow> 1 \<le> n \<Longrightarrow> sql_left v n = truncate_runes v (int n)"
  using concat_runes by (auto simp: sql_left_def truncate_runes_def Let_def)

lemma valid_utf8_append: "valid_utf8 a \<Longrightarrow> valid_utf8 b \<Longrightarrow> valid_utf8 (a @ b)"
proof (induction a rule: valid_utf8.induct)
  case (2 c s)
  let ?w = "rune_width (c # s)"
  have w: "?w \<noteq> 0" "valid_utf8 (drop ?w (c # s))" using 2(2) by (auto simp: valid_utf8.simps(2) split: if_splits)
  have "rune_width ((c # s) @ b) = ?w"
    using w(1) by (cases s) (auto simp: rune_width_def Let_def split: if_splits)
  moreover have "drop ?w ((c # s) @ b) = drop ?w (c # s) @ b"
    unfolding drop_append using rune_width_le [of "c # s"] by simp
  ultimately show ?case
    using 2 w by (simp add: valid_utf8.simps(2))
qed simp

end
