(* ===== verification/GoRegexp.thy ===== *)
theory GoRegexp
  imports GoRunes
begin

text \<open>
  The part of Go's \<open>regexp\<close> package the code uses: leftmost-first matching, as a matcher that lists
  what can remain after a match in the order of preference of a backtracking search, together with
  the text of the one capturing group of the patterns. Patterns work on runes, taken as pieces of the text; a word boundary looks
  at the rune before, which the matcher is given.
\<close>

datatype regex =
    Rune "string \<Rightarrow> bool"
  | Bound
  | EndText
  | Seq regex regex
  | Alt regex regex
  | Opt regex
  | Many "string \<Rightarrow> bool" nat "nat option"
  | Capture "string \<Rightarrow> bool" nat "nat option"

text \<open>A state: the rune before the position, the runes after it, the captured runes.\<close>

type_synonym re_state = "string option \<times> string list \<times> string list option"

definition word_rune :: "string \<Rightarrow> bool" where
  "word_rune r \<longleftrightarrow>
     (case r of [c] \<Rightarrow> byte_in 48 57 c \<or> byte_in 65 90 c \<or> byte_in 97 122 c \<or> c = CHR ''_'' | _ \<Rightarrow> False)"

text \<open>How many runes a greedy repetition of a class may take at most.\<close>

fun run_length :: "(string \<Rightarrow> bool) \<Rightarrow> nat option \<Rightarrow> string list \<Rightarrow> nat" where
  "run_length P m [] = 0"
| "run_length P m (r # rs) =
     (if P r \<and> m \<noteq> Some 0 then Suc (run_length P (map_option (\<lambda>n. n - 1) m) rs) else 0)"

definition advance :: "nat \<Rightarrow> re_state \<Rightarrow> re_state" where
  "advance k st = (case st of (p, rs, cap) \<Rightarrow> (if k = 0 then p else Some (rs ! (k - 1)), drop k rs, cap))"

text \<open>The greedy choices: the longest first.\<close>

definition greedy :: "(string \<Rightarrow> bool) \<Rightarrow> nat \<Rightarrow> nat option \<Rightarrow> string list \<Rightarrow> nat list" where
  "greedy P lo hi rs = (let n = run_length P hi rs in rev [lo ..< Suc n])"

fun re_match :: "regex \<Rightarrow> re_state \<Rightarrow> re_state list" where
  "re_match (Rune P) (p, rs, cap) =
     (case rs of [] \<Rightarrow> [] | r # rest \<Rightarrow> if P r then [(Some r, rest, cap)] else [])"
| "re_match Bound (p, rs, cap) =
     (let before = (case p of None \<Rightarrow> False | Some r \<Rightarrow> word_rune r);
          after = (case rs of [] \<Rightarrow> False | r # _ \<Rightarrow> word_rune r)
      in if before \<noteq> after then [(p, rs, cap)] else [])"
| "re_match EndText (p, rs, cap) = (if rs = [] then [(p, rs, cap)] else [])"
| "re_match (Seq a b) st = concat (map (re_match b) (re_match a st))"
| "re_match (Alt a b) st = re_match a st @ re_match b st"
| "re_match (Opt a) st = re_match a st @ [st]"
| "re_match (Many P lo hi) (p, rs, cap) = map (\<lambda>k. advance k (p, rs, cap)) (greedy P lo hi rs)"
| "re_match (Capture P lo hi) (p, rs, cap) =
     map (\<lambda>k. advance k (p, rs, Some (take k rs))) (greedy P lo hi rs)"

text \<open>\<open>FindAllStringSubmatch(s, -1)\<close>: the captured texts of the successive matches. None of the
  patterns matches the empty text, so a match moves the position.\<close>

fun find_all :: "nat \<Rightarrow> regex \<Rightarrow> string option \<Rightarrow> string list \<Rightarrow> (string list \<times> string list option) list" where
  "find_all 0 re p rs = []"
| "find_all (Suc fuel) re p rs =
     (case rs of [] \<Rightarrow> []
      | r # rest \<Rightarrow>
          (case re_match re (p, rs, None) of
             [] \<Rightarrow> find_all fuel re (Some r) rest
           | (p1, rs1, cap) # _ \<Rightarrow>
               (if length rs1 < length rs
                then (take (length rs - length rs1) rs, cap) # find_all fuel re p1 rs1
                else find_all fuel re (Some r) rest)))"

definition find_all_string :: "regex \<Rightarrow> string \<Rightarrow> (string list \<times> string list option) list" where
  "find_all_string re s = find_all (length (pieces s)) re None (pieces s)"

section \<open>Classes and literals\<close>

text \<open>\<open>(?i)\<close> folds the long s and the Kelvin sign to ASCII letters, too.\<close>

definition fold_rune :: "string \<Rightarrow> string" where
  "fold_rune r = (if r = [CHR 0xC5, CHR 0xBF] then ''s'' else if r = [CHR 0xE2, CHR 0x84, CHR 0xAA] then ''k'' else to_lower r)"

definition digit_rune :: "string \<Rightarrow> bool" where
  "digit_rune r = (case r of [c] \<Rightarrow> is_digit c | _ \<Rightarrow> False)"

definition alnum_fold :: "string \<Rightarrow> bool" where
  "alnum_fold r = (case fold_rune r of [c] \<Rightarrow> is_digit c \<or> byte_in 97 122 c | _ \<Rightarrow> False)"

definition space_rune :: "string \<Rightarrow> bool" where
  "space_rune r \<longleftrightarrow> r \<in> {[CHR 0x09], [CHR 0x0A], [CHR 0x0C], [CHR 0x0D], '' ''}"

fun literal :: "string list \<Rightarrow> regex" where
  "literal [] = Many (\<lambda>r. False) 0 None"
| "literal (r # rs) = Seq (Rune (\<lambda>x. fold_rune x = r)) (literal rs)"

fun alternatives :: "regex \<Rightarrow> regex list \<Rightarrow> regex" where
  "alternatives a [] = a"
| "alternatives a (b # rs) = Alt a (alternatives b rs)"

section \<open>Facts\<close>

lemma run_length_class: "k < run_length P m rs \<Longrightarrow> P (rs ! k)"
  by (induction P m rs arbitrary: k rule: run_length.induct) (auto simp: nth_Cons split: if_splits nat.splits)

lemma run_length_le: "run_length P m rs \<le> length rs"
  by (induction P m rs rule: run_length.induct) auto

lemma run_length_bound: "m = Some n \<Longrightarrow> run_length P m rs \<le> n"
  by (induction P m rs arbitrary: n rule: run_length.induct) (auto split: if_splits)

lemma greedy_iff: "k \<in> set (greedy P lo hi rs) \<longleftrightarrow> lo \<le> k \<and> k \<le> run_length P hi rs"
  by (auto simp: greedy_def Let_def)

text \<open>What a group captures: a run of its class within its bounds.\<close>

definition captured_by :: "(string \<Rightarrow> bool) \<Rightarrow> nat \<Rightarrow> nat option \<Rightarrow> string list option \<Rightarrow> bool" where
  "captured_by P lo hi cap \<longleftrightarrow> (\<forall>rs. cap = Some rs \<longrightarrow> list_all P rs \<and> lo \<le> length rs \<and> (\<forall>n. hi = Some n \<longrightarrow> length rs \<le> n))"

fun groups_in :: "(string \<Rightarrow> bool) \<Rightarrow> nat \<Rightarrow> nat option \<Rightarrow> regex \<Rightarrow> bool" where
  "groups_in P lo hi (Seq a b) \<longleftrightarrow> groups_in P lo hi a \<and> groups_in P lo hi b"
| "groups_in P lo hi (Alt a b) \<longleftrightarrow> groups_in P lo hi a \<and> groups_in P lo hi b"
| "groups_in P lo hi (Opt a) \<longleftrightarrow> groups_in P lo hi a"
| "groups_in P lo hi (Capture Q l h) \<longleftrightarrow> (\<forall>r. Q r \<longrightarrow> P r) \<and> lo \<le> l \<and> (\<forall>n. hi = Some n \<longrightarrow> (\<exists>m. h = Some m \<and> m \<le> n))"
| "groups_in P lo hi _ \<longleftrightarrow> True"

lemma capture_run:
  assumes "k \<in> set (greedy Q l h rs)" and "groups_in P lo hi (Capture Q l h)"
  shows "captured_by P lo hi (Some (take k rs))"
proof -
  have k: "l \<le> k" "k \<le> run_length Q h rs" using assms(1) by (simp_all add: greedy_iff)
  have len: "length (take k rs) = k" using k(2) run_length_le [of Q h rs] by simp
  have "list_all Q (take k rs)" using k(2) run_length_class [of _ Q h rs] by (auto simp: list_all_length)
  then have "list_all P (take k rs)" using assms(2) by (auto simp: list_all_iff)
  moreover have "hi = Some n \<Longrightarrow> k \<le> n" for n
    using assms(2) k(2) run_length_bound [of h _ Q rs] by fastforce
  ultimately show ?thesis using assms(2) k(1) len by (auto simp: captured_by_def)
qed

lemma re_match_captured:
  "st' \<in> set (re_match re st) \<Longrightarrow> groups_in P lo hi re \<Longrightarrow> captured_by P lo hi (snd (snd st)) \<Longrightarrow>
   captured_by P lo hi (snd (snd st'))"
proof (induction re st arbitrary: st' rule: re_match.induct)
  case (8 Q l h p rs cap)
  then show ?case using capture_run by (auto simp: advance_def)
qed (auto simp: advance_def Let_def split: list.splits if_splits)

lemma find_all_captured:
  "(m, cap) \<in> set (find_all fuel re p rs) \<Longrightarrow> groups_in P lo hi re \<Longrightarrow> captured_by P lo hi cap"
proof (induction fuel re p rs rule: find_all.induct)
  case (2 fuel re p rs)
  show ?case
  proof (cases rs)
    case Nil
    then show ?thesis using 2 by simp
  next
    case (Cons r rest)
    show ?thesis
    proof (cases "re_match re (p, rs, None)")
      case Nil
      then show ?thesis using 2 Cons by simp
    next
      case (Cons st sts)
      then have "captured_by P lo hi (snd (snd st))"
        using re_match_captured [of st re "(p, rs, None)"] 2 by (simp add: captured_by_def)
      then show ?thesis using 2 Cons \<open>rs = r # rest\<close> by (cases st) (auto split: if_splits)
    qed
  qed
qed simp

end
