(* ===== verification/MailMessages.thy ===== *)
theory MailMessages
  imports GoRunes GoSort "HOL-Library.Word"
begin

text \<open>
  Mail messages and the cache of a mailbox: the data of \<open>modules/mail/backend/mailbox.go\<close>, the pure
  functions on lists of messages there (\<open>mergeMailMessages\<close>, \<open>retainNewestMessagesPerAlias\<close>,
  \<open>pruneHiddenMessages\<close>) and the in-memory queries of \<open>mailbox_repository.go\<close>.

  A slice whose nil value matters is an option. IMAP identifiers have 32 bits. A key of the hidden
  list names one message of one address in one generation of the mailbox.
\<close>

section \<open>Data\<close>

type_synonym uid = "32 word"
type_synonym slice = "string list option"

definition elems :: "slice \<Rightarrow> string list" where
  "elems s = (case s of None \<Rightarrow> [] | Some xs \<Rightarrow> xs)"

record mail_message =
  mm_uid :: uid
  mm_aliases :: slice
  mm_from :: string
  mm_subject :: string
  mm_date :: unixtime
  mm_text :: string
  mm_html :: string
  mm_codes :: slice
  mm_partner :: slice

record mailbox_status =
  ms_configured :: bool
  ms_enabled :: bool
  ms_host :: string
  ms_port :: int
  ms_mailbox :: string
  ms_last_sync :: "unixtime option"
  ms_last_error :: string
  ms_revision :: int
  ms_validity :: uid
  ms_generation :: string
  ms_mode :: string
  ms_running :: bool

record mailbox_cache =
  mc_status :: mailbox_status
  mc_messages :: "mail_message list"
  mc_hidden :: "string list"
  mc_highest :: uid
  mc_allowed :: "string list"

definition empty_status :: mailbox_status where
  "empty_status = \<lparr>ms_configured = False, ms_enabled = False, ms_host = [], ms_port = 0, ms_mailbox = [],
     ms_last_sync = None, ms_last_error = [], ms_revision = 0, ms_validity = 0, ms_generation = [],
     ms_mode = [], ms_running = False\<rparr>"

definition empty_cache :: mailbox_cache where
  "empty_cache = \<lparr>mc_status = empty_status, mc_messages = [], mc_hidden = [], mc_highest = 0, mc_allowed = []\<rparr>"

definition max_per_alias :: nat where "max_per_alias = 100"
definition max_recent :: nat where "max_recent = 500"
definition default_per_alias :: nat where "default_per_alias = 10"
definition default_recent :: nat where "default_recent = 200"
definition preview_size :: nat where "preview_size = 160"

section \<open>Keys of hidden messages\<close>

definition message_key :: "string \<Rightarrow> string \<Rightarrow> uid \<Rightarrow> string" where
  "message_key gen a u = gen @ '':'' @ norm_alias a @ '':'' @ dec (unat u)"

text \<open>\<open>strings.LastIndexByte\<close>; \<^const>\<open>None\<close> is -1.\<close>

fun last_index_byte :: "string \<Rightarrow> char \<Rightarrow> nat option" where
  "last_index_byte [] c = None"
| "last_index_byte (x # s) c =
     (case last_index_byte s c of Some n \<Rightarrow> Some (Suc n) | None \<Rightarrow> if x = c then Some 0 else None)"

definition parse_message_key :: "string \<Rightarrow> string \<Rightarrow> (string \<times> uid) option" where
  "parse_message_key gen key =
     (let pre = gen @ '':'' in
      if \<not> has_prefix key pre then None
      else
        (let remainder = trim_prefix key pre
         in case last_index_byte remainder (CHR '':'') of
              None \<Rightarrow> None
            | Some i \<Rightarrow>
                (if i < 1 then None
                 else
                   (case parse_uint 32 (drop (i + 1) remainder) of
                      None \<Rightarrow> None
                    | Some n \<Rightarrow>
                        (let a = norm_alias (take i remainder)
                         in if a = [] then None else Some (a, of_nat n))))))"

section \<open>Addresses\<close>

definition normalize_aliases :: "string list \<Rightarrow> string list" where
  "normalize_aliases as = sort_strings (dedup_from {} (filter (\<lambda>a. a \<noteq> []) (map norm_alias as)))"

definition message_has_alias :: "mail_message \<Rightarrow> string \<Rightarrow> bool" where
  "message_has_alias m a \<longleftrightarrow> (\<exists>x\<in>set (elems (mm_aliases m)). equal_fold (trim_space x) a)"

definition message_visible :: "string list \<Rightarrow> string \<Rightarrow> mail_message \<Rightarrow> bool" where
  "message_visible hide gen m \<longleftrightarrow> (\<exists>a\<in>set (elems (mm_aliases m)). message_key gen a (mm_uid m) \<notin> set hide)"

section \<open>Order and merging\<close>

definition newer :: "mail_message \<Rightarrow> mail_message \<Rightarrow> bool" where
  "newer a b \<longleftrightarrow> (if mm_date a = mm_date b then mm_uid b < mm_uid a else mm_date b < mm_date a)"

definition ordered_messages :: "mail_message list \<Rightarrow> mail_message list" where
  "ordered_messages ms = go_sort newer ms"

text \<open>The map by identifier is kept as the list of its values; its order does not matter, since the
  values are sorted by a key that contains the identifier.\<close>

definition merge_step :: "string list \<Rightarrow> mail_message \<Rightarrow> mail_message list \<Rightarrow> mail_message list" where
  "merge_step allowed m by_uid =
     (let others = filter (\<lambda>x. mm_uid x \<noteq> mm_uid m) by_uid;
          as = filter (\<lambda>a. a \<in> set allowed) (map norm_alias (elems (mm_aliases m)))
      in if as = [] then others else others @ [m\<lparr>mm_aliases := Some as\<rparr>])"

definition merge_by_uid :: "string list \<Rightarrow> mail_message list \<Rightarrow> mail_message list" where
  "merge_by_uid allowed ms = fold (merge_step allowed) ms []"

text \<open>One message: the addresses that are still below their quota, and the counts with them.\<close>

fun retain_aliases :: "nat \<Rightarrow> string set \<Rightarrow> (string \<Rightarrow> nat) \<Rightarrow> string list \<Rightarrow> string list \<times> (string \<Rightarrow> nat)" where
  "retain_aliases quota seen counts [] = ([], counts)"
| "retain_aliases quota seen counts (x # xs) =
     (let a = norm_alias x
      in if a = [] \<or> a \<in> seen \<or> quota \<le> counts a then retain_aliases quota seen counts xs
         else
           (let (r, c) = retain_aliases quota (insert a seen) (counts(a := Suc (counts a))) xs
            in (a # r, c)))"

fun retain_from :: "nat \<Rightarrow> (string \<Rightarrow> nat) \<Rightarrow> mail_message list \<Rightarrow> mail_message list" where
  "retain_from quota counts [] = []"
| "retain_from quota counts (m # ms) =
     (let (as, c) = retain_aliases quota {} counts (elems (mm_aliases m))
      in if as = [] then retain_from quota c ms else m\<lparr>mm_aliases := Some as\<rparr> # retain_from quota c ms)"

definition retain_newest :: "mail_message list \<Rightarrow> nat \<Rightarrow> mail_message list" where
  "retain_newest ms quota = (if quota < 1 then [] else retain_from quota (\<lambda>a. 0) ms)"

definition merge_messages ::
  "mail_message list \<Rightarrow> mail_message list \<Rightarrow> string list \<Rightarrow> int \<Rightarrow> mail_message list" where
  "merge_messages old incoming aliases maximum =
     (let allowed = normalize_aliases aliases;
          out = retain_newest (go_sort newer (merge_by_uid allowed (old @ incoming))) max_per_alias
      in if 0 < maximum \<and> maximum < int (length out) then take (nat maximum) out else out)"

definition valid_keys :: "string \<Rightarrow> mail_message list \<Rightarrow> string list" where
  "valid_keys gen ms = concat (map (\<lambda>m. map (\<lambda>a. message_key gen a (mm_uid m)) (elems (mm_aliases m))) ms)"

definition prune_hidden :: "string list \<Rightarrow> string \<Rightarrow> mail_message list \<Rightarrow> string list" where
  "prune_hidden hide gen ms = sort_strings (dedup_from {} (filter (\<lambda>k. k \<in> set (valid_keys gen ms)) hide))"

text \<open>\<open>cloneMailMessages\<close> copies the slices by appending to nil, so that an empty slice becomes nil.\<close>

definition clone_slice :: "slice \<Rightarrow> slice" where
  "clone_slice s = (if elems s = [] then None else Some (elems s))"

definition clone_message :: "mail_message \<Rightarrow> mail_message" where
  "clone_message m = m\<lparr>mm_aliases := clone_slice (mm_aliases m), mm_codes := clone_slice (mm_codes m),
     mm_partner := clone_slice (mm_partner m)\<rparr>"

definition clone_messages :: "mail_message list \<Rightarrow> mail_message list" where
  "clone_messages ms = map clone_message ms"

section \<open>Queries\<close>

definition bounded_limit :: "int \<Rightarrow> nat \<Rightarrow> nat \<Rightarrow> nat" where
  "bounded_limit n fallback maximum = (if n < 1 then fallback else min (nat n) maximum)"

definition summarize_message :: "mail_message \<Rightarrow> mail_message" where
  "summarize_message m = m\<lparr>mm_text := truncate_runes (mm_text m) (int preview_size), mm_html := []\<rparr>"

definition normalize_lists :: "mail_message \<Rightarrow> mail_message" where
  "normalize_lists m = m\<lparr>mm_aliases := Some (elems (mm_aliases m)), mm_codes := Some (elems (mm_codes m)),
     mm_partner := Some (elems (mm_partner m))\<rparr>"

definition present_message :: "bool \<Rightarrow> mail_message \<Rightarrow> mail_message" where
  "present_message detailed m = normalize_lists (if detailed then m else summarize_message m)"

definition select_alias :: "mailbox_cache \<Rightarrow> string \<Rightarrow> int \<Rightarrow> bool \<Rightarrow> mail_message list" where
  "select_alias c a n detailed =
     (let a = norm_alias a; n = bounded_limit n default_per_alias max_per_alias
      in if a = [] then []
         else map (present_message detailed) (take n (filter (\<lambda>m.
                message_key (ms_generation (mc_status c)) a (mm_uid m) \<notin> set (mc_hidden c) \<and> message_has_alias m a)
                (ordered_messages (mc_messages c)))))"

definition select_recent :: "mailbox_cache \<Rightarrow> unixtime \<Rightarrow> int \<Rightarrow> mail_message list" where
  "select_recent c cutoff n =
     (let n = bounded_limit n default_recent max_recent
      in map (present_message False) (take n (filter (\<lambda>m.
           cutoff \<le> mm_date m \<and> message_visible (mc_hidden c) (ms_generation (mc_status c)) m)
           (ordered_messages (mc_messages c)))))"

definition select_message :: "mailbox_cache \<Rightarrow> string \<Rightarrow> uid \<Rightarrow> mail_message option" where
  "select_message c a u =
     (let a = norm_alias a
      in if a = [] \<or> u = 0 \<or> message_key (ms_generation (mc_status c)) a u \<in> set (mc_hidden c) then None
         else map_option normalize_lists (find (\<lambda>m. mm_uid m = u \<and> message_has_alias m a) (mc_messages c)))"

end
