(* ===== verification/MailMessageProps.thy ===== *)
theory MailMessageProps
  imports MailMessages
begin

text \<open>
  What the functions on messages guarantee: the order of messages is a comparison in Go's sense, the
  merge keeps the cache well formed and drops nothing newer than what it keeps, and a hidden-message
  key can be read back.
\<close>

section \<open>The order\<close>

interpretation newer_order: go_less newer
  by unfold_locales (auto simp: newer_def split: if_splits)

lemma newer_total: "mm_uid a \<noteq> mm_uid b \<Longrightarrow> newer a b \<or> newer b a"
  by (auto simp: newer_def)

lemma newer_irrefl: "newer a b \<Longrightarrow> mm_uid a \<noteq> mm_uid b \<or> mm_date a \<noteq> mm_date b"
  by (auto simp: newer_def split: if_splits)

lemma newer_same [simp]:
  "newer (a\<lparr>mm_aliases := x\<rparr>) b = newer a b" "newer a (b\<lparr>mm_aliases := x\<rparr>) = newer a b"
  by (simp_all add: newer_def)

text \<open>An ordered list without repeated identifiers is strictly ordered.\<close>

lemma strictly_ordered:
  "in_order newer ms \<Longrightarrow> distinct (map mm_uid ms) \<Longrightarrow> sorted_wrt newer ms"
  using newer_total by (induction ms) force+

section \<open>Merging by identifier\<close>

definition carries :: "string \<Rightarrow> mail_message \<Rightarrow> bool" where
  "carries a m \<longleftrightarrow> a \<in> norm_alias ` set (elems (mm_aliases m))"

text \<open>The message without its addresses, which merging and retaining may reduce.\<close>

definition core :: "mail_message \<Rightarrow> mail_message" where
  "core m = m\<lparr>mm_aliases := None\<rparr>"

lemma core_uid [simp]: "mm_uid (core m) = mm_uid m"
  by (simp add: core_def)

lemma core_aliases [simp]: "core (m\<lparr>mm_aliases := x\<rparr>) = core m"
  by (simp add: core_def)

lemma core_newer: "core a = core b \<Longrightarrow> newer a = newer b"
  by (cases a; cases b) (auto simp: core_def newer_def fun_eq_iff)

lemma core_newer_right: "core a = core b \<Longrightarrow> newer y a = newer y b"
  by (cases a; cases b) (simp add: core_def newer_def)

definition own :: "string list \<Rightarrow> mail_message \<Rightarrow> string list" where
  "own allowed m = filter (\<lambda>a. a \<in> set allowed) (map norm_alias (elems (mm_aliases m)))"

text \<open>What a map by identifier holds after the messages: the last one of each identifier, unless it
  has no allowed address.\<close>

definition latest_in :: "string list \<Rightarrow> mail_message list \<Rightarrow> mail_message \<Rightarrow> bool" where
  "latest_in allowed ms x \<longleftrightarrow>
     (case find (\<lambda>y. mm_uid y = mm_uid x) (rev ms) of
        None \<Rightarrow> False
      | Some m \<Rightarrow> own allowed m \<noteq> [] \<and> x = m\<lparr>mm_aliases := Some (own allowed m)\<rparr>)"

definition holds_latest :: "string list \<Rightarrow> mail_message list \<Rightarrow> mail_message list \<Rightarrow> bool" where
  "holds_latest allowed ms acc \<longleftrightarrow> distinct (map mm_uid acc) \<and> (\<forall>x. x \<in> set acc \<longleftrightarrow> latest_in allowed ms x)"

lemma latest_snoc:
  "latest_in allowed (ms @ [m]) x \<longleftrightarrow>
   (if mm_uid x = mm_uid m then own allowed m \<noteq> [] \<and> x = m\<lparr>mm_aliases := Some (own allowed m)\<rparr>
    else latest_in allowed ms x)"
  by (auto simp: latest_in_def)

lemma holds_latest_step:
  assumes "holds_latest allowed ms acc"
  shows "holds_latest allowed (ms @ [m]) (merge_step allowed m acc)"
proof -
  let ?others = "filter (\<lambda>x. mm_uid x \<noteq> mm_uid m) acc"
  have step: "merge_step allowed m acc =
      (if own allowed m = [] then ?others else ?others @ [m\<lparr>mm_aliases := Some (own allowed m)\<rparr>])"
    by (simp add: merge_step_def own_def Let_def)
  have "distinct (map mm_uid ?others)" using assms by (simp add: holds_latest_def distinct_map_filter)
  then have "distinct (map mm_uid (merge_step allowed m acc))" by (auto simp: step)
  moreover have "x \<in> set (merge_step allowed m acc) \<longleftrightarrow> latest_in allowed (ms @ [m]) x" for x
  proof (cases "mm_uid x = mm_uid m")
    case True
    then show ?thesis by (simp add: latest_snoc step)
  next
    case False
    then have "x \<noteq> m\<lparr>mm_aliases := Some (own allowed m)\<rparr>" by (cases m) auto
    then show ?thesis using False assms by (simp add: latest_snoc step holds_latest_def)
  qed
  ultimately show ?thesis by (simp add: holds_latest_def)
qed

lemma merge_by_uid_latest: "holds_latest allowed ms (merge_by_uid allowed ms)"
proof -
  have "holds_latest allowed past acc \<Longrightarrow> holds_latest allowed (past @ ms) (fold (merge_step allowed) ms acc)" for past acc
  proof (induction ms arbitrary: past acc)
    case (Cons m ms)
    have "holds_latest allowed ((past @ [m]) @ ms) (fold (merge_step allowed) ms (merge_step allowed m acc))"
      by (rule Cons.IH [OF holds_latest_step [OF Cons.prems]])
    then show ?case by simp
  qed simp
  from this [of "[]" "[]"] show ?thesis by (simp add: merge_by_uid_def holds_latest_def latest_in_def)
qed

section \<open>The quota per address\<close>

lemma retain_aliases_spec:
  "retain_aliases q seen c xs = (r, c') \<Longrightarrow>
   set r = {a \<in> norm_alias ` set xs. a \<noteq> [] \<and> a \<notin> seen \<and> c a < q} \<and> distinct r \<and>
   c' = (\<lambda>a. c a + (if a \<in> set r then 1 else 0))"
proof (induction q seen c xs arbitrary: r c' rule: retain_aliases.induct)
  case (2 q seen c x xs)
  let ?a = "norm_alias x"
  show ?case
  proof (cases "?a = [] \<or> ?a \<in> seen \<or> q \<le> c ?a")
    case True
    then have "retain_aliases q seen c xs = (r, c')" using 2(3) by (simp add: Let_def)
    from 2(1) [OF refl True this] show ?thesis using True by auto
  next
    case False
    obtain r1 c1 where r1: "retain_aliases q (insert ?a seen) (c(?a := Suc (c ?a))) xs = (r1, c1)"
      by (cases "retain_aliases q (insert ?a seen) (c(?a := Suc (c ?a))) xs")
    have rc: "r = ?a # r1" "c' = c1" using 2(3) False r1 by (auto simp: Let_def)
    have s: "set r1 = {a \<in> norm_alias ` set xs. a \<noteq> [] \<and> a \<notin> insert ?a seen \<and> (c(?a := Suc (c ?a))) a < q}"
      "distinct r1" "c1 = (\<lambda>a. (c(?a := Suc (c ?a))) a + (if a \<in> set r1 then 1 else 0))"
      using 2(2) [OF refl False r1] by auto
    have "set r = {a \<in> norm_alias ` set (x # xs). a \<noteq> [] \<and> a \<notin> seen \<and> c a < q}"
      using False by (auto simp: rc s(1))
    moreover have "distinct r" using s(1,2) by (auto simp: rc)
    moreover have "c' = (\<lambda>a. c a + (if a \<in> set r then 1 else 0))"
      using s(1) by (auto simp: rc s(3) fun_eq_iff)
    ultimately show ?thesis by blast
  qed
qed simp

text \<open>Of the messages of an address exactly the first ones up to the quota keep it.\<close>

lemma retain_from_newest:
  "a \<noteq> [] \<Longrightarrow> map core (filter (\<lambda>m. a \<in> set (elems (mm_aliases m))) (retain_from q c ms)) =
    map core (take (q - c a) (filter (carries a) ms))"
proof (induction q c ms rule: retain_from.induct)
  case (2 q c m ms)
  obtain r c' where r: "retain_aliases q {} c (elems (mm_aliases m)) = (r, c')"
    by (cases "retain_aliases q {} c (elems (mm_aliases m))")
  note s = retain_aliases_spec [OF r]
  have IH: "map core (filter (\<lambda>m. a \<in> set (elems (mm_aliases m))) (retain_from q c' ms)) =
    map core (take (q - c' a) (filter (carries a) ms))"
    using 2 r by (cases "r = []") simp_all
  have mem: "a \<in> set r \<longleftrightarrow> carries a m \<and> c a < q" using s 2(3) by (auto simp: carries_def)
  show ?case
  proof (cases "a \<in> set r")
    case True
    then have "r \<noteq> []" "q - c a = Suc (q - c' a)" using mem s by auto
    then show ?thesis using True IH mem r by (simp add: elems_def)
  next
    case False
    then have c': "c' a = c a" using s by simp
    have "take (q - c a) (filter (carries a) (m # ms)) = take (q - c a) (filter (carries a) ms)"
      using False mem by (cases "carries a m") auto
    then show ?thesis using False IH c' r by (simp add: elems_def)
  qed
qed simp

lemma retain_from_uids: "subseq (map core (retain_from q c ms)) (map core ms)"
proof (induction q c ms rule: retain_from.induct)
  case (2 q c m ms)
  obtain r c' where r: "retain_aliases q {} c (elems (mm_aliases m)) = (r, c')"
    by (cases "retain_aliases q {} c (elems (mm_aliases m))")
  then show ?case using 2 by (cases "r = []") auto
qed simp

lemma retain_from_aliases:
  "x \<in> set (retain_from q c ms) \<Longrightarrow>
   \<exists>m\<in>set ms. core x = core m \<and> elems (mm_aliases x) \<noteq> [] \<and> distinct (elems (mm_aliases x)) \<and>
     set (elems (mm_aliases x)) \<subseteq> norm_alias ` set (elems (mm_aliases m)) - {[]}"
proof (induction q c ms rule: retain_from.induct)
  case (2 q c m ms)
  obtain r c' where r: "retain_aliases q {} c (elems (mm_aliases m)) = (r, c')"
    by (cases "retain_aliases q {} c (elems (mm_aliases m))")
  note s = retain_aliases_spec [OF r]
  show ?case
  proof (cases "r = []")
    case True
    then show ?thesis using 2 r by auto
  next
    case False
    then consider "x = m\<lparr>mm_aliases := Some r\<rparr>" | "x \<in> set (retain_from q c' ms)" using 2(3) r by auto
    then show ?thesis
    proof cases
      case 1
      then show ?thesis using False s by (intro bexI [of _ m]) (auto simp: elems_def)
    next
      case 2
      then have "\<exists>m\<in>set ms. core x = core m \<and> elems (mm_aliases x) \<noteq> [] \<and> distinct (elems (mm_aliases x)) \<and>
        set (elems (mm_aliases x)) \<subseteq> norm_alias ` set (elems (mm_aliases m)) - {[]}"
        using "2.IH" False r by simp
      then show ?thesis by auto
    qed
  qed
qed simp

section \<open>The merged cache\<close>

definition sorted_union :: "string list \<Rightarrow> mail_message list \<Rightarrow> mail_message list" where
  "sorted_union allowed ms = go_sort newer (merge_by_uid allowed ms)"

lemma sorted_union_facts:
  "distinct (map mm_uid (sorted_union allowed ms))" "sorted_wrt newer (sorted_union allowed ms)"
  "x \<in> set (sorted_union allowed ms) \<longleftrightarrow> latest_in allowed ms x"
proof -
  have h: "holds_latest allowed ms (merge_by_uid allowed ms)" by (rule merge_by_uid_latest)
  have "mset (map mm_uid (sorted_union allowed ms)) = mset (map mm_uid (merge_by_uid allowed ms))"
    by (simp add: sorted_union_def)
  then show d: "distinct (map mm_uid (sorted_union allowed ms))"
    using h mset_eq_imp_distinct_iff unfolding holds_latest_def by blast
  show "sorted_wrt newer (sorted_union allowed ms)"
    using strictly_ordered d newer_order.in_order_sort unfolding sorted_union_def by blast
  show "x \<in> set (sorted_union allowed ms) \<longleftrightarrow> latest_in allowed ms x"
    using h by (simp add: sorted_union_def holds_latest_def)
qed

lemma latest_in_aliases:
  "latest_in allowed ms x \<Longrightarrow> elems (mm_aliases x) \<noteq> [] \<and> set (elems (mm_aliases x)) \<subseteq> set allowed \<and>
    (\<forall>a\<in>set (elems (mm_aliases x)). norm_alias a = a)"
  by (auto simp: latest_in_def own_def elems_def split: option.splits)

text \<open>Order and identifiers of a list depend on the cores only.\<close>

lemma sorted_core: "sorted_wrt newer (map core ms) \<longleftrightarrow> sorted_wrt newer ms"
  by (simp add: sorted_wrt_map core_def)

lemma subseq_core:
  assumes "subseq (map core xs) (map core ms)" and "sorted_wrt newer ms" and "distinct (map mm_uid ms)"
  shows "sorted_wrt newer xs" "distinct (map mm_uid xs)"
proof -
  show "sorted_wrt newer xs" using sorted_wrt_subseq [OF assms(1), of newer] assms(2) by (simp add: sorted_core)
  have "subseq (map mm_uid (map core xs)) (map mm_uid (map core ms))" by (rule subseq_map [OF assms(1)])
  then show "distinct (map mm_uid xs)" using distinct_subseq assms(3) by (auto simp: comp_def)
qed

lemma retain_newest_facts:
  assumes "sorted_wrt newer ms" and "distinct (map mm_uid ms)"
  shows "sorted_wrt newer (retain_newest ms q)" "distinct (map mm_uid (retain_newest ms q))"
  using subseq_core [OF retain_from_uids assms, of q "\<lambda>a. 0"] by (simp_all add: retain_newest_def)

lemma retain_newest_quota:
  "a \<noteq> [] \<Longrightarrow> map core (filter (\<lambda>m. a \<in> set (elems (mm_aliases m))) (retain_newest ms q)) =
    map core (take q (filter (carries a) ms))"
  using retain_from_newest [of a q "\<lambda>a. 0" ms] by (simp add: retain_newest_def)

section \<open>A well-formed cache\<close>

definition messages_wf :: "string list \<Rightarrow> int \<Rightarrow> mail_message list \<Rightarrow> bool" where
  "messages_wf allowed maximum ms \<longleftrightarrow>
     distinct (map mm_uid ms) \<and> sorted_wrt newer ms \<and> (0 < maximum \<longrightarrow> int (length ms) \<le> maximum) \<and>
     (\<forall>m\<in>set ms. elems (mm_aliases m) \<noteq> [] \<and> distinct (elems (mm_aliases m)) \<and>
        set (elems (mm_aliases m)) \<subseteq> set allowed) \<and>
     (\<forall>a\<in>set allowed. length (filter (\<lambda>m. a \<in> set (elems (mm_aliases m))) ms) \<le> max_per_alias)"

lemma normalize_aliases_facts:
  "distinct (normalize_aliases as)" "sorted (normalize_aliases as)"
  "a \<in> set (normalize_aliases as) \<longleftrightarrow> a \<noteq> [] \<and> a \<in> norm_alias ` set as"
  "a \<in> set (normalize_aliases as) \<Longrightarrow> norm_alias a = a"
  by (auto simp: normalize_aliases_def distinct_dedup_from sorted_sort_strings set_dedup_from)

definition union_retained :: "string list \<Rightarrow> mail_message list \<Rightarrow> mail_message list" where
  "union_retained aliases ms = retain_newest (sorted_union (normalize_aliases aliases) ms) max_per_alias"

lemma merge_messages_alt:
  "merge_messages old incoming aliases maximum =
     (let out = union_retained aliases (old @ incoming)
      in if 0 < maximum then take (nat maximum) out else out)"
  by (auto simp: merge_messages_def union_retained_def sorted_union_def Let_def)

lemma union_retained_facts:
  "sorted_wrt newer (union_retained aliases ms)" "distinct (map mm_uid (union_retained aliases ms))"
  using retain_newest_facts [OF sorted_union_facts(2,1)] by (simp_all add: union_retained_def)

lemma union_retained_aliases:
  assumes "x \<in> set (union_retained aliases ms)"
  shows "elems (mm_aliases x) \<noteq> [] \<and> distinct (elems (mm_aliases x)) \<and>
    set (elems (mm_aliases x)) \<subseteq> set (normalize_aliases aliases)"
proof -
  obtain m where m: "m \<in> set (sorted_union (normalize_aliases aliases) ms)" "elems (mm_aliases x) \<noteq> []"
    "distinct (elems (mm_aliases x))" "set (elems (mm_aliases x)) \<subseteq> norm_alias ` set (elems (mm_aliases m)) - {[]}"
    using retain_from_aliases [of x max_per_alias "\<lambda>a. 0" "sorted_union (normalize_aliases aliases) ms"] assms
    by (auto simp: union_retained_def retain_newest_def max_per_alias_def)
  note l = latest_in_aliases [OF m(1) [unfolded sorted_union_facts(3)]]
  have "norm_alias ` set (elems (mm_aliases m)) \<subseteq> set (normalize_aliases aliases)"
    using l by (auto simp: image_subset_iff)
  then show ?thesis using m by blast
qed

lemma union_retained_quota:
  assumes "a \<in> set (normalize_aliases aliases)"
  shows "map core (filter (\<lambda>m. a \<in> set (elems (mm_aliases m))) (union_retained aliases ms)) =
    map core (take max_per_alias (filter (carries a) (sorted_union (normalize_aliases aliases) ms)))"
  using assms retain_newest_quota by (simp add: union_retained_def normalize_aliases_facts(3))

text \<open>
  C17. Whatever a fetch brings, merging it into the cache yields a well-formed cache: identifiers are
  unique, the newest message comes first, the total limit holds, every message has at least one
  address, all of them allowed and none twice, and no address has more than a hundred messages.
\<close>

theorem merge_well_formed:
  "messages_wf (normalize_aliases aliases) maximum (merge_messages old incoming aliases maximum)"
proof -
  let ?u = "union_retained aliases (old @ incoming)"
  obtain n where n: "merge_messages old incoming aliases maximum = take n ?u"
    "0 < maximum \<longrightarrow> int n \<le> maximum"
    by (cases "0 < maximum") (auto simp: merge_messages_alt Let_def intro: that [of "length ?u"])
  have quota: "length (filter (\<lambda>m. a \<in> set (elems (mm_aliases m))) (take n ?u)) \<le> max_per_alias"
    if a: "a \<in> set (normalize_aliases aliases)" for a
  proof -
    have "length (filter (\<lambda>m. a \<in> set (elems (mm_aliases m))) (take n ?u))
        \<le> length (filter (\<lambda>m. a \<in> set (elems (mm_aliases m))) ?u)"
      using append_take_drop_id [of n ?u] filter_append by (metis le_add1 length_append)
    also have "\<dots> = length (map core (filter (\<lambda>m. a \<in> set (elems (mm_aliases m))) ?u))" by simp
    also have "\<dots> \<le> max_per_alias" unfolding union_retained_quota [OF a] by simp
    finally show ?thesis .
  qed
  show ?thesis unfolding messages_wf_def n(1)
  proof (intro conjI ballI impI)
    show "distinct (map mm_uid (take n ?u))" using union_retained_facts(2) by (simp add: take_map [symmetric])
    show "sorted_wrt newer (take n ?u)" using union_retained_facts(1) by (rule sorted_wrt_take)
    show "int (length (take n ?u)) \<le> maximum" if "0 < maximum" using n(2) that by simp
    fix m assume m: "m \<in> set (take n ?u)"
    then have "m \<in> set ?u" by (rule in_set_takeD)
    from union_retained_aliases [OF this]
    show "elems (mm_aliases m) \<noteq> []" "distinct (elems (mm_aliases m))"
      "set (elems (mm_aliases m)) \<subseteq> set (normalize_aliases aliases)" by blast+
  qed (use quota in blast)
qed

text \<open>An element of an ordered list cut off by \<^const>\<open>take\<close> comes after everything kept.\<close>

lemma dropped_is_older:
  "sorted_wrt R xs \<Longrightarrow> x \<in> set xs \<Longrightarrow> x \<notin> set (take n xs) \<Longrightarrow> y \<in> set (take n xs) \<Longrightarrow> R y x"
proof -
  assume a: "sorted_wrt R xs" "x \<in> set xs" "x \<notin> set (take n xs)" "y \<in> set (take n xs)"
  have "set xs = set (take n xs) \<union> set (drop n xs)" by (metis append_take_drop_id set_append)
  then have "x \<in> set (drop n xs)" using a(2,3) by blast
  moreover have "sorted_wrt R (take n xs @ drop n xs)" using a(1) by simp
  ultimately show "R y x" using a(4) unfolding sorted_wrt_append by blast
qed

lemma union_keeps_newest:
  assumes a: "a \<in> set (normalize_aliases aliases)" and m: "latest_in (normalize_aliases aliases) ms m" "carries a m"
  shows "(\<exists>r\<in>set (union_retained aliases ms). core r = core m \<and> a \<in> set (elems (mm_aliases r))) \<or>
    (let rs = filter (\<lambda>r. a \<in> set (elems (mm_aliases r))) (union_retained aliases ms)
     in length rs = max_per_alias \<and> (\<forall>r\<in>set rs. newer r m))"
proof -
  let ?c = "filter (carries a) (sorted_union (normalize_aliases aliases) ms)"
  let ?rs = "filter (\<lambda>r. a \<in> set (elems (mm_aliases r))) (union_retained aliases ms)"
  have q: "map core ?rs = map core (take max_per_alias ?c)" by (rule union_retained_quota [OF a])
  have mem: "m \<in> set ?c" using m by (simp add: sorted_union_facts(3))
  have srt: "sorted_wrt newer ?c" using sorted_union_facts(2) by (rule sorted_wrt_filter)
  show ?thesis
  proof (cases "m \<in> set (take max_per_alias ?c)")
    case True
    then have "core m \<in> set (map core ?rs)" unfolding q by simp
    then show ?thesis by auto
  next
    case False
    then have "max_per_alias < length ?c" using mem by (metis not_le take_all)
    then have "length ?rs = max_per_alias" using arg_cong [OF q, of length] by simp
    moreover have "newer r m" if r: "r \<in> set ?rs" for r
    proof -
      have "core r \<in> set (map core (take max_per_alias ?c))" unfolding q [symmetric] using r by simp
      then obtain y where y: "y \<in> set (take max_per_alias ?c)" "core r = core y" by auto
      then show ?thesis using dropped_is_older [OF srt mem False y(1)] core_newer by metis
    qed
    ultimately show ?thesis by (simp add: Let_def)
  qed
qed

lemma merge_keeps:
  assumes "a \<in> set (normalize_aliases aliases)"
    and "latest_in (normalize_aliases aliases) (old @ incoming) m" and "carries a m"
    and "kept = merge_messages old incoming aliases maximum"
  shows "(\<exists>r\<in>set kept. core r = core m \<and> a \<in> set (elems (mm_aliases r))) \<or>
    (let rs = filter (\<lambda>r. a \<in> set (elems (mm_aliases r))) kept
     in length rs = max_per_alias \<and> (\<forall>r\<in>set rs. newer r m)) \<or>
    (0 < maximum \<and> int (length kept) = maximum \<and> (\<forall>r\<in>set kept. newer r m))"
proof -
  let ?u = "union_retained aliases (old @ incoming)" and ?A = "\<lambda>r. a \<in> set (elems (mm_aliases r))"
  note u = union_keeps_newest [OF assms(1-3)]
  show ?thesis
  proof (cases "0 < maximum \<and> nat maximum < length ?u")
    case False
    then have "kept = ?u" using assms(4) by (auto simp: merge_messages_alt Let_def)
    then show ?thesis using u by auto
  next
    case True
    then have k: "kept = take (nat maximum) ?u" "int (length kept) = maximum"
      using assms(4) by (auto simp: merge_messages_alt Let_def)
    note older = dropped_is_older [OF union_retained_facts(1) [of aliases "old @ incoming"], where n = "nat maximum", folded k(1)]
    from u show ?thesis
    proof
      assume "\<exists>r\<in>set ?u. core r = core m \<and> ?A r"
      then obtain r where r: "r \<in> set ?u" "core r = core m" "?A r" by blast
      show ?thesis
      proof (cases "r \<in> set kept")
        case False
        have "newer y m" if "y \<in> set kept" for y
          using older [OF r(1) False that] core_newer_right [OF r(2)] by blast
        then show ?thesis using k(2) True by blast
      qed (use r in blast)
    next
      assume f: "let rs = filter ?A ?u in length rs = max_per_alias \<and> (\<forall>r\<in>set rs. newer r m)"
      show ?thesis
      proof (cases "set (filter ?A ?u) \<subseteq> set kept")
        case True
        have "distinct ?u" using union_retained_facts(2) [of aliases "old @ incoming"] by (simp add: distinct_map)
        then have "distinct (filter ?A ?u)" "distinct (filter ?A kept)" unfolding k(1) by simp_all
        then have "length (filter ?A ?u) = card (set (filter ?A ?u))" "length (filter ?A kept) = card (set (filter ?A kept))"
          by (metis distinct_card)+
        moreover have "set (filter ?A kept) = set (filter ?A ?u)"
          using True k(1) set_take_subset [of "nat maximum" ?u] by auto
        ultimately show ?thesis using f by (simp add: Let_def)
      next
        case False
        then obtain r where r: "r \<in> set ?u" "?A r" "r \<notin> set kept" by auto
        then have rm: "newer r m" using f by (auto simp: Let_def)
        have "newer y m" if "y \<in> set kept" for y
          using newer_order.trans [OF older [OF r(1,3) that] rm] .
        then show ?thesis using k(2) True by blast
      qed
    qed
  qed
qed


text \<open>
  Merging drops nothing newer than what it keeps. The last known message of an identifier that
  carries an allowed address is in the result under that address, or the address already has its
  hundred messages, all of them newer, or the cache is full of messages that are all newer.
\<close>

theorem merge_keeps_newest:
  assumes "a \<in> set (normalize_aliases aliases)"
    and "latest_in (normalize_aliases aliases) (old @ incoming) m" and "carries a m"
    and "kept = merge_messages old incoming aliases maximum"
  shows "(\<exists>r\<in>set kept. core r = core m \<and> a \<in> set (elems (mm_aliases r))) \<or>
    (let rs = filter (\<lambda>r. a \<in> set (elems (mm_aliases r))) kept
     in length rs = max_per_alias \<and> (\<forall>r\<in>set rs. newer r m)) \<or>
    (0 < maximum \<and> int (length kept) = maximum \<and> (\<forall>r\<in>set kept. newer r m))"
  by (rule merge_keeps [OF assms])

section \<open>Hidden messages\<close>

lemma last_index_byte_append:
  "c \<notin> set b \<Longrightarrow> last_index_byte (a @ c # b) c = Some (length a)"
proof -
  assume c: "c \<notin> set b"
  have "last_index_byte b c = None" using c by (induction b) auto
  then show ?thesis by (induction a) simp_all
qed

lemma parse_key: "norm_alias x \<noteq> [] \<Longrightarrow> parse_message_key gen (message_key gen x w) = Some (norm_alias x, w)"
proof -
  assume a: "norm_alias x \<noteq> []"
  let ?rest = "norm_alias x @ '':'' @ dec (unat w)"
  have "CHR '':'' \<notin> set (dec (unat w))" using dec_digits [of "CHR '':''" "unat w"] by (auto simp: is_digit_def)
  then have i: "last_index_byte ?rest (CHR '':'') = Some (length (norm_alias x))"
    using last_index_byte_append [of "CHR '':''" "dec (unat w)" "norm_alias x"] by simp
  have "unat w < 2 ^ 32" using unsigned_less [of w] by simp
  then have u: "parse_uint 32 (dec (unat w)) = Some (unat w)" by (rule parse_uint_dec)
  have "trim_prefix (message_key gen x w) (gen @ '':'') = ?rest" "has_prefix (message_key gen x w) (gen @ '':'')"
    by (simp_all add: trim_prefix_def message_key_def has_prefix_def)
  then show ?thesis using a i u by (simp add: parse_message_key_def Let_def Suc_le_eq)
qed

lemma message_key_inj:
  "norm_alias a \<noteq> [] \<Longrightarrow> norm_alias b \<noteq> [] \<Longrightarrow>
   message_key gen a u = message_key gen b v \<longleftrightarrow> norm_alias a = norm_alias b \<and> u = v"
proof
  assume a: "norm_alias a \<noteq> []" and b: "norm_alias b \<noteq> []" and k: "message_key gen a u = message_key gen b v"
  show "norm_alias a = norm_alias b \<and> u = v"
    using parse_key [OF a, of gen u] parse_key [OF b, of gen v] unfolding k by simp
qed (simp add: message_key_def)

text \<open>
  The key of a hidden message can be read back: from the generation and the key,
  \<open>parseMessageKey\<close> recovers the canonical address and the identifier, whatever characters the
  generation and the address contain; so different messages have different keys.
\<close>

theorem message_key_roundtrip:
  assumes "norm_alias a \<noteq> []"
  shows "parse_message_key gen (message_key gen a u) = Some (norm_alias a, u) \<and>
    (\<forall>b v. norm_alias b \<noteq> [] \<longrightarrow> message_key gen a u = message_key gen b v \<longrightarrow> norm_alias a = norm_alias b \<and> u = v)"
  using parse_key [OF assms] message_key_inj [OF assms] by blast

lemma message_key_roundtrip_witness:
  "parse_message_key ''g:1'' (message_key ''g:1'' ''a:b'' 7) = Some (''a:b'', 7)"
proof -
  have n: "norm_alias ''a:b'' = ''a:b''" by code_simp
  show ?thesis using message_key_roundtrip [of "''a:b''" "''g:1''" 7] unfolding n by simp
qed

text \<open>Pruning keeps the hidden keys of the remaining messages and no others.\<close>

lemma valid_keys_iff:
  "k \<in> set (valid_keys gen ms) \<longleftrightarrow> (\<exists>m\<in>set ms. \<exists>a\<in>set (elems (mm_aliases m)). k = message_key gen a (mm_uid m))"
  by (auto simp: valid_keys_def)

lemma prune_hidden_iff: "k \<in> set (prune_hidden hide gen ms) \<longleftrightarrow> k \<in> set hide \<and> k \<in> set (valid_keys gen ms)"
  by (simp add: prune_hidden_def set_dedup_from)

end
