(* ===== verification/MailRepo.thy ===== *)
theory MailRepo
  imports MailMessages Sql Storage
begin

text \<open>
  Where the cache of a mailbox is kept (\<open>modules/mail/backend/mailbox_repository.go\<close>): a JSON file, the
  Postgres tables of the account, or both with the file as the one that is read. The tables belong to
  all accounts. The queries the ent client builds are written out on the lists of rows; the text of a
  driver's error is not modelled.
\<close>

section \<open>The JSON file\<close>

definition file_load :: "mailbox_cache cell \<Rightarrow> (go_error + mailbox_cache \<times> bool) \<times> mailbox_cache cell" where
  "file_load c =
     (let (bad, c1) = (case read_faults c of [] \<Rightarrow> (False, c) | f # fs \<Rightarrow> (f, c\<lparr>read_faults := fs\<rparr>))
      in if bad then (Inl (Plain ''read mailbox cache''), c1)
         else (case cell_doc c of None \<Rightarrow> (Inr (empty_cache, False), c1) | Some d \<Rightarrow> (Inr (d, True), c1)))"

definition file_load_state :: "mailbox_cache cell \<Rightarrow> (go_error + mailbox_cache \<times> bool) \<times> mailbox_cache cell" where
  "file_load_state c =
     (case file_load c of
        (Inl e, c1) \<Rightarrow> (Inl e, c1)
      | (Inr (d, ex), c1) \<Rightarrow> (Inr (d\<lparr>mc_messages := [], mc_hidden := []\<rparr>, ex), c1))"

definition file_save :: "mailbox_cache \<Rightarrow> mailbox_cache cell \<Rightarrow> go_error option \<times> mailbox_cache cell" where
  "file_save d c = (let (ok, c1) = cell_write d c in (if ok then None else Some (Plain ''write mailbox cache''), c1))"

definition with_state :: "mailbox_cache \<Rightarrow> mailbox_cache \<Rightarrow> mailbox_cache" where
  "with_state st d = d\<lparr>mc_status := mc_status st, mc_highest := mc_highest st, mc_allowed := mc_allowed st\<rparr>"

definition file_save_state :: "mailbox_cache \<Rightarrow> mailbox_cache cell \<Rightarrow> go_error option \<times> mailbox_cache cell" where
  "file_save_state st c =
     (case file_load c of
        (Inl e, c1) \<Rightarrow> (Some e, c1)
      | (Inr (d, _), c1) \<Rightarrow> file_save (with_state st d) c1)"

text \<open>The three queries share the check of the generation.\<close>

definition file_query ::
  "string \<Rightarrow> (mailbox_cache \<Rightarrow> 'a) \<Rightarrow> 'a \<Rightarrow> mailbox_cache cell \<Rightarrow> (go_error + 'a) \<times> mailbox_cache cell" where
  "file_query gen f none c =
     (case file_load c of
        (Inl e, c1) \<Rightarrow> (Inl e, c1)
      | (Inr (d, _), c1) \<Rightarrow>
          (Inr (if gen = [] \<or> ms_generation (mc_status d) \<noteq> gen then none else f d), c1))"

definition file_list_alias :: "string \<Rightarrow> string \<Rightarrow> int \<Rightarrow> bool \<Rightarrow> mailbox_cache cell \<Rightarrow> (go_error + mail_message list) \<times> mailbox_cache cell" where
  "file_list_alias gen a n detailed = file_query gen (\<lambda>d. select_alias d a n detailed) []"

definition file_list_recent :: "string \<Rightarrow> unixtime \<Rightarrow> int \<Rightarrow> mailbox_cache cell \<Rightarrow> (go_error + mail_message list) \<times> mailbox_cache cell" where
  "file_list_recent gen cutoff n = file_query gen (\<lambda>d. select_recent d cutoff n) []"

definition file_get :: "string \<Rightarrow> string \<Rightarrow> uid \<Rightarrow> mailbox_cache cell \<Rightarrow> (go_error + mail_message option) \<times> mailbox_cache cell" where
  "file_get gen a u = file_query gen (\<lambda>d. select_message d a u) None"

definition file_clear :: "mailbox_cache cell \<Rightarrow> go_error option \<times> mailbox_cache cell" where
  "file_clear c = file_save empty_cache c"

section \<open>The tables\<close>

record state_row =
  xr_account :: string
  xr_status :: mailbox_status
  xr_highest :: uid
  xr_allowed :: "string list"

record message_row =
  br_account :: string
  br_generation :: string
  br_message :: mail_message

record hidden_row =
  hr_account :: string
  hr_generation :: string
  hr_alias :: string
  hr_uid :: uid

record mail_tables =
  tb_states :: "state_row list"
  tb_messages :: "message_row list"
  tb_hidden :: "hidden_row list"

definition state_of :: "string \<Rightarrow> mail_tables \<Rightarrow> state_row option" where
  "state_of acc t = find (\<lambda>r. xr_account r = acc) (tb_states t)"

definition cache_of_state :: "state_row \<Rightarrow> mailbox_cache" where
  "cache_of_state r = \<lparr>mc_status = xr_status r, mc_messages = [], mc_hidden = [], mc_highest = xr_highest r,
     mc_allowed = xr_allowed r\<rparr>"

definition pg_load_state ::
  "string \<Rightarrow> mail_tables sqldb \<Rightarrow> (go_error + mailbox_cache \<times> bool) \<times> mail_tables sqldb" where
  "pg_load_state acc db =
     (case sql_query (state_of acc) db of
        (None, db1) \<Rightarrow> (Inl (Plain ''load mailbox sync state''), db1)
      | (Some None, db1) \<Rightarrow> (Inr (empty_cache, False), db1)
      | (Some (Some r), db1) \<Rightarrow> (Inr (cache_of_state r, True), db1))"

definition rows_of :: "string \<Rightarrow> string \<Rightarrow> mail_tables \<Rightarrow> mail_message list" where
  "rows_of acc gen t =
     go_sort newer (map br_message (filter (\<lambda>r. br_account r = acc \<and> br_generation r = gen) (tb_messages t)))"

definition hidden_of :: "string \<Rightarrow> string \<Rightarrow> mail_tables \<Rightarrow> hidden_row list" where
  "hidden_of acc gen t = filter (\<lambda>r. hr_account r = acc \<and> hr_generation r = gen) (tb_hidden t)"

definition row_key :: "hidden_row \<Rightarrow> string" where
  "row_key r = message_key (hr_generation r) (hr_alias r) (hr_uid r)"

definition pg_load ::
  "string \<Rightarrow> mail_tables sqldb \<Rightarrow> (go_error + mailbox_cache \<times> bool) \<times> mail_tables sqldb" where
  "pg_load acc db =
     (case pg_load_state acc db of
        (Inl e, db1) \<Rightarrow> (Inl e, db1)
      | (Inr (c, False), db1) \<Rightarrow> (Inr (c, False), db1)
      | (Inr (c, True), db1) \<Rightarrow>
          (let gen = ms_generation (mc_status c) in
           if gen = [] then (Inr (c, True), db1)
           else
             (case sql_query (rows_of acc gen) db1 of
                (None, db2) \<Rightarrow> (Inl (Plain ''load mailbox messages''), db2)
              | (Some ms, db2) \<Rightarrow>
                  (case sql_query (hidden_of acc gen) db2 of
                     (None, db3) \<Rightarrow> (Inl (Plain ''load hidden mailbox messages''), db3)
                   | (Some hs, db3) \<Rightarrow>
                       (Inr (c\<lparr>mc_messages := clone_messages ms, mc_hidden := sort_strings (map row_key hs)\<rparr>, True), db3)))))"

section \<open>Saving\<close>

definition upsert_state :: "state_row \<Rightarrow> mail_tables \<Rightarrow> mail_tables" where
  "upsert_state r t = t\<lparr>tb_states := filter (\<lambda>x. xr_account x \<noteq> xr_account r) (tb_states t) @ [r]\<rparr>"

definition state_row_of :: "string \<Rightarrow> mailbox_cache \<Rightarrow> state_row" where
  "state_row_of acc c = \<lparr>xr_account = acc, xr_status = mc_status c, xr_highest = mc_highest c, xr_allowed = mc_allowed c\<rparr>"

definition same_message_row :: "message_row \<Rightarrow> message_row \<Rightarrow> bool" where
  "same_message_row a b \<longleftrightarrow> br_account a = br_account b \<and> br_generation a = br_generation b \<and>
     mm_uid (br_message a) = mm_uid (br_message b)"

text \<open>An upsert of several rows replaces the rows with their keys; two rows with one key are an error.\<close>

definition upsert_messages :: "message_row list \<Rightarrow> mail_tables \<Rightarrow> (unit \<times> mail_tables) option" where
  "upsert_messages rs t =
     (if distinct (map (\<lambda>r. (br_account r, br_generation r, mm_uid (br_message r))) rs)
      then Some ((), t\<lparr>tb_messages := filter (\<lambda>x. \<not> (\<exists>r\<in>set rs. same_message_row x r)) (tb_messages t) @ rs\<rparr>)
      else None)"

definition upsert_hidden :: "hidden_row list \<Rightarrow> mail_tables \<Rightarrow> (unit \<times> mail_tables) option" where
  "upsert_hidden rs t =
     (if distinct rs then Some ((), t\<lparr>tb_hidden := filter (\<lambda>x. x \<notin> set rs) (tb_hidden t) @ rs\<rparr>) else None)"

function chunks :: "nat \<Rightarrow> 'a list \<Rightarrow> 'a list list" where
  "chunks n xs = (if xs = [] \<or> n = 0 then [] else take n xs # chunks n (drop n xs))"
  by pat_completeness auto
termination
  by (relation "measure (\<lambda>(n, xs). length xs)") (auto simp: length_greater_0_conv)

declare chunks.simps [simp del]

fun run_batches ::
  "('b \<Rightarrow> 't \<Rightarrow> (unit \<times> 't) option) \<Rightarrow> go_error \<Rightarrow> 'b list \<Rightarrow> 't sqldb \<Rightarrow> (go_error + unit) \<times> 't sqldb" where
  "run_batches f e [] db = (Inr (), db)"
| "run_batches f e (b # bs) db =
     (case sql_run (f b) db of (None, db1) \<Rightarrow> (Inl e, db1) | (Some _, db1) \<Rightarrow> run_batches f e bs db1)"

definition message_rows :: "string \<Rightarrow> string \<Rightarrow> mail_message list \<Rightarrow> message_row list" where
  "message_rows acc gen ms = map (\<lambda>m. \<lparr>br_account = acc, br_generation = gen, br_message = m\<rparr>) ms"

definition hidden_rows :: "string \<Rightarrow> string \<Rightarrow> string list \<Rightarrow> hidden_row list" where
  "hidden_rows acc gen ks =
     map (\<lambda>(a, u). \<lparr>hr_account = acc, hr_generation = gen, hr_alias = a, hr_uid = u\<rparr>)
       (List.map_filter (parse_message_key gen) ks)"

definition drop_messages :: "(message_row \<Rightarrow> bool) \<Rightarrow> mail_tables \<Rightarrow> mail_tables" where
  "drop_messages P t = t\<lparr>tb_messages := filter (\<lambda>r. \<not> P r) (tb_messages t)\<rparr>"

definition drop_hidden :: "(hidden_row \<Rightarrow> bool) \<Rightarrow> mail_tables \<Rightarrow> mail_tables" where
  "drop_hidden P t = t\<lparr>tb_hidden := filter (\<lambda>r. \<not> P r) (tb_hidden t)\<rparr>"

text \<open>One statement, then the rest of the transaction.\<close>

definition then_sql :: "('t \<Rightarrow> 't) \<Rightarrow> string \<Rightarrow> ('t sqldb \<Rightarrow> (go_error + unit) \<times> 't sqldb) \<Rightarrow> 't sqldb \<Rightarrow> (go_error + unit) \<times> 't sqldb" where
  "then_sql f e k db = (let (ok, db1) = sql_exec f db in if ok then k db1 else (Inl (Plain e), db1))"

definition save_generation :: "string \<Rightarrow> string \<Rightarrow> mailbox_cache \<Rightarrow> mail_tables sqldb \<Rightarrow> (go_error + unit) \<times> mail_tables sqldb" where
  "save_generation acc gen c =
     then_sql (drop_messages (\<lambda>r. br_account r = acc \<and> br_generation r \<noteq> gen)) ''prune old mailbox generation'' (
     then_sql (drop_hidden (\<lambda>r. hr_account r = acc \<and> hr_generation r \<noteq> gen)) ''prune old hidden generation'' (\<lambda>db.
     (case run_batches upsert_messages (Plain ''upsert mailbox message batch'') (chunks 500 (message_rows acc gen (mc_messages c))) db of
        (Inl e, db1) \<Rightarrow> (Inl e, db1)
      | (Inr _, db1) \<Rightarrow>
          then_sql (drop_messages (\<lambda>r. br_account r = acc \<and> br_generation r = gen \<and>
              mm_uid (br_message r) \<notin> mm_uid ` set (mc_messages c))) ''prune mailbox messages'' (
          then_sql (drop_hidden (\<lambda>r. hr_account r = acc \<and> hr_generation r = gen)) ''replace hidden mailbox messages'' (
          run_batches upsert_hidden (Plain ''save hidden mailbox message batch'') (chunks 500 (hidden_rows acc gen (mc_hidden c))))) db1)))"

definition save_statements :: "string \<Rightarrow> mailbox_cache \<Rightarrow> mail_tables sqldb \<Rightarrow> (go_error + unit) \<times> mail_tables sqldb" where
  "save_statements acc c =
     (let gen = ms_generation (mc_status c) in
      then_sql (upsert_state (state_row_of acc c)) ''save mailbox sync state''
        (if gen = []
         then then_sql (drop_messages (\<lambda>r. br_account r = acc)) ''clear mailbox messages''
                (then_sql (drop_hidden (\<lambda>r. hr_account r = acc)) ''clear hidden mailbox messages'' (\<lambda>db. (Inr (), db)))
         else save_generation acc gen c))"

definition legacy_generation :: "mailbox_cache \<Rightarrow> mailbox_cache" where
  "legacy_generation c =
     (if ms_generation (mc_status c) = [] \<and> mc_messages c \<noteq> []
      then c\<lparr>mc_status := (mc_status c)\<lparr>ms_generation := ''legacy-import''\<rparr>\<rparr> else c)"

definition error_of :: "go_error + unit \<Rightarrow> go_error option" where
  "error_of r = (case r of Inl e \<Rightarrow> Some e | Inr _ \<Rightarrow> None)"

definition pg_save :: "string \<Rightarrow> mailbox_cache \<Rightarrow> mail_tables sqldb \<Rightarrow> go_error option \<times> mail_tables sqldb" where
  "pg_save acc c db = apfst error_of (sql_tx (Plain ''mailbox transaction'') (save_statements acc (legacy_generation c)) db)"

definition pg_save_state :: "string \<Rightarrow> mailbox_cache \<Rightarrow> mail_tables sqldb \<Rightarrow> go_error option \<times> mail_tables sqldb" where
  "pg_save_state acc c db =
     (let (ok, db1) = sql_exec (upsert_state (state_row_of acc c)) db
      in (if ok then None else Some (Plain ''save mailbox sync state''), db1))"

section \<open>Queries\<close>

definition row_alias :: "string \<Rightarrow> mail_message \<Rightarrow> bool" where
  "row_alias a m \<longleftrightarrow> a \<in> set (elems (mm_aliases m))"

definition row_not_hidden :: "hidden_row list \<Rightarrow> string \<Rightarrow> mail_message \<Rightarrow> bool" where
  "row_not_hidden hs a m \<longleftrightarrow> \<not> (\<exists>h\<in>set hs. hr_alias h = a \<and> hr_uid h = mm_uid m)"

definition row_visible :: "hidden_row list \<Rightarrow> mail_message \<Rightarrow> bool" where
  "row_visible hs m \<longleftrightarrow> (\<exists>a\<in>set (elems (mm_aliases m)). row_not_hidden hs a m)"

definition compact_row :: "mail_message \<Rightarrow> mail_message" where
  "compact_row m = normalize_lists (m\<lparr>mm_text := sql_left (mm_text m) preview_size, mm_html := []\<rparr>)"

definition pg_list_alias ::
  "string \<Rightarrow> string \<Rightarrow> string \<Rightarrow> int \<Rightarrow> bool \<Rightarrow> mail_tables sqldb \<Rightarrow> (go_error + mail_message list) \<times> mail_tables sqldb" where
  "pg_list_alias acc gen a n detailed db =
     (let a = norm_alias a; n = bounded_limit n default_per_alias max_per_alias
      in if gen = [] \<or> a = [] then (Inr [], db)
         else
           (case sql_query (\<lambda>t. take n (filter (\<lambda>m. row_alias a m \<and> row_not_hidden (hidden_of acc gen t) a m) (rows_of acc gen t))) db of
              (None, db1) \<Rightarrow> (Inl (Plain ''list mailbox messages for alias''), db1)
            | (Some ms, db1) \<Rightarrow> (Inr (map (if detailed then normalize_lists else compact_row) ms), db1)))"

definition pg_list_recent ::
  "string \<Rightarrow> string \<Rightarrow> unixtime \<Rightarrow> int \<Rightarrow> mail_tables sqldb \<Rightarrow> (go_error + mail_message list) \<times> mail_tables sqldb" where
  "pg_list_recent acc gen cutoff n db =
     (let n = bounded_limit n default_recent max_recent
      in if gen = [] then (Inr [], db)
         else
           (case sql_query (\<lambda>t. take n (filter (\<lambda>m. cutoff \<le> mm_date m \<and> row_visible (hidden_of acc gen t) m) (rows_of acc gen t))) db of
              (None, db1) \<Rightarrow> (Inl (Plain ''list recent mailbox message previews''), db1)
            | (Some ms, db1) \<Rightarrow> (Inr (map compact_row ms), db1)))"

definition pg_get ::
  "string \<Rightarrow> string \<Rightarrow> string \<Rightarrow> uid \<Rightarrow> mail_tables sqldb \<Rightarrow> (go_error + mail_message option) \<times> mail_tables sqldb" where
  "pg_get acc gen a u db =
     (let a = norm_alias a
      in if gen = [] \<or> a = [] \<or> u = 0 then (Inr None, db)
         else
           (case sql_query (\<lambda>t. find (\<lambda>m. mm_uid m = u \<and> row_alias a m \<and> row_not_hidden (hidden_of acc gen t) a m) (rows_of acc gen t)) db of
              (None, db1) \<Rightarrow> (Inl (Plain ''load mailbox message''), db1)
            | (Some m, db1) \<Rightarrow> (Inr (map_option normalize_lists m), db1)))"

definition pg_clear :: "string \<Rightarrow> mail_tables sqldb \<Rightarrow> go_error option \<times> mail_tables sqldb" where
  "pg_clear acc db = apfst error_of (sql_tx (Plain ''clear mailbox'') (
     then_sql (drop_hidden (\<lambda>r. hr_account r = acc)) ''clear mailbox'' (
     then_sql (drop_messages (\<lambda>r. br_account r = acc)) ''clear mailbox'' (
     then_sql (\<lambda>t. t\<lparr>tb_states := filter (\<lambda>r. xr_account r \<noteq> acc) (tb_states t)\<rparr>) ''clear mailbox'' (\<lambda>db. (Inr (), db))))) db)"

end
