(* ===== verification/MailStore.thy ===== *)
theory MailStore
  imports MailRepo MailMessageProps
begin

text \<open>
  The repository a mailbox service gets (\<open>newMailboxRepositoryForAccount\<close>), its operations by kind,
  and the contract all kinds fulfil: the locale \<open>message_store\<close>, interpreted on the JSON file, on the
  tables of an account, and on the pair of both.
\<close>

section \<open>What saving leaves in the tables\<close>

text \<open>The specification of \<open>Save\<close>: the rows of the account are replaced, all others stay.\<close>

definition saved_tables :: "string \<Rightarrow> mailbox_cache \<Rightarrow> mail_tables \<Rightarrow> mail_tables" where
  "saved_tables acc c t =
     \<lparr>tb_states = filter (\<lambda>r. xr_account r \<noteq> acc) (tb_states t) @ [state_row_of acc c],
      tb_messages = filter (\<lambda>r. br_account r \<noteq> acc) (tb_messages t) @
        (if ms_generation (mc_status c) = [] then [] else message_rows acc (ms_generation (mc_status c)) (mc_messages c)),
      tb_hidden = filter (\<lambda>r. hr_account r \<noteq> acc) (tb_hidden t) @
        (if ms_generation (mc_status c) = [] then [] else hidden_rows acc (ms_generation (mc_status c)) (mc_hidden c))\<rparr>"

lemma concat_chunks: "0 < n \<Longrightarrow> concat (chunks n xs) = xs"
proof (induction n xs rule: chunks.induct)
  case (1 n xs)
  then show ?case by (cases "xs = []") (simp_all add: chunks.simps [of n xs] chunks.simps [of n "[]"])
qed

definition put_messages :: "message_row list \<Rightarrow> mail_tables \<Rightarrow> mail_tables" where
  "put_messages rs t = t\<lparr>tb_messages := filter (\<lambda>x. \<not> (\<exists>r\<in>set rs. same_message_row x r)) (tb_messages t) @ rs\<rparr>"

definition put_hidden :: "hidden_row list \<Rightarrow> mail_tables \<Rightarrow> mail_tables" where
  "put_hidden rs t = t\<lparr>tb_hidden := filter (\<lambda>x. x \<notin> set rs) (tb_hidden t) @ rs\<rparr>"

lemma run_batches_up:
  assumes "db_up db" and "\<And>b t. b \<in> set bs \<Longrightarrow> f b t = Some ((), g b t)"
  shows "run_batches f e bs db = (Inr (), db\<lparr>tables := fold g bs (tables db)\<rparr>)"
  using assms
proof (induction bs arbitrary: db)
  case (Cons b bs)
  have "run_batches f e bs (db\<lparr>tables := g b (tables db)\<rparr>) =
      (Inr (), db\<lparr>tables := fold g bs (g b (tables db))\<rparr>)"
    using Cons.IH [of "db\<lparr>tables := g b (tables db)\<rparr>"] Cons.prems by simp
  then show ?case using Cons.prems by (simp add: sql_run_up)
qed simp

definition message_row_key :: "message_row \<Rightarrow> string \<times> string \<times> uid" where
  "message_row_key r = (br_account r, br_generation r, mm_uid (br_message r))"

lemma same_message_row_iff: "same_message_row a b \<longleftrightarrow> message_row_key a = message_row_key b"
  by (simp add: same_message_row_def message_row_key_def)

lemma fold_put_messages:
  "distinct (map message_row_key (concat bs)) \<Longrightarrow> fold put_messages bs t = put_messages (concat bs) t"
proof (induction bs arbitrary: t)
  case Nil
  then show ?case by (cases t) (simp add: put_messages_def)
next
  case (Cons b bs)
  have "filter (\<lambda>x. \<not> (\<exists>r\<in>set (concat bs). same_message_row x r)) b = b"
    using Cons.prems by (auto simp: filter_id_conv same_message_row_iff)
  moreover have "filter (\<lambda>x. \<not> (\<exists>r\<in>set (concat bs). same_message_row x r))
      (filter (\<lambda>x. \<not> (\<exists>r\<in>set b. same_message_row x r)) ys) =
      filter (\<lambda>x. \<not> (\<exists>r\<in>set (b @ concat bs). same_message_row x r)) ys" for ys
    by (auto intro!: filter_cong)
  ultimately have "put_messages (concat bs) (put_messages b t) = put_messages (concat (b # bs)) t"
    by (simp add: put_messages_def)
  then show ?case using Cons by simp
qed

lemma fold_put_hidden:
  "distinct (concat bs) \<Longrightarrow> fold put_hidden bs t = put_hidden (concat bs) t"
proof (induction bs arbitrary: t)
  case Nil
  then show ?case by (cases t) (simp add: put_hidden_def)
next
  case (Cons b bs)
  have "filter (\<lambda>x. x \<notin> set (concat bs)) b = b" using Cons.prems by (auto simp: filter_id_conv)
  moreover have "filter (\<lambda>x. x \<notin> set (concat bs)) (filter (\<lambda>x. x \<notin> set b) ys) =
      filter (\<lambda>x. x \<notin> set (b @ concat bs)) ys" for ys :: "hidden_row list"
    by (auto intro!: filter_cong)
  ultimately have "put_hidden (concat bs) (put_hidden b t) = put_hidden (concat (b # bs)) t"
    by (simp add: put_hidden_def)
  then show ?case using Cons by simp
qed

lemma chunk_distinct:
  "distinct (map f xs) \<Longrightarrow> b \<in> set (chunks n xs) \<Longrightarrow> distinct (map f b)"
proof (induction n xs rule: chunks.induct)
  case (1 n xs)
  show ?case
  proof (cases "xs = [] \<or> n = 0")
    case True
    then show ?thesis using 1 by (auto simp: chunks.simps [of n xs])
  next
    case False
    then have "b = take n xs \<or> b \<in> set (chunks n (drop n xs))" using 1(3) by (auto simp: chunks.simps [of n xs])
    then show ?thesis using 1 False by (auto simp: drop_map [symmetric] take_map [symmetric])
  qed
qed

lemma message_row_keys: "distinct (map mm_uid ms) \<Longrightarrow> distinct (map message_row_key (message_rows acc gen ms))"
  by (auto simp: message_rows_def message_row_key_def distinct_map inj_on_def)

text \<open>A cache that can be stored: the keys of the hidden list belong to the generation and are
  canonical; nothing appears twice.\<close>

definition storable :: "mailbox_cache \<Rightarrow> bool" where
  "storable c \<longleftrightarrow> distinct (map mm_uid (mc_messages c)) \<and> distinct (mc_hidden c) \<and>
     (ms_generation (mc_status c) = [] \<longrightarrow> mc_messages c = [] \<and> mc_hidden c = []) \<and>
     (\<forall>k\<in>set (mc_hidden c). \<exists>a u. k = message_key (ms_generation (mc_status c)) a u \<and> norm_alias a = a \<and> a \<noteq> [])"

lemma hidden_rows_keys:
  assumes "\<forall>k\<in>set ks. \<exists>a u. k = message_key gen a u \<and> norm_alias a = a \<and> a \<noteq> []"
  shows "map row_key (hidden_rows acc gen ks) = ks"
  using assms
proof (induction ks)
  case (Cons k ks)
  then obtain a u where k: "k = message_key gen a u" "norm_alias a = a" "a \<noteq> []" by auto
  then have "parse_message_key gen k = Some (a, u)" using parse_key [of a gen u] by simp
  then show ?case using Cons k by (simp add: hidden_rows_def map_filter_simps row_key_def)
qed (simp add: hidden_rows_def map_filter_simps)

lemma hidden_rows_distinct: "storable c \<Longrightarrow> distinct (hidden_rows acc (ms_generation (mc_status c)) (mc_hidden c))"
  using hidden_rows_keys [of "mc_hidden c" "ms_generation (mc_status c)" acc]
  by (metis storable_def distinct_map)

lemma put_then_drop_messages:
  assumes "distinct (map mm_uid ms)"
  shows "drop_messages (\<lambda>r. br_account r = acc \<and> br_generation r = gen \<and> mm_uid (br_message r) \<notin> mm_uid ` set ms)
      (put_messages (message_rows acc gen ms) (drop_messages (\<lambda>r. br_account r = acc \<and> br_generation r \<noteq> gen) t)) =
    t\<lparr>tb_messages := filter (\<lambda>r. br_account r \<noteq> acc) (tb_messages t) @ message_rows acc gen ms\<rparr>"
proof -
  have same: "(\<exists>r\<in>set (message_rows acc gen ms). same_message_row x r) \<longleftrightarrow>
      br_account x = acc \<and> br_generation x = gen \<and> mm_uid (br_message x) \<in> mm_uid ` set ms" for x
    by (auto simp: message_rows_def same_message_row_def)
  let ?stale = "\<lambda>r. br_account r = acc \<and> br_generation r = gen \<and> mm_uid (br_message r) \<notin> mm_uid ` set ms"
  have new: "filter (\<lambda>r. \<not> ?stale r) (message_rows acc gen ms) = message_rows acc gen ms"
    by (auto simp: filter_id_conv message_rows_def)
  have old: "filter (\<lambda>r. \<not> ?stale r) (filter (\<lambda>x. \<not> (\<exists>r\<in>set (message_rows acc gen ms). same_message_row x r))
      (filter (\<lambda>r. \<not> (br_account r = acc \<and> br_generation r \<noteq> gen)) ys)) = filter (\<lambda>r. br_account r \<noteq> acc) ys" for ys
    unfolding same by (auto intro!: filter_cong)
  show ?thesis
    by (cases t) (simp only: drop_messages_def put_messages_def mail_tables.simps filter_append old new)
qed

lemma put_then_drop_hidden:
  assumes "\<forall>r\<in>set rs. hr_account r = acc"
  shows "put_hidden rs (drop_hidden (\<lambda>r. hr_account r = acc \<and> hr_generation r = gen)
      (drop_hidden (\<lambda>r. hr_account r = acc \<and> hr_generation r \<noteq> gen) t)) =
    t\<lparr>tb_hidden := filter (\<lambda>r. hr_account r \<noteq> acc) (tb_hidden t) @ rs\<rparr>"
  using assms by (cases t) (auto simp: drop_hidden_def put_hidden_def intro!: filter_cong)

lemma then_sql_up: "db_up db \<Longrightarrow> then_sql f e k db = k (db\<lparr>tables := f (tables db)\<rparr>)"
  by (simp add: then_sql_def sql_exec_up)

lemma upsert_messages_chunk:
  assumes "distinct (map mm_uid ms)" and "b \<in> set (chunks 500 (message_rows acc gen ms))"
  shows "upsert_messages b t = Some ((), put_messages b t)"
  using chunk_distinct [OF message_row_keys [OF assms(1)] assms(2)]
  by (simp add: upsert_messages_def put_messages_def message_row_key_def [abs_def])

lemma upsert_hidden_chunk:
  assumes "distinct rs" and "b \<in> set (chunks 500 rs)"
  shows "upsert_hidden b t = Some ((), put_hidden b t)"
  using chunk_distinct [of "\<lambda>x. x" rs b 500] assms by (simp add: upsert_hidden_def put_hidden_def)

lemma run_message_batches:
  assumes "db_up db" and "distinct (map mm_uid ms)"
  shows "run_batches upsert_messages e (chunks 500 (message_rows acc gen ms)) db =
    (Inr (), db\<lparr>tables := put_messages (message_rows acc gen ms) (tables db)\<rparr>)"
proof -
  have "run_batches upsert_messages e (chunks 500 (message_rows acc gen ms)) db =
      (Inr (), db\<lparr>tables := fold put_messages (chunks 500 (message_rows acc gen ms)) (tables db)\<rparr>)"
    by (rule run_batches_up [OF assms(1) upsert_messages_chunk [OF assms(2)]])
  then show ?thesis using fold_put_messages [of "chunks 500 (message_rows acc gen ms)"] message_row_keys [OF assms(2)]
    by (simp add: concat_chunks)
qed

lemma run_hidden_batches:
  assumes "db_up db" and "distinct rs"
  shows "run_batches upsert_hidden e (chunks 500 rs) db = (Inr (), db\<lparr>tables := put_hidden rs (tables db)\<rparr>)"
proof -
  have "run_batches upsert_hidden e (chunks 500 rs) db = (Inr (), db\<lparr>tables := fold put_hidden (chunks 500 rs) (tables db)\<rparr>)"
    by (rule run_batches_up [OF assms(1) upsert_hidden_chunk [OF assms(2)]])
  then show ?thesis using fold_put_hidden [of "chunks 500 rs"] assms(2) by (simp add: concat_chunks)
qed

lemma save_generation_up:
  assumes up: "db_up db" and d: "distinct (map mm_uid (mc_messages c))" "distinct (hidden_rows acc gen (mc_hidden c))"
  shows "save_generation acc gen c db = (Inr (), db\<lparr>tables :=
    (tables db)\<lparr>tb_messages := filter (\<lambda>r. br_account r \<noteq> acc) (tb_messages (tables db)) @ message_rows acc gen (mc_messages c),
      tb_hidden := filter (\<lambda>r. hr_account r \<noteq> acc) (tb_hidden (tables db)) @ hidden_rows acc gen (mc_hidden c)\<rparr>\<rparr>)"
proof -
  let ?t = "tables db"
  let ?t1 = "drop_hidden (\<lambda>r. hr_account r = acc \<and> hr_generation r \<noteq> gen)
      (drop_messages (\<lambda>r. br_account r = acc \<and> br_generation r \<noteq> gen) ?t)"
  have acc: "\<forall>r\<in>set (hidden_rows acc gen (mc_hidden c)). hr_account r = acc" by (auto simp: hidden_rows_def)
  have m: "drop_messages (\<lambda>r. br_account r = acc \<and> br_generation r = gen \<and> mm_uid (br_message r) \<notin> mm_uid ` set (mc_messages c))
      (put_messages (message_rows acc gen (mc_messages c)) ?t1) =
      ?t1\<lparr>tb_messages := filter (\<lambda>r. br_account r \<noteq> acc) (tb_messages ?t) @ message_rows acc gen (mc_messages c)\<rparr>"
    using put_then_drop_messages [OF d(1), of acc gen ?t]
    by (cases ?t) (simp add: drop_messages_def put_messages_def drop_hidden_def)
  have h: "put_hidden (hidden_rows acc gen (mc_hidden c)) (drop_hidden (\<lambda>r. hr_account r = acc \<and> hr_generation r = gen)
      (?t1\<lparr>tb_messages := x\<rparr>)) =
      ?t\<lparr>tb_messages := x, tb_hidden := filter (\<lambda>r. hr_account r \<noteq> acc) (tb_hidden ?t) @ hidden_rows acc gen (mc_hidden c)\<rparr>" for x
    using put_then_drop_hidden [OF acc, of gen ?t] by (cases ?t) (simp add: drop_messages_def put_hidden_def drop_hidden_def)
  show ?thesis
    using up by (simp add: save_generation_def then_sql_up run_message_batches d run_hidden_batches m h)
qed

lemma save_statements_up:
  assumes "db_up db" and "storable c"
  shows "save_statements acc c db = (Inr (), db\<lparr>tables := saved_tables acc c (tables db)\<rparr>)"
proof -
  have s: "distinct (map mm_uid (mc_messages c))" "distinct (hidden_rows acc (ms_generation (mc_status c)) (mc_hidden c))"
    using assms(2) hidden_rows_distinct by (simp_all add: storable_def)
  show ?thesis
  proof (cases "ms_generation (mc_status c) = []")
    case True
    then show ?thesis using assms(1)
      by (cases "tables db") (simp add: save_statements_def then_sql_up saved_tables_def upsert_state_def state_row_of_def
          drop_messages_def drop_hidden_def)
  next
    case False
    then show ?thesis using assms(1) s
      by (cases "tables db") (simp add: save_statements_def then_sql_up save_generation_up saved_tables_def
          upsert_state_def state_row_of_def)
  qed
qed

text \<open>
  C18. Saving a storable cache to Postgres implements its specification: with the database up, after
  batches, upserts and pruning deletes the tables hold exactly the rows of the cache for the account,
  and every row of every other account is as before; when any statement of the transaction fails, no
  row has changed.
\<close>

theorem pg_save_refines:
  assumes "storable c"
  shows "(db_up db \<longrightarrow> pg_save acc c db = (None, db\<lparr>tables := saved_tables acc c (tables db)\<rparr>)) \<and>
    (fst (pg_save acc c db) \<noteq> None \<longrightarrow> tables (snd (pg_save acc c db)) = tables db)"
proof -
  have l: "legacy_generation c = c" using assms by (auto simp: legacy_generation_def storable_def)
  have "pg_save acc c db = (None, db\<lparr>tables := saved_tables acc c (tables db)\<rparr>)" if "db_up db"
    using save_statements_up [OF that assms, of acc] that by (simp add: pg_save_def l sql_tx_up error_of_def)
  moreover have "fst (pg_save acc c db) \<noteq> None \<longrightarrow> tables (snd (pg_save acc c db)) = tables db"
    using sql_tx_failed [of "Plain ''mailbox transaction''" "save_statements acc c" db]
    by (cases "sql_tx (Plain ''mailbox transaction'') (save_statements acc c) db")
      (auto simp: pg_save_def l error_of_def split: sum.splits)
  ultimately show ?thesis by blast
qed

section \<open>Caches that answer queries alike\<close>

definition same_cache :: "mailbox_cache \<Rightarrow> mailbox_cache \<Rightarrow> bool" where
  "same_cache c d \<longleftrightarrow> mc_status c = mc_status d \<and> mc_highest c = mc_highest d \<and> mc_allowed c = mc_allowed d \<and>
     map normalize_lists (ordered_messages (mc_messages c)) = map normalize_lists (ordered_messages (mc_messages d)) \<and>
     set (mc_hidden c) = set (mc_hidden d)"

definition tidy_message :: "mail_message \<Rightarrow> bool" where
  "tidy_message m \<longleftrightarrow> (\<forall>a\<in>set (elems (mm_aliases m)). norm_alias a = a \<and> a \<noteq> []) \<and>
     valid_utf8 (mm_text m) \<and> trim_space (mm_text m) = mm_text m"

definition readable :: "mailbox_cache \<Rightarrow> bool" where
  "readable c \<longleftrightarrow> (\<forall>m\<in>set (mc_messages c). tidy_message m)"

lemma elems_normalize [simp]:
  "elems (mm_aliases (normalize_lists m)) = elems (mm_aliases m)" "mm_uid (normalize_lists m) = mm_uid m"
  "mm_date (normalize_lists m) = mm_date m" "mm_text (normalize_lists m) = mm_text m"
  "normalize_lists (normalize_lists m) = normalize_lists m"
  by (simp_all add: normalize_lists_def elems_def)

lemma has_alias_normalize [simp]: "message_has_alias (normalize_lists m) a = message_has_alias m a"
  by (simp add: message_has_alias_def)

lemma visible_normalize [simp]: "message_visible hs gen (normalize_lists m) = message_visible hs gen m"
  by (simp add: message_visible_def)

lemma present_normalize [simp]: "present_message d (normalize_lists m) = present_message d m"
  by (simp add: present_message_def summarize_message_def normalize_lists_def elems_def)

lemma take_filter_image:
  assumes "map f xs = map f ys" and "\<And>x. P (f x) = P x" and "\<And>x. g (f x) = g x"
  shows "map g (take n (filter P xs)) = map g (take n (filter P ys))"
proof -
  have "map g (take n (filter P zs)) = map g (take n (filter P (map f zs)))" for zs
    using assms(2,3) by (simp add: filter_map comp_def take_map)
  then show ?thesis using assms(1) by metis
qed

lemma select_alias_same: "same_cache c d \<Longrightarrow> select_alias c a n det = select_alias d a n det"
  unfolding select_alias_def Let_def
  by (auto simp: same_cache_def intro!: take_filter_image [of normalize_lists])

lemma visible_same: "set hs = set hs' \<Longrightarrow> message_visible hs gen m = message_visible hs' gen m"
  by (simp add: message_visible_def)

lemma select_recent_same: "same_cache c d \<Longrightarrow> select_recent c cutoff n = select_recent d cutoff n"
  unfolding select_recent_def Let_def
  using visible_same [of "mc_hidden c" "mc_hidden d"]
  by (auto simp: same_cache_def intro!: take_filter_image [of normalize_lists])

lemma readable_same: "same_cache c d \<Longrightarrow> readable c \<Longrightarrow> readable d"
proof -
  assume a: "same_cache c d" "readable c"
  have t: "tidy_message (normalize_lists m) = tidy_message m" for m by (simp add: tidy_message_def)
  have r: "readable x \<longleftrightarrow> list_all tidy_message (map normalize_lists (ordered_messages (mc_messages x)))" for x
    by (simp add: readable_def list_all_iff t ordered_messages_def)
  show "readable d" using a unfolding r by (simp add: same_cache_def)
qed

text \<open>The identifiers are unique, so a message is found wherever it stands.\<close>

lemma find_unique:
  assumes "distinct (map mm_uid ms)" and "m \<in> set ms" and "P m" and "\<And>x. P x \<Longrightarrow> mm_uid x = mm_uid m"
  shows "find P ms = Some m"
  using assms(1,2)
proof (induction ms)
  case (Cons x ms)
  show ?case
  proof (cases "x = m")
    case False
    then have "\<not> P x" using assms(4) [of x] Cons.prems by auto
    then show ?thesis using Cons False by simp
  qed (use assms(3) in simp)
qed simp

lemma find_reordered:
  assumes "set xs = set ys" and "distinct (map mm_uid xs)" and "distinct (map mm_uid ys)"
    and "\<And>x y. P x \<Longrightarrow> P y \<Longrightarrow> mm_uid x = mm_uid y"
  shows "find P xs = find P ys"
proof (cases "find P xs")
  case None
  then show ?thesis using assms(1) by (metis find_None_iff)
next
  case (Some m)
  then have m: "m \<in> set ys" "P m" using find_in [OF Some] assms(1) by auto
  have "find P ys = Some m" by (rule find_unique [OF assms(3) m(1)]) (use m(2) assms(4) in blast)+
  then show ?thesis using Some by simp
qed

lemma find_map: "(\<And>x. P (f x) = P x) \<Longrightarrow> find P (map f xs) = map_option f (find P xs)"
  by (induction xs) auto

lemma select_message_same:
  assumes "same_cache c d" and "distinct (map mm_uid (mc_messages c))" and "distinct (map mm_uid (mc_messages d))"
  shows "select_message c a u = select_message d a u"
proof -
  let ?P = "\<lambda>m. mm_uid m = u \<and> message_has_alias m (norm_alias a)"
  have o: "find ?P (mc_messages x) = find ?P (ordered_messages (mc_messages x))"
    if "distinct (map mm_uid (mc_messages x))" for x
  proof (rule find_reordered)
    have "mset (map mm_uid (ordered_messages (mc_messages x))) = mset (map mm_uid (mc_messages x))"
      by (simp add: ordered_messages_def)
    then show "distinct (map mm_uid (ordered_messages (mc_messages x)))" using that mset_eq_imp_distinct_iff by blast
  qed (use that in \<open>auto simp: ordered_messages_def\<close>)
  have n: "map_option normalize_lists (find ?P xs) = find ?P (map normalize_lists xs)" for xs
    by (rule find_map [symmetric]) simp
  have "map_option normalize_lists (find ?P (mc_messages c)) = map_option normalize_lists (find ?P (mc_messages d))"
    unfolding o [OF assms(2)] o [OF assms(3)] n using assms(1) by (simp add: same_cache_def)
  then show ?thesis using assms(1) by (simp add: select_message_def same_cache_def Let_def)
qed

section \<open>The contract\<close>

locale message_store =
  fixes load :: "'r \<Rightarrow> (go_error + mailbox_cache \<times> bool) \<times> 'r"
    and save :: "mailbox_cache \<Rightarrow> 'r \<Rightarrow> go_error option \<times> 'r"
    and list_alias :: "string \<Rightarrow> string \<Rightarrow> int \<Rightarrow> bool \<Rightarrow> 'r \<Rightarrow> (go_error + mail_message list) \<times> 'r"
    and list_recent :: "string \<Rightarrow> unixtime \<Rightarrow> int \<Rightarrow> 'r \<Rightarrow> (go_error + mail_message list) \<times> 'r"
    and get_message :: "string \<Rightarrow> string \<Rightarrow> uid \<Rightarrow> 'r \<Rightarrow> (go_error + mail_message option) \<times> 'r"
    and content :: "'r \<Rightarrow> mailbox_cache option"
    and healthy :: "'r \<Rightarrow> bool"
  assumes load_law: "healthy r \<Longrightarrow>
      load r = (Inr (case content r of None \<Rightarrow> (empty_cache, False) | Some c \<Rightarrow> (c, True)), r)"
    and save_law: "healthy r \<Longrightarrow> storable c \<Longrightarrow> fst (save c r) = None \<and> healthy (snd (save c r)) \<and>
      (\<exists>d. content (snd (save c r)) = Some d \<and> same_cache c d \<and> distinct (map mm_uid (mc_messages d)))"
    and list_law: "healthy r \<Longrightarrow> content r = Some c \<Longrightarrow> readable c \<Longrightarrow> ms_generation (mc_status c) \<noteq> [] \<Longrightarrow>
      list_alias (ms_generation (mc_status c)) a n det r = (Inr (select_alias c a n det), r)"
    and recent_law: "healthy r \<Longrightarrow> content r = Some c \<Longrightarrow> readable c \<Longrightarrow> ms_generation (mc_status c) \<noteq> [] \<Longrightarrow>
      list_recent (ms_generation (mc_status c)) cutoff n r = (Inr (select_recent c cutoff n), r)"
    and get_law: "healthy r \<Longrightarrow> content r = Some c \<Longrightarrow> readable c \<Longrightarrow> ms_generation (mc_status c) \<noteq> [] \<Longrightarrow>
      get_message (ms_generation (mc_status c)) a u r = (Inr (select_message c a u), r)"
begin

text \<open>What was saved is what the queries see.\<close>

lemma queries_after_save:
  assumes "healthy r" and "storable c" and "readable c" and "gen = ms_generation (mc_status c)" and "gen \<noteq> []"
  shows "fst (list_alias gen a n det (snd (save c r))) = Inr (select_alias c a n det)"
    and "fst (list_recent gen cutoff k (snd (save c r))) = Inr (select_recent c cutoff k)"
    and "fst (get_message gen a u (snd (save c r))) = Inr (select_message c a u)"
proof -
  obtain d where d: "healthy (snd (save c r))" "content (snd (save c r)) = Some d" "same_cache c d"
    "distinct (map mm_uid (mc_messages d))"
    using save_law [OF assms(1,2)] by blast
  have g: "ms_generation (mc_status d) = gen" using d(3) assms(4) by (simp add: same_cache_def)
  have c: "distinct (map mm_uid (mc_messages c))" using assms(2) by (simp add: storable_def)
  note r = d(1,2) readable_same [OF d(3) assms(3)]
  show "fst (list_alias gen a n det (snd (save c r))) = Inr (select_alias c a n det)"
    using list_law [OF r, unfolded g, OF assms(5)] select_alias_same [OF d(3)] by simp
  show "fst (list_recent gen cutoff k (snd (save c r))) = Inr (select_recent c cutoff k)"
    using recent_law [OF r, unfolded g, OF assms(5)] select_recent_same [OF d(3)] by simp
  show "fst (get_message gen a u (snd (save c r))) = Inr (select_message c a u)"
    using get_law [OF r, unfolded g, OF assms(5)] select_message_same [OF d(3) c d(4)] by simp
qed

end

section \<open>The kinds of repository\<close>

lemma file_load_ok: "cell_ok c \<Longrightarrow>
    file_load c = (Inr (case cell_doc c of None \<Rightarrow> (empty_cache, False) | Some d \<Rightarrow> (d, True)), c)"
  by (simp add: file_load_def cell_ok_def split: option.split)

lemma same_cache_refl [simp]: "same_cache c c"
  by (simp add: same_cache_def)

interpretation json_store: message_store file_load file_save file_list_alias file_list_recent file_get cell_doc cell_ok
proof
  fix c :: mailbox_cache and r :: "mailbox_cache cell"
  assume "cell_ok r" "storable c"
  then show "fst (file_save c r) = None \<and> cell_ok (snd (file_save c r)) \<and>
      (\<exists>d. cell_doc (snd (file_save c r)) = Some d \<and> same_cache c d \<and> distinct (map mm_uid (mc_messages d)))"
    by (simp add: file_save_def cell_write_ok storable_def)
qed (simp_all add: file_load_ok file_list_alias_def file_list_recent_def file_get_def file_query_def)

text \<open>What the tables of an account hold, and the shape they have: hidden rows are canonical, since
  they are only written from keys, and the identifiers of a generation are unique.\<close>

definition tables_content :: "string \<Rightarrow> mail_tables \<Rightarrow> mailbox_cache option" where
  "tables_content acc t =
     map_option (\<lambda>r. let c = cache_of_state r; gen = ms_generation (mc_status c)
        in if gen = [] then c else c\<lparr>mc_messages := clone_messages (rows_of acc gen t),
             mc_hidden := sort_strings (map row_key (hidden_of acc gen t))\<rparr>) (state_of acc t)"

definition tables_ok :: "string \<Rightarrow> mail_tables \<Rightarrow> bool" where
  "tables_ok acc t \<longleftrightarrow> (\<forall>r\<in>set (tb_hidden t). hr_account r = acc \<longrightarrow> norm_alias (hr_alias r) = hr_alias r \<and> hr_alias r \<noteq> [])"

lemma state_of_saved: "state_of acc (saved_tables acc c t) = Some (state_row_of acc c)"
proof -
  have "find (\<lambda>r. xr_account r = acc) (filter (\<lambda>r. xr_account r \<noteq> acc) xs @ [state_row_of acc c]) = Some (state_row_of acc c)" for xs
    by (induction xs) (auto simp: state_row_of_def)
  then show ?thesis by (simp add: state_of_def saved_tables_def)
qed

lemma rows_of_saved:
  assumes "ms_generation (mc_status c) \<noteq> []"
  shows "rows_of acc (ms_generation (mc_status c)) (saved_tables acc c t) = ordered_messages (mc_messages c)"
proof -
  let ?g = "ms_generation (mc_status c)"
  have "filter (\<lambda>r. br_account r = acc \<and> br_generation r = ?g) (filter (\<lambda>r. br_account r \<noteq> acc) xs) = []" for xs
    by (induction xs) auto
  moreover have "map br_message (filter (\<lambda>r. br_account r = acc \<and> br_generation r = ?g) (message_rows acc ?g ms)) = ms" for ms
    by (induction ms) (auto simp: message_rows_def)
  ultimately show ?thesis using assms by (simp add: rows_of_def saved_tables_def ordered_messages_def)
qed

lemma hidden_of_saved:
  assumes "ms_generation (mc_status c) \<noteq> []"
  shows "hidden_of acc (ms_generation (mc_status c)) (saved_tables acc c t) =
    hidden_rows acc (ms_generation (mc_status c)) (mc_hidden c)"
proof -
  let ?g = "ms_generation (mc_status c)"
  have "filter (\<lambda>r. hr_account r = acc \<and> hr_generation r = ?g) (filter (\<lambda>r. hr_account r \<noteq> acc) xs) = []" for xs
    by (induction xs) auto
  moreover have "filter (\<lambda>r. hr_account r = acc \<and> hr_generation r = ?g) (hidden_rows acc ?g ks) = hidden_rows acc ?g ks" for ks
    by (auto simp: filter_id_conv hidden_rows_def)
  ultimately show ?thesis using assms by (simp add: hidden_of_def saved_tables_def)
qed

lemma parsed_canonical: "parse_message_key gen k = Some (a, u) \<Longrightarrow> norm_alias a = a \<and> a \<noteq> []"
  by (auto simp: parse_message_key_def Let_def split: if_splits option.splits)

lemma map_filter_mem: "y \<in> set (List.map_filter f xs) \<Longrightarrow> \<exists>x\<in>set xs. f x = Some y"
  by (induction xs) (auto split: option.splits)

lemma hidden_rows_canonical:
  "r \<in> set (hidden_rows acc gen ks) \<Longrightarrow> norm_alias (hr_alias r) = hr_alias r \<and> hr_alias r \<noteq> []"
  using parsed_canonical map_filter_mem by (fastforce simp: hidden_rows_def)

lemma tables_ok_saved: "tables_ok acc t \<Longrightarrow> tables_ok acc (saved_tables acc c t)"
  using hidden_rows_canonical by (auto simp: tables_ok_def saved_tables_def split: if_splits)

lemma newer_clone [simp]: "newer (clone_message a) (clone_message b) = newer a b"
  by (simp add: newer_def clone_message_def)

lemma elems_clone [simp]: "elems (clone_slice s) = elems s"
  by (auto simp: clone_slice_def elems_def)

lemma clone_facts [simp]:
  "mm_uid (clone_message m) = mm_uid m" "elems (mm_aliases (clone_message m)) = elems (mm_aliases m)"
  "mm_date (clone_message m) = mm_date m" "mm_text (clone_message m) = mm_text m"
  by (simp_all add: clone_message_def)

lemma clone_presented [simp]:
  "normalize_lists (clone_message m) = normalize_lists m" "tidy_message (clone_message m) = tidy_message m"
  by (simp add: clone_message_def normalize_lists_def) (simp add: tidy_message_def)

lemma insert_clone: "go_insert newer (clone_message m) (map clone_message ms) = map clone_message (go_insert newer m ms)"
  by (induction ms) auto

lemma ordered_clone: "ordered_messages (clone_messages ms) = clone_messages (ordered_messages ms)"
  unfolding ordered_messages_def clone_messages_def by (induction ms) (simp_all add: insert_clone)

lemma ordered_idem [simp]: "ordered_messages (ordered_messages ms) = ordered_messages ms"
  using newer_order.sort_idem by (simp add: ordered_messages_def)

lemma ordered_rows: "ordered_messages (rows_of acc gen t) = rows_of acc gen t"
  using newer_order.sort_idem by (simp add: rows_of_def ordered_messages_def)

lemma storable_keys:
  "storable c \<Longrightarrow> map row_key (hidden_rows acc (ms_generation (mc_status c)) (mc_hidden c)) = mc_hidden c"
  by (rule hidden_rows_keys) (simp add: storable_def)

lemma tables_content_saved:
  assumes "storable c"
  shows "\<exists>d. tables_content acc (saved_tables acc c t) = Some d \<and> same_cache c d \<and> distinct (map mm_uid (mc_messages d))"
proof (cases "ms_generation (mc_status c) = []")
  case True
  then show ?thesis using assms
    by (simp add: tables_content_def state_of_saved cache_of_state_def state_row_of_def same_cache_def storable_def)
next
  case False
  let ?d = "(cache_of_state (state_row_of acc c))\<lparr>mc_messages := clone_messages (ordered_messages (mc_messages c)),
      mc_hidden := sort_strings (mc_hidden c)\<rparr>"
  have "tables_content acc (saved_tables acc c t) = Some ?d"
    using False storable_keys [OF assms, of acc] rows_of_saved [OF False] hidden_of_saved [OF False]
    by (simp add: tables_content_def state_of_saved Let_def) (simp add: cache_of_state_def state_row_of_def)
  moreover have "same_cache c ?d"
    by (simp add: same_cache_def cache_of_state_def state_row_of_def ordered_clone) (simp add: clone_messages_def)
  moreover have "distinct (map mm_uid (mc_messages ?d))"
  proof -
    have "mset (map mm_uid (ordered_messages (mc_messages c))) = mset (map mm_uid (mc_messages c))"
      by (simp add: ordered_messages_def)
    then have "distinct (map mm_uid (ordered_messages (mc_messages c)))"
      using assms mset_eq_imp_distinct_iff unfolding storable_def by blast
    then show ?thesis by (simp add: clone_messages_def comp_def)
  qed
  ultimately show ?thesis by blast
qed

text \<open>The queries of the database are the queries on its content.\<close>

lemma has_alias_tidy: "tidy_message m \<Longrightarrow> message_has_alias m (norm_alias a) \<longleftrightarrow> row_alias (norm_alias a) m"
proof -
  assume t: "tidy_message m"
  have "equal_fold (trim_space x) (norm_alias a) \<longleftrightarrow> x = norm_alias a" if "x \<in> set (elems (mm_aliases m))" for x
  proof -
    have "norm_alias x = x" using t that by (simp add: tidy_message_def)
    then show ?thesis by (simp add: equal_fold_def) (simp add: norm_alias_def)
  qed
  then show ?thesis by (auto simp: message_has_alias_def row_alias_def)
qed

lemma key_hidden:
  assumes "tables_ok acc t" and "norm_alias a = a" and "a \<noteq> []"
  shows "message_key gen a (mm_uid m) \<in> set (sort_strings (map row_key (hidden_of acc gen t))) \<longleftrightarrow>
    \<not> row_not_hidden (hidden_of acc gen t) a m"
proof -
  have "row_key h = message_key gen a (mm_uid m) \<longleftrightarrow> hr_alias h = a \<and> hr_uid h = mm_uid m"
    if "h \<in> set (hidden_of acc gen t)" for h
  proof -
    have h: "norm_alias (hr_alias h) = hr_alias h" "hr_alias h \<noteq> []" "hr_generation h = gen"
      using that assms(1) by (auto simp: hidden_of_def tables_ok_def)
    then show ?thesis using message_key_inj [of "hr_alias h" a gen "hr_uid h" "mm_uid m"] assms(2,3)
      by (simp add: row_key_def)
  qed
  moreover have "message_key gen a (mm_uid m) \<in> set (sort_strings (map row_key (hidden_of acc gen t))) \<longleftrightarrow>
      (\<exists>h\<in>set (hidden_of acc gen t). row_key h = message_key gen a (mm_uid m))"
    by (auto simp: eq_commute [of "message_key gen a (mm_uid m)"])
  ultimately show ?thesis by (auto simp: row_not_hidden_def)
qed

lemma visible_row:
  assumes "tables_ok acc t" and "tidy_message m"
  shows "message_visible (sort_strings (map row_key (hidden_of acc gen t))) gen m \<longleftrightarrow> row_visible (hidden_of acc gen t) m"
  using key_hidden [OF assms(1)] assms(2) unfolding message_visible_def row_visible_def tidy_message_def by blast

lemma present_row: "tidy_message m \<Longrightarrow> present_message det (clone_message m) = (if det then normalize_lists else compact_row) m"
  using sql_left_truncate [of "mm_text m" preview_size]
  by (auto simp: present_message_def compact_row_def summarize_message_def tidy_message_def preview_size_def normalize_lists_def
      clone_message_def)

lemma filter_clone: "(\<And>m. m \<in> set ms \<Longrightarrow> P (clone_message m) = Q m) \<Longrightarrow>
   filter P (clone_messages ms) = clone_messages (filter Q ms)"
  by (induction ms) (auto simp: clone_messages_def)

definition pg_content :: "string \<Rightarrow> mail_tables sqldb \<Rightarrow> mailbox_cache option" where
  "pg_content acc db = tables_content acc (tables db)"

definition pg_ok :: "string \<Rightarrow> mail_tables sqldb \<Rightarrow> bool" where
  "pg_ok acc db \<longleftrightarrow> db_up db \<and> tables_ok acc (tables db)"

lemma content_parts:
  assumes "tables_content acc t = Some c" and "ms_generation (mc_status c) \<noteq> []"
  shows "mc_messages c = clone_messages (rows_of acc (ms_generation (mc_status c)) t)"
    "mc_hidden c = sort_strings (map row_key (hidden_of acc (ms_generation (mc_status c)) t))"
  using assms by (auto simp: tables_content_def Let_def cache_of_state_def split: if_splits)

lemma tidy_rows: "readable c \<Longrightarrow> mc_messages c = clone_messages ms \<Longrightarrow> m \<in> set ms \<Longrightarrow> tidy_message m"
  by (auto simp: readable_def clone_messages_def)

lemma pg_list_law:
  assumes "pg_ok acc db" and "pg_content acc db = Some c" and "readable c" and "ms_generation (mc_status c) \<noteq> []"
  shows "pg_list_alias acc (ms_generation (mc_status c)) a n det db = (Inr (select_alias c a n det), db)"
proof -
  let ?g = "ms_generation (mc_status c)" and ?t = "tables db" and ?a = "norm_alias a"
  let ?rows = "rows_of acc ?g ?t" and ?n = "bounded_limit n default_per_alias max_per_alias"
  note parts = content_parts [OF assms(2) [unfolded pg_content_def] assms(4)]
  have tidy: "m \<in> set ?rows \<Longrightarrow> tidy_message m" for m by (rule tidy_rows [OF assms(3) parts(1)])
  show ?thesis
  proof (cases "?a = []")
    case True
    then show ?thesis by (simp add: pg_list_alias_def select_alias_def)
  next
    case False
    have "filter (\<lambda>m. message_key ?g ?a (mm_uid m) \<notin> set (mc_hidden c) \<and> message_has_alias m ?a) (clone_messages ?rows) =
        clone_messages (filter (\<lambda>m. row_alias ?a m \<and> row_not_hidden (hidden_of acc ?g ?t) ?a m) ?rows)"
    proof (rule filter_clone)
      fix m assume "m \<in> set ?rows"
      then have "tidy_message (clone_message m)" using tidy by simp
      from has_alias_tidy [OF this, of a] show "(message_key ?g ?a (mm_uid (clone_message m)) \<notin> set (mc_hidden c) \<and>
          message_has_alias (clone_message m) ?a) = (row_alias ?a m \<and> row_not_hidden (hidden_of acc ?g ?t) ?a m)"
        using key_hidden [of acc ?t ?a ?g m] assms(1) False unfolding parts(2)
        by (auto simp: pg_ok_def row_alias_def)
    qed
    then have "select_alias c a n det = map (present_message det) (take ?n (clone_messages
        (filter (\<lambda>m. row_alias ?a m \<and> row_not_hidden (hidden_of acc ?g ?t) ?a m) ?rows)))"
      using False by (simp add: select_alias_def Let_def parts(1) ordered_clone ordered_rows)
    also have "\<dots> = map (if det then normalize_lists else compact_row) (take ?n
        (filter (\<lambda>m. row_alias ?a m \<and> row_not_hidden (hidden_of acc ?g ?t) ?a m) ?rows))"
      using tidy present_row by (auto simp: clone_messages_def take_map dest!: in_set_takeD)
    finally show ?thesis using False assms(1,4) by (simp add: pg_list_alias_def Let_def sql_query_up pg_ok_def)
  qed
qed

lemma pg_recent_law:
  assumes "pg_ok acc db" and "pg_content acc db = Some c" and "readable c" and "ms_generation (mc_status c) \<noteq> []"
  shows "pg_list_recent acc (ms_generation (mc_status c)) cutoff n db = (Inr (select_recent c cutoff n), db)"
proof -
  let ?g = "ms_generation (mc_status c)" and ?t = "tables db"
  let ?rows = "rows_of acc ?g ?t" and ?n = "bounded_limit n default_recent max_recent"
  let ?Q = "\<lambda>m. cutoff \<le> mm_date m \<and> row_visible (hidden_of acc ?g ?t) m"
  note parts = content_parts [OF assms(2) [unfolded pg_content_def] assms(4)]
  have tidy: "m \<in> set ?rows \<Longrightarrow> tidy_message m" for m by (rule tidy_rows [OF assms(3) parts(1)])
  have v: "row_visible hs (clone_message m) = row_visible hs m" for hs m
    by (simp add: row_visible_def row_not_hidden_def)
  have "filter (\<lambda>m. cutoff \<le> mm_date m \<and> message_visible (mc_hidden c) ?g m) (clone_messages ?rows) =
      clone_messages (filter ?Q ?rows)"
  proof (rule filter_clone)
    fix m assume "m \<in> set ?rows"
    then have "tidy_message (clone_message m)" using tidy by simp
    then show "(cutoff \<le> mm_date (clone_message m) \<and> message_visible (mc_hidden c) ?g (clone_message m)) = ?Q m"
      using visible_row [of acc ?t "clone_message m" ?g] assms(1) unfolding parts(2) by (simp add: v pg_ok_def)
  qed
  then have "select_recent c cutoff n = map (present_message False) (take ?n (clone_messages (filter ?Q ?rows)))"
    by (simp add: select_recent_def Let_def parts(1) ordered_clone ordered_rows)
  also have "\<dots> = map compact_row (take ?n (filter ?Q ?rows))"
    using tidy present_row [where det = False] by (auto simp: clone_messages_def take_map dest!: in_set_takeD)
  finally show ?thesis using assms(1,4) by (simp add: pg_list_recent_def Let_def sql_query_up pg_ok_def)
qed

lemma pg_get_law:
  assumes "pg_ok acc db" and "pg_content acc db = Some c" and "readable c" and "ms_generation (mc_status c) \<noteq> []"
  shows "pg_get acc (ms_generation (mc_status c)) a u db = (Inr (select_message c a u), db)"
proof -
  let ?g = "ms_generation (mc_status c)" and ?t = "tables db" and ?a = "norm_alias a"
  let ?rows = "rows_of acc ?g ?t" and ?h = "hidden_of acc ?g ?t"
  note parts = content_parts [OF assms(2) [unfolded pg_content_def] assms(4)]
  have tidy: "m \<in> set ?rows \<Longrightarrow> tidy_message m" for m by (rule tidy_rows [OF assms(3) parts(1)])
  show ?thesis
  proof (cases "?a = [] \<or> u = 0")
    case True
    then show ?thesis by (auto simp: pg_get_def select_message_def)
  next
    case False
    have hide: "message_key ?g ?a u \<in> set (mc_hidden c) \<longleftrightarrow> \<not> row_not_hidden ?h ?a m" if "mm_uid m = u" for m
      using key_hidden [of acc ?t ?a ?g m] assms(1) False that unfolding parts(2) by (auto simp: pg_ok_def)
    have "find (\<lambda>m. mm_uid m = u \<and> message_has_alias m ?a) (clone_messages ms) =
        map_option clone_message (find (\<lambda>m. mm_uid m = u \<and> row_alias ?a m) ms)" if "\<And>m. m \<in> set ms \<Longrightarrow> tidy_message m" for ms
      using that
    proof (induction ms)
      case (Cons m ms)
      then have "message_has_alias (clone_message m) ?a = row_alias ?a m"
        using has_alias_tidy [of "clone_message m" a] by (simp add: row_alias_def)
      then show ?case using Cons by (auto simp: clone_messages_def)
    qed (simp add: clone_messages_def)
    from this [of ?rows] have f: "map_option normalize_lists (find (\<lambda>m. mm_uid m = u \<and> message_has_alias m ?a) (mc_messages c)) =
        map_option normalize_lists (find (\<lambda>m. mm_uid m = u \<and> row_alias ?a m) ?rows)"
      using tidy by (cases "find (\<lambda>m. mm_uid m = u \<and> row_alias ?a m) ?rows") (simp_all add: parts(1))
    have g: "find (\<lambda>m. mm_uid m = u \<and> row_alias ?a m \<and> row_not_hidden ?h ?a m) ms =
        (if message_key ?g ?a u \<in> set (mc_hidden c) then None else find (\<lambda>m. mm_uid m = u \<and> row_alias ?a m) ms)" for ms
      using hide by (induction ms) auto
    show ?thesis using False assms(1,4) f
      by (auto simp: pg_get_def select_message_def sql_query_up pg_ok_def g Let_def)
  qed
qed

lemma pg_load_law:
  assumes "pg_ok acc db"
  shows "pg_load acc db = (Inr (case pg_content acc db of None \<Rightarrow> (empty_cache, False) | Some c \<Rightarrow> (c, True)), db)"
proof -
  have up: "db_up db" using assms by (simp add: pg_ok_def)
  show ?thesis
    by (cases "state_of acc (tables db)")
      (simp_all add: pg_load_def pg_load_state_def sql_query_up [OF up] pg_content_def tables_content_def Let_def)
qed

lemma pg_save_law:
  assumes "pg_ok acc db" and "storable c"
  shows "fst (pg_save acc c db) = None \<and> pg_ok acc (snd (pg_save acc c db)) \<and>
    (\<exists>d. pg_content acc (snd (pg_save acc c db)) = Some d \<and> same_cache c d \<and> distinct (map mm_uid (mc_messages d)))"
proof -
  have l: "legacy_generation c = c" using assms(2) by (auto simp: legacy_generation_def storable_def)
  have "pg_save acc c db = (None, db\<lparr>tables := saved_tables acc c (tables db)\<rparr>)"
    using save_statements_up [OF _ assms(2), of db acc] assms(1)
    by (simp add: pg_ok_def pg_save_def l sql_tx_up error_of_def)
  then show ?thesis using assms tables_ok_saved tables_content_saved [OF assms(2)]
    by (simp add: pg_ok_def pg_content_def)
qed

interpretation pg_store: message_store "pg_load acc" "pg_save acc" "pg_list_alias acc" "pg_list_recent acc" "pg_get acc"
    "pg_content acc" "pg_ok acc" for acc
proof
  fix r :: "mail_tables sqldb"
  assume "pg_ok acc r"
  then show "pg_load acc r = (Inr (case pg_content acc r of None \<Rightarrow> (empty_cache, False) | Some c \<Rightarrow> (c, True)), r)"
    by (rule pg_load_law)
qed (fact pg_save_law pg_list_law pg_recent_law pg_get_law)+

end
