(* ===== verification/MailBackend.thy ===== *)
theory MailBackend
  imports MailStore
begin

text \<open>
  The repository a mailbox service is given (\<open>newMailboxRepositoryForAccount\<close> and
  \<open>dualMailboxRepository\<close> of \<open>mailbox_repository.go\<close>) and its operations by kind; the kinds are
  instances of one contract, so they answer alike.
\<close>

datatype mail_repo =
    JsonRepo "mailbox_cache cell"
  | PgRepo string "mail_tables sqldb"
  | DualRepo "mailbox_cache cell" string "mail_tables sqldb"

datatype storage_mode = ModeJson | ModeDual | ModePostgres

section \<open>Operations\<close>

fun repo_load :: "mail_repo \<Rightarrow> (go_error + mailbox_cache \<times> bool) \<times> mail_repo" where
  "repo_load (JsonRepo f) = apsnd JsonRepo (file_load f)"
| "repo_load (PgRepo acc db) = apsnd (PgRepo acc) (pg_load acc db)"
| "repo_load (DualRepo f acc db) = apsnd (\<lambda>f. DualRepo f acc db) (file_load f)"

fun repo_load_state :: "mail_repo \<Rightarrow> (go_error + mailbox_cache \<times> bool) \<times> mail_repo" where
  "repo_load_state (JsonRepo f) = apsnd JsonRepo (file_load_state f)"
| "repo_load_state (PgRepo acc db) = apsnd (PgRepo acc) (pg_load_state acc db)"
| "repo_load_state (DualRepo f acc db) = apsnd (\<lambda>f. DualRepo f acc db) (file_load_state f)"

text \<open>The dual repository writes the file first; a failure of the second write is reported, but the
  file has changed.\<close>

definition dual_write ::
  "(mailbox_cache cell \<Rightarrow> go_error option \<times> mailbox_cache cell) \<Rightarrow>
   (mail_tables sqldb \<Rightarrow> go_error option \<times> mail_tables sqldb) \<Rightarrow> string \<Rightarrow>
   mailbox_cache cell \<Rightarrow> string \<Rightarrow> mail_tables sqldb \<Rightarrow> go_error option \<times> mail_repo" where
  "dual_write wfile wdb msg f acc db =
     (case wfile f of
        (Some e, f1) \<Rightarrow> (Some e, DualRepo f1 acc db)
      | (None, f1) \<Rightarrow>
          (case wdb db of
             (Some e, db1) \<Rightarrow> (Some (Wrapped msg e), DualRepo f1 acc db1)
           | (None, db1) \<Rightarrow> (None, DualRepo f1 acc db1)))"

fun repo_save :: "mailbox_cache \<Rightarrow> mail_repo \<Rightarrow> go_error option \<times> mail_repo" where
  "repo_save c (JsonRepo f) = apsnd JsonRepo (file_save c f)"
| "repo_save c (PgRepo acc db) = apsnd (PgRepo acc) (pg_save acc c db)"
| "repo_save c (DualRepo f acc db) =
     dual_write (file_save c) (pg_save acc c) ''JSON saved but PostgreSQL dual-write failed: '' f acc db"

fun repo_save_state :: "mailbox_cache \<Rightarrow> mail_repo \<Rightarrow> go_error option \<times> mail_repo" where
  "repo_save_state c (JsonRepo f) = apsnd JsonRepo (file_save_state c f)"
| "repo_save_state c (PgRepo acc db) = apsnd (PgRepo acc) (pg_save_state acc c db)"
| "repo_save_state c (DualRepo f acc db) =
     dual_write (file_save_state c) (pg_save_state acc c) ''JSON state saved but PostgreSQL dual-write failed: '' f acc db"

fun repo_list_alias :: "string \<Rightarrow> string \<Rightarrow> int \<Rightarrow> bool \<Rightarrow> mail_repo \<Rightarrow> (go_error + mail_message list) \<times> mail_repo" where
  "repo_list_alias g a n d (JsonRepo f) = apsnd JsonRepo (file_list_alias g a n d f)"
| "repo_list_alias g a n d (PgRepo acc db) = apsnd (PgRepo acc) (pg_list_alias acc g a n d db)"
| "repo_list_alias g a n d (DualRepo f acc db) = apsnd (\<lambda>f. DualRepo f acc db) (file_list_alias g a n d f)"

fun repo_list_recent :: "string \<Rightarrow> unixtime \<Rightarrow> int \<Rightarrow> mail_repo \<Rightarrow> (go_error + mail_message list) \<times> mail_repo" where
  "repo_list_recent g cutoff n (JsonRepo f) = apsnd JsonRepo (file_list_recent g cutoff n f)"
| "repo_list_recent g cutoff n (PgRepo acc db) = apsnd (PgRepo acc) (pg_list_recent acc g cutoff n db)"
| "repo_list_recent g cutoff n (DualRepo f acc db) = apsnd (\<lambda>f. DualRepo f acc db) (file_list_recent g cutoff n f)"

fun repo_get :: "string \<Rightarrow> string \<Rightarrow> uid \<Rightarrow> mail_repo \<Rightarrow> (go_error + mail_message option) \<times> mail_repo" where
  "repo_get g a u (JsonRepo f) = apsnd JsonRepo (file_get g a u f)"
| "repo_get g a u (PgRepo acc db) = apsnd (PgRepo acc) (pg_get acc g a u db)"
| "repo_get g a u (DualRepo f acc db) = apsnd (\<lambda>f. DualRepo f acc db) (file_get g a u f)"

fun repo_clear :: "mail_repo \<Rightarrow> go_error option \<times> mail_repo" where
  "repo_clear (JsonRepo f) = apsnd JsonRepo (file_clear f)"
| "repo_clear (PgRepo acc db) = apsnd (PgRepo acc) (pg_clear acc db)"
| "repo_clear (DualRepo f acc db) =
     (case file_clear f of
        (Some e, f1) \<Rightarrow> (Some e, DualRepo f1 acc db)
      | (None, f1) \<Rightarrow> (case pg_clear acc db of (r, db1) \<Rightarrow> (r, DualRepo f1 acc db1)))"

definition import_file ::
  "string \<Rightarrow> string \<Rightarrow> string \<Rightarrow> mailbox_cache cell \<Rightarrow> mail_tables sqldb \<Rightarrow>
   go_error + (mailbox_cache cell \<times> mail_tables sqldb)" where
  "import_file load_msg save_msg acc f db =
     (case file_load f of
        (Inl e, f1) \<Rightarrow> Inl (Wrapped load_msg e)
      | (Inr (c, False), f1) \<Rightarrow> Inr (f1, db)
      | (Inr (c, True), f1) \<Rightarrow>
          (case pg_save acc c db of
             (Some e, db1) \<Rightarrow> Inl (Wrapped save_msg e)
           | (None, db1) \<Rightarrow> Inr (f1, db1)))"

definition open_repository ::
  "storage_mode \<Rightarrow> string \<Rightarrow> mailbox_cache cell \<Rightarrow> mail_tables sqldb \<Rightarrow> go_error + mail_repo" where
  "open_repository mode acc f db =
     (case mode of
        ModeJson \<Rightarrow> Inr (JsonRepo f)
      | ModeDual \<Rightarrow>
          (case import_file ''load JSON mailbox cache for dual-write bootstrap: '' ''bootstrap PostgreSQL mailbox cache: '' acc f db of
             Inl e \<Rightarrow> Inl e
           | Inr (f1, db1) \<Rightarrow> Inr (DualRepo f1 acc db1))
      | ModePostgres \<Rightarrow>
          (case pg_load_state acc db of
             (Inl e, db1) \<Rightarrow> Inl e
           | (Inr (_, True), db1) \<Rightarrow> Inr (PgRepo acc db1)
           | (Inr (_, False), db1) \<Rightarrow>
               (case import_file ''load legacy mailbox cache: '' ''import legacy mailbox cache: '' acc f db1 of
                  Inl e \<Rightarrow> Inl e
                | Inr (f1, db2) \<Rightarrow> Inr (PgRepo acc db2))))"

section \<open>All kinds fulfil the contract\<close>

fun repo_content :: "mail_repo \<Rightarrow> mailbox_cache option" where
  "repo_content (JsonRepo f) = cell_doc f"
| "repo_content (PgRepo acc db) = pg_content acc db"
| "repo_content (DualRepo f acc db) = cell_doc f"

fun repo_ok :: "mail_repo \<Rightarrow> bool" where
  "repo_ok (JsonRepo f) = cell_ok f"
| "repo_ok (PgRepo acc db) = pg_ok acc db"
| "repo_ok (DualRepo f acc db) = (cell_ok f \<and> pg_ok acc db)"

lemma repo_save_law:
  assumes "repo_ok r" and "storable c"
  shows "fst (repo_save c r) = None \<and> repo_ok (snd (repo_save c r)) \<and>
    (\<exists>d. repo_content (snd (repo_save c r)) = Some d \<and> same_cache c d \<and> distinct (map mm_uid (mc_messages d)))"
proof (cases r)
  case (JsonRepo f)
  then show ?thesis using json_store.save_law [of f c] assms by simp
next
  case (PgRepo acc db)
  then show ?thesis using pg_store.save_law [of acc db c] assms by simp
next
  case (DualRepo f acc db)
  then have ok: "cell_ok f" "pg_ok acc db" using assms(1) by simp_all
  obtain f1 where f: "file_save c f = (None, f1)" "cell_ok f1"
    "\<exists>d. cell_doc f1 = Some d \<and> same_cache c d \<and> distinct (map mm_uid (mc_messages d))"
    using json_store.save_law [OF ok(1) assms(2)] by (cases "file_save c f") auto
  obtain db1 where d: "pg_save acc c db = (None, db1)" "pg_ok acc db1"
    using pg_store.save_law [OF ok(2) assms(2)] by (cases "pg_save acc c db") auto
  show ?thesis using f d DualRepo by (simp add: dual_write_def)
qed

interpretation repo_store: message_store repo_load repo_save repo_list_alias repo_list_recent repo_get repo_content repo_ok
proof
  fix r assume ok: "repo_ok r"
  show "repo_load r = (Inr (case repo_content r of None \<Rightarrow> (empty_cache, False) | Some c \<Rightarrow> (c, True)), r)"
    using ok json_store.load_law pg_store.load_law by (cases r) simp_all
  fix c :: mailbox_cache and a n det cutoff u
  assume "repo_content r = Some c" "readable c" "ms_generation (mc_status c) \<noteq> []"
  note h = ok this
  show "repo_list_alias (ms_generation (mc_status c)) a n det r = (Inr (select_alias c a n det), r)"
    using h json_store.list_law pg_store.list_law by (cases r) simp_all
  show "repo_list_recent (ms_generation (mc_status c)) cutoff n r = (Inr (select_recent c cutoff n), r)"
    using h json_store.recent_law pg_store.recent_law by (cases r) simp_all
  show "repo_get (ms_generation (mc_status c)) a u r = (Inr (select_message c a u), r)"
    using h json_store.get_law pg_store.get_law by (cases r) simp_all
qed (fact repo_save_law)

text \<open>
  C19. All kinds of repository answer alike: after the same cache has been saved to two healthy
  repositories, be they the JSON file, the Postgres tables or both, the messages of an address, the
  recent messages and a single message are the same from either, although one filters a list in
  memory and the other asks SQL.
\<close>

theorem repositories_agree:
  assumes "repo_ok r1" and "repo_ok r2" and "storable c" and "readable c"
    and "gen = ms_generation (mc_status c)" and "gen \<noteq> []"
  shows "fst (repo_list_alias gen a n det (snd (repo_save c r1))) = fst (repo_list_alias gen a n det (snd (repo_save c r2))) \<and>
    fst (repo_list_recent gen cutoff k (snd (repo_save c r1))) = fst (repo_list_recent gen cutoff k (snd (repo_save c r2))) \<and>
    fst (repo_get gen a u (snd (repo_save c r1))) = fst (repo_get gen a u (snd (repo_save c r2)))"
  using repo_store.queries_after_save [OF assms(1,3-6)] repo_store.queries_after_save [OF assms(2-6)] by simp

section \<open>A concrete cache\<close>

definition demo_mail :: "uid \<Rightarrow> string \<Rightarrow> unixtime \<Rightarrow> mail_message" where
  "demo_mail u a d = \<lparr>mm_uid = u, mm_aliases = Some [a], mm_from = ''x'', mm_subject = ''s'', mm_date = d, mm_text = ''t'',
     mm_html = [], mm_codes = Some [], mm_partner = None\<rparr>"

definition demo_cache :: mailbox_cache where
  "demo_cache = empty_cache\<lparr>mc_status := empty_status\<lparr>ms_generation := ''g''\<rparr>,
     mc_messages := [demo_mail 2 ''a'' 5, demo_mail 1 ''b'' 3], mc_hidden := [message_key ''g'' ''b'' 1], mc_highest := 2,
     mc_allowed := [''a'', ''b'']\<rparr>"

definition empty_tables :: mail_tables where
  "empty_tables = \<lparr>tb_states = [], tb_messages = [], tb_hidden = []\<rparr>"

lemma demo_norm: "norm_alias ''a'' = ''a''" "norm_alias ''b'' = ''b''"
  by code_simp+

lemma demo_storable: "storable demo_cache"
  by (auto simp: storable_def demo_cache_def empty_cache_def demo_mail_def empty_status_def demo_norm
      intro!: exI [of _ "''b''"] exI [of _ 1])

lemma demo_readable: "readable demo_cache"
proof -
  have "valid_utf8 ''t''" "trim_space ''t'' = ''t''" by code_simp+
  then show ?thesis by (simp add: readable_def demo_cache_def tidy_message_def demo_mail_def elems_def demo_norm)
qed

lemma demo_repos:
  "repo_ok (JsonRepo \<lparr>cell_doc = None, read_faults = [], write_faults = []\<rparr>)"
  "repo_ok (PgRepo ''acc'' \<lparr>tables = empty_tables, script = []\<rparr>)"
  by (simp_all add: cell_ok_def pg_ok_def db_up_def tables_ok_def empty_tables_def)

lemma repositories_agree_witness:
  "fst (repo_list_alias ''g'' ''a'' 5 False (snd (repo_save demo_cache (JsonRepo \<lparr>cell_doc = None, read_faults = [], write_faults = []\<rparr>)))) =
   fst (repo_list_alias ''g'' ''a'' 5 False (snd (repo_save demo_cache (PgRepo ''acc'' \<lparr>tables = empty_tables, script = []\<rparr>))))"
proof -
  have "''g'' = ms_generation (mc_status demo_cache)" by (simp add: demo_cache_def)
  from repositories_agree [OF demo_repos demo_storable demo_readable this] show ?thesis by simp
qed

lemma pg_save_refines_witness:
  "pg_save ''acc'' demo_cache \<lparr>tables = empty_tables, script = []\<rparr> =
   (None, \<lparr>tables = saved_tables ''acc'' demo_cache empty_tables, script = []\<rparr>)"
  using pg_save_refines [OF demo_storable, of "\<lparr>tables = empty_tables, script = []\<rparr>" "''acc''"] by (simp add: db_up_def)

lemma merge_keeps_newest_witness:
  "\<exists>r\<in>set (merge_messages [] [demo_mail 7 ''a'' 1] [''a''] 100). core r = core (demo_mail 7 ''a'' 1)"
proof -
  have n: "normalize_aliases [''a''] = [''a'']" by (simp add: normalize_aliases_def demo_norm sort_strings_def)
  have a: "''a'' \<in> set (normalize_aliases [''a''])" by (simp add: n)
  have l: "latest_in (normalize_aliases [''a'']) ([] @ [demo_mail 7 ''a'' 1]) (demo_mail 7 ''a'' 1)"
    by (simp add: latest_in_def own_def n demo_mail_def elems_def demo_norm)
  have c: "carries ''a'' (demo_mail 7 ''a'' 1)" by (simp add: carries_def demo_mail_def elems_def demo_norm)
  have m: "merge_messages [] [demo_mail 7 ''a'' 1] [''a''] 100 = [demo_mail 7 ''a'' 1]"
    by (simp add: merge_messages_def n merge_by_uid_def merge_step_def demo_mail_def elems_def demo_norm retain_newest_def
        max_per_alias_def Let_def)
  from merge_keeps_newest [OF a l c refl, of 100] show ?thesis unfolding m by (simp add: max_per_alias_def Let_def)
qed

end

