(* ===== verification/MailText.thy ===== *)
theory MailText
  imports GoRegexp MailMessages
begin

text \<open>
  From a fetched message to a \<open>MailMessage\<close> (\<open>parseMailMessage\<close> and what it calls in
  \<open>modules/mail/backend/mailbox.go\<close>): the addresses in the headers, the body out of the MIME parts, the
  HTML filter, and the verification codes in the text.

  The parsers of mail headers and MIME parts are library code: a message is given by its header fields
  and the tree of its decoded parts. \<open>html.UnescapeString\<close> (a table of entities) and \<open>url.Parse\<close> are the
  arguments \<open>unescape\<close> and \<open>url_parse\<close>; the latter yields scheme and host.
\<close>

section \<open>Addresses in headers\<close>

definition letter_fold :: "string \<Rightarrow> bool" where
  "letter_fold r = (case fold_rune r of [c] \<Rightarrow> byte_in 97 122 c | _ \<Rightarrow> False)"

definition one_of :: "string \<Rightarrow> string \<Rightarrow> bool" where
  "one_of cs r = (case r of [c] \<Rightarrow> c \<in> set cs | _ \<Rightarrow> False)"

definition local_rune :: "string \<Rightarrow> bool" where
  "local_rune r \<longleftrightarrow> alnum_fold r \<or> one_of (CHR 0x27 # CHR 0x60 # ''.!#$%&*+/=?^_{|}~-'') r"

definition domain_rune :: "string \<Rightarrow> bool" where
  "domain_rune r \<longleftrightarrow> alnum_fold r \<or> one_of ''.-'' r"

definition email_pattern :: regex where
  "email_pattern =
     Seq (Many local_rune 1 None) (Seq (Rune (one_of ''@''))
       (Seq (Many domain_rune 1 None) (Seq (Rune (one_of ''.'')) (Many letter_fold 2 None))))"

text \<open>\<open>strings.ToLower\<close> on a matched address, whose only letter outside ASCII with a lower case of its
  own is the Kelvin sign.\<close>

definition lower_rune :: "string \<Rightarrow> string" where
  "lower_rune r = (if r = [CHR 0xE2, CHR 0x84, CHR 0xAA] then ''k'' else to_lower r)"

definition find_emails :: "string \<Rightarrow> string list" where
  "find_emails s = map (\<lambda>(m, _). concat (map lower_rune m)) (find_all_string email_pattern s)"

type_synonym mail_header = "(string \<times> string list) list"

definition recipient_fields :: "string list" where
  "recipient_fields = [''to'', ''cc'', ''delivered-to'', ''x-original-to'', ''x-forwarded-to'']"

definition matching_aliases :: "mail_header \<Rightarrow> string list \<Rightarrow> string list" where
  "matching_aliases header allowed =
     sort_strings (dedup_from {} (concat (map (\<lambda>(key, vs).
       if to_lower key \<in> set recipient_fields
       then concat (map (\<lambda>v. filter (\<lambda>e. e \<in> set allowed) (find_emails v)) vs) else []) header)))"

section \<open>The HTML filter\<close>

definition escape_char :: "char \<Rightarrow> string" where
  "escape_char c =
     (if c = CHR ''&'' then ''&amp;'' else if c = CHR 0x27 then ''&#39;'' else if c = CHR ''<'' then ''&lt;''
      else if c = CHR ''>'' then ''&gt;'' else if c = CHR 0x22 then ''&#34;'' else [c])"

definition html_escape :: "string \<Rightarrow> string" where
  "html_escape s = concat (map escape_char s)"

definition safe_elements :: "string list" where
  "safe_elements =
     [''a'', ''blockquote'', ''br'', ''code'', ''div'', ''em'', ''h1'', ''h2'', ''h3'', ''h4'', ''hr'', ''li'', ''ol'', ''p'',
      ''pre'', ''span'', ''strong'', ''table'', ''tbody'', ''td'', ''th'', ''thead'', ''tr'', ''u'', ''ul'']"

definition blocked_elements :: "string list" where
  "blocked_elements = [''form'', ''iframe'', ''math'', ''object'', ''script'', ''style'', ''svg'', ''template'']"

text \<open>\<open>emailTagEnd\<close>: the position of the closing bracket outside quotes.\<close>

fun tag_end :: "char option \<Rightarrow> string \<Rightarrow> nat option" where
  "tag_end q [] = None"
| "tag_end (Some q) (c # s) = map_option Suc (tag_end (if c = q then None else Some q) s)"
| "tag_end None (c # s) =
     (if c = CHR 0x27 \<or> c = CHR 0x22 then map_option Suc (tag_end (Some c) s)
      else if c = CHR ''>'' then Some 0 else map_option Suc (tag_end None s))"

definition tag_name :: "string \<Rightarrow> string" where
  "tag_name raw = to_lower (takeWhile is_alnum raw)"

definition ascii_regex :: "string \<Rightarrow> regex" where
  "ascii_regex s = literal (map (\<lambda>c. [c]) s)"

definition href_pattern :: regex where
  "href_pattern =
     Seq Bound (Seq (ascii_regex ''href'') (Seq (Many space_rune 0 None) (Seq (Rune (one_of ''='')) (Seq (Many space_rune 0 None)
       (Alt (Seq (Rune (one_of [CHR 0x22])) (Seq (Capture (\<lambda>r. \<not> one_of [CHR 0x22] r) 0 None) (Rune (one_of [CHR 0x22]))))
       (Alt (Seq (Rune (one_of [CHR 0x27])) (Seq (Capture (\<lambda>r. \<not> one_of [CHR 0x27] r) 0 None) (Rune (one_of [CHR 0x27]))))
            (Capture (\<lambda>r. \<not> space_rune r \<and> \<not> one_of (CHR 0x22 # CHR 0x27 # CHR 0x60 # ''=<>'') r) 1 None)))))))"

definition safe_email_url :: "(string \<Rightarrow> (string \<times> string) option) \<Rightarrow> string \<Rightarrow> bool" where
  "safe_email_url url_parse v =
     (case url_parse (trim_space v) of None \<Rightarrow> False
      | Some (scheme, host) \<Rightarrow> (scheme = ''http'' \<or> scheme = ''https'') \<and> host \<noteq> [])"

definition safe_href :: "(string \<Rightarrow> string) \<Rightarrow> (string \<Rightarrow> (string \<times> string) option) \<Rightarrow> string \<Rightarrow> string" where
  "safe_href unescape url_parse raw =
     (case find_all_string href_pattern raw of
        (_, Some rs) # _ \<Rightarrow>
          (if concat rs = [] then []
           else (let candidate = trim_space (unescape (concat rs))
                 in if safe_email_url url_parse candidate then candidate else []))
      | _ \<Rightarrow> [])"

definition safe_text_html :: "(string \<Rightarrow> string) \<Rightarrow> string \<Rightarrow> string" where
  "safe_text_html unescape v = html_escape (unescape v)"

text \<open>What one tag contributes outside blocked elements.\<close>

definition render_tag ::
  "(string \<Rightarrow> string) \<Rightarrow> (string \<Rightarrow> (string \<times> string) option) \<Rightarrow> bool \<Rightarrow> string \<Rightarrow> string \<Rightarrow> string" where
  "render_tag unescape url_parse closing name raw =
     (if name \<notin> set safe_elements then []
      else if closing then (if name \<noteq> ''br'' \<and> name \<noteq> ''hr'' then ''</'' @ name @ ''>'' else [])
      else ''<'' @ name @
        (if name = ''a''
         then (let href = safe_href unescape url_parse raw
               in if href \<noteq> [] then '' href='' @ [CHR 0x22] @ html_escape href @ [CHR 0x22] @ '' target='' @ [CHR 0x22] @
                    ''_blank'' @ [CHR 0x22] @ '' rel='' @ [CHR 0x22] @ ''noopener noreferrer'' @ [CHR 0x22] else [])
         else []) @ ''>'')"

text \<open>The loop over the text that is left, with fuel; \<open>depth\<close> counts the open blocked elements.\<close>

fun sanitize_loop ::
  "(string \<Rightarrow> string) \<Rightarrow> (string \<Rightarrow> (string \<times> string) option) \<Rightarrow> nat \<Rightarrow> nat \<Rightarrow> string \<Rightarrow> string \<Rightarrow> string option" where
  "sanitize_loop un up 0 depth s out = None"
| "sanitize_loop un up (Suc fuel) depth s out =
     (let write = (\<lambda>v. if depth = 0 then out @ safe_text_html un v else out) in
      if s = [] then Some out
      else
        (case index_byte s (CHR ''<'') of
           None \<Rightarrow> Some (write s)
         | Some i \<Rightarrow>
             (let out1 = write (take i s); t = drop i s in
              if has_prefix t ''<!--'' then
                (case str_index (drop 4 t) ''-->'' of
                   None \<Rightarrow> Some out1
                 | Some e \<Rightarrow> sanitize_loop un up fuel depth (drop (4 + e + 3) t) out1)
              else
                (case tag_end None (drop 1 t) of
                   None \<Rightarrow> Some (if depth = 0 then out1 @ safe_text_html un t else out1)
                 | Some e \<Rightarrow>
                     (let raw = trim_space (take e (drop 1 t));
                          closing = has_prefix raw ''/'';
                          raw = (if closing then trim_space (trim_prefix raw ''/'') else raw);
                          name = tag_name raw;
                          rest = drop (e + 2) t
                      in if name \<in> set blocked_elements
                         then sanitize_loop un up fuel (if closing then depth - 1 else depth + 1) rest out1
                         else sanitize_loop un up fuel depth rest
                                (if depth = 0 then out1 @ render_tag un up closing name raw else out1))))))"

text \<open>The loop ends by itself within one round per byte (theorem \<open>sanitize_terminates\<close>).\<close>

definition sanitize_html :: "(string \<Rightarrow> string) \<Rightarrow> (string \<Rightarrow> (string \<times> string) option) \<Rightarrow> string \<Rightarrow> string" where
  "sanitize_html un up v =
     (case sanitize_loop un up (Suc (length v)) 0 v [] of None \<Rightarrow> [] | Some out \<Rightarrow> truncate_runes out 200000)"

section \<open>Text out of HTML\<close>

fun re_replace :: "nat \<Rightarrow> regex \<Rightarrow> string \<Rightarrow> string option \<Rightarrow> string list \<Rightarrow> string" where
  "re_replace 0 re new p rs = concat rs"
| "re_replace (Suc fuel) re new p rs =
     (case rs of [] \<Rightarrow> []
      | r # rest \<Rightarrow>
          (case re_match re (p, rs, None) of
             [] \<Rightarrow> r @ re_replace fuel re new (Some r) rest
           | (p1, rs1, _) # _ \<Rightarrow>
               (if length rs1 < length rs then new @ re_replace fuel re new p1 rs1
                else r @ re_replace fuel re new (Some r) rest)))"

definition replace_pattern :: "regex \<Rightarrow> string \<Rightarrow> string \<Rightarrow> string" where
  "replace_pattern re new s = re_replace (length (pieces s)) re new None (pieces s)"

definition break_pattern :: regex where
  "break_pattern =
     alternatives (Seq (ascii_regex ''<br'') (Seq (Many space_rune 0 None) (Seq (Many (one_of ''/'') 0 (Some 1)) (ascii_regex ''>''))))
       [ascii_regex ''</p>'', ascii_regex ''</div>'', ascii_regex ''</li>'']"

definition tag_pattern :: regex where
  "tag_pattern = Seq (Rune (one_of ''<'')) (Seq (Many (\<lambda>r. \<not> one_of ''>'' r) 1 None) (Rune (one_of ''>'')))"

definition strip_html :: "(string \<Rightarrow> string) \<Rightarrow> string \<Rightarrow> string" where
  "strip_html un v = un (replace_pattern tag_pattern [] (replace_pattern break_pattern [CHR 0x0A] v))"

section \<open>The body\<close>

text \<open>A part: whether it is an attachment, its media type, and its decoded content (\<^const>\<open>None\<close> when
  decoding fails); or a multipart container with the parts up to its end or the first broken one.\<close>

datatype mail_part = Leaf bool string "string option" | Multi bool "mail_part list"

definition body_limit :: nat where "body_limit = 2 * 1024 * 1024"

fun read_body ::
  "(string \<Rightarrow> string) \<Rightarrow> (string \<Rightarrow> (string \<times> string) option) \<Rightarrow> nat \<Rightarrow> mail_part \<Rightarrow> (string \<times> string) option" where
  "read_body un up depth (Leaf attachment media content) =
     (if depth > 8 \<or> attachment then Some ([], [])
      else if media \<noteq> [] \<and> media \<noteq> ''text/plain'' \<and> media \<noteq> ''text/html'' then Some ([], [])
      else
        (case content of
           None \<Rightarrow> None
         | Some data \<Rightarrow>
             (let text = take body_limit data in
              if media = ''text/html''
              then (let safe = sanitize_html un up text in Some (trim_space (strip_html un safe), safe))
              else Some (trim_space text, []))))"
| "read_body un up depth (Multi attachment parts) =
     (if depth > 8 \<or> attachment then Some ([], [])
      else
        (let rs = map (\<lambda>p. case read_body un up (Suc depth) p of None \<Rightarrow> ([], []) | Some r \<Rightarrow> r) parts
         in Some (str_join (filter (\<lambda>t. t \<noteq> []) (map fst rs)) [CHR 0x0A],
                  str_join (filter (\<lambda>t. t \<noteq> []) (map snd rs)) [CHR 0x0A])))"

section \<open>Verification codes\<close>

definition keyword_pattern :: regex where
  "keyword_pattern =
     alternatives (literal [[CHR 0xE9, CHR 0xAA, CHR 0x8C], [CHR 0xE8, CHR 0xAF, CHR 0x81], [CHR 0xE7, CHR 0xA0, CHR 0x81]])
       [Seq (ascii_regex ''verification'') (Seq (Many space_rune 1 None) (ascii_regex ''code'')),
        Seq (ascii_regex ''security'') (Seq (Many space_rune 1 None) (ascii_regex ''code'')),
        Seq (ascii_regex ''one'') (Seq (Rune (one_of ''- '')) (Seq (ascii_regex ''time'')
          (Opt (Seq (Many space_rune 1 None) (ascii_regex ''password''))))),
        ascii_regex ''otp'', ascii_regex ''passcode'', ascii_regex ''code'']"

definition numeric_code_pattern :: regex where
  "numeric_code_pattern =
     Seq keyword_pattern (Seq (Many (\<lambda>r. \<not> digit_rune r) 0 (Some 160))
       (Seq (Capture digit_rune 4 (Some 10)) (Alt (Rune (\<lambda>r. \<not> digit_rune r)) EndText)))"

definition alpha_code_pattern :: regex where
  "alpha_code_pattern =
     Seq keyword_pattern (Seq (Opt (Seq (Many space_rune 1 None) (Alt (ascii_regex ''is'') (ascii_regex '':''))))
       (Seq (Many (\<lambda>r. \<not> alnum_fold r) 0 (Some 16)) (Seq (Capture alnum_fold 4 (Some 10)) (Alt Bound EndText))))"

definition upper_rune :: "string \<Rightarrow> string" where
  "upper_rune r = (if r = [CHR 0xC5, CHR 0xBF] then ''S'' else to_upper r)"

definition captured_code :: "string list option \<Rightarrow> string" where
  "captured_code cap = (case cap of None \<Rightarrow> [] | Some rs \<Rightarrow> concat (map upper_rune rs))"

definition add_code :: "string \<Rightarrow> string list \<Rightarrow> string list" where
  "add_code code out =
     (let code = trim_space code
      in if length code < 4 \<or> length code > 10 \<or> code \<in> set out \<or> \<not> list_ex is_digit code then out else out @ [code])"

definition extract_codes :: "string \<Rightarrow> string list" where
  "extract_codes v =
     fold (\<lambda>(_, cap). add_code (captured_code cap))
       (find_all_string numeric_code_pattern v @ find_all_string alpha_code_pattern v) []"

definition partner_code :: "string \<Rightarrow> bool" where
  "partner_code c \<longleftrightarrow> length c = 16 \<and> list_all is_alnum c \<and> list_ex is_digit c \<and> list_ex (\<lambda>x. is_alnum x \<and> \<not> is_digit x) c"

definition code_heading :: "string \<Rightarrow> bool" where
  "code_heading line \<longleftrightarrow> trim_suffix (trim_space (to_lower line)) '':'' = ''your partner code''"

text \<open>After a heading the first line that is not blank counts; three codes are enough.\<close>

fun partner_loop :: "string list \<Rightarrow> string list \<Rightarrow> string list" where
  "partner_loop [] out = out"
| "partner_loop (line # lines) out =
     (if \<not> code_heading line then partner_loop lines out
      else
        (let out1 = (case find (\<lambda>l. trim_space l \<noteq> []) lines of
                       None \<Rightarrow> out
                     | Some l \<Rightarrow> (let c = trim_space l in if partner_code c \<and> c \<notin> set out then out @ [c] else out))
         in if 3 \<le> length out1 then out1 else partner_loop lines out1))"

definition extract_partner_codes :: "string \<Rightarrow> string list" where
  "extract_partner_codes v =
     partner_loop (split_byte (replace_all v [CHR 0x0D, CHR 0x0A] [CHR 0x0A]) (CHR 0x0A)) []"

section \<open>A message\<close>

text \<open>A parsed message: its header, its date if it has a valid one, the decoded sender and subject, and
  its parts.\<close>

record raw_mail =
  rm_header :: mail_header
  rm_date :: "unixtime option"
  rm_from :: string
  rm_subject :: string
  rm_body :: mail_part

definition parse_mail ::
  "(string \<Rightarrow> string) \<Rightarrow> (string \<Rightarrow> (string \<times> string) option) \<Rightarrow> unixtime \<Rightarrow> uid \<Rightarrow> raw_mail option \<Rightarrow> string list \<Rightarrow>
   mail_message option" where
  "parse_mail un up now u raw allowed =
     (case raw of
        None \<Rightarrow> None
      | Some r \<Rightarrow>
          (case read_body un up 0 (rm_body r) of
             None \<Rightarrow> None
           | Some (body, html) \<Rightarrow>
               Some \<lparr>mm_uid = u, mm_aliases = Some (matching_aliases (rm_header r) allowed), mm_from = rm_from r,
                     mm_subject = rm_subject r, mm_date = (case rm_date r of None \<Rightarrow> now | Some d \<Rightarrow> d),
                     mm_text = truncate_runes body 200000, mm_html = truncate_runes html 200000,
                     mm_codes = Some (extract_codes (rm_subject r @ [CHR 0x0A] @ body)),
                     mm_partner = Some (extract_partner_codes body)\<rparr>))"

end
