(* ===== verification/MailTextProps.thy ===== *)
theory MailTextProps
  imports MailText
begin

text \<open>
  What the functions on the text of a message guarantee: the HTML filter ends and lets only harmless
  tags through, and extracted codes have the shape of codes.
\<close>

section \<open>The filter ends\<close>

lemma index_byte_less: "index_byte s c = Some n \<Longrightarrow> n < length s"
  by (simp add: index_byte_Some)

lemma tag_end_less: "tag_end q s = Some n \<Longrightarrow> n < length s"
  by (induction q s arbitrary: n rule: tag_end.induct) (auto split: if_splits)

text \<open>The rest after a comment or a tag is shorter.\<close>

lemma rest_shorter:
  assumes "index_byte s (CHR ''<'') = Some i"
  shows "length (drop (k + 1) (drop i s)) < length s"
  using index_byte_less [OF assms] by simp

text \<open>One round of the loop as a function: finished, or the rest with its depth and output.\<close>

definition sanitize_round ::
  "(string \<Rightarrow> string) \<Rightarrow> (string \<Rightarrow> (string \<times> string) option) \<Rightarrow> nat \<Rightarrow> string \<Rightarrow> string \<Rightarrow> string + (nat \<times> string \<times> string)" where
  "sanitize_round un up depth s out =
     (let write = (\<lambda>v. if depth = 0 then out @ safe_text_html un v else out) in
      if s = [] then Inl out
      else
        (case index_byte s (CHR ''<'') of
           None \<Rightarrow> Inl (write s)
         | Some i \<Rightarrow>
             (let out1 = write (take i s); t = drop i s in
              if has_prefix t ''<!--'' then
                (case str_index (drop 4 t) ''-->'' of
                   None \<Rightarrow> Inl out1
                 | Some e \<Rightarrow> Inr (depth, drop (4 + e + 3) t, out1))
              else
                (case tag_end None (drop 1 t) of
                   None \<Rightarrow> Inl (if depth = 0 then out1 @ safe_text_html un t else out1)
                 | Some e \<Rightarrow>
                     (let raw = trim_space (take e (drop 1 t));
                          closing = has_prefix raw ''/'';
                          raw = (if closing then trim_space (trim_prefix raw ''/'') else raw);
                          name = tag_name raw;
                          rest = drop (e + 2) t
                      in if name \<in> set blocked_elements
                         then Inr (if closing then depth - 1 else depth + 1, rest, out1)
                         else Inr (depth, rest, if depth = 0 then out1 @ render_tag un up closing name raw else out1))))))"

lemma sanitize_loop_round:
  "sanitize_loop un up (Suc fuel) depth s out =
     (case sanitize_round un up depth s out of
        Inl r \<Rightarrow> Some r
      | Inr (d, rest, out1) \<Rightarrow> sanitize_loop un up fuel d rest out1)"
  by (simp add: sanitize_round_def Let_def split: option.split)

lemma round_shorter: "sanitize_round un up depth s out = Inr (d, rest, out1) \<Longrightarrow> length rest < length s"
  using rest_shorter [of s]
  by (auto simp: sanitize_round_def Let_def split: option.splits if_splits)

lemma sanitize_enough: "length s < fuel \<Longrightarrow> \<exists>r. sanitize_loop un up fuel depth s out = Some r"
proof (induction fuel arbitrary: depth s out)
  case (Suc fuel)
  show ?case
  proof (cases "sanitize_round un up depth s out")
    case (Inr x)
    obtain d rest out1 where x: "x = (d, rest, out1)" by (cases x)
    then have "length rest < fuel" using round_shorter Inr Suc.prems by fastforce
    from Suc.IH [OF this] show ?thesis unfolding sanitize_loop_round by (simp add: Inr x)
  qed (simp add: sanitize_loop_round del: sanitize_loop.simps)
qed simp

lemma sanitize_more_fuel: "sanitize_loop un up fuel depth s out = Some r \<Longrightarrow> sanitize_loop un up (fuel + k) depth s out = Some r"
proof (induction fuel arbitrary: depth s out)
  case (Suc fuel)
  then show ?case by (cases "sanitize_round un up depth s out")
    (auto simp: sanitize_loop_round simp del: sanitize_loop.simps split: prod.splits)
qed simp

text \<open>
  C20. The HTML filter always ends: whatever the text, one round per byte and one more are enough, and
  further rounds change nothing, so the model's bound is never felt.
\<close>

theorem sanitize_terminates:
  "\<exists>out. \<forall>k. sanitize_loop un up (Suc (length v) + k) 0 v [] = Some out \<and> sanitize_html un up v = truncate_runes out 200000"
proof -
  obtain out where r: "sanitize_loop un up (Suc (length v)) 0 v [] = Some out" using sanitize_enough by blast
  then have "sanitize_html un up v = truncate_runes out 200000" by (simp add: sanitize_html_def del: sanitize_loop.simps)
  then show ?thesis using sanitize_more_fuel [OF r] by blast
qed

section \<open>The filter lets only harmless tags through\<close>

text \<open>Harmless HTML, read from the left: text without brackets and quotes, and tags of the safe elements
  without attributes, but for links to a web address.\<close>

inductive harmless :: "(string \<Rightarrow> bool) \<Rightarrow> string \<Rightarrow> bool" for ok where
  harmless_nil: "harmless ok []"
| harmless_text: "harmless ok s \<Longrightarrow> set t \<inter> {CHR ''<'', CHR ''>'', CHR 0x22, CHR 0x27} = {} \<Longrightarrow> harmless ok (s @ t)"
| harmless_open: "harmless ok s \<Longrightarrow> n \<in> set safe_elements \<Longrightarrow> harmless ok (s @ ''<'' @ n @ ''>'')"
| harmless_close: "harmless ok s \<Longrightarrow> n \<in> set safe_elements \<Longrightarrow> harmless ok (s @ ''</'' @ n @ ''>'')"
| harmless_link: "harmless ok s \<Longrightarrow> ok url \<Longrightarrow> harmless ok (s @ ''<a href='' @ [CHR 0x22] @ html_escape url @ [CHR 0x22] @
    '' target='' @ [CHR 0x22] @ ''_blank'' @ [CHR 0x22] @ '' rel='' @ [CHR 0x22] @ ''noopener noreferrer'' @ [CHR 0x22] @ ''>'')"

lemma html_escape_free: "set (html_escape s) \<inter> {CHR ''<'', CHR ''>'', CHR 0x22, CHR 0x27} = {}"
proof -
  have "set (escape_char c) \<inter> {CHR ''<'', CHR ''>'', CHR 0x22, CHR 0x27} = {}" for c
    by (auto simp: escape_char_def)
  then show ?thesis by (auto simp: html_escape_def)
qed

lemma safe_text_harmless: "harmless ok s \<Longrightarrow> harmless ok (s @ safe_text_html un v)"
  unfolding safe_text_html_def by (rule harmless_text [OF _ html_escape_free])

lemma safe_href_ok: "safe_href un up raw \<noteq> [] \<Longrightarrow> safe_email_url up (safe_href un up raw)"
  by (auto simp: safe_href_def Let_def split: list.splits prod.splits option.splits if_splits)

lemma render_tag_harmless:
  assumes "harmless (safe_email_url up) s"
  shows "harmless (safe_email_url up) (s @ render_tag un up closing name raw)"
proof (cases "name \<in> set safe_elements")
  case True
  show ?thesis
  proof (cases "closing \<or> name \<noteq> ''a'' \<or> safe_href un up raw = []")
    case True2: True
    then show ?thesis using assms True harmless_open [OF assms True] harmless_close [OF assms True]
      by (auto simp: render_tag_def Let_def)
  next
    case False
    then have "s @ render_tag un up closing name raw = s @ ''<a href='' @ [CHR 0x22] @ html_escape (safe_href un up raw) @ [CHR 0x22] @
      '' target='' @ [CHR 0x22] @ ''_blank'' @ [CHR 0x22] @ '' rel='' @ [CHR 0x22] @ ''noopener noreferrer'' @ [CHR 0x22] @ ''>''"
      using True by (simp add: render_tag_def Let_def)
    then show ?thesis using harmless_link [OF assms safe_href_ok, of un raw] False by simp
  qed
qed (use assms in \<open>simp add: render_tag_def\<close>)

lemma round_harmless:
  assumes "harmless (safe_email_url up) out"
  shows "case sanitize_round un up depth s out of
      Inl r \<Rightarrow> harmless (safe_email_url up) r
    | Inr (d, rest, out1) \<Rightarrow> harmless (safe_email_url up) out1"
  using assms by (auto simp: sanitize_round_def Let_def simp del: append_assoc split: option.split
      intro!: safe_text_harmless render_tag_harmless)

lemma loop_harmless:
  "sanitize_loop un up fuel depth s out = Some r \<Longrightarrow> harmless (safe_email_url up) out \<Longrightarrow> harmless (safe_email_url up) r"
proof (induction fuel arbitrary: depth s out)
  case (Suc fuel)
  then show ?case using round_harmless [OF Suc.prems(2), of un depth s]
    by (auto simp: sanitize_loop_round simp del: sanitize_loop.simps split: sum.splits prod.splits)
qed simp

text \<open>
  C21. The HTML filter lets only harmless HTML through, for every input and however it decodes
  entities: what it writes consists of text without brackets and quotes and of tags of the safe
  elements, without any attribute but the address of a link, which is an escaped http or https URL;
  the result is that text, cut to its length limit.
\<close>

theorem sanitize_harmless:
  "\<exists>out. harmless (safe_email_url up) out \<and> sanitize_html un up v = truncate_runes out 200000"
proof -
  obtain out where r: "sanitize_loop un up (Suc (length v)) 0 v [] = Some out" using sanitize_enough by blast
  then have "sanitize_html un up v = truncate_runes out 200000" by (simp add: sanitize_html_def del: sanitize_loop.simps)
  then show ?thesis using loop_harmless [OF r harmless_nil] by blast
qed

section \<open>Codes\<close>

definition code_shape :: "string \<Rightarrow> bool" where
  "code_shape c \<longleftrightarrow> 4 \<le> length c \<and> length c \<le> 10 \<and> list_ex is_digit c"

lemma partner_loop_inv:
  "distinct out \<and> list_all partner_code out \<and> length out < 3 \<Longrightarrow>
   distinct (partner_loop ls out) \<and> list_all partner_code (partner_loop ls out) \<and> length (partner_loop ls out) \<le> 3"
proof (induction ls out rule: partner_loop.induct)
  case (2 line lines out)
  show ?case
  proof (cases "code_heading line")
    case True
    let ?o = "case find (\<lambda>l. trim_space l \<noteq> []) lines of None \<Rightarrow> out
      | Some l \<Rightarrow> (let c = trim_space l in if partner_code c \<and> c \<notin> set out then out @ [c] else out)"
    have o: "distinct ?o \<and> list_all partner_code ?o \<and> length ?o \<le> 3"
      using 2(3) by (auto simp: Let_def split: option.split)
    show ?thesis
    proof (cases "3 \<le> length ?o")
      case False
      then have "partner_loop (line # lines) out = partner_loop lines ?o" using True by (simp add: Let_def)
      then show ?thesis using 2(2) [OF _ refl False] True o False by simp
    next
      case full: True
      then have "partner_loop (line # lines) out = ?o" using True by (simp add: Let_def)
      then show ?thesis using o by simp
    qed
  qed (use 2 in simp)
qed simp

text \<open>A code comes from what a group captured, in upper case.\<close>

definition code_source :: "string \<Rightarrow> bool" where
  "code_source c \<longleftrightarrow> (\<exists>rs. c = trim_space (concat (map upper_rune rs)) \<and> list_all alnum_fold rs \<and> length rs \<le> 10)"

lemma digit_is_alnum: "digit_rune r \<Longrightarrow> alnum_fold r"
proof -
  assume "digit_rune r"
  then obtain c where c: "r = [c]" "is_digit c" by (auto simp: digit_rune_def split: list.splits)
  then have "lower_char c = c" by (auto simp: lower_char_def is_digit_def Let_def)
  then show ?thesis using c by (simp add: alnum_fold_def fold_rune_def to_lower_def)
qed

lemma literal_groups: "groups_in P lo hi (literal rs)"
  by (induction rs) simp_all

lemma code_patterns_groups:
  "groups_in alnum_fold 4 (Some 10) numeric_code_pattern" "groups_in alnum_fold 4 (Some 10) alpha_code_pattern"
  by (simp_all add: numeric_code_pattern_def alpha_code_pattern_def keyword_pattern_def ascii_regex_def literal_groups
      digit_is_alnum)

lemma found_code_source:
  "(m, cap) \<in> set (find_all_string numeric_code_pattern v @ find_all_string alpha_code_pattern v) \<Longrightarrow>
   code_source (trim_space (captured_code cap))"
proof -
  assume "(m, cap) \<in> set (find_all_string numeric_code_pattern v @ find_all_string alpha_code_pattern v)"
  then have "captured_by alnum_fold 4 (Some 10) cap"
    using find_all_captured code_patterns_groups unfolding find_all_string_def by fastforce
  then show ?thesis
    by (cases cap) (auto simp: code_source_def captured_code_def captured_by_def intro: exI [of _ "[]"])
qed

lemma extract_codes_inv:
  assumes "\<And>m cap. (m, cap) \<in> set xs \<Longrightarrow> code_source (trim_space (captured_code cap))"
    and "distinct out \<and> (\<forall>c\<in>set out. code_shape c \<and> code_source c)"
  shows "distinct (fold (\<lambda>(_, cap). add_code (captured_code cap)) xs out) \<and>
    (\<forall>c\<in>set (fold (\<lambda>(_, cap). add_code (captured_code cap)) xs out). code_shape c \<and> code_source c)"
  using assms
proof (induction xs arbitrary: out)
  case (Cons x xs)
  obtain m cap where x: "x = (m, cap)" by (cases x)
  then have "code_source (trim_space (captured_code cap))" using Cons.prems(1) [of m cap] by simp
  then have "distinct (add_code (captured_code cap) out) \<and> (\<forall>c\<in>set (add_code (captured_code cap) out). code_shape c \<and> code_source c)"
    using Cons.prems(2) by (auto simp: add_code_def Let_def code_shape_def)
  then have "distinct (fold (\<lambda>(_, cap). add_code (captured_code cap)) xs (add_code (captured_code cap) out)) \<and>
    (\<forall>c\<in>set (fold (\<lambda>(_, cap). add_code (captured_code cap)) xs (add_code (captured_code cap) out)).
       code_shape c \<and> code_source c)"
    by (intro Cons.IH) (use Cons.prems(1) in auto)
  then show ?case by (simp add: x)
qed simp

text \<open>An example of the second pattern.\<close>

lemma code_example: "extract_codes ''Your code is ab12c'' = [''AB12C'']"
  by code_simp

text \<open>
  Extracted codes are codes: a verification code has four to ten bytes, one of them a digit, is
  the upper-case form of a run of letters and digits that one of the two patterns captured, and appears
  once; a message yields at most three partner codes, different ones of sixteen letters and digits,
  both kinds among them.
\<close>

theorem extracted_codes:
  "distinct (extract_codes v) \<and> (\<forall>c\<in>set (extract_codes v). code_shape c \<and> code_source c) \<and>
   distinct (extract_partner_codes v) \<and> list_all partner_code (extract_partner_codes v) \<and> length (extract_partner_codes v) \<le> 3"
proof -
  have "distinct (extract_codes v) \<and> (\<forall>c\<in>set (extract_codes v). code_shape c \<and> code_source c)"
    unfolding extract_codes_def by (rule extract_codes_inv [OF found_code_source]) simp_all
  then show ?thesis using partner_loop_inv [of "[]"] by (simp add: extract_partner_codes_def)
qed

lemma extracted_codes_witness:
  "extract_codes ''Your code is ab12c'' = [''AB12C''] \<and> code_shape ''AB12C''"
  using extracted_codes [of "''Your code is ab12c''"] code_example by simp

end
