(* ===== verification/MailApps.thy ===== *)
theory MailApps
  imports MailMessages Sql Share Messages
begin

text \<open>
  Which services an address is registered with (\<open>modules/mail/backend/alias_applications.go\<close>): messages
  that a service sends on registration, on login or after it are evidence, and every address has one
  row per service with the state the evidence has led to.

  \<open>mail.ParseAddress\<close> and the rounding of the timestamp columns are arguments. Between the query for a
  row and its insertion another instance may write: what it does to the table is the argument \<open>gap\<close>.
\<close>

section \<open>Classification\<close>

datatype evidence_kind = Registration | Login | Definitive

datatype app_status = Observed | Confirmed

record evidence =
  ev_kind :: evidence_kind
  ev_alias :: string
  ev_uid :: uid
  ev_at :: gotime
  ev_subject :: string
  ev_sender :: string

definition normalize_subject :: "string \<Rightarrow> string" where
  "normalize_subject s = to_lower (str_join (str_fields s) '' '')"

definition trusted_sender :: "(string \<Rightarrow> string option) \<Rightarrow> string \<Rightarrow> bool" where
  "trusted_sender parse_address raw =
     (case parse_address (trim_space raw) of
        None \<Rightarrow> False
      | Some address \<Rightarrow>
          (let (user, domain, ok) = cut_byte (to_lower address) (CHR ''@'') in
           if \<not> ok then False
           else if domain = ''openai.com'' \<or> has_suffix domain ''.openai.com'' then True
           else if domain \<noteq> ''icloud.com'' \<and> domain \<noteq> ''me.com'' \<and> domain \<noteq> ''mac.com'' then False
           else has_prefix user ''otp_at_tm1_openai_com'' \<or> has_prefix user ''noreply_at_tm_openai_com'' \<or>
                has_prefix user ''noreply_at_openai_com''))"

definition subject_kind :: "string \<Rightarrow> evidence_kind option" where
  "subject_kind s =
     (if s \<in> {''your temporary chatgpt verification code'', ''your temporary openai verification code'', subject_ja_code}
      then Some Registration
      else if s \<in> {''your temporary chatgpt login code'', ''your temporary openai login code''} then Some Login
      else if s \<in> {''welcome to chatgpt'', ''your first chat was just the beginning''} then Some Definitive
      else None)"

definition classify_message :: "(string \<Rightarrow> string option) \<Rightarrow> mail_message \<Rightarrow> evidence_kind option" where
  "classify_message parse_address m =
     (if trusted_sender parse_address (mm_from m) then subject_kind (normalize_subject (mm_subject m)) else None)"

definition evidence_time :: "gotime \<Rightarrow> unixtime \<Rightarrow> gotime" where
  "evidence_time now v = (if v \<le> 0 then now else time_from_unix (if v > 1000000000000 then v / 1000 else v))"

section \<open>The state of one address\<close>

definition evidence_follows :: "gotime option \<Rightarrow> uid \<Rightarrow> evidence \<Rightarrow> bool" where
  "evidence_follows detected u e =
     (case detected of None \<Rightarrow> False | Some t \<Rightarrow> t < ev_at e \<or> ev_at e = t \<and> u < ev_uid e)"

text \<open>The next state when it changes; no state yet is \<^const>\<open>None\<close>.\<close>

definition next_status :: "app_status option \<Rightarrow> gotime option \<Rightarrow> uid \<Rightarrow> evidence \<Rightarrow> app_status option" where
  "next_status current detected u e =
     (if current = Some Confirmed then None
      else
        (case ev_kind e of
           Registration \<Rightarrow> if current = None then Some Observed else None
         | Login \<Rightarrow> if current = Some Observed \<and> evidence_follows detected u e then Some Confirmed else None
         | Definitive \<Rightarrow> Some Confirmed))"

record app_row =
  pr_account :: string
  pr_alias :: string
  pr_app :: string
  pr_status :: app_status
  pr_detected :: "gotime option"
  pr_detected_uid :: uid
  pr_detected_subject :: string
  pr_detected_sender :: string
  pr_confirmed :: "gotime option"
  pr_confirmed_uid :: uid
  pr_confirmed_subject :: string
  pr_confirmed_sender :: string

definition app_gpt :: string where "app_gpt = ''gpt''"

definition app_row_for :: "string \<Rightarrow> string \<Rightarrow> app_row \<Rightarrow> bool" where
  "app_row_for acc a r \<longleftrightarrow> pr_account r = acc \<and> pr_alias r = a \<and> pr_app r = app_gpt"

definition fresh_row :: "string \<Rightarrow> string \<Rightarrow> app_status \<Rightarrow> app_row" where
  "fresh_row acc a st = \<lparr>pr_account = acc, pr_alias = a, pr_app = app_gpt, pr_status = st,
     pr_detected = None, pr_detected_uid = 0, pr_detected_subject = [], pr_detected_sender = [],
     pr_confirmed = None, pr_confirmed_uid = 0, pr_confirmed_subject = [], pr_confirmed_sender = []\<rparr>"

definition set_detected :: "(gotime \<Rightarrow> gotime) \<Rightarrow> evidence \<Rightarrow> app_row \<Rightarrow> app_row" where
  "set_detected col e r = r\<lparr>pr_detected := Some (col (ev_at e)), pr_detected_uid := ev_uid e,
     pr_detected_subject := ev_subject e, pr_detected_sender := ev_sender e\<rparr>"

definition set_confirmed :: "(gotime \<Rightarrow> gotime) \<Rightarrow> evidence \<Rightarrow> app_row \<Rightarrow> app_row" where
  "set_confirmed col e r = r\<lparr>pr_confirmed := Some (col (ev_at e)), pr_confirmed_uid := ev_uid e,
     pr_confirmed_subject := ev_subject e, pr_confirmed_sender := ev_sender e\<rparr>"

text \<open>The row a first piece of evidence creates, and what further evidence makes of a row; \<^const>\<open>None\<close>
  when nothing is written.\<close>

definition created_row :: "(gotime \<Rightarrow> gotime) \<Rightarrow> string \<Rightarrow> evidence \<Rightarrow> app_row option" where
  "created_row col acc e =
     (case next_status None None 0 e of
        None \<Rightarrow> None
      | Some st \<Rightarrow>
          Some ((if ev_kind e = Registration then set_detected col e else set_confirmed col e) (fresh_row acc (ev_alias e) st)))"

definition updated_row :: "(gotime \<Rightarrow> gotime) \<Rightarrow> evidence \<Rightarrow> app_row \<Rightarrow> app_row option" where
  "updated_row col e r =
     (case ev_kind e of
        Registration \<Rightarrow>
          (if pr_status r = Confirmed then None
           else
             (case pr_detected r of
                Some t \<Rightarrow> if ev_at e < t then Some (set_detected col e r) else None
              | None \<Rightarrow> Some (set_detected col e r)))
      | _ \<Rightarrow>
          (case next_status (Some (pr_status r)) (pr_detected r) (pr_detected_uid r) e of
             None \<Rightarrow> None
           | Some st \<Rightarrow> Some (set_confirmed col e (r\<lparr>pr_status := st\<rparr>))))"

section \<open>Observing\<close>

type_synonym app_table = "app_row list"

text \<open>The columns account, address and service are unique.\<close>

definition insert_app_row :: "app_row \<Rightarrow> app_table \<Rightarrow> (unit \<times> app_table) option" where
  "insert_app_row r t =
     (if \<exists>x\<in>set t. pr_account x = pr_account r \<and> pr_alias x = pr_alias r \<and> pr_app x = pr_app r
      then None else Some ((), t @ [r]))"

definition replace_app_row :: "app_row \<Rightarrow> app_row \<Rightarrow> app_table \<Rightarrow> app_table" where
  "replace_app_row old new t = map (\<lambda>x. if x = old then new else x) t"

text \<open>One attempt; \<open>conflict\<close> is what happens when the insertion finds the row of another instance.\<close>

definition observe_attempt ::
  "(app_table \<Rightarrow> app_table) \<Rightarrow> (app_table sqldb \<Rightarrow> go_error option \<times> app_table sqldb) \<Rightarrow>
   (gotime \<Rightarrow> gotime) \<Rightarrow> string \<Rightarrow> evidence \<Rightarrow> app_table sqldb \<Rightarrow> go_error option \<times> app_table sqldb" where
  "observe_attempt gap conflict col acc e db =
     (case sql_query (find (app_row_for acc (ev_alias e))) db of
        (None, db1) \<Rightarrow> (Some (Plain ''load alias application state''), db1)
      | (Some None, db1) \<Rightarrow>
          (case created_row col acc e of
             None \<Rightarrow> (None, db1)
           | Some r \<Rightarrow>
               (let db2 = db1\<lparr>tables := gap (tables db1)\<rparr>
                in case sql_run (insert_app_row r) db2 of
                     (Some _, db3) \<Rightarrow> (None, db3)
                   | (None, db3) \<Rightarrow>
                       if insert_app_row r (tables db2) = None then conflict db3
                       else (Some (Plain ''create alias application state''), db3)))
      | (Some (Some r), db1) \<Rightarrow>
          (case updated_row col e r of
             None \<Rightarrow> (None, db1)
           | Some r2 \<Rightarrow>
               (let (ok, db2) = sql_exec (replace_app_row r r2) db1
                in (if ok then None else Some (Plain ''update alias application state''), db2))))"

text \<open>A conflict is retried once.\<close>

definition observe_evidence ::
  "(app_table \<Rightarrow> app_table) \<Rightarrow> (gotime \<Rightarrow> gotime) \<Rightarrow> string \<Rightarrow> evidence \<Rightarrow> app_table sqldb \<Rightarrow> go_error option \<times> app_table sqldb" where
  "observe_evidence gap col acc e =
     observe_attempt gap
       (observe_attempt gap (\<lambda>db. (Some (Plain ''create alias application state''), db)) col acc e) col acc e"

fun observe_all ::
  "(app_table \<Rightarrow> app_table) \<Rightarrow> (gotime \<Rightarrow> gotime) \<Rightarrow> string \<Rightarrow> evidence list \<Rightarrow> app_table sqldb \<Rightarrow> go_error option \<times> app_table sqldb" where
  "observe_all gap col acc [] db = (None, db)"
| "observe_all gap col acc (e # es) db =
     (case observe_evidence gap col acc e db of
        (Some err, db1) \<Rightarrow> (Some err, db1)
      | (None, db1) \<Rightarrow> observe_all gap col acc es db1)"

text \<open>The pieces of evidence in a batch of messages, oldest message first.\<close>

definition older :: "mail_message \<Rightarrow> mail_message \<Rightarrow> bool" where
  "older a b \<longleftrightarrow> (if mm_date a = mm_date b then mm_uid a < mm_uid b else mm_date a < mm_date b)"

definition message_evidence :: "(string \<Rightarrow> string option) \<Rightarrow> gotime \<Rightarrow> mail_message \<Rightarrow> evidence list" where
  "message_evidence parse_address now m =
     (case classify_message parse_address m of
        None \<Rightarrow> []
      | Some k \<Rightarrow>
          map (\<lambda>a. \<lparr>ev_kind = k, ev_alias = a, ev_uid = mm_uid m, ev_at = evidence_time now (mm_date m),
                    ev_subject = truncate_runes (trim_space (mm_subject m)) 500,
                    ev_sender = truncate_runes (trim_space (mm_from m)) 1000\<rparr>)
            (normalize_aliases (elems (mm_aliases m))))"

definition batch_evidence :: "(string \<Rightarrow> string option) \<Rightarrow> gotime \<Rightarrow> mail_message list \<Rightarrow> evidence list" where
  "batch_evidence parse_address now ms = concat (map (message_evidence parse_address now) (go_sort older ms))"

definition observe_messages ::
  "(string \<Rightarrow> string option) \<Rightarrow> gotime \<Rightarrow> (app_table \<Rightarrow> app_table) \<Rightarrow> (gotime \<Rightarrow> gotime) \<Rightarrow> string \<Rightarrow>
   mail_message list \<Rightarrow> app_table sqldb \<Rightarrow> go_error option \<times> app_table sqldb" where
  "observe_messages parse_address now gap col acc ms db = observe_all gap col acc (batch_evidence parse_address now ms) db"

section \<open>Reading, deleting, recovering\<close>

record app_item =
  ai_key :: string
  ai_label :: string
  ai_status :: app_status
  ai_detected :: "unixtime option"
  ai_confirmed :: "unixtime option"

definition app_item_of :: "app_row \<Rightarrow> app_item" where
  "app_item_of r = \<lparr>ai_key = pr_app r, ai_label = ''GPT'', ai_status = pr_status r,
     ai_detected = map_option unix_float (pr_detected r), ai_confirmed = map_option unix_float (pr_confirmed r)\<rparr>"

definition app_row_order :: "app_row \<Rightarrow> app_row \<Rightarrow> bool" where
  "app_row_order a b \<longleftrightarrow> pr_alias a < pr_alias b \<or> pr_alias a = pr_alias b \<and> pr_app a < pr_app b"

text \<open>The answer is a map from addresses; an address without rows has no entry.\<close>

definition list_applications :: "string \<Rightarrow> app_table sqldb \<Rightarrow> (go_error + (string \<Rightarrow> app_item list)) \<times> app_table sqldb" where
  "list_applications acc db =
     (case sql_query (\<lambda>t. go_sort app_row_order (filter (\<lambda>r. pr_account r = acc) t)) db of
        (None, db1) \<Rightarrow> (Inl (Plain ''list alias application states''), db1)
      | (Some rs, db1) \<Rightarrow> (Inr (\<lambda>a. map app_item_of (filter (\<lambda>r. norm_alias (pr_alias r) = a) rs)), db1))"

definition delete_applications :: "string \<Rightarrow> string \<Rightarrow> app_table sqldb \<Rightarrow> bool \<times> app_table sqldb" where
  "delete_applications acc a = sql_exec (filter (\<lambda>r. \<not> (pr_account r = acc \<and> pr_alias r = norm_alias a)))"

definition evidence_subjects :: "string list" where
  "evidence_subjects = [''your temporary chatgpt verification code'', ''your temporary openai verification code'',
     subject_ja_code, ''your temporary chatgpt login code'', ''your temporary openai login code'',
     ''welcome to chatgpt'', ''your first chat was just the beginning'']"

text \<open>At start-up the stored messages with such a subject are observed again. \<open>rows\<close> is the answer of the
  query for the messages of the account, \<^const>\<open>None\<close> if it fails; the columns that are not selected are
  empty.\<close>

definition backfill_messages :: "mail_message list \<Rightarrow> mail_message list" where
  "backfill_messages rows =
     map (\<lambda>m. \<lparr>mm_uid = mm_uid m, mm_aliases = clone_slice (mm_aliases m), mm_from = mm_from m, mm_subject = mm_subject m,
                mm_date = mm_date m, mm_text = [], mm_html = [], mm_codes = None, mm_partner = None\<rparr>)
       (go_sort older (filter (\<lambda>m. \<exists>s\<in>set evidence_subjects. equal_fold (mm_subject m) s) rows))"

definition backfill ::
  "(string \<Rightarrow> string option) \<Rightarrow> gotime \<Rightarrow> (app_table \<Rightarrow> app_table) \<Rightarrow> (gotime \<Rightarrow> gotime) \<Rightarrow> string \<Rightarrow>
   mail_message list option \<Rightarrow> app_table sqldb \<Rightarrow> go_error option \<times> app_table sqldb" where
  "backfill parse_address now gap col acc rows db =
     (case rows of
        None \<Rightarrow> (Some (Plain ''load application evidence messages''), db)
      | Some ms \<Rightarrow> observe_messages parse_address now gap col acc (backfill_messages ms) db)"

end
