(* ===== verification/MailAppsProps.thy ===== *)
theory MailAppsProps
  imports MailApps
begin

text \<open>
  What observing evidence establishes: the state of an address is what its evidence entitles it to,
  and an insertion that collides with another instance loses nothing.
\<close>

section \<open>One row\<close>

text \<open>The effect of one piece of evidence on the row of its address.\<close>

definition apply_evidence :: "(gotime \<Rightarrow> gotime) \<Rightarrow> string \<Rightarrow> evidence \<Rightarrow> app_row option \<Rightarrow> app_row option" where
  "apply_evidence col acc e ro =
     (case ro of
        None \<Rightarrow> created_row col acc e
      | Some r \<Rightarrow> Some (case updated_row col e r of None \<Rightarrow> r | Some r2 \<Rightarrow> r2))"

lemma created_row_for: "created_row col acc e = Some r \<Longrightarrow> app_row_for acc a r \<longleftrightarrow> a = ev_alias e"
  by (auto simp: created_row_def app_row_for_def set_detected_def set_confirmed_def fresh_row_def split: option.splits if_splits)

lemma updated_row_for: "updated_row col e r = Some r2 \<Longrightarrow> app_row_for acc a r2 \<longleftrightarrow> app_row_for acc a r"
  by (auto simp: updated_row_def app_row_for_def set_detected_def set_confirmed_def split: option.splits if_splits evidence_kind.splits)

lemma find_append: "find P (xs @ ys) = (case find P xs of None \<Rightarrow> find P ys | Some x \<Rightarrow> Some x)"
  by (induction xs) auto

lemma find_replaced: "find P t = Some r \<Longrightarrow> P r2 \<Longrightarrow> find P (replace_app_row r r2 t) = Some r2"
  by (induction t) (auto simp: replace_app_row_def split: if_splits)

lemma find_not_replaced: "\<not> P r \<Longrightarrow> \<not> P r2 \<Longrightarrow> find P (replace_app_row r r2 t) = find P t"
  by (induction t) (auto simp: replace_app_row_def)

lemma insert_conflict:
  "created_row col acc e = Some r \<Longrightarrow> insert_app_row r t = None \<longleftrightarrow> find (app_row_for acc (ev_alias e)) t \<noteq> None"
  by (auto simp: insert_app_row_def created_row_def app_row_for_def find_None_iff set_detected_def set_confirmed_def
      fresh_row_def split: option.splits if_splits)

lemma insert_done: "insert_app_row r t \<noteq> None \<Longrightarrow> insert_app_row r t = Some ((), t @ [r])"
  by (auto simp: insert_app_row_def split: if_splits)

section \<open>One observation\<close>

lemma update_attempt:
  assumes "db_up db" and "find (app_row_for acc (ev_alias e)) (tables db) = Some r"
  shows "\<exists>t. observe_attempt gap conflict col acc e db = (None, db\<lparr>tables := t\<rparr>) \<and>
    find (app_row_for acc (ev_alias e)) t = apply_evidence col acc e (Some r) \<and>
    (\<forall>b. b \<noteq> ev_alias e \<longrightarrow> find (app_row_for acc b) t = find (app_row_for acc b) (tables db))"
proof (cases "updated_row col e r")
  case None
  then show ?thesis using assms
    by (auto simp: observe_attempt_def sql_query_up apply_evidence_def intro!: exI [of _ "tables db"])
next
  case (Some r2)
  have r: "app_row_for acc (ev_alias e) r" using assms(2) by (simp add: find_Some_iff) blast
  then have r2: "app_row_for acc (ev_alias e) r2" using updated_row_for [OF Some] by simp
  have "find (app_row_for acc b) (replace_app_row r r2 (tables db)) = find (app_row_for acc b) (tables db)"
    if "b \<noteq> ev_alias e" for b
    by (rule find_not_replaced) (use r r2 that in \<open>auto simp: app_row_for_def\<close>)
  then show ?thesis using assms Some find_replaced [of "app_row_for acc (ev_alias e)", OF assms(2) r2]
    by (auto simp: observe_attempt_def sql_query_up sql_exec_up apply_evidence_def
        intro!: exI [of _ "replace_app_row r r2 (tables db)"])
qed

text \<open>The row that counts in the end: the one found, or the one another instance has put in meanwhile.\<close>

definition row_met :: "(app_table \<Rightarrow> app_table) \<Rightarrow> (gotime \<Rightarrow> gotime) \<Rightarrow> string \<Rightarrow> evidence \<Rightarrow> app_table \<Rightarrow> app_row option" where
  "row_met gap col acc e t =
     (case find (app_row_for acc (ev_alias e)) t of
        Some r \<Rightarrow> Some r
      | None \<Rightarrow> if created_row col acc e = None then None else find (app_row_for acc (ev_alias e)) (gap t))"

lemma observe_evidence_up:
  assumes "db_up db"
  shows "\<exists>t. observe_evidence gap col acc e db = (None, db\<lparr>tables := t\<rparr>) \<and>
    find (app_row_for acc (ev_alias e)) t = apply_evidence col acc e (row_met gap col acc e (tables db))"
proof (cases "find (app_row_for acc (ev_alias e)) (tables db)")
  case (Some r)
  then show ?thesis
    using update_attempt [of db acc e r gap _ col] assms by (fastforce simp: observe_evidence_def row_met_def)
next
  case none: None
  show ?thesis
  proof (cases "created_row col acc e")
    case None
    then show ?thesis using none assms
      by (auto simp: observe_evidence_def observe_attempt_def sql_query_up row_met_def apply_evidence_def
          intro!: exI [of _ "tables db"])
  next
    case (Some n)
    let ?db = "db\<lparr>tables := gap (tables db)\<rparr>" and ?P = "app_row_for acc (ev_alias e)"
    have up: "db_up ?db" using assms by simp
    show ?thesis
    proof (cases "find ?P (gap (tables db))")
      case free: None
      then have i: "insert_app_row n (gap (tables db)) = Some ((), gap (tables db) @ [n])"
        using insert_conflict [OF Some] insert_done by blast
      have "?P n" using created_row_for [OF Some] by simp
      then show ?thesis using none Some free i assms
        by (auto simp: observe_evidence_def observe_attempt_def sql_query_up sql_run_up [OF up] row_met_def
            apply_evidence_def find_append intro!: exI [of _ "gap (tables db) @ [n]"])
    next
      case taken: (Some r)
      let ?again = "observe_attempt gap (\<lambda>db. (Some (Plain ''create alias application state''), db)) col acc e"
      have i: "insert_app_row n (gap (tables db)) = None" using insert_conflict [OF Some] taken by simp
      have "observe_evidence gap col acc e db = ?again ?db"
        using none Some i assms
        by (simp add: observe_evidence_def observe_attempt_def [of gap ?again] sql_query_up sql_run_up [OF up])
      moreover have "row_met gap col acc e (tables db) = Some r" using none Some taken by (simp add: row_met_def)
      ultimately show ?thesis using update_attempt [OF up, of acc e r gap "\<lambda>db. (Some (Plain ''create alias application state''), db)" col] taken
        by auto
    qed
  qed
qed

text \<open>
  A collision with another instance loses nothing. With the database up an observation never
  fails, whatever another instance does to the table between the query and the insertion, and the row
  of the address ends as the evidence makes of the row that was found or put in meanwhile.
\<close>

theorem observe_survives_race:
  assumes "db_up db" and "observe_evidence gap col acc e db = (err, db2)"
  shows "err = None \<and> find (app_row_for acc (ev_alias e)) (tables db2) =
    apply_evidence col acc e (row_met gap col acc e (tables db))"
  using observe_evidence_up [OF assms(1), of gap col acc e] assms(2) by auto

section \<open>A batch\<close>

lemma observe_evidence_other:
  assumes "db_up db" and "b \<noteq> ev_alias e"
  shows "find (app_row_for acc b) (tables (snd (observe_evidence (\<lambda>t. t) col acc e db))) = find (app_row_for acc b) (tables db)"
proof (cases "find (app_row_for acc (ev_alias e)) (tables db)")
  case (Some r)
  obtain t where "observe_evidence (\<lambda>t. t) col acc e db = (None, db\<lparr>tables := t\<rparr>)"
    "find (app_row_for acc b) t = find (app_row_for acc b) (tables db)"
    using update_attempt [OF assms(1) Some] assms(2) unfolding observe_evidence_def by metis
  then show ?thesis by simp
next
  case none: None
  show ?thesis
  proof (cases "created_row col acc e")
    case (Some n)
    then have i: "insert_app_row n (tables db) = Some ((), tables db @ [n])"
      using insert_conflict [OF Some] insert_done none by blast
    have "\<not> app_row_for acc b n" using created_row_for [OF Some] assms(2) by simp
    then show ?thesis using none Some i assms(1)
      by (auto simp: observe_evidence_def observe_attempt_def sql_query_up sql_run_up find_append split: option.split)
  qed (use none assms in \<open>simp add: observe_evidence_def observe_attempt_def sql_query_up\<close>)
qed

lemma observe_all_up:
  "db_up db \<Longrightarrow> \<exists>t. observe_all (\<lambda>t. t) col acc es db = (None, db\<lparr>tables := t\<rparr>) \<and>
    find (app_row_for acc a) t =
      fold (apply_evidence col acc) (filter (\<lambda>e. ev_alias e = a) es) (find (app_row_for acc a) (tables db))"
proof (induction es arbitrary: db)
  case Nil
  then show ?case by (auto intro!: exI [of _ "tables db"])
next
  case (Cons e es)
  obtain t where t: "observe_evidence (\<lambda>t. t) col acc e db = (None, db\<lparr>tables := t\<rparr>)"
    "find (app_row_for acc (ev_alias e)) t = apply_evidence col acc e (row_met (\<lambda>t. t) col acc e (tables db))"
    using observe_evidence_up [OF Cons.prems] by blast
  have met: "row_met (\<lambda>t. t) col acc e (tables db) = find (app_row_for acc (ev_alias e)) (tables db)"
    by (simp add: row_met_def split: option.split)
  have here: "find (app_row_for acc a) t =
      (if ev_alias e = a then apply_evidence col acc e (find (app_row_for acc a) (tables db)) else find (app_row_for acc a) (tables db))"
    using t met observe_evidence_other [OF Cons.prems, of a e acc col] by auto
  have "db_up (db\<lparr>tables := t\<rparr>)" using Cons.prems by simp
  then show ?case using Cons.IH [of "db\<lparr>tables := t\<rparr>"] t(1) here by fastforce
qed

section \<open>What the evidence entitles to\<close>

definition ev_before :: "evidence \<Rightarrow> evidence \<Rightarrow> bool" where
  "ev_before a b \<longleftrightarrow> ev_at a < ev_at b \<or> ev_at a = ev_at b \<and> ev_uid a < ev_uid b"

abbreviation in_time_order :: "evidence list \<Rightarrow> bool" where
  "in_time_order es \<equiv> sorted_wrt (\<lambda>a b. \<not> ev_before b a) es"

text \<open>The reference: confirmed by a definitive message, or by a login that comes after a registration;
  observed by a registration alone.\<close>

definition confirming :: "evidence list \<Rightarrow> bool" where
  "confirming es \<longleftrightarrow> (\<exists>e\<in>set es. ev_kind e = Definitive) \<or>
     (\<exists>r\<in>set es. \<exists>l\<in>set es. ev_kind r = Registration \<and> ev_kind l = Login \<and> ev_before r l)"

definition entitled :: "evidence list \<Rightarrow> app_status option" where
  "entitled es =
     (if confirming es then Some Confirmed
      else if \<exists>e\<in>set es. ev_kind e = Registration then Some Observed else None)"

text \<open>The row after some evidence in order: its state, and the registration it remembers.\<close>

definition row_tracks :: "evidence list \<Rightarrow> app_row option \<Rightarrow> bool" where
  "row_tracks es ro \<longleftrightarrow> map_option pr_status ro = entitled es \<and>
     (\<forall>r. ro = Some r \<longrightarrow> pr_status r = Observed \<longrightarrow>
       (\<exists>f\<in>set es. ev_kind f = Registration \<and> pr_detected r = Some (ev_at f) \<and> pr_detected_uid r = ev_uid f \<and>
          (\<forall>g\<in>set es. ev_kind g = Registration \<longrightarrow> \<not> ev_before g f)))"

lemma confirming_snoc:
  assumes "in_time_order (es @ [e])" and "\<not> confirming es"
  shows "confirming (es @ [e]) \<longleftrightarrow> ev_kind e = Definitive \<or>
    ev_kind e = Login \<and> (\<exists>r\<in>set es. ev_kind r = Registration \<and> ev_before r e)"
proof -
  have "\<not> ev_before e l" if "l \<in> set es" for l using assms(1) that by (simp add: sorted_wrt_append)
  then show ?thesis using assms(2) by (auto simp: confirming_def)
qed

lemma entitled_snoc_confirmed: "confirming es \<Longrightarrow> entitled (es @ [e]) = Some Confirmed"
  by (auto simp: entitled_def confirming_def)

lemma ev_before_trans: "\<not> ev_before g f \<Longrightarrow> ev_before g e \<Longrightarrow> ev_before f e"
  by (auto simp: ev_before_def)

lemma track_confirmed:
  assumes "row_tracks es ro" and "confirming es"
  shows "row_tracks (es @ [e]) (apply_evidence col acc e ro)"
proof -
  obtain r where r: "ro = Some r" "pr_status r = Confirmed" using assms by (auto simp: row_tracks_def entitled_def)
  then have "updated_row col e r = None" by (auto simp: updated_row_def next_status_def split: evidence_kind.split)
  then show ?thesis using r entitled_snoc_confirmed [OF assms(2)] by (simp add: row_tracks_def apply_evidence_def)
qed

lemma track_new:
  assumes "row_tracks es None" and "in_time_order (es @ [e])" and "col (ev_at e) = ev_at e"
  shows "row_tracks (es @ [e]) (apply_evidence col acc e None)"
proof -
  have n: "\<not> confirming es" "\<not> (\<exists>f\<in>set es. ev_kind f = Registration)"
    using assms(1) by (auto simp: row_tracks_def entitled_def split: if_splits)
  then show ?thesis using confirming_snoc [OF assms(2)] assms(3)
    by (cases "ev_kind e")
      (auto simp: row_tracks_def entitled_def apply_evidence_def created_row_def next_status_def set_detected_def
        set_confirmed_def fresh_row_def ev_before_def)
qed

lemma track_observed:
  assumes t: "row_tracks es (Some r)" and s: "pr_status r = Observed" and o: "in_time_order (es @ [e])"
  shows "row_tracks (es @ [e]) (apply_evidence col acc e (Some r))"
proof -
  have n: "\<not> confirming es" using t s by (auto simp: row_tracks_def entitled_def split: if_splits)
  obtain f where f: "f \<in> set es" "ev_kind f = Registration" "pr_detected r = Some (ev_at f)" "pr_detected_uid r = ev_uid f"
    "\<forall>g\<in>set es. ev_kind g = Registration \<longrightarrow> \<not> ev_before g f"
    using t s by (auto simp: row_tracks_def)
  have fe: "\<not> ev_before e f" using o f(1) by (simp add: sorted_wrt_append)
  have login: "(\<exists>g\<in>set es. ev_kind g = Registration \<and> ev_before g e) \<longleftrightarrow> ev_before f e"
    using f ev_before_trans by blast
  show ?thesis
  proof (cases "ev_kind e")
    case Registration
    then have "updated_row col e r = None" using s f(3) fe by (auto simp: updated_row_def ev_before_def)
    then show ?thesis using confirming_snoc [OF o n] Registration f s fe
      by (auto simp: row_tracks_def apply_evidence_def entitled_def)
  next
    case Login
    then have "updated_row col e r = (if ev_before f e then Some (set_confirmed col e (r\<lparr>pr_status := Confirmed\<rparr>)) else None)"
      using s f(3,4) by (auto simp: updated_row_def next_status_def evidence_follows_def ev_before_def)
    then show ?thesis using confirming_snoc [OF o n] Login f s login
      by (auto simp: row_tracks_def apply_evidence_def entitled_def set_confirmed_def)
  next
    case Definitive
    then have "updated_row col e r = Some (set_confirmed col e (r\<lparr>pr_status := Confirmed\<rparr>))"
      using s by (simp add: updated_row_def next_status_def)
    then show ?thesis using confirming_snoc [OF o n] Definitive
      by (simp add: row_tracks_def apply_evidence_def entitled_def set_confirmed_def)
  qed
qed

lemma fold_tracks:
  "in_time_order es \<Longrightarrow> list_all (\<lambda>e. col (ev_at e) = ev_at e) es \<Longrightarrow> row_tracks es (fold (apply_evidence col acc) es None)"
proof (induction es rule: rev_induct)
  case Nil
  then show ?case by (simp add: row_tracks_def entitled_def confirming_def)
next
  case (snoc e es)
  let ?ro = "fold (apply_evidence col acc) es None"
  have "in_time_order es" using snoc.prems(1) by (simp add: sorted_wrt_append)
  then have ih: "row_tracks es ?ro" using snoc by simp
  have "row_tracks (es @ [e]) (apply_evidence col acc e ?ro)"
  proof (cases "confirming es")
    case True
    then show ?thesis by (rule track_confirmed [OF ih])
  next
    case False
    show ?thesis
    proof (cases ?ro)
      case None
      then show ?thesis using track_new [of es e col acc] ih snoc.prems by simp
    next
      case (Some r)
      moreover have "pr_status r = Observed" using ih Some False by (auto simp: row_tracks_def entitled_def split: if_splits)
      ultimately show ?thesis using track_observed [of es r e col acc] ih snoc.prems(1) by simp
    qed
  qed
  then show ?case by simp
qed


section \<open>An address that registers and logs in\<close>

definition demo_evidence :: "evidence_kind \<Rightarrow> uid \<Rightarrow> gotime \<Rightarrow> evidence" where
  "demo_evidence k u t = \<lparr>ev_kind = k, ev_alias = ''a@icloud.com'', ev_uid = u, ev_at = t, ev_subject = ''s'', ev_sender = ''x''\<rparr>"

definition demo_apps :: "app_table sqldb" where "demo_apps = \<lparr>tables = [], script = []\<rparr>"


lemma observe_survives_race_witness:
  "\<exists>db2. observe_evidence (\<lambda>t. fresh_row ''acc'' ''a@icloud.com'' Observed # t) (\<lambda>t. t) ''acc''
      (demo_evidence Definitive 3 9) demo_apps = (None, db2) \<and>
    map_option pr_status (find (app_row_for ''acc'' ''a@icloud.com'') (tables db2)) = Some Confirmed"
proof -
  let ?o = "observe_evidence (\<lambda>t. fresh_row ''acc'' ''a@icloud.com'' Observed # t) (\<lambda>t. t) ''acc'' (demo_evidence Definitive 3 9) demo_apps"
  obtain err db2 where o: "?o = (err, db2)" by (cases ?o)
  have "db_up demo_apps" by (simp add: db_up_def demo_apps_def)
  from observe_survives_race [OF this o] o show ?thesis
    by (simp add: row_met_def demo_apps_def demo_evidence_def created_row_def next_status_def app_row_for_def
        fresh_row_def apply_evidence_def updated_row_def set_confirmed_def)
qed

end
