(* ===== verification/MailSettings.thy ===== *)
theory MailSettings
  imports MailMessages Storage GoErrors
begin

text \<open>
  The settings of a mailbox (\<open>modules/mail/backend/mailbox_settings.go\<close>): what the environment and the
  settings file say, the defaults, the validation of new settings and the choice of what is stored of
  a password. The process environment and the password file are arguments, and so is \<open>net.ParseIP\<close>.
  The Chinese texts of refused settings are the constructors of \<open>settings_fault\<close>.
\<close>

record mail_config =
  cf_username :: string
  cf_password :: string
  cf_host :: string
  cf_mailbox :: string
  cf_port :: int
  cf_poll :: int
  cf_lookback :: int
  cf_cache_max :: int
  cf_enabled :: bool
  cf_source :: string
  cf_stored :: bool

text \<open>\<open>MailboxSettingsInput\<close> and \<open>mailboxStoredConfig\<close> have the same fields.\<close>

record settings_input =
  si_username :: string
  si_password :: string
  si_host :: string
  si_port :: int
  si_mailbox :: string
  si_enabled :: bool
  si_poll :: int
  si_lookback :: int
  si_cache_max :: int

type_synonym stored_config = settings_input

datatype settings_fault =
    UsernameMissing | PasswordMissing | HostInvalid | PortInvalid | MailboxInvalid | CredentialsTooLong
  | PollInvalid | LookbackInvalid | CacheMaxInvalid

section \<open>Environment and defaults\<close>

text \<open>The number \<open>strconv.Atoi\<close> returns, whose error the code ignores: 0 for a text that is no number, the
  nearest 64-bit integer for one that is too large.\<close>

definition unsigned_atoi :: "string \<Rightarrow> nat option" where
  "unsigned_atoi s = (if s \<noteq> [] \<and> list_all is_digit s then Some (digits_val s) else None)"

definition atoi :: "string \<Rightarrow> int" where
  "atoi s =
     (let neg = (s \<noteq> [] \<and> hd s = CHR ''-''); body = (if neg \<or> (s \<noteq> [] \<and> hd s = CHR ''+'') then tl s else s)
      in case unsigned_atoi body of
           None \<Rightarrow> 0
         | Some n \<Rightarrow> if neg then max (- int n) (- (2 ^ 63)) else min (int n) (2 ^ 63 - 1))"

definition env_int :: "(string \<Rightarrow> string) \<Rightarrow> string \<Rightarrow> int" where
  "env_int env name = atoi (trim_space (env name))"

definition env_bool :: "(string \<Rightarrow> string) \<Rightarrow> string \<Rightarrow> bool" where
  "env_bool env name = (let v = trim_space (env name) in v = ''1'' \<or> equal_fold v ''true'')"

definition with_defaults :: "mail_config \<Rightarrow> mail_config" where
  "with_defaults c =
     c\<lparr>cf_host := (if cf_host c = [] then ''imap.mail.me.com'' else cf_host c),
       cf_port := (if cf_port c < 1 \<or> cf_port c > 65535 then 993 else cf_port c),
       cf_mailbox := (if cf_mailbox c = [] then ''INBOX'' else cf_mailbox c),
       cf_poll := (if cf_poll c < 30 \<or> cf_poll c > 86400 then 120 else cf_poll c),
       cf_lookback := (if cf_lookback c < 1 \<or> cf_lookback c > 3650 then 90 else cf_lookback c),
       cf_cache_max := (if cf_cache_max c < 100 \<or> cf_cache_max c > 50000 then 5000 else cf_cache_max c),
       cf_source := (if cf_source c = [] then ''environment'' else cf_source c)\<rparr>"

definition config_from_env :: "(string \<Rightarrow> string) \<Rightarrow> (string \<Rightarrow> string option) \<Rightarrow> mail_config" where
  "config_from_env env read_file =
     (let password = trim_space (env ''HME_IMAP_PASSWORD'');
          file = trim_space (env ''HME_IMAP_PASSWORD_FILE'');
          password = (if password = [] \<and> file \<noteq> []
            then (case read_file file of None \<Rightarrow> password | Some d \<Rightarrow> trim_space d) else password)
      in with_defaults \<lparr>cf_username = trim_space (env ''HME_IMAP_USERNAME''), cf_password = password,
           cf_host = trim_space (env ''HME_IMAP_HOST''), cf_mailbox = trim_space (env ''HME_IMAP_MAILBOX''),
           cf_port = env_int env ''HME_IMAP_PORT'', cf_poll = env_int env ''HME_MAIL_SYNC_POLL_SECONDS'',
           cf_lookback = env_int env ''HME_IMAP_LOOKBACK_DAYS'', cf_cache_max = env_int env ''HME_IMAP_CACHE_MAX_MESSAGES'',
           cf_enabled = env_bool env ''HME_MAIL_SYNC_ENABLED'', cf_source = ''environment'', cf_stored = False\<rparr>)"

text \<open>A settings file that can be read overrides the environment; only its password may stay empty.\<close>

definition apply_stored :: "stored_config \<Rightarrow> mail_config \<Rightarrow> mail_config" where
  "apply_stored st c =
     c\<lparr>cf_username := trim_space (si_username st),
       cf_password := (if si_password st \<noteq> [] then si_password st else cf_password c),
       cf_stored := (si_password st \<noteq> [] \<or> cf_stored c),
       cf_host := trim_space (si_host st), cf_port := si_port st, cf_mailbox := trim_space (si_mailbox st),
       cf_enabled := si_enabled st, cf_poll := si_poll st, cf_lookback := si_lookback st,
       cf_cache_max := si_cache_max st, cf_source := ''saved''\<rparr>"

definition read_config :: "mail_config \<Rightarrow> stored_config cell \<Rightarrow> mail_config \<times> stored_config cell" where
  "read_config env_config f =
     (case cell_read f of
        (Some st, f1) \<Rightarrow> (with_defaults (apply_stored st env_config), f1)
      | (None, f1) \<Rightarrow> (with_defaults env_config, f1))"

section \<open>New settings\<close>

definition host_char :: "char \<Rightarrow> bool" where
  "host_char c \<longleftrightarrow> is_alnum c \<or> c = CHR ''.'' \<or> c = CHR ''-''"

text \<open>The pattern of host names: letters, digits, dots and hyphens, 253 at most, at the ends a letter or
  a digit.\<close>

definition imap_hostname :: "string \<Rightarrow> bool" where
  "imap_hostname h \<longleftrightarrow> h \<noteq> [] \<and> length h \<le> 253 \<and> list_all host_char h \<and> is_alnum (hd h) \<and> is_alnum (last h)"

definition valid_imap_host :: "(string \<Rightarrow> bool) \<Rightarrow> string \<Rightarrow> bool" where
  "valid_imap_host is_ip h \<longleftrightarrow>
     \<not> (h = [] \<or> length h > 253 \<or> set h \<inter> set (''/@ '' @ [CHR 0x5C, CHR 0x09, CHR 0x0D, CHR 0x0A, CHR 0x00]) \<noteq> {}) \<and>
     (is_ip h \<or> CHR '':'' \<notin> set h \<and> imap_hostname h)"

definition icloud_mailbox :: "string \<Rightarrow> bool" where
  "icloud_mailbox u \<longleftrightarrow> (let a = norm_alias u in
     has_suffix a ''@icloud.com'' \<or> has_suffix a ''@me.com'' \<or> has_suffix a ''@mac.com'')"

definition legacy_icloud_host :: "string \<Rightarrow> bool" where
  "legacy_icloud_host h \<longleftrightarrow> equal_fold h ''imap.gmail.com'' \<or> equal_fold h ''imap.icloud.com''"

definition trim_brackets :: "string \<Rightarrow> string" where
  "trim_brackets s = (let p = (\<lambda>c. c = CHR ''['' \<or> c = CHR '']'') in rev (dropWhile p (rev (dropWhile p s))))"

definition settings_check :: "(string \<Rightarrow> bool) \<Rightarrow> settings_input \<Rightarrow> string \<Rightarrow> string \<Rightarrow> string \<Rightarrow> string \<Rightarrow> settings_fault option" where
  "settings_check is_ip i username password host mailbox =
     (if username = [] \<and> si_enabled i then Some UsernameMissing
      else if password = [] \<and> si_enabled i then Some PasswordMissing
      else if \<not> valid_imap_host is_ip host then Some HostInvalid
      else if si_port i < 1 \<or> si_port i > 65535 then Some PortInvalid
      else if mailbox = [] \<or> length mailbox > 255 \<or> set mailbox \<inter> {CHR 0x0D, CHR 0x0A, CHR 0x00} \<noteq> {} then Some MailboxInvalid
      else if length username > 320 \<or> length password > 4096 then Some CredentialsTooLong
      else if si_poll i < 30 \<or> si_poll i > 86400 then Some PollInvalid
      else if si_lookback i < 1 \<or> si_lookback i > 3650 then Some LookbackInvalid
      else if si_cache_max i < 100 \<or> si_cache_max i > 50000 then Some CacheMaxInvalid
      else None)"

definition normalize_settings ::
  "(string \<Rightarrow> bool) \<Rightarrow> settings_input \<Rightarrow> mail_config \<Rightarrow> settings_fault + (mail_config \<times> stored_config)" where
  "normalize_settings is_ip i current =
     (let host = trim_space (trim_brackets (si_host i)); username = trim_space (si_username i);
          mailbox = trim_space (si_mailbox i);
          password = (if si_password i = [] then cf_password current else si_password i)
      in case settings_check is_ip i username password host mailbox of
           Some e \<Rightarrow> Inl e
         | None \<Rightarrow>
             (let host = (if icloud_mailbox username \<and> legacy_icloud_host host then ''imap.mail.me.com'' else host) in
              Inr (\<lparr>cf_username = username, cf_password = password, cf_host = host, cf_mailbox = mailbox, cf_port = si_port i,
                    cf_poll = si_poll i, cf_lookback = si_lookback i, cf_cache_max = si_cache_max i, cf_enabled = si_enabled i,
                    cf_source = ''saved'', cf_stored = False\<rparr>,
                   \<lparr>si_username = username,
                    si_password = (if si_password i = [] \<and> \<not> cf_stored current then [] else password),
                    si_host = host, si_port = si_port i, si_mailbox = mailbox, si_enabled = si_enabled i,
                    si_poll = si_poll i, si_lookback = si_lookback i, si_cache_max = si_cache_max i\<rparr>)))"

definition target_changed :: "mail_config \<Rightarrow> mail_config \<Rightarrow> bool" where
  "target_changed current new \<longleftrightarrow> cf_username current \<noteq> cf_username new \<or> \<not> equal_fold (cf_host current) (cf_host new) \<or>
     cf_port current \<noteq> cf_port new \<or> cf_mailbox current \<noteq> cf_mailbox new"

record settings_view =
  sw_username :: string
  sw_host :: string
  sw_port :: int
  sw_mailbox :: string
  sw_enabled :: bool
  sw_poll :: int
  sw_lookback :: int
  sw_cache_max :: int
  sw_password_configured :: bool
  sw_source :: string

definition view_of_config :: "mail_config \<Rightarrow> settings_view" where
  "view_of_config c = \<lparr>sw_username = cf_username c, sw_host = cf_host c, sw_port = cf_port c, sw_mailbox = cf_mailbox c,
     sw_enabled = cf_enabled c, sw_poll = cf_poll c, sw_lookback = cf_lookback c, sw_cache_max = cf_cache_max c,
     sw_password_configured = (cf_password c \<noteq> []), sw_source = cf_source c\<rparr>"

definition login_configured :: "mail_config \<Rightarrow> bool" where
  "login_configured c \<longleftrightarrow> cf_username c \<noteq> [] \<and> cf_password c \<noteq> []"

section \<open>Bounds\<close>

definition config_bounded :: "mail_config \<Rightarrow> bool" where
  "config_bounded c \<longleftrightarrow> cf_host c \<noteq> [] \<and> cf_mailbox c \<noteq> [] \<and> 1 \<le> cf_port c \<and> cf_port c \<le> 65535 \<and> 30 \<le> cf_poll c \<and>
     cf_poll c \<le> 86400 \<and> 1 \<le> cf_lookback c \<and> cf_lookback c \<le> 3650 \<and> 100 \<le> cf_cache_max c \<and> cf_cache_max c \<le> 50000"

lemma with_defaults_bounded [simp]: "config_bounded (with_defaults c)"
  by (simp add: config_bounded_def with_defaults_def)

lemma with_defaults_id: "config_bounded c \<Longrightarrow> cf_source c \<noteq> [] \<Longrightarrow> with_defaults c = c"
  by (cases c) (simp add: config_bounded_def with_defaults_def)

lemma read_config_bounded: "config_bounded (fst (read_config e f))"
  by (simp add: read_config_def split: option.split prod.split)

lemma settings_check_bounds:
  "settings_check is_ip i u p h m = None \<Longrightarrow> h \<noteq> [] \<and> m \<noteq> [] \<and> 1 \<le> si_port i \<and> si_port i \<le> 65535 \<and> 30 \<le> si_poll i \<and>
    si_poll i \<le> 86400 \<and> 1 \<le> si_lookback i \<and> si_lookback i \<le> 3650 \<and> 100 \<le> si_cache_max i \<and> si_cache_max i \<le> 50000"
  by (simp add: settings_check_def valid_imap_host_def split: if_splits)

lemma normalize_settings_done:
  assumes "normalize_settings is_ip i current = Inr (c, st)"
  shows "config_bounded c"
proof -
  have n: "settings_check is_ip i (trim_space (si_username i)) (if si_password i = [] then cf_password current else si_password i)
      (trim_space (trim_brackets (si_host i))) (trim_space (si_mailbox i)) = None" (is "?check = None")
    using assms by (cases ?check) (simp_all add: normalize_settings_def Let_def)
  then have "cf_host c \<noteq> [] \<and> cf_mailbox c = trim_space (si_mailbox i) \<and> cf_port c = si_port i \<and> cf_poll c = si_poll i \<and>
      cf_lookback c = si_lookback i \<and> cf_cache_max c = si_cache_max i"
    using assms settings_check_bounds [OF n] n by (auto simp: normalize_settings_def Let_def split: if_splits)
  then show ?thesis using settings_check_bounds [OF n] by (simp add: config_bounded_def)
qed

lemma mail_host_trimmed: "trim_space ''imap.mail.me.com'' = ''imap.mail.me.com''"
  by code_simp

lemma stored_view:
  "normalize_settings is_ip i current = Inr (c, st) \<Longrightarrow> view_of_config (apply_stored st e)\<lparr>sw_password_configured := p\<rparr> =
    (view_of_config c)\<lparr>sw_password_configured := p\<rparr>"
  by (auto simp: normalize_settings_def apply_stored_def view_of_config_def Let_def mail_host_trimmed
      split: option.splits if_splits)

text \<open>
  Accepted settings are what the next reading of the settings file yields: in bounds, and with the
  password of the form, or else the one that was in force, wherever it came from.
\<close>

theorem settings_roundtrip:
  assumes "cell_ok f" and "\<not> cf_stored e"
    and "normalize_settings is_ip i (fst (read_config e f)) = Inr (c, st)"
    and "again = fst (read_config e (f\<lparr>cell_doc := Some st\<rparr>))"
  shows "config_bounded c \<and> view_of_config again = view_of_config c \<and> cf_password again = cf_password c"
proof -
  have b: "config_bounded c" using normalize_settings_done [OF assms(3)] by simp
  let ?cur = "fst (read_config e f)" and ?a = "apply_stored st e"
  have cur: "cf_stored ?cur \<longrightarrow> cf_password ?cur \<noteq> []" "\<not> cf_stored ?cur \<longrightarrow> cf_password ?cur = cf_password e"
    using assms(1,2) by (auto simp: read_config_def cell_read_ok with_defaults_def apply_stored_def split: option.split)
  have p: "cf_password ?a = cf_password c"
    using assms(3) cur
    by (cases "si_password i = []") (auto simp: normalize_settings_def apply_stored_def Let_def split: option.splits if_splits)
  have v: "view_of_config ?a = view_of_config c"
    using stored_view [OF assms(3), where e = e and p = "cf_password c \<noteq> []"] p by (simp add: view_of_config_def)
  then have "config_bounded ?a" using b by (simp add: config_bounded_def view_of_config_def)
  moreover have "cf_source ?a \<noteq> []" by (simp add: apply_stored_def)
  ultimately have "with_defaults ?a = ?a" by (rule with_defaults_id)
  then show ?thesis using b v p assms(1,4) by (simp add: read_config_def cell_read_ok)
qed

end
