(* ===== verification/MailFetch.thy ===== *)
theory MailFetch
  imports MailText MailRepo MailSettings Messages
begin

text \<open>
  Fetching from the IMAP server (\<open>fetchIMAPWithClient\<close> and what it calls in
  \<open>modules/mail/backend/mailbox.go\<close>). The server is the argument: the UIDVALIDITY of the selected mailbox,
  its messages, and a script of the errors its coming commands answer with. A message is its identifier,
  the day the server received it, its recipient header and its parsed text, which may be unreadable.
\<close>

record imap_mail =
  im_uid :: uid
  im_day :: int
  im_header :: "mail_header option"
  im_raw :: "raw_mail option"

record imap_box =
  ib_validity :: uid
  ib_mails :: "imap_mail list"
  ib_faults :: "go_error option list"

text \<open>One command: its error if it has one.\<close>

definition imap_command :: "imap_box \<Rightarrow> go_error option \<times> imap_box" where
  "imap_command b =
     (case ib_faults b of [] \<Rightarrow> (None, b) | f # fs \<Rightarrow> (f, b\<lparr>ib_faults := fs\<rparr>))"

section \<open>Searching\<close>

text \<open>The range \<open>n:*\<close> of RFC 3501 contains the last message even if its identifier is smaller.\<close>

definition in_uid_range :: "uid \<Rightarrow> imap_mail list \<Rightarrow> imap_mail \<Rightarrow> bool" where
  "in_uid_range lo mails m \<longleftrightarrow> lo \<le> im_uid m \<or> list_all (\<lambda>x. im_uid x \<le> im_uid m) mails"

definition search_from :: "uid \<Rightarrow> imap_box \<Rightarrow> uid list" where
  "search_from lo b = map im_uid (filter (in_uid_range lo (ib_mails b)) (ib_mails b))"

definition search_since :: "int \<Rightarrow> imap_box \<Rightarrow> uid list" where
  "search_since day b = map im_uid (filter (\<lambda>m. day \<le> im_day m) (ib_mails b))"

definition sort_uids :: "uid list \<Rightarrow> uid list" where
  "sort_uids us = go_sort (\<lambda>a b. a < b) us"

definition highest_uid :: "uid \<Rightarrow> uid list \<Rightarrow> uid" where
  "highest_uid after us = fold (\<lambda>u h. if h < u then u else h) us after"

section \<open>Reading messages\<close>

definition fetch_size :: nat where "fetch_size = 200"

definition mails_with :: "uid list \<Rightarrow> imap_box \<Rightarrow> imap_mail list" where
  "mails_with us b = filter (\<lambda>m. im_uid m \<in> set us) (ib_mails b)"

type_synonym html_tools = "(string \<Rightarrow> string) \<times> (string \<Rightarrow> (string \<times> string) option)"

text \<open>The messages of a batch that are readable and reach an allowed address.\<close>

definition parse_batch :: "html_tools \<Rightarrow> unixtime \<Rightarrow> string list \<Rightarrow> imap_mail list \<Rightarrow> mail_message list" where
  "parse_batch tools now aliases mails =
     filter (\<lambda>m. elems (mm_aliases m) \<noteq> [])
       (List.map_filter (\<lambda>x. parse_mail (fst tools) (snd tools) now (im_uid x) (im_raw x) (map norm_alias aliases)) mails)"

definition fetch_batch ::
  "html_tools \<Rightarrow> unixtime \<Rightarrow> uid list \<Rightarrow> string list \<Rightarrow> imap_box \<Rightarrow> (go_error + mail_message list) \<times> imap_box" where
  "fetch_batch tools now us aliases b =
     (if us = [] then (Inr [], b)
      else
        (case imap_command b of
           (Some e, b1) \<Rightarrow> (Inl (Wrapped msg_imap_fetch e), b1)
         | (None, b1) \<Rightarrow> (Inr (go_sort newer (parse_batch tools now aliases (mails_with us b))), b1)))"

section \<open>The first synchronisation\<close>

text \<open>The mailbox is scanned backwards in ranges of 200.\<close>

fun ranges_below :: "nat \<Rightarrow> (nat \<times> nat) list" where
  "ranges_below e = (if e = 0 then [] else (e - 200, e) # ranges_below (e - 200))"

declare ranges_below.simps [simp del]

definition initial_ranges :: "int \<Rightarrow> (nat \<times> nat) list" where
  "initial_ranges n = ranges_below (nat n)"

definition fetch_headers ::
  "uid list \<Rightarrow> string list \<Rightarrow> imap_box \<Rightarrow> (go_error + (uid \<times> string list) list) \<times> imap_box" where
  "fetch_headers us allowed b =
     (if us = [] then (Inr [], b)
      else
        (case imap_command b of
           (Some e, b1) \<Rightarrow> (Inl (Wrapped msg_imap_headers e), b1)
         | (None, b1) \<Rightarrow>
             (Inr (List.map_filter (\<lambda>m. case im_header m of
                 None \<Rightarrow> None
               | Some h \<Rightarrow> (let as = matching_aliases h allowed in if as = [] then None else Some (im_uid m, as)))
               (mails_with us b)), b1)))"

text \<open>The addresses of a header that still need messages.\<close>

definition needed_aliases :: "(string \<Rightarrow> nat) \<Rightarrow> string list \<Rightarrow> string list" where
  "needed_aliases counts as = dedup_from {} (filter (\<lambda>a. a \<noteq> [] \<and> counts a < max_per_alias) (map norm_alias as))"

definition count_up :: "string list \<Rightarrow> (string \<Rightarrow> nat) \<Rightarrow> string \<Rightarrow> nat" where
  "count_up as counts = (\<lambda>a. if a \<in> set as then Suc (counts a) else counts a)"

fun select_headers ::
  "int \<Rightarrow> uid list \<Rightarrow> (string \<Rightarrow> nat) \<Rightarrow> (uid \<times> string list) list \<Rightarrow> uid list \<times> (string \<Rightarrow> nat)" where
  "select_headers maximum selected counts [] = (selected, counts)"
| "select_headers maximum selected counts ((u, as) # hs) =
     (let need = needed_aliases counts as in
      if need = [] then select_headers maximum selected counts hs
      else
        (let selected1 = selected @ [u]; counts1 = count_up need counts in
         if maximum \<le> int (length selected1) then (selected1, counts1)
         else select_headers maximum selected1 counts1 hs))"

definition append_candidates ::
  "int \<Rightarrow> uid list \<Rightarrow> (string \<Rightarrow> nat) \<Rightarrow> (uid \<times> string list) list \<Rightarrow> uid list \<times> (string \<Rightarrow> nat)" where
  "append_candidates maximum selected counts hs =
     (if maximum < 1 \<or> maximum \<le> int (length selected) then (selected, counts)
      else select_headers maximum selected counts (go_sort (\<lambda>a b. fst b < fst a) hs))"

definition counts_complete :: "(string \<Rightarrow> nat) \<Rightarrow> string list \<Rightarrow> bool" where
  "counts_complete counts aliases \<longleftrightarrow> list_all (\<lambda>a. max_per_alias \<le> counts a) aliases"

fun scan_ranges ::
  "uid list \<Rightarrow> string list \<Rightarrow> int \<Rightarrow> uid list \<Rightarrow> (string \<Rightarrow> nat) \<Rightarrow> (nat \<times> nat) list \<Rightarrow> imap_box \<Rightarrow>
   (go_error + uid list) \<times> imap_box" where
  "scan_ranges us allowed maximum selected counts [] b = (Inr selected, b)"
| "scan_ranges us allowed maximum selected counts ((s, e) # rs) b =
     (case fetch_headers (drop s (take e us)) allowed b of
        (Inl err, b1) \<Rightarrow> (Inl err, b1)
      | (Inr hs, b1) \<Rightarrow>
          (let (selected1, counts1) = append_candidates maximum selected counts hs in
           if maximum \<le> int (length selected1) \<or> counts_complete counts1 allowed then (Inr selected1, b1)
           else scan_ranges us allowed maximum selected1 counts1 rs b1))"

fun fetch_batches ::
  "html_tools \<Rightarrow> unixtime \<Rightarrow> string list \<Rightarrow> uid list list \<Rightarrow> mail_message list \<Rightarrow> imap_box \<Rightarrow>
   (go_error + mail_message list) \<times> imap_box" where
  "fetch_batches tools now aliases [] ms b = (Inr ms, b)"
| "fetch_batches tools now aliases (us # uss) ms b =
     (case fetch_batch tools now us aliases b of
        (Inl e, b1) \<Rightarrow> (Inl e, b1)
      | (Inr new, b1) \<Rightarrow> fetch_batches tools now aliases uss (ms @ new) b1)"

definition initial_maximum :: "mail_config \<Rightarrow> int" where
  "initial_maximum cfg = (if cf_cache_max cfg < 1 then int (max_recent * 10) else cf_cache_max cfg)"

definition fetch_initial ::
  "html_tools \<Rightarrow> unixtime \<Rightarrow> mail_config \<Rightarrow> string list \<Rightarrow> uid list \<Rightarrow> imap_box \<Rightarrow> (go_error + mail_message list) \<times> imap_box" where
  "fetch_initial tools now cfg aliases us b =
     (let allowed = normalize_aliases aliases in
      if allowed = [] then (Inr [], b)
      else
        (case scan_ranges us allowed (initial_maximum cfg) [] (\<lambda>a. 0) (initial_ranges (int (length us))) b of
           (Inl e, b1) \<Rightarrow> (Inl e, b1)
         | (Inr selected, b1) \<Rightarrow>
             (case fetch_batches tools now allowed (chunks fetch_size selected) [] b1 of
                (Inl e, b2) \<Rightarrow> (Inl e, b2)
              | (Inr ms, b2) \<Rightarrow> (Inr (go_sort newer ms), b2))))"

section \<open>A synchronisation's fetch\<close>

definition incremental :: "uid \<Rightarrow> uid \<Rightarrow> uid \<Rightarrow> bool" where
  "incremental previous validity after \<longleftrightarrow> previous = validity \<and> 0 < after \<and> after < - 1"

text \<open>What was found: the messages, the UIDVALIDITY, and the identifier up to which the mailbox has been
  seen. \<open>today\<close> is the number of the current day.\<close>

definition fetch_found ::
  "html_tools \<Rightarrow> unixtime \<Rightarrow> mail_config \<Rightarrow> string list \<Rightarrow> uid \<Rightarrow> uid list \<Rightarrow> imap_box \<Rightarrow>
   (go_error + mail_message list \<times> uid) \<times> imap_box" where
  "fetch_found tools now cfg aliases after us b =
     (let us = sort_uids us; highest = highest_uid after us in
      if us = [] then (Inr ([], highest), b)
      else if after = 0 then apfst (map_sum id (\<lambda>ms. (ms, highest))) (fetch_initial tools now cfg aliases us b)
      else
        (let (us, highest) = (if length us > fetch_size then (take fetch_size us, last (take fetch_size us)) else (us, highest))
         in apfst (map_sum id (\<lambda>ms. (ms, highest))) (fetch_batch tools now us aliases b)))"

definition fetch_imap ::
  "html_tools \<Rightarrow> unixtime \<Rightarrow> int \<Rightarrow> mail_config \<Rightarrow> string list \<Rightarrow> uid \<Rightarrow> uid \<Rightarrow> imap_box \<Rightarrow>
   (go_error + mail_message list \<times> uid \<times> uid) \<times> imap_box" where
  "fetch_imap tools now today cfg aliases previous after b =
     (case imap_command b of
        (Some e, b1) \<Rightarrow> (Inl (Wrapped msg_imap_select e), b1)
      | (None, b1) \<Rightarrow>
          (let inc = incremental previous (ib_validity b) after; after = (if inc then after else 0) in
           case imap_command b1 of
             (Some e, b2) \<Rightarrow> (Inl (Wrapped msg_imap_search e), b2)
           | (None, b2) \<Rightarrow>
               apfst (map_sum id (\<lambda>(ms, highest). (ms, ib_validity b, highest)))
                 (fetch_found tools now cfg aliases after
                    (if inc then search_from (after + 1) b else search_since (today - cf_lookback cfg) b) b2)))"

end
