(* ===== verification/MailSync.thy ===== *)
theory MailSync
  imports MailBackend MailFetch MailApps
begin

text \<open>
  The mailbox service (\<open>MailboxService\<close> of \<open>modules/mail/backend/mailbox.go\<close>): its cached copy of the
  stored mailbox, the reads of the web interface, hiding messages, new settings, and synchronisation.

  \<open>mu\<close> protects the state, \<open>syncMu\<close> lets one synchronisation, clearing or change of settings run at a
  time. A synchronisation releases \<open>mu\<close> while it talks to the server, so it is two functions,
  \<open>sync_begin\<close> and \<open>sync_commit\<close>, and other operations can come between them.

  \<open>sha\<close> is SHA-256 as hexadecimal text. The loop over the requested messages of a batch runs over a Go
  map; its order is an argument.
\<close>

datatype sync_record = SyncFailed string | SyncDone int | SyncRecovered int

record mail_service =
  sv_account :: string
  sv_env :: mail_config
  sv_settings :: "stored_config cell"
  sv_repo :: mail_repo
  sv_last :: mailbox_cache
  sv_loaded :: bool
  sv_load_err :: "go_error option"
  sv_apps :: "app_table sqldb option"
  sv_running :: bool
  sv_mode :: string
  sv_wake :: bool
  sv_notices :: nat
  sv_target :: "string option"
  sv_log_state :: string
  sv_logs :: "sync_record list option"

section \<open>Reading and writing the stored mailbox\<close>

definition service_config :: "mail_service \<Rightarrow> mail_config \<times> mail_service" where
  "service_config s = (let (c, f) = read_config (sv_env s) (sv_settings s) in (c, s\<lparr>sv_settings := f\<rparr>))"

definition storage_error_text :: "go_error \<Rightarrow> string" where
  "storage_error_text e = msg_mail_store_prefix @ safe_error_text e"

definition unread_status :: "go_error \<Rightarrow> mailbox_status" where
  "unread_status e = empty_status\<lparr>ms_last_error := storage_error_text e\<rparr>"

definition unread_cache :: "go_error \<Rightarrow> mailbox_cache" where
  "unread_cache e = empty_cache\<lparr>mc_status := unread_status e\<rparr>"

definition load_cache :: "mail_service \<Rightarrow> mailbox_cache \<times> mail_service" where
  "load_cache s =
     (case repo_load (sv_repo s) of
        (Inl e, r) \<Rightarrow> (if sv_loaded s then sv_last s else unread_cache e, s\<lparr>sv_repo := r, sv_load_err := Some e\<rparr>)
      | (Inr (c, _), r) \<Rightarrow> (c, s\<lparr>sv_repo := r, sv_last := c, sv_loaded := True, sv_load_err := None\<rparr>))"

definition state_part :: "mailbox_cache \<Rightarrow> mailbox_cache" where
  "state_part c = c\<lparr>mc_messages := [], mc_hidden := []\<rparr>"

text \<open>Loading the state alone. A new generation makes the copy in memory worthless.\<close>

definition load_state :: "mail_service \<Rightarrow> mailbox_cache \<times> mail_service" where
  "load_state s =
     (case repo_load_state (sv_repo s) of
        (Inl e, r) \<Rightarrow> (if sv_loaded s then state_part (sv_last s) else unread_cache e, s\<lparr>sv_repo := r, sv_load_err := Some e\<rparr>)
      | (Inr (st, _), r) \<Rightarrow>
          (let s = s\<lparr>sv_repo := r, sv_load_err := None\<rparr> in
           (st, if \<not> sv_loaded s then s
                else if ms_generation (mc_status (sv_last s)) \<noteq> ms_generation (mc_status st) then s\<lparr>sv_last := st, sv_loaded := False\<rparr>
                else s\<lparr>sv_last := with_state st (sv_last s)\<rparr>)))"

definition save_cache :: "mailbox_cache \<Rightarrow> mail_service \<Rightarrow> go_error option \<times> mail_service" where
  "save_cache c s =
     (case repo_save c (sv_repo s) of
        (Some e, r) \<Rightarrow> (Some e, s\<lparr>sv_repo := r\<rparr>)
      | (None, r) \<Rightarrow> (None, s\<lparr>sv_repo := r, sv_last := c, sv_loaded := True\<rparr>))"

definition save_state :: "mailbox_cache \<Rightarrow> mail_service \<Rightarrow> go_error option \<times> mail_service" where
  "save_state c s =
     (case repo_save_state c (sv_repo s) of
        (Some e, r) \<Rightarrow> (Some e, s\<lparr>sv_repo := r\<rparr>)
      | (None, r) \<Rightarrow> (None, s\<lparr>sv_repo := r, sv_last := (if sv_loaded s then with_state c (sv_last s) else sv_last s)\<rparr>))"

definition notify_revision :: "mail_service \<Rightarrow> mail_service" where
  "notify_revision s = s\<lparr>sv_notices := Suc (sv_notices s)\<rparr>"

definition request_sync :: "mail_service \<Rightarrow> mail_service" where
  "request_sync s = s\<lparr>sv_wake := True\<rparr>"

definition set_worker_state :: "bool \<Rightarrow> string \<Rightarrow> mail_service \<Rightarrow> mail_service" where
  "set_worker_state running mode s = s\<lparr>sv_running := running, sv_mode := mode\<rparr>"

section \<open>Status and reads\<close>

definition status_with_config :: "mailbox_status \<Rightarrow> mail_config \<Rightarrow> mail_service \<Rightarrow> mailbox_status" where
  "status_with_config st cfg s =
     st\<lparr>ms_configured := login_configured cfg, ms_enabled := cf_enabled cfg, ms_host := cf_host cfg, ms_port := cf_port cfg,
        ms_mailbox := cf_mailbox cfg, ms_running := sv_running s, ms_mode := sv_mode s\<rparr>"

definition service_status :: "mail_service \<Rightarrow> mailbox_status \<times> mail_service" where
  "service_status s =
     (let (c, s) = load_state s; (cfg, s) = service_config s in (status_with_config (mc_status c) cfg s, s))"

record 'm mail_answer =
  ma_configured :: bool
  ma_alias :: string
  ma_messages :: 'm
  ma_sync :: mailbox_status

definition service_messages ::
  "string \<Rightarrow> int \<Rightarrow> bool \<Rightarrow> mail_service \<Rightarrow> mail_message list mail_answer \<times> mail_service" where
  "service_messages a n detailed s =
     (let (c, s) = load_state s; (cfg, s) = service_config s;
          st = status_with_config (mc_status c) cfg s; a = norm_alias a in
      (case repo_list_alias (ms_generation st) a n detailed (sv_repo s) of
         (Inl e, r) \<Rightarrow>
           (\<lparr>ma_configured = login_configured cfg, ma_alias = a, ma_messages = [], ma_sync = st\<lparr>ms_last_error := storage_error_text e\<rparr>\<rparr>,
            s\<lparr>sv_repo := r, sv_load_err := Some e\<rparr>)
       | (Inr ms, r) \<Rightarrow>
           (\<lparr>ma_configured = login_configured cfg, ma_alias = a, ma_messages = ms, ma_sync = st\<rparr>, s\<lparr>sv_repo := r\<rparr>)))"

text \<open>The messages of the last 72 hours; \<open>now\<close> is in whole seconds.\<close>

definition service_recent :: "int \<Rightarrow> int \<Rightarrow> mail_service \<Rightarrow> (mail_message list \<times> mailbox_status) \<times> mail_service" where
  "service_recent now n s =
     (let (c, s) = load_state s; (cfg, s) = service_config s; st = status_with_config (mc_status c) cfg s in
      (case repo_list_recent (ms_generation st) (of_int (now - 72 * 3600)) n (sv_repo s) of
         (Inl e, r) \<Rightarrow> (([], st\<lparr>ms_last_error := storage_error_text e\<rparr>), s\<lparr>sv_repo := r, sv_load_err := Some e\<rparr>)
       | (Inr ms, r) \<Rightarrow> ((ms, st), s\<lparr>sv_repo := r\<rparr>)))"

definition service_message :: "string \<Rightarrow> uid \<Rightarrow> mail_service \<Rightarrow> mail_message option \<times> mail_service" where
  "service_message a u s =
     (let (c, s) = load_state s in
      (case repo_get (ms_generation (mc_status c)) (norm_alias a) u (sv_repo s) of
         (Inl e, r) \<Rightarrow> (None, s\<lparr>sv_repo := r, sv_load_err := Some e\<rparr>)
       | (Inr m, r) \<Rightarrow> (m, s\<lparr>sv_repo := r\<rparr>)))"

text \<open>Waiting for a revision returns at once when the stored one is another; else after the next notice
  or the time limit, in both cases with the status of that moment.\<close>

definition wait_returns :: "int \<Rightarrow> mail_service \<Rightarrow> bool \<times> mail_service" where
  "wait_returns revision s = (let (c, s) = load_state s in (ms_revision (mc_status c) \<noteq> revision, s))"

section \<open>Hiding messages\<close>

record hide_answer =
  ha_alias :: string
  ha_uid :: uid
  ha_already :: bool
  ha_deleted :: nat
  ha_revision :: int

definition version_current :: "uid \<Rightarrow> string \<Rightarrow> mailbox_cache \<Rightarrow> bool" where
  "version_current validity gen c \<longleftrightarrow>
     validity = ms_validity (mc_status c) \<and> gen \<noteq> [] \<and> gen = ms_generation (mc_status c)"

text \<open>The keys of one message that are not hidden yet, in order, added to the hidden list.\<close>

definition hide_message :: "string \<Rightarrow> mail_message \<Rightarrow> string list \<Rightarrow> string list" where
  "hide_message gen m hide =
     hide @ dedup_from (set hide) (map (\<lambda>a. message_key gen a (mm_uid m)) (elems (mm_aliases m)))"

definition bump_revision :: "mailbox_cache \<Rightarrow> mailbox_cache" where
  "bump_revision c = c\<lparr>mc_status := (mc_status c)\<lparr>ms_revision := ms_revision (mc_status c) + 1\<rparr>\<rparr>"

text \<open>Saving the cache with a longer hidden list under a new revision; an unchanged one is not saved.\<close>

definition save_hidden :: "mailbox_cache \<Rightarrow> string list \<Rightarrow> mail_service \<Rightarrow> (go_error + int) \<times> mail_service" where
  "save_hidden c hide s =
     (if hide = mc_hidden c then (Inr (ms_revision (mc_status c)), s)
      else
        (let c1 = bump_revision (c\<lparr>mc_hidden := hide\<rparr>) in
         (case save_cache c1 s of
            (Some e, s) \<Rightarrow> (Inl e, s)
          | (None, s) \<Rightarrow> (Inr (ms_revision (mc_status c1)), notify_revision s))))"

definition service_hide :: "string \<Rightarrow> uid \<Rightarrow> uid \<Rightarrow> string \<Rightarrow> mail_service \<Rightarrow> (go_error + hide_answer) \<times> mail_service" where
  "service_hide a u validity gen s =
     (let (c, s) = load_cache s in
      (case sv_load_err s of
         Some e \<Rightarrow> (Inl (Wrapped msg_mail_read_failed e), s)
       | None \<Rightarrow>
           (if \<not> version_current validity gen c then (Inl (Plain msg_mail_version_changed), s)
            else
              (let a = norm_alias a in
               (case find (\<lambda>m. mm_uid m = u \<and> a \<in> set (elems (mm_aliases m))) (rev (mc_messages c)) of
                  None \<Rightarrow> (Inl (Plain msg_mail_not_found), s)
                | Some m \<Rightarrow>
                    (let hide = hide_message gen m (mc_hidden c); new = length hide - length (mc_hidden c) in
                     (case save_hidden c hide s of
                        (Inl e, s) \<Rightarrow> (Inl e, s)
                      | (Inr revision, s) \<Rightarrow>
                          (Inr \<lparr>ha_alias = a, ha_uid = u, ha_already = (new = 0), ha_deleted = new, ha_revision = revision\<rparr>, s))))))))"

record batch_answer =
  hb_requested :: nat
  hb_unique :: nat
  hb_new :: nat
  hb_already :: nat
  hb_revision :: int

text \<open>The message of an identifier: the last one in the list wins.\<close>

definition message_by_uid :: "mail_message list \<Rightarrow> uid \<Rightarrow> mail_message option" where
  "message_by_uid ms u = find (\<lambda>m. mm_uid m = u) (rev ms)"

definition batch_item_ok :: "mail_message list \<Rightarrow> string \<times> uid \<Rightarrow> bool" where
  "batch_item_ok ms item =
     (case message_by_uid ms (snd item) of
        None \<Rightarrow> False
      | Some m \<Rightarrow> norm_alias (fst item) \<noteq> [] \<and> norm_alias (fst item) \<in> set (elems (mm_aliases m)))"

fun hide_uids :: "string \<Rightarrow> mail_message list \<Rightarrow> uid list \<Rightarrow> string list \<Rightarrow> nat \<Rightarrow> string list \<times> nat" where
  "hide_uids gen ms [] hide new = (hide, new)"
| "hide_uids gen ms (u # us) hide new =
     (case message_by_uid ms u of
        None \<Rightarrow> hide_uids gen ms us hide new
      | Some m \<Rightarrow>
          (let hide1 = hide_message gen m hide
           in hide_uids gen ms us hide1 (if hide1 = hide then new else Suc new)))"

definition service_hide_batch ::
  "(string \<times> uid) list \<Rightarrow> uid \<Rightarrow> string \<Rightarrow> (uid list \<Rightarrow> uid list) \<Rightarrow> mail_service \<Rightarrow> (go_error + batch_answer) \<times> mail_service" where
  "service_hide_batch items validity gen map_order s =
     (let (c, s) = load_cache s in
      (case sv_load_err s of
         Some e \<Rightarrow> (Inl (Wrapped msg_mail_read_failed e), s)
       | None \<Rightarrow>
           (if \<not> version_current validity gen c then (Inl (Plain msg_mail_version_changed), s)
            else if items = [] \<or> length items > 200 then (Inl (Plain msg_mail_batch_size), s)
            else if \<not> list_all (batch_item_ok (mc_messages c)) items then (Inl (Plain msg_mail_batch_unknown), s)
            else
              (let us = dedup_from {} (map snd items);
                   (hide, new) = hide_uids gen (mc_messages c) (map_order us) (mc_hidden c) 0 in
               (case save_hidden c hide s of
                  (Inl e, s) \<Rightarrow> (Inl e, s)
                | (Inr revision, s) \<Rightarrow>
                    (Inr \<lparr>hb_requested = length items, hb_unique = length us, hb_new = new, hb_already = length us - new,
                          hb_revision = revision\<rparr>, s))))))"

section \<open>Clearing and new settings\<close>

definition service_clear :: "mail_service \<Rightarrow> go_error option \<times> mail_service" where
  "service_clear s =
     (let s = request_sync s in
      (case repo_clear (sv_repo s) of
         (Some e, r) \<Rightarrow> (Some e, s\<lparr>sv_repo := r\<rparr>)
       | (None, r) \<Rightarrow> (None, notify_revision (s\<lparr>sv_repo := r, sv_last := empty_cache, sv_loaded := True, sv_load_err := None\<rparr>))))"

definition reset_cache :: "mailbox_cache \<Rightarrow> mailbox_cache" where
  "reset_cache c =
     c\<lparr>mc_messages := [], mc_hidden := [], mc_highest := 0, mc_allowed := [],
       mc_status := (mc_status c)\<lparr>ms_validity := 0, ms_generation := [], ms_last_sync := None, ms_last_error := [],
         ms_revision := ms_revision (mc_status c) + 1\<rparr>\<rparr>"

datatype settings_error = Refused settings_fault | WriteFailed | StorageFailed go_error

definition update_settings :: "(string \<Rightarrow> bool) \<Rightarrow> settings_input \<Rightarrow> mail_service \<Rightarrow> (settings_error + settings_view) \<times> mail_service" where
  "update_settings is_ip i s =
     (let s = request_sync s; (current, s) = service_config s in
      (case normalize_settings is_ip i current of
         Inl e \<Rightarrow> (Inl (Refused e), s)
       | Inr (new, stored) \<Rightarrow>
           (let (ok, f) = cell_write stored (sv_settings s); s = s\<lparr>sv_settings := f\<rparr> in
            if \<not> ok then (Inl WriteFailed, s)
            else
              (let (c, s) = load_cache s in
               (case sv_load_err s of
                  Some e \<Rightarrow> (Inl (StorageFailed (Wrapped msg_mail_read_failed e)), s)
                | None \<Rightarrow>
                    (if \<not> target_changed current new then (Inr (view_of_config new), request_sync s)
                     else
                       (case save_cache (reset_cache c) (s\<lparr>sv_target := None\<rparr>) of
                          (Some e, s) \<Rightarrow> (Inl (StorageFailed e), s)
                        | (None, s) \<Rightarrow> (Inr (view_of_config new), request_sync (notify_revision s)))))))))"

section \<open>Synchronisation\<close>

definition mailbox_generation :: "(string \<Rightarrow> string) \<Rightarrow> mail_config \<Rightarrow> uid \<Rightarrow> string" where
  "mailbox_generation sha cfg validity =
     take 16 (sha (to_lower (cf_host cfg) @ [CHR 0x00] @ cf_username cfg @ [CHR 0x00] @ cf_mailbox cfg @ [CHR 0x00] @ dec (unat validity)))"

record sync_plan =
  sp_cfg :: mail_config
  sp_previous :: uid
  sp_after :: uid
  sp_allowed :: "string list"
  sp_aliases_changed :: bool

text \<open>Stored addresses that are empty are nil, which \<open>reflect.DeepEqual\<close> tells from the empty list that
  \<open>normalizeAliases\<close> returns.\<close>

definition aliases_differ :: "string list \<Rightarrow> string list \<Rightarrow> bool" where
  "aliases_differ stored wanted \<longleftrightarrow> stored \<noteq> wanted \<or> wanted = []"

definition sync_begin :: "string list \<Rightarrow> mail_service \<Rightarrow> ((mailbox_status \<times> go_error) + sync_plan) \<times> mail_service" where
  "sync_begin aliases s =
     (let (cfg, s) = service_config s; (c, s) = load_state s in
      (case sv_load_err s of
         Some e \<Rightarrow> (Inl (unread_status e, e), s)
       | None \<Rightarrow>
           (if \<not> login_configured cfg
            then (Inl ((status_with_config (mc_status c) cfg s)\<lparr>ms_last_error := msg_mail_unconfigured\<rparr>, Plain msg_mail_unconfigured), s)
            else
              (let allowed = normalize_aliases aliases; changed = aliases_differ (mc_allowed c) allowed;
                   plan = \<lparr>sp_cfg = cfg, sp_previous = ms_validity (mc_status c), sp_after = (if changed then 0 else mc_highest c),
                           sp_allowed = allowed, sp_aliases_changed = changed\<rparr> in
               if changed \<or> mc_highest c \<noteq> 0 \<or> ms_generation (mc_status c) = [] then (Inr plan, s)
               else
                 (let (old, s) = (if sv_loaded s then (sv_last s, s) else load_cache s) in
                  (case sv_load_err s of
                     Some e \<Rightarrow> (Inl (unread_status e, e), s)
                   | None \<Rightarrow>
                       (Inr (plan\<lparr>sp_previous := ms_validity (mc_status old),
                                  sp_after := highest_uid 0 (map mm_uid (mc_messages old))\<rparr>), s)))))))"

text \<open>What is written when a fetch has succeeded: the state alone when it found nothing and nothing else
  has changed, or the merged cache.\<close>

definition synced_state :: "sync_plan \<Rightarrow> string \<Rightarrow> uid \<Rightarrow> uid \<Rightarrow> mailbox_cache \<Rightarrow> mailbox_cache" where
  "synced_state plan gen validity highest c =
     c\<lparr>mc_highest := highest, mc_allowed := sp_allowed plan,
       mc_status := (mc_status c)\<lparr>ms_validity := validity, ms_generation := gen, ms_last_error := []\<rparr>\<rparr>"

definition generation_changed :: "string \<Rightarrow> mailbox_cache \<Rightarrow> bool" where
  "generation_changed gen c \<longleftrightarrow> ms_generation (mc_status c) \<noteq> [] \<and> ms_generation (mc_status c) \<noteq> gen"

definition drop_old_generation :: "string \<Rightarrow> mailbox_cache \<Rightarrow> mailbox_cache" where
  "drop_old_generation gen c = (if generation_changed gen c then c\<lparr>mc_messages := [], mc_hidden := [], mc_highest := 0\<rparr> else c)"

definition merged_cache ::
  "sync_plan \<Rightarrow> string list \<Rightarrow> string \<Rightarrow> uid \<Rightarrow> uid \<Rightarrow> mail_message list \<Rightarrow> mailbox_cache \<Rightarrow> mailbox_cache" where
  "merged_cache plan aliases gen validity highest ms c =
     (let merged = merge_messages (mc_messages c) ms aliases (cf_cache_max (sp_cfg plan)) in
      synced_state plan gen validity highest (c\<lparr>mc_messages := merged, mc_hidden := prune_hidden (mc_hidden c) gen merged\<rparr>))"

definition messages_changed :: "mailbox_cache \<Rightarrow> mailbox_cache \<Rightarrow> bool" where
  "messages_changed before after \<longleftrightarrow> clone_messages (mc_messages before) \<noteq> mc_messages after"

definition hidden_changed :: "mailbox_cache \<Rightarrow> mailbox_cache \<Rightarrow> bool" where
  "hidden_changed before after \<longleftrightarrow> mc_hidden before = [] \<or> mc_hidden before \<noteq> mc_hidden after"

text \<open>The evidence for registrations is looked at after the save; its errors are only logged.\<close>

type_synonym app_world = "(string \<Rightarrow> string option) \<times> gotime \<times> (app_table \<Rightarrow> app_table) \<times> (gotime \<Rightarrow> gotime)"

definition observe_applications :: "app_world \<Rightarrow> mail_message list \<Rightarrow> mail_service \<Rightarrow> mail_service" where
  "observe_applications w ms s =
     (case sv_apps s of
        None \<Rightarrow> s
      | Some db \<Rightarrow>
          (if ms = [] then s
           else (case w of (parse, now, gap, col) \<Rightarrow>
             s\<lparr>sv_apps := Some (snd (observe_messages parse now gap col (sv_account s) ms db))\<rparr>)))"

definition stamp_sync :: "mail_config \<Rightarrow> unixtime \<Rightarrow> mail_service \<Rightarrow> mailbox_cache \<Rightarrow> mailbox_cache" where
  "stamp_sync cfg now s c = c\<lparr>mc_status := (status_with_config (mc_status c) cfg s)\<lparr>ms_last_sync := Some now\<rparr>\<rparr>"

definition commit_merge ::
  "app_world \<Rightarrow> string \<Rightarrow> unixtime \<Rightarrow> sync_plan \<Rightarrow> string list \<Rightarrow> mail_message list \<Rightarrow> uid \<Rightarrow> uid \<Rightarrow> mail_service \<Rightarrow>
   (mailbox_status \<times> go_error option) \<times> mail_service" where
  "commit_merge w gen now plan aliases ms validity highest s =
     (let (c, s) = load_cache s in
      (case sv_load_err s of
         Some e \<Rightarrow> ((unread_status e, Some e), s)
       | None \<Rightarrow>
           (let c = stamp_sync (sp_cfg plan) now s c;
                renewed = generation_changed gen c;
                c0 = drop_old_generation gen c;
                c1 = merged_cache plan aliases gen validity highest ms c0;
                changed = (renewed \<or> messages_changed c0 c1);
                c2 = (if changed then bump_revision c1 else c1);
                (err, s) = (if changed \<or> hidden_changed c0 c1 then save_cache c2 s else save_state c2 s)
            in (case err of
                  Some e \<Rightarrow> ((mc_status c2, Some e), s)
                | None \<Rightarrow>
                    (let s = observe_applications w ms s
                     in ((mc_status c2, None), if changed then notify_revision s else s))))))"

definition sync_commit ::
  "app_world \<Rightarrow> (string \<Rightarrow> string) \<Rightarrow> unixtime \<Rightarrow> sync_plan \<Rightarrow> string list \<Rightarrow>
   (go_error + mail_message list \<times> uid \<times> uid) \<Rightarrow> mail_service \<Rightarrow> (mailbox_status \<times> go_error option) \<times> mail_service" where
  "sync_commit w sha now plan aliases fetched s =
     (let (c, s) = load_state s in
      (case sv_load_err s of
         Some e \<Rightarrow> ((unread_status e, Some e), s)
       | None \<Rightarrow>
           (let c = stamp_sync (sp_cfg plan) now s c in
            (case fetched of
               Inl e \<Rightarrow>
                 (let c = c\<lparr>mc_status := (mc_status c)\<lparr>ms_last_error := safe_error_text e\<rparr>\<rparr>; (_, s) = save_state c s
                  in ((mc_status c, Some e), s))
             | Inr (ms, validity, highest) \<Rightarrow>
                 (let gen = mailbox_generation sha (sp_cfg plan) validity in
                  if ms = [] \<and> \<not> sp_aliases_changed plan \<and> \<not> generation_changed gen c
                  then (let c = synced_state plan gen validity highest c; (err, s) = save_state c s in ((mc_status c, err), s))
                  else commit_merge w gen now plan aliases ms validity highest s)))))"

section \<open>The connection\<close>

text \<open>What happens while connecting: the proxy with its revision or its error, whether a kept connection
  still answers, the errors of dialling and of the login, and the revisions read afterwards.\<close>

record connect_world =
  cw_proxy :: "go_error + nat"
  cw_noop_ok :: bool
  cw_dial :: "go_error option"
  cw_login :: "go_error option"
  cw_rev_login :: nat
  cw_rev_kept :: nat

definition connection_target :: "(string \<Rightarrow> string) \<Rightarrow> mail_config \<Rightarrow> nat \<Rightarrow> string" where
  "connection_target sha cfg revision =
     sha (to_lower (cf_host cfg) @ [CHR 0x00] @ dec_int (cf_port cfg) @ [CHR 0x00] @ cf_username cfg @ [CHR 0x00] @
       cf_password cfg @ [CHR 0x00] @ cf_mailbox cfg @ [CHR 0x00] @ dec revision)"

definition imap_login_error :: "mail_config \<Rightarrow> go_error \<Rightarrow> go_error" where
  "imap_login_error cfg e =
     (if icloud_mailbox (cf_username cfg) \<or> equal_fold (cf_host cfg) ''imap.mail.me.com''
      then Wrapped msg_imap_login_icloud e else Wrapped msg_imap_login e)"

definition ensure_connection :: "(string \<Rightarrow> string) \<Rightarrow> connect_world \<Rightarrow> mail_config \<Rightarrow> mail_service \<Rightarrow> go_error option \<times> mail_service" where
  "ensure_connection sha w cfg s =
     (case cw_proxy w of
        Inl e \<Rightarrow> (Some (Wrapped msg_imap_proxy e), s)
      | Inr revision \<Rightarrow>
          (let target = connection_target sha cfg revision in
           if sv_target s = Some target \<and> cw_noop_ok w then (None, s)
           else
             (let s = s\<lparr>sv_target := None\<rparr> in
              (case cw_dial w of
                 Some e \<Rightarrow> (Some (Wrapped msg_imap_tls e), s)
               | None \<Rightarrow>
                   (case cw_login w of
                      Some e \<Rightarrow> (Some (imap_login_error cfg e), s)
                    | None \<Rightarrow>
                        (if cw_rev_login w \<noteq> revision \<or> cw_rev_kept w \<noteq> revision
                         then (Some (Plain msg_imap_proxy_changed), s)
                         else (None, s\<lparr>sv_target := Some target\<rparr>)))))))"

section \<open>A whole synchronisation\<close>

text \<open>The lock shared between instances: not configured or not reachable, obtained, or held elsewhere.\<close>

datatype lock_answer = NoSharedLock | LockObtained | LockBusy

record sync_world =
  yw_tools :: html_tools
  yw_sha :: "string \<Rightarrow> string"
  yw_lock :: lock_answer
  yw_connect :: connect_world
  yw_fetch_now :: unixtime
  yw_today :: int
  yw_now :: unixtime
  yw_apps :: app_world

definition sync_fetch :: "sync_world \<Rightarrow> sync_plan \<Rightarrow> string list \<Rightarrow> imap_box \<Rightarrow> mail_service \<Rightarrow>
    (go_error + mail_message list \<times> uid \<times> uid) \<times> imap_box \<times> mail_service" where
  "sync_fetch w plan aliases b s =
     (case ensure_connection (yw_sha w) (yw_connect w) (sp_cfg plan) s of
        (Some e, s) \<Rightarrow> (Inl e, b, s\<lparr>sv_target := None\<rparr>)
      | (None, s) \<Rightarrow>
          (case fetch_imap (yw_tools w) (yw_fetch_now w) (yw_today w) (sp_cfg plan) aliases (sp_previous plan) (sp_after plan) b of
             (Inl e, b) \<Rightarrow> (Inl e, b, s\<lparr>sv_target := None\<rparr>)
           | (Inr r, b) \<Rightarrow> (Inr r, b, s)))"

definition run_sync :: "sync_world \<Rightarrow> string list \<Rightarrow> imap_box \<Rightarrow> mail_service \<Rightarrow> (mailbox_status \<times> go_error option) \<times> imap_box \<times> mail_service" where
  "run_sync w aliases b s =
     (if yw_lock w = LockBusy
      then (let (st, s) = service_status s in ((st, Some (Plain msg_sync_elsewhere)), b, s))
      else
        (case sync_begin aliases s of
           (Inl (st, e), s) \<Rightarrow> ((st, Some e), b, s)
         | (Inr plan, s) \<Rightarrow>
             (let (fetched, b, s) = sync_fetch w plan aliases b s;
                  (r, s) = sync_commit (yw_apps w) (yw_sha w) (yw_now w) plan aliases fetched s
              in (r, b, s))))"

definition active_addresses :: "(bool option \<times> string) list \<Rightarrow> string list" where
  "active_addresses as = filter (\<lambda>a. a \<noteq> []) (map (\<lambda>(_, a). trim_space a) (filter (\<lambda>(active, _). active \<noteq> Some False) as))"

text \<open>Repeated failures with the same text are logged once, successes when something has changed or after
  a failure.\<close>

definition record_background :: "mailbox_status \<Rightarrow> mailbox_status \<Rightarrow> go_error option \<Rightarrow> mail_service \<Rightarrow> mail_service" where
  "record_background before after err s =
     (case sv_logs s of
        None \<Rightarrow> s
      | Some logs \<Rightarrow>
          (case err of
             Some e \<Rightarrow>
               (let st = ''failure:'' @ safe_error_text e in
                if sv_log_state s = st then s
                else s\<lparr>sv_log_state := st, sv_logs := Some (logs @ [SyncFailed (safe_error_text e)])\<rparr>)
           | None \<Rightarrow>
               (if ms_revision after = ms_revision before \<and> ms_last_error before = [] then s
                else s\<lparr>sv_log_state := ''success'',
                       sv_logs := Some (logs @ [if ms_last_error before \<noteq> [] \<or> has_prefix (sv_log_state s) ''failure:''
                                                then SyncRecovered (ms_revision after) else SyncDone (ms_revision after)])\<rparr>)))"

definition sync_from_session ::
  "sync_world \<Rightarrow> (go_error + (bool option \<times> string) list) \<Rightarrow> imap_box \<Rightarrow> mail_service \<Rightarrow> go_error option \<times> imap_box \<times> mail_service" where
  "sync_from_session w listed b s =
     (let (before, s) = service_status s in
      (case listed of
         Inl e \<Rightarrow> (Some e, b, record_background before before (Some e) s)
       | Inr as \<Rightarrow>
           (let ((after, err), b, s) = run_sync w (active_addresses as) b s
            in (err, b, record_background before after err s))))"

section \<open>The worker\<close>

text \<open>The start of a round: off, or ready to synchronise.\<close>

definition worker_prepare :: "mail_service \<Rightarrow> bool \<times> mail_service" where
  "worker_prepare s =
     (let (cfg, s) = service_config s in
      if \<not> cf_enabled cfg then (False, set_worker_state False ''disabled'' (s\<lparr>sv_target := None\<rparr>))
      else (True, set_worker_state True ''sync'' s))"

definition worker_round ::
  "sync_world \<Rightarrow> (go_error + (bool option \<times> string) list) \<Rightarrow> imap_box \<Rightarrow> mail_service \<Rightarrow> bool \<times> imap_box \<times> mail_service" where
  "worker_round w listed b s =
     (case worker_prepare s of
        (False, s) \<Rightarrow> (False, b, s)
      | (True, s) \<Rightarrow> (let (_, b, s) = sync_from_session w listed b s in (True, b, set_worker_state True ''idle'' s)))"

section \<open>Applications of the addresses\<close>

definition enrich_applications :: "string list \<Rightarrow> mail_service \<Rightarrow> (go_error + app_item list list) \<times> mail_service" where
  "enrich_applications addresses s =
     (case sv_apps s of
        None \<Rightarrow> (Inr (map (\<lambda>a. []) addresses), s)
      | Some db \<Rightarrow>
          (case list_applications (sv_account s) db of
             (Inl e, db) \<Rightarrow> (Inl e, s\<lparr>sv_apps := Some db\<rparr>)
           | (Inr states, db) \<Rightarrow> (Inr (map (\<lambda>a. states (norm_alias a)) addresses), s\<lparr>sv_apps := Some db\<rparr>)))"

definition delete_alias_applications :: "string \<Rightarrow> mail_service \<Rightarrow> bool \<times> mail_service" where
  "delete_alias_applications a s =
     (case sv_apps s of
        None \<Rightarrow> (True, s)
      | Some db \<Rightarrow> (let (ok, db) = delete_applications (sv_account s) a db in (ok, s\<lparr>sv_apps := Some db\<rparr>)))"

end
