(* ===== verification/MailWorker.thy ===== *)
theory MailWorker
  imports MailSync
begin

text \<open>
  The goroutine of the mailbox service and the test of new settings (\<open>modules/mail/backend/mailbox.go\<close>:
  \<open>Start\<close>, \<open>waitForIMAPChange\<close>; \<open>mailbox_settings.go\<close>: \<open>TestSettings\<close>). What the goroutine waits for is
  an event chosen from outside: a notice of the server, a wake-up, the request to stop, the clock.
\<close>

datatype idle_event = MailNotice | WakeUp | StopAsked | TimeUp

text \<open>One wait: the connection, the answers to SELECT and IDLE, the first event, whether IDLE ends in good
  order, and the event that ends the wait after it, if there is one.\<close>

record idle_world =
  iw_connect :: connect_world
  iw_select :: "go_error option"
  iw_idle :: "go_error option"
  iw_event :: idle_event
  iw_end_ok :: bool
  iw_after :: idle_event

definition take_event :: "idle_event \<Rightarrow> mail_service \<Rightarrow> mail_service" where
  "take_event ev s = (if ev = WakeUp then s\<lparr>sv_wake := False\<rparr> else s)"

text \<open>Whether IDLE works, and whether something has changed.\<close>

definition wait_for_change :: "(string \<Rightarrow> string) \<Rightarrow> idle_world \<Rightarrow> mail_config \<Rightarrow> mail_service \<Rightarrow> (bool \<times> bool) \<times> mail_service" where
  "wait_for_change sha w cfg s =
     (if \<not> login_configured cfg then ((False, False), s)
      else
        (case ensure_connection sha (iw_connect w) cfg s of
           (Some _, s) \<Rightarrow> ((False, False), s)
         | (None, s) \<Rightarrow>
             (if iw_select w \<noteq> None then ((False, False), s\<lparr>sv_target := None\<rparr>)
              else if iw_idle w \<noteq> None then ((False, False), s)
              else
                (let changed = (iw_event w = MailNotice \<or> iw_event w = WakeUp); s = take_event (iw_event w) s in
                 if iw_end_ok w then ((True, changed), s) else ((False, changed), s\<lparr>sv_target := None\<rparr>)))))"

text \<open>The second half of a round, true when the loop goes on.\<close>

definition worker_wait :: "(string \<Rightarrow> string) \<Rightarrow> idle_world \<Rightarrow> mail_service \<Rightarrow> bool \<times> mail_service" where
  "worker_wait sha w s =
     (let (cfg, s) = service_config s; s = set_worker_state True ''idle'' s;
          ((supported, changed), s) = wait_for_change sha w cfg s in
      if \<not> supported then (iw_after w \<noteq> StopAsked, take_event (iw_after w) (set_worker_state True ''poll'' s))
      else if changed then (True, s)
      else (iw_after w \<noteq> StopAsked, take_event (iw_after w) s))"

text \<open>A round: synchronise and wait, or wait while the service is switched off. \<open>stop\<close> is whether stopping is
  requested before the round and after the synchronisation.\<close>

definition worker_cycle ::
  "sync_world \<Rightarrow> idle_world \<Rightarrow> bool \<times> bool \<Rightarrow> (go_error + (bool option \<times> string) list) \<Rightarrow> imap_box \<Rightarrow> mail_service \<Rightarrow>
   bool \<times> imap_box \<times> mail_service" where
  "worker_cycle w i stop listed b s =
     (if fst stop then (False, b, s)
      else
        (case worker_prepare s of
           (False, s) \<Rightarrow> (iw_after i \<noteq> StopAsked, b, take_event (iw_after i) s)
         | (True, s) \<Rightarrow>
             (let (_, b, s) = sync_from_session w listed b s in
              if snd stop then (False, b, s)
              else (let (go, s) = worker_wait (yw_sha w) i s in (go, b, s)))))"

text \<open>The goroutine: the backfill once, then rounds until one ends the loop; the argument lists what each
  round meets. At the end the connection is closed.\<close>

fun worker_loop ::
  "(sync_world \<times> idle_world \<times> (bool \<times> bool) \<times> (go_error + (bool option \<times> string) list) \<times> imap_box) list \<Rightarrow> mail_service \<Rightarrow> mail_service" where
  "worker_loop [] s = s"
| "worker_loop ((w, i, stop, listed, b) # rounds) s =
     (case worker_cycle w i stop listed b s of
        (True, _, s) \<Rightarrow> worker_loop rounds s
      | (False, _, s) \<Rightarrow> set_worker_state False ''stopped'' (s\<lparr>sv_target := None\<rparr>))"

definition worker_backfill :: "app_world \<Rightarrow> mail_message list option \<Rightarrow> mail_service \<Rightarrow> mail_service" where
  "worker_backfill w rows s =
     (case sv_apps s of
        None \<Rightarrow> s
      | Some db \<Rightarrow> (case w of (parse, now, gap, col) \<Rightarrow>
          s\<lparr>sv_apps := Some (snd (backfill parse now gap col (sv_account s) rows db))\<rparr>))"

section \<open>Testing settings\<close>

datatype test_error = TestRefused settings_fault | TestIncomplete | TestFailed go_error

definition test_connection :: "connect_world \<Rightarrow> go_error option \<Rightarrow> mail_config \<Rightarrow> go_error option" where
  "test_connection w sel cfg =
     (case cw_proxy w of
        Inl e \<Rightarrow> Some (Wrapped msg_imap_proxy e)
      | Inr _ \<Rightarrow>
          (case cw_dial w of
             Some e \<Rightarrow> Some (Wrapped msg_imap_tls e)
           | None \<Rightarrow>
               (case cw_login w of
                  Some e \<Rightarrow> Some (imap_login_error cfg e)
                | None \<Rightarrow> map_option (Wrapped msg_imap_select) sel)))"

definition test_settings ::
  "(string \<Rightarrow> bool) \<Rightarrow> connect_world \<Rightarrow> go_error option \<Rightarrow> settings_input \<Rightarrow> mail_service \<Rightarrow> test_error option \<times> mail_service" where
  "test_settings is_ip w sel i s =
     (let (current, s) = service_config s in
      (case normalize_settings is_ip i current of
         Inl e \<Rightarrow> (Some (TestRefused e), s)
       | Inr (new, _) \<Rightarrow>
           (if \<not> login_configured new then (Some TestIncomplete, s)
            else (map_option TestFailed (test_connection w sel new), s))))"

section \<open>The worker and the store\<close>

text \<open>Waiting, switching on or off and testing settings touch neither the stored mailbox nor the applications.\<close>

lemma wait_keeps_store:
  "sv_repo (snd (wait_for_change sha w cfg s)) = sv_repo s" "sv_apps (snd (wait_for_change sha w cfg s)) = sv_apps s"
  by (auto simp: wait_for_change_def ensure_connection_def take_event_def Let_def split: sum.split option.split)

lemma worker_wait_store:
  "sv_repo (snd (worker_wait sha w s)) = sv_repo s" "sv_apps (snd (worker_wait sha w s)) = sv_apps s"
  using wait_keeps_store [of sha w]
  by (simp_all add: worker_wait_def service_config_def take_event_def set_worker_state_def Let_def split_beta)

text \<open>
  A wake-up ends every wait: when the wait that follows is ended by a wake-up, or IDLE is and ends in good
  order, the loop goes on at once with the next round.
\<close>

lemma wake_up_resumes:
  assumes "iw_after w = WakeUp \<or> iw_after w \<noteq> StopAsked \<and> iw_event w = WakeUp"
  shows "fst (worker_wait sha w s)"
  using assms by (auto simp: worker_wait_def Let_def split_beta)

end
