(* ===== verification/MailStateStore.thy ===== *)
theory MailStateStore
  imports MailBackend
begin

text \<open>
  The second half of the repository's contract: reading and writing the state of a mailbox without its
  messages, and clearing. The locale \<open>state_store\<close> extends \<open>message_store\<close>; all kinds of repository are
  instances again.
\<close>

locale state_store = message_store +
  fixes load_state :: "'a \<Rightarrow> (go_error + mailbox_cache \<times> bool) \<times> 'a"
    and save_state :: "mailbox_cache \<Rightarrow> 'a \<Rightarrow> go_error option \<times> 'a"
    and clear :: "'a \<Rightarrow> go_error option \<times> 'a"
  assumes load_state_law: "healthy r \<Longrightarrow> load_state r =
      (Inr (case content r of None \<Rightarrow> (empty_cache, False) | Some c \<Rightarrow> (c\<lparr>mc_messages := [], mc_hidden := []\<rparr>, True)), r)"
    and save_state_law: "healthy r \<Longrightarrow> content r = Some c \<Longrightarrow> ms_generation (mc_status st) = ms_generation (mc_status c) \<Longrightarrow>
      fst (save_state st r) = None \<and> healthy (snd (save_state st r)) \<and> content (snd (save_state st r)) = Some (with_state st c)"
    and clear_law: "healthy r \<Longrightarrow> fst (clear r) = None \<and> healthy (snd (clear r)) \<and>
      content (snd (clear r)) \<in> {None, Some empty_cache}"
begin

text \<open>Writing the state changes no message and no hidden key.\<close>

lemma state_only:
  assumes "healthy r" and "content r = Some c" and "ms_generation (mc_status st) = ms_generation (mc_status c)"
  shows "\<exists>d. content (snd (save_state st r)) = Some d \<and> mc_messages d = mc_messages c \<and> mc_hidden d = mc_hidden c \<and>
    mc_status d = mc_status st \<and> mc_highest d = mc_highest st \<and> mc_allowed d = mc_allowed st"
  using save_state_law [OF assms] by (simp add: with_state_def)

text \<open>After clearing the store is as if it were new.\<close>

lemma cleared_loads_empty: "healthy r \<Longrightarrow> fst (load (snd (clear r))) \<in> {Inr (empty_cache, False), Inr (empty_cache, True)}"
  using clear_law [of r] load_law [of "snd (clear r)"] by auto

end

section \<open>The kinds of repository\<close>

lemma file_clear_ok: "cell_ok c \<Longrightarrow> file_clear c = (None, c\<lparr>cell_doc := Some empty_cache\<rparr>)"
  by (simp add: file_clear_def file_save_def cell_write_ok)

interpretation json_state: state_store file_load file_save file_list_alias file_list_recent file_get cell_doc cell_ok
    file_load_state file_save_state file_clear
proof
  fix r :: "mailbox_cache cell" and c st :: mailbox_cache
  assume ok: "cell_ok r"
  show "file_load_state r =
      (Inr (case cell_doc r of None \<Rightarrow> (empty_cache, False) | Some c \<Rightarrow> (c\<lparr>mc_messages := [], mc_hidden := []\<rparr>, True)), r)"
    by (simp add: file_load_state_def file_load_ok [OF ok] empty_cache_def split: option.split)
  show "fst (file_clear r) = None \<and> cell_ok (snd (file_clear r)) \<and> cell_doc (snd (file_clear r)) \<in> {None, Some empty_cache}"
    using ok by (simp add: file_clear_ok)
  assume "cell_doc r = Some c"
  then show "fst (file_save_state st r) = None \<and> cell_ok (snd (file_save_state st r)) \<and>
      cell_doc (snd (file_save_state st r)) = Some (with_state st c)"
    using ok by (simp add: file_save_state_def file_load_ok [OF ok] file_save_def cell_write_ok)
qed

lemma state_of_upsert: "state_of acc (upsert_state (state_row_of acc st) t) = Some (state_row_of acc st)"
proof -
  have "find (\<lambda>r. xr_account r = acc) (filter (\<lambda>x. xr_account x \<noteq> acc) xs @ [state_row_of acc st]) = Some (state_row_of acc st)" for xs
    by (induction xs) (auto simp: state_row_of_def)
  then show ?thesis by (simp add: state_of_def upsert_state_def state_row_of_def)
qed

lemma rows_of_upsert [simp]:
  "rows_of acc g (upsert_state r t) = rows_of acc g t" "hidden_of acc g (upsert_state r t) = hidden_of acc g t"
  "tables_ok acc (upsert_state r t) = tables_ok acc t"
  by (simp_all add: rows_of_def hidden_of_def tables_ok_def upsert_state_def)

lemma tables_content_upsert:
  assumes "tables_content acc t = Some c" and "ms_generation (mc_status st) = ms_generation (mc_status c)"
  shows "tables_content acc (upsert_state (state_row_of acc st) t) = Some (with_state st c)"
proof -
  let ?g = "ms_generation (mc_status st)" and ?full = "\<lambda>t g c. if g = [] then c
    else c\<lparr>mc_messages := clone_messages (rows_of acc g t), mc_hidden := sort_strings (map row_key (hidden_of acc g t))\<rparr>"
  obtain r where r: "state_of acc t = Some r" using assms(1) by (auto simp: tables_content_def)
  have c: "c = ?full t (ms_generation (xr_status r)) (cache_of_state r)"
    using assms(1) r by (simp add: tables_content_def Let_def) (simp add: cache_of_state_def split: if_splits)
  then have "ms_generation (xr_status r) = ?g" using assms(2) by (simp add: cache_of_state_def split: if_splits)
  then have "with_state st c = ?full t ?g (cache_of_state (state_row_of acc st))"
    using c by (simp add: with_state_def cache_of_state_def state_row_of_def)
  then show ?thesis by (simp add: tables_content_def state_of_upsert Let_def) (simp add: cache_of_state_def state_row_of_def)
qed

definition clear_tables :: "string \<Rightarrow> mail_tables \<Rightarrow> mail_tables" where
  "clear_tables acc t = t\<lparr>tb_states := filter (\<lambda>r. xr_account r \<noteq> acc) (tb_states t),
     tb_messages := filter (\<lambda>r. br_account r \<noteq> acc) (tb_messages t), tb_hidden := filter (\<lambda>r. hr_account r \<noteq> acc) (tb_hidden t)\<rparr>"

lemma pg_clear_up:
  assumes "db_up db"
  shows "pg_clear acc db = (None, db\<lparr>tables := clear_tables acc (tables db)\<rparr>)"
proof -
  let ?body = "then_sql (drop_hidden (\<lambda>r. hr_account r = acc)) ''clear mailbox'' (
     then_sql (drop_messages (\<lambda>r. br_account r = acc)) ''clear mailbox'' (
     then_sql (\<lambda>t. t\<lparr>tb_states := filter (\<lambda>r. xr_account r \<noteq> acc) (tb_states t)\<rparr>) ''clear mailbox'' (\<lambda>db. (Inr (), db))))"
  have "?body db = (Inr (), db\<lparr>tables := clear_tables acc (tables db)\<rparr>)"
    using assms by (simp add: then_sql_def sql_exec_up drop_hidden_def drop_messages_def clear_tables_def)
  then show ?thesis using assms sql_tx_up [OF assms, of ?body "Plain ''clear mailbox''"]
    by (simp add: pg_clear_def error_of_def)
qed

lemma state_of_cleared: "state_of acc (clear_tables acc t) = None"
  by (auto simp: state_of_def clear_tables_def find_None_iff)

interpretation pg_state: state_store "pg_load acc" "pg_save acc" "pg_list_alias acc" "pg_list_recent acc" "pg_get acc"
    "pg_content acc" "pg_ok acc" "pg_load_state acc" "pg_save_state acc" "pg_clear acc" for acc
proof
  fix r :: "mail_tables sqldb" and c st :: mailbox_cache
  assume ok: "pg_ok acc r"
  then have up: "db_up r" by (simp add: pg_ok_def)
  show "pg_load_state acc r = (Inr (case pg_content acc r of None \<Rightarrow> (empty_cache, False)
      | Some c \<Rightarrow> (c\<lparr>mc_messages := [], mc_hidden := []\<rparr>, True)), r)"
    by (cases "state_of acc (tables r)")
      (simp_all add: pg_load_state_def sql_query_up [OF up] pg_content_def tables_content_def Let_def cache_of_state_def)
  show "fst (pg_clear acc r) = None \<and> pg_ok acc (snd (pg_clear acc r)) \<and> pg_content acc (snd (pg_clear acc r)) \<in> {None, Some empty_cache}"
    using ok by (simp add: pg_clear_up [OF up] pg_ok_def pg_content_def tables_content_def state_of_cleared tables_ok_def)
      (simp add: clear_tables_def)
  assume "pg_content acc r = Some c" "ms_generation (mc_status st) = ms_generation (mc_status c)"
  then show "fst (pg_save_state acc st r) = None \<and> pg_ok acc (snd (pg_save_state acc st r)) \<and>
      pg_content acc (snd (pg_save_state acc st r)) = Some (with_state st c)"
    using ok tables_content_upsert by (simp add: pg_save_state_def sql_exec_up [OF up] pg_ok_def pg_content_def)
qed

lemma repo_save_state_law:
  assumes "repo_ok r" and "repo_content r = Some c" and "ms_generation (mc_status st) = ms_generation (mc_status c)"
  shows "fst (repo_save_state st r) = None \<and> repo_ok (snd (repo_save_state st r)) \<and>
    repo_content (snd (repo_save_state st r)) = Some (with_state st c)"
proof (cases r)
  case (JsonRepo f)
  then show ?thesis using assms json_state.save_state_law [of f c st] by simp
next
  case (PgRepo acc db)
  then show ?thesis using assms pg_state.save_state_law [of acc db c st] by simp
next
  case (DualRepo f acc db)
  have up: "db_up db" using assms(1) DualRepo by (simp add: pg_ok_def)
  have f: "fst (file_save_state st f) = None" "cell_ok (snd (file_save_state st f))"
    "cell_doc (snd (file_save_state st f)) = Some (with_state st c)"
    using assms DualRepo json_state.save_state_law [of f c st] by auto
  have "pg_save_state acc st db = (None, db\<lparr>tables := upsert_state (state_row_of acc st) (tables db)\<rparr>)"
    by (simp add: pg_save_state_def sql_exec_up [OF up])
  then show ?thesis using assms(1) f DualRepo
    by (cases "file_save_state st f") (simp add: dual_write_def pg_ok_def)
qed

interpretation repo_state: state_store repo_load repo_save repo_list_alias repo_list_recent repo_get repo_content repo_ok
    repo_load_state repo_save_state repo_clear
proof
  fix r
  assume ok: "repo_ok r"
  show "repo_load_state r = (Inr (case repo_content r of None \<Rightarrow> (empty_cache, False)
      | Some c \<Rightarrow> (c\<lparr>mc_messages := [], mc_hidden := []\<rparr>, True)), r)"
    using ok json_state.load_state_law pg_state.load_state_law by (cases r) simp_all
  show "fst (repo_clear r) = None \<and> repo_ok (snd (repo_clear r)) \<and> repo_content (snd (repo_clear r)) \<in> {None, Some empty_cache}"
  proof (cases r)
    case (JsonRepo f)
    then show ?thesis using ok json_state.clear_law [of f] by simp
  next
    case (PgRepo acc db)
    then show ?thesis using ok pg_state.clear_law [of acc db] by simp
  next
    case (DualRepo f acc db)
    then have p: "fst (pg_clear acc db) = None" "pg_ok acc (snd (pg_clear acc db))" and f: "cell_ok f"
      using ok pg_state.clear_law [of acc db] by auto
    then show ?thesis using DualRepo by (cases "pg_clear acc db") (simp add: file_clear_ok)
  qed
qed (rule repo_save_state_law)

end
