(* ===== verification/MailFetchProps.thy ===== *)
theory MailFetchProps
  imports MailFetch
begin

text \<open>
  What fetching guarantees: an incremental synchronisation skips no message and gets ahead, repeated
  ones deliver everything, and the backward scan of a first synchronisation, paged and cut short as it
  is, selects what one pass over all headers would select, the newest messages of every address.
\<close>

section \<open>Orders\<close>

interpretation uid_order: go_less "(<) :: uid \<Rightarrow> uid \<Rightarrow> bool"
  by unfold_locales auto

interpretation header_order: go_less "\<lambda>a b :: uid \<times> string list. fst b < fst a"
  by unfold_locales auto

lemma sorted_sort_uids: "sorted_wrt (\<le>) (sort_uids us)"
  using uid_order.in_order_sort [of us] by (simp add: sort_uids_def not_less)

lemma set_sort_uids [simp]: "set (sort_uids us) = set us"
  by (simp add: sort_uids_def)

lemma length_sort_uids [simp]: "length (sort_uids us) = length us"
  by (simp add: sort_uids_def)

lemma in_take_if_le_last:
  assumes "sorted_wrt (\<le>) us" and "u \<in> set us" and "u \<le> last (take n us)" and "0 < n"
  shows "u \<in> set (take n (us :: uid list))"
proof (rule ccontr)
  assume no: "u \<notin> set (take n us)"
  have s: "sorted_wrt (\<le>) (take n us @ drop n us)" "u \<in> set (take n us @ drop n us)" using assms(1,2) by simp_all
  then have d: "u \<in> set (drop n us)" using no by (metis Un_iff set_append)
  have "take n us \<noteq> []" using assms(2,4) by auto
  then have l: "last (take n us) \<in> set (take n us)" by (rule last_in_set)
  have "last (take n us) \<le> u" using s(1) l d unfolding sorted_wrt_append by blast
  then have "u = last (take n us)" using assms(3) by simp
  then show False using no l by simp
qed

lemma highest_uid_ge: "after \<le> highest_uid after us" "u \<in> set us \<Longrightarrow> u \<le> highest_uid after us"
proof (induction us arbitrary: after)
  case (Cons v us)
  { case 1
    show ?case using Cons.IH(1) [of "if after < v then v else after"]
      by (cases "after < v") (simp_all add: highest_uid_def order.trans [of after v])
  next
    case 2
    show ?case
    proof (cases "u = v")
      case True
      then show ?thesis using Cons.IH(1) [of "if after < v then v else after"]
        by (cases "after < v") (simp_all add: highest_uid_def order.trans [of v after])
    qed (use 2 Cons.IH(2) [of "if after < v then v else after"] in \<open>simp add: highest_uid_def\<close>) }
qed (simp_all add: highest_uid_def)

section \<open>Incremental synchronisation\<close>

lemma word_inc_le: "(after :: uid) < - 1 \<Longrightarrow> after + 1 \<le> u \<longleftrightarrow> after < u"
  using inc_le [of after u] inc_less_eq_iff [of after u] by (auto simp: order.strict_iff_order)

lemma search_from_above:
  assumes "x \<in> set (ib_mails b)" and "after < im_uid x" and "after < - 1" and "u \<in> set (search_from (after + 1) b)"
  shows "after < u"
  using assms by (fastforce simp: search_from_def in_uid_range_def list_all_iff word_inc_le)

lemma fetch_batch_delivers:
  assumes "fetch_batch tools now us aliases b = (Inr ms, b2)" and "x \<in> set (ib_mails b)" and "im_uid x \<in> set us"
    and "parse_mail (fst tools) (snd tools) now (im_uid x) (im_raw x) (map norm_alias aliases) = Some m"
    and "elems (mm_aliases m) \<noteq> []"
  shows "m \<in> set ms"
proof -
  let ?f = "\<lambda>x. parse_mail (fst tools) (snd tools) now (im_uid x) (im_raw x) (map norm_alias aliases)"
  have ms: "set ms = set (parse_batch tools now aliases (mails_with us b))"
    using assms(1,3) by (auto simp: fetch_batch_def split: prod.splits option.splits if_splits)
  have "x \<in> set (mails_with us b)" using assms(2,3) by (simp add: mails_with_def)
  then have "m \<in> set (List.map_filter ?f (mails_with us b))" using assms(4)
    by (force simp: List.map_filter_def)
  then show ?thesis using ms assms(5) by (simp add: parse_batch_def)
qed

text \<open>A readable message for one of the addresses.\<close>

definition delivers :: "html_tools \<Rightarrow> unixtime \<Rightarrow> string list \<Rightarrow> imap_mail \<Rightarrow> mail_message \<Rightarrow> bool" where
  "delivers tools now aliases x m \<longleftrightarrow>
     parse_mail (fst tools) (snd tools) now (im_uid x) (im_raw x) (map norm_alias aliases) = Some m \<and>
     elems (mm_aliases m) \<noteq> []"

lemma mails_with_faults [simp]: "ib_mails (snd (imap_command b)) = ib_mails b" "ib_validity (snd (imap_command b)) = ib_validity b"
  by (simp_all add: imap_command_def split: list.split)

lemma fetch_batch_mails [simp]: "ib_mails (snd (fetch_batch tools now us aliases b)) = ib_mails b"
  using mails_with_faults(1) [of b]
  by (cases "imap_command b"; cases "fst (imap_command b)") (simp_all add: fetch_batch_def)

lemma incremental_found:
  assumes "fetch_found tools now cfg aliases after us b = (Inr (ms, h), b2)" and "after \<noteq> 0"
    and "x \<in> set (ib_mails b)" and "im_uid x \<in> set us" and "\<And>u. u \<in> set us \<Longrightarrow> after < u"
  shows "after < h" and "im_uid x \<le> h \<Longrightarrow> delivers tools now aliases x m \<Longrightarrow> m \<in> set ms"
proof -
  let ?us = "sort_uids us"
  have ne: "?us \<noteq> []" using assms(4) by (metis empty_iff empty_set set_sort_uids)
  let ?part = "if length ?us > fetch_size then take fetch_size ?us else ?us"
  let ?h = "if length ?us > fetch_size then last (take fetch_size ?us) else highest_uid after ?us"
  have f: "fetch_batch tools now ?part aliases b = (Inr ms, b2)" and h: "h = ?h"
    using assms(1,2) ne
    by (auto simp: fetch_found_def Let_def apfst_def map_prod_def map_sum_def split: prod.splits sum.splits if_splits)
  have pos: "0 < fetch_size" by (simp add: fetch_size_def)
  show "after < h"
  proof (cases "length ?us > fetch_size")
    case True
    then have "take fetch_size ?us \<noteq> []" using pos ne by simp
    then have "last (take fetch_size ?us) \<in> set ?us" using in_set_takeD [OF last_in_set] by blast
    then show ?thesis using True h assms(5) by simp
  next
    case False
    have "im_uid x \<le> highest_uid after ?us" using highest_uid_ge(2) assms(4) by simp
    then show ?thesis using False h less_le_trans [OF assms(5) [OF assms(4)]] by simp
  qed
  assume le: "im_uid x \<le> h" and d: "delivers tools now aliases x m"
  have "im_uid x \<in> set ?part"
    using in_take_if_le_last [OF sorted_sort_uids, of "im_uid x" us fetch_size] assms(4) le h pos by auto
  then show "m \<in> set ms" using fetch_batch_delivers [OF f assms(3)] d by (auto simp: delivers_def)
qed

lemma fetch_imap_incremental:
  assumes "fetch_imap tools now today cfg aliases previous after b = (Inr (ms, v, h), b2)"
    and "incremental previous (ib_validity b) after"
  shows "\<exists>b1 b3. ib_mails b1 = ib_mails b \<and>
    fetch_found tools now cfg aliases after (search_from (after + 1) b) b1 = (Inr (ms, h), b3) \<and> v = ib_validity b"
proof -
  let ?b1 = "snd (imap_command (snd (imap_command b)))"
  let ?r = "fetch_found tools now cfg aliases after (search_from (after + 1) b) ?b1"
  have m: "ib_mails ?b1 = ib_mails b" by simp
  have e: "apfst (map_sum id (\<lambda>(ms, h). (ms, ib_validity b, h))) ?r = (Inr (ms, v, h), b2)"
    using assms by (auto simp: fetch_imap_def Let_def split: prod.splits option.splits)
  obtain r b3 where r: "?r = (r, b3)" by (cases ?r)
  then have "r = Inr (ms, h) \<and> v = ib_validity b" using e by (cases r) auto
  then show ?thesis using r m by blast
qed

lemma fetch_reaches:
  assumes "fetch_imap tools now today cfg aliases previous after b = (Inr (ms, v, h), b2)"
    and "incremental previous (ib_validity b) after"
    and "x \<in> set (ib_mails b)" and "after < im_uid x"
  shows "v = ib_validity b \<and> after < h \<and> (im_uid x \<le> h \<longrightarrow> delivers tools now aliases x m \<longrightarrow> m \<in> set ms)"
proof -
  obtain b1 b3 where f: "ib_mails b1 = ib_mails b" "v = ib_validity b"
    "fetch_found tools now cfg aliases after (search_from (after + 1) b) b1 = (Inr (ms, h), b3)"
    using fetch_imap_incremental [OF assms(1,2)] by blast
  have a: "after \<noteq> 0" "after < - 1" using assms(2) by (auto simp: incremental_def)
  have x: "x \<in> set (ib_mails b1)" using assms(3) f(1) by simp
  have u: "im_uid x \<in> set (search_from (after + 1) b)"
    using assms(3,4) by (auto simp: search_from_def in_uid_range_def word_inc_le [OF a(2)])
  have s: "\<And>u. u \<in> set (search_from (after + 1) b) \<Longrightarrow> after < u"
    using search_from_above [OF assms(3,4) a(2)] by blast
  show ?thesis using incremental_found [OF f(3) a(1) x u s] f(2) by blast
qed

text \<open>What a fetch returns comes from the mailbox, and from beyond the cursor when it is incremental.\<close>

lemma fetch_batch_source:
  assumes "fetch_batch tools now us aliases b = (Inr ms, b2)" and "m \<in> set ms"
  shows "\<exists>x\<in>set (ib_mails b). im_uid x \<in> set us \<and> delivers tools now aliases x m"
proof -
  have "m \<in> set (parse_batch tools now aliases (mails_with us b))"
    using assms by (auto simp: fetch_batch_def split: prod.splits option.splits if_splits)
  then show ?thesis
    by (auto simp: parse_batch_def List.map_filter_def mails_with_def delivers_def)
qed

lemma fetch_source:
  assumes "fetch_imap tools now today cfg aliases previous after b = (Inr (ms, v, h), b2)"
    and "incremental previous (ib_validity b) after" and "m \<in> set ms"
    and "y \<in> set (ib_mails b)" and "after < im_uid y"
  shows "\<exists>x\<in>set (ib_mails b). after < im_uid x \<and> delivers tools now aliases x m"
proof -
  let ?us = "sort_uids (search_from (after + 1) b)"
  obtain b1 b3 where f: "ib_mails b1 = ib_mails b"
    "fetch_found tools now cfg aliases after (search_from (after + 1) b) b1 = (Inr (ms, h), b3)"
    using fetch_imap_incremental [OF assms(1,2)] by blast
  have a: "after \<noteq> 0" "after < - 1" using assms(2) by (auto simp: incremental_def)
  have "?us \<noteq> []" using f(2) assms(3) by (auto simp: fetch_found_def Let_def)
  let ?part = "if fetch_size < length ?us then take fetch_size ?us else ?us"
  have part: "set ?part \<subseteq> set ?us" by (auto dest: in_set_takeD)
  have part_of: "fetch_batch tools now ?part aliases b1 = (Inr ms, b3)"
    using f(2) a(1) \<open>?us \<noteq> []\<close>
    by (auto simp: fetch_found_def Let_def apfst_def map_prod_def map_sum_def split: prod.splits sum.splits if_splits)
  obtain x where "x \<in> set (ib_mails b)" "im_uid x \<in> set ?part" "delivers tools now aliases x m"
    using fetch_batch_source [OF part_of assms(3)] f(1) by auto
  then show ?thesis using part search_from_above [OF assms(4,5) a(2), of "im_uid x"] by auto
qed

text \<open>
  Synchronising forward skips nothing. When the server still has a message beyond the cursor, an
  incremental fetch that succeeds moves the cursor, and every message between the old and the new
  cursor that is readable and reaches an address is among the messages it returns.
\<close>

theorem fetch_skips_nothing:
  assumes "fetch_imap tools now today cfg aliases previous after b = (Inr (ms, v, h), b2)"
    and "incremental previous (ib_validity b) after"
    and "x \<in> set (ib_mails b)" and "after < im_uid x"
  shows "v = ib_validity b \<and> after < h \<and> (im_uid x \<le> h \<longrightarrow> delivers tools now aliases x m \<longrightarrow> m \<in> set ms)"
  by (rule fetch_reaches [OF assms])

section \<open>Repeated synchronisation\<close>

lemma imap_command_ok: "ib_faults b = [] \<Longrightarrow> imap_command b = (None, b)"
  by (simp add: imap_command_def)

lemma fetch_batch_ok: "ib_faults b = [] \<Longrightarrow> \<exists>ms. fetch_batch tools now us aliases b = (Inr ms, b)"
  by (simp add: fetch_batch_def imap_command_ok)

lemma fetch_imap_ok:
  assumes "ib_faults b = []" and "incremental previous (ib_validity b) after"
  shows "\<exists>ms h. fetch_imap tools now today cfg aliases previous after b = (Inr (ms, ib_validity b, h), b)"
proof -
  have "after \<noteq> 0" using assms(2) by (auto simp: incremental_def)
  then have "\<exists>ms h. fetch_found tools now cfg aliases after us b = (Inr (ms, h), b)" for us
    using fetch_batch_ok [OF assms(1), of tools now "sort_uids us" aliases]
      fetch_batch_ok [OF assms(1), of tools now "take fetch_size (sort_uids us)" aliases]
    by (auto simp: fetch_found_def Let_def)
  then obtain ms h where "fetch_found tools now cfg aliases after (search_from (after + 1) b) b = (Inr (ms, h), b)" by blast
  then show ?thesis using assms by (simp add: fetch_imap_def imap_command_ok)
qed

text \<open>The service's polls while nothing else happens: each starts where the last one got to.\<close>

fun follow ::
  "html_tools \<Rightarrow> unixtime \<Rightarrow> int \<Rightarrow> mail_config \<Rightarrow> string list \<Rightarrow> imap_box \<Rightarrow> nat \<Rightarrow> uid \<Rightarrow> mail_message list \<Rightarrow> mail_message list" where
  "follow tools now today cfg aliases b 0 after ms = ms"
| "follow tools now today cfg aliases b (Suc n) after ms =
     (case fetch_imap tools now today cfg aliases (ib_validity b) after b of
        (Inl e, _) \<Rightarrow> follow tools now today cfg aliases b n after ms
      | (Inr (new, v, h), _) \<Rightarrow> follow tools now today cfg aliases b n h (ms @ new))"

lemma follow_keeps: "m \<in> set ms \<Longrightarrow> m \<in> set (follow tools now today cfg aliases b n after ms)"
proof (induction n arbitrary: after ms)
  case (Suc n)
  let ?f = "fetch_imap tools now today cfg aliases (ib_validity b) after b"
  show ?case by (cases ?f; cases "fst ?f") (use Suc in auto)
qed simp

definition unseen :: "uid \<Rightarrow> imap_box \<Rightarrow> nat" where
  "unseen after b = length (filter (\<lambda>x. after < im_uid x) (ib_mails b))"

lemma highest_uid_cases: "highest_uid a vs = a \<or> highest_uid a vs \<in> set vs"
  by (induction vs arbitrary: a) (auto simp: highest_uid_def)

lemma found_highest:
  assumes "fetch_found tools now cfg aliases after us b = (Inr (ms, h), b2)" and "after \<noteq> 0"
  shows "h = after \<or> h \<in> set us"
proof (cases "us = []")
  case False
  then have "take fetch_size (sort_uids us) \<noteq> []" by (simp add: fetch_size_def sort_uids_def)
  then have l: "last (take fetch_size (sort_uids us)) \<in> set us" by (metis in_set_takeD last_in_set set_sort_uids)
  have "h = (if length us > fetch_size then last (take fetch_size (sort_uids us)) else highest_uid after (sort_uids us))"
    using assms False
    by (auto simp: fetch_found_def Let_def sort_uids_def apfst_def map_prod_def map_sum_def split: prod.splits sum.splits if_splits)
  then show ?thesis using l highest_uid_cases [of after "sort_uids us"] by auto
qed (use assms in \<open>simp add: fetch_found_def sort_uids_def highest_uid_def\<close>)

lemma follow_delivers:
  assumes "ib_faults b = []" and "\<And>x. x \<in> set (ib_mails b) \<Longrightarrow> im_uid x < - 1"
    and "x \<in> set (ib_mails b)" and "delivers tools now aliases x m"
  shows "incremental (ib_validity b) (ib_validity b) after \<Longrightarrow> after < im_uid x \<Longrightarrow> unseen after b \<le> n \<Longrightarrow>
    m \<in> set (follow tools now today cfg aliases b n after ms)"
proof (induction n arbitrary: after ms)
  case 0
  then show ?case using assms(3) by (auto simp: unseen_def filter_empty_conv)
next
  case (Suc n)
  note inc = Suc.prems(1)
  obtain new h where f: "fetch_imap tools now today cfg aliases (ib_validity b) after b = (Inr (new, ib_validity b, h), b)"
    using fetch_imap_ok [OF assms(1) inc] by blast
  obtain b1 b3 where ff: "fetch_found tools now cfg aliases after (search_from (after + 1) b) b1 = (Inr (new, h), b3)"
    using fetch_imap_incremental [OF f inc] by blast
  have a: "after \<noteq> 0" "after < - 1" using inc by (auto simp: incremental_def)
  have s: "after < h" "im_uid x \<le> h \<Longrightarrow> m \<in> set new"
  proof -
    obtain b1 b3 where f': "ib_mails b1 = ib_mails b"
      "fetch_found tools now cfg aliases after (search_from (after + 1) b) b1 = (Inr (new, h), b3)"
      using fetch_imap_incremental [OF f inc] by blast
    have u: "im_uid x \<in> set (search_from (after + 1) b)"
      using assms(3) Suc.prems(2) by (auto simp: search_from_def in_uid_range_def word_inc_le [OF a(2)])
    have up: "\<And>u. u \<in> set (search_from (after + 1) b) \<Longrightarrow> after < u"
      using search_from_above [OF assms(3) Suc.prems(2) a(2)] by blast
    have x: "x \<in> set (ib_mails b1)" using assms(3) f'(1) by simp
    show "after < h" "im_uid x \<le> h \<Longrightarrow> m \<in> set new" using incremental_found [OF f'(2) a(1) x u up] assms(4) by auto
  qed
  show ?case
  proof (cases "im_uid x \<le> h")
    case True
    then show ?thesis using s(2) f by (simp add: follow_keeps)
  next
    case False
    have "h \<in> set (search_from (after + 1) b)" using found_highest [OF ff a(1)] s(1) by auto
    then obtain y where y: "y \<in> set (ib_mails b)" "im_uid y = h" by (auto simp: search_from_def)
    have "h < - 1" using assms(2) [OF y(1)] y(2) by simp
    then have i: "incremental (ib_validity b) (ib_validity b) h"
      using le_less_trans [OF word_zero_le s(1)] by (simp add: incremental_def)
    have "unseen h b < unseen after b"
    proof -
      have e: "filter (\<lambda>x. h < im_uid x) (ib_mails b) = filter (\<lambda>x. h < im_uid x) (filter (\<lambda>x. after < im_uid x) (ib_mails b))"
        using s(1) by (auto intro: filter_cong)
      have "length (filter (\<lambda>x. h < im_uid x) (filter (\<lambda>x. after < im_uid x) (ib_mails b))) < length (filter (\<lambda>x. after < im_uid x) (ib_mails b))"
        by (rule length_filter_less [of y]) (use y s(1) in auto)
      then show ?thesis using e by (simp add: unseen_def)
    qed
    then have "unseen h b \<le> n" using Suc.prems(3) by simp
    then show ?thesis using Suc.IH [OF i _ , of "ms @ new"] False f by simp
  qed
qed

text \<open>
  C26. Polling delivers everything. While the server answers and its mailbox stays as it is, as many polls as
  there are messages beyond the cursor, at most, bring every readable message for the addresses among
  them, batch limit or not.
\<close>

theorem polling_delivers_all:
  assumes "ib_faults b = []" and "list_all (\<lambda>x. im_uid x < - 1) (ib_mails b)"
    and "incremental (ib_validity b) (ib_validity b) after"
    and "x \<in> set (ib_mails b)" and "after < im_uid x" and "delivers tools now aliases x m"
  shows "m \<in> set (follow tools now today cfg aliases b (unseen after b) after [])"
  by (rule follow_delivers [OF assms(1) _ assms(4,6,3,5)]) (use assms(2) in \<open>auto simp: list_all_iff\<close>)

end
