(* ===== verification/MailScanProps.thy ===== *)
theory MailScanProps
  imports MailFetchProps MailMessageProps
begin

text \<open>
  The backward scan of a first synchronisation: paging and stopping early do not change what is
  selected, and what is selected are the newest messages of every address.
\<close>

section \<open>Headers in one pass\<close>

definition headers_of :: "uid list \<Rightarrow> string list \<Rightarrow> imap_box \<Rightarrow> (uid \<times> string list) list" where
  "headers_of us allowed b = List.map_filter (\<lambda>m. case im_header m of
       None \<Rightarrow> None
     | Some h \<Rightarrow> (let as = matching_aliases h allowed in if as = [] then None else Some (im_uid m, as)))
     (mails_with us b)"

definition newest_headers :: "(uid \<times> string list) list \<Rightarrow> (uid \<times> string list) list" where
  "newest_headers hs = go_sort (\<lambda>a b. fst b < fst a) hs"

text \<open>The reference: all headers from the newest on, each message that some address still needs.\<close>

definition select_newest :: "int \<Rightarrow> string list \<Rightarrow> uid list \<Rightarrow> imap_box \<Rightarrow> uid list" where
  "select_newest maximum allowed us b = fst (select_headers maximum [] (\<lambda>a. 0) (newest_headers (headers_of us allowed b)))"

lemma fetch_headers_ok: "ib_faults b = [] \<Longrightarrow> fetch_headers us allowed b = (Inr (headers_of us allowed b), b)"
  by (simp add: fetch_headers_def headers_of_def imap_command_ok mails_with_def List.map_filter_def)

lemma headers_of_uids: "h \<in> set (headers_of us allowed b) \<Longrightarrow> fst h \<in> set us"
  by (auto simp: headers_of_def List.map_filter_def mails_with_def Let_def split: option.splits if_splits)

lemma headers_of_aliases: "(u, as) \<in> set (headers_of us allowed b) \<Longrightarrow> set as \<subseteq> set allowed"
  by (auto simp: headers_of_def List.map_filter_def matching_aliases_def Let_def set_dedup_from split: option.splits if_splits)

lemma mset_mails_split:
  assumes "distinct (us @ vs)"
  shows "mset (mails_with (us @ vs) b) = mset (mails_with us b) + mset (mails_with vs b)"
proof -
  have "mset (filter (\<lambda>m. im_uid m \<in> set us \<or> im_uid m \<in> set vs) ms) =
      mset (filter (\<lambda>m. im_uid m \<in> set us) ms) + mset (filter (\<lambda>m. im_uid m \<in> set vs) ms)" for ms
    using assms by (induction ms) auto
  then show ?thesis by (simp add: mails_with_def)
qed

lemma mset_map_filter: "mset (List.map_filter f xs) = {#the (f x). x \<in># filter_mset (\<lambda>x. f x \<noteq> None) (mset xs)#}"
  by (simp add: List.map_filter_def comp_def)

lemma headers_of_split:
  "distinct (us @ vs) \<Longrightarrow> mset (headers_of (us @ vs) allowed b) = mset (headers_of us allowed b) + mset (headers_of vs allowed b)"
  by (simp add: headers_of_def mset_map_filter mset_mails_split)

lemma map_filter_distinct:
  assumes "\<And>m y. f m = Some y \<Longrightarrow> g y = k m" and "distinct (map k ms)"
  shows "distinct (map g (List.map_filter f ms))"
  using assms(2)
proof (induction ms)
  case (Cons m ms)
  have "g y \<in> k ` set ms" if "y \<in> set (List.map_filter f ms)" for y
    using that assms(1) by (force simp: List.map_filter_def)
  then show ?case using Cons assms(1) by (cases "f m") (auto simp: List.map_filter_simps)
qed (simp add: List.map_filter_simps)

lemma headers_of_distinct:
  "distinct (map im_uid (ib_mails b)) \<Longrightarrow> distinct (map fst (headers_of us allowed b))"
  unfolding headers_of_def
  by (rule map_filter_distinct [where k = im_uid])
    (auto simp: Let_def mails_with_def distinct_map_filter split: option.splits if_splits)

lemma newest_headers_split:
  assumes "sorted_wrt (<) (us @ vs)" and "distinct (map im_uid (ib_mails b))"
  shows "newest_headers (headers_of (us @ vs) allowed b) =
    newest_headers (headers_of vs allowed b) @ newest_headers (headers_of us allowed b)"
  unfolding newest_headers_def
proof (rule header_order.sort_unique)
  let ?lt = "\<lambda>a b :: uid \<times> string list. fst b < fst a"
  have d: "distinct (us @ vs)" using assms(1) strict_sorted_iff by blast
  show "mset (go_sort ?lt (headers_of vs allowed b) @ go_sort ?lt (headers_of us allowed b)) = mset (headers_of (us @ vs) allowed b)"
    using headers_of_split [OF d] by simp
  have "\<not> ?lt y x" if "x \<in> set (headers_of vs allowed b)" "y \<in> set (headers_of us allowed b)" for x y
    using headers_of_uids [OF that(1)] headers_of_uids [OF that(2)] assms(1) by (auto simp: sorted_wrt_append not_less less_imp_le)
  then show "in_order ?lt (go_sort ?lt (headers_of vs allowed b) @ go_sort ?lt (headers_of us allowed b))"
    using header_order.in_order_sort by (simp add: sorted_wrt_append)
  fix x y
  assume "x \<in> set (headers_of (us @ vs) allowed b)" "y \<in> set (headers_of (us @ vs) allowed b)" "x \<noteq> y"
  then show "?lt x y \<or> ?lt y x"
    using headers_of_distinct [OF assms(2)] by (metis distinct_map inj_onD neq_iff)
qed

section \<open>Stopping and resuming\<close>

lemma select_headers_append:
  assumes "int (length sel) < maximum"
  shows "select_headers maximum sel c (xs @ ys) =
    (let (s, d) = select_headers maximum sel c xs
     in if maximum \<le> int (length s) then (s, d) else select_headers maximum s d ys)"
  using assms
proof (induction maximum sel c xs rule: select_headers.induct)
  case (2 maximum sel c u as hs)
  show ?case
  proof (cases "needed_aliases c as = []")
    case False
    show ?thesis
    proof (cases "maximum \<le> int (length (sel @ [u]))")
      case True
      then show ?thesis using False by (simp add: Let_def)
    next
      case more: False
      then show ?thesis using False 2(2) [OF refl False refl refl more] by (simp add: Let_def)
    qed
  qed (use 2 in simp)
qed (simp add: Let_def)

text \<open>Once every address has its hundred, no further header is needed.\<close>

lemma needed_none:
  assumes "counts_complete c allowed" and "set as \<subseteq> set allowed" and "\<And>a. a \<in> set allowed \<Longrightarrow> norm_alias a = a"
  shows "needed_aliases c as = []"
proof -
  have "max_per_alias \<le> c (norm_alias a)" if "a \<in> set as" for a
    using that assms by (auto simp: counts_complete_def list_all_iff)
  then have n: "filter (\<lambda>a. a \<noteq> [] \<and> c a < max_per_alias) (map norm_alias as) = []"
    by (fastforce simp: filter_empty_conv)
  show ?thesis unfolding needed_aliases_def n by simp
qed

lemma select_headers_complete:
  assumes "counts_complete c allowed" and "\<And>a. a \<in> set allowed \<Longrightarrow> norm_alias a = a"
  shows "(\<And>u as. (u, as) \<in> set hs \<Longrightarrow> set as \<subseteq> set allowed) \<Longrightarrow> select_headers maximum sel c hs = (sel, c)"
proof (induction hs)
  case (Cons h hs)
  obtain u as where h: "h = (u, as)" by (cases h)
  have "set as \<subseteq> set allowed" using Cons.prems [of u as] h by simp
  then have "needed_aliases c as = []" by (intro needed_none [OF assms(1) _ assms(2)])
  moreover have "select_headers maximum sel c hs = (sel, c)" by (rule Cons.IH) (use Cons.prems in auto)
  ultimately show ?case using h by simp
qed simp

section \<open>The paged scan\<close>

lemma scan_is_one_pass:
  assumes "ib_faults b = []" and "distinct (map im_uid (ib_mails b))" and "\<And>a. a \<in> set allowed \<Longrightarrow> norm_alias a = a"
    and "sorted_wrt (<) us"
  shows "e \<le> length us \<Longrightarrow> int (length sel) < maximum \<Longrightarrow>
    scan_ranges us allowed maximum sel c (ranges_below e) b =
    (Inr (fst (select_headers maximum sel c (newest_headers (headers_of (take e us) allowed b)))), b)"
proof (induction e arbitrary: sel c rule: less_induct)
  case (less e)
  show ?case
  proof (cases "e = 0")
    case True
    then show ?thesis
      by (simp add: ranges_below.simps headers_of_def mails_with_def List.map_filter_def newest_headers_def)
  next
    case False
    let ?lo = "take (e - 200) us" and ?hi = "drop (e - 200) (take e us)"
    have split: "take e us = ?lo @ ?hi" using append_take_drop_id [of "e - 200" "take e us"] by simp
    have so: "sorted_wrt (<) (?lo @ ?hi)" using split assms(4) by (metis sorted_wrt_take)
    obtain s d where sd: "select_headers maximum sel c (newest_headers (headers_of ?hi allowed b)) = (s, d)"
      by (cases "select_headers maximum sel c (newest_headers (headers_of ?hi allowed b))")
    have pages: "newest_headers (headers_of (take e us) allowed b) =
        newest_headers (headers_of ?hi allowed b) @ newest_headers (headers_of ?lo allowed b)"
      using newest_headers_split [OF so assms(2), of allowed] by (simp only: split [symmetric])
    have whole: "select_headers maximum sel c (newest_headers (headers_of (take e us) allowed b)) =
        (if maximum \<le> int (length s) then (s, d) else select_headers maximum s d (newest_headers (headers_of ?lo allowed b)))"
      using sd by (simp only: pages select_headers_append [OF less.prems(2)]) simp
    have cand: "append_candidates maximum sel c (headers_of ?hi allowed b) = (s, d)"
      using less.prems(2) sd by (simp add: append_candidates_def newest_headers_def)
    have step: "scan_ranges us allowed maximum sel c (ranges_below e) b =
        (if maximum \<le> int (length s) \<or> counts_complete d allowed then (Inr s, b)
         else scan_ranges us allowed maximum s d (ranges_below (e - 200)) b)"
      using False cand by (simp add: ranges_below.simps [of e] fetch_headers_ok [OF assms(1)] Let_def)
    show ?thesis
    proof (cases "maximum \<le> int (length s)")
      case True
      then show ?thesis using step whole by simp
    next
      case more: False
      show ?thesis
      proof (cases "counts_complete d allowed")
        case True
        have "select_headers maximum s d (newest_headers (headers_of ?lo allowed b)) = (s, d)"
          by (rule select_headers_complete [OF True assms(3)]) (auto simp: newest_headers_def dest: headers_of_aliases)
        then show ?thesis using step whole more True by simp
      next
        case False2: False
        have "e - 200 < e" "e - 200 \<le> length us" using False less.prems(1) by auto
        then show ?thesis using less.IH [of "e - 200" s d] step whole more False2 by simp
      qed
    qed
  qed
qed

lemma sorted_search: "distinct (map im_uid (ib_mails b)) \<Longrightarrow> sorted_wrt (<) (sort_uids (search_since day b))"
  using sorted_sort_uids [of "search_since day b"]
  by (simp add: strict_sorted_iff sort_uids_def search_since_def distinct_map_filter)

text \<open>
  C27. Scanning a mailbox backwards in ranges of two hundred, with a stop as soon as the cache is full or
  every address has its hundred messages, selects exactly what one pass over the headers of all found
  messages selects, newest first.
\<close>

theorem backward_scan_is_one_pass:
  assumes "ib_faults b = []" and "distinct (map im_uid (ib_mails b))" and "0 < maximum"
    and "us = sort_uids (search_since day b)" and "allowed = normalize_aliases aliases"
  shows "scan_ranges us allowed maximum [] (\<lambda>a. 0) (initial_ranges (int (length us))) b =
    (Inr (select_newest maximum allowed us b), b)"
proof -
  have n: "\<And>a. a \<in> set allowed \<Longrightarrow> norm_alias a = a" using normalize_aliases_facts assms(5) by blast
  have so: "sorted_wrt (<) us" using sorted_search [OF assms(2)] assms(4) by simp
  show ?thesis
    using scan_is_one_pass [OF assms(1,2) n so, where e = "length us" and sel = "[]" and maximum = maximum and c = "\<lambda>a. 0"] assms(3)
    by (simp add: initial_ranges_def select_newest_def)
qed

section \<open>What is selected\<close>

definition carriers :: "string \<Rightarrow> (uid \<times> string list) list \<Rightarrow> uid set" where
  "carriers a hs = {v. \<exists>as. (v, as) \<in> set hs \<and> a \<in> set as}"

text \<open>A message that was not selected: the cache is full of newer ones, or its address is.\<close>

definition outdone :: "int \<Rightarrow> (uid \<times> string list) list \<Rightarrow> uid list \<Rightarrow> uid \<Rightarrow> string \<Rightarrow> bool" where
  "outdone maximum hs sel u a \<longleftrightarrow>
     maximum \<le> int (length sel) \<and> (\<forall>v\<in>set sel. u < v) \<or>
     (\<exists>T \<subseteq> set sel. max_per_alias \<le> card T \<and> T \<subseteq> carriers a hs \<and> (\<forall>v\<in>T. u < v))"

definition counted :: "(uid \<times> string list) list \<Rightarrow> uid list \<Rightarrow> (string \<Rightarrow> nat) \<Rightarrow> bool" where
  "counted seen sel c \<longleftrightarrow> set sel \<subseteq> fst ` set seen \<and> (\<forall>a. \<exists>T \<subseteq> set sel. card T = c a \<and> T \<subseteq> carriers a seen)"

lemma carriers_mono: "set hs \<subseteq> set hs' \<Longrightarrow> carriers a hs \<subseteq> carriers a hs'"
  by (auto simp: carriers_def)

lemma counted_later:
  assumes "counted seen sel c"
  shows "counted (seen @ hs) sel c"
  unfolding counted_def
proof (intro conjI allI)
  show "set sel \<subseteq> fst ` set (seen @ hs)" using assms by (auto simp: counted_def)
  fix a
  obtain T where "T \<subseteq> set sel" "card T = c a" "T \<subseteq> carriers a seen" using assms unfolding counted_def by blast
  moreover have "carriers a seen \<subseteq> carriers a (seen @ hs)" by (rule carriers_mono) simp
  ultimately show "\<exists>T \<subseteq> set sel. card T = c a \<and> T \<subseteq> carriers a (seen @ hs)" by (intro exI [of _ T]) simp
qed

lemma counted_step:
  assumes "counted seen sel c" and "u \<notin> fst ` set seen" and "set need \<subseteq> set as"
  shows "counted (seen @ [(u, as)]) (sel @ [u]) (count_up need c)"
proof -
  have "\<exists>T \<subseteq> set (sel @ [u]). card T = count_up need c a \<and> T \<subseteq> carriers a (seen @ [(u, as)])" for a
  proof -
    obtain T where T: "T \<subseteq> set sel" "card T = c a" "T \<subseteq> carriers a seen"
      using assms(1) unfolding counted_def by blast
    have c: "carriers a seen \<subseteq> carriers a (seen @ [(u, as)])" by (auto simp: carriers_def)
    show ?thesis
    proof (cases "a \<in> set need")
      case True
      have "u \<notin> T" using T(1) assms(1,2) by (auto simp: counted_def)
      moreover have "finite T" using T(1) finite_subset by blast
      ultimately have "card (insert u T) = count_up need c a" using True T(2) by (simp add: count_up_def)
      moreover have "insert u T \<subseteq> carriers a (seen @ [(u, as)])" using True assms(3) T(3) c by (auto simp: carriers_def)
      ultimately show ?thesis using T(1) by (intro exI [of _ "insert u T"]) auto
    qed (use T c in \<open>auto simp: count_up_def intro!: exI [of _ T]\<close>)
  qed
  then show ?thesis using assms(1) by (auto simp: counted_def)
qed

lemma select_headers_grows: "set sel \<subseteq> set (fst (select_headers maximum sel c hs))"
  by (induction maximum sel c hs rule: select_headers.induct) (auto simp: Let_def)

lemma outdone_grows:
  assumes "T \<subseteq> set sel" and "max_per_alias \<le> card T" and "T \<subseteq> carriers a hs" and "\<And>v. v \<in> T \<Longrightarrow> u < v"
  shows "outdone maximum hs (fst (select_headers maximum sel c hs')) u a"
proof -
  have "T \<subseteq> set (fst (select_headers maximum sel c hs'))" using assms(1) select_headers_grows by (rule subset_trans)
  then show ?thesis using assms(2-4) unfolding outdone_def by (intro disjI2 exI [of _ T]) simp
qed

lemma not_needed:
  assumes "needed_aliases c as = []" and "a \<in> set as" and "norm_alias a = a" and "a \<noteq> []"
  shows "max_per_alias \<le> c a"
proof (rule ccontr)
  assume "\<not> max_per_alias \<le> c a"
  then have "a \<in> set (needed_aliases c as)" using assms(2-4) by (force simp: needed_aliases_def set_dedup_from)
  then show False using assms(1) by simp
qed

lemma needed_subset: "(\<And>a. a \<in> set as \<Longrightarrow> norm_alias a = a) \<Longrightarrow> set (needed_aliases c as) \<subseteq> set as"
  by (auto simp: needed_aliases_def set_dedup_from)

lemma select_keeps_newest:
  assumes "sorted_wrt (\<lambda>x y. fst y < fst x) (seen @ hs)" and "counted seen sel c"
    and "\<And>u as a. (u, as) \<in> set (seen @ hs) \<Longrightarrow> a \<in> set as \<Longrightarrow> norm_alias a = a \<and> a \<noteq> []"
    and "(u, as) \<in> set hs" and "a \<in> set as"
  shows "u \<in> set (fst (select_headers maximum sel c hs)) \<or>
    outdone maximum (seen @ hs) (fst (select_headers maximum sel c hs)) u a"
  using assms
proof (induction maximum sel c hs arbitrary: seen rule: select_headers.induct)
  case (2 maximum sel c v vs hs)
  have later: "sorted_wrt (\<lambda>x y. fst y < fst x) ((seen @ [(v, vs)]) @ hs)"
    "\<And>u as a. (u, as) \<in> set ((seen @ [(v, vs)]) @ hs) \<Longrightarrow> a \<in> set as \<Longrightarrow> norm_alias a = a \<and> a \<noteq> []"
    using 2(3,5) by simp_all
  have new: "v \<notin> fst ` set seen" and below: "\<And>x y. x \<in> set (seen @ [(v, vs)]) \<Longrightarrow> y \<in> set hs \<Longrightarrow> fst y < fst x"
    using 2(3) by (auto simp: sorted_wrt_append)
  have nv: "\<And>a. a \<in> set vs \<Longrightarrow> norm_alias a = a" using 2(5) [of v vs] by simp
  have sel: "w \<in> set sel \<Longrightarrow> fst y < w" if "y \<in> set ((v, vs) # hs)" for w y
    using 2(3,4) that by (force simp: counted_def sorted_wrt_append)
  show ?case
  proof (cases "needed_aliases c vs = []")
    case True
    show ?thesis
    proof (cases "(u, as) \<in> set hs")
      case False
      then have e: "u = v" "as = vs" using 2(6) by auto
      have "max_per_alias \<le> c a" using not_needed [OF True] 2(5) [of v vs a] 2(7) e by simp
      moreover obtain T where T: "T \<subseteq> set sel" "card T = c a" "T \<subseteq> carriers a seen"
        using 2(4) unfolding counted_def by blast
      moreover have "carriers a seen \<subseteq> carriers a (seen @ (v, vs) # hs)" by (rule carriers_mono) auto
      moreover have "u < w" if "w \<in> T" for w using sel [of "(v, vs)" w] T(1) that e by auto
      ultimately show ?thesis by (intro disjI2 outdone_grows [of T]) auto
    qed (use 2(1) [OF refl True later(1) counted_later [OF 2(4)] later(2) _ 2(7)] True in simp)
  next
    case False
    let ?sel = "sel @ [v]" and ?c = "count_up (needed_aliases c vs) c"
    have counted: "counted (seen @ [(v, vs)]) ?sel ?c" using counted_step [OF 2(4) new needed_subset [OF nv]] .
    show ?thesis
    proof (cases "maximum \<le> int (length ?sel)")
      case True
      then have r: "select_headers maximum sel c ((v, vs) # hs) = (?sel, ?c)" using False by (simp add: Let_def)
      have "\<forall>w\<in>set ?sel. u < w" if "(u, as) \<in> set hs"
        using that sel [of "(u, as)"] below [of "(v, vs)" "(u, as)"] by auto
      then show ?thesis using 2(6) r True by (auto simp: outdone_def)
    next
      case more: False
      have r: "select_headers maximum sel c ((v, vs) # hs) = select_headers maximum ?sel ?c hs" using False more by (simp add: Let_def)
      show ?thesis
      proof (cases "(u, as) \<in> set hs")
        case True
        then show ?thesis using 2(2) [OF refl False refl refl more later(1) counted later(2) _ 2(7)] r by simp
      next
        case no: False
        then have "u = v" using 2(6) by auto
        then show ?thesis using r select_headers_grows [of ?sel maximum ?c hs] by simp
      qed
    qed
  qed
qed simp

text \<open>
  The first synchronisation keeps the newest messages of every address: of each found message whose
  header names an allowed address it downloads the message, unless the cache fills up with newer
  messages or the address already has a hundred newer ones among the selected.
\<close>

theorem first_sync_keeps_newest:
  assumes "distinct (map im_uid (ib_mails b))" and "allowed = normalize_aliases aliases"
    and "hs = newest_headers (headers_of us allowed b)" and "sel = select_newest maximum allowed us b"
    and "(u, as) \<in> set hs" and "a \<in> set as"
  shows "u \<in> set sel \<or> outdone maximum hs sel u a"
proof -
  have "sorted_wrt (\<lambda>x y. fst y < fst x) hs"
  proof -
    have "sorted_wrt (\<lambda>x y. fst y \<le> fst x) hs"
      using header_order.in_order_sort [of "headers_of us allowed b"] by (simp add: assms(3) newest_headers_def not_less)
    moreover have "distinct (map fst hs)"
      using headers_of_distinct [OF assms(1), of us allowed] mset_eq_imp_distinct_iff [of "map fst hs" "map fst (headers_of us allowed b)"]
      by (simp add: assms(3) newest_headers_def)
    ultimately show ?thesis by (induction hs) (force simp: order.strict_iff_order)+
  qed
  moreover have "norm_alias a = a \<and> a \<noteq> []" if "(u, as) \<in> set hs" "a \<in> set as" for u as a
  proof -
    have "(u, as) \<in> set (headers_of us allowed b)" using that(1) by (simp add: assms(3) newest_headers_def)
    then have "a \<in> set (normalize_aliases aliases)" using headers_of_aliases that(2) assms(2) by blast
    then show ?thesis using normalize_aliases_facts(3,4) by blast
  qed
  moreover have "counted [] [] (\<lambda>a. 0)" by (simp add: counted_def)
  ultimately have "u \<in> set (fst (select_headers maximum [] (\<lambda>a. 0) hs)) \<or>
      outdone maximum ([] @ hs) (fst (select_headers maximum [] (\<lambda>a. 0) hs)) u a"
    by (intro select_keeps_newest [of "[]" hs]) (use assms(5,6) in auto)
  then show ?thesis by (simp add: assms(3,4) select_newest_def)
qed

section \<open>A mailbox with two messages\<close>

definition demo_raw :: raw_mail where
  "demo_raw = \<lparr>rm_header = [(''To'', [''a@b.co''])], rm_date = Some 5, rm_from = ''x'', rm_subject = ''s'',
     rm_body = Leaf False ''text/plain'' (Some ''hi'')\<rparr>"

definition demo_imap :: imap_box where
  "demo_imap = \<lparr>ib_validity = 9,
     ib_mails = [\<lparr>im_uid = 4, im_day = 1, im_header = Some (rm_header demo_raw), im_raw = Some demo_raw\<rparr>,
                 \<lparr>im_uid = 7, im_day = 2, im_header = Some (rm_header demo_raw), im_raw = Some demo_raw\<rparr>],
     ib_faults = []\<rparr>"

definition demo_cfg :: mail_config where
  "demo_cfg = \<lparr>cf_username = ''u'', cf_password = ''p'', cf_host = ''h'', cf_mailbox = ''INBOX'', cf_port = 993, cf_poll = 120,
     cf_lookback = 90, cf_cache_max = 5000, cf_enabled = True, cf_source = ''saved'', cf_stored = True\<rparr>"

definition demo_tools :: html_tools where "demo_tools = ((\<lambda>s. s), (\<lambda>s. None))"

definition demo_found :: "uid \<Rightarrow> mail_message" where
  "demo_found u = \<lparr>mm_uid = u, mm_aliases = Some [''a@b.co''], mm_from = ''x'', mm_subject = ''s'', mm_date = 5, mm_text = ''hi'',
     mm_html = [], mm_codes = Some [], mm_partner = Some []\<rparr>"

lemma demo_aliases: "matching_aliases (rm_header demo_raw) [''a@b.co''] = [''a@b.co'']" "norm_alias ''a@b.co'' = ''a@b.co''"
  by code_simp+

lemma demo_parse: "delivers demo_tools 0 [''a@b.co''] \<lparr>im_uid = u, im_day = d, im_header = h, im_raw = Some demo_raw\<rparr> (demo_found u)"
proof -
  have "truncate_runes ''hi'' 200000 = ''hi''" "truncate_runes [] 200000 = []" "extract_codes (''s'' @ [CHR 0x0A] @ ''hi'') = []"
    "extract_partner_codes ''hi'' = []" "trim_space ''hi'' = ''hi''"
    by code_simp+
  moreover from this(5) have "read_body (\<lambda>s. s) (\<lambda>s. None) 0 (Leaf False ''text/plain'' (Some ''hi'')) = Some (''hi'', [])"
    by (simp add: body_limit_def)
  ultimately show ?thesis using demo_aliases
    by (simp add: delivers_def parse_mail_def demo_tools_def demo_raw_def demo_found_def elems_def)
qed

lemma fetch_skips_nothing_witness:
  "\<exists>ms h. fst (fetch_imap demo_tools 0 3 demo_cfg [''a@b.co''] 9 4 demo_imap) = Inr (ms, 9, h) \<and> 4 < h \<and>
     (7 \<le> h \<longrightarrow> demo_found 7 \<in> set ms)"
proof -
  have b: "ib_faults demo_imap = []" "incremental 9 (ib_validity demo_imap) 4"
    by (simp_all add: demo_imap_def incremental_def)
  obtain ms h where f: "fetch_imap demo_tools 0 3 demo_cfg [''a@b.co''] 9 4 demo_imap = (Inr (ms, ib_validity demo_imap, h), demo_imap)"
    using fetch_imap_ok [OF b] by blast
  have "\<lparr>im_uid = 7, im_day = 2, im_header = Some (rm_header demo_raw), im_raw = Some demo_raw\<rparr> \<in> set (ib_mails demo_imap)"
    by (simp add: demo_imap_def)
  from fetch_skips_nothing [OF f b(2) this, of "demo_found 7"] demo_parse [of 7 2] f show ?thesis
    by (simp add: demo_imap_def)
qed

lemma polling_delivers_all_witness:
  "demo_found 7 \<in> set (follow demo_tools 0 3 demo_cfg [''a@b.co''] demo_imap (unseen 3 demo_imap) 3 [])"
  by (rule polling_delivers_all [OF _ _ _ _ _ demo_parse [of 7 2 "Some (rm_header demo_raw)"]])
    (simp_all add: demo_imap_def incremental_def)

lemma demo_search:
  "normalize_aliases [''a@b.co''] = [''a@b.co'']" "distinct (map im_uid (ib_mails demo_imap))" "ib_faults demo_imap = []"
  by (simp_all add: normalize_aliases_def demo_aliases sort_strings_def demo_imap_def)

lemma backward_scan_is_one_pass_witness:
  "scan_ranges (sort_uids (search_since 0 demo_imap)) (normalize_aliases [''a@b.co'']) 100 [] (\<lambda>a. 0)
     (initial_ranges (int (length (sort_uids (search_since 0 demo_imap))))) demo_imap =
   (Inr (select_newest 100 (normalize_aliases [''a@b.co'']) (sort_uids (search_since 0 demo_imap)) demo_imap), demo_imap)"
  by (rule backward_scan_is_one_pass [OF demo_search(3,2) _ refl refl]) simp

lemma demo_headers: "newest_headers (headers_of [4, 7] [''a@b.co''] demo_imap) = [(7, [''a@b.co'']), (4, [''a@b.co''])]"
  using demo_aliases
  by (simp add: newest_headers_def headers_of_def mails_with_def demo_imap_def List.map_filter_simps Let_def)

lemma first_sync_keeps_newest_witness:
  "4 \<in> set (select_newest 1 [''a@b.co''] [4, 7] demo_imap) \<or>
   outdone 1 [(7, [''a@b.co'']), (4, [''a@b.co''])] (select_newest 1 [''a@b.co''] [4, 7] demo_imap) 4 ''a@b.co''"
  using first_sync_keeps_newest [OF demo_search(2) demo_search(1) [symmetric] demo_headers [symmetric] refl, of 4 "[''a@b.co'']" "''a@b.co''" 1]
  by simp

end
