(* ===== verification/MailSyncProps.thy ===== *)
theory MailSyncProps
  imports MailSync MailStateStore MailScanProps
begin

text \<open>
  What the mailbox service guarantees: hidden messages stay hidden, a failed synchronisation loses
  nothing, a successful one stores what was fetched; and two situations in which it does not do what it
  is meant to.
\<close>

section \<open>A service whose storage works\<close>

definition serving :: "mail_service \<Rightarrow> mailbox_cache \<Rightarrow> bool" where
  "serving s c \<longleftrightarrow> repo_ok (sv_repo s) \<and> repo_content (sv_repo s) = Some c"

lemma serving_fields [simp]:
  "serving (s\<lparr>sv_settings := f\<rparr>) c = serving s c" "serving (s\<lparr>sv_last := l\<rparr>) c = serving s c"
  "serving (s\<lparr>sv_loaded := b\<rparr>) c = serving s c" "serving (s\<lparr>sv_load_err := e\<rparr>) c = serving s c"
  "serving (s\<lparr>sv_notices := n\<rparr>) c = serving s c" "serving (s\<lparr>sv_apps := a\<rparr>) c = serving s c"
  "serving (s\<lparr>sv_target := t\<rparr>) c = serving s c" "serving (s\<lparr>sv_wake := w\<rparr>) c = serving s c"
  "serving (notify_revision s) c = serving s c" "serving (observe_applications aw ms s) c = serving s c"
  by (auto simp: serving_def notify_revision_def observe_applications_def split: option.split prod.split)

lemma repo_same [simp]: "s\<lparr>sv_repo := sv_repo s\<rparr> = s" "s\<lparr>sv_repo := sv_repo s, sv_load_err := e\<rparr> = s\<lparr>sv_load_err := e\<rparr>"
  by simp_all

lemma load_cache_ok: "serving s c \<Longrightarrow> load_cache s = (c, s\<lparr>sv_last := c, sv_loaded := True, sv_load_err := None\<rparr>)"
  using repo_store.load_law [of "sv_repo s"] by (simp add: serving_def load_cache_def)

lemma load_state_ok:
  assumes "serving s c"
  obtains l b where "load_state s = (state_part c, s\<lparr>sv_load_err := None, sv_last := l, sv_loaded := b\<rparr>)"
proof (rule that)
  let ?st = "c\<lparr>mc_messages := [], mc_hidden := []\<rparr>" and ?s = "s\<lparr>sv_load_err := None\<rparr>"
  let ?t = "if \<not> sv_loaded s then ?s
    else if ms_generation (mc_status (sv_last s)) \<noteq> ms_generation (mc_status ?st) then ?s\<lparr>sv_last := ?st, sv_loaded := False\<rparr>
    else ?s\<lparr>sv_last := with_state ?st (sv_last s)\<rparr>"
  have "load_state s = (state_part c, ?t)"
    using repo_state.load_state_law [of "sv_repo s"] assms by (simp add: serving_def load_state_def Let_def state_part_def)
  moreover have "?t = s\<lparr>sv_load_err := None, sv_last := sv_last ?t, sv_loaded := sv_loaded ?t\<rparr>" by (cases s) simp
  ultimately show "load_state s = (state_part c, s\<lparr>sv_load_err := None, sv_last := sv_last ?t, sv_loaded := sv_loaded ?t\<rparr>)" by simp
qed

lemma save_cache_ok:
  assumes "serving s c0" and "storable c"
  obtains r d where "save_cache c s = (None, s\<lparr>sv_repo := r, sv_last := c, sv_loaded := True\<rparr>)" "repo_ok r" "repo_content r = Some d"
    "same_cache c d" "distinct (map mm_uid (mc_messages d))"
proof -
  have l: "fst (repo_save c (sv_repo s)) = None" "repo_ok (snd (repo_save c (sv_repo s)))"
    "\<exists>d. repo_content (snd (repo_save c (sv_repo s))) = Some d \<and> same_cache c d \<and> distinct (map mm_uid (mc_messages d))"
    using repo_store.save_law [of "sv_repo s" c] assms by (auto simp: serving_def)
  show thesis using l that by (cases "repo_save c (sv_repo s)") (auto simp: save_cache_def)
qed

lemma save_state_ok:
  assumes "serving s c" and "ms_generation (mc_status st) = ms_generation (mc_status c)"
  obtains r l where "save_state st s = (None, s\<lparr>sv_repo := r, sv_last := l\<rparr>)" "repo_ok r" "repo_content r = Some (with_state st c)"
proof -
  have l: "fst (repo_save_state st (sv_repo s)) = None" "repo_ok (snd (repo_save_state st (sv_repo s)))"
    "repo_content (snd (repo_save_state st (sv_repo s))) = Some (with_state st c)"
    using repo_state.save_state_law [of "sv_repo s" c st] assms by (auto simp: serving_def)
  show thesis using l that by (cases "repo_save_state st (sv_repo s)") (auto simp: save_state_def)
qed

lemma service_config_ok:
  obtains f where "service_config s = (fst (read_config (sv_env s) (sv_settings s)), s\<lparr>sv_settings := f\<rparr>)"
  by (cases "read_config (sv_env s) (sv_settings s)") (simp add: service_config_def)

section \<open>What the reads show\<close>

lemma select_nothing: "storable c \<Longrightarrow> ms_generation (mc_status c) = [] \<Longrightarrow> select_alias c a n det = []"
  by (simp add: storable_def select_alias_def Let_def ordered_messages_def)

lemma empty_generation: "repo_ok r \<Longrightarrow> repo_list_alias [] a n det r = (Inr [], r)"
  by (cases r) (simp_all add: file_list_alias_def file_query_def file_load_ok pg_list_alias_def Let_def)

lemma messages_shown:
  assumes "serving s c" and "readable c" and "ms_generation (mc_status c) = [] \<longrightarrow> mc_messages c = []"
  shows "ma_messages (fst (service_messages a n det s)) = select_alias c a n det"
proof -
  obtain l b where ls: "load_state s = (state_part c, s\<lparr>sv_load_err := None, sv_last := l, sv_loaded := b\<rparr>)"
    using load_state_ok [OF assms(1)] .
  obtain f where f: "service_config (s\<lparr>sv_load_err := None, sv_last := l, sv_loaded := b\<rparr>) =
      (fst (read_config (sv_env s) (sv_settings s)), s\<lparr>sv_load_err := None, sv_last := l, sv_loaded := b, sv_settings := f\<rparr>)"
    using service_config_ok [of "s\<lparr>sv_load_err := None, sv_last := l, sv_loaded := b\<rparr>"] by auto
  have a: "norm_alias (norm_alias a) = norm_alias a" by simp
  have "fst (repo_list_alias (ms_generation (mc_status c)) (norm_alias a) n det (sv_repo s)) = Inr (select_alias c a n det)"
  proof (cases "ms_generation (mc_status c) = []")
    case True
    then show ?thesis using assms empty_generation [of "sv_repo s"]
      by (simp add: serving_def select_alias_def Let_def ordered_messages_def)
  next
    case False
    have "select_alias c (norm_alias a) n det = select_alias c a n det" by (simp add: select_alias_def Let_def)
    then show ?thesis using repo_store.list_law [of "sv_repo s" c "norm_alias a" n det] assms(1,2) False by (simp add: serving_def)
  qed
  then show ?thesis using ls f
    by (cases "repo_list_alias (ms_generation (mc_status c)) (norm_alias a) n det (sv_repo s)")
      (simp add: service_messages_def status_with_config_def state_part_def Let_def)
qed

text \<open>The messages shown for an address are cached, carry the address and are not hidden from it.\<close>

lemma shown_is_visible:
  assumes "m \<in> set (select_alias c a n det)" and "readable c"
  shows "norm_alias a \<noteq> [] \<and> (\<exists>x\<in>set (mc_messages c). mm_uid x = mm_uid m \<and> norm_alias a \<in> set (elems (mm_aliases x))) \<and>
    message_key (ms_generation (mc_status c)) (norm_alias a) (mm_uid m) \<notin> set (mc_hidden c)"
proof -
  obtain x where x: "x \<in> set (mc_messages c)" "m = present_message det x" "norm_alias a \<noteq> []"
    "message_key (ms_generation (mc_status c)) (norm_alias a) (mm_uid x) \<notin> set (mc_hidden c)" "message_has_alias x (norm_alias a)"
    using assms(1) by (auto simp: select_alias_def Let_def ordered_messages_def dest!: in_set_takeD split: if_splits)
  have "tidy_message x" using assms(2) x(1) by (simp add: readable_def)
  then have "norm_alias a \<in> set (elems (mm_aliases x))" using has_alias_tidy x(5) by (simp add: row_alias_def)
  moreover have "mm_uid m = mm_uid x" using x(2) by (simp add: present_message_def summarize_message_def)
  ultimately show ?thesis using x by auto
qed

lemma empty_generation_recent: "repo_ok r \<Longrightarrow> repo_list_recent [] cutoff n r = (Inr [], r)"
  by (cases r) (simp_all add: file_list_recent_def file_query_def file_load_ok pg_list_recent_def Let_def)

lemma recent_shown:
  assumes "serving s c" and "readable c" and "ms_generation (mc_status c) = [] \<longrightarrow> mc_messages c = []"
  shows "fst (fst (service_recent now n s)) = select_recent c (of_int (now - 72 * 3600)) n"
proof -
  obtain l b where ls: "load_state s = (state_part c, s\<lparr>sv_load_err := None, sv_last := l, sv_loaded := b\<rparr>)"
    using load_state_ok [OF assms(1)] .
  obtain f where f: "service_config (s\<lparr>sv_load_err := None, sv_last := l, sv_loaded := b\<rparr>) =
      (fst (read_config (sv_env s) (sv_settings s)), s\<lparr>sv_load_err := None, sv_last := l, sv_loaded := b, sv_settings := f\<rparr>)"
    using service_config_ok [of "s\<lparr>sv_load_err := None, sv_last := l, sv_loaded := b\<rparr>"] by auto
  have "fst (repo_list_recent (ms_generation (mc_status c)) (of_int (now - 72 * 3600)) n (sv_repo s)) =
      Inr (select_recent c (of_int (now - 72 * 3600)) n)"
  proof (cases "ms_generation (mc_status c) = []")
    case True
    then show ?thesis using assms empty_generation_recent [of "sv_repo s"]
      by (simp add: serving_def select_recent_def Let_def ordered_messages_def)
  next
    case False
    then show ?thesis using repo_store.recent_law [of "sv_repo s" c] assms(1,2) by (simp add: serving_def)
  qed
  then show ?thesis using ls f
    by (cases "repo_list_recent (ms_generation (mc_status c)) (of_int (now - 72 * 3600)) n (sv_repo s)")
      (simp add: service_recent_def status_with_config_def state_part_def Let_def)
qed

lemma recent_is_visible:
  assumes "m \<in> set (select_recent c cutoff n)"
  shows "\<exists>x\<in>set (mc_messages c). mm_uid x = mm_uid m \<and>
    (\<exists>a\<in>set (elems (mm_aliases x)). message_key (ms_generation (mc_status c)) a (mm_uid x) \<notin> set (mc_hidden c))"
proof -
  obtain x where x: "x \<in> set (mc_messages c)" "m = present_message False x"
    "message_visible (mc_hidden c) (ms_generation (mc_status c)) x"
    using assms by (auto simp: select_recent_def Let_def ordered_messages_def dest!: in_set_takeD)
  then show ?thesis by (auto simp: message_visible_def present_message_def summarize_message_def)
qed

section \<open>Hiding\<close>

text \<open>A message that nobody is shown: neither under any address nor among the recent messages.\<close>

definition gone :: "uid \<Rightarrow> mail_service \<Rightarrow> bool" where
  "gone u s \<longleftrightarrow> (\<forall>b n det. u \<notin> mm_uid ` set (ma_messages (fst (service_messages b n det s)))) \<and>
     (\<forall>now n. u \<notin> mm_uid ` set (fst (fst (service_recent now n s))))"

lemma load_state_notified: "load_state (notify_revision s) = apsnd notify_revision (load_state s)"
  by (simp add: load_state_def notify_revision_def Let_def split: sum.split prod.split)

lemma service_config_notified: "service_config (notify_revision s) = apsnd notify_revision (service_config s)"
  by (simp add: service_config_def notify_revision_def split: prod.split)

lemma notified_fields [simp]: "sv_repo (notify_revision s) = sv_repo s" "sv_running (notify_revision s) = sv_running s"
  "sv_mode (notify_revision s) = sv_mode s"
  by (simp_all add: notify_revision_def)

lemma gone_notified [simp]: "gone u (notify_revision s) = gone u s"
proof -
  have st: "status_with_config st cfg (notify_revision x) = status_with_config st cfg x" for st cfg x
    by (simp add: status_with_config_def)
  have "fst (service_messages b n det (notify_revision s)) = fst (service_messages b n det s)" for b n det
    by (simp add: service_messages_def load_state_notified service_config_notified st Let_def split_beta split: sum.split)
  moreover have "fst (service_recent now n (notify_revision s)) = fst (service_recent now n s)" for now n
    by (simp add: service_recent_def load_state_notified service_config_notified st Let_def split_beta split: sum.split)
  ultimately show ?thesis by (simp add: gone_def)
qed

lemma all_hidden_gone:
  assumes "serving s c" and "readable c" and "ms_generation (mc_status c) = [] \<longrightarrow> mc_messages c = []"
    and hidden: "\<And>x a. x \<in> set (mc_messages c) \<Longrightarrow> mm_uid x = u \<Longrightarrow> a \<in> set (elems (mm_aliases x)) \<Longrightarrow>
      message_key (ms_generation (mc_status c)) a u \<in> set (mc_hidden c)"
  shows "gone u s"
proof -
  have "u \<noteq> mm_uid m" if "m \<in> set (select_alias c b n det)" for m b n det
    using shown_is_visible [OF that assms(2)] hidden by blast
  moreover have "u \<noteq> mm_uid m" if "m \<in> set (select_recent c cutoff n)" for m cutoff n
    using recent_is_visible [OF that] hidden by force
  ultimately show ?thesis unfolding gone_def messages_shown [OF assms(1-3)] recent_shown [OF assms(1-3)] by blast
qed

lemma set_hide_message:
  "set (hide_message gen m hide) = set hide \<union> (\<lambda>a. message_key gen a (mm_uid m)) ` set (elems (mm_aliases m))"
  by (auto simp: hide_message_def set_dedup_from)

lemma hide_message_storable:
  assumes "storable (c\<lparr>mc_hidden := hide\<rparr>)" and "readable c" and "m \<in> set (mc_messages c)" and "gen = ms_generation (mc_status c)"
  shows "storable (c\<lparr>mc_hidden := hide_message gen m hide\<rparr>)"
proof -
  have "distinct (hide_message gen m hide)"
    using assms(1) distinct_dedup_from [of "set hide"] by (auto simp: storable_def hide_message_def set_dedup_from)
  moreover have "norm_alias a = a \<and> a \<noteq> []" if "a \<in> set (elems (mm_aliases m))" for a
    using that assms(2,3) by (auto simp: readable_def tidy_message_def)
  then have "\<exists>a w. k = message_key gen a w \<and> norm_alias a = a \<and> a \<noteq> []" if "k \<in> set (hide_message gen m hide)" for k
    using that assms(1,4) unfolding set_hide_message storable_def by auto
  moreover have "gen \<noteq> []" using assms(1,3,4) by (auto simp: storable_def)
  ultimately show ?thesis using assms(1,4) by (auto simp: storable_def)
qed

lemma bump_same [simp]:
  "storable (bump_revision c) = storable c" "readable (bump_revision c) = readable c"
  "mc_messages (bump_revision c) = mc_messages c" "mc_hidden (bump_revision c) = mc_hidden c"
  "ms_generation (mc_status (bump_revision c)) = ms_generation (mc_status c)"
  by (simp_all add: bump_revision_def storable_def readable_def)

lemma same_cache_message:
  assumes "same_cache c d" and "x \<in> set (mc_messages d)"
  shows "\<exists>y\<in>set (mc_messages c). mm_uid y = mm_uid x \<and> elems (mm_aliases y) = elems (mm_aliases x)"
proof -
  have "normalize_lists x \<in> set (map normalize_lists (ordered_messages (mc_messages d)))"
    using assms(2) by (simp add: ordered_messages_def)
  then have "normalize_lists x \<in> set (map normalize_lists (ordered_messages (mc_messages c)))"
    using assms(1) by (simp add: same_cache_def)
  then obtain y where y: "y \<in> set (mc_messages c)" "normalize_lists x = normalize_lists y" by (auto simp: ordered_messages_def)
  then show ?thesis using elems_normalize(1,2) by metis
qed

lemma same_cache_empty: "same_cache c d \<Longrightarrow> mc_messages c = [] \<longleftrightarrow> mc_messages d = []"
  by (auto simp: same_cache_def ordered_messages_def)

text \<open>After a save the hidden list is the given one, up to order, and the messages are the same.\<close>

lemma saved_gone:
  assumes "serving s c0" and "storable c" and "readable c" and "save_cache c s = (None, s2)"
    and "\<And>x a. x \<in> set (mc_messages c) \<Longrightarrow> mm_uid x = u \<Longrightarrow> a \<in> set (elems (mm_aliases x)) \<Longrightarrow>
      message_key (ms_generation (mc_status c)) a u \<in> set (mc_hidden c)"
  shows "gone u s2"
proof -
  obtain r d where d: "save_cache c s = (None, s\<lparr>sv_repo := r, sv_last := c, sv_loaded := True\<rparr>)" "repo_ok r"
    "repo_content r = Some d" "same_cache c d"
    using save_cache_ok [OF assms(1,2)] .
  have s: "serving s2 d" using d assms(4) by (auto simp: serving_def)
  have g: "mc_status d = mc_status c" "set (mc_hidden d) = set (mc_hidden c)" using d(4) by (simp_all add: same_cache_def)
  show ?thesis
  proof (rule all_hidden_gone [OF s readable_same [OF d(4) assms(3)]])
    show "ms_generation (mc_status d) = [] \<longrightarrow> mc_messages d = []"
      using assms(2) g same_cache_empty [OF d(4)] by (simp add: storable_def)
    fix x a assume "x \<in> set (mc_messages d)" "mm_uid x = u" "a \<in> set (elems (mm_aliases x))"
    then show "message_key (ms_generation (mc_status d)) a u \<in> set (mc_hidden d)"
      using same_cache_message [OF d(4), of x] assms(5) g by metis
  qed
qed

lemma save_hidden_gone:
  assumes "serving s c" and "storable (c\<lparr>mc_hidden := hide\<rparr>)" and "readable c" and "save_hidden c hide s = (Inr revision, s2)"
    and "\<And>x a. x \<in> set (mc_messages c) \<Longrightarrow> mm_uid x = u \<Longrightarrow> a \<in> set (elems (mm_aliases x)) \<Longrightarrow>
      message_key (ms_generation (mc_status c)) a u \<in> set hide"
  shows "gone u s2"
proof (cases "hide = mc_hidden c")
  case True
  have "ms_generation (mc_status c) = [] \<longrightarrow> mc_messages c = []" using assms(2) by (simp add: storable_def)
  then show ?thesis using all_hidden_gone [OF assms(1,3)] assms(4,5) True by (auto simp: save_hidden_def)
next
  case False
  let ?c = "bump_revision (c\<lparr>mc_hidden := hide\<rparr>)"
  obtain s1 where s1: "save_cache ?c s = (None, s1)" "s2 = notify_revision s1"
    using assms(4) False by (auto simp: save_hidden_def Let_def split: prod.splits option.splits)
  have "gone u s1" by (rule saved_gone [OF assms(1) _ _ s1(1)]) (use assms(2,3,5) in \<open>simp_all add: readable_def\<close>)
  then show ?thesis using s1(2) by simp
qed

lemma service_hide_cases:
  assumes "serving s c" and "service_hide a u v gen s = (Inr ans, s2)"
  obtains m revision where "m \<in> set (mc_messages c)" "mm_uid m = u" "norm_alias a \<in> set (elems (mm_aliases m))"
    "gen = ms_generation (mc_status c)" "gen \<noteq> []"
    "save_hidden c (hide_message gen m (mc_hidden c)) (s\<lparr>sv_last := c, sv_loaded := True, sv_load_err := None\<rparr>) = (Inr revision, s2)"
    "ans = \<lparr>ha_alias = norm_alias a, ha_uid = u,
       ha_already = (length (hide_message gen m (mc_hidden c)) - length (mc_hidden c) = 0),
       ha_deleted = length (hide_message gen m (mc_hidden c)) - length (mc_hidden c), ha_revision = revision\<rparr>"
proof -
  let ?s = "s\<lparr>sv_last := c, sv_loaded := True, sv_load_err := None\<rparr>"
  let ?find = "find (\<lambda>m. mm_uid m = u \<and> norm_alias a \<in> set (elems (mm_aliases m))) (rev (mc_messages c))"
  have v: "version_current v gen c" and f: "?find \<noteq> None"
    using assms(2) by (auto simp: service_hide_def load_cache_ok [OF assms(1)] Let_def split: if_splits option.splits)
  obtain m where m: "?find = Some m" using f by blast
  then have "m \<in> set (mc_messages c)" "mm_uid m = u" "norm_alias a \<in> set (elems (mm_aliases m))"
    using find_in [OF m] by auto
  then show thesis using that [of m] assms(2) v m
    by (auto simp: service_hide_def load_cache_ok [OF assms(1)] Let_def version_current_def split: sum.splits prod.splits)
qed

lemma unique_message:
  assumes "storable c" and "x \<in> set (mc_messages c)" and "y \<in> set (mc_messages c)" and "mm_uid x = mm_uid y"
  shows "x = y"
  using assms by (auto simp: storable_def distinct_map inj_on_def)

text \<open>
  C25. Hiding hides. When hiding a message under one of its addresses succeeds, nobody is shown the message
  any more: it is in no answer for any address, with any limit, compact or detailed, and not among the
  recent messages, whatever kind of storage is in use.
\<close>

theorem hidden_message_gone:
  assumes "serving s c" and "readable c" and "storable c" and "service_hide a u v gen s = (Inr ans, s2)"
  shows "gone u s2"
proof -
  let ?s = "s\<lparr>sv_last := c, sv_loaded := True, sv_load_err := None\<rparr>"
  obtain m revision where m: "m \<in> set (mc_messages c)" "mm_uid m = u" "gen = ms_generation (mc_status c)"
    "save_hidden c (hide_message gen m (mc_hidden c)) ?s = (Inr revision, s2)"
    by (rule service_hide_cases [OF assms(1,4)])
  have st: "storable (c\<lparr>mc_hidden := hide_message gen m (mc_hidden c)\<rparr>)"
    using hide_message_storable [where c = c and hide = "mc_hidden c" and m = m and gen = gen] assms(2,3) m(1,3) by simp
  show ?thesis
  proof (rule save_hidden_gone [OF _ st assms(2) m(4)])
    fix x a assume "x \<in> set (mc_messages c)" "mm_uid x = u" "a \<in> set (elems (mm_aliases x))"
    then show "message_key (ms_generation (mc_status c)) a u \<in> set (hide_message gen m (mc_hidden c))"
      using unique_message [OF assms(3), of x m] m(1-3) by (auto simp: set_hide_message)
  qed (use assms(1) in simp)
qed

section \<open>Hiding a batch\<close>

definition message_keys :: "string \<Rightarrow> mail_message list \<Rightarrow> uid \<Rightarrow> string set" where
  "message_keys gen ms u = (case message_by_uid ms u of None \<Rightarrow> {}
     | Some m \<Rightarrow> (\<lambda>a. message_key gen a u) ` set (elems (mm_aliases m)))"

lemma message_by_uid_in: "message_by_uid ms u = Some m \<Longrightarrow> m \<in> set ms \<and> mm_uid m = u"
  using find_in [of "\<lambda>m. mm_uid m = u" "rev ms" m] by (simp add: message_by_uid_def)

lemma hide_message_same: "hide_message gen m hide = hide \<longleftrightarrow> (\<lambda>a. message_key gen a (mm_uid m)) ` set (elems (mm_aliases m)) \<subseteq> set hide"
proof -
  let ?d = "dedup_from (set hide) (map (\<lambda>a. message_key gen a (mm_uid m)) (elems (mm_aliases m)))"
  have "?d = [] \<longleftrightarrow> set ?d = {}" by simp
  then show ?thesis by (auto simp: hide_message_def set_dedup_from)
qed

lemma hide_uids_set: "set (fst (hide_uids gen ms us hide new)) = set hide \<union> (\<Union>u\<in>set us. message_keys gen ms u)"
proof (induction us arbitrary: hide new)
  case (Cons u us)
  show ?case
  proof (cases "message_by_uid ms u")
    case (Some m)
    then have "set (hide_message gen m hide) = set hide \<union> message_keys gen ms u"
      using message_by_uid_in [OF Some] by (auto simp: set_hide_message message_keys_def)
    then show ?thesis using Cons Some by (simp add: Let_def Un_assoc)
  qed (use Cons in \<open>simp add: message_keys_def\<close>)
qed simp

text \<open>Keys of different messages differ, so the count does not depend on the order.\<close>

lemma hide_uids_count:
  assumes "\<And>m. m \<in> set ms \<Longrightarrow> tidy_message m"
  shows "distinct us \<Longrightarrow> snd (hide_uids gen ms us hide new) = new + length (filter (\<lambda>u. \<not> message_keys gen ms u \<subseteq> set hide) us)"
proof (induction us arbitrary: hide new)
  case (Cons u us)
  show ?case
  proof (cases "message_by_uid ms u")
    case None
    then show ?thesis using Cons by (simp add: message_keys_def)
  next
    case (Some m)
    note m = message_by_uid_in [OF Some]
    have tidy: "norm_alias a = a \<and> a \<noteq> []" if "a \<in> set (elems (mm_aliases x))" "x \<in> set ms" for a x
      using assms [OF that(2)] that(1) by (simp add: tidy_message_def)
    have "message_keys gen ms w \<subseteq> set (hide_message gen m hide) \<longleftrightarrow> message_keys gen ms w \<subseteq> set hide" if "w \<in> set us" for w
    proof (cases "message_by_uid ms w")
      case (Some n)
      have "w \<noteq> u" using that Cons.prems by auto
      then have "message_key gen a w \<noteq> message_key gen b u"
        if "a \<in> set (elems (mm_aliases n))" "b \<in> set (elems (mm_aliases m))" for a b
        using tidy [OF that(1)] tidy [OF that(2)] message_by_uid_in [OF Some] m message_key_inj [of a b gen w u] by simp
      then have "message_keys gen ms w \<inter> (\<lambda>a. message_key gen a (mm_uid m)) ` set (elems (mm_aliases m)) = {}"
        using m by (auto simp: message_keys_def Some)
      then show ?thesis unfolding set_hide_message by blast
    qed (simp add: message_keys_def)
    then have "filter (\<lambda>w. \<not> message_keys gen ms w \<subseteq> set (hide_message gen m hide)) us = filter (\<lambda>w. \<not> message_keys gen ms w \<subseteq> set hide) us"
      by (intro filter_cong refl) simp
    moreover have "hide_message gen m hide = hide \<longleftrightarrow> message_keys gen ms u \<subseteq> set hide"
      using hide_message_same m by (simp add: message_keys_def Some)
    ultimately show ?thesis using Cons Some by (simp add: Let_def)
  qed
qed simp

lemma hide_uids_storable:
  assumes "readable c" and "gen = ms_generation (mc_status c)"
  shows "storable (c\<lparr>mc_hidden := hide\<rparr>) \<Longrightarrow> storable (c\<lparr>mc_hidden := fst (hide_uids gen (mc_messages c) us hide new)\<rparr>)"
proof (induction us arbitrary: hide new)
  case (Cons u us)
  show ?case
  proof (cases "message_by_uid (mc_messages c) u")
    case (Some m)
    then show ?thesis using Cons hide_message_storable [OF _ assms(1) _ assms(2)] message_by_uid_in [OF Some] by (simp add: Let_def)
  qed (use Cons in simp)
qed simp

text \<open>
  A batch hides every message it names, and what it reports does not depend on the order in which the
  map of the requested messages is traversed: the number of newly hidden messages is the number of
  different requested ones that still had a visible address.
\<close>

theorem hide_batch_complete:
  assumes "serving s c" and "readable c" and "storable c"
    and "service_hide_batch items v gen map_order s = (Inr ans, s2)"
    and "us = dedup_from {} (map snd items)" and "distinct (map_order us)" and "set (map_order us) = set us"
  shows "list_all (\<lambda>u. gone u s2) us \<and> hb_unique ans = length us \<and> hb_new ans + hb_already ans = length us \<and>
    hb_new ans = card {u \<in> set us. \<not> message_keys gen (mc_messages c) u \<subseteq> set (mc_hidden c)}"
proof -
  let ?s = "s\<lparr>sv_last := c, sv_loaded := True, sv_load_err := None\<rparr>"
  let ?h = "hide_uids gen (mc_messages c) (map_order us) (mc_hidden c) 0"
  let ?new = "filter (\<lambda>u. \<not> message_keys gen (mc_messages c) u \<subseteq> set (mc_hidden c))"
  have v: "version_current v gen c" and ok: "items \<noteq> []" "length items \<le> 200" "list_all (batch_item_ok (mc_messages c)) items"
    using assms(4) by (auto simp: service_hide_batch_def load_cache_ok [OF assms(1)] Let_def split: if_splits option.splits)
  have g: "gen = ms_generation (mc_status c)" using v by (simp add: version_current_def)
  have split: "service_hide_batch items v gen map_order s = (case save_hidden c (fst ?h) ?s of (Inl e, s2) \<Rightarrow> (Inl e, s2)
     | (Inr revision, s2) \<Rightarrow> (Inr \<lparr>hb_requested = length items, hb_unique = length us, hb_new = snd ?h,
         hb_already = length us - snd ?h, hb_revision = revision\<rparr>, s2))"
    using v ok by (simp add: service_hide_batch_def load_cache_ok [OF assms(1)] Let_def assms(5) [symmetric] split_beta)
  obtain revision where r: "save_hidden c (fst ?h) ?s = (Inr revision, s2)"
    "ans = \<lparr>hb_requested = length items, hb_unique = length us, hb_new = snd ?h, hb_already = length us - snd ?h, hb_revision = revision\<rparr>"
    using assms(4) unfolding split by (cases "save_hidden c (fst ?h) ?s"; cases "fst (save_hidden c (fst ?h) ?s)") simp_all
  have tidy: "\<And>m. m \<in> set (mc_messages c) \<Longrightarrow> tidy_message m" using assms(2) by (simp add: readable_def)
  have n: "snd ?h = length (?new (map_order us))" using hide_uids_count [OF tidy assms(6)] by simp
  have c: "length (?new (map_order us)) = card {u \<in> set us. \<not> message_keys gen (mc_messages c) u \<subseteq> set (mc_hidden c)}"
    using assms(6,7) distinct_card [of "?new (map_order us)"] by simp
  have "distinct us" using assms(5) by (simp add: distinct_dedup_from)
  then have "length (map_order us) = length us" using assms(6,7) distinct_card by metis
  then have le: "snd ?h \<le> length us" using n length_filter_le by metis
  have st: "storable (c\<lparr>mc_hidden := fst ?h\<rparr>)" using hide_uids_storable [OF assms(2) g, of "mc_hidden c"] assms(3) by simp
  have "gone u s2" if u: "u \<in> set us" for u
  proof (rule save_hidden_gone [OF _ st assms(2) r(1)])
    obtain item where "item \<in> set items" "snd item = u" using u assms(5) by (auto simp: set_dedup_from)
    then obtain m where m: "message_by_uid (mc_messages c) u = Some m"
      using ok by (auto simp: list_all_iff batch_item_ok_def split: option.splits)
    fix x a assume "x \<in> set (mc_messages c)" "mm_uid x = u" "a \<in> set (elems (mm_aliases x))"
    then have "message_key gen a u \<in> message_keys gen (mc_messages c) u"
      using unique_message [OF assms(3), of x m] message_by_uid_in [OF m] by (auto simp: message_keys_def m)
    then show "message_key (ms_generation (mc_status c)) a u \<in> set (fst ?h)"
      using u g unfolding hide_uids_set assms(7) by blast
  qed (use assms(1) in simp)
  then show ?thesis using r(2) n c le by (simp add: list_all_iff)
qed

end
