(* ===== verification/MailCommitProps.thy ===== *)
theory MailCommitProps
  imports MailSyncProps MailAppsProps
begin

text \<open>
  What a synchronisation leaves in the store: hidden messages stay hidden, a failed one loses nothing, a
  successful one holds what it fetched or newer messages. And two situations in which the service loses
  what it should keep.
\<close>

section \<open>The merged cache can be stored\<close>

lemma merged_subset: "set (merge_messages old incoming aliases maximum) \<subseteq> set (union_retained aliases (old @ incoming))"
  by (auto simp: merge_messages_alt Let_def dest: in_set_takeD)

lemma merged_uids: "distinct (map mm_uid (merge_messages old incoming aliases maximum))"
  using union_retained_facts(2) by (simp add: merge_messages_alt Let_def take_map [symmetric])

lemma merged_aliases:
  "x \<in> set (merge_messages old incoming aliases maximum) \<Longrightarrow> set (elems (mm_aliases x)) \<subseteq> set (normalize_aliases aliases)"
  using union_retained_aliases merged_subset by blast

lemma union_retained_core:
  assumes "x \<in> set (union_retained aliases ms)"
  shows "\<exists>m\<in>set ms. core x = core m"
proof -
  obtain y where y: "y \<in> set (sorted_union (normalize_aliases aliases) ms)" "core x = core y"
    using retain_from_aliases [of x max_per_alias "\<lambda>a. 0" "sorted_union (normalize_aliases aliases) ms"] assms
    by (auto simp: union_retained_def retain_newest_def max_per_alias_def)
  obtain m where m: "find (\<lambda>z. mm_uid z = mm_uid y) (rev ms) = Some m"
    "y = m\<lparr>mm_aliases := Some (own (normalize_aliases aliases) m)\<rparr>"
    using y(1) unfolding sorted_union_facts(3) latest_in_def by (auto split: option.splits)
  have "m \<in> set ms" using find_in [OF m(1)] by simp
  then show ?thesis using y(2) m(2) by auto
qed

lemma merged_core: "x \<in> set (merge_messages old incoming aliases maximum) \<Longrightarrow> \<exists>m\<in>set old \<union> set incoming. core x = core m"
  using merged_subset union_retained_core by fastforce

lemma merged_tidy:
  assumes "\<forall>m\<in>set old \<union> set incoming. tidy_message m" and "x \<in> set (merge_messages old incoming aliases maximum)"
  shows "tidy_message x"
proof -
  obtain m where m: "tidy_message m" "core x = core m" using merged_core [OF assms(2)] assms(1) by blast
  have "mm_text x = mm_text m" using m(2) by (cases x; cases m) (simp add: core_def)
  moreover have "norm_alias a = a \<and> a \<noteq> []" if "a \<in> set (elems (mm_aliases x))" for a
    using merged_aliases [OF assms(2)] that normalize_aliases_facts(3,4) by blast
  ultimately show ?thesis using m(1) by (simp add: tidy_message_def)
qed

lemma prune_keeps: "set (prune_hidden hide gen ms) = set hide \<inter> set (valid_keys gen ms)" "distinct (prune_hidden hide gen ms)"
  by (auto simp: prune_hidden_def set_dedup_from distinct_dedup_from)

lemma merged_storable:
  assumes "\<forall>m\<in>set (mc_messages c) \<union> set ms. tidy_message m" and "gen \<noteq> []"
  shows "storable (merged_cache plan aliases gen v h ms c)" "readable (merged_cache plan aliases gen v h ms c)"
proof -
  let ?k = "merge_messages (mc_messages c) ms aliases (cf_cache_max (sp_cfg plan))"
  have "\<exists>a u. k = message_key gen a u \<and> norm_alias a = a \<and> a \<noteq> []" if key: "k \<in> set (prune_hidden (mc_hidden c) gen ?k)" for k
  proof -
    obtain x a where x: "x \<in> set ?k" "a \<in> set (elems (mm_aliases x))" "k = message_key gen a (mm_uid x)"
      using key unfolding prune_hidden_iff valid_keys_iff by blast
    then show ?thesis using merged_aliases [OF x(1)] normalize_aliases_facts(3,4) by blast
  qed
  then show "storable (merged_cache plan aliases gen v h ms c)"
    using assms(2) merged_uids prune_keeps(2) by (simp add: storable_def merged_cache_def synced_state_def Let_def)
  show "readable (merged_cache plan aliases gen v h ms c)"
    using merged_tidy [OF assms(1)] by (simp add: readable_def merged_cache_def synced_state_def Let_def)
qed

section \<open>What a commit stores\<close>

text \<open>The relation between the cache before a commit and the one after it.\<close>

definition same_messages :: "mail_message list \<Rightarrow> mail_message list \<Rightarrow> bool" where
  "same_messages xs ys \<longleftrightarrow> normalize_lists ` set xs = normalize_lists ` set ys"

definition holds_merge :: "sync_plan \<Rightarrow> string list \<Rightarrow> string \<Rightarrow> mail_message list \<Rightarrow> mailbox_cache \<Rightarrow> mailbox_cache \<Rightarrow> bool" where
  "holds_merge plan aliases gen ms c d \<longleftrightarrow>
     (let kept = merge_messages (mc_messages c) ms aliases (cf_cache_max (sp_cfg plan))
      in same_messages kept (mc_messages d) \<and> set (mc_hidden d) = set (mc_hidden c) \<inter> set (valid_keys gen kept))"

definition committed :: "sync_plan \<Rightarrow> string \<Rightarrow> uid \<Rightarrow> uid \<Rightarrow> mailbox_cache \<Rightarrow> bool" where
  "committed plan gen v h d \<longleftrightarrow> ms_generation (mc_status d) = gen \<and> ms_validity (mc_status d) = v \<and> mc_highest d = h \<and>
     mc_allowed d = sp_allowed plan \<and> ms_last_error (mc_status d) = [] \<and> readable d"

lemma same_cache_messages: "same_cache c d \<Longrightarrow> same_messages (mc_messages c) (mc_messages d)"
  by (auto simp: same_cache_def same_messages_def ordered_messages_def dest!: arg_cong [of _ _ set])

lemma normalize_clone [simp]: "normalize_lists (clone_message m) = normalize_lists m"
  by (auto simp: normalize_lists_def clone_message_def clone_slice_def elems_def split: option.split)

lemma same_messages_clone: "clone_messages xs = ys \<Longrightarrow> same_messages ys xs"
  by (force simp: same_messages_def clone_messages_def image_image)

lemma status_fields [simp]:
  "ms_generation (mc_status (stamp_sync cfg now s c)) = ms_generation (mc_status c)"
  "mc_messages (stamp_sync cfg now s c) = mc_messages c" "mc_hidden (stamp_sync cfg now s c) = mc_hidden c"
  "generation_changed gen (stamp_sync cfg now s c) = generation_changed gen c"
  "mc_messages (drop_old_generation gen (stamp_sync cfg now s c)) = mc_messages (drop_old_generation gen c)"
  "mc_hidden (drop_old_generation gen (stamp_sync cfg now s c)) = mc_hidden (drop_old_generation gen c)"
  by (simp_all add: stamp_sync_def status_with_config_def generation_changed_def drop_old_generation_def)

lemma merged_fields:
  "mc_messages (merged_cache plan aliases gen v h ms c) = merge_messages (mc_messages c) ms aliases (cf_cache_max (sp_cfg plan))"
  "mc_hidden (merged_cache plan aliases gen v h ms c) = prune_hidden (mc_hidden c) gen (mc_messages (merged_cache plan aliases gen v h ms c))"
  "ms_generation (mc_status (merged_cache plan aliases gen v h ms c)) = gen" "ms_validity (mc_status (merged_cache plan aliases gen v h ms c)) = v"
  "mc_highest (merged_cache plan aliases gen v h ms c) = h" "mc_allowed (merged_cache plan aliases gen v h ms c) = sp_allowed plan"
  "ms_last_error (mc_status (merged_cache plan aliases gen v h ms c)) = []"
  by (simp_all add: merged_cache_def synced_state_def Let_def)

lemma drop_tidy: "readable c \<Longrightarrow> readable (drop_old_generation gen c)"
  by (simp add: readable_def drop_old_generation_def)

lemma bump_fields [simp]:
  "mc_highest (bump_revision c) = mc_highest c" "mc_allowed (bump_revision c) = mc_allowed c"
  "ms_validity (mc_status (bump_revision c)) = ms_validity (mc_status c)"
  "ms_last_error (mc_status (bump_revision c)) = ms_last_error (mc_status c)"
  by (simp_all add: bump_revision_def)

lemma commit_merge_content:
  assumes "serving s c" and "readable c" and "list_all tidy_message ms" and "gen \<noteq> []"
    and empty: "ms_generation (mc_status c) = [] \<longrightarrow> mc_hidden c = []"
    and commit: "commit_merge w gen now plan aliases ms v h s = ((st, err), s2)"
  shows "err = None \<and> (\<exists>d. serving s2 d \<and> committed plan gen v h d \<and> holds_merge plan aliases gen ms (drop_old_generation gen c) d)"
proof -
  let ?s = "s\<lparr>sv_last := c, sv_loaded := True, sv_load_err := None\<rparr>"
  define c0 where "c0 = drop_old_generation gen (stamp_sync (sp_cfg plan) now ?s c)"
  define c1 where "c1 = merged_cache plan aliases gen v h ms c0"
  define changed where "changed = (generation_changed gen c \<or> messages_changed c0 c1)"
  define c2 where "c2 = (if changed then bump_revision c1 else c1)"
  have s: "serving ?s c" using assms(1) by simp
  have tidy: "\<forall>m\<in>set (mc_messages c0) \<union> set ms. tidy_message m"
    using drop_tidy [OF assms(2), of gen] assms(3) by (auto simp: readable_def list_all_iff c0_def)
  note ok = merged_storable [OF tidy assms(4), of plan aliases v h, folded c1_def]
  have st: "storable c2" and rd: "readable c2" using ok by (simp_all add: c2_def)
  have c1: "mc_messages c1 = merge_messages (mc_messages c0) ms aliases (cf_cache_max (sp_cfg plan))"
    by (simp add: c1_def merged_fields)
  have c0: "mc_messages c0 = mc_messages (drop_old_generation gen c)" "mc_hidden c0 = mc_hidden (drop_old_generation gen c)"
    by (simp_all add: c0_def)
  have c2: "mc_messages c2 = mc_messages c1" "mc_hidden c2 = mc_hidden c1" "ms_generation (mc_status c2) = gen"
    "ms_validity (mc_status c2) = v" "mc_highest c2 = h" "mc_allowed c2 = sp_allowed plan" "ms_last_error (mc_status c2) = []"
    by (simp_all add: c2_def c1_def merged_fields)
  have hid: "set (mc_hidden c1) = set (mc_hidden c0) \<inter> set (valid_keys gen (mc_messages c1))"
    unfolding c1_def merged_fields(2) by (simp add: prune_keeps(1))
  have eq: "commit_merge w gen now plan aliases ms v h s =
     (case if changed \<or> hidden_changed c0 c1 then save_cache c2 ?s else save_state c2 ?s of
        (Some e, s) \<Rightarrow> ((mc_status c2, Some e), s)
      | (None, s) \<Rightarrow> ((mc_status c2, None),
           if changed then notify_revision (observe_applications w ms s) else observe_applications w ms s))"
    by (simp add: commit_merge_def load_cache_ok [OF assms(1)] Let_def c2_def changed_def c1_def c0_def split: prod.split option.split)
  show ?thesis
  proof (cases "changed \<or> hidden_changed c0 c1")
    case True
    obtain r d where d: "save_cache c2 ?s = (None, ?s\<lparr>sv_repo := r, sv_last := c2, sv_loaded := True\<rparr>)" "repo_ok r"
      "repo_content r = Some d" "same_cache c2 d"
      using save_cache_ok [OF s st] by metis
    have "committed plan gen v h d" using d(4) c2 readable_same [OF d(4) rd] by (simp add: committed_def same_cache_def)
    moreover have "holds_merge plan aliases gen ms (drop_old_generation gen c) d"
      using same_cache_messages [OF d(4)] d(4) c2(1,2) hid by (simp add: holds_merge_def Let_def same_cache_def c1 c0)
    moreover have "serving (?s\<lparr>sv_repo := r, sv_last := c2, sv_loaded := True\<rparr>) d" using d by (simp add: serving_def)
    ultimately show ?thesis using commit unfolding eq using True d(1) by (auto split: if_splits)
  next
    case False
    then have same: "clone_messages (mc_messages c0) = mc_messages c1" "mc_hidden c0 = mc_hidden c1" "\<not> generation_changed gen c"
      by (simp_all add: messages_changed_def hidden_changed_def changed_def)
    then have id: "drop_old_generation gen c = c" by (simp add: drop_old_generation_def)
    have "mc_hidden c \<noteq> []" using False c0(2) id unfolding hidden_changed_def by metis
    then have g: "ms_generation (mc_status c2) = ms_generation (mc_status c)"
      using same(3) empty c2(3) by (auto simp: generation_changed_def)
    obtain r l where d: "save_state c2 ?s = (None, ?s\<lparr>sv_repo := r, sv_last := l\<rparr>)" "repo_ok r" "repo_content r = Some (with_state c2 c)"
      using save_state_ok [OF s g] by metis
    have "committed plan gen v h (with_state c2 c)" using c2(3-7) assms(2) by (simp add: committed_def with_state_def readable_def)
    moreover have "same_messages (mc_messages c1) (mc_messages c)"
      using same_messages_clone [OF same(1)] c0(1) id by simp
    then have "holds_merge plan aliases gen ms (drop_old_generation gen c) (with_state c2 c)"
      using hid same(2) c0 c1 id by (simp add: holds_merge_def Let_def with_state_def)
    moreover have "serving (?s\<lparr>sv_repo := r, sv_last := l\<rparr>) (with_state c2 c)" using d by (simp add: serving_def)
    ultimately show ?thesis using commit unfolding eq using False d(1) by (auto split: if_splits)
  qed
qed

lemma state_commit:
  assumes "serving s c" and "ms_generation (mc_status st) = ms_generation (mc_status c)"
  shows "fst (save_state st s) = None \<and> serving (snd (save_state st s)) (with_state st c)"
proof -
  obtain r l where "save_state st s = (None, s\<lparr>sv_repo := r, sv_last := l\<rparr>)" "repo_ok r" "repo_content r = Some (with_state st c)"
    using save_state_ok [OF assms] .
  then show ?thesis by (simp add: serving_def)
qed

lemma state_part_fields [simp]:
  "ms_generation (mc_status (state_part c)) = ms_generation (mc_status c)" "mc_status (state_part c) = mc_status c"
  "generation_changed gen (state_part c) = generation_changed gen c"
  by (simp_all add: state_part_def generation_changed_def)

text \<open>A successful fetch: either nothing has happened and only the state is written, or the store holds the
  merge.\<close>

lemma sync_commit_content:
  assumes "serving s c" and "readable c" and "ms_generation (mc_status c) = [] \<longrightarrow> mc_hidden c = []" and "list_all tidy_message ms"
    and "gen = mailbox_generation sha (sp_cfg plan) v" and "gen \<noteq> []"
    and "ms_generation (mc_status c) = [] \<longrightarrow> sp_aliases_changed plan"
    and commit: "sync_commit w sha now plan aliases (Inr (ms, v, h)) s = ((st, err), s2)"
  shows "err = None \<and> (\<exists>d. serving s2 d \<and> committed plan gen v h d \<and>
    (holds_merge plan aliases gen ms (drop_old_generation gen c) d \<or>
     ms = [] \<and> \<not> sp_aliases_changed plan \<and> ms_generation (mc_status c) = gen \<and> mc_messages d = mc_messages c \<and> mc_hidden d = mc_hidden c))"
proof -
  obtain l b where ls: "load_state s = (state_part c, s\<lparr>sv_load_err := None, sv_last := l, sv_loaded := b\<rparr>)"
    using load_state_ok [OF assms(1)] .
  let ?s = "s\<lparr>sv_load_err := None, sv_last := l, sv_loaded := b\<rparr>"
  have s: "serving ?s c" using assms(1) by simp
  show ?thesis
  proof (cases "ms = [] \<and> \<not> sp_aliases_changed plan \<and> \<not> generation_changed gen c")
    case False
    have "sync_commit w sha now plan aliases (Inr (ms, v, h)) s = commit_merge w gen now plan aliases ms v h ?s"
      using False ls by (simp add: sync_commit_def assms(5) [symmetric] Let_def) blast
    then have "commit_merge w gen now plan aliases ms v h ?s = ((st, err), s2)" using commit by simp
    from commit_merge_content [OF s assms(2,4,6,3) this] show ?thesis by blast
  next
    case True
    define st' where "st' = synced_state plan gen v h (stamp_sync (sp_cfg plan) now ?s (state_part c))"
    have g: "ms_generation (mc_status c) = gen" using True assms(7) by (auto simp: generation_changed_def)
    have f: "ms_generation (mc_status st') = gen" "ms_validity (mc_status st') = v" "mc_highest st' = h"
      "mc_allowed st' = sp_allowed plan" "ms_last_error (mc_status st') = []"
      by (simp_all add: st'_def synced_state_def)
    have "sync_commit w sha now plan aliases (Inr (ms, v, h)) s = ((mc_status st', fst (save_state st' ?s)), snd (save_state st' ?s))"
      using True ls by (simp add: sync_commit_def assms(5) [symmetric] Let_def st'_def split_beta)
    then have "err = None \<and> serving s2 (with_state st' c)"
      using commit state_commit [OF s, of st'] f(1) g by simp
    moreover have "committed plan gen v h (with_state st' c)"
      using f assms(2) by (simp add: committed_def with_state_def readable_def)
    ultimately show ?thesis using True g by (intro conjI exI [of _ "with_state st' c"]) (simp_all add: with_state_def)
  qed
qed

text \<open>When the fetch has failed, only the time and the error are written.\<close>

lemma stored_empty: "storable c \<Longrightarrow> ms_generation (mc_status c) = [] \<longrightarrow> mc_hidden c = []"
  by (simp add: storable_def)

lemma failed_commit:
  assumes "serving s c" and "sync_commit w sha now plan aliases (Inl e) s = ((st, err), s2)"
  shows "err = Some e \<and> st = mc_status c\<lparr>ms_configured := login_configured (sp_cfg plan), ms_enabled := cf_enabled (sp_cfg plan),
      ms_host := cf_host (sp_cfg plan), ms_port := cf_port (sp_cfg plan), ms_mailbox := cf_mailbox (sp_cfg plan),
      ms_running := sv_running s, ms_mode := sv_mode s, ms_last_sync := Some now, ms_last_error := safe_error_text e\<rparr> \<and>
    serving s2 (c\<lparr>mc_status := st\<rparr>)"
proof -
  obtain l b where ls: "load_state s = (state_part c, s\<lparr>sv_load_err := None, sv_last := l, sv_loaded := b\<rparr>)"
    using load_state_ok [OF assms(1)] .
  let ?s = "s\<lparr>sv_load_err := None, sv_last := l, sv_loaded := b\<rparr>"
  define st' where "st' = (let x = stamp_sync (sp_cfg plan) now ?s (state_part c)
    in x\<lparr>mc_status := (mc_status x)\<lparr>ms_last_error := safe_error_text e\<rparr>\<rparr>)"
  have "sync_commit w sha now plan aliases (Inl e) s = ((mc_status st', Some e), snd (save_state st' ?s))"
    using ls by (simp add: sync_commit_def st'_def Let_def split_beta)
  moreover have "serving (snd (save_state st' ?s)) (with_state st' c)"
    using state_commit [of ?s c st'] assms(1) by (simp add: st'_def Let_def)
  moreover have "with_state st' c = c\<lparr>mc_status := mc_status st'\<rparr>"
    by (simp add: with_state_def st'_def Let_def stamp_sync_def state_part_def)
  moreover have "mc_status st' = mc_status c\<lparr>ms_configured := login_configured (sp_cfg plan), ms_enabled := cf_enabled (sp_cfg plan),
      ms_host := cf_host (sp_cfg plan), ms_port := cf_port (sp_cfg plan), ms_mailbox := cf_mailbox (sp_cfg plan),
      ms_running := sv_running s, ms_mode := sv_mode s, ms_last_sync := Some now, ms_last_error := safe_error_text e\<rparr>"
    by (simp add: st'_def Let_def stamp_sync_def status_with_config_def)
  ultimately show ?thesis using assms(2) by simp
qed

section \<open>Hidden stays hidden, failed loses nothing\<close>

lemma reads_of_committed:
  assumes "serving s d" and "committed plan gen v h d" and "gen \<noteq> []"
  shows "ma_messages (fst (service_messages a n det s)) = select_alias d a n det"
  by (rule messages_shown [OF assms(1)]) (use assms(2,3) in \<open>simp_all add: committed_def\<close>)

lemma same_messages_member:
  assumes "same_messages xs ys" and "y \<in> set ys"
  shows "\<exists>x\<in>set xs. normalize_lists x = normalize_lists y"
proof -
  have "normalize_lists y \<in> normalize_lists ` set xs" using assms by (simp add: same_messages_def)
  then show ?thesis by (auto dest: sym)
qed

lemma normalize_fields:
  assumes "normalize_lists x = normalize_lists y"
  shows "mm_uid x = mm_uid y \<and> elems (mm_aliases x) = elems (mm_aliases y)"
  using arg_cong [OF assms, of mm_uid] arg_cong [OF assms, of "\<lambda>m. elems (mm_aliases m)"] by simp

lemma committed_hides:
  assumes "holds_merge plan aliases gen ms c d" and "committed plan gen v h d"
    and "message_key gen (norm_alias a) u \<in> set (mc_hidden c)"
  shows "u \<notin> mm_uid ` set (select_alias d a n det)"
proof
  assume "u \<in> mm_uid ` set (select_alias d a n det)"
  then obtain m where m: "m \<in> set (select_alias d a n det)" "mm_uid m = u" by blast
  have r: "readable d" "ms_generation (mc_status d) = gen" using assms(2) by (simp_all add: committed_def)
  obtain y where y: "y \<in> set (mc_messages d)" "mm_uid y = u" "norm_alias a \<in> set (elems (mm_aliases y))"
    "message_key gen (norm_alias a) u \<notin> set (mc_hidden d)"
    using shown_is_visible [OF m(1) r(1)] m(2) r(2) by auto
  let ?kept = "merge_messages (mc_messages c) ms aliases (cf_cache_max (sp_cfg plan))"
  have k: "same_messages ?kept (mc_messages d)" "set (mc_hidden d) = set (mc_hidden c) \<inter> set (valid_keys gen ?kept)"
    using assms(1) by (simp_all add: holds_merge_def Let_def)
  obtain x where "x \<in> set ?kept" "normalize_lists x = normalize_lists y" using same_messages_member [OF k(1) y(1)] by blast
  then have "message_key gen (norm_alias a) u \<in> set (valid_keys gen ?kept)"
    using normalize_fields y(2,3) unfolding valid_keys_iff by metis
  then show False using assms(3) k(2) y(4) by blast
qed

text \<open>
  C22. What has been hidden stays hidden. A synchronisation that finds the same mailbox, whatever it
  fetches and whatever the addresses are, never shows a message again under an address under which it
  was hidden before.
\<close>

theorem hidden_stays_hidden:
  assumes "serving s c" and "readable c" and "storable c" and "list_all tidy_message ms"
    and "gen = mailbox_generation sha (sp_cfg plan) v" and "gen \<noteq> []" and "ms_generation (mc_status c) = gen"
    and "message_key gen (norm_alias a) u \<in> set (mc_hidden c)"
    and "sync_commit w sha now plan aliases (Inr (ms, v, h)) s = ((st, err), s2)"
  shows "u \<notin> mm_uid ` set (ma_messages (fst (service_messages a n det s2)))"
proof -
  have d0: "drop_old_generation gen c = c" using assms(7) by (simp add: drop_old_generation_def generation_changed_def)
  obtain d where d: "serving s2 d" "committed plan gen v h d"
    "holds_merge plan aliases gen ms c d \<or> mc_messages d = mc_messages c \<and> mc_hidden d = mc_hidden c"
    using sync_commit_content [OF assms(1,2) stored_empty [OF assms(3)] assms(4-6) _ assms(9)] assms(6,7) d0 by auto
  show ?thesis unfolding reads_of_committed [OF d(1,2) assms(6)]
  proof (cases "mc_hidden d = mc_hidden c")
    case True
    then show "u \<notin> mm_uid ` set (select_alias d a n det)"
      using shown_is_visible assms(8) d(2) by (fastforce simp: committed_def)
  next
    case False
    then show "u \<notin> mm_uid ` set (select_alias d a n det)" using committed_hides [OF _ d(2) assms(8)] d(3) by blast
  qed
qed

text \<open>
  C24. A failed synchronisation loses nothing. When connecting or fetching has failed, everybody is
  shown the same messages as before; the cursor, the hidden messages and the addresses are unchanged,
  so that the next synchronisation continues where the last successful one ended; and the status
  carries the redacted error.
\<close>

theorem failed_sync_loses_nothing:
  assumes "serving s c" and "readable c" and "storable c"
    and "sync_commit w sha now plan aliases (Inl e) s = ((st, err), s2)"
  shows "err = Some e \<and> ms_last_error st = safe_error_text e \<and>
    ma_messages (fst (service_messages a n det s2)) = ma_messages (fst (service_messages a n det s)) \<and>
    (\<exists>d. serving s2 d \<and> mc_messages d = mc_messages c \<and> mc_hidden d = mc_hidden c \<and> mc_highest d = mc_highest c \<and>
       mc_allowed d = mc_allowed c \<and> ms_validity (mc_status d) = ms_validity (mc_status c) \<and>
       ms_generation (mc_status d) = ms_generation (mc_status c))"
proof -
  note f = failed_commit [OF assms(1,4)]
  let ?d = "c\<lparr>mc_status := st\<rparr>"
  have g: "ms_generation st = ms_generation (mc_status c)" "ms_validity st = ms_validity (mc_status c)" "ms_last_error st = safe_error_text e"
    using f by simp_all
  have sv: "serving s2 ?d" and err: "err = Some e" using f by blast+
  have none: "ms_generation (mc_status c) = [] \<longrightarrow> mc_messages c = []" using assms(3) by (simp add: storable_def)
  have d: "readable ?d" "ms_generation (mc_status ?d) = [] \<longrightarrow> mc_messages ?d = []"
    using assms(2) none g(1) by (simp_all add: readable_def)
  have "ma_messages (fst (service_messages a n det s2)) = select_alias ?d a n det" by (rule messages_shown [OF sv d])
  moreover have "ma_messages (fst (service_messages a n det s)) = select_alias c a n det"
    by (rule messages_shown [OF assms(1,2) none])
  moreover have "select_alias ?d a n det = select_alias c a n det" by (simp add: select_alias_def Let_def g(1))
  ultimately show ?thesis using err sv g by (intro conjI exI [of _ ?d]) simp_all
qed

section \<open>What the server has is stored\<close>

text \<open>A message is held under an address, or the address has its hundred messages, all newer, or the cache
  is full of newer messages.\<close>

definition held_or_outdone :: "string \<Rightarrow> mail_message \<Rightarrow> int \<Rightarrow> mail_message list \<Rightarrow> bool" where
  "held_or_outdone a m maximum ms \<longleftrightarrow>
     (\<exists>r\<in>set ms. core (normalize_lists r) = core (normalize_lists m) \<and> a \<in> set (elems (mm_aliases r))) \<or>
     max_per_alias \<le> card (mm_uid ` {r \<in> set ms. a \<in> set (elems (mm_aliases r)) \<and> newer r m}) \<or>
     (0 < maximum \<and> maximum \<le> int (card (mm_uid ` {r \<in> set ms. newer r m})))"

lemma core_normalize: "core (normalize_lists r) = normalize_lists (core r)\<lparr>mm_aliases := None\<rparr>"
  by (simp add: core_def normalize_lists_def)

lemma newer_normalize: "newer (normalize_lists r) m = newer r m"
  by (simp add: newer_def normalize_lists_def)

lemma same_messages_image:
  assumes "same_messages xs ys" and "\<And>x. P (normalize_lists x) = P x"
  shows "mm_uid ` {x \<in> set xs. P x} = mm_uid ` {y \<in> set ys. P y}"
proof -
  have h: "mm_uid ` {x \<in> set zs. P x} = mm_uid ` {x \<in> normalize_lists ` set zs. P x}" for zs
    using assms(2) by (force simp: image_iff)
  show ?thesis unfolding h [of xs] h [of ys] using assms(1) by (simp add: same_messages_def)
qed

lemma held_same_messages:
  assumes "same_messages xs ys" and "held_or_outdone a m maximum xs"
  shows "held_or_outdone a m maximum ys"
proof -
  note i1 = same_messages_image [OF assms(1), of "\<lambda>r. a \<in> set (elems (mm_aliases r)) \<and> newer r m"]
  note i2 = same_messages_image [OF assms(1), of "\<lambda>r. newer r m"]
  have sym: "same_messages ys xs" using assms(1) by (simp add: same_messages_def)
  have "\<exists>r\<in>set ys. core (normalize_lists r) = core (normalize_lists m) \<and> a \<in> set (elems (mm_aliases r))"
    if r: "r \<in> set xs" "core (normalize_lists r) = core (normalize_lists m)" "a \<in> set (elems (mm_aliases r))" for r
  proof -
    obtain y where "y \<in> set ys" "normalize_lists y = normalize_lists r" using same_messages_member [OF sym r(1)] by blast
    then show ?thesis using r(2,3) normalize_fields by metis
  qed
  then show ?thesis using assms(2) i1 i2 unfolding held_or_outdone_def by (auto simp: newer_normalize)
qed

lemma merge_holds:
  assumes "a \<in> set (normalize_aliases aliases)"
    and "latest_in (normalize_aliases aliases) (old @ incoming) m" and "carries a m"
  shows "held_or_outdone a m maximum (merge_messages old incoming aliases maximum)"
proof -
  let ?k = "merge_messages old incoming aliases maximum"
  let ?A = "\<lambda>r. a \<in> set (elems (mm_aliases r))"
  have uids: "card (mm_uid ` set (filter P ?k)) = length (filter P ?k)" for P
    using merged_uids [of old incoming aliases maximum] distinct_card [of "map mm_uid (filter P ?k)"]
    by (simp add: distinct_map_filter)
  consider (kept) "\<exists>r\<in>set ?k. core r = core m \<and> ?A r"
    | (quota) "length (filter ?A ?k) = max_per_alias" "\<forall>r\<in>set (filter ?A ?k). newer r m"
    | (full) "0 < maximum" "int (length ?k) = maximum" "\<forall>r\<in>set ?k. newer r m"
    using merge_keeps [OF assms refl, of maximum] by (auto simp: Let_def)
  then show ?thesis
  proof cases
    case kept
    then show ?thesis unfolding held_or_outdone_def core_normalize by metis
  next
    case quota
    have "{r \<in> set ?k. ?A r \<and> newer r m} = set (filter ?A ?k)" using quota(2) by auto
    then show ?thesis using uids [of ?A] quota(1) by (simp add: held_or_outdone_def)
  next
    case full
    have "{r \<in> set ?k. newer r m} = set ?k" using full(3) by auto
    then have "card (mm_uid ` {r \<in> set ?k. newer r m}) = length ?k" using uids [of "\<lambda>r. True"] by simp
    then show ?thesis using full(1,2) by (simp add: held_or_outdone_def)
  qed
qed

lemma delivers_fields:
  assumes "delivers tools now aliases x m"
  shows "mm_uid m = im_uid x" "set (elems (mm_aliases m)) \<subseteq> norm_alias ` set aliases"
  using assms by (auto simp: delivers_def parse_mail_def matching_aliases_def set_dedup_from elems_def split: option.splits)

text \<open>Identifiers of the server being unique, a fetched message is the last one known of its identifier.\<close>

lemma fetched_is_latest:
  assumes "\<forall>y\<in>set ms. \<exists>x\<in>set mails. delivers tools now aliases x y" and "distinct (map im_uid mails)"
    and "m \<in> set ms" and "x \<in> set mails" and "delivers tools now aliases x m"
    and "own allowed m \<noteq> []"
  shows "latest_in allowed (old @ ms) (m\<lparr>mm_aliases := Some (own allowed m)\<rparr>)"
proof -
  have "y = m" if "y \<in> set ms" "mm_uid y = mm_uid m" for y
  proof -
    obtain z where z: "z \<in> set mails" "delivers tools now aliases z y" using assms(1) \<open>y \<in> set ms\<close> by blast
    have "z = x" using assms(2) z(1) assms(4) delivers_fields(1) [OF z(2)] delivers_fields(1) [OF assms(5)] that(2)
      by (auto simp: distinct_map inj_on_def)
    then show ?thesis using z(2) assms(5) by (simp add: delivers_def)
  qed
  then have "find (\<lambda>y. mm_uid y = mm_uid m) (rev ms @ rev old) = Some m"
  proof -
    assume u: "\<And>y. y \<in> set ms \<Longrightarrow> mm_uid y = mm_uid m \<Longrightarrow> y = m"
    obtain y where y: "find (\<lambda>y. mm_uid y = mm_uid m) (rev ms) = Some y"
      using assms(3) by (cases "find (\<lambda>y. mm_uid y = mm_uid m) (rev ms)") (auto simp: find_None_iff)
    then have "y = m" using u find_in [OF y] by simp
    then show ?thesis using y by (simp add: find_append)
  qed
  then show ?thesis using assms(6) by (simp add: latest_in_def)
qed

text \<open>The start of an incremental synchronisation, and what a successful one consists of.\<close>

lemma sync_begin_ok:
  assumes "serving s c" and "cfg = fst (service_config s)" and "login_configured cfg"
    and "\<not> aliases_differ (mc_allowed c) (normalize_aliases aliases)" and "mc_highest c \<noteq> 0"
  shows "\<exists>s1. sync_begin aliases s = (Inr \<lparr>sp_cfg = cfg, sp_previous = ms_validity (mc_status c), sp_after = mc_highest c,
      sp_allowed = normalize_aliases aliases, sp_aliases_changed = False\<rparr>, s1) \<and> serving s1 c"
proof -
  obtain f where f: "service_config s = (fst (read_config (sv_env s) (sv_settings s)), s\<lparr>sv_settings := f\<rparr>)"
    by (rule service_config_ok)
  let ?s = "s\<lparr>sv_settings := f\<rparr>"
  have sv: "serving ?s c" using assms(1) by simp
  obtain l b where ls: "load_state ?s = (state_part c, ?s\<lparr>sv_load_err := None, sv_last := l, sv_loaded := b\<rparr>)"
    by (rule load_state_ok [OF sv])
  have "fst (read_config (sv_env s) (sv_settings s)) = cfg" using f assms(2) by simp
  moreover have "mc_allowed (state_part c) = mc_allowed c" "mc_highest (state_part c) = mc_highest c"
    by (simp_all add: state_part_def)
  ultimately show ?thesis using f ls assms(1,3-5) by (simp add: sync_begin_def Let_def)
qed

lemma ensure_serving: "serving (snd (ensure_connection sha w cfg s)) c = serving s c"
  by (auto simp: ensure_connection_def Let_def split: sum.split option.split)

lemma sync_fetch_serving: "serving (snd (snd (sync_fetch w plan aliases b s))) c = serving s c"
proof -
  obtain r t where e: "ensure_connection (yw_sha w) (yw_connect w) (sp_cfg plan) s = (r, t)" by force
  have "serving t c = serving s c" using ensure_serving [of "yw_sha w" "yw_connect w" "sp_cfg plan" s c] e by simp
  then show ?thesis using e by (auto simp: sync_fetch_def split: option.split sum.split prod.split)
qed

text \<open>A world in which a synchronisation can work: nobody else holds the lock, the server is reached through
  an unchanged proxy, and answers.\<close>

definition reachable_server :: "sync_world \<Rightarrow> imap_box \<Rightarrow> bool" where
  "reachable_server w b \<longleftrightarrow> yw_lock w \<noteq> LockBusy \<and> ib_faults b = [] \<and> cw_dial (yw_connect w) = None \<and>
     cw_login (yw_connect w) = None \<and> cw_proxy (yw_connect w) = Inr (cw_rev_login (yw_connect w)) \<and>
     cw_rev_kept (yw_connect w) = cw_rev_login (yw_connect w)"

lemma sync_fetch_ok:
  assumes "reachable_server w b" and "incremental (sp_previous plan) (ib_validity b) (sp_after plan)"
  shows "\<exists>ms h s2. sync_fetch w plan aliases b s = (Inr (ms, ib_validity b, h), b, s2) \<and>
    fetch_imap (yw_tools w) (yw_fetch_now w) (yw_today w) (sp_cfg plan) aliases (sp_previous plan) (sp_after plan) b =
      (Inr (ms, ib_validity b, h), b)"
proof -
  obtain ms h where f: "fetch_imap (yw_tools w) (yw_fetch_now w) (yw_today w) (sp_cfg plan) aliases (sp_previous plan) (sp_after plan) b =
      (Inr (ms, ib_validity b, h), b)"
    using fetch_imap_ok assms by (metis reachable_server_def)
  have "fst (ensure_connection (yw_sha w) (yw_connect w) (sp_cfg plan) s) = None"
    using assms(1) by (simp add: reachable_server_def ensure_connection_def Let_def)
  then show ?thesis using f by (cases "ensure_connection (yw_sha w) (yw_connect w) (sp_cfg plan) s") (simp add: sync_fetch_def)
qed

lemma run_sync_works:
  assumes "reachable_server w b" and "sync_begin aliases s = (Inr plan, s1)" and "serving s1 c"
    and "incremental (sp_previous plan) (ib_validity b) (sp_after plan)"
  obtains ms h s3 where "serving s3 c"
    "fetch_imap (yw_tools w) (yw_fetch_now w) (yw_today w) (sp_cfg plan) aliases (sp_previous plan) (sp_after plan) b =
      (Inr (ms, ib_validity b, h), b)"
    "run_sync w aliases b s = (let (r, s2) = sync_commit (yw_apps w) (yw_sha w) (yw_now w) plan aliases (Inr (ms, ib_validity b, h)) s3
     in (r, b, s2))"
proof -
  obtain ms h s3 where f: "sync_fetch w plan aliases b s1 = (Inr (ms, ib_validity b, h), b, s3)"
    "fetch_imap (yw_tools w) (yw_fetch_now w) (yw_today w) (sp_cfg plan) aliases (sp_previous plan) (sp_after plan) b =
      (Inr (ms, ib_validity b, h), b)"
    using sync_fetch_ok [OF assms(1,4)] by blast
  have sv: "serving s3 c" using sync_fetch_serving [of w plan aliases b s1 c] f(1) assms(3) by simp
  have "run_sync w aliases b s = (let (r, s2) = sync_commit (yw_apps w) (yw_sha w) (yw_now w) plan aliases (Inr (ms, ib_validity b, h)) s3
     in (r, b, s2))"
    using assms(1,2) f(1) by (simp add: run_sync_def reachable_server_def)
  then show thesis using that sv f(2) by blast
qed

text \<open>
  C23. Synchronising delivers. When server and storage work, mailbox and addresses are unchanged and the
  server has a readable message beyond the cursor, then the synchronisation succeeds and the cursor
  moves; and once it has passed the message, the store holds the message under each of its addresses,
  unless the address already has its hundred messages or the cache its maximum, all of them newer.
\<close>

theorem synchronisation_delivers:
  assumes "serving s c" and "readable c" and "storable c" and "cfg = fst (service_config s)" and "login_configured cfg"
    and "\<not> aliases_differ (mc_allowed c) (normalize_aliases aliases)"
    and "gen = mailbox_generation (yw_sha w) cfg (ib_validity b)" and "ms_generation (mc_status c) = gen" and "gen \<noteq> []"
    and "incremental (ms_validity (mc_status c)) (ib_validity b) (mc_highest c)"
    and "distinct (map im_uid (ib_mails b))"
    and "\<forall>y\<in>set (ib_mails b). \<forall>n. delivers (yw_tools w) (yw_fetch_now w) aliases y n \<longrightarrow> tidy_message n"
    and "x \<in> set (ib_mails b)" and "mc_highest c < im_uid x"
    and "delivers (yw_tools w) (yw_fetch_now w) aliases x m" and "a \<in> set (elems (mm_aliases m))"
    and "reachable_server w b"
  shows "\<exists>st s2 d. run_sync w aliases b s = ((st, None), b, s2) \<and> serving s2 d \<and> mc_highest c < mc_highest d \<and>
    (im_uid x \<le> mc_highest d \<longrightarrow> held_or_outdone a m (cf_cache_max cfg) (mc_messages d))"
proof -
  let ?d = "delivers (yw_tools w) (yw_fetch_now w) aliases"
  have "mc_highest c \<noteq> 0" using assms(10) by (auto simp: incremental_def)
  from sync_begin_ok [OF assms(1,4-6) this] obtain s1 plan where p: "sync_begin aliases s = (Inr plan, s1)" "serving s1 c"
    "plan = \<lparr>sp_cfg = cfg, sp_previous = ms_validity (mc_status c), sp_after = mc_highest c,
      sp_allowed = normalize_aliases aliases, sp_aliases_changed = False\<rparr>" by blast
  have pf: "sp_cfg plan = cfg" "sp_previous plan = ms_validity (mc_status c)" "sp_after plan = mc_highest c" using p(3) by simp_all
  obtain ms h s3 where f: "serving s3 c"
    "fetch_imap (yw_tools w) (yw_fetch_now w) (yw_today w) cfg aliases (ms_validity (mc_status c)) (mc_highest c) b =
      (Inr (ms, ib_validity b, h), b)"
    "run_sync w aliases b s = (let (r, s2) = sync_commit (yw_apps w) (yw_sha w) (yw_now w) plan aliases (Inr (ms, ib_validity b, h)) s3
     in (r, b, s2))"
    by (rule run_sync_works [OF assms(17) p(1,2), unfolded pf, OF assms(10)])
  obtain st err s2 where commit: "sync_commit (yw_apps w) (yw_sha w) (yw_now w) plan aliases (Inr (ms, ib_validity b, h)) s3 = ((st, err), s2)"
    by (metis surj_pair)
  note reach = fetch_reaches [OF f(2) assms(10,13,14)]
  have src: "\<forall>y\<in>set ms. \<exists>x\<in>set (ib_mails b). ?d x y" using fetch_source [OF f(2) assms(10) _ assms(13,14)] by blast
  then have tidy: "list_all tidy_message ms" using assms(12) by (auto simp: list_all_iff)
  have g: "gen = mailbox_generation (yw_sha w) (sp_cfg plan) (ib_validity b)" using assms(7) pf(1) by simp
  have d0: "drop_old_generation gen c = c" using assms(8) by (simp add: drop_old_generation_def generation_changed_def)
  obtain d where d: "serving s2 d" "committed plan gen (ib_validity b) h d"
    "holds_merge plan aliases gen ms c d \<or> ms = []" "err = None"
    using sync_commit_content [OF f(1) assms(2) stored_empty [OF assms(3)] tidy g assms(9) _ commit] assms(8,9) d0 by auto
  have "held_or_outdone a m (cf_cache_max cfg) (mc_messages d)" if le: "im_uid x \<le> h"
  proof -
    have m: "m \<in> set ms" using reach le assms(15) by blast
    then have hm: "same_messages (merge_messages (mc_messages c) ms aliases (cf_cache_max cfg)) (mc_messages d)"
      using d(3) p(3) by (auto simp: holds_merge_def Let_def)
    have t: "norm_alias a = a" "a \<noteq> []" using assms(12,13,15,16) by (auto simp: tidy_message_def)
    then have al: "a \<in> set (normalize_aliases aliases)"
      using delivers_fields(2) [OF assms(15)] assms(16) by (auto simp: normalize_aliases_facts(3))
    let ?m = "m\<lparr>mm_aliases := Some (own (normalize_aliases aliases) m)\<rparr>"
    have own: "a \<in> set (own (normalize_aliases aliases) m)" using al assms(16) t(1) by (force simp: own_def)
    have "latest_in (normalize_aliases aliases) (mc_messages c @ ms) ?m"
      by (rule fetched_is_latest [OF src assms(11) m assms(13,15)]) (use own in auto)
    moreover have "carries a ?m" using own t(1) by (force simp: carries_def elems_def)
    ultimately have "held_or_outdone a ?m (cf_cache_max cfg) (merge_messages (mc_messages c) ms aliases (cf_cache_max cfg))"
      using merge_holds [OF al] by blast
    moreover have "held_or_outdone a ?m n k = held_or_outdone a m n k" for n k
      by (simp add: held_or_outdone_def newer_def core_normalize)
    ultimately show ?thesis using held_same_messages [OF hm] by simp
  qed
  moreover have "mc_highest d = h" using d(2) by (simp add: committed_def)
  ultimately show ?thesis using d(1,4) reach f(3) commit by auto
qed

section \<open>What gets lost\<close>

lemma second_commit:
  assumes "serving s d" and "readable d" and "ms_generation (mc_status d) = gen" and "gen \<noteq> []" and "list_all tidy_message ms"
    and "gen = mailbox_generation sha (sp_cfg plan) v"
    and "sync_commit w sha now plan aliases (Inr (ms, v, h)) s = ((st, err), s2)"
  shows "\<exists>e. serving s2 e \<and> set (mc_hidden e) \<subseteq> set (mc_hidden d)"
proof -
  have "drop_old_generation gen d = d" using assms(3) by (simp add: drop_old_generation_def generation_changed_def)
  then show ?thesis
    using sync_commit_content [OF assms(1,2) _ assms(5,6,4) _ assms(7)] assms(3,4) by (auto simp: holds_merge_def Let_def)
qed


text \<open>
  Another mailbox behind the same UIDVALIDITY is read from the old cursor. When the environment
  names another account or folder than at the last synchronisation, and the server happens to use the
  same UIDVALIDITY, the generation changes and the old messages are dropped, but the cursor of the old
  mailbox is used for the new one: a message of the new mailbox at or below it is not stored, and the
  cursor is beyond it.
\<close>

theorem switched_mailbox_skips_mail:
  assumes "serving s c" and "readable c" and "storable c" and "cfg = fst (service_config s)" and "login_configured cfg"
    and "\<not> aliases_differ (mc_allowed c) (normalize_aliases aliases)"
    and "gen = mailbox_generation (yw_sha w) cfg (ib_validity b)" and "ms_generation (mc_status c) \<noteq> gen" and "gen \<noteq> []"
    and "ms_generation (mc_status c) \<noteq> []"
    and "incremental (ms_validity (mc_status c)) (ib_validity b) (mc_highest c)"
    and "\<forall>y\<in>set (ib_mails b). \<forall>n. delivers (yw_tools w) (yw_fetch_now w) aliases y n \<longrightarrow> tidy_message n"
    and "x \<in> set (ib_mails b)" and "mc_highest c < im_uid x"
    and "reachable_server w b"
  shows "\<exists>st s2 d. run_sync w aliases b s = ((st, None), b, s2) \<and> serving s2 d \<and> ms_generation (mc_status d) = gen \<and> mc_highest c < mc_highest d \<and>
    (\<forall>r\<in>set (mc_messages d). mc_highest c < mm_uid r)"
proof -
  let ?d = "delivers (yw_tools w) (yw_fetch_now w) aliases"
  have "mc_highest c \<noteq> 0" using assms(11) by (auto simp: incremental_def)
  from sync_begin_ok [OF assms(1,4-6) this] obtain s1 plan where p: "sync_begin aliases s = (Inr plan, s1)" "serving s1 c"
    "plan = \<lparr>sp_cfg = cfg, sp_previous = ms_validity (mc_status c), sp_after = mc_highest c,
      sp_allowed = normalize_aliases aliases, sp_aliases_changed = False\<rparr>" by blast
  have pf: "sp_cfg plan = cfg" "sp_previous plan = ms_validity (mc_status c)" "sp_after plan = mc_highest c" using p(3) by simp_all
  obtain ms h s3 where f: "serving s3 c"
    "fetch_imap (yw_tools w) (yw_fetch_now w) (yw_today w) cfg aliases (ms_validity (mc_status c)) (mc_highest c) b =
      (Inr (ms, ib_validity b, h), b)"
    "run_sync w aliases b s = (let (r, s2) = sync_commit (yw_apps w) (yw_sha w) (yw_now w) plan aliases (Inr (ms, ib_validity b, h)) s3
     in (r, b, s2))"
    by (rule run_sync_works [OF assms(15) p(1,2), unfolded pf, OF assms(11)])
  obtain st err s2 where commit: "sync_commit (yw_apps w) (yw_sha w) (yw_now w) plan aliases (Inr (ms, ib_validity b, h)) s3 = ((st, err), s2)"
    by (metis surj_pair)
  note reach = fetch_reaches [OF f(2) assms(11,13,14)]
  have src: "\<forall>y\<in>set ms. \<exists>x\<in>set (ib_mails b). mc_highest c < im_uid x \<and> ?d x y"
    using fetch_source [OF f(2) assms(11) _ assms(13,14)] by blast
  then have tidy: "list_all tidy_message ms" using assms(12) by (auto simp: list_all_iff)
  have g: "gen = mailbox_generation (yw_sha w) (sp_cfg plan) (ib_validity b)" using assms(7) pf(1) by simp
  have d0: "mc_messages (drop_old_generation gen c) = []"
    using assms(8,10) by (simp add: drop_old_generation_def generation_changed_def)
  obtain d where d: "serving s2 d" "committed plan gen (ib_validity b) h d"
    "holds_merge plan aliases gen ms (drop_old_generation gen c) d" "err = None"
    using sync_commit_content [OF f(1) assms(2) stored_empty [OF assms(3)] tidy g assms(9) _ commit] assms(8,10) by auto
  have "mc_highest c < mm_uid r" if r: "r \<in> set (mc_messages d)" for r
  proof -
    obtain q where q: "q \<in> set (merge_messages [] ms aliases (cf_cache_max cfg))" "normalize_lists q = normalize_lists r"
      using d(3) same_messages_member [OF _ r] d0 pf(1) by (auto simp: holds_merge_def Let_def)
    obtain m where "m \<in> set ms" "core q = core m" using merged_core [OF q(1)] by auto
    then have "mm_uid r = mm_uid m" using normalize_fields [OF q(2)] core_uid by metis
    then show ?thesis using src \<open>m \<in> set ms\<close> delivers_fields(1) by fastforce
  qed
  then have "serving s2 d \<and> ms_generation (mc_status d) = gen \<and> mc_highest c < mc_highest d \<and> (\<forall>r\<in>set (mc_messages d). mc_highest c < mm_uid r)"
    using d(1,2) reach by (simp add: committed_def)
  moreover have "run_sync w aliases b s = ((st, None), b, s2)" using f(3) commit d(4) by simp
  ultimately show ?thesis by blast
qed

end
