(* ===== verification/MailSyncExamples.thy ===== *)
theory MailSyncExamples
  imports MailCommitProps
begin

text \<open>
  The theorems on the mailbox service applied to a small mailbox: one whose storage is the JSON file, on
  a server with two messages.
\<close>

definition demo_service :: "mailbox_cache \<Rightarrow> mail_service" where
  "demo_service c = \<lparr>sv_account = ''acc'',
     sv_env = \<lparr>cf_username = ''u'', cf_password = ''p'', cf_host = [], cf_mailbox = [], cf_port = 0, cf_poll = 0, cf_lookback = 0,
       cf_cache_max = 0, cf_enabled = True, cf_source = [], cf_stored = False\<rparr>,
     sv_settings = \<lparr>cell_doc = None, read_faults = [], write_faults = []\<rparr>,
     sv_repo = JsonRepo \<lparr>cell_doc = Some c, read_faults = [], write_faults = []\<rparr>, sv_last = empty_cache, sv_loaded = False,
     sv_load_err = None, sv_apps = None, sv_running = False, sv_mode = [], sv_wake = False, sv_notices = 0, sv_target = None,
     sv_log_state = [], sv_logs = None\<rparr>"

lemma demo_serving: "serving (demo_service c) c"
  by (simp add: serving_def demo_service_def cell_ok_def)

lemma save_hidden_works:
  assumes "serving s c" and "storable (c\<lparr>mc_hidden := hide\<rparr>)"
  shows "\<exists>revision s2. save_hidden c hide s = (Inr revision, s2)"
proof (cases "hide = mc_hidden c")
  case False
  have "storable (bump_revision (c\<lparr>mc_hidden := hide\<rparr>))" using assms(2) by simp
  then obtain r where "save_cache (bump_revision (c\<lparr>mc_hidden := hide\<rparr>)) s =
      (None, s\<lparr>sv_repo := r, sv_last := bump_revision (c\<lparr>mc_hidden := hide\<rparr>), sv_loaded := True\<rparr>)"
    using save_cache_ok [OF assms(1)] by metis
  then show ?thesis using False by (simp add: save_hidden_def Let_def)
qed (simp add: save_hidden_def)

lemma demo_hide_storable: "storable (demo_cache\<lparr>mc_hidden := hide_message ''g'' (demo_mail 2 ''a'' 5) (mc_hidden demo_cache)\<rparr>)"
proof (rule hide_message_storable [OF _ demo_readable])
  show "storable (demo_cache\<lparr>mc_hidden := mc_hidden demo_cache\<rparr>)" using demo_storable by simp
qed (simp_all add: demo_cache_def)

lemma hidden_message_gone_witness:
  "\<exists>ans s2. service_hide ''a'' 2 0 ''g'' (demo_service demo_cache) = (Inr ans, s2) \<and> gone 2 s2"
proof -
  let ?s = "(demo_service demo_cache)\<lparr>sv_last := demo_cache, sv_loaded := True, sv_load_err := None\<rparr>"
  obtain revision s2 where s: "save_hidden demo_cache (hide_message ''g'' (demo_mail 2 ''a'' 5) (mc_hidden demo_cache)) ?s = (Inr revision, s2)"
    using save_hidden_works [OF _ demo_hide_storable, of ?s] demo_serving by auto
  have f: "find (\<lambda>m. mm_uid m = 2 \<and> ''a'' \<in> set (elems (mm_aliases m))) (rev (mc_messages demo_cache)) = Some (demo_mail 2 ''a'' 5)"
    by (simp add: demo_cache_def demo_mail_def elems_def)
  have v: "version_current 0 ''g'' demo_cache" by (simp add: version_current_def demo_cache_def empty_status_def)
  have "\<exists>ans. service_hide ''a'' 2 0 ''g'' (demo_service demo_cache) = (Inr ans, s2)"
    using s f v by (simp add: service_hide_def load_cache_ok [OF demo_serving] demo_norm Let_def)
  then show ?thesis using hidden_message_gone [OF demo_serving demo_readable demo_storable] by blast
qed

lemma hide_batch_complete_witness:
  "\<exists>ans s2. service_hide_batch [(''a'', 2), (''a'', 2)] 0 ''g'' rev (demo_service demo_cache) = (Inr ans, s2) \<and> gone 2 s2 \<and> hb_unique ans = 1"
proof -
  let ?s = "(demo_service demo_cache)\<lparr>sv_last := demo_cache, sv_loaded := True, sv_load_err := None\<rparr>"
  let ?h = "hide_message ''g'' (demo_mail 2 ''a'' 5) (mc_hidden demo_cache)"
  obtain revision s2 where s: "save_hidden demo_cache ?h ?s = (Inr revision, s2)"
    using save_hidden_works [OF _ demo_hide_storable, of ?s] demo_serving by auto
  have f: "message_by_uid (mc_messages demo_cache) 2 = Some (demo_mail 2 ''a'' 5)"
    by (simp add: message_by_uid_def demo_cache_def demo_mail_def)
  have v: "version_current 0 ''g'' demo_cache" by (simp add: version_current_def demo_cache_def empty_status_def)
  have i: "list_all (batch_item_ok (mc_messages demo_cache)) [(''a'', 2), (''a'', 2)]"
    by (simp add: batch_item_ok_def f demo_norm) (simp add: demo_mail_def elems_def)
  have u: "[2] = dedup_from {} (map snd [(''a'', 2 :: uid), (''a'', 2)])" by simp
  have "\<exists>ans. service_hide_batch [(''a'', 2), (''a'', 2)] 0 ''g'' rev (demo_service demo_cache) = (Inr ans, s2)"
    using s f v i by (simp add: service_hide_batch_def load_cache_ok [OF demo_serving] Let_def)
  then obtain ans where ans: "service_hide_batch [(''a'', 2), (''a'', 2)] 0 ''g'' rev (demo_service demo_cache) = (Inr ans, s2)" by blast
  from hide_batch_complete [OF demo_serving demo_readable demo_storable ans u] ans show ?thesis by simp
qed

section \<open>Synchronising\<close>

definition demo_synced :: "string \<Rightarrow> mailbox_cache" where
  "demo_synced gen = empty_cache\<lparr>mc_status := empty_status\<lparr>ms_generation := gen, ms_validity := 9\<rparr>,
     mc_messages := [demo_found 4], mc_hidden := [message_key gen ''a@b.co'' 4], mc_highest := 4, mc_allowed := [''a@b.co'']\<rparr>"

definition demo_world :: sync_world where
  "demo_world = \<lparr>yw_tools = demo_tools, yw_sha = (\<lambda>_. ''g''), yw_lock = NoSharedLock,
     yw_connect = \<lparr>cw_proxy = Inr 0, cw_noop_ok = True, cw_dial = None, cw_login = None, cw_rev_login = 0, cw_rev_kept = 0\<rparr>,
     yw_fetch_now = 0, yw_today = 3, yw_now = 10, yw_apps = (\<lambda>_. None, 10, id, id)\<rparr>"

definition demo_plan :: "bool \<Rightarrow> sync_plan" where
  "demo_plan changed = \<lparr>sp_cfg = with_defaults (sv_env (demo_service (demo_synced ''g''))), sp_previous = 9, sp_after = 4,
     sp_allowed = [''a@b.co''], sp_aliases_changed = changed\<rparr>"

lemma demo_address: "norm_alias ''a@b.co'' = ''a@b.co''"
  by (rule demo_aliases(2))

lemma demo_found_tidy: "tidy_message (demo_found u)"
proof -
  have "valid_utf8 ''hi''" "trim_space ''hi'' = ''hi''" by code_simp+
  then show ?thesis by (simp add: tidy_message_def demo_found_def elems_def demo_address)
qed

lemma demo_synced_ok:
  "readable (demo_synced gen)" "gen \<noteq> [] \<Longrightarrow> storable (demo_synced gen)" "ms_generation (mc_status (demo_synced gen)) = gen"
proof -
  show "readable (demo_synced gen)" by (simp add: readable_def demo_synced_def demo_found_tidy)
  show "storable (demo_synced gen)" if "gen \<noteq> []"
    using that demo_address by (auto simp: storable_def demo_synced_def)
qed (simp add: demo_synced_def)

lemma demo_generation: "mailbox_generation (\<lambda>_. ''g'') cfg v = ''g''"
  by (simp add: mailbox_generation_def)

lemma demo_config:
  "fst (service_config (demo_service c)) = sp_cfg (demo_plan changed)" "login_configured (sp_cfg (demo_plan changed))"
  by (simp_all add: service_config_def read_config_def demo_service_def demo_plan_def cell_read_def login_configured_def with_defaults_def)

lemma demo_unchanged: "\<not> aliases_differ (mc_allowed (demo_synced gen)) (normalize_aliases [''a@b.co''])"
  by (simp add: aliases_differ_def demo_synced_def demo_search(1))

lemma demo_delivered: "x \<in> set (ib_mails demo_imap) \<Longrightarrow> delivers demo_tools 0 [''a@b.co''] x m \<Longrightarrow> m = demo_found (im_uid x)"
  using demo_parse [of 4 1 "Some (rm_header demo_raw)"] demo_parse [of 7 2 "Some (rm_header demo_raw)"]
  by (auto simp: demo_imap_def delivers_def)

lemma hidden_stays_hidden_witness:
  "4 \<notin> mm_uid ` set (ma_messages (fst (service_messages ''a@b.co'' 5 True
     (snd (sync_commit (yw_apps demo_world) (yw_sha demo_world) 10 (demo_plan False) [''a@b.co''] (Inr ([demo_found 4], 9, 7))
       (demo_service (demo_synced ''g'')))))))"
proof -
  obtain st err s2 where c: "sync_commit (yw_apps demo_world) (yw_sha demo_world) 10 (demo_plan False) [''a@b.co'']
      (Inr ([demo_found 4], 9, 7)) (demo_service (demo_synced ''g'')) = ((st, err), s2)"
    by (metis surj_pair)
  have "4 \<notin> mm_uid ` set (ma_messages (fst (service_messages ''a@b.co'' 5 True s2)))"
    by (rule hidden_stays_hidden [OF demo_serving demo_synced_ok(1) demo_synced_ok(2) _ _ _ demo_synced_ok(3) _ c])
      (simp_all add: demo_found_tidy demo_world_def demo_generation demo_address, simp add: demo_synced_def)
  then show ?thesis using c by simp
qed

lemma failed_sync_loses_nothing_witness:
  "ma_messages (fst (service_messages ''a@b.co'' 5 True
     (snd (sync_commit (yw_apps demo_world) (yw_sha demo_world) 10 (demo_plan False) [''a@b.co''] (Inl (Plain ''x''))
       (demo_service (demo_synced ''g'')))))) =
   ma_messages (fst (service_messages ''a@b.co'' 5 True (demo_service (demo_synced ''g''))))"
proof -
  obtain st err s2 where c: "sync_commit (yw_apps demo_world) (yw_sha demo_world) 10 (demo_plan False) [''a@b.co'']
      (Inl (Plain ''x'')) (demo_service (demo_synced ''g'')) = ((st, err), s2)"
    by (metis surj_pair)
  have "storable (demo_synced ''g'')" by (simp add: demo_synced_ok(2))
  from failed_sync_loses_nothing [OF demo_serving demo_synced_ok(1) this c] show ?thesis using c by simp
qed

lemma demo_reachable: "reachable_server demo_world demo_imap"
  by (simp add: reachable_server_def demo_world_def demo_imap_def)

lemma demo_tidy:
  "\<forall>y\<in>set (ib_mails demo_imap). \<forall>n. delivers (yw_tools demo_world) (yw_fetch_now demo_world) [''a@b.co''] y n \<longrightarrow> tidy_message n"
  using demo_delivered demo_found_tidy by (fastforce simp: demo_world_def)

lemma demo_seven: "\<lparr>im_uid = 7, im_day = 2, im_header = Some (rm_header demo_raw), im_raw = Some demo_raw\<rparr> \<in> set (ib_mails demo_imap)"
  by (simp add: demo_imap_def)

lemma synchronisation_delivers_witness:
  "\<exists>st s2 d. run_sync demo_world [''a@b.co''] demo_imap (demo_service (demo_synced ''g'')) = ((st, None), demo_imap, s2) \<and> serving s2 d \<and>
     4 < mc_highest d \<and> (7 \<le> mc_highest d \<longrightarrow> held_or_outdone ''a@b.co'' (demo_found 7) 5000 (mc_messages d))"
proof -
  have h: "mc_highest (demo_synced ''g'') = 4" "incremental (ms_validity (mc_status (demo_synced ''g''))) (ib_validity demo_imap) 4"
    by (simp_all add: demo_synced_def demo_imap_def incremental_def)
  have f: "cf_cache_max (sp_cfg (demo_plan False)) = 5000" by (simp add: demo_plan_def demo_service_def with_defaults_def)
  have g: "''g'' = mailbox_generation (yw_sha demo_world) (sp_cfg (demo_plan False)) (ib_validity demo_imap)"
    by (simp add: demo_world_def demo_generation)
  have p: "delivers (yw_tools demo_world) (yw_fetch_now demo_world) [''a@b.co'']
      \<lparr>im_uid = 7, im_day = 2, im_header = Some (rm_header demo_raw), im_raw = Some demo_raw\<rparr> (demo_found 7)"
    using demo_parse by (simp add: demo_world_def)
  have a: "''a@b.co'' \<in> set (elems (mm_aliases (demo_found 7)))" by (simp add: demo_found_def elems_def)
  from synchronisation_delivers [OF demo_serving demo_synced_ok(1) demo_synced_ok(2) demo_config(1) [symmetric] demo_config(2)
      demo_unchanged g demo_synced_ok(3) _ _ demo_search(2) demo_tidy demo_seven _ p a demo_reachable]
  show ?thesis using h f by simp
qed

lemma switched_mailbox_skips_mail_witness:
  "\<exists>st s2 d. run_sync demo_world [''a@b.co''] demo_imap (demo_service (demo_synced ''old'')) = ((st, None), demo_imap, s2) \<and>
     serving s2 d \<and> 4 < mc_highest d \<and> 4 \<notin> mm_uid ` set (mc_messages d)"
proof -
  have h: "mc_highest (demo_synced ''old'') = 4" "incremental (ms_validity (mc_status (demo_synced ''old''))) (ib_validity demo_imap) 4"
    by (simp_all add: demo_synced_def demo_imap_def incremental_def)
  have g: "''g'' = mailbox_generation (yw_sha demo_world) (sp_cfg (demo_plan False)) (ib_validity demo_imap)"
    by (simp add: demo_world_def demo_generation)
  have n: "ms_generation (mc_status (demo_synced ''old'')) \<noteq> ''g''" "ms_generation (mc_status (demo_synced ''old'')) \<noteq> []"
    by (simp_all add: demo_synced_ok(3))
  have o: "storable (demo_synced ''old'')" by (simp add: demo_synced_ok(2))
  have i: "incremental (ms_validity (mc_status (demo_synced ''old''))) (ib_validity demo_imap) (mc_highest (demo_synced ''old''))" using h by simp
  from switched_mailbox_skips_mail [OF demo_serving demo_synced_ok(1) o demo_config(1) [symmetric] demo_config(2)
      demo_unchanged g n(1) _ n(2) i demo_tidy demo_seven _ demo_reachable]
  show ?thesis using h(1) by force
qed


section \<open>Settings\<close>

definition demo_input :: settings_input where
  "demo_input = \<lparr>si_username = ''me'', si_password = ''pw'', si_host = ''mail.x'', si_port = 993, si_mailbox = ''INBOX'',
     si_enabled = True, si_poll = 60, si_lookback = 30, si_cache_max = 500\<rparr>"

lemma settings_roundtrip_witness:
  "\<exists>c st. normalize_settings (\<lambda>_. False) demo_input (fst (read_config (sv_env (demo_service empty_cache)) (sv_settings (demo_service empty_cache)))) =
     Inr (c, st) \<and> config_bounded c \<and>
     view_of_config (fst (read_config (sv_env (demo_service empty_cache)) ((sv_settings (demo_service empty_cache))\<lparr>cell_doc := Some st\<rparr>))) =
     view_of_config c"
proof -
  let ?n = "normalize_settings (\<lambda>_. False) demo_input (fst (read_config (sv_env (demo_service empty_cache)) (sv_settings (demo_service empty_cache))))"
  have "isl ?n = False" by code_simp
  then obtain c st where n: "?n = Inr (c, st)" by (cases ?n) auto
  have "cell_ok (sv_settings (demo_service empty_cache))" "\<not> cf_stored (sv_env (demo_service empty_cache))"
    by (simp_all add: demo_service_def cell_ok_def)
  from settings_roundtrip [OF this n refl] show ?thesis using n by auto
qed

end
