(* ===== verification/Proxy.thy ===== *)
theory Proxy
  imports GoUrl GoErrors Codec Messages "HOL-Library.Word"
begin

text \<open>
  The proxy of an account (\<open>modules/mail/backend/proxy.go\<close> and the proxy part of \<open>session.go\<close>): the
  normal form of its address, the dialler built from it, the CONNECT dialogue, the test of a proxy, and
  the revision by which the IMAP connections notice a change.

  Sockets and TLS are outcomes given from outside. \<open>socks_ok\<close> says whether the SOCKS5 package accepts a
  URL.
\<close>

section \<open>The normal form of an address\<close>

definition proxy_maximum :: nat where "proxy_maximum = 2048"

definition unexpected_parts :: "url \<Rightarrow> bool" where
  "unexpected_parts u \<longleftrightarrow> u_opaque u \<noteq> [] \<or> (u_path u \<noteq> [] \<and> u_path u \<noteq> ''/'') \<or> u_raw_query u \<noteq> [] \<or>
     u_fragment u \<noteq> [] \<or> u_force_query u"

definition malformed_authority :: "url \<Rightarrow> bool" where
  "malformed_authority u \<longleftrightarrow> u_host u = [] \<or> url_hostname u = [] \<or> (u_user u = None \<and> CHR ''@'' \<in> set (u_host u)) \<or>
     has_suffix (u_host u) '':''"

text \<open>A port is empty or, being made of digits only, a number that \<open>strconv.Atoi\<close> reads, in range.\<close>

definition port_in_range :: "string \<Rightarrow> bool" where
  "port_in_range p \<longleftrightarrow> p = [] \<or> (1 \<le> int (digits_val p) \<and> int (digits_val p) \<le> 65535)"

definition proxy_schemes :: "string list" where "proxy_schemes = [''http'', ''https'', ''socks5'']"

definition normalize_proxy_url :: "string \<Rightarrow> go_error + string" where
  "normalize_proxy_url raw =
     (let raw = trim_space raw in
      if raw = [] then Inr []
      else if proxy_maximum < length raw \<or> list_ex control_byte raw then Inl (Plain msg_proxy_format)
      else
        (case parse_url raw of
           None \<Rightarrow> Inl (Plain msg_proxy_format)
         | Some u \<Rightarrow>
             (if unexpected_parts u \<or> malformed_authority u then Inl (Plain msg_proxy_format)
              else if to_lower (u_scheme u) \<notin> set proxy_schemes then Inl (Plain msg_proxy_scheme)
              else if \<not> port_in_range (url_port u) then Inl (Plain msg_proxy_format)
              else Inr (url_string (u\<lparr>u_scheme := to_lower (u_scheme u), u_path := []\<rparr>)))))"

section \<open>Clients and diallers\<close>

text \<open>The transport of an HTTP client: direct, or through a proxy.\<close>

definition http_client_for_proxy :: "string \<Rightarrow> go_error + url option" where
  "http_client_for_proxy raw =
     (case normalize_proxy_url raw of
        Inl e \<Rightarrow> Inl e
      | Inr p \<Rightarrow> Inr (if p = [] then None else parse_url p))"

datatype proxy_dialer = DirectDial | SocksDial url | ConnectDial url

definition tcp_dial_for_proxy :: "(url \<Rightarrow> bool) \<Rightarrow> string \<Rightarrow> go_error + proxy_dialer" where
  "tcp_dial_for_proxy socks_ok raw =
     (case normalize_proxy_url raw of
        Inl e \<Rightarrow> Inl e
      | Inr [] \<Rightarrow> Inr DirectDial
      | Inr p \<Rightarrow>
          (case parse_url p of
             None \<Rightarrow> Inl (Plain ''proxy configuration'')
           | Some u \<Rightarrow>
               (if u_scheme u = ''socks5'' then (if socks_ok u then Inr (SocksDial u) else Inl (Plain msg_proxy_socks))
                else if u_scheme u \<in> {''http'', ''https''} then Inr (ConnectDial u)
                else Inl (Plain ''proxy scheme''))))"

section \<open>CONNECT\<close>

record connect_request =
  cq_proxy :: string
  cq_tls_name :: "string option"
  cq_address :: string
  cq_authorization :: "string option"

text \<open>\<open>base64.StdEncoding\<close> pads to a multiple of four.\<close>

definition b64_padded :: "string \<Rightarrow> string" where
  "b64_padded s = (let t = b64_encode std_alphabet s in t @ replicate ((4 - length t mod 4) mod 4) (CHR ''=''))"

definition join_host_port :: "string \<Rightarrow> string \<Rightarrow> string" where
  "join_host_port host port = (if CHR '':'' \<in> set host then ''['' @ host @ '']:'' @ port else host @ '':'' @ port)"

definition connect_request_of :: "url \<Rightarrow> string \<Rightarrow> connect_request" where
  "connect_request_of u address =
     \<lparr>cq_proxy = join_host_port (url_hostname u)
        (if url_port u \<noteq> [] then url_port u else if u_scheme u = ''https'' then ''443'' else ''80''),
      cq_tls_name = (if u_scheme u = ''https'' then Some (url_hostname u) else None),
      cq_address = address,
      cq_authorization = map_option (\<lambda>(user, password).
        ''Basic '' @ b64_padded (user @ '':'' @ (case password of None \<Rightarrow> [] | Some p \<Rightarrow> p))) (u_user u)\<rparr>"

text \<open>How far the dialogue gets; an answer has a status and the bytes that follow it in the buffer.\<close>

datatype connect_outcome =
    NoConnection go_error | NoHandshake go_error | NotSent go_error | NoAnswer go_error | Answered int string

definition dial_connect :: "url \<Rightarrow> string \<Rightarrow> string \<Rightarrow> connect_outcome \<Rightarrow> go_error + connect_request \<times> string" where
  "dial_connect u network address out =
     (if network \<notin> {''tcp'', ''tcp4'', ''tcp6''} then Inl (Plain (msg_proxy_network @ network))
      else
        (case out of
           NoConnection e \<Rightarrow> Inl (Wrapped msg_proxy_dial e)
         | NoHandshake e \<Rightarrow>
             (if u_scheme u = ''https'' then Inl (Wrapped msg_proxy_tls e) else Inl (Wrapped msg_proxy_send e))
         | NotSent e \<Rightarrow> Inl (Wrapped msg_proxy_send e)
         | NoAnswer e \<Rightarrow> Inl (Wrapped msg_proxy_read e)
         | Answered status rest \<Rightarrow>
             (if status < 200 \<or> 300 \<le> status then Inl (Plain (msg_proxy_status @ dec_int status))
              else Inr (connect_request_of u address, rest))))"

text \<open>What the tunnel delivers: first the bytes that were already buffered, then those of the connection.\<close>

definition tunnel_read :: "nat \<Rightarrow> string \<Rightarrow> string \<Rightarrow> string \<times> string \<times> string" where
  "tunnel_read n buffered conn =
     (if buffered \<noteq> [] then (take n buffered, drop n buffered, conn) else (take n conn, [], drop n conn))"

section \<open>Testing a proxy\<close>

record proxy_result =
  pt_reachable :: bool
  pt_status :: int
  pt_latency :: int
  pt_target :: string

datatype proxy_fault = NoAccount | BadInput go_error | TestBroken go_error | Unreachable go_error

datatype fetch_outcome = TimedOut | NotReached | Fetched int int

definition default_proxy_target :: string where "default_proxy_target = ''https://www.icloud.com/''"

definition test_proxy_connection :: "string \<Rightarrow> string \<Rightarrow> fetch_outcome \<Rightarrow> proxy_fault + proxy_result" where
  "test_proxy_connection proxy target out =
     (case http_client_for_proxy proxy of
        Inl e \<Rightarrow> Inl (BadInput e)
      | Inr _ \<Rightarrow>
          (case parse_url target of
             None \<Rightarrow> Inl (TestBroken (Plain msg_proxy_target))
           | Some t \<Rightarrow>
               (if url_hostname t = [] then Inl (TestBroken (Plain msg_proxy_target))
                else
                  (case out of
                     TimedOut \<Rightarrow> Inl (Unreachable (Plain msg_proxy_timeout))
                   | NotReached \<Rightarrow> Inl (Unreachable (Plain msg_proxy_unreachable))
                   | Fetched status latency \<Rightarrow>
                       (if 200 \<le> status \<and> status < 400
                        then Inr \<lparr>pt_reachable = True, pt_status = status, pt_latency = latency, pt_target = url_hostname t\<rparr>
                        else Inl (Unreachable (Plain (msg_proxy_apple @ dec_int status))))))))"

definition test_account_proxy :: "bool \<Rightarrow> string \<Rightarrow> string \<Rightarrow> fetch_outcome \<Rightarrow> proxy_fault + proxy_result" where
  "test_account_proxy registered raw target out =
     (if \<not> registered then Inl NoAccount
      else
        (case normalize_proxy_url raw of
           Inl e \<Rightarrow> Inl (BadInput e)
         | Inr p \<Rightarrow>
             (if p = [] then Inl (BadInput (Plain msg_proxy_empty))
              else test_proxy_connection p (if trim_space target = [] then default_proxy_target else target) out)))"

section \<open>The proxy of a session\<close>

text \<open>The address in force, the client's proxy, the dialler and the revision; \<open>px_notices\<close> counts how often
  the observers have been called. A revision has 64 bits.\<close>

record proxy_state =
  px_url :: string
  px_client :: "url option"
  px_dialer :: proxy_dialer
  px_revision :: "64 word"
  px_notices :: nat

definition fresh_proxy :: proxy_state where
  "fresh_proxy = \<lparr>px_url = [], px_client = None, px_dialer = DirectDial, px_revision = 1, px_notices = 0\<rparr>"

definition set_proxy :: "(url \<Rightarrow> bool) \<Rightarrow> string \<Rightarrow> proxy_state \<Rightarrow> go_error option \<times> proxy_state" where
  "set_proxy socks_ok raw s =
     (case normalize_proxy_url raw of
        Inl e \<Rightarrow> (Some e, s)
      | Inr p \<Rightarrow>
          (case http_client_for_proxy p of
             Inl e \<Rightarrow> (Some e, s)
           | Inr client \<Rightarrow>
               (case tcp_dial_for_proxy socks_ok p of
                  Inl e \<Rightarrow> (Some e, s)
                | Inr dialer \<Rightarrow>
                    (let rev = (if px_revision s = 0 then 1 else px_revision s); changed = (px_url s \<noteq> p) in
                     (None, \<lparr>px_url = p, px_client = client, px_dialer = dialer,
                             px_revision = (if changed then rev + 1 else rev),
                             px_notices = (if changed then Suc (px_notices s) else px_notices s)\<rparr>)))))"

end
