(* ===== verification/GoUrlProps.thy ===== *)
theory GoUrlProps
  imports GoUrl
begin

text \<open>
  Printing and parsing URLs: what is escaped can be read back, and the host of a parsed URL prints as a
  host that parses to itself, brackets aside.
\<close>

section \<open>Characters\<close>

text \<open>Characters as printed: visible ASCII.\<close>

definition visible :: "char \<Rightarrow> bool" where
  "visible c \<longleftrightarrow> 32 < (of_char c :: nat) \<and> (of_char c :: nat) < 127"

lemma hex_digit_range: "d < 16 \<Longrightarrow> is_hex (hex_digit d) \<and> is_alnum (hex_digit d) \<and> unhex (hex_digit d) = d"
  by (auto simp: hex_digit_def is_hex_def is_alnum_def unhex_def Let_def of_char_of)

lemma nibbles: "(of_char c :: nat) div 16 < 16" "(of_char c :: nat) mod 16 < 16"
  by (rule less_mult_imp_div_less) simp_all

lemma alnum_visible: "is_alnum c \<Longrightarrow> visible c"
  by (auto simp: is_alnum_def visible_def Let_def)

lemma unescaped_visible: "\<not> should_escape m c \<Longrightarrow> visible c"
proof -
  assume a: "\<not> should_escape m c"
  then have "is_alnum c \<or> c \<in> set ''!$&()*+,;=:[]<>'' \<or> c = CHR 0x27 \<or> c = CHR 0x22 \<or> c \<in> set ''-_.~'' \<or>
      c \<in> set ''$&+,/:;=?@'' \<or> c \<in> set ''!()*''"
    by (auto simp: should_escape_def split: if_splits)
  then show "visible c" using alnum_visible by (auto simp: visible_def)
qed

text \<open>What escaping leaves: unescaped characters of the text, per cent signs, and digits of codes.\<close>

lemma set_url_escape:
  assumes "c \<in> set (url_escape m s)" and "m \<noteq> InQuery"
  shows "c = CHR ''%'' \<or> is_alnum c \<or> (c \<in> set s \<and> \<not> should_escape m c)"
proof -
  obtain x where x: "x \<in> set s" "c \<in> set (if should_escape m x then percent x else [x])"
    using assms by (auto simp: url_escape_def split: if_splits)
  show ?thesis
  proof (cases "should_escape m x")
    case True
    then show ?thesis using x(2) hex_digit_range nibbles [of x] by (auto simp: percent_def)
  qed (use x in auto)
qed

lemma url_escape_visible: "m \<noteq> InQuery \<Longrightarrow> c \<in> set (url_escape m s) \<Longrightarrow> visible c"
  using set_url_escape [of c m s] alnum_visible unescaped_visible by (auto simp: visible_def)

lemma url_escape_Nil [simp]: "url_escape m [] = []"
  by (simp add: url_escape_def)

lemma url_escape_Cons:
  "m \<noteq> InQuery \<Longrightarrow> url_escape m (c # s) = (if should_escape m c then percent c else [c]) @ url_escape m s"
  by (simp add: url_escape_def)

lemma url_escape_append: "url_escape m (a @ b) = url_escape m a @ url_escape m b"
  by (simp add: url_escape_def)

lemma url_escape_id: "m \<noteq> InQuery \<Longrightarrow> list_all (\<lambda>c. \<not> should_escape m c) s \<Longrightarrow> url_escape m s = s"
  by (induction s) (simp_all add: url_escape_Cons)

section \<open>Reading back\<close>

lemma some_chars: "char_of (37 :: nat) = CHR ''%''" "hex_digit 2 = CHR ''2''" "hex_digit 5 = CHR ''5''"
  by code_simp+

lemma escape_ok_percent:
  assumes "m \<noteq> InZone" and "m = InHost \<Longrightarrow> c = CHR ''%'' \<or> 128 \<le> (of_char c :: nat)"
  shows "escape_ok m (hex_digit (of_char c div 16)) (hex_digit (of_char c mod 16))"
proof -
  have "8 \<le> (of_char c :: nat) div 16" if "128 \<le> (of_char c :: nat)" using that by linarith
  then show ?thesis
    using hex_digit_range [OF nibbles(1) [of c]] hex_digit_range [OF nibbles(2) [of c]] assms some_chars
    by (auto simp: escape_ok_def)
qed

lemma unescape_percent:
  assumes "m \<noteq> InZone" and "m = InHost \<Longrightarrow> c = CHR ''%'' \<or> 128 \<le> (of_char c :: nat)"
  shows "url_unescape m (percent c @ s) = map_option (Cons c) (url_unescape m s)"
proof -
  have "(of_char c :: nat) div 16 * 16 + of_char c mod 16 = of_char c" by simp
  then show ?thesis
    using escape_ok_percent [OF assms] hex_digit_range [OF nibbles(1) [of c]] hex_digit_range [OF nibbles(2) [of c]]
    by (simp add: percent_def)
qed

lemma unescape_escape:
  assumes "m \<noteq> InZone" and "m \<noteq> InQuery"
    and "m = InHost \<Longrightarrow> \<forall>c\<in>set s. should_escape m c \<longrightarrow> c = CHR ''%'' \<or> 128 \<le> (of_char c :: nat)"
  shows "url_unescape m (url_escape m s) = Some s"
  using assms(3)
proof (induction s)
  case (Cons c s)
  show ?case
  proof (cases "should_escape m c")
    case True
    have "url_unescape m (percent c @ url_escape m s) = map_option (Cons c) (url_unescape m (url_escape m s))"
      by (rule unescape_percent [OF assms(1)]) (use Cons.prems True in auto)
    then show ?thesis using Cons True assms(2) by (simp add: url_escape_Cons)
  next
    case False
    have "c \<noteq> CHR ''%''" using False by (auto simp: should_escape_def is_alnum_def)
    then show ?thesis using Cons False assms(1,2) by (simp add: url_escape_Cons)
  qed
qed simp

section \<open>Hosts\<close>

lemma unescape_host_chars:
  "url_unescape InHost s = Some h \<Longrightarrow> c \<in> set h \<Longrightarrow> c = CHR ''%'' \<or> 128 \<le> (of_char c :: nat) \<or> (c \<in> set s \<and> \<not> should_escape InHost c)"
proof (induction "InHost" s arbitrary: h rule: url_unescape.induct)
  case (2 c0 s)
  show ?case
  proof (cases "c0 = CHR ''%''")
    case True
    then obtain a b r t where s: "s = a # b # r" "escape_ok InHost a b" "url_unescape InHost r = Some t"
      "h = char_of (unhex a * 16 + unhex b) # t"
      using 2(3) by (auto split: list.splits if_splits)
    have n: "unhex a < 16" "unhex b < 16" if "is_hex a" "is_hex b" using that by (auto simp: unhex_def is_hex_def Let_def)
    have "char_of (unhex a * 16 + unhex b) = CHR ''%'' \<or> 128 \<le> (of_char (char_of (unhex a * 16 + unhex b) :: char) :: nat)"
    proof (cases "unhex a < 8")
      case True
      then have "a = CHR ''2'' \<and> b = CHR ''5''" using s(2) by (simp add: escape_ok_def)
      then show ?thesis using some_chars by (simp add: unhex_def)
    next
      case False
      then show ?thesis using n s(2) by (simp add: escape_ok_def of_char_of)
    qed
    then show ?thesis using 2(1) [OF True s(1) refl s(2) s(3)] 2(4) s by auto
  next
    case False
    then obtain t where t: "url_unescape InHost s = Some t" "h = c0 # t" "(of_char c0 :: nat) < 128 \<longrightarrow> \<not> should_escape InHost c0"
      using 2(3) by (auto split: if_splits)
    then show ?thesis using 2(2) [OF False _ t(1)] 2(4) False by (auto simp: not_less)
  qed
qed simp

lemma is_hex_colon: "\<not> is_hex (CHR '':'')"
  by (simp add: is_hex_def)

text \<open>A byte that is no part of an escape sequence splits the text.\<close>

lemma unescape_split_at:
  "\<not> is_hex x \<Longrightarrow> url_unescape InHost (a @ x # y) = Some r \<Longrightarrow>
   \<exists>a' y'. url_unescape InHost a = Some a' \<and> url_unescape InHost (x # y) = Some y' \<and> r = a' @ y'"
proof (induction "InHost" a arbitrary: r rule: url_unescape.induct)
  case (2 c0 s)
  show ?case
  proof (cases "c0 = CHR ''%''")
    case True
    then obtain p q t where st: "s @ x # y = p # q # t" "escape_ok InHost p q"
      using 2(4) by (auto split: list.splits if_splits)
    have pq: "p \<noteq> x" "q \<noteq> x" using st(2) 2(3) by (auto simp: escape_ok_def)
    then obtain s' where s': "s = p # q # s'" "t = s' @ x # y"
      using st(1) by (cases s; cases "tl s") auto
    obtain r' where r': "url_unescape InHost (s' @ x # y) = Some r'" "r = char_of (unhex p * 16 + unhex q) # r'"
      using 2(4) True st(2) s' by auto
    then show ?thesis using 2(1) [OF True s'(1) refl st(2) 2(3) r'(1)] True st(2) s' by fastforce
  next
    case False
    then obtain r' where r': "url_unescape InHost (s @ x # y) = Some r'" "r = c0 # r'"
      "\<not> ((of_char c0 :: nat) < 128 \<and> should_escape InHost c0)"
      using 2(4) by (auto split: if_splits)
    then show ?thesis using 2(2) [OF False _ 2(3) r'(1)] False by fastforce
  qed
qed simp

lemmas unescape_split = unescape_split_at [OF is_hex_colon]

lemma last_byte_None: "last_byte s c = None \<longleftrightarrow> c \<notin> set s"
  by (induction s) (auto split: option.splits)

lemma last_byte_split: "c \<notin> set b \<Longrightarrow> last_byte (a @ c # b) c = Some (length a)"
  using last_byte_None [of b c] by (induction a) simp_all

lemma last_byte_Some: "last_byte s c = Some i \<Longrightarrow> s = take i s @ c # drop (Suc i) s \<and> c \<notin> set (drop (Suc i) s)"
proof (induction s arbitrary: i)
  case (Cons x s)
  show ?case
  proof (cases "last_byte s c")
    case None
    then show ?thesis using Cons(2) last_byte_None [of s c] by (auto split: if_splits)
  next
    case (Some n)
    then show ?thesis using Cons(1) [OF Some] Cons(2) by auto
  qed
qed simp

lemma digit_alnum: "is_digit c \<Longrightarrow> is_alnum c"
  by (auto simp: is_digit_def is_alnum_def Let_def)

lemma port_chars:
  assumes "list_all is_digit ds"
  shows "url_unescape InHost (CHR '':'' # ds) = Some (CHR '':'' # ds)" "url_escape InHost (CHR '':'' # ds) = CHR '':'' # ds"
    "CHR '':'' \<notin> set ds"
proof -
  have n: "\<not> should_escape InHost c \<and> c \<noteq> CHR ''%'' \<and> c \<noteq> CHR '':''" if "is_digit c" for c
    using that digit_alnum [OF that] by (auto simp: should_escape_def is_digit_def)
  have "url_unescape InHost ds = Some ds" using assms n by (induction ds) auto
  then show "url_unescape InHost (CHR '':'' # ds) = Some (CHR '':'' # ds)" by (simp add: should_escape_def is_alnum_def)
  have "url_escape InHost ds = ds" using assms n by (intro url_escape_id) (auto simp: list_all_iff)
  then show "url_escape InHost (CHR '':'' # ds) = CHR '':'' # ds" by (simp add: url_escape_Cons should_escape_def is_alnum_def)
  show "CHR '':'' \<notin> set ds" using assms n by (auto simp: list_all_iff)
qed

lemma escape_colon: "CHR '':'' \<in> set (url_escape InHost h) \<Longrightarrow> CHR '':'' \<in> set h"
  using set_url_escape [of "CHR '':''" InHost h] by (auto simp: is_alnum_def)

lemma escape_bracket: "has_prefix (url_escape InHost h) ''['' \<Longrightarrow> has_prefix h ''[''"
  by (cases h) (auto simp: url_escape_Cons has_prefix_def percent_def split: if_splits)

lemma unescape_bracket:
  assumes "url_unescape InHost s = Some h" and "has_prefix h ''[''"
  shows "has_prefix s ''[''"
proof -
  obtain t where h: "h = CHR ''['' # t" using assms(2) by (auto simp: has_prefix_iff)
  show ?thesis
  proof (cases s)
    case (Cons c r)
    have "c \<noteq> CHR ''%''"
    proof
      assume c: "c = CHR ''%''"
      then obtain a b q where q: "r = a # b # q" "escape_ok InHost a b" "char_of (unhex a * 16 + unhex b) = CHR ''[''"
        using assms(1) Cons h by (auto split: list.splits if_splits)
      then have ok: "url_unescape InHost (c # a # b # []) = Some [CHR ''['']" using c by simp
      show False using unescape_host_chars [OF ok, of "CHR ''[''"] c q(2) is_hex_colon by (auto simp: escape_ok_def is_hex_def)
    qed
    then show ?thesis using assms(1) Cons h by (auto simp: has_prefix_def split: if_splits)
  qed (use assms h in simp)
qed

text \<open>A host without brackets that has been read prints as a host that reads as itself.\<close>

lemma parse_host_escape:
  assumes "parse_host s = Some h" and "\<not> has_prefix s ''[''"
  shows "parse_host (url_escape InHost h) = Some h \<and> \<not> has_prefix h ''[''"
proof -
  have u: "url_unescape InHost s = Some h" using assms by (auto simp: parse_host_def split: option.splits if_splits)
  have nb: "\<not> has_prefix (url_escape InHost h) ''[''" "\<not> has_prefix h ''[''"
    using escape_bracket unescape_bracket [OF u] assms(2) by auto
  have again: "url_unescape InHost (url_escape InHost h) = Some h"
    using unescape_host_chars [OF u] by (intro unescape_escape) auto
  show ?thesis
  proof (cases "last_byte s (CHR '':'')")
    case None
    then have "CHR '':'' \<notin> set h" using unescape_host_chars [OF u, of "CHR '':''"] last_byte_None [of s] by auto
    then have "last_byte (url_escape InHost h) (CHR '':'') = None" using escape_colon last_byte_None by blast
    then show ?thesis using nb again by (simp add: parse_host_def)
  next
    case (Some i)
    note sp = last_byte_Some [OF Some]
    have "optional_port (drop i s)" using assms Some by (auto simp: parse_host_def split: if_splits)
    moreover have "drop i s = CHR '':'' # drop (Suc i) s" using sp
      by (metis Some append_eq_conv_conj append_take_drop_id last_byte_split length_append length_take option.inject)
    ultimately have ds: "list_all is_digit (drop (Suc i) s)" by (simp add: optional_port_def)
    obtain a' y' where a: "url_unescape InHost (CHR '':'' # drop (Suc i) s) = Some y'" "h = a' @ y'"
      using unescape_split [of "take i s" "drop (Suc i) s" h] sp u by auto
    then have h: "h = a' @ CHR '':'' # drop (Suc i) s" using port_chars(1) [OF ds] by simp
    have "url_escape InHost h = url_escape InHost a' @ CHR '':'' # drop (Suc i) s"
      using port_chars(2) [OF ds] by (simp add: h url_escape_append)
    then have "last_byte (url_escape InHost h) (CHR '':'') = Some (length (url_escape InHost a'))"
      "drop (length (url_escape InHost a')) (url_escape InHost h) = CHR '':'' # drop (Suc i) s"
      using last_byte_split [OF port_chars(3) [OF ds]] by simp_all
    then show ?thesis using nb again ds by (simp add: parse_host_def optional_port_def)
  qed
qed

end
