(* ===== verification/MailAccounts.thy ===== *)
theory MailAccounts
  imports Proxy GoRunes MailApps MailRepo Share Queue Refresh Sql "HOL-Library.AList"
begin

text \<open>
  The accounts of the mail module (\<open>modules/mail/backend/accounts.go\<close> and \<open>module.go\<close>): loading them,
  building, starting and stopping their runtimes, the registry, creation, the deletion with its
  transaction and its restoration after a failure, identity and proxy of an account, and the health
  shown in the list.

  Runtimes are objects: the registry maps an identifier to an index of \<open>md_objects\<close>, so that a handler
  that has looked one up keeps it while the registry changes. Of the services of a runtime only whether
  they run and the proxy of the session are kept; the services themselves are modelled in the other
  theories. Creation and deletion are given in their two critical sections, which other requests may
  come between; the complete handlers compose them. Paths are strings, as in \<open>running_state\<close>.
\<close>

section \<open>Accounts\<close>

record mail_account =
  ac_id :: string
  ac_name :: string
  ac_apple_id :: string
  ac_dsid :: string
  ac_proxy :: string
  ac_enabled :: bool
  ac_created :: gotime
  ac_updated :: gotime

definition default_account :: string where "default_account = ''default''"

record log_row =
  gr_module :: string
  gr_account :: string
  gr_entry :: log_input

record account_tables =
  at_sessions :: "session_row list"
  at_links :: "link_row list"
  at_apps :: app_table
  at_mail :: mail_tables
  at_logs :: "log_row list"
  at_state :: "(string \<times> string) list"
  at_accounts :: "mail_account list"

text \<open>\<open>ORDER BY created_at, id\<close>; \<open>coll\<close> is the rank of an identifier in the collation of the database.\<close>

definition accounts_in_order :: "(string \<Rightarrow> nat) \<Rightarrow> mail_account list \<Rightarrow> mail_account list" where
  "accounts_in_order coll rows = sort_key ac_created (sort_key (\<lambda>a. coll (ac_id a)) rows)"

definition load_accounts ::
  "(string \<Rightarrow> nat) \<Rightarrow> gotime \<Rightarrow> account_tables sqldb option \<Rightarrow>
   (go_error + mail_account list) \<times> account_tables sqldb option" where
  "load_accounts coll now db =
     (case db of
        None \<Rightarrow> (Inr [\<lparr>ac_id = default_account, ac_name = msg_account_default, ac_apple_id = [], ac_dsid = [],
                        ac_proxy = [], ac_enabled = True, ac_created = now, ac_updated = now\<rparr>], None)
      | Some d \<Rightarrow>
          (case sql_query (\<lambda>t. accounts_in_order coll (at_accounts t)) d of
             (None, d1) \<Rightarrow> (Inl (Plain ''query''), Some d1)
           | (Some rows, d1) \<Rightarrow> (Inr rows, Some d1)))"

section \<open>Runtimes\<close>

record account_runtime =
  rt_account :: mail_account
  rt_config_path :: string
  rt_state_dir :: string
  rt_log_dir :: string
  rt_proxy :: proxy_state
  rt_running :: bool

record mail_module =
  md_data_dir :: string
  md_config_path :: string
  md_state_dir :: string
  md_objects :: "account_runtime list"
  md_runtimes :: "(string \<times> nat) list"
  md_order :: "string list"
  md_started :: bool

text \<open>What opening the repositories of mailbox and shares answers, and which URLs the SOCKS5 package takes.\<close>

record build_world =
  bw_socks :: "url \<Rightarrow> bool"
  bw_mailbox :: "string \<Rightarrow> string \<Rightarrow> go_error option"
  bw_shares :: "string \<Rightarrow> string \<Rightarrow> go_error option"

definition account_root :: "mail_module \<Rightarrow> string \<Rightarrow> string" where
  "account_root m acc = md_data_dir m @ ''/accounts/'' @ acc"

definition runtime_paths :: "mail_module \<Rightarrow> string \<Rightarrow> string \<times> string \<times> string" where
  "runtime_paths m acc =
     (let dir = (if acc \<noteq> default_account then account_root m acc else md_data_dir m);
          config = dir @ ''/hme-config.json''; state = dir @ ''/state'' in
      if acc = default_account
      then (if md_config_path m \<noteq> [] then md_config_path m else config,
            if md_state_dir m \<noteq> [] then md_state_dir m else state, dir @ ''/logs'')
      else (config, state, dir @ ''/logs''))"

definition build_runtime :: "build_world \<Rightarrow> mail_module \<Rightarrow> mail_account \<Rightarrow> go_error + account_runtime" where
  "build_runtime w m a =
     (let (config, state, logs) = runtime_paths m (ac_id a) in
      case set_proxy (bw_socks w) (ac_proxy a) fresh_proxy of
        (Some e, _) \<Rightarrow> Inl (Wrapped msg_account_load_proxy e)
      | (None, px) \<Rightarrow>
          (case bw_mailbox w state (ac_id a) of
             Some e \<Rightarrow> Inl e
           | None \<Rightarrow>
               (case bw_shares w state (ac_id a) of
                  Some e \<Rightarrow> Inl (Wrapped msg_account_shares e)
                | None \<Rightarrow> Inr \<lparr>rt_account = a, rt_config_path = config, rt_state_dir = state, rt_log_dir = logs,
                               rt_proxy = px, rt_running = False\<rparr>)))"

definition alter_runtime :: "nat \<Rightarrow> (account_runtime \<Rightarrow> account_runtime) \<Rightarrow> mail_module \<Rightarrow> mail_module" where
  "alter_runtime r f m = m\<lparr>md_objects := (md_objects m)[r := f (md_objects m ! r)]\<rparr>"

definition start_runtime :: "nat \<Rightarrow> mail_module \<Rightarrow> mail_module" where
  "start_runtime r = alter_runtime r (\<lambda>x. x\<lparr>rt_running := True\<rparr>)"

definition stop_runtime :: "nat \<Rightarrow> mail_module \<Rightarrow> mail_module" where
  "stop_runtime r = alter_runtime r (\<lambda>x. x\<lparr>rt_running := False\<rparr>)"

definition register_runtime :: "string \<Rightarrow> account_runtime \<Rightarrow> mail_module \<Rightarrow> mail_module" where
  "register_runtime acc x m =
     m\<lparr>md_objects := md_objects m @ [x], md_runtimes := AList.update acc (length (md_objects m)) (md_runtimes m),
       md_order := md_order m @ [acc]\<rparr>"

section \<open>The module\<close>

definition default_path :: "string \<Rightarrow> string \<Rightarrow> string" where
  "default_path given standard = (if given = [] then standard else given)"

definition empty_module :: "string \<Rightarrow> string \<Rightarrow> string \<Rightarrow> mail_module" where
  "empty_module data config state =
     \<lparr>md_data_dir = data, md_config_path = default_path config (data @ ''/hme-config.json''),
      md_state_dir = default_path state (data @ ''/state''), md_objects = [], md_runtimes = [],
      md_order = [], md_started = False\<rparr>"

fun build_all :: "build_world \<Rightarrow> mail_account list \<Rightarrow> mail_module \<Rightarrow> go_error + mail_module" where
  "build_all w [] m = Inr m"
| "build_all w (a # as) m =
     (case build_runtime w m a of
        Inl e \<Rightarrow> Inl e
      | Inr x \<Rightarrow> build_all w as (register_runtime (ac_id a) x m))"

definition new_module ::
  "build_world \<Rightarrow> (string \<Rightarrow> nat) \<Rightarrow> gotime \<Rightarrow> string \<Rightarrow> string \<Rightarrow> string \<Rightarrow> account_tables sqldb option \<Rightarrow>
   (go_error + mail_module) \<times> account_tables sqldb option" where
  "new_module w coll now data config state db =
     (case load_accounts coll now db of
        (Inl e, db1) \<Rightarrow> (Inl e, db1)
      | (Inr accounts, db1) \<Rightarrow> (build_all w accounts (empty_module data config state), db1))"

definition set_running :: "bool \<Rightarrow> mail_module \<Rightarrow> mail_module" where
  "set_running b m = fold (\<lambda>r. alter_runtime r (\<lambda>x. x\<lparr>rt_running := b\<rparr>)) (map snd (md_runtimes m)) m"

definition start_module :: "mail_module \<Rightarrow> mail_module" where
  "start_module m = set_running True (m\<lparr>md_started := True\<rparr>)"

definition stop_module :: "mail_module \<Rightarrow> mail_module" where
  "stop_module m = set_running False (m\<lparr>md_started := False\<rparr>)"

definition lookup_runtime :: "string \<Rightarrow> mail_module \<Rightarrow> nat option" where
  "lookup_runtime acc m = (let acc = trim_space acc in map_of (md_runtimes m) (if acc = [] then default_account else acc))"

section \<open>Creating an account\<close>

definition account_name_ok :: "string \<Rightarrow> bool" where
  "account_name_ok name \<longleftrightarrow> (let n = length (runes name) in 1 \<le> n \<and> n \<le> 120) \<and> \<not> list_ex control_byte name"

text \<open>The database and the files of the accounts.\<close>

record account_world =
  aw_module :: mail_module
  aw_db :: "account_tables sqldb option"
  aw_files :: "string \<rightharpoonup> string"

definition insert_account :: "mail_account \<Rightarrow> account_tables \<Rightarrow> (unit \<times> account_tables) option" where
  "insert_account a t =
     (if list_ex (\<lambda>b. ac_id b = ac_id a) (at_accounts t) then None
      else Some ((), t\<lparr>at_accounts := at_accounts t @ [a]\<rparr>))"

definition remove_account :: "string \<Rightarrow> account_tables \<Rightarrow> account_tables" where
  "remove_account acc t = t\<lparr>at_accounts := filter (\<lambda>a. ac_id a \<noteq> acc) (at_accounts t)\<rparr>"

text \<open>Up to the registration: the identifier, the object and whether the module was started.\<close>

definition create_register ::
  "build_world \<Rightarrow> string \<Rightarrow> gotime \<Rightarrow> string \<Rightarrow> account_world \<Rightarrow>
   (go_error + mail_account \<times> nat \<times> bool) \<times> account_world" where
  "create_register w fresh now name s =
     (let name = trim_space name in
      if \<not> account_name_ok name then (Inl (Plain msg_account_name), s)
      else
        (let a = \<lparr>ac_id = fresh, ac_name = name, ac_apple_id = [], ac_dsid = [], ac_proxy = [], ac_enabled = True,
                  ac_created = now, ac_updated = now\<rparr>;
             (inserted, db1) = (case aw_db s of
                None \<Rightarrow> (True, None)
              | Some d \<Rightarrow> (case sql_run (insert_account a) d of (r, d1) \<Rightarrow> (r \<noteq> None, Some d1)));
             s1 = s\<lparr>aw_db := db1\<rparr> in
         if \<not> inserted then (Inl (Plain ''insert''), s1)
         else
           (case build_runtime w (aw_module s1) a of
              Inl e \<Rightarrow> (Inl e, s1\<lparr>aw_db := map_option (\<lambda>d. snd (sql_exec (remove_account fresh) d)) db1\<rparr>)
            | Inr x \<Rightarrow>
                (Inr (a, length (md_objects (aw_module s1)), md_started (aw_module s1)),
                 s1\<lparr>aw_module := register_runtime fresh x (aw_module s1)\<rparr>))))"

definition create_account ::
  "build_world \<Rightarrow> string \<Rightarrow> gotime \<Rightarrow> string \<Rightarrow> account_world \<Rightarrow> (go_error + mail_account) \<times> account_world" where
  "create_account w fresh now name s =
     (case create_register w fresh now name s of
        (Inl e, s1) \<Rightarrow> (Inl e, s1)
      | (Inr (a, r, started), s1) \<Rightarrow>
          (Inr a, if started then s1\<lparr>aw_module := start_runtime r (aw_module s1)\<rparr> else s1))"

section \<open>Deleting an account\<close>

datatype delete_fault = DefaultProtected | AccountMissing | DeleteFailed go_error

text \<open>The first critical section: the object, its place in the order and whether the module was started.\<close>

definition index_of :: "string \<Rightarrow> string list \<Rightarrow> nat option" where
  "index_of x xs = (let n = length (takeWhile (\<lambda>y. y \<noteq> x) xs) in if n < length xs then Some n else None)"

definition delete_take :: "string \<Rightarrow> mail_module \<Rightarrow> (nat \<times> nat option \<times> bool) option \<times> mail_module" where
  "delete_take acc m =
     (case map_of (md_runtimes m) acc of
        None \<Rightarrow> (None, m)
      | Some r \<Rightarrow>
          (Some (r, index_of acc (md_order m), md_started m),
           m\<lparr>md_order := remove1 acc (md_order m), md_runtimes := AList.delete acc (md_runtimes m)\<rparr>))"

definition restore_runtime :: "string \<Rightarrow> nat \<times> nat option \<times> bool \<Rightarrow> mail_module \<Rightarrow> mail_module" where
  "restore_runtime acc taken m =
     (case taken of (r, idx, started) \<Rightarrow>
        let order = (case idx of
              Some i \<Rightarrow> if i \<le> length (md_order m) then take i (md_order m) @ acc # drop i (md_order m) else md_order m @ [acc]
            | None \<Rightarrow> md_order m @ [acc]);
            m1 = m\<lparr>md_runtimes := AList.update acc r (md_runtimes m), md_order := order\<rparr>
        in if started then start_runtime r m1 else m1)"

definition under_root :: "string \<Rightarrow> string \<Rightarrow> bool" where
  "under_root dir key \<longleftrightarrow> key = dir \<or> has_prefix key (dir @ ''/'')"

definition import_prefix :: "string \<Rightarrow> string" where
  "import_prefix acc = ''mail-share-imported:'' @ acc @ '':''"

definition account_key :: "string \<Rightarrow> string \<Rightarrow> string \<Rightarrow> bool" where
  "account_key dir acc key \<longleftrightarrow> under_root dir key \<or> has_prefix key (import_prefix acc)"

text \<open>The nine statements, in their order.\<close>

definition purge_statements :: "string \<Rightarrow> string \<Rightarrow> (account_tables \<Rightarrow> account_tables) list" where
  "purge_statements dir acc =
     [\<lambda>t. t\<lparr>at_sessions := filter (\<lambda>r. sr_account r \<noteq> acc) (at_sessions t)\<rparr>,
      \<lambda>t. t\<lparr>at_links := filter (\<lambda>r. link_row.lr_account r \<noteq> acc) (at_links t)\<rparr>,
      \<lambda>t. t\<lparr>at_apps := filter (\<lambda>r. pr_account r \<noteq> acc) (at_apps t)\<rparr>,
      \<lambda>t. t\<lparr>at_mail := (at_mail t)\<lparr>tb_hidden := filter (\<lambda>r. hr_account r \<noteq> acc) (tb_hidden (at_mail t))\<rparr>\<rparr>,
      \<lambda>t. t\<lparr>at_mail := (at_mail t)\<lparr>tb_messages := filter (\<lambda>r. br_account r \<noteq> acc) (tb_messages (at_mail t))\<rparr>\<rparr>,
      \<lambda>t. t\<lparr>at_mail := (at_mail t)\<lparr>tb_states := filter (\<lambda>r. xr_account r \<noteq> acc) (tb_states (at_mail t))\<rparr>\<rparr>,
      \<lambda>t. t\<lparr>at_logs := filter (\<lambda>r. \<not> (gr_module r = ''mail'' \<and> gr_account r = acc)) (at_logs t)\<rparr>,
      \<lambda>t. t\<lparr>at_state := filter (\<lambda>(k, v). \<not> account_key dir acc k) (at_state t)\<rparr>,
      remove_account acc]"

fun run_statements ::
  "(account_tables \<Rightarrow> account_tables) list \<Rightarrow> account_tables sqldb \<Rightarrow> (go_error + unit) \<times> account_tables sqldb" where
  "run_statements [] db = (Inr (), db)"
| "run_statements (f # fs) db =
     (case sql_exec f db of
        (False, db1) \<Rightarrow> (Inl (Wrapped msg_account_purge (Plain ''exec'')), db1)
      | (True, db1) \<Rightarrow> run_statements fs db1)"

definition purge_account :: "string \<Rightarrow> string \<Rightarrow> account_tables sqldb \<Rightarrow> (go_error + unit) \<times> account_tables sqldb" where
  "purge_account dir acc = sql_tx (Plain ''transaction'') (run_statements (purge_statements dir acc))"

text \<open>\<open>os.RemoveAll\<close>; a failure says which files are left.\<close>

definition remove_all ::
  "string \<Rightarrow> (string \<Rightarrow> bool) option \<Rightarrow> (string \<rightharpoonup> string) \<Rightarrow> bool \<times> (string \<rightharpoonup> string)" where
  "remove_all dir left fs =
     (case left of
        None \<Rightarrow> (True, \<lambda>p. if under_root dir p then None else fs p)
      | Some kept \<Rightarrow> (False, \<lambda>p. if under_root dir p \<and> \<not> kept p then None else fs p))"

definition delete_finish ::
  "(string \<Rightarrow> bool) option \<Rightarrow> string \<Rightarrow> nat \<times> nat option \<times> bool \<Rightarrow> account_world \<Rightarrow> delete_fault option \<times> account_world" where
  "delete_finish left acc taken s0 =
     (let s = s0\<lparr>aw_module := stop_runtime (fst taken) (aw_module s0)\<rparr>;
          dir = account_root (aw_module s) acc;
          restored = (\<lambda>x. x\<lparr>aw_module := restore_runtime acc taken (aw_module x)\<rparr>) in
      case aw_db s of
        Some d \<Rightarrow>
          (case purge_account dir acc d of
             (Inl e, d1) \<Rightarrow> (Some (DeleteFailed e), restored (s\<lparr>aw_db := Some d1\<rparr>))
           | (Inr _, d1) \<Rightarrow> (None, s\<lparr>aw_db := Some d1, aw_files := snd (remove_all dir left (aw_files s))\<rparr>))
      | None \<Rightarrow>
          (case remove_all dir left (aw_files s) of
             (False, fs) \<Rightarrow> (Some (DeleteFailed (Wrapped msg_account_dir (Plain ''remove''))), restored (s\<lparr>aw_files := fs\<rparr>))
           | (True, fs) \<Rightarrow> (None, s\<lparr>aw_files := fs\<rparr>)))"

definition delete_account :: "(string \<Rightarrow> bool) option \<Rightarrow> string \<Rightarrow> account_world \<Rightarrow> delete_fault option \<times> account_world" where
  "delete_account left raw s =
     (let acc = trim_space raw in
      if acc = default_account then (Some DefaultProtected, s)
      else
        (case delete_take acc (aw_module s) of
           (None, _) \<Rightarrow> (Some AccountMissing, s)
         | (Some taken, m) \<Rightarrow> delete_finish left acc taken (s\<lparr>aw_module := m\<rparr>)))"

section \<open>Identity and proxy\<close>

definition account_renamed :: "mail_account \<Rightarrow> bool" where
  "account_renamed a \<longleftrightarrow> \<not> (ac_name a = msg_account_default \<or> has_prefix (ac_name a) msg_account_prefix)"

definition identified :: "icloud_config option \<Rightarrow> string \<Rightarrow> gotime \<Rightarrow> mail_account \<Rightarrow> mail_account" where
  "identified config apple_id now a =
     (let (a, apple_id) = (case config of
            None \<Rightarrow> (a, apple_id)
          | Some c \<Rightarrow> (a\<lparr>ac_dsid := ic_dsid c\<rparr>, first_nonempty [ic_apple_id c, apple_id]));
          a = (if trim_space apple_id = [] then a
               else a\<lparr>ac_apple_id := trim_space apple_id,
                      ac_name := (if account_renamed a then ac_name a else trim_space apple_id)\<rparr>)
      in a\<lparr>ac_updated := now\<rparr>)"

definition store_identity :: "mail_account \<Rightarrow> account_tables \<Rightarrow> account_tables" where
  "store_identity a t =
     t\<lparr>at_accounts := map (\<lambda>b. if ac_id b = ac_id a
          then b\<lparr>ac_name := ac_name a, ac_apple_id := ac_apple_id a, ac_dsid := ac_dsid a, ac_updated := ac_updated a\<rparr> else b)
        (at_accounts t)\<rparr>"

definition update_account_identity ::
  "string \<Rightarrow> icloud_config option \<Rightarrow> string \<Rightarrow> gotime \<Rightarrow> account_world \<Rightarrow> account_world" where
  "update_account_identity acc config apple_id now s =
     (case map_of (md_runtimes (aw_module s)) acc of
        None \<Rightarrow> s
      | Some r \<Rightarrow>
          (let a = identified config apple_id now (rt_account (md_objects (aw_module s) ! r)) in
           s\<lparr>aw_module := alter_runtime r (\<lambda>x. x\<lparr>rt_account := a\<rparr>) (aw_module s),
             aw_db := map_option (\<lambda>d. snd (sql_exec (store_identity a) d)) (aw_db s)\<rparr>))"

definition store_proxy :: "string \<Rightarrow> string \<Rightarrow> gotime \<Rightarrow> account_tables \<Rightarrow> account_tables" where
  "store_proxy acc p now t =
     t\<lparr>at_accounts := map (\<lambda>b. if ac_id b = acc then b\<lparr>ac_proxy := p, ac_updated := now\<rparr> else b) (at_accounts t)\<rparr>"

definition update_account_proxy ::
  "build_world \<Rightarrow> string \<Rightarrow> string \<Rightarrow> gotime \<Rightarrow> gotime \<Rightarrow> account_world \<Rightarrow> (delete_fault + nat) \<times> account_world" where
  "update_account_proxy w acc raw now dbnow s =
     (case normalize_proxy_url raw of
        Inl e \<Rightarrow> (Inl (DeleteFailed e), s)
      | Inr p \<Rightarrow>
          (case map_of (md_runtimes (aw_module s)) (trim_space acc) of
             None \<Rightarrow> (Inl AccountMissing, s)
           | Some r \<Rightarrow>
               (let x = md_objects (aw_module s) ! r;
                    (stored, db1) = (case aw_db s of
                       None \<Rightarrow> (True, None)
                     | Some d \<Rightarrow> (case sql_exec (store_proxy (ac_id (rt_account x)) p dbnow) d of (b, d1) \<Rightarrow> (b, Some d1)));
                    s1 = s\<lparr>aw_db := db1\<rparr> in
                if \<not> stored then (Inl (DeleteFailed (Plain ''update'')), s1)
                else
                  (case set_proxy (bw_socks w) p (rt_proxy x) of
                     (Some e, _) \<Rightarrow> (Inl (DeleteFailed e), s1)
                   | (None, px) \<Rightarrow>
                       (Inr r, s1\<lparr>aw_module := alter_runtime r (\<lambda>x. x\<lparr>rt_proxy := px,
                          rt_account := (rt_account x)\<lparr>ac_proxy := p, ac_updated := now\<rparr>\<rparr>) (aw_module s1)\<rparr>)))))"

section \<open>Health\<close>

record channel_health =
  ch_configured :: bool
  ch_healthy :: bool
  ch_checked :: "unixtime option"
  ch_expires :: "unixtime option"
  ch_message :: string

definition channel_health_of :: "channel_status \<Rightarrow> channel_health" where
  "channel_health_of c = \<lparr>ch_configured = cs_configured c, ch_healthy = cs_healthy c, ch_checked = cs_last_checked c,
     ch_expires = cs_expires c, ch_message = cs_message c\<rparr>"

record account_summary =
  su_account :: mail_account
  su_has_proxy :: bool
  su_status :: string
  su_message :: string
  su_aliases :: int
  su_web :: channel_health
  su_apple :: channel_health
  su_mail_configured :: bool
  su_mail_enabled :: bool
  su_mail_synced :: "unixtime option"
  su_mail_error :: string
  su_refresh :: bool
  su_create :: bool
  su_creating :: bool
  su_queue :: string

definition account_health_status ::
  "bool \<Rightarrow> account_summary \<Rightarrow> refresh_config \<Rightarrow> create_config \<Rightarrow> queue_job \<Rightarrow> string \<times> string" where
  "account_health_status enabled su refresh creation queue =
     (let configured = ch_configured (su_web su) \<or> ch_configured (su_apple su);
          healthy = ch_healthy (su_web su) \<or> ch_healthy (su_apple su);
          checked = ch_checked (su_web su) \<noteq> None \<or> ch_checked (su_apple su) \<noteq> None in
      if \<not> enabled then (''error'', msg_health_disabled)
      else if configured \<and> \<not> checked then (''pending'', msg_health_waiting)
      else if configured \<and> \<not> healthy then (''error'', msg_health_login)
      else if su_mail_enabled su \<and> su_mail_error su \<noteq> [] then (''warning'', msg_health_imap)
      else if rc_enabled refresh \<and> rc_last_error refresh \<noteq> None then (''warning'', msg_health_refresh)
      else if cc_enabled creation \<and> cc_last_error creation \<noteq> None then (''warning'', msg_health_create)
      else if aq_status queue = ''needs_attention'' \<or> aq_status queue = ''failed'' then (''warning'', msg_health_queue)
      else if healthy \<and> ((\<not> ch_healthy (su_web su) \<and> ch_configured (su_web su)) \<or>
                         (\<not> ch_healthy (su_apple su) \<and> ch_configured (su_apple su))) then (''warning'', msg_health_partial)
      else if healthy then (''active'', msg_health_ok)
      else (''pending'', msg_health_pending))"

text \<open>A count that the program has just written is an \<open>int\<close>; one that was read back is a \<open>float64\<close>.\<close>

definition alias_count :: "jmap option \<Rightarrow> int" where
  "alias_count hme =
     (case hme of
        None \<Rightarrow> 0
      | Some m \<Rightarrow> (case jget m ''aliasCount'' of JNum v _ \<Rightarrow> go_trunc v | _ \<Rightarrow> 0))"

definition summarize_account ::
  "mail_account \<Rightarrow> jmap option \<Rightarrow> login_status \<Rightarrow> mailbox_status \<Rightarrow> refresh_config \<Rightarrow> create_config \<Rightarrow> queue_job \<Rightarrow>
   account_summary" where
  "summarize_account a hme login mail refresh creation queue =
     (let su = \<lparr>su_account = a, su_has_proxy = (ac_proxy a \<noteq> []), su_status = ''pending'', su_message = msg_health_pending,
                su_aliases = alias_count hme, su_web = channel_health_of (ls_web login),
                su_apple = channel_health_of (ls_account login), su_mail_configured = ms_configured mail,
                su_mail_enabled = ms_enabled mail, su_mail_synced = ms_last_sync mail, su_mail_error = ms_last_error mail,
                su_refresh = rc_enabled refresh, su_create = cc_enabled creation, su_creating = cc_running creation,
                su_queue = aq_status queue\<rparr>;
          (st, msg) = account_health_status (ac_enabled a) su refresh creation queue
      in su\<lparr>su_status := st, su_message := msg\<rparr>)"

definition account_list :: "(account_runtime \<Rightarrow> account_summary) \<Rightarrow> mail_module \<Rightarrow> account_summary list" where
  "account_list summarize m =
     map (\<lambda>r. summarize (md_objects m ! r)) (List.map_filter (map_of (md_runtimes m)) (md_order m))"

end
