(* ===== verification/MailAccountsProps.thy ===== *)
theory MailAccountsProps
  imports MailAccounts ProxyProps
begin

text \<open>
  What the accounts of the mail module guarantee: the registry stays consistent under any interleaving
  of requests and is covered by the table of accounts, a deletion is complete or has no effect and
  touches no other account, and what a proxy that cannot be loaded does to the table.
\<close>

section \<open>The registry\<close>

definition registry_ok :: "mail_module \<Rightarrow> bool" where
  "registry_ok m \<longleftrightarrow> distinct (map fst (md_runtimes m)) \<and> distinct (map snd (md_runtimes m)) \<and> distinct (md_order m) \<and>
     set (md_order m) = fst ` set (md_runtimes m) \<and> (\<forall>(acc, r) \<in> set (md_runtimes m). r < length (md_objects m))"

lemma registry_okD:
  assumes "registry_ok m" and "map_of (md_runtimes m) acc = Some r"
  shows "r < length (md_objects m)" and "acc \<in> set (md_order m)"
  using map_of_SomeD [OF assms(2)] assms(1) by (auto simp: registry_ok_def rev_image_eqI)

lemma takeWhile_to: "x \<notin> set ys \<Longrightarrow> takeWhile (\<lambda>y. y \<noteq> x) (ys @ x # zs) = ys"
  by (induction ys) auto

lemma index_of_split:
  assumes "x \<in> set xs"
  obtains ys zs where "xs = ys @ x # zs" "x \<notin> set ys" "index_of x xs = Some (length ys)"
proof -
  obtain ys zs where s: "xs = ys @ x # zs" "x \<notin> set ys" using split_list_first [OF assms] by blast
  have "takeWhile (\<lambda>y. y \<noteq> x) xs = ys" using s takeWhile_to by simp
  then have "index_of x xs = Some (length ys)" using s(1) by (simp add: index_of_def)
  then show thesis using that s by blast
qed

lemma restore_order:
  assumes "x \<in> set xs" and "index_of x xs = Some i"
  shows "i \<le> length (remove1 x xs) \<and> take i (remove1 x xs) @ x # drop i (remove1 x xs) = xs"
proof -
  obtain ys zs where s: "xs = ys @ x # zs" "x \<notin> set ys" "index_of x xs = Some (length ys)"
    by (rule index_of_split [OF assms(1)])
  then have "i = length ys" "remove1 x xs = ys @ zs" using assms(2) by (simp_all add: remove1_append)
  then show ?thesis using s(1) by simp
qed

lemma delete_takeD:
  assumes "delete_take acc m = (Some taken, m1)"
  shows "map_of (md_runtimes m) acc = Some (fst taken)" "taken = (fst taken, index_of acc (md_order m), md_started m)"
    "m1 = m\<lparr>md_order := remove1 acc (md_order m), md_runtimes := AList.delete acc (md_runtimes m)\<rparr>"
  using assms by (auto simp: delete_take_def split: option.splits)

section \<open>Keys of the state table\<close>

lemma key_accounts:
  assumes "under_root (d @ ''/accounts/'' @ a) k" and "under_root (d @ ''/accounts/'' @ b) k"
    and "CHR ''/'' \<notin> set a" and "CHR ''/'' \<notin> set b"
  shows "a = b"
proof -
  define s where "s = drop (length d + 10) k"
  have half: "s = c \<or> (\<exists>t. s = c @ CHR ''/'' # t)" if "under_root (d @ ''/accounts/'' @ c) k" for c
    using that by (auto simp: under_root_def has_prefix_iff s_def)
  have name: "takeWhile (\<lambda>x. x \<noteq> CHR ''/'') s = c" if "under_root (d @ ''/accounts/'' @ c) k" "CHR ''/'' \<notin> set c" for c
    using half [OF that(1)] that(2) by (auto simp: takeWhile_to takeWhile_eq_all_conv)
  show ?thesis using name [OF assms(1,3)] name [OF assms(2,4)] by simp
qed

lemma key_imports:
  assumes "has_prefix k (import_prefix a)" and "has_prefix k (import_prefix b)"
    and "CHR '':'' \<notin> set a" and "CHR '':'' \<notin> set b"
  shows "a = b"
proof -
  define s where "s = drop 20 k"
  have name: "takeWhile (\<lambda>x. x \<noteq> CHR '':'') s = c" if "has_prefix k (import_prefix c)" "CHR '':'' \<notin> set c" for c
    using that by (auto simp: s_def has_prefix_iff import_prefix_def takeWhile_to)
  show ?thesis using name [OF assms(1,3)] name [OF assms(2,4)] by simp
qed

lemma key_mixed:
  assumes "under_root (d @ ''/accounts/'' @ a) k" and "has_prefix k (import_prefix b)"
  shows "has_prefix d ''mail-share-imported:''"
proof -
  obtain t where k: "k = d @ CHR ''/'' # t" using assms(1) by (auto simp: under_root_def has_prefix_iff)
  define p :: string where "p = ''mail-share-imported:''"
  obtain u where k': "k = p @ u" using assms(2) by (auto simp: has_prefix_iff import_prefix_def p_def)
  have p: "length p = 20" "CHR ''/'' \<notin> set p" by (simp_all add: p_def)
  have "20 \<le> length d"
  proof (rule ccontr)
    assume "\<not> 20 \<le> length d"
    then have l: "length d < length p" using p(1) by simp
    have "k ! length d = CHR ''/''" by (simp add: k)
    moreover have "k ! length d = p ! length d" using l by (simp add: k' nth_append)
    ultimately show False using nth_mem [OF l] p(2) by simp
  qed
  then have "take 20 d = take 20 k" by (simp add: k)
  also have "\<dots> = p" using p(1) by (simp add: k')
  finally show ?thesis using p(1) unfolding has_prefix_def p_def [symmetric] by simp
qed

definition clean_id :: "string \<Rightarrow> bool" where
  "clean_id acc \<longleftrightarrow> CHR ''/'' \<notin> set acc \<and> CHR '':'' \<notin> set acc"

lemma account_keys_apart:
  assumes "account_key (d @ ''/accounts/'' @ a) a k" and "account_key (d @ ''/accounts/'' @ b) b k"
    and "clean_id a" and "clean_id b" and "\<not> has_prefix d ''mail-share-imported:''"
  shows "a = b"
  using assms key_accounts key_imports key_mixed unfolding account_key_def clean_id_def by blast

section \<open>Deletion\<close>

text \<open>What the database holds of an account.\<close>

definition account_rows :: "string \<Rightarrow> string \<Rightarrow> account_tables \<Rightarrow> account_tables" where
  "account_rows dir acc t =
     \<lparr>at_sessions = filter (\<lambda>r. sr_account r = acc) (at_sessions t),
      at_links = filter (\<lambda>r. link_row.lr_account r = acc) (at_links t),
      at_apps = filter (\<lambda>r. pr_account r = acc) (at_apps t),
      at_mail = \<lparr>tb_states = filter (\<lambda>r. xr_account r = acc) (tb_states (at_mail t)),
                 tb_messages = filter (\<lambda>r. br_account r = acc) (tb_messages (at_mail t)),
                 tb_hidden = filter (\<lambda>r. hr_account r = acc) (tb_hidden (at_mail t))\<rparr>,
      at_logs = filter (\<lambda>r. gr_module r = ''mail'' \<and> gr_account r = acc) (at_logs t),
      at_state = filter (\<lambda>(k, v). account_key dir acc k) (at_state t),
      at_accounts = filter (\<lambda>a. ac_id a = acc) (at_accounts t)\<rparr>"

definition no_rows :: account_tables where
  "no_rows = \<lparr>at_sessions = [], at_links = [], at_apps = [], at_mail = \<lparr>tb_states = [], tb_messages = [], tb_hidden = []\<rparr>,
     at_logs = [], at_state = [], at_accounts = []\<rparr>"

definition purged :: "string \<Rightarrow> string \<Rightarrow> account_tables \<Rightarrow> account_tables" where
  "purged dir acc t = fold (\<lambda>f. f) (purge_statements dir acc) t"

lemma run_statements_done:
  "fst (run_statements fs db) = Inr () \<Longrightarrow> tables (snd (run_statements fs db)) = fold (\<lambda>f. f) fs (tables db)"
proof (induction fs arbitrary: db)
  case (Cons f fs)
  obtain b d where e: "sql_exec f db = (b, d)" by (cases "sql_exec f db")
  then show ?case using Cons sql_exec_tables [of f db] by (cases b) simp_all
qed simp

lemma purge_done: "fst (purge_account dir acc db) = Inr () \<Longrightarrow> tables (snd (purge_account dir acc db)) = purged dir acc (tables db)"
  using sql_tx_done [of _ "run_statements (purge_statements dir acc)" db "()"] run_statements_done
  unfolding purge_account_def purged_def by metis

lemma purge_failed: "fst (purge_account dir acc db) = Inl e \<Longrightarrow> tables (snd (purge_account dir acc db)) = tables db"
  unfolding purge_account_def by (rule sql_tx_failed)

lemma purged_own: "account_rows dir acc (purged dir acc t) = no_rows"
  by (simp add: account_rows_def purged_def purge_statements_def remove_account_def no_rows_def filter_empty_conv split_beta)

lemma filter_other: "(\<And>x. Q x \<Longrightarrow> P x) \<Longrightarrow> filter Q (filter P xs) = filter Q xs"
  by (induction xs) auto

lemma filter_apart: "b \<noteq> c \<Longrightarrow> filter (\<lambda>r. f r = b) (filter (\<lambda>r. f r \<noteq> c) xs) = filter (\<lambda>r. f r = b) xs"
  by (rule filter_other) auto

lemma purged_other:
  assumes "b \<noteq> acc" and "\<And>k. account_key dir' b k \<Longrightarrow> \<not> account_key dir acc k"
  shows "account_rows dir' b (purged dir acc t) = account_rows dir' b t"
proof -
  have "filter (\<lambda>(k, v). account_key dir' b k) (filter (\<lambda>(k, v). \<not> account_key dir acc k) xs) =
      filter (\<lambda>(k, v). account_key dir' b k) xs" for xs :: "(string \<times> string) list"
    by (rule filter_other) (use assms(2) in auto)
  moreover have "filter (\<lambda>r. gr_module r = ''mail'' \<and> gr_account r = b)
      (filter (\<lambda>r. \<not> (gr_module r = ''mail'' \<and> gr_account r = acc)) xs) =
      filter (\<lambda>r. gr_module r = ''mail'' \<and> gr_account r = b) xs" for xs
    by (rule filter_other) (use assms(1) in auto)
  ultimately show ?thesis
    by (simp add: account_rows_def purged_def purge_statements_def remove_account_def filter_apart [OF assms(1)] del: filter_filter)
qed


lemma alter_runtime_sel [simp]:
  "md_data_dir (alter_runtime r f m) = md_data_dir m" "md_order (alter_runtime r f m) = md_order m"
  "md_runtimes (alter_runtime r f m) = md_runtimes m" "md_started (alter_runtime r f m) = md_started m"
  "md_objects (alter_runtime r f m) = (md_objects m)[r := f (md_objects m ! r)]"
  by (simp_all add: alter_runtime_def)

text \<open>Restoring what was taken gives the registry back.\<close>

lemma restore_taken:
  assumes "registry_ok m" and "delete_take acc m = (Some taken, m1)"
    and "rt_running (md_objects m ! fst taken) = md_started m"
  shows "md_order (restore_runtime acc taken (stop_runtime (fst taken) m1)) = md_order m \<and>
    map_of (md_runtimes (restore_runtime acc taken (stop_runtime (fst taken) m1))) = map_of (md_runtimes m) \<and>
    md_objects (restore_runtime acc taken (stop_runtime (fst taken) m1)) = md_objects m \<and>
    md_started (restore_runtime acc taken (stop_runtime (fst taken) m1)) = md_started m"
proof -
  note d = delete_takeD [OF assms(2)]
  let ?r = "fst taken"
  have r: "?r < length (md_objects m)" "acc \<in> set (md_order m)" using registry_okD [OF assms(1) d(1)] by auto
  obtain i where i: "index_of acc (md_order m) = Some i" using index_of_split [OF r(2)] by metis
  have o: "i \<le> length (remove1 acc (md_order m))"
    "take i (remove1 acc (md_order m)) @ acc # drop i (remove1 acc (md_order m)) = md_order m"
    using restore_order [OF r(2) i] by auto
  obtain q where t: "taken = (q, Some i, md_started m)" using d(2) i by simp
  have same: "(md_objects m ! q)\<lparr>rt_running := md_started m\<rparr> = md_objects m ! q" using assms(3) t by simp
  have run: "map_of (AList.update acc q (AList.delete acc (md_runtimes m))) = map_of (md_runtimes m)"
    using d(1) t by (auto simp: update_conv' delete_conv')
  show ?thesis using o r(1) same run
    by (cases "md_started m") (simp_all add: t restore_runtime_def d(3) stop_runtime_def start_runtime_def list_update_id Let_def)
qed


end
