(* ===== verification/MailRegistry.thy ===== *)
theory MailRegistry
  imports MailAccountsProps "HOL-Library.Multiset"
begin

text \<open>
  The accounts under concurrent requests. A handler that creates or deletes an account holds the lock of
  the registry twice; between the two other requests, the start and the stop of the module may run, and
  the database may fail at any statement. The invariant says that the registry and the order agree, that
  no runtime is registered twice, and that no registered account is missing from the table.
\<close>

section \<open>Interleaved requests\<close>

datatype pending = Starting nat bool | Deleting string "nat \<times> nat option \<times> bool"

text \<open>A fresh identifier comes from 64 random bits.\<close>

definition fresh_id :: "string \<Rightarrow> account_world \<Rightarrow> pending list \<Rightarrow> bool" where
  "fresh_id acc s ps \<longleftrightarrow> map_of (md_runtimes (aw_module s)) acc = None \<and>
     list_all (\<lambda>p. case p of Deleting b _ \<Rightarrow> b \<noteq> acc | Starting _ _ \<Rightarrow> True) ps"

inductive account_step :: "build_world \<Rightarrow> account_world \<times> pending list \<Rightarrow> account_world \<times> pending list \<Rightarrow> bool"
  for w :: build_world where
  registered: "create_register w acc now name s = (Inr (a, r, started), s1) \<Longrightarrow> fresh_id acc s ps \<Longrightarrow>
    account_step w (s, ps) (s1, Starting r started # ps)"
| refused: "create_register w acc now name s = (Inl e, s1) \<Longrightarrow> fresh_id acc s ps \<Longrightarrow> account_step w (s, ps) (s1, ps)"
| started: "account_step w (s, qs @ Starting r b # ps)
    (if b then s\<lparr>aw_module := start_runtime r (aw_module s)\<rparr> else s, qs @ ps)"
| taken: "acc \<noteq> default_account \<Longrightarrow> delete_take acc (aw_module s) = (Some tk, m) \<Longrightarrow>
    account_step w (s, ps) (s\<lparr>aw_module := m\<rparr>, Deleting acc tk # ps)"
| finished: "delete_finish left acc tk s = (e, s1) \<Longrightarrow> account_step w (s, qs @ Deleting acc tk # ps) (s1, qs @ ps)"
| identified: "account_step w (s, ps) (update_account_identity acc config apple now s, ps)"
| proxied: "update_account_proxy w acc raw now dbnow s = (x, s1) \<Longrightarrow> account_step w (s, ps) (s1, ps)"
| begun: "account_step w (s, ps) (s\<lparr>aw_module := start_module (aw_module s)\<rparr>, ps)"
| ended: "account_step w (s, ps) (s\<lparr>aw_module := stop_module (aw_module s)\<rparr>, ps)"

section \<open>The invariant\<close>

text \<open>The runtimes that deletions hold, the accounts of the objects, and the accounts in the table.\<close>

definition held :: "pending list \<Rightarrow> (string \<times> nat) list" where
  "held ps = List.map_filter (\<lambda>p. case p of Deleting acc tk \<Rightarrow> Some (acc, fst tk) | Starting _ _ \<Rightarrow> None) ps"

definition object_ids :: "mail_module \<Rightarrow> string list" where
  "object_ids m = map (\<lambda>x. ac_id (rt_account x)) (md_objects m)"

definition in_table :: "account_tables sqldb option \<Rightarrow> string \<Rightarrow> bool" where
  "in_table db acc = (case db of None \<Rightarrow> True | Some d \<Rightarrow> acc \<in> ac_id ` set (at_accounts (tables d)))"

definition pairs_ok :: "(string \<times> nat) list \<Rightarrow> string list \<Rightarrow> account_tables sqldb option \<Rightarrow> bool" where
  "pairs_ok xs ids db \<longleftrightarrow> distinct (map fst xs) \<and> distinct (map snd xs) \<and>
     (\<forall>x \<in> set xs. snd x < length ids \<and> ids ! snd x = fst x \<and> in_table db (fst x))"

definition accounts_inv :: "account_world \<Rightarrow> pending list \<Rightarrow> bool" where
  "accounts_inv s ps \<longleftrightarrow>
     pairs_ok (md_runtimes (aw_module s) @ held ps) (object_ids (aw_module s)) (aw_db s) \<and>
     distinct (md_order (aw_module s)) \<and> set (md_order (aw_module s)) = fst ` set (md_runtimes (aw_module s))"

lemma held_simps [simp]:
  "held [] = []" "held (Starting r b # ps) = held ps" "held (Deleting acc tk # ps) = (acc, fst tk) # held ps"
  "held (qs @ ps) = held qs @ held ps"
  by (simp_all add: held_def map_filter_def)

lemma held_iff: "acc \<in> fst ` set (held ps) \<longleftrightarrow> (\<exists>tk. Deleting acc tk \<in> set ps)"
proof (induction ps)
  case (Cons p ps)
  then show ?case by (cases p) auto
qed simp

lemma object_ids_put:
  assumes "ac_id (rt_account (f (md_objects m ! r))) = ac_id (rt_account (md_objects m ! r))"
  shows "object_ids (alter_runtime r f m) = object_ids m"
proof (cases "r < length (md_objects m)")
  case True
  then have "object_ids (alter_runtime r f m) = (object_ids m)[r := object_ids m ! r]"
    by (simp add: object_ids_def map_update assms)
  then show ?thesis by simp
qed (simp add: object_ids_def list_update_beyond)

lemma object_ids_alter [simp]:
  "(\<And>x. ac_id (rt_account (f x)) = ac_id (rt_account x)) \<Longrightarrow> object_ids (alter_runtime r f m) = object_ids m"
  by (rule object_ids_put)

lemma object_ids_same [simp]:
  "object_ids (m\<lparr>md_order := ys, md_runtimes := xs\<rparr>) = object_ids m"
  "object_ids (m\<lparr>md_runtimes := xs, md_order := ys\<rparr>) = object_ids m"
  "object_ids (m\<lparr>md_started := b\<rparr>) = object_ids m"
  "object_ids (m\<lparr>md_objects := md_objects m @ [x]\<rparr>) = object_ids m @ [ac_id (rt_account x)]"
  by (simp_all add: object_ids_def)

lemma object_ids_register: "object_ids (register_runtime acc x m) = object_ids m @ [ac_id (rt_account x)]"
  by (simp add: object_ids_def register_runtime_def)

lemma pairs_ok_mset:
  assumes "mset xs = mset ys"
  shows "pairs_ok xs ids db = pairs_ok ys ids db"
proof -
  have "distinct (map f xs) = distinct (map f ys)" for f :: "string \<times> nat \<Rightarrow> string"
    using mset_eq_imp_distinct_iff [of "map f xs" "map f ys"] assms by simp
  moreover have "distinct (map f xs) = distinct (map f ys)" for f :: "string \<times> nat \<Rightarrow> nat"
    using mset_eq_imp_distinct_iff [of "map f xs" "map f ys"] assms by simp
  ultimately show ?thesis using mset_eq_setD [OF assms] by (simp add: pairs_ok_def)
qed

lemma pairs_ok_db:
  assumes "pairs_ok xs ids db" and "\<And>acc. acc \<in> fst ` set xs \<Longrightarrow> in_table db acc \<Longrightarrow> in_table db1 acc"
  shows "pairs_ok xs ids db1"
  using assms unfolding pairs_ok_def by (meson image_eqI)

lemma pairs_ok_drop: "pairs_ok (xs @ y # ys) ids db \<Longrightarrow> pairs_ok (xs @ ys) ids db"
  by (auto simp: pairs_ok_def)

lemma mset_delete:
  assumes "distinct (map fst xs)" and "map_of xs acc = Some r"
  shows "mset xs = mset (AList.delete acc xs) + {#(acc, r)#}"
  using assms
proof (induction xs)
  case (Cons x xs)
  show ?case
  proof (cases "fst x = acc")
    case True
    then have "AList.delete acc xs = xs"
      using Cons.prems(1) by (auto simp: AList.delete_eq filter_id_conv rev_image_eqI)
    then show ?thesis using Cons.prems(2) True by (cases x) (auto simp: AList.delete_eq)
  next
    case False
    then show ?thesis using Cons by (cases x) (auto simp: AList.delete_eq)
  qed
qed simp

lemma update_fresh: "acc \<notin> fst ` set xs \<Longrightarrow> AList.update acc r xs = xs @ [(acc, r)]"
  by (induction xs) auto

lemma in_table_same: "tables d1 = tables d \<Longrightarrow> in_table (Some d1) acc = in_table (Some d) acc"
  by (simp add: in_table_def)

lemma accounts_inv_registry:
  assumes "accounts_inv s ps"
  shows "registry_ok (aw_module s)"
proof -
  let ?m = "aw_module s"
  have p: "pairs_ok (md_runtimes ?m @ held ps) (object_ids ?m) (aw_db s)" using assms by (simp add: accounts_inv_def)
  have "distinct (map fst (md_runtimes ?m))" "distinct (map snd (md_runtimes ?m))" using p by (auto simp: pairs_ok_def)
  moreover have "snd x < length (md_objects ?m)" if "x \<in> set (md_runtimes ?m)" for x
    using p that by (simp add: pairs_ok_def object_ids_def)
  ultimately show ?thesis using assms by (auto simp: registry_ok_def accounts_inv_def)
qed

text \<open>What leaves registry and accounts alone keeps the invariant.\<close>

lemma accounts_inv_frame:
  assumes "accounts_inv s ps" and "md_runtimes (aw_module s1) = md_runtimes (aw_module s)"
    and "md_order (aw_module s1) = md_order (aw_module s)" and "object_ids (aw_module s1) = object_ids (aw_module s)"
    and "\<And>acc. in_table (aw_db s) acc \<Longrightarrow> acc \<in> fst ` set (md_runtimes (aw_module s) @ held ps) \<Longrightarrow> in_table (aw_db s1) acc"
    and "held qs = held ps"
  shows "accounts_inv s1 qs"
  using assms pairs_ok_db [of "md_runtimes (aw_module s) @ held ps" "object_ids (aw_module s)" "aw_db s" "aw_db s1"]
  unfolding accounts_inv_def by simp

section \<open>Each step keeps it\<close>

lemma inv_register:
  assumes "accounts_inv s ps" and "fresh_id acc s ps" and "ac_id (rt_account x) = acc"
    and "in_table db acc" and "\<And>b. in_table (aw_db s) b \<Longrightarrow> in_table db b"
  shows "accounts_inv (s\<lparr>aw_db := db, aw_module := register_runtime acc x (aw_module s)\<rparr>) (Starting r b # ps)"
proof -
  let ?m = "aw_module s"
  have n: "acc \<notin> fst ` set (md_runtimes ?m)" "acc \<notin> fst ` set (held ps)"
    using assms(2) unfolding held_iff by (auto simp: fresh_id_def map_of_eq_None_iff list_all_iff)
  have p: "pairs_ok (md_runtimes ?m @ held ps) (object_ids ?m) db"
    by (rule pairs_ok_db [of _ _ "aw_db s"]) (use assms(1,5) in \<open>simp_all add: accounts_inv_def\<close>)
  have len: "length (object_ids ?m) = length (md_objects ?m)" by (simp add: object_ids_def)
  have "pairs_ok ((acc, length (md_objects ?m)) # md_runtimes ?m @ held ps) (object_ids ?m @ [acc]) db"
    unfolding pairs_ok_def
  proof (intro conjI ballI)
    fix x assume x: "x \<in> set ((acc, length (md_objects ?m)) # md_runtimes ?m @ held ps)"
    show "snd x < length (object_ids ?m @ [acc])" "(object_ids ?m @ [acc]) ! snd x = fst x" "in_table db (fst x)"
      using x p assms(4) len by (auto simp: pairs_ok_def nth_append intro: less_SucI)
  next
    have "length (md_objects ?m) \<notin> snd ` set (md_runtimes ?m @ held ps)"
      using p len unfolding pairs_ok_def by (metis imageE nat_neq_iff)
    then show "distinct (map snd ((acc, length (md_objects ?m)) # md_runtimes ?m @ held ps))"
      using p by (simp add: pairs_ok_def image_Un)
    show "distinct (map fst ((acc, length (md_objects ?m)) # md_runtimes ?m @ held ps))"
      using p n by (auto simp: pairs_ok_def)
  qed
  then have "pairs_ok (AList.update acc (length (md_objects ?m)) (md_runtimes ?m) @ held ps) (object_ids ?m @ [acc]) db"
    by (subst pairs_ok_mset) (simp_all add: update_fresh [OF n(1)])
  then show ?thesis
    using assms(1,3) n by (auto simp: accounts_inv_def object_ids_register register_runtime_def update_fresh)
qed

lemma inv_take:
  assumes "accounts_inv s ps" and "delete_take acc (aw_module s) = (Some tk, m)"
  shows "accounts_inv (s\<lparr>aw_module := m\<rparr>) (Deleting acc tk # ps)"
proof -
  let ?m = "aw_module s"
  note d = delete_takeD [OF assms(2)]
  have dist: "distinct (map fst (md_runtimes ?m))" using accounts_inv_registry [OF assms(1)] by (simp add: registry_ok_def)
  have "mset (AList.delete acc (md_runtimes ?m) @ (acc, fst tk) # held ps) = mset (md_runtimes ?m @ held ps)"
    using mset_delete [OF dist d(1)] by simp
  then have "pairs_ok (AList.delete acc (md_runtimes ?m) @ (acc, fst tk) # held ps) (object_ids ?m) (aw_db s)"
    using assms(1) pairs_ok_mset unfolding accounts_inv_def by blast
  then show ?thesis using assms(1) by (auto simp: accounts_inv_def d(3) AList.delete_eq)
qed

lemma inv_restore:
  assumes "accounts_inv s (qs @ Deleting acc tk # ps)"
    and "\<And>b. in_table (aw_db s) b = in_table db b"
  shows "accounts_inv (s\<lparr>aw_db := db, aw_files := fs, aw_module := restore_runtime acc tk (stop_runtime (fst tk) (aw_module s))\<rparr>) (qs @ ps)"
proof -
  let ?m = "aw_module s" let ?m1 = "restore_runtime acc tk (stop_runtime (fst tk) ?m)"
  obtain r idx b where tk: "tk = (r, idx, b)" by (cases tk)
  have p: "pairs_ok (md_runtimes ?m @ held qs @ (acc, r) # held ps) (object_ids ?m) db"
    by (rule pairs_ok_db [of _ _ "aw_db s"]) (use assms in \<open>simp_all add: accounts_inv_def tk\<close>)
  then have n: "acc \<notin> fst ` set (md_runtimes ?m)" by (auto simp: pairs_ok_def)
  have "pairs_ok ((md_runtimes ?m @ [(acc, r)]) @ held qs @ held ps) (object_ids ?m) db"
    using p by (subst pairs_ok_mset [where ys = "md_runtimes ?m @ held qs @ (acc, r) # held ps"]) simp_all
  moreover have "md_runtimes ?m1 = md_runtimes ?m @ [(acc, r)]" "object_ids ?m1 = object_ids ?m"
    using n by (simp_all add: restore_runtime_def tk Let_def stop_runtime_def start_runtime_def update_fresh)
  moreover have "distinct (md_order ?m1) \<and> set (md_order ?m1) = insert acc (set (md_order ?m))"
  proof -
    have ins: "distinct (take i xs @ acc # drop i xs) \<and> set (take i xs @ acc # drop i xs) = insert acc (set xs)"
      if "distinct xs" "acc \<notin> set xs" for i xs
    proof -
      define ys zs where yz: "ys = take i xs" "zs = drop i xs"
      then have "xs = ys @ zs" by simp
      then show ?thesis using that unfolding yz [symmetric] by auto
    qed
    have "distinct (md_order ?m)" "acc \<notin> set (md_order ?m)" using assms(1) n by (simp_all add: accounts_inv_def)
    then show ?thesis using ins
      by (cases b) (auto simp: restore_runtime_def tk Let_def stop_runtime_def start_runtime_def split: option.splits)
  qed
  ultimately show ?thesis using assms(1) by (simp add: accounts_inv_def)
qed


lemma insert_in_table:
  assumes "sql_run (insert_account a) d = (r, d1)"
  shows "in_table (Some d) b \<Longrightarrow> in_table (Some d1) b" and "r \<noteq> None \<Longrightarrow> in_table (Some d1) (ac_id a)"
proof -
  consider "tables d1 = tables d" "r = None" | "tables d1 = (tables d)\<lparr>at_accounts := at_accounts (tables d) @ [a]\<rparr>"
    using assms by (auto simp: sql_run_def insert_account_def Let_def split: if_splits option.splits)
  then show "in_table (Some d) b \<Longrightarrow> in_table (Some d1) b" "r \<noteq> None \<Longrightarrow> in_table (Some d1) (ac_id a)"
    by (cases; simp add: in_table_def image_Un)+
qed

lemma build_runtime_account: "build_runtime w m a = Inr x \<Longrightarrow> rt_account x = a"
  by (auto simp: build_runtime_def Let_def split: prod.splits option.splits)

lemma exec_in_table:
  assumes "\<And>t. ac_id ` set (at_accounts (f t)) = ac_id ` set (at_accounts t)"
  shows "in_table (map_option (\<lambda>d. snd (sql_exec f d)) db) b = in_table db b"
  using assms by (cases db) (simp_all add: in_table_def sql_exec_tables)

lemma inv_created:
  assumes "accounts_inv s ps" and "create_register w acc now name s = (Inr (a, r, st), s1)" and "fresh_id acc s ps"
  shows "accounts_inv s1 (Starting r st # ps)"
proof -
  let ?a = "\<lparr>ac_id = acc, ac_name = trim_space name, ac_apple_id = [], ac_dsid = [], ac_proxy = [], ac_enabled = True,
    ac_created = now, ac_updated = now\<rparr>"
  obtain x db where x: "build_runtime w (aw_module s) ?a = Inr x"
    and s1: "s1 = s\<lparr>aw_db := db, aw_module := register_runtime acc x (aw_module s)\<rparr>"
    and db: "db = None \<and> aw_db s = None \<or> (\<exists>d rr d1. aw_db s = Some d \<and> sql_run (insert_account ?a) d = (rr, d1) \<and> rr \<noteq> None \<and> db = Some d1)"
    using assms(2)
    by (auto simp: create_register_def Let_def split: if_splits option.splits prod.splits sum.splits)
  have "in_table db acc" "\<And>b. in_table (aw_db s) b \<Longrightarrow> in_table db b"
    using db insert_in_table [of ?a] by (auto simp: in_table_def [of None])
  then show ?thesis unfolding s1
    by (intro inv_register [OF assms(1,3)]) (use build_runtime_account [OF x] in simp_all)
qed

lemma remove_in_table: "b \<noteq> acc \<Longrightarrow> in_table (Some d) b \<Longrightarrow> in_table (Some (snd (sql_exec (remove_account acc) d))) b"
  by (auto simp: in_table_def sql_exec_tables remove_account_def)

lemma inv_refused:
  assumes "accounts_inv s ps" and "create_register w acc now name s = (Inl e, s1)" and "fresh_id acc s ps"
  shows "accounts_inv s1 ps"
proof -
  let ?a = "\<lparr>ac_id = acc, ac_name = trim_space name, ac_apple_id = [], ac_dsid = [], ac_proxy = [], ac_enabled = True,
    ac_created = now, ac_updated = now\<rparr>"
  have n: "acc \<notin> fst ` set (md_runtimes (aw_module s) @ held ps)"
    using assms(3) unfolding held_iff set_append image_Un Un_iff
    by (auto simp: fresh_id_def map_of_eq_None_iff list_all_iff)
  have m: "aw_module s1 = aw_module s"
    using assms(2) by (auto simp: create_register_def Let_def split: if_splits option.splits prod.splits sum.splits)
  have db: "aw_db s1 = aw_db s \<or> (\<exists>d rr d1. aw_db s = Some d \<and> sql_run (insert_account ?a) d = (rr, d1) \<and>
      (aw_db s1 = Some d1 \<or> aw_db s1 = Some (snd (sql_exec (remove_account acc) d1))))"
    using assms(2) by (auto simp: create_register_def Let_def split: if_splits option.splits prod.splits sum.splits)
  have "in_table (aw_db s1) b" if "in_table (aw_db s) b" "b \<noteq> acc" for b
    using db insert_in_table(1) [of ?a _ _ _ b] remove_in_table [OF that(2)] that(1) by auto
  then show ?thesis using n by (intro accounts_inv_frame [OF assms(1)]) (auto simp: m)
qed

lemma purged_in_table: "b \<noteq> acc \<Longrightarrow> tables d1 = purged dir acc (tables d) \<Longrightarrow> in_table (Some d) b \<Longrightarrow> in_table (Some d1) b"
  by (auto simp: in_table_def purged_def purge_statements_def remove_account_def)

lemma inv_dropped:
  assumes "accounts_inv s (qs @ Deleting acc tk # ps)" and "\<And>b. b \<noteq> acc \<Longrightarrow> in_table (aw_db s) b \<Longrightarrow> in_table db b"
  shows "accounts_inv (s\<lparr>aw_module := stop_runtime r (aw_module s), aw_db := db, aw_files := fs\<rparr>) (qs @ ps)"
proof -
  let ?m = "aw_module s"
  have p: "pairs_ok (md_runtimes ?m @ held qs @ (acc, fst tk) # held ps) (object_ids ?m) (aw_db s)"
    using assms(1) by (simp add: accounts_inv_def)
  then have n: "acc \<notin> fst ` set (md_runtimes ?m @ held qs @ held ps)" by (auto simp: pairs_ok_def)
  have "pairs_ok ((md_runtimes ?m @ held qs) @ held ps) (object_ids ?m) (aw_db s)"
    by (rule pairs_ok_drop [where y = "(acc, fst tk)"]) (use p in simp)
  then have "pairs_ok ((md_runtimes ?m @ held qs) @ held ps) (object_ids ?m) db"
  proof (rule pairs_ok_db)
    fix b assume b: "b \<in> fst ` set ((md_runtimes ?m @ held qs) @ held ps)" "in_table (aw_db s) b"
    then have "b \<noteq> acc" using n by auto
    then show "in_table db b" using assms(2) b(2) by simp
  qed
  then show ?thesis using assms(1) by (simp add: accounts_inv_def stop_runtime_def)
qed

lemma inv_finished:
  assumes "accounts_inv s (qs @ Deleting acc tk # ps)" and "delete_finish left acc tk s = (e, s1)"
  shows "accounts_inv s1 (qs @ ps)"
proof (cases "aw_db s")
  case None
  obtain ok fs where rm: "remove_all (account_root (stop_runtime (fst tk) (aw_module s)) acc) left (aw_files s) = (ok, fs)"
    by fastforce
  have d: "delete_finish left acc tk s =
      (if ok then (None, s\<lparr>aw_module := stop_runtime (fst tk) (aw_module s), aw_files := fs\<rparr>)
       else (Some (DeleteFailed (Wrapped msg_account_dir (Plain ''remove''))),
         s\<lparr>aw_module := restore_runtime acc tk (stop_runtime (fst tk) (aw_module s)), aw_files := fs\<rparr>))"
    by (simp add: delete_finish_def None rm Let_def split: bool.split)
  show ?thesis
  proof (cases ok)
    case True
    then have s1: "s1 = s\<lparr>aw_module := stop_runtime (fst tk) (aw_module s), aw_files := fs\<rparr>" using assms(2) d by simp
    show ?thesis unfolding s1
      using inv_dropped [OF assms(1), of None fs "fst tk"] None by (simp add: accounts_inv_def in_table_def [of None])
  next
    case False
    then have s1: "s1 = s\<lparr>aw_module := restore_runtime acc tk (stop_runtime (fst tk) (aw_module s)), aw_files := fs\<rparr>"
      using assms(2) d by simp
    show ?thesis unfolding s1
      using inv_restore [OF assms(1), of None fs] None by (simp add: accounts_inv_def in_table_def [of None])
  qed
next
  case (Some db)
  let ?dir = "account_root (stop_runtime (fst tk) (aw_module s)) acc"
  obtain r d1 where p: "purge_account ?dir acc db = (r, d1)" by fastforce
  show ?thesis
  proof (cases r)
    case (Inl e)
    have "tables d1 = tables db" using purge_failed [of ?dir acc db e] p Inl by simp
    then have "in_table (aw_db s) b = in_table (Some d1) b" for b using Some by (simp add: in_table_def)
    moreover have "s1 = s\<lparr>aw_db := Some d1, aw_files := aw_files s,
        aw_module := restore_runtime acc tk (stop_runtime (fst tk) (aw_module s))\<rparr>"
      using assms(2) by (simp add: delete_finish_def Some p Inl Let_def)
    ultimately show ?thesis using inv_restore [OF assms(1), of "Some d1" "aw_files s"] by metis
  next
    case (Inr u)
    have "tables d1 = purged ?dir acc (tables db)" using purge_done [of ?dir acc db] p Inr by simp
    then have "in_table (Some d1) b" if "b \<noteq> acc" "in_table (aw_db s) b" for b
      using purged_in_table [OF that(1)] that(2) Some by metis
    moreover have "s1 = s\<lparr>aw_module := stop_runtime (fst tk) (aw_module s), aw_db := Some d1,
        aw_files := snd (remove_all ?dir left (aw_files s))\<rparr>"
      using assms(2) by (simp add: delete_finish_def Some p Inr Let_def)
    ultimately show ?thesis using inv_dropped [OF assms(1)] by simp
  qed
qed

lemma ids_map: "(\<And>b. ac_id (f b) = ac_id b) \<Longrightarrow> ac_id ` set (map f xs) = ac_id ` set xs"
  by (simp add: image_image)

lemma store_identity_ids: "ac_id ` set (at_accounts (store_identity a t)) = ac_id ` set (at_accounts t)"
proof -
  have e: "at_accounts (store_identity a t) = map (\<lambda>b. if ac_id b = ac_id a
      then b\<lparr>ac_name := ac_name a, ac_apple_id := ac_apple_id a, ac_dsid := ac_dsid a, ac_updated := ac_updated a\<rparr> else b)
      (at_accounts t)" by (simp add: store_identity_def)
  show ?thesis unfolding e by (rule ids_map) simp
qed

lemma store_proxy_ids: "ac_id ` set (at_accounts (store_proxy acc p now t)) = ac_id ` set (at_accounts t)"
proof -
  have e: "at_accounts (store_proxy acc p now t) =
      map (\<lambda>b. if ac_id b = acc then b\<lparr>ac_proxy := p, ac_updated := now\<rparr> else b) (at_accounts t)"
    by (simp add: store_proxy_def)
  show ?thesis unfolding e by (rule ids_map) simp
qed

lemma inv_identified:
  assumes "accounts_inv s ps"
  shows "accounts_inv (update_account_identity acc config apple now s) ps"
proof (cases "map_of (md_runtimes (aw_module s)) acc")
  case None
  then show ?thesis using assms by (simp add: update_account_identity_def)
next
  case (Some r)
  let ?x = "md_objects (aw_module s) ! r"
  have id: "ac_id (identified config apple now a) = ac_id a" for a
    by (cases config) (simp_all add: identified_def Let_def)
  have keep: "object_ids (alter_runtime r (\<lambda>x. x\<lparr>rt_account := identified config apple now (rt_account ?x)\<rparr>) (aw_module s)) =
      object_ids (aw_module s)"
    by (rule object_ids_put) (simp add: id)
  have "in_table (map_option (\<lambda>d. snd (sql_exec (store_identity a) d)) db) b = in_table db b" for a db b
    by (rule exec_in_table) (rule store_identity_ids)
  then show ?thesis
    by (intro accounts_inv_frame [OF assms]) (simp_all add: update_account_identity_def Some Let_def keep)
qed


lemma inv_proxied:
  assumes "accounts_inv s ps" and "update_account_proxy w acc raw now dbnow s = (x, s1)"
  shows "accounts_inv s1 ps"
proof -
  have same: "ac_id ` set (at_accounts (store_proxy b p t' t)) = ac_id ` set (at_accounts t)" for b p t' t by (rule store_proxy_ids)
  have table: "in_table (Some (snd (sql_exec (store_proxy b p t') d))) c = in_table (Some d) c" for b p t' d c
    using exec_in_table [of "store_proxy b p t'" "Some d" c] same by simp
  have "md_runtimes (aw_module s1) = md_runtimes (aw_module s) \<and> md_order (aw_module s1) = md_order (aw_module s) \<and>
      object_ids (aw_module s1) = object_ids (aw_module s)"
    using assms(2)
    by (auto simp: update_account_proxy_def Let_def split: sum.splits option.splits prod.splits if_splits)
  moreover have "aw_db s1 = aw_db s \<or> (\<exists>d b p. aw_db s = Some d \<and> aw_db s1 = Some (snd (sql_exec (store_proxy b p dbnow) d)))"
    using assms(2)
    by (auto simp: update_account_proxy_def Let_def split: sum.splits option.splits prod.splits if_splits)
      (metis snd_conv)+
  ultimately show ?thesis
    by (intro accounts_inv_frame [OF assms(1)]) (auto simp: table)
qed

lemma running_same:
  "object_ids (fold (\<lambda>r. alter_runtime r (\<lambda>x. x\<lparr>rt_running := b\<rparr>)) rs m) = object_ids m"
  "md_runtimes (fold (\<lambda>r. alter_runtime r (\<lambda>x. x\<lparr>rt_running := b\<rparr>)) rs m) = md_runtimes m"
  "md_order (fold (\<lambda>r. alter_runtime r (\<lambda>x. x\<lparr>rt_running := b\<rparr>)) rs m) = md_order m"
  by (induction rs arbitrary: m) simp_all

lemma set_running_same [simp]:
  "object_ids (set_running b m) = object_ids m" "md_runtimes (set_running b m) = md_runtimes m"
  "md_order (set_running b m) = md_order m"
  by (simp_all add: set_running_def running_same)

lemma inv_started:
  "accounts_inv s (qs @ Starting r b # ps) \<Longrightarrow>
   accounts_inv (if b then s\<lparr>aw_module := start_runtime r (aw_module s)\<rparr> else s) (qs @ ps)"
  by (simp add: accounts_inv_def start_runtime_def)

lemma inv_begun:
  "accounts_inv s ps \<Longrightarrow> accounts_inv (s\<lparr>aw_module := start_module (aw_module s)\<rparr>) ps"
  "accounts_inv s ps \<Longrightarrow> accounts_inv (s\<lparr>aw_module := stop_module (aw_module s)\<rparr>) ps"
  by (simp_all add: accounts_inv_def start_module_def stop_module_def)

lemma account_step_inv: "account_step w (s, ps) (s1, qs) \<Longrightarrow> accounts_inv s ps \<Longrightarrow> accounts_inv s1 qs"
proof (induction "(s, ps)" "(s1, qs)" rule: account_step.induct)
  case registered
  then show ?case using inv_created by blast
next
  case refused
  then show ?case using inv_refused by blast
next
  case started
  then show ?case using inv_started by metis
next
  case taken
  then show ?case using inv_take by blast
next
  case finished
  then show ?case using inv_finished by blast
next
  case identified
  then show ?case using inv_identified by blast
next
  case proxied
  then show ?case using inv_proxied by blast
next
  case begun
  then show ?case using inv_begun(1) by blast
next
  case ended
  then show ?case using inv_begun(2) by blast
qed

lemma account_steps_inv:
  assumes "(account_step w)\<^sup>*\<^sup>* x y" and "accounts_inv (fst x) (snd x)"
  shows "accounts_inv (fst y) (snd y)"
  using assms
proof (induction rule: rtranclp_induct)
  case (step y z)
  then show ?case using account_step_inv [of w "fst y" "snd y" "fst z" "snd z"] by simp
qed

section \<open>Loading\<close>

text \<open>A module that has been loaded satisfies the invariant: identifiers are the primary key of the table.\<close>

lemma build_all_inv:
  assumes "build_all w as m = Inr m1" and "distinct (map ac_id as)"
    and "\<And>a. a \<in> set as \<Longrightarrow> ac_id a \<notin> fst ` set (md_runtimes m) \<and> in_table db (ac_id a)"
    and "accounts_inv \<lparr>aw_module = m, aw_db = db, aw_files = fs\<rparr> []"
  shows "accounts_inv \<lparr>aw_module = m1, aw_db = db, aw_files = fs\<rparr> [] \<and>
    set (md_order m1) = set (md_order m) \<union> ac_id ` set as"
  using assms
proof (induction as arbitrary: m)
  case (Cons a as)
  obtain x where x: "build_runtime w m a = Inr x" "build_all w as (register_runtime (ac_id a) x m) = Inr m1"
    using Cons.prems(1) by (auto split: sum.splits)
  have n: "ac_id a \<notin> fst ` set (md_runtimes m)" "in_table db (ac_id a)" using Cons.prems(3) [of a] by auto
  let ?s = "\<lparr>aw_module = m, aw_db = db, aw_files = fs\<rparr>"
  have "accounts_inv (?s\<lparr>aw_db := db, aw_module := register_runtime (ac_id a) x (aw_module ?s)\<rparr>) (Starting 0 False # [])"
    by (rule inv_register [OF Cons.prems(4)])
      (use n build_runtime_account [OF x(1)] in \<open>simp_all add: fresh_id_def map_of_eq_None_iff\<close>)
  then have i: "accounts_inv \<lparr>aw_module = register_runtime (ac_id a) x m, aw_db = db, aw_files = fs\<rparr> []"
    by (simp add: accounts_inv_def)
  have r: "md_runtimes (register_runtime (ac_id a) x m) = md_runtimes m @ [(ac_id a, length (md_objects m))]"
    "md_order (register_runtime (ac_id a) x m) = md_order m @ [ac_id a]"
    using n by (simp_all add: register_runtime_def update_fresh)
  have "accounts_inv \<lparr>aw_module = m1, aw_db = db, aw_files = fs\<rparr> [] \<and>
      set (md_order m1) = set (md_order (register_runtime (ac_id a) x m)) \<union> ac_id ` set as"
    by (rule Cons.IH [OF x(2) _ _ i]) (use Cons.prems(2,3) in \<open>auto simp: r rev_image_eqI\<close>)
  then show ?case by (simp add: r)
qed simp

lemma new_module_inv:
  assumes "new_module w coll now data config state (Some d) = (Inr m, Some d1)"
    and "distinct (map ac_id (at_accounts (tables d)))"
  shows "accounts_inv \<lparr>aw_module = m, aw_db = Some d1, aw_files = fs\<rparr> [] \<and> set (md_order m) = ac_id ` set (at_accounts (tables d))"
proof -
  let ?as = "accounts_in_order coll (at_accounts (tables d))"
  obtain rows where q: "sql_query (\<lambda>t. accounts_in_order coll (at_accounts t)) d = (Some rows, d1)"
    and b: "build_all w rows (empty_module data config state) = Inr m"
    using assms(1) by (auto simp: new_module_def load_accounts_def split: option.splits prod.splits)
  have rows: "rows = ?as" "tables d1 = tables d"
    using sql_query_value [of "\<lambda>t. accounts_in_order coll (at_accounts t)" d rows]
      sql_query_tables [of "\<lambda>t. accounts_in_order coll (at_accounts t)" d] q by auto
  have set: "set rows = set (at_accounts (tables d))" by (simp add: rows accounts_in_order_def)
  have dist: "distinct (map ac_id rows)"
    using assms(2) by (simp add: rows accounts_in_order_def distinct_map)
  have "accounts_inv \<lparr>aw_module = empty_module data config state, aw_db = Some d1, aw_files = fs\<rparr> []"
    by (simp add: accounts_inv_def empty_module_def pairs_ok_def)
  then show ?thesis
    using build_all_inv [OF b dist, of "Some d1" fs] set rows(2)
    by (auto simp: in_table_def empty_module_def)
qed

text \<open>
  C31. The registry survives concurrency and restarts. From a module loaded from the database, after any
  interleaving of account requests in their two critical sections, with statements failing at will, the
  order lists exactly the registered accounts, none twice; every registered account is in the table, so
  that a restart finds it; and every registered runtime is the object that was built for its account.
\<close>

theorem registry_invariant:
  assumes "new_module w coll now data config state (Some d) = (Inr m, Some d1)"
    and "distinct (map ac_id (at_accounts (tables d)))"
    and "(account_step w)\<^sup>*\<^sup>* (\<lparr>aw_module = m, aw_db = Some d1, aw_files = fs\<rparr>, []) (s, ps)"
  shows "distinct (md_order (aw_module s)) \<and> set (md_order (aw_module s)) = fst ` set (md_runtimes (aw_module s)) \<and>
    (\<forall>acc r. map_of (md_runtimes (aw_module s)) acc = Some r \<longrightarrow>
       r < length (md_objects (aw_module s)) \<and> ac_id (rt_account (md_objects (aw_module s) ! r)) = acc \<and>
       in_table (aw_db s) acc)"
proof -
  have i: "accounts_inv s ps"
    using account_steps_inv [OF assms(3)] new_module_inv [OF assms(1,2), of fs] by simp
  have "r < length (md_objects (aw_module s)) \<and> ac_id (rt_account (md_objects (aw_module s) ! r)) = acc \<and> in_table (aw_db s) acc"
    if "map_of (md_runtimes (aw_module s)) acc = Some r" for acc r
  proof -
    have "pairs_ok (md_runtimes (aw_module s) @ held ps) (object_ids (aw_module s)) (aw_db s)"
      using i by (simp add: accounts_inv_def)
    moreover have "(acc, r) \<in> set (md_runtimes (aw_module s) @ held ps)" using map_of_SomeD [OF that] by simp
    ultimately have "r < length (object_ids (aw_module s)) \<and> object_ids (aw_module s) ! r = acc \<and> in_table (aw_db s) acc"
      unfolding pairs_ok_def by (metis fst_conv snd_conv)
    then show ?thesis by (auto simp: object_ids_def)
  qed
  then show ?thesis using i by (simp add: accounts_inv_def)
qed


section \<open>A proxy that cannot be loaded\<close>

lemma build_all_fails:
  assumes "a \<in> set as" and "normalize_proxy_url (ac_proxy a) = Inl e"
  shows "\<exists>f. build_all w as m = Inl f"
  using assms
proof (induction as arbitrary: m)
  case (Cons b as)
  have "\<exists>f. build_runtime w m a = Inl f"
    using Cons.prems(2) by (simp add: build_runtime_def set_proxy_def Let_def split: prod.split)
  then show ?case using Cons by (cases "b = a") (auto split: sum.split)
qed simp

lemma new_module_fails:
  assumes "a \<in> set (at_accounts (tables d))" and "normalize_proxy_url (ac_proxy a) = Inl e" and "db_up d"
  shows "\<exists>f d1. new_module w coll now data config state (Some d) = (Inl f, d1)"
proof -
  have "a \<in> set (accounts_in_order coll (at_accounts (tables d)))" using assms(1) by (simp add: accounts_in_order_def)
  then obtain f where "build_all w (accounts_in_order coll (at_accounts (tables d))) (empty_module data config state) = Inl f"
    using build_all_fails [OF _ assms(2)] by blast
  then show ?thesis using assms(3) by (simp add: new_module_def load_accounts_def sql_query_up)
qed

text \<open>
  C32. A proxy whose normal form is not itself accepted takes the server down. The update stores the
  normal form in the table of accounts before the session tries it; the session refuses it, the request
  answers with an error and the registry is unchanged, but the row stays: from then on the module cannot
  be loaded, so that the server does not start again.
\<close>

theorem proxy_update_blocks_restart:
  assumes "normalize_proxy_url raw = Inr p" and "normalize_proxy_url p = Inl e"
    and "map_of (md_runtimes (aw_module s)) (trim_space acc) = Some r" and "aw_db s = Some d" and "db_up d"
    and "in_table (aw_db s) (ac_id (rt_account (md_objects (aw_module s) ! r)))"
  shows "\<exists>d1. update_account_proxy w acc raw now dbnow s = (Inl (DeleteFailed e), s\<lparr>aw_db := Some d1\<rparr>) \<and>
    (\<forall>w coll now data config state. \<exists>f d2. new_module w coll now data config state (Some d1) = (Inl f, d2))"
proof -
  let ?b = "ac_id (rt_account (md_objects (aw_module s) ! r))"
  let ?d = "d\<lparr>tables := store_proxy ?b p dbnow (tables d)\<rparr>"
  have u: "update_account_proxy w acc raw now dbnow s = (Inl (DeleteFailed e), s\<lparr>aw_db := Some ?d\<rparr>)"
    using assms by (simp add: update_account_proxy_def sql_exec_up set_proxy_def Let_def)
  obtain a where a: "a \<in> set (at_accounts (tables d))" "ac_id a = ?b" using assms(4,6) by (auto simp: in_table_def)
  then have "a\<lparr>ac_proxy := p, ac_updated := dbnow\<rparr> \<in> set (at_accounts (tables ?d))"
    by (force simp: store_proxy_def)
  then have "\<exists>f d2. new_module w coll now data config state (Some ?d) = (Inl f, d2)" for w coll now data config state
    by (rule new_module_fails) (use assms(2,5) in simp_all)
  then show ?thesis using u by blast
qed

section \<open>Concrete states\<close>

definition example_world :: build_world where
  "example_world = \<lparr>bw_socks = (\<lambda>_. True), bw_mailbox = (\<lambda>_ _. None), bw_shares = (\<lambda>_ _. None)\<rparr>"

definition example_account :: "string \<Rightarrow> mail_account" where
  "example_account acc = \<lparr>ac_id = acc, ac_name = ''n'', ac_apple_id = [], ac_dsid = [], ac_proxy = [], ac_enabled = True,
     ac_created = 0, ac_updated = 0\<rparr>"

definition example_tables :: account_tables where
  "example_tables = no_rows\<lparr>at_accounts := [example_account ''default'', example_account ''a''],
     at_state := [(''d/accounts/a/state/x'', ''1''), (''d/accounts/b/state/x'', ''2''), (''mail-share-imported:a:p'', ''3'')]\<rparr>"

definition example_db :: "account_tables sqldb" where
  "example_db = \<lparr>tables = example_tables, script = []\<rparr>"

definition example_runtime :: "mail_account \<Rightarrow> account_runtime" where
  "example_runtime a = \<lparr>rt_account = a, rt_config_path = [], rt_state_dir = [], rt_log_dir = [], rt_proxy = fresh_proxy,
     rt_running = False\<rparr>"

definition example_module :: mail_module where
  "example_module = \<lparr>md_data_dir = ''d'', md_config_path = [], md_state_dir = [],
     md_objects = [example_runtime (example_account ''default''), example_runtime (example_account ''a'')],
     md_runtimes = [(''default'', 0), (''a'', 1)], md_order = [''default'', ''a''], md_started = False\<rparr>"

definition example_state :: account_world where
  "example_state = \<lparr>aw_module = example_module, aw_db = Some example_db, aw_files = Map.empty\<rparr>"

lemmas example_defs = example_world_def example_account_def example_tables_def example_db_def example_runtime_def
  example_module_def example_state_def no_rows_def default_account_def

lemma example_registry: "registry_ok example_module"
  by (simp add: registry_ok_def example_defs)


lemma registry_invariant_witness:
  "\<exists>m d. new_module example_world (\<lambda>_. 0) 0 ''d'' [] [] (Some example_db) = (Inr m, Some d) \<and>
     distinct (md_order m) \<and> set (md_order m) = fst ` set (md_runtimes m)"
proof -
  have "case new_module example_world (\<lambda>_. 0) 0 ''d'' [] [] (Some example_db) of
      (Inr m, Some d) \<Rightarrow> md_order m = [''default'', ''a''] | _ \<Rightarrow> False" by code_simp
  then obtain m d where n: "new_module example_world (\<lambda>_. 0) 0 ''d'' [] [] (Some example_db) = (Inr m, Some d)"
    by (auto split: prod.splits sum.splits option.splits)
  have "distinct (map ac_id (at_accounts (tables example_db)))" by (simp add: example_defs)
  then show ?thesis using registry_invariant [OF n _ rtranclp.rtrancl_refl, where fs = Map.empty] n by simp
qed


lemma proxy_update_blocks_restart_witness:
  "\<exists>d1 f d2. aw_db (snd (update_account_proxy example_world ''a'' odd_proxy 0 0 example_state)) = Some d1 \<and>
     new_module example_world (\<lambda>_. 0) 0 ''d'' [] [] (Some d1) = (Inl f, d2)"
proof -
  have t: "trim_space ''a'' = ''a''" by code_simp
  obtain d1 where "update_account_proxy example_world ''a'' odd_proxy 0 0 example_state =
      (Inl (DeleteFailed (Plain msg_proxy_format)), example_state\<lparr>aw_db := Some d1\<rparr>) \<and>
      (\<forall>w coll now data config state. \<exists>f d2. new_module w coll now data config state (Some d1) = (Inl f, d2))"
    using proxy_update_blocks_restart [OF odd_proxy_normal odd_proxy_refused, where s = example_state and acc = "''a''"
        and r = 1 and d = example_db and w = example_world and now = 0 and dbnow = 0]
    by (auto simp: t example_defs db_up_def in_table_def)
  then show ?thesis by auto
qed

end
