(* ===== verification/MailImport.thy ===== *)
theory MailImport
  imports Channels GoRegexp
begin

text \<open>
  Importing a browser session (\<open>modules/mail/backend/import.go\<close>): a cURL command read with four regular
  expressions, or a HAR document, gives a URL, a cookie and headers, from which the configuration of the
  iCloud Web channel is made; and the export of addresses as CSV (\<open>csv.go\<close>).

  Decoding JSON into a map is the parameter \<open>unmarshal\<close>; a map of headers is a partial function.
\<close>

section \<open>Patterns\<close>

abbreviation some_space :: regex where "some_space \<equiv> Many space_rune 1 None"

abbreviation any_space :: regex where "any_space \<equiv> Many space_rune 0 None"

definition lit :: "string \<Rightarrow> regex" where "lit s = literal (map (\<lambda>c. [c]) s)"

text \<open>A text in single or in double quotes; the group that took part is the first that is not empty.\<close>

definition quoted :: "nat \<Rightarrow> regex" where
  "quoted n = Alt (Seq (lit [CHR 0x27]) (Seq (Capture (\<lambda>r. r \<noteq> [CHR 0x27]) n None) (lit [CHR 0x27])))
     (Seq (lit [CHR 0x22]) (Seq (Capture (\<lambda>r. r \<noteq> [CHR 0x22]) n None) (lit [CHR 0x22])))"

definition equals_or_space :: regex where "equals_or_space = Alt (lit ''='') some_space"

definition quoted_url_pattern :: regex where
  "quoted_url_pattern =
     Seq (Alt (Seq (lit ''--url'') equals_or_space)
              (Seq (lit ''curl'') (Seq some_space (Opt (Seq (lit ''--location'') some_space)))))
         (quoted 1)"

definition plain_url_pattern :: regex where
  "plain_url_pattern =
     Seq (lit ''https://'') (Many (\<lambda>r. \<not> space_rune r \<and> r \<notin> {[CHR 0x27], [CHR 0x22], [CHR 0x5C]}) 1 None)"

definition cookie_pattern :: regex where
  "cookie_pattern = Seq (Alt (lit ''-b'') (lit ''--cookie'')) (Seq equals_or_space (quoted 0))"

definition header_pattern :: regex where
  "header_pattern = Seq (Alt (lit ''-h'') (lit ''--header'')) (Seq equals_or_space (quoted 0))"

definition first_capture :: "regex \<Rightarrow> string \<Rightarrow> string option" where
  "first_capture re s =
     (case find_all_string re s of [] \<Rightarrow> None | (_, cap) # _ \<Rightarrow> Some (case cap of None \<Rightarrow> [] | Some rs \<Rightarrow> concat rs))"

section \<open>Regions and hosts\<close>

definition region_international :: string where "region_international = ''international''"
definition region_china :: string where "region_china = ''china''"

definition normalize_region :: "string \<Rightarrow> go_error + string" where
  "normalize_region r =
     (let r = to_lower (trim_space r)
      in if r \<noteq> region_international \<and> r \<noteq> region_china then Inl (Plain msg_import_region) else Inr r)"

definition optional_region :: "string \<Rightarrow> go_error + string" where
  "optional_region r = (if trim_space r \<noteq> [] then normalize_region r else Inr r)"

definition region_from_host :: "string \<Rightarrow> string" where
  "region_from_host h = (if has_suffix (to_lower (trim_space h)) ''.icloud.com.cn'' then region_china else region_international)"

definition normalize_service_host :: "string \<Rightarrow> string \<Rightarrow> string" where
  "normalize_service_host host region =
     (let h = trim_suffix (to_lower host) ''.cn'' in if region = region_china then h @ ''.cn'' else h)"

definition normalize_web_url :: "string \<Rightarrow> string \<Rightarrow> string \<Rightarrow> string" where
  "normalize_web_url value region otherwise =
     (case parse_url (trim_space value) of
        None \<Rightarrow> otherwise
      | Some u \<Rightarrow>
          (if u_scheme u \<noteq> ''https'' \<or> (url_hostname u \<noteq> ''www.icloud.com'' \<and> url_hostname u \<noteq> ''www.icloud.com.cn'')
           then otherwise
           else url_string (u\<lparr>u_host := (if region = region_china then ''www.icloud.com.cn'' else ''www.icloud.com'')\<rparr>)))"

section \<open>Cookies and headers\<close>

definition core_cookies :: "string list" where
  "core_cookies = [''X-APPLE-DS-WEB-SESSION-TOKEN'', ''X-APPLE-WEBAUTH-USER'', ''X-APPLE-WEBAUTH-TOKEN'']"

definition cookie_names :: "string \<Rightarrow> string list" where
  "cookie_names cookie = map (\<lambda>p. trim_space (fst (cut_byte p (CHR ''='')))) (split_byte cookie (CHR '';''))"

definition require_cookies :: "string \<Rightarrow> go_error option" where
  "require_cookies cookie =
     (let missing = filter (\<lambda>n. n \<notin> set (cookie_names cookie)) core_cookies
      in if missing \<noteq> [] then Some (Plain (msg_import_cookie @ str_join missing '', '' @ msg_import_hint)) else None)"

type_synonym headers = "string \<rightharpoonup> string"

definition header :: "headers \<Rightarrow> string \<Rightarrow> string" where
  "header h k = (case h k of None \<Rightarrow> [] | Some v \<Rightarrow> v)"

definition curl_header :: "headers \<Rightarrow> string \<Rightarrow> headers" where
  "curl_header h text =
     (case cut_byte text (CHR '':'') of
        (name, value, True) \<Rightarrow> h(to_lower (trim_space name) \<mapsto> trim_space value)
      | _ \<Rightarrow> h)"

definition curl_headers :: "string \<Rightarrow> headers" where
  "curl_headers text =
     foldl curl_header Map.empty
       (map (\<lambda>(_, cap). case cap of None \<Rightarrow> [] | Some rs \<Rightarrow> concat rs) (find_all_string header_pattern text))"

definition as_list :: "json \<Rightarrow> json list" where
  "as_list v = (case v of JArr xs \<Rightarrow> xs | _ \<Rightarrow> [])"

definition as_text :: "json \<Rightarrow> string" where
  "as_text v = (case v of JStr s \<Rightarrow> s | _ \<Rightarrow> [])"

definition har_headers :: "jmap \<Rightarrow> headers" where
  "har_headers request =
     foldl (\<lambda>h item.
        let m = as_map item; name = to_lower (trim_space (sprint (jget m ''name'')))
        in if name \<noteq> [] \<and> name \<noteq> ''<nil>'' then h(name \<mapsto> trim_space (sprint (jget m ''value''))) else h)
       Map.empty (as_list (jget request ''headers''))"

definition har_cookie :: "jmap \<Rightarrow> string" where
  "har_cookie request =
     str_join (List.map_filter (\<lambda>item.
        let m = as_map item; name = trim_space (sprint (jget m ''name''))
        in if name \<noteq> [] \<and> name \<noteq> ''<nil>'' then Some (name @ ''='' @ sprint (jget m ''value'')) else None)
       (as_list (jget request ''cookies''))) ''; ''"

section \<open>The configuration\<close>

definition required_query :: "url \<Rightarrow> string \<Rightarrow> go_error + string" where
  "required_query u name =
     (let v = trim_space (url_query u name) in if v = [] then Inl (Plain (msg_import_query @ name)) else Inr v)"

definition web_base :: "string \<Rightarrow> string" where
  "web_base region = (if region = region_china then ''https://www.icloud.com.cn'' else ''https://www.icloud.com'')"

definition imported_config ::
  "string \<Rightarrow> string \<Rightarrow> string \<Rightarrow> string \<Rightarrow> string \<Rightarrow> string \<Rightarrow> headers \<Rightarrow> string \<Rightarrow> icloud_config" where
  "imported_config hostname cookie dsid client build mastering h region =
     apply_defaults
       \<lparr>ic_apple_id = [], ic_host = normalize_service_host hostname region, ic_dsid = dsid, ic_client_id = client,
        ic_build_number = build, ic_mastering_number = mastering, ic_cookie = cookie, ic_lang_code = ''zh-cn'',
        ic_origin = normalize_web_url (header h ''origin'') region (web_base region),
        ic_referer = normalize_web_url (header h ''referer'') region (web_base region @ ''/''),
        ic_user_agent = header h ''user-agent''\<rparr>"

definition config_from_request :: "string \<Rightarrow> string \<Rightarrow> headers \<Rightarrow> string \<Rightarrow> go_error + icloud_config" where
  "config_from_request raw cookie h region =
     (case parse_url (trim_space raw) of
        None \<Rightarrow> Inl (Plain msg_import_host)
      | Some u \<Rightarrow>
          (if u_scheme u \<noteq> ''https'' \<or> \<not> is_mail_domain_host (url_hostname u) then Inl (Plain msg_import_host)
           else if \<not> has_prefix (u_path u) ''/v2/hme/list'' \<and> \<not> has_prefix (u_path u) ''/v1/hme/''
           then Inl (Plain msg_import_path)
           else
             (case require_cookies cookie of
                Some e \<Rightarrow> Inl e
              | None \<Rightarrow>
                  (case normalize_region (if trim_space region = [] then region_from_host (url_hostname u) else region) of
                     Inl e \<Rightarrow> Inl e
                   | Inr region \<Rightarrow>
                       (case required_query u ''dsid'' of
                          Inl e \<Rightarrow> Inl e
                        | Inr dsid \<Rightarrow>
                            (case required_query u ''clientId'' of
                               Inl e \<Rightarrow> Inl e
                             | Inr client \<Rightarrow>
                                 (case required_query u ''clientBuildNumber'' of
                                    Inl e \<Rightarrow> Inl e
                                  | Inr build \<Rightarrow>
                                      (case required_query u ''clientMasteringNumber'' of
                                         Inl e \<Rightarrow> Inl e
                                       | Inr mastering \<Rightarrow>
                                           (let c = imported_config (url_hostname u) cookie dsid client build mastering h region
                                            in case validate_config c of Some e \<Rightarrow> Inl e | None \<Rightarrow> Inr c)))))))))"

section \<open>cURL and HAR\<close>

definition parse_hme_curl :: "string \<Rightarrow> string \<Rightarrow> go_error + icloud_config" where
  "parse_hme_curl text region =
     (case optional_region region of
        Inl e \<Rightarrow> Inl e
      | Inr region \<Rightarrow>
          (let url = (case first_capture quoted_url_pattern text of
                 Some u \<Rightarrow> trim_space u
               | None \<Rightarrow> (case find_all_string plain_url_pattern text of [] \<Rightarrow> [] | (m, _) # _ \<Rightarrow> concat m));
               cookie = (case first_capture cookie_pattern text of Some c \<Rightarrow> trim_space c | None \<Rightarrow> []);
               h = curl_headers text
           in config_from_request url (if cookie = [] then header h ''cookie'' else cookie) h region))"

definition har_url :: "jmap \<Rightarrow> url option" where
  "har_url request =
     (case parse_url (as_text (jget request ''url'')) of
        None \<Rightarrow> None
      | Some u \<Rightarrow> if is_mail_domain_host (url_hostname u) then Some u else None)"

fun har_select :: "json list \<Rightarrow> jmap option \<Rightarrow> jmap option" where
  "har_select [] otherwise = otherwise"
| "har_select (item # items) otherwise =
     (let request = as_map (jget (as_map item) ''request'') in
      case har_url request of
        None \<Rightarrow> har_select items otherwise
      | Some u \<Rightarrow>
          (if has_prefix (u_path u) ''/v2/hme/list'' then Some request
           else har_select items
                  (if otherwise = None \<and> contains (u_path u) ''/hme/'' then Some request else otherwise)))"

definition parse_har :: "jmap \<Rightarrow> string \<Rightarrow> go_error + icloud_config" where
  "parse_har har region =
     (case jget (as_map (jget har ''log'')) ''entries'' of
        JArr entries \<Rightarrow>
          (case har_select entries None of
             None \<Rightarrow> Inl (Plain msg_import_no_request)
           | Some request \<Rightarrow>
               (let h = har_headers request; cookie = header h ''cookie''
                in config_from_request (sprint (jget request ''url'')) (if cookie = [] then har_cookie request else cookie) h region))
      | _ \<Rightarrow> Inl (Plain msg_import_entries))"

definition parse_import_text :: "(string \<Rightarrow> jmap option) \<Rightarrow> string \<Rightarrow> string \<Rightarrow> go_error + icloud_config" where
  "parse_import_text unmarshal text region =
     (case optional_region region of
        Inl e \<Rightarrow> Inl e
      | Inr region \<Rightarrow>
          (let text = trim_space text in
           if text = [] then Inl (Plain msg_import_empty)
           else
             (case unmarshal text of
                Some har \<Rightarrow>
                  (case jget har ''log'' of
                     JObj _ \<Rightarrow> parse_har har region
                   | _ \<Rightarrow> parse_hme_curl text region)
              | None \<Rightarrow> parse_hme_curl text region)))"

section \<open>Storing the session\<close>

definition import_report :: "icloud_config \<Rightarrow> jmap" where
  "import_report c = [(''imported'', JBool True),
     (''icloudRegion'', JStr (if has_suffix (ic_host c) ''.cn'' then region_china else region_international)),
     (''host'', JStr (ic_host c))]"

definition import_session ::
  "(string \<Rightarrow> jmap option) \<Rightarrow> string \<Rightarrow> string \<Rightarrow> session_manager \<Rightarrow> (go_error + jmap) \<times> session_manager" where
  "import_session unmarshal text region s =
     (case parse_import_text unmarshal text region of
        Inl e \<Rightarrow> (Inl e, s)
      | Inr c \<Rightarrow> (let (ok, s1) = store_web_session c s in if ok then (Inr (import_report c), s1) else (Inl write_error, s1)))"

section \<open>CSV\<close>

definition csv_columns :: "string list" where
  "csv_columns = [''hme'', ''label'', ''note'', ''forwardToEmail'', ''origin'', ''isActive'', ''createTimestamp'',
     ''anonymousId'', ''domain'', ''originAppName'', ''appBundleId'', ''recipientMailId'']"

text \<open>\<open>encoding/csv\<close> quotes a field that holds a separator, a quote or a line break, starts with white
  space, or is a backslash and a full stop.\<close>

definition csv_special :: "char \<Rightarrow> bool" where
  "csv_special c \<longleftrightarrow> c \<in> {CHR '','', CHR 0x22, CHR 0x0A, CHR 0x0D}"

definition csv_needs_quotes :: "string \<Rightarrow> bool" where
  "csv_needs_quotes f \<longleftrightarrow>
     f \<noteq> [] \<and> (f = [CHR 0x5C, CHR ''.''] \<or> list_ex csv_special f \<or> trim_space (hd (pieces f)) = [])"

definition csv_field :: "string \<Rightarrow> string" where
  "csv_field f =
     (if csv_needs_quotes f
      then [CHR 0x22] @ concat (map (\<lambda>c. if c = CHR 0x22 then [CHR 0x22, CHR 0x22] else [c]) f) @ [CHR 0x22]
      else f)"

definition csv_line :: "string list \<Rightarrow> string" where
  "csv_line row = str_join (map csv_field row) '','' @ [CHR 0x0A]"

definition alias_row :: "jmap \<Rightarrow> string list" where
  "alias_row a = map (\<lambda>k. if jget a k = JNull then [] else sprint (jget a k)) csv_columns"

definition aliases_csv :: "jmap list \<Rightarrow> string" where
  "aliases_csv as = concat (map csv_line (csv_columns # map alias_row as))"

end
