(* ===== verification/MailImportProps.thy ===== *)
theory MailImportProps
  imports MailImport ProxyProps
begin

text \<open>
  What an imported session may be used for: every URL built on its host goes to Apple. And the exported
  CSV file is read back by a reader of RFC 4180.
\<close>

section \<open>Characters of a parsed host\<close>

definition host_break :: "char \<Rightarrow> bool" where
  "host_break c \<longleftrightarrow> c = CHR ''/'' \<or> c = CHR ''?'' \<or> c = CHR ''#'' \<or> c = CHR ''@''"

lemma break_escaped: "host_break c \<Longrightarrow> should_escape InHost c \<and> should_escape InZone c \<and> (of_char c :: nat) < 128 \<and> c \<noteq> CHR ''%''"
  unfolding host_break_def by (elim disjE) (simp_all add: should_escape_def is_alnum_def)

lemma unescaped_breaks:
  "url_unescape m s = Some h \<Longrightarrow> m = InHost \<or> m = InZone \<Longrightarrow> c \<in> set h \<Longrightarrow> \<not> host_break c"
proof (induction m s arbitrary: h rule: url_unescape.induct)
  case (2 m c0 s)
  show ?case
  proof (cases "c0 = CHR ''%''")
    case True
    then obtain a b r t where s: "s = a # b # r" "escape_ok m a b" "url_unescape m r = Some t"
      "h = char_of (unhex a * 16 + unhex b) # t"
      using 2(3) by (auto split: list.splits if_splits)
    let ?v = "char_of (unhex a * 16 + unhex b) :: char"
    have n: "unhex a < 16" "unhex b < 16" using s(2) by (auto simp: escape_ok_def unhex_def is_hex_def Let_def)
    have "\<not> host_break ?v"
    proof
      assume b: "host_break ?v"
      have nv: "\<not> (a = CHR ''2'' \<and> b = CHR ''5'')" using break_escaped [OF b] some_chars by (auto simp: unhex_def)
      show False
      proof (cases "m = InHost")
        case True
        then have "8 \<le> unhex a" using s(2) nv by (auto simp: escape_ok_def)
        then show False using break_escaped [OF b] n by (simp add: of_char_of)
      next
        case False
        then have "m = InZone" using 2(4) by simp
        then have "?v = CHR '' '' \<or> \<not> should_escape InHost ?v" using s(2) nv by (auto simp: escape_ok_def Let_def)
        then show False using break_escaped [OF b] b by (auto simp: host_break_def)
      qed
    qed
    then show ?thesis using 2(1) [OF True s(1) refl s(2) s(3) 2(4)] 2(5) s(4) by auto
  next
    case False
    then obtain t where t: "url_unescape m s = Some t" "h = c0 # t" "(of_char c0 :: nat) < 128 \<longrightarrow> \<not> should_escape m c0"
      using 2(3,4) by (auto split: if_splits)
    have "\<not> host_break c0" using break_escaped [of c0] t(3) 2(4) by auto
    then show ?thesis using 2(2) [OF False _ t(1) 2(4)] 2(5) t 2(4) by (auto simp: not_less)
  qed
qed simp

lemma parsed_host_breaks:
  assumes "parse_host s = Some h" and "c \<in> set h"
  shows "\<not> host_break c"
proof -
  have "(\<exists>t g. url_unescape InHost t = Some g \<and> c \<in> set g) \<or> (\<exists>t g. url_unescape InZone t = Some g \<and> c \<in> set g)"
    using assms by (auto 4 4 simp: parse_host_def append_option_def split: if_splits option.splits; blast)
  then show ?thesis using unescaped_breaks by blast
qed

lemma hostname_breaks:
  assumes "parse_url raw = Some u" and "c \<in> set (url_hostname u)"
  shows "\<not> host_break c"
proof -
  have sub: "set (url_hostname u) \<subseteq> set (u_host u)"
    by (auto simp: url_hostname_def split_host_port_def split: option.splits if_splits
        dest!: in_set_butlastD in_set_takeD list.set_sel(2) [rotated])
  then have "u_host u \<noteq> []" using assms(2) by auto
  then show ?thesis using parse_url_source [OF assms(1)] parsed_host_breaks sub assms(2) by blast
qed

section \<open>Hosts of Apple's mail service\<close>

definition mail_suffix :: "string \<Rightarrow> bool" where
  "mail_suffix b \<longleftrightarrow> to_lower b = ''-maildomainws.icloud.com'' \<or> to_lower b = ''-maildomainws.icloud.com.cn''"

definition name_char :: "char \<Rightarrow> bool" where
  "name_char c \<longleftrightarrow> is_alnum c \<or> c = CHR ''-'' \<or> c = CHR ''.''"

lemma lower_name_char: "name_char (lower_char c) \<Longrightarrow> name_char c"
  by (auto simp: name_char_def lower_char_def is_alnum_def Let_def split: if_splits)

lemma mail_suffix_chars:
  assumes "mail_suffix b" and "c \<in> set b"
  shows "name_char c"
proof -
  have "lower_char c \<in> set (to_lower b)" using assms(2) by (simp add: to_lower_def)
  then have "name_char (lower_char c)"
    using assms(1) by (auto simp: mail_suffix_def name_char_def is_alnum_def)
  then show ?thesis by (rule lower_name_char)
qed

lemma lower_dash: "lower_char c = CHR ''-'' \<Longrightarrow> c = CHR ''-''"
proof -
  assume a: "lower_char c = CHR ''-''"
  then have "(of_char (lower_char c) :: nat) = 45" by simp
  then have "\<not> (65 \<le> (of_char c :: nat) \<and> of_char c \<le> (90 :: nat))" by (auto simp: of_char_lower)
  then have "lower_char c = c" unfolding lower_char_def Let_def by (rule if_not_P)
  then show ?thesis using a by simp
qed

lemma mail_suffix_dash: "mail_suffix b \<Longrightarrow> \<exists>t. b = CHR ''-'' # t \<and> t \<noteq> []"
  by (cases b; cases "tl b") (auto simp: mail_suffix_def to_lower_def dest: lower_dash)

lemma name_char_facts: "name_char c \<Longrightarrow> visible c \<and> \<not> should_escape InHost c \<and> c \<noteq> CHR ''%'' \<and> c \<noteq> CHR '':'' \<and> c \<noteq> CHR '']''"
  unfolding name_char_def
  by (elim disjE) (auto simp: should_escape_def visible_def dest: alnum_visible, simp_all add: is_alnum_def)

text \<open>White space is only cut off in front of the suffix.\<close>

lemma visible_no_middle: "visible c \<Longrightarrow> \<not> space3 a c b"
  by (auto simp: visible_def space3_def)

lemma space_len_bound:
  assumes "visible y"
  shows "space_len (a @ y # b) \<le> length a"
  using visible_no_space [OF assms] visible_no_middle [OF assms]
  by (cases a; cases "tl a"; cases "tl (tl a)"; cases b; cases "tl b") (simp_all, (auto split: if_splits)?)

lemma trim_left_keeps:
  assumes "visible y"
  shows "\<exists>a'. trim_left (a @ y # b) = a' @ y # b"
proof (induction a rule: length_induct)
  case (1 a)
  show ?case
  proof (cases "space_len (a @ y # b) = 0")
    case True
    then show ?thesis by (auto simp: trim_left_id)
  next
    case False
    let ?n = "space_len (a @ y # b)"
    have n: "?n \<le> length a" by (rule space_len_bound [OF assms])
    then have "length (drop ?n a) < length a" using False by simp
    then obtain a' where "trim_left (drop ?n a @ y # b) = a' @ y # b" using 1 by blast
    moreover have "trim_left (a @ y # b) = trim_left (drop ?n a @ y # b)"
      using False n by (subst trim_left.simps) simp
    ultimately show ?thesis by auto
  qed
qed

lemma trim_space_keeps:
  assumes "mail_suffix b"
  shows "\<exists>a'. trim_space (a @ b) = a' @ b"
proof -
  obtain t where t: "b = CHR ''-'' # t" "t \<noteq> []" using mail_suffix_dash [OF assms] by blast
  have v: "visible (CHR ''-'')" by (simp add: visible_def)
  obtain a' where a: "trim_left (a @ b) = a' @ b" using trim_left_keeps [OF v, of a t] t by auto
  obtain c r where r: "rev b = c # r" using t by (cases "rev b") auto
  then have "visible c" using mail_suffix_chars [OF assms, of c] name_char_facts by (metis list.set_intros(1) set_rev)
  then have "rspace_len (rev b @ rev a') = 0" unfolding r using visible_no_space
    by (cases "c # r @ rev a'" rule: rspace_len.cases) auto
  then show ?thesis using a by (auto simp: trim_space_def trim_right_def trim_rev_id)
qed

lemma mail_host_split:
  assumes "is_mail_domain_host h" and "trim_space h = h"
  shows "\<exists>a b. h = a @ b \<and> mail_suffix b"
proof -
  obtain t where t: "has_suffix (to_lower h) t" "t = ''-maildomainws.icloud.com'' \<or> t = ''-maildomainws.icloud.com.cn''"
    using assms by (auto simp: is_mail_domain_host_def Let_def)
  then obtain p where p: "to_lower h = p @ t" using has_suffix_iff by blast
  then have "to_lower (drop (length p) h) = t"
    by (simp add: to_lower_def drop_map [symmetric])
  then show ?thesis using t(2) by (metis append_take_drop_id mail_suffix_def)
qed

lemma mail_suffix_host:
  assumes "mail_suffix b"
  shows "is_mail_domain_host (a @ b)"
proof -
  obtain a' where "trim_space (a @ b) = a' @ b" using trim_space_keeps [OF assms] by blast
  then have "to_lower (trim_space (a @ b)) = to_lower a' @ to_lower b" by (simp add: to_lower_def)
  then show ?thesis using assms by (auto simp: is_mail_domain_host_def mail_suffix_def has_suffix_iff Let_def)
qed

lemma suffix_no_port:
  assumes "mail_suffix b"
  shows "\<not> optional_port (x @ b)"
proof -
  obtain t where t: "b = CHR ''-'' # t" using mail_suffix_dash [OF assms] by blast
  show ?thesis by (cases x) (auto simp: t optional_port_def is_digit_def)
qed

lemma last_byte_before:
  assumes "mail_suffix b" and "c = CHR '':'' \<or> c = CHR '']''" and "last_byte (a @ b) c = Some i"
  shows "i < length a"
proof (rule ccontr)
  assume "\<not> i < length a"
  then have i: "length a \<le> i" by simp
  have sp: "a @ b = take i (a @ b) @ c # drop (Suc i) (a @ b)" using last_byte_Some [OF assms(3)] by blast
  have "c \<in> set (drop (length a) (a @ b))"
    using i arg_cong [OF sp, of "drop (length a)"] by (simp add: drop_append)
      (metis append_Cons in_set_conv_decomp)
  then have "name_char c" using mail_suffix_chars [OF assms(1)] by simp
  then show False using assms(2) by (auto simp: name_char_def is_alnum_def)
qed

lemma suffix_unescaped: "mail_suffix b \<Longrightarrow> url_unescape InHost b = Some b"
proof -
  assume b: "mail_suffix b"
  have ok: "list_all (\<lambda>c. \<not> should_escape InHost c) b"
    using mail_suffix_chars [OF b] name_char_facts by (auto simp: list_all_iff)
  have "\<exists>r. url_unescape InHost (url_escape InHost b) = r" by simp
  have "CHR ''%'' \<notin> set b" using mail_suffix_chars [OF b] name_char_facts by blast
  then show ?thesis using ok by (induction b) auto
qed

lemma parsed_mail_host:
  assumes "mail_suffix b" and "parse_host (a @ b) = Some h"
  shows "\<exists>a'. h = a' @ b"
proof -
  obtain t where t: "b = CHR ''-'' # t" using mail_suffix_dash [OF assms(1)] by blast
  have port: "\<not> optional_port (drop n (a @ b))" if "n \<le> length a" for n
    using that suffix_no_port [OF assms(1), of "drop n a"] by simp
  have ports: "\<not> optional_port (drop i (a @ b))" "\<not> optional_port (drop (Suc i) (a @ b))"
    if "c = CHR '':'' \<or> c = CHR '']''" and "last_byte (a @ b) c = Some i" for i c
    using last_byte_before [OF assms(1) that] port [of i] port [of "Suc i"] by simp_all
  have "url_unescape InHost (a @ b) = Some h"
  proof (cases "has_prefix (a @ b) ''[''")
    case True
    then show ?thesis using assms(2) ports(2) [of "CHR '']''"] unfolding parse_host_def
      by (cases "last_byte (a @ b) (CHR '']'')") simp_all
  next
    case False
    then show ?thesis using assms(2) ports(1) [of "CHR '':''"] unfolding parse_host_def
      by (cases "last_byte (a @ b) (CHR '':'')") simp_all
  qed
  moreover have "\<not> is_hex (CHR ''-'')" by (simp add: is_hex_def)
  ultimately obtain a' y where "url_unescape InHost b = Some y" "h = a' @ y"
    using unescape_split_at [of "CHR ''-''" a t h] t by blast
  then show ?thesis using suffix_unescaped [OF assms(1)] by auto
qed

lemma mail_hostname:
  assumes "mail_suffix b"
  shows "fst (split_host_port (a @ b)) = a @ b"
proof -
  have port: "\<not> optional_port (drop n (a @ b))" if "n \<le> length a" for n
    using that suffix_no_port [OF assms, of "drop n a"] by simp
  obtain t where t: "b = CHR ''-'' # t" "t \<noteq> []" using mail_suffix_dash [OF assms] by blast
  have "last (a @ b) \<noteq> CHR '']''" using mail_suffix_chars [OF assms, of "last b"] t name_char_facts by auto
  then have "\<not> has_suffix (a @ b) '']''" by (auto simp: has_suffix_iff)
  then show ?thesis using port last_byte_before [OF assms, of "CHR '':''" a]
    by (auto simp: split_host_port_def Let_def less_imp_le split: option.splits)
qed

section \<open>The address of a request\<close>

lemma request_authority:
  assumes "\<forall>c\<in>set h. \<not> host_break c" and "parse_url (''https://'' @ h @ ''/'' @ p) = Some u"
  shows "parse_host h = Some (u_host u)"
proof -
  obtain p1 x b where p1: "cut_byte p (CHR ''#'') = (p1, x, b)" by (cases "cut_byte p (CHR ''#'')")
  have no: "CHR ''#'' \<notin> set h" "CHR ''?'' \<notin> set h" "CHR ''/'' \<notin> set h" "CHR ''@'' \<notin> set h"
    using assms(1) by (auto simp: host_break_def)
  have app: "cut_byte (s @ r) c = (let (f, y, b) = cut_byte r c in (s @ f, y, b))" if "c \<notin> set s" for s r c
    using that by (induction s) (auto split: prod.splits)
  have front: "fst (cut_byte (''https://'' @ h @ ''/'' @ p) (CHR ''#'')) = ''https://'' @ h @ ''/'' @ p1"
    using app [of "CHR ''#''" "''https://'' @ h @ ''/''" p] no(1) p1 by simp
  obtain v where v: "parse_before_fragment (''https://'' @ h @ ''/'' @ p1) = Some v" "u_host u = u_host v"
    using assms(2) front by (auto simp: parse_url_def set_fragment_def split_beta split: option.splits if_splits)
  have sc: "get_scheme (''https://'' @ h @ ''/'' @ p1) = Some (''https'', ''//'' @ h @ ''/'' @ p1)"
    by (simp add: get_scheme_def is_letter_def is_alnum_def is_digit_def)
  have lo: "to_lower ''https'' = ''https''" by (simp add: to_lower_def lower_char_def)
  obtain p2 q f where cq: "cut_query (''//'' @ h @ ''/'' @ p1) = (''//'' @ h @ ''/'' @ p2, q, f)"
  proof (cases "has_suffix (''//'' @ h @ ''/'' @ p1) ''?'' \<and> CHR ''?'' \<notin> set (butlast (''//'' @ h @ ''/'' @ p1))")
    case True
    then have "p1 \<noteq> []" by (auto simp: has_suffix_iff)
    then have "butlast (''//'' @ h @ ''/'' @ p1) = ''//'' @ h @ ''/'' @ butlast p1" by (simp add: butlast_append)
    then show ?thesis using that True by (simp add: cut_query_def)
  next
    case False
    obtain f y b where "cut_byte p1 (CHR ''?'') = (f, y, b)" by (cases "cut_byte p1 (CHR ''?'')")
    then show ?thesis using that [of f y False] False app [of "CHR ''?''" "''//'' @ h @ ''/''" p1] no(2)
      by (auto simp: cut_query_def)
  qed
  have tw: "takeWhile (\<lambda>c. c \<noteq> CHR ''/'') (h @ CHR ''/'' # p2) = h" using no(3) by (induction h) auto
  have nat: "last_byte h (CHR ''@'') = None" using no(4) last_byte_None by blast
  obtain host where "parse_host h = Some host" "u_host v = host"
    using v(1) unfolding parse_before_fragment_def sc option.case prod.case Let_def lo cq
    by (auto simp: tw parse_authority_def nat empty_url_def has_prefix_def dest!: set_path_host split: if_splits option.splits)
  then show ?thesis using v(2) by simp
qed

section \<open>Imported sessions\<close>

lemma lower_break: "host_break (lower_char c) \<Longrightarrow> host_break c"
proof -
  assume a: "host_break (lower_char c)"
  then have "(of_char (lower_char c) :: nat) < 65" by (auto simp: host_break_def)
  then have "\<not> (65 \<le> (of_char c :: nat) \<and> of_char c \<le> (90 :: nat))" by (auto simp: of_char_lower split: if_splits)
  then have "lower_char c = c" unfolding lower_char_def Let_def by (rule if_not_P)
  then show ?thesis using a by simp
qed

lemma no_slash_trim: "CHR ''/'' \<notin> set s \<Longrightarrow> trim_right_slash_rev s = s"
  by (cases s) auto

lemma no_slash_host:
  assumes "CHR ''/'' \<notin> set s" and "parse_url s = Some u"
  shows "u_host u = []"
proof -
  obtain f where f: "set f \<subseteq> set s" "\<exists>v. parse_before_fragment f = Some v \<and> u_host v = u_host u"
    using assms(2) cut_byte_sets(1) [of s "CHR ''#''"]
    by (auto simp: parse_url_def set_fragment_def Let_def split_beta split: option.splits if_splits)
  then obtain v where v: "parse_before_fragment f = Some v" "u_host v = u_host u" by blast
  show ?thesis
  proof (rule ccontr)
    assume ne: "u_host u \<noteq> []"
    obtain scheme rest where sc: "get_scheme f = Some (scheme, rest)"
      using v ne by (auto simp: parse_before_fragment_def empty_url_def split: if_splits option.splits)
    obtain r q b where cq: "cut_query rest = (r, q, b)" by (cases "cut_query rest")
    have "set r \<subseteq> set f" using cut_query_sets [of rest] cq scheme_from_rest sc by (fastforce simp: get_scheme_def)
    then have "\<not> has_prefix r ''//''" using f(1) assms(1) by (auto simp: has_prefix_iff)
    then have "u_host v = []" using v(1) sc cq
      by (auto simp: parse_before_fragment_def empty_url_def Let_def dest!: set_path_host split: if_splits option.splits)
    then show False using v(2) ne by simp
  qed
qed

lemma clean_host_plain:
  assumes "CHR ''/'' \<notin> set v"
  shows "clean_host v = trim_space v"
proof -
  have n: "CHR ''/'' \<notin> set (trim_space v)" using assms set_trim_space by blast
  have "(case parse_url (trim_space v) of None \<Rightarrow> [] | Some u \<Rightarrow> url_hostname u) = []"
    using no_slash_host [OF n] by (auto simp: url_hostname_def split_host_port_def has_prefix_def split: option.splits)
  then show ?thesis using n by (simp add: clean_host_def trim_slashes_def trim_right_slash_def no_slash_trim)
qed

lemma service_host_breaks:
  assumes "\<forall>c\<in>set h. \<not> host_break c"
  shows "\<forall>c\<in>set (normalize_service_host h r). \<not> host_break c"
proof -
  have "set (trim_suffix (to_lower h) ''.cn'') \<subseteq> set (to_lower h)" by (auto simp: trim_suffix_def dest: in_set_takeD)
  moreover have "\<forall>c\<in>set (to_lower h). \<not> host_break c" using assms lower_break by (auto simp: to_lower_def)
  ultimately show ?thesis by (auto simp: normalize_service_host_def Let_def host_break_def)
qed

lemma defaults_host: "ic_host (apply_defaults c) = clean_host (ic_host c)"
  by (simp add: apply_defaults_def Let_def)

lemma imported_config_host:
  "ic_host (imported_config hostname cookie dsid client build mastering h region) =
   clean_host (normalize_service_host hostname region)"
  by (simp add: imported_config_def defaults_host)

lemma imported_host:
  assumes "config_from_request raw cookie h region = Inr c"
  obtains u r where "parse_url (trim_space raw) = Some u" "ic_host c = clean_host (normalize_service_host (url_hostname u) r)"
    "validate_config c = None"
proof -
  obtain u r dsid client build mastering where "parse_url (trim_space raw) = Some u"
    "c = imported_config (url_hostname u) cookie dsid client build mastering h r" "validate_config c = None"
    using assms unfolding config_from_request_def Let_def
    by (simp split: option.splits if_split_asm sum.splits; blast)
  then show thesis using that imported_config_host by blast
qed

lemma import_source:
  assumes "parse_import_text unmarshal text region = Inr c"
  shows "\<exists>raw cookie h r. config_from_request raw cookie h r = Inr c"
proof -
  have curl: "\<exists>raw cookie h r. config_from_request raw cookie h r = Inr c" if "parse_hme_curl t r = Inr c" for t r
    using that by (auto simp: parse_hme_curl_def Let_def split: sum.splits)
  have har: "\<exists>raw cookie h r. config_from_request raw cookie h r = Inr c" if "parse_har d r = Inr c" for d r
    using that by (auto simp: parse_har_def Let_def split: json.splits option.splits)
  have "(\<exists>t r. parse_hme_curl t r = Inr c) \<or> (\<exists>d r. parse_har d r = Inr c)"
    using assms unfolding parse_import_text_def Let_def
    by (simp split: sum.split_asm option.split_asm json.split_asm if_split_asm; blast)
  then show ?thesis using curl har by blast
qed

lemma valid_mail_host: "validate_config c = None \<Longrightarrow> is_mail_domain_host (ic_host c)"
  by (rule ccontr) (simp add: validate_config_def Let_def split: if_split_asm)

text \<open>
  C33. A session that was imported is only ever used with Apple. Whatever is pasted, be it a cURL command or
  a HAR document, in whatever region: when the import accepts it, every URL with the host of the
  configuration that the URL parser accepts names a host of the iCloud mail domain service. Ports,
  brackets, credentials, escapes or fragments in the pasted URL cannot lead elsewhere the requests that
  carry the session's cookies.
\<close>

theorem import_stays_at_apple:
  assumes "parse_import_text unmarshal text region = Inr c"
    and "parse_url (''https://'' @ ic_host c @ ''/'' @ path) = Some u"
  shows "is_mail_domain_host (url_hostname u)"
proof -
  obtain raw cookie h r where "config_from_request raw cookie h r = Inr c" using import_source [OF assms(1)] by blast
  then obtain v s where v: "parse_url (trim_space raw) = Some v" and host: "ic_host c = clean_host (normalize_service_host (url_hostname v) s)"
    and valid: "validate_config c = None" by (rule imported_host)
  let ?h = "normalize_service_host (url_hostname v) s"
  have nb: "\<forall>c\<in>set ?h. \<not> host_break c" using service_host_breaks hostname_breaks [OF v] by blast
  have ns: "CHR ''/'' \<notin> set ?h"
  proof
    assume "CHR ''/'' \<in> set ?h"
    then show False using nb host_break_def by blast
  qed
  have c: "ic_host c = trim_space ?h" unfolding host by (rule clean_host_plain [OF ns])
  then have "trim_space (ic_host c) = ic_host c" by simp
  then obtain a b where ab: "ic_host c = a @ b" "mail_suffix b" using mail_host_split [OF valid_mail_host [OF valid]] by blast
  have "\<forall>x\<in>set (ic_host c). \<not> host_break x" unfolding c using nb set_trim_space by blast
  then have "parse_host (a @ b) = Some (u_host u)" using request_authority [OF _ assms(2)] ab(1) by simp
  then obtain a' where "u_host u = a' @ b" using parsed_mail_host [OF ab(2)] by blast
  then show ?thesis using mail_hostname [OF ab(2)] mail_suffix_host [OF ab(2)] by (simp add: url_hostname_def)
qed

definition example_har :: jmap where
  "example_har = [(''log'', JObj [(''entries'', JArr [JObj [(''request'', JObj [
     (''url'', JStr ''https://P7-maildomainws.icloud.com:443/v2/hme/list?dsid=1&clientId=c&clientBuildNumber=b&clientMasteringNumber=m''),
     (''headers'', JArr [JObj [(''name'', JStr ''Cookie''), (''value'',
        JStr ''X-APPLE-DS-WEB-SESSION-TOKEN=a; X-APPLE-WEBAUTH-USER=b; X-APPLE-WEBAUTH-TOKEN=c'')]])])]])])]"

lemma import_stays_at_apple_witness:
  "\<exists>c u. parse_import_text (\<lambda>_. Some example_har) ''x'' [] = Inr c \<and>
     parse_url (''https://'' @ ic_host c @ ''/'' @ ''v2/hme/list'') = Some u \<and> is_mail_domain_host (url_hostname u)"
proof -
  have i: "map_sum id ic_host (parse_import_text (\<lambda>_. Some example_har) ''x'' []) = Inr ''p7-maildomainws.icloud.com''"
    by code_simp
  have "parse_url (''https://'' @ ''p7-maildomainws.icloud.com'' @ ''/'' @ ''v2/hme/list'') \<noteq> None" by code_simp
  then obtain u where u: "parse_url (''https://'' @ ''p7-maildomainws.icloud.com'' @ ''/'' @ ''v2/hme/list'') = Some u"
    by blast
  obtain c where c: "parse_import_text (\<lambda>_. Some example_har) ''x'' [] = Inr c" "ic_host c = ''p7-maildomainws.icloud.com''"
    using i by (cases "parse_import_text (\<lambda>_. Some example_har) ''x'' []") simp_all
  have u': "parse_url (''https://'' @ ic_host c @ ''/'' @ ''v2/hme/list'') = Some u" unfolding c(2) by (rule u)
  show ?thesis using c(1) u' import_stays_at_apple [OF c(1) u'] by blast
qed

section \<open>Reading CSV\<close>

text \<open>
  A reader of RFC 4180, not part of the program: fields separated by commas, records ended by line feeds,
  a field that starts with a quote runs to the next quote that is not doubled.
\<close>

datatype csv_mode = Start | Plain_field | Quoted_field | Closed_field

fun csv_read :: "csv_mode \<Rightarrow> string \<Rightarrow> string list \<Rightarrow> string list list \<Rightarrow> string \<Rightarrow> string list list option" where
  "csv_read mode f row rows [] = (if mode = Start \<and> row = [] then Some rows else None)"
| "csv_read Quoted_field f row rows (c # s) =
     (if c = CHR 0x22 then csv_read Closed_field f row rows s else csv_read Quoted_field (f @ [c]) row rows s)"
| "csv_read mode f row rows (c # s) =
     (if c = CHR '','' then csv_read Start [] (row @ [f]) rows s
      else if c = CHR 0x0A then csv_read Start [] [] (rows @ [row @ [f]]) s
      else if c = CHR 0x22
      then (case mode of Start \<Rightarrow> csv_read Quoted_field f row rows s
            | Closed_field \<Rightarrow> csv_read Quoted_field (f @ [c]) row rows s
            | _ \<Rightarrow> None)
      else (case mode of Closed_field \<Rightarrow> None | _ \<Rightarrow> csv_read Plain_field (f @ [c]) row rows s))"

definition csv_doubled :: "string \<Rightarrow> string" where
  "csv_doubled f = concat (map (\<lambda>c. if c = CHR 0x22 then [CHR 0x22, CHR 0x22] else [c]) f)"

lemma csv_read_quoted:
  "csv_read Quoted_field f row rows (csv_doubled s @ CHR 0x22 # rest) = csv_read Closed_field (f @ s) row rows rest"
  by (induction s arbitrary: f) (simp_all add: csv_doubled_def)

lemma csv_read_plain:
  "\<not> list_ex csv_special s \<Longrightarrow> mode = Start \<or> mode = Plain_field \<Longrightarrow> s \<noteq> [] \<Longrightarrow>
   csv_read mode f row rows (s @ rest) = csv_read Plain_field (f @ s) row rows rest"
proof (induction s arbitrary: f mode)
  case (Cons c s)
  then have c: "c \<noteq> CHR '',''" "c \<noteq> CHR 0x0A" "c \<noteq> CHR 0x22" by (auto simp: csv_special_def)
  then have "csv_read mode f row rows ((c # s) @ rest) = csv_read Plain_field (f @ [c]) row rows (s @ rest)"
    using Cons.prems(2) by auto
  then show ?case using Cons by (cases "s = []") simp_all
qed simp

lemma csv_read_field:
  assumes "sep = CHR '','' \<or> sep = CHR 0x0A"
  shows "csv_read Start [] row rows (csv_field f @ sep # rest) =
    csv_read Start [] (if sep = CHR '','' then row @ [f] else []) (if sep = CHR '','' then rows else rows @ [row @ [f]]) rest"
proof (cases "csv_needs_quotes f")
  case True
  then have "csv_field f @ sep # rest = CHR 0x22 # csv_doubled f @ CHR 0x22 # sep # rest"
    by (simp add: csv_field_def csv_doubled_def)
  then show ?thesis using assms csv_read_quoted [of "[]" row rows f "sep # rest"] by auto
next
  case False
  then have f: "csv_field f = f" by (simp add: csv_field_def)
  show ?thesis
  proof (cases "f = []")
    case True
    then show ?thesis using assms f by auto
  next
    case ne: False
    then have "\<not> list_ex csv_special f" using False by (auto simp: csv_needs_quotes_def)
    then show ?thesis using assms csv_read_plain [of f Start "[]" row rows "sep # rest"] ne f by auto
  qed
qed

lemma csv_read_line:
  "row \<noteq> [] \<Longrightarrow> csv_read Start [] done rows (csv_line row @ rest) = csv_read Start [] [] (rows @ [done @ row]) rest"
proof (induction row arbitrary: "done")
  case (Cons f row)
  show ?case
  proof (cases row)
    case Nil
    then show ?thesis using csv_read_field [of "CHR 0x0A" "done" rows f rest] by (simp add: csv_line_def)
  next
    case (Cons g row')
    then have "csv_line (f # row) @ rest = csv_field f @ CHR '','' # (csv_line row @ rest)" by (simp add: csv_line_def)
    then show ?thesis using csv_read_field [of "CHR '',''" "done" rows f "csv_line row @ rest"] Cons.IH [of "done @ [f]"] Cons
      by simp
  qed
qed simp

lemma csv_read_lines:
  "list_all (\<lambda>r. r \<noteq> []) rs \<Longrightarrow> csv_read Start [] [] rows (concat (map csv_line rs)) = Some (rows @ rs)"
proof (induction rs arbitrary: rows)
  case (Cons r rs)
  then show ?case using csv_read_line [of r "[]" rows "concat (map csv_line rs)"] by simp
qed simp

text \<open>
  C34. The exported file is read back exactly. Whatever labels, notes and addresses Apple returned, with
  commas, quotes or line breaks in them, a reader of RFC 4180 finds the header and one record of twelve
  fields for each address, every field as it was.
\<close>

theorem csv_roundtrip:
  "csv_read Start [] [] [] (aliases_csv aliases) = Some (csv_columns # map alias_row aliases)"
proof -
  have c: "csv_columns \<noteq> []" by (simp add: csv_columns_def)
  then have "list_all (\<lambda>r. r \<noteq> []) (csv_columns # map alias_row aliases)"
    by (simp add: alias_row_def list_all_iff)
  from csv_read_lines [OF this, of "[]"] show ?thesis unfolding aliases_csv_def append_Nil .
qed

end
