(* ===== verification/GoTime.thy ===== *)
theory GoTime
  imports AliasTime
begin

text \<open>
  Calendar dates of instants, as \<open>time.Time\<close> gives them: the proleptic Gregorian calendar, computed in
  cycles of 400 years that start on the first of March.
\<close>

record civil =
  cv_year :: int
  cv_month :: nat
  cv_day :: nat
  cv_hour :: nat
  cv_minute :: nat
  cv_second :: nat

text \<open>Of seconds since the Unix epoch, zone offset included.\<close>

definition civil_of :: "int \<Rightarrow> civil" where
  "civil_of s =
     (let z = s div 86400 + 719468; t = s mod 86400; era = z div 146097; doe = z mod 146097;
          yoe = (doe - doe div 1460 + doe div 36524 - doe div 146096) div 365;
          doy = doe - (365 * yoe + yoe div 4 - yoe div 100);
          mp = (5 * doy + 2) div 153; m = (if mp < 10 then mp + 3 else mp - 9)
      in \<lparr>cv_year = yoe + era * 400 + (if m \<le> 2 then 1 else 0), cv_month = nat m,
          cv_day = nat (doy - (153 * mp + 2) div 5 + 1), cv_hour = nat (t div 3600),
          cv_minute = nat (t div 60 mod 60), cv_second = nat (t mod 60)\<rparr>)"

definition unix_milli :: "gotime \<Rightarrow> int" where
  "unix_milli t = (t - unix_epoch * second) div 1000000"

definition pad4 :: "nat \<Rightarrow> string" where
  "pad4 n = replicate (4 - length (dec n)) (CHR ''0'') @ dec n"

text \<open>The layout \<open>20060102150405\<close> in UTC.\<close>

definition compact_stamp :: "gotime \<Rightarrow> string" where
  "compact_stamp t =
     (let c = civil_of (to_unix t)
      in pad4 (nat (cv_year c)) @ dec02 (cv_month c) @ dec02 (cv_day c) @ dec02 (cv_hour c) @ dec02 (cv_minute c) @
         dec02 (cv_second c))"

lemma civil_examples:
  "civil_of 0 = \<lparr>cv_year = 1970, cv_month = 1, cv_day = 1, cv_hour = 0, cv_minute = 0, cv_second = 0\<rparr>"
  "civil_of 951827696 = \<lparr>cv_year = 2000, cv_month = 2, cv_day = 29, cv_hour = 12, cv_minute = 34, cv_second = 56\<rparr>"
  "civil_of (- 1) = \<lparr>cv_year = 1969, cv_month = 12, cv_day = 31, cv_hour = 23, cv_minute = 59, cv_second = 59\<rparr>"
  by code_simp+

end
