(* ===== verification/AppleSrp.thy ===== *)
theory AppleSrp
  imports Codec GoTime Messages
begin

text \<open>
  The cryptographic part of the Apple login: the SRP client of \<open>modules/mail/backend/apple_srp.go\<close>, the
  hashcash of \<open>apple_auth.go\<close>, and random identifiers (\<open>apple_types.go\<close>).

  Byte slices are strings of bytes, \<open>big.Int\<close> is \<^typ>\<open>int\<close>. The digests \<open>sha256\<close> and \<open>sha1\<close> and the key
  derivation \<open>pbkdf2\<close> are parameters.
\<close>

unbundle bit_operations_syntax

type_synonym hasher = "string \<Rightarrow> string"

section \<open>Big integers\<close>

definition set_bytes :: "string \<Rightarrow> int" where
  "set_bytes s = foldl (\<lambda>n c. 256 * n + of_char c) 0 s"

fun big_bytes :: "nat \<Rightarrow> string" where
  "big_bytes n = (if n = 0 then [] else big_bytes (n div 256) @ [char_of (n mod 256)])"

declare big_bytes.simps [simp del]

text \<open>\<open>Exp(b, e, m)\<close> for a positive modulus, by squaring.\<close>

fun mod_exp :: "int \<Rightarrow> nat \<Rightarrow> int \<Rightarrow> int" where
  "mod_exp b e m =
     (if e = 0 then 1 mod m
      else let h = mod_exp (b * b mod m) (e div 2) m in if odd e then b * h mod m else h)"

declare mod_exp.simps [simp del]

section \<open>The group\<close>

text \<open>The 2048-bit group of RFC 5054.\<close>

definition srp_n :: int where
  "srp_n = 0xAC6BDB41324A9A9BF166DE5E1389582FAF72B6651987EE07FC3192943DB56050A37329CBB4A099ED8193E0757767A13DD52312AB4B03310DCD7F48A9DA04FD50E8083969EDB767B0CF6095179A163AB3661A05FBD5FAAAE82918A9962F0B93B855F97993EC975EEAA80D740ADBF4FF747359D041D5C33EA71D281E446B14773BCA97B43A23FB801676BD207A436C6481F1D2B9078717461A5B9D32E688F87748544523B524B0D57D5EA77A2775D2ECFA032CFBDBF52FB3786160279004E57AE6AF874E7303CE53299CCC041C7BC308D82A5698F3A8D0C38271AE35F8E9DBFBB694B5C803D89F7AE435DE236D525F54759B65E372FCD68EF20FA7111F9E4AFF73"

definition srp_g :: int where
  "srp_g = 2"

definition srp_pad :: "int \<Rightarrow> string" where
  "srp_pad v =
     (let data = big_bytes (nat v)
      in if 256 \<le> length data then data else replicate (256 - length data) (CHR 0x00) @ data)"

definition left_pad :: "nat \<Rightarrow> string \<Rightarrow> string" where
  "left_pad n s = replicate (n - length s) (CHR 0x00) @ s"

definition srp_multiplier :: "hasher \<Rightarrow> int" where
  "srp_multiplier sha256 =
     (let n = big_bytes (nat srp_n); g = left_pad (length n) (big_bytes (nat srp_g)) in set_bytes (sha256 (n @ g)))"

definition srp_x :: "hasher \<Rightarrow> string \<Rightarrow> string \<Rightarrow> int" where
  "srp_x sha256 salt derived = set_bytes (sha256 (salt @ sha256 ('':'' @ derived)))"

definition srp_u :: "hasher \<Rightarrow> int \<Rightarrow> int \<Rightarrow> int" where
  "srp_u sha256 a b = set_bytes (sha256 (srp_pad a @ srp_pad b))"

definition srp_s :: "int \<Rightarrow> int \<Rightarrow> int \<Rightarrow> int \<Rightarrow> int \<Rightarrow> string" where
  "srp_s k x a b u =
     (let gx = mod_exp srp_g (nat x) srp_n; difference = b - k * gx; exponent = a + u * x;
          shared = mod_exp difference (nat exponent) srp_n
      in srp_pad (shared mod srp_n))"

definition xor_bytes :: "string \<Rightarrow> string \<Rightarrow> string" where
  "xor_bytes = map2 (\<lambda>a b. char_of ((of_char a XOR of_char b) :: nat))"

definition srp_m1 :: "hasher \<Rightarrow> string \<Rightarrow> string \<Rightarrow> string \<Rightarrow> string \<Rightarrow> string \<Rightarrow> string" where
  "srp_m1 sha256 username salt a b key =
     sha256 (xor_bytes (sha256 (srp_pad srp_g)) (sha256 (big_bytes (nat srp_n))) @ sha256 username @ salt @ a @ b @ key)"

definition srp_m2 :: "hasher \<Rightarrow> string \<Rightarrow> string \<Rightarrow> string \<Rightarrow> string" where
  "srp_m2 sha256 a m1 key = sha256 (a @ m1 @ key)"

section \<open>The client\<close>

record srp_client =
  sc_a :: int
  sc_public :: int
  sc_k :: int

text \<open>The argument is what \<open>rand.Read\<close> filled in, or its error.\<close>

definition new_srp_client :: "hasher \<Rightarrow> go_error + string \<Rightarrow> go_error + srp_client" where
  "new_srp_client sha256 random =
     (case random of
        Inl e \<Rightarrow> Inl (Wrapped ''srp random: '' e)
      | Inr secret \<Rightarrow>
          (let a = set_bytes secret
           in Inr \<lparr>sc_a = a, sc_public = mod_exp srp_g (nat a) srp_n, sc_k = srp_multiplier sha256\<rparr>))"

text \<open>The two proofs, \<open>M1\<close> and \<open>M2\<close>.\<close>

definition process_challenge ::
  "hasher \<Rightarrow> srp_client \<Rightarrow> string \<Rightarrow> string \<Rightarrow> string \<Rightarrow> string \<Rightarrow> go_error + string \<times> string" where
  "process_challenge sha256 client username derived salt server_b =
     (let server = set_bytes server_b in
      if server \<le> 0 \<or> srp_n \<le> server then Inl (Plain ''srp invalid server B'')
      else
        let x = srp_x sha256 salt derived; u = srp_u sha256 (sc_public client) server in
        if u = 0 then Inl (Plain ''srp invalid u'')
        else
          let key = sha256 (srp_s (sc_k client) x (sc_a client) server u);
              a = srp_pad (sc_public client); b = srp_pad server;
              m1 = srp_m1 sha256 username salt a b key
          in Inr (m1, srp_m2 sha256 a m1 key))"

definition lower_hex :: "nat \<Rightarrow> char" where
  "lower_hex d = (if d < 10 then char_of (48 + d) else char_of (87 + d))"

definition hex_encode :: "string \<Rightarrow> string" where
  "hex_encode s = concat (map (\<lambda>c. [lower_hex (of_char c div 16), lower_hex (of_char c mod 16)]) s)"

text \<open>\<open>quote\<close> is the verb \<open>%q\<close> of \<open>fmt\<close>.\<close>

definition derive_srp_password ::
  "(string \<Rightarrow> string) \<Rightarrow> hasher \<Rightarrow> (string \<Rightarrow> string \<Rightarrow> int \<Rightarrow> nat \<Rightarrow> go_error + string) \<Rightarrow> string \<Rightarrow> string \<Rightarrow> int \<Rightarrow> string \<Rightarrow> go_error + string" where
  "derive_srp_password quote sha256 pbkdf2 password salt iterations protocol =
     (let hashed = sha256 password in
      if protocol = ''s2k'' then pbkdf2 hashed salt iterations 32
      else if protocol = ''s2k_fo'' then pbkdf2 (hex_encode hashed) salt iterations 32
      else Inl (Plain (''unsupported SRP protocol '' @ quote protocol)))"

section \<open>Hashcash\<close>

definition hashcash_max_bits :: int where
  "hashcash_max_bits = 24"

definition hashcash_max_attempts :: nat where
  "hashcash_max_attempts = 2 ^ 24"

fun leading_zero_bits :: "string \<Rightarrow> nat" where
  "leading_zero_bits [] = 0"
| "leading_zero_bits (c # s) =
     (case find (\<lambda>b. bit (of_char c :: nat) b) (rev [0..<8]) of
        Some b \<Rightarrow> 7 - b
      | None \<Rightarrow> 8 + leading_zero_bits s)"

definition base36_digit :: "nat \<Rightarrow> char" where
  "base36_digit d = (if d < 10 then char_of (48 + d) else char_of (87 + d))"

text \<open>\<open>strconv.FormatInt(n, 36)\<close>.\<close>

fun base36 :: "nat \<Rightarrow> string" where
  "base36 n = (if n < 36 then [base36_digit n] else base36 (n div 36) @ [base36_digit (n mod 36)])"

declare base36.simps [simp del]

definition hashcash_prefix :: "int \<Rightarrow> gotime \<Rightarrow> string \<Rightarrow> string" where
  "hashcash_prefix bits now challenge = ''1:'' @ dec_int bits @ '':'' @ compact_stamp now @ '':'' @ challenge @ ''::''"

function hashcash_from :: "hasher \<Rightarrow> int \<Rightarrow> string \<Rightarrow> nat \<Rightarrow> string option" where
  "hashcash_from sha1 bits front counter =
     (if hashcash_max_attempts \<le> counter then None
      else let value = front @ base36 counter in
        if bits \<le> int (leading_zero_bits (sha1 value)) then Some value else hashcash_from sha1 bits front (Suc counter))"
  by pat_completeness auto
termination
  by (relation "measure (\<lambda>(_, _, _, counter). hashcash_max_attempts - counter)") auto

declare hashcash_from.simps [simp del]

definition generate_hashcash :: "hasher \<Rightarrow> int \<Rightarrow> string \<Rightarrow> gotime \<Rightarrow> go_error + string" where
  "generate_hashcash sha1 bits challenge now =
     (let challenge = trim_space challenge in
      if bits \<le> 0 \<or> challenge = [] then Inl (apple_protocol_error ''APPLE_HC_MISSING'' msg_hc_missing True)
      else if hashcash_max_bits < bits then Inl (apple_protocol_error ''APPLE_HC_TOO_HARD'' msg_hc_hard True)
      else
        case hashcash_from sha1 bits (hashcash_prefix bits now challenge) 0 of
          Some value \<Rightarrow> Inr value
        | None \<Rightarrow> Inl (apple_protocol_error ''APPLE_HC_FAILED'' msg_hc_failed True))"

section \<open>Random identifiers\<close>

text \<open>\<open>randomUUID\<close> on sixteen random bytes: version 4, variant 1.\<close>

definition random_uuid :: "string \<Rightarrow> string" where
  "random_uuid bytes =
     (let d = bytes[6 := char_of (((of_char (bytes ! 6) :: nat) AND 0x0F) OR 0x40),
                    8 := char_of (((of_char (bytes ! 8) :: nat) AND 0x3F) OR 0x80)]
      in hex_encode (take 4 d) @ ''-'' @ hex_encode (take 2 (drop 4 d)) @ ''-'' @ hex_encode (take 2 (drop 6 d)) @ ''-'' @
         hex_encode (take 2 (drop 8 d)) @ ''-'' @ hex_encode (take 6 (drop 10 d)))"

end
