(* ===== verification/AppleSrpProps.thy ===== *)
theory AppleSrpProps
  imports AppleSrp
begin

text \<open>
  The SRP client and a server that follows the protocol come to the same proofs; the hashcash is the first
  stamp that meets the challenge.
\<close>

section \<open>Arithmetic\<close>

lemma mod_exp_power: "mod_exp b e m = b ^ e mod m"
proof (induction b e m rule: mod_exp.induct)
  case (1 b e m)
  show ?case
  proof (cases "e = 0")
    case True
    then show ?thesis by (simp add: mod_exp.simps)
  next
    case False
    have h: "mod_exp (b * b mod m) (e div 2) m = (b * b) ^ (e div 2) mod m"
      using 1 [OF False] by (simp add: power_mod)
    have sq: "(b * b) ^ (e div 2) = b ^ (2 * (e div 2))" by (simp add: power_mult power2_eq_square)
    show ?thesis
    proof (cases "odd e")
      case True
      then have e: "b ^ e = b * b ^ (2 * (e div 2))" by (metis odd_two_times_div_two_succ power_Suc Suc_eq_plus1)
      have "mod_exp b e m = b * ((b * b) ^ (e div 2) mod m) mod m"
        using False True h by (subst mod_exp.simps) (simp add: Let_def)
      also have "\<dots> = b ^ e mod m" unfolding sq e by (simp add: mod_mult_right_eq)
      finally show ?thesis .
    next
      case even: False
      then have e: "b ^ e = b ^ (2 * (e div 2))" by simp
      have "mod_exp b e m = (b * b) ^ (e div 2) mod m"
        using False even h by (subst mod_exp.simps) (simp add: Let_def)
      then show ?thesis unfolding sq e .
    qed
  qed
qed

lemma set_bytes_nonneg: "0 \<le> set_bytes s"
proof -
  have "0 \<le> foldl (\<lambda>n c. 256 * n + (of_char c :: int)) k s" if "0 \<le> k" for k
    using that
  proof (induction s arbitrary: k)
    case (Cons a s)
    have "0 \<le> (of_char a :: int)" by (metis of_nat_0_le_iff of_nat_of_char)
    then show ?case using Cons.IH [of "256 * k + of_char a"] Cons.prems by simp
  qed simp
  then show ?thesis by (simp add: set_bytes_def)
qed

lemma srp_n_pos: "0 < srp_n"
  by (simp add: srp_n_def)

section \<open>The server\<close>

text \<open>
  The host side of SRP-6a, not part of the program: \<open>v\<close> is the verifier it stored, \<open>b\<close> its secret.
\<close>

definition srp_verifier :: "hasher \<Rightarrow> string \<Rightarrow> string \<Rightarrow> int" where
  "srp_verifier sha256 salt derived = srp_g ^ nat (srp_x sha256 salt derived) mod srp_n"

definition server_public :: "hasher \<Rightarrow> int \<Rightarrow> nat \<Rightarrow> int" where
  "server_public sha256 v b = (srp_multiplier sha256 * v + srp_g ^ b) mod srp_n"

definition server_proofs :: "hasher \<Rightarrow> string \<Rightarrow> string \<Rightarrow> int \<Rightarrow> nat \<Rightarrow> int \<Rightarrow> string \<times> string" where
  "server_proofs sha256 username salt v b a =
     (let pub = server_public sha256 v b; u = srp_u sha256 a pub;
          key = sha256 (srp_pad ((a * v ^ nat u) ^ b mod srp_n));
          m1 = srp_m1 sha256 username salt (srp_pad a) (srp_pad pub) key
      in (m1, srp_m2 sha256 (srp_pad a) m1 key))"

lemma same_secret:
  fixes g n k :: int
  assumes "v = g ^ x mod n" and "pub = (k * v + g ^ b) mod n" and "a' = g ^ a mod n"
  shows "(pub - k * v) ^ (a + u * x) mod n = (a' * v ^ u) ^ b mod n"
proof -
  have "(pub - k * v) mod n = (k * v + g ^ b - k * v) mod n" unfolding assms(2) by (rule mod_diff_left_eq)
  then have "(pub - k * v) mod n = g ^ b mod n" by simp
  then have "(pub - k * v) ^ (a + u * x) mod n = (g ^ b) ^ (a + u * x) mod n" by (metis power_mod)
  also have "(g ^ b) ^ (a + u * x) = (g ^ a * (g ^ x) ^ u) ^ b"
  proof -
    have "(g ^ b) ^ (a + u * x) = g ^ (b * (a + u * x))" by (simp only: power_mult)
    moreover have "(g ^ a * (g ^ x) ^ u) ^ b = g ^ ((a + x * u) * b)" by (simp only: power_mult power_add)
    ultimately show ?thesis by (simp only: mult.commute)
  qed
  also have "(g ^ a * (g ^ x) ^ u) ^ b mod n = (a' * v ^ u) ^ b mod n"
  proof -
    have "g ^ a * (g ^ x) ^ u mod n = a' * v ^ u mod n"
      unfolding assms(1,3) by (rule mod_mult_cong) (simp_all only: power_mod mod_mod_trivial)
    then show ?thesis by (metis power_mod)
  qed
  finally show ?thesis .
qed

text \<open>
  C35. Client and server agree. When the server's public value is one the protocol allows, made from the
  verifier of the same password with any secret of its own, the client accepts it and computes exactly the
  proofs \<open>M1\<close> and \<open>M2\<close> that the server computes from its side, without ever having sent the password or the
  key derived from it: the reordered exponents, the padding and the reduction modulo the group's prime all
  meet in the same session key.
\<close>

theorem srp_agreement:
  assumes "new_srp_client sha256 (Inr secret) = Inr c"
    and "set_bytes server_b = server_public sha256 (srp_verifier sha256 salt derived) b"
    and "server_public sha256 (srp_verifier sha256 salt derived) b \<noteq> 0"
    and "srp_u sha256 (sc_public c) (server_public sha256 (srp_verifier sha256 salt derived) b) \<noteq> 0"
  shows "process_challenge sha256 c username derived salt server_b =
    Inr (server_proofs sha256 username salt (srp_verifier sha256 salt derived) b (sc_public c))"
proof -
  let ?v = "srp_verifier sha256 salt derived"
  let ?pub = "server_public sha256 ?v b" and ?x = "srp_x sha256 salt derived" and ?k = "srp_multiplier sha256"
  let ?u = "srp_u sha256 (sc_public c) ?pub"
  have c: "sc_k c = ?k" "sc_a c = set_bytes secret" "sc_public c = srp_g ^ nat (set_bytes secret) mod srp_n"
    using assms(1) by (auto simp: new_srp_client_def Let_def mod_exp_power)
  have "0 \<le> ?pub" "?pub < srp_n" using srp_n_pos by (simp_all add: server_public_def)
  then have range: "\<not> (?pub \<le> 0 \<or> srp_n \<le> ?pub)" using assms(3) by linarith
  have x: "0 \<le> ?x" "0 \<le> ?u" by (simp_all add: srp_x_def srp_u_def set_bytes_nonneg)
  have e: "nat (set_bytes secret + ?u * ?x) = nat (set_bytes secret) + nat ?u * nat ?x"
    using x set_bytes_nonneg [of secret] by (simp add: nat_add_distrib nat_mult_distrib)
  have "(?pub - ?k * ?v) ^ (nat (set_bytes secret) + nat ?u * nat ?x) mod srp_n = (sc_public c * ?v ^ nat ?u) ^ b mod srp_n"
    by (rule same_secret [of ?v srp_g "nat ?x" srp_n ?pub ?k b "sc_public c"])
      (simp_all add: srp_verifier_def server_public_def c(3))
  moreover have "mod_exp srp_g (nat ?x) srp_n = ?v" by (simp add: mod_exp_power srp_verifier_def)
  ultimately have "srp_s (sc_k c) ?x (sc_a c) ?pub ?u = srp_pad ((sc_public c * ?v ^ nat ?u) ^ b mod srp_n)"
    by (simp add: srp_s_def Let_def mod_exp_power c(1,2) e)
  then show ?thesis using range assms(4)
    by (simp add: process_challenge_def assms(2) Let_def server_proofs_def del: not_le)
qed

lemma srp_agreement_witness:
  "\<exists>c. new_srp_client (\<lambda>_. [CHR 0x01]) (Inr [CHR 0x01]) = Inr c \<and>
     process_challenge (\<lambda>_. [CHR 0x01]) c ''a@b'' ''key'' ''salt'' [CHR 0x04] =
     Inr (server_proofs (\<lambda>_. [CHR 0x01]) ''a@b'' ''salt'' 2 1 (sc_public c))"
proof -
  let ?h = "\<lambda>_ :: string. [CHR 0x01]"
  obtain c where c: "new_srp_client ?h (Inr [CHR 0x01]) = Inr c" by (simp add: new_srp_client_def Let_def)
  have one: "set_bytes [CHR 0x01] = 1" "set_bytes [CHR 0x04] = 4" by (simp_all add: set_bytes_def)
  have v: "srp_verifier ?h ''salt'' ''key'' = 2" by (simp add: srp_verifier_def srp_x_def one srp_g_def srp_n_def)
  have b: "server_public ?h 2 1 = 4" by (simp add: server_public_def srp_multiplier_def Let_def one srp_g_def srp_n_def)
  have u: "srp_u ?h (sc_public c) 4 = 1" by (simp add: srp_u_def one)
  show ?thesis using srp_agreement [OF c, of "[CHR 0x04]" "''salt''" "''key''" 1 "''a@b''"] c unfolding v b u one by simp
qed

section \<open>Hashcash\<close>

lemma hashcash_from_first:
  "hashcash_from sha1 bits front n = Some v \<Longrightarrow>
   \<exists>m. n \<le> m \<and> m < hashcash_max_attempts \<and> v = front @ base36 m \<and> bits \<le> int (leading_zero_bits (sha1 v)) \<and>
     (\<forall>j. n \<le> j \<and> j < m \<longrightarrow> int (leading_zero_bits (sha1 (front @ base36 j))) < bits)"
proof (induction sha1 bits front n rule: hashcash_from.induct)
  case (1 sha1 bits front n)
  have lt: "\<not> hashcash_max_attempts \<le> n" using "1.prems" by (auto simp: hashcash_from.simps [of _ _ _ n] split: if_splits)
  show ?case
  proof (cases "bits \<le> int (leading_zero_bits (sha1 (front @ base36 n)))")
    case True
    then have "v = front @ base36 n" using "1.prems" lt by (simp add: hashcash_from.simps [of _ _ _ n])
    then show ?thesis using True lt by (intro exI [of _ n]) simp
  next
    case False
    then have "hashcash_from sha1 bits front (Suc n) = Some v"
      using "1.prems" lt by (simp add: hashcash_from.simps [of _ _ _ n])
    then obtain m where m: "Suc n \<le> m" "m < hashcash_max_attempts" "v = front @ base36 m" "bits \<le> int (leading_zero_bits (sha1 v))"
      "\<forall>j. Suc n \<le> j \<and> j < m \<longrightarrow> int (leading_zero_bits (sha1 (front @ base36 j))) < bits"
      using 1(1) [OF lt refl False] by blast
    have "int (leading_zero_bits (sha1 (front @ base36 j))) < bits" if "n \<le> j" "j < m" for j
      using that m(5) False by (cases "j = n") (auto simp: Suc_le_eq)
    then show ?thesis using m by (intro exI [of _ m]) auto
  qed
qed

lemma hashcash_from_none:
  "hashcash_from sha1 bits front n = None \<Longrightarrow> n \<le> j \<Longrightarrow> j < hashcash_max_attempts \<Longrightarrow>
   int (leading_zero_bits (sha1 (front @ base36 j))) < bits"
proof (induction sha1 bits front n rule: hashcash_from.induct)
  case (1 sha1 bits front n)
  then have lt: "\<not> hashcash_max_attempts \<le> n" by simp
  show ?case
  proof (cases "bits \<le> int (leading_zero_bits (sha1 (front @ base36 n)))")
    case True
    then show ?thesis using "1.prems" lt by (simp add: hashcash_from.simps [of _ _ _ n])
  next
    case False
    then have "hashcash_from sha1 bits front (Suc n) = None"
      using "1.prems" lt by (simp add: hashcash_from.simps [of _ _ _ n])
    then show ?thesis using 1(1) [OF lt refl False] "1.prems" False by (cases "j = n") auto
  qed
qed

text \<open>
  C36. The hashcash answers the challenge. For a challenge of 1 to 24 bits the search tries the counters
  below \<open>2 ^ 24\<close> in order: it returns the first stamp whose digest starts with the zero bits asked for, and
  it fails only when none of them has one. The stamp carries the bits, the second and the challenge, so that
  the verifier can check it.
\<close>

theorem hashcash_meets_challenge:
  assumes "0 < bits" and "bits \<le> 24" and "trim_space challenge \<noteq> []"
  shows "case generate_hashcash sha1 bits challenge now of
      Inr v \<Rightarrow> \<exists>n < 2 ^ 24. v = hashcash_prefix bits now (trim_space challenge) @ base36 n \<and>
        bits \<le> int (leading_zero_bits (sha1 v)) \<and>
        (\<forall>j < n. int (leading_zero_bits (sha1 (hashcash_prefix bits now (trim_space challenge) @ base36 j))) < bits)
    | Inl e \<Rightarrow> \<forall>n < 2 ^ 24. int (leading_zero_bits (sha1 (hashcash_prefix bits now (trim_space challenge) @ base36 n))) < bits"
proof -
  let ?f = "hashcash_prefix bits now (trim_space challenge)"
  have g: "generate_hashcash sha1 bits challenge now =
      (case hashcash_from sha1 bits ?f 0 of Some v \<Rightarrow> Inr v
       | None \<Rightarrow> Inl (apple_protocol_error ''APPLE_HC_FAILED'' msg_hc_failed True))"
    using assms by (simp add: generate_hashcash_def hashcash_max_bits_def)
  show ?thesis
  proof (cases "hashcash_from sha1 bits ?f 0")
    case None
    then show ?thesis using hashcash_from_none [OF None] by (simp add: g hashcash_max_attempts_def)
  next
    case (Some v)
    then show ?thesis using hashcash_from_first [OF Some] by (auto simp: g hashcash_max_attempts_def)
  qed
qed

lemma hashcash_meets_challenge_witness:
  "case generate_hashcash (\<lambda>_. replicate 20 (CHR 0x00)) 10 ''x'' 0 of
      Inr v \<Rightarrow> \<exists>n < 2 ^ 24. v = hashcash_prefix 10 0 ''x'' @ base36 n \<and>
        10 \<le> int (leading_zero_bits (replicate 20 (CHR 0x00))) \<and>
        (\<forall>j < n. int (leading_zero_bits (replicate 20 (CHR 0x00))) < 10)
    | Inl e \<Rightarrow> \<forall>n < (2 :: nat) ^ 24. int (leading_zero_bits (replicate 20 (CHR 0x00))) < 10"
proof -
  have t: "trim_space ''x'' = ''x''" by code_simp
  show ?thesis using hashcash_meets_challenge [of 10 "''x''" "\<lambda>_. replicate 20 (CHR 0x00)" 0] unfolding t by simp
qed

end
