(* ===== verification/AppleFingerprint.thy ===== *)
theory AppleFingerprint
  imports GoTime
begin

text \<open>
  The browser fingerprint sent to Apple (\<open>modules/mail/backend/apple_fingerprint.go\<close>): a list of values,
  escaped, with frequent parts replaced by control characters, packed by a fixed Huffman code into six-bit
  characters, followed by a checksum.
\<close>

unbundle bit_operations_syntax

section \<open>The payload\<close>

text \<open>\<open>urlEscapeAppleFingerprint\<close>, of one code point.\<close>

definition escape_rune :: "nat \<Rightarrow> string" where
  "escape_rune r =
     (if (r < 256 \<and> is_alnum (char_of r)) \<or> (r < 128 \<and> char_of r \<in> set ''@*_+-./'') then [char_of r]
      else if r \<le> 255 then [CHR ''%'', hex_digit (r div 16 mod 16), hex_digit (r mod 16)]
      else ''%u'' @ [hex_digit (r div 4096 mod 16), hex_digit (r div 256 mod 16), hex_digit (r div 16 mod 16), hex_digit (r mod 16)])"

text \<open>The values are ASCII, so their code points are their bytes.\<close>

definition escape_fingerprint :: "string \<Rightarrow> string" where
  "escape_fingerprint s = concat (map (\<lambda>c. escape_rune (of_char c)) s)"

definition us_locale_time :: "civil \<Rightarrow> string" where
  "us_locale_time t =
     (let h = cv_hour t mod 12
      in dec (cv_month t) @ ''/'' @ dec (cv_day t) @ ''/'' @ dec_int (cv_year t) @ '', '' @ dec (if h = 0 then 12 else h) @ '':'' @
         dec02 (cv_minute t) @ '':'' @ dec02 (cv_second t) @ '' '' @ (if 12 \<le> cv_hour t then ''PM'' else ''AM''))"

text \<open>The clock is read in the fixed zone eight hours east of Greenwich.\<close>

definition fingerprint_values :: "gotime \<Rightarrow> string list" where
  "fingerprint_values now =
     (let milli = dec_int (unix_milli now)
      in [''TF1'', ''020''] @ replicate 39 [] @
         [''true'', ''true'', milli, ''-6'', ''6/7/2005, 9:33:44 PM'', [], [], [], [], [], [], milli, ''0'',
          us_locale_time (civil_of (to_unix now + 28800))] @ replicate 34 [] @ [''5.6.1-0'', []])"

definition fingerprint_payload :: "gotime \<Rightarrow> string" where
  "fingerprint_payload now = concat (map (\<lambda>v. escape_fingerprint v @ '';'') (fingerprint_values now))"

section \<open>Compression\<close>

definition fingerprint_dictionary :: "string list" where
  "fingerprint_dictionary = [''%20'', '';;;'', ''%3B'', ''%2C'', ''und'', ''fin'', ''ed;'', ''%28'', ''%29'', ''%3A'', ''/53'', ''ike'', ''Web'', ''0;'', ''.0'',
     ''e;'', ''on'', ''il'', ''ck'', ''01'', ''in'', ''Mo'', ''fa'', ''00'', ''32'', ''la'', ''.1'', ''ri'', ''it'', ''%u'', ''le'']"

text \<open>Each token, in turn, becomes the control character of its position, counted from 1.\<close>

definition replace_tokens :: "string \<Rightarrow> string" where
  "replace_tokens raw =
     foldl (\<lambda>s (i, token). replace_all s token [char_of (i + 1)]) raw (enumerate (0 :: nat) fingerprint_dictionary)"

definition fingerprint_alphabet :: string where
  "fingerprint_alphabet = ''.0123456789ABCDEFGHIJKLMNOPQRSTUVWXYZ_abcdefghijklmnopqrstuvwxyz''"

text \<open>Code point, width and value of each code; 0 ends the text.\<close>

definition fingerprint_codes :: "(int \<times> nat \<times> int) list" where
  "fingerprint_codes =
    [(1, 4, 15), (110, 8, 239), (74, 8, 238), (57, 7, 118), (56, 7, 117), (71, 8, 233), (25, 8, 232),
     (101, 5, 28), (104, 7, 111), (4, 7, 110), (105, 6, 54), (5, 7, 107), (109, 7, 106), (103, 9, 423),
     (82, 9, 422), (26, 8, 210), (6, 7, 104), (46, 6, 51), (97, 6, 50), (111, 6, 49), (7, 7, 97), (45, 7, 96),
     (59, 5, 23), (15, 7, 91), (11, 8, 181), (72, 8, 180), (27, 8, 179), (28, 8, 178), (16, 7, 88),
     (88, 10, 703), (113, 11, 1405), (89, 12, 2809), (107, 13, 5617), (90, 14, 11233), (42, 15, 22465),
     (64, 16, 44929), (0, 16, 44928), (81, 9, 350), (29, 8, 174), (118, 8, 173), (30, 8, 172), (98, 8, 171),
     (12, 8, 170), (99, 7, 84), (117, 6, 41), (112, 6, 40), (102, 9, 319), (68, 9, 318), (31, 8, 158),
     (100, 7, 78), (84, 6, 38), (55, 6, 37), (17, 7, 73), (8, 7, 72), (9, 7, 71), (77, 7, 70), (18, 7, 69),
     (65, 7, 68), (48, 6, 33), (116, 6, 32), (10, 7, 63), (121, 8, 125), (78, 8, 124), (80, 7, 61),
     (69, 7, 60), (119, 7, 59), (13, 8, 117), (79, 8, 116), (19, 7, 57), (67, 7, 56), (114, 6, 27),
     (83, 6, 26), (115, 6, 25), (14, 6, 24), (122, 8, 95), (95, 8, 94), (76, 7, 46), (24, 7, 45), (37, 7, 44),
     (50, 5, 10), (51, 5, 9), (108, 6, 17), (22, 7, 33), (120, 8, 65), (66, 8, 64), (21, 7, 31), (106, 7, 30),
     (47, 6, 14), (53, 5, 6), (49, 5, 5), (86, 8, 39), (85, 8, 38), (23, 7, 18), (75, 7, 17), (20, 7, 16),
     (2, 5, 3), (73, 8, 23), (43, 9, 45), (87, 9, 44), (70, 7, 10), (3, 6, 4), (52, 5, 1), (54, 5, 0)]"

text \<open>The bits that are pending, their number, and the characters written.\<close>

record packer =
  pk_buffer :: int
  pk_count :: nat
  pk_out :: string

function pack_flush :: "packer \<Rightarrow> packer" where
  "pack_flush p =
     (if pk_count p < 6 then p
      else let index = drop_bit (pk_count p - 6) (pk_buffer p) AND 63
        in pack_flush \<lparr>pk_buffer = pk_buffer p XOR push_bit (pk_count p - 6) index, pk_count = pk_count p - 6,
                       pk_out = pk_out p @ [fingerprint_alphabet ! nat index]\<rparr>)"
  by pat_completeness auto
termination
  by (relation "measure pk_count") (auto simp: not_less)

declare pack_flush.simps [simp del]

definition pack_push :: "nat \<Rightarrow> int \<Rightarrow> packer \<Rightarrow> packer" where
  "pack_push width code p =
     pack_flush (p\<lparr>pk_buffer := push_bit width (pk_buffer p) OR code, pk_count := pk_count p + width\<rparr>)"

fun pack_text :: "string \<Rightarrow> packer \<Rightarrow> packer option" where
  "pack_text [] p = Some p"
| "pack_text (c # s) p =
     (case map_of fingerprint_codes (of_char c) of
        None \<Rightarrow> None
      | Some (width, code) \<Rightarrow> pack_text s (pack_push width code p))"

definition fingerprint_huffman :: "string \<Rightarrow> string option" where
  "fingerprint_huffman value =
     (let p0 = \<lparr>pk_buffer = 0, pk_count = 0, pk_out = []\<rparr>;
          p1 = pack_push 6 (push_bit 3 (int (length value) AND 7)) p0;
          p2 = pack_push 6 ((int (length value) AND 56) OR 1) p1 in
      case pack_text value p2 of
        None \<Rightarrow> None
      | Some p3 \<Rightarrow>
          (let p4 = (case map_of fingerprint_codes 0 of None \<Rightarrow> p3 | Some (width, code) \<Rightarrow> pack_push width code p3);
               p5 = (if 0 < pk_count p4 then pack_push (6 - pk_count p4) 0 p4 else p4)
           in Some (pk_out p5)))"

section \<open>The checksum\<close>

definition checksum_step :: "int \<Rightarrow> char \<Rightarrow> int" where
  "checksum_step c v =
     (let c = (drop_bit 8 c OR push_bit 8 c) AND 0xFFFF;
          c = c XOR (of_char v AND 0xFF);
          c = c XOR drop_bit 4 (c AND 0xFF);
          c = c XOR (push_bit 12 c AND 0xFFFF)
      in c XOR (push_bit 5 (c AND 0xFF) AND 0xFFFF))"

definition checksum :: "string \<Rightarrow> int" where
  "checksum s = foldl checksum_step 65535 s"

definition checksum_text :: "int \<Rightarrow> string" where
  "checksum_text c =
     map (\<lambda>n. fingerprint_alphabet ! nat (drop_bit n c AND 63)) [12, 6, 0]"

definition compressed_fingerprint :: "gotime \<Rightarrow> string" where
  "compressed_fingerprint now =
     (let raw = fingerprint_payload now in
      case fingerprint_huffman (replace_tokens raw) of
        None \<Rightarrow> raw
      | Some encoded \<Rightarrow> encoded @ checksum_text (checksum raw))"

definition apple_account_user_agent :: string where
  "apple_account_user_agent = ''Mozilla/5.0 (Macintosh; Intel Mac OS X 10_15_7) AppleWebKit/537.36 (KHTML, like Gecko) Chrome/149.0.0.0 Safari/537.36''"

text \<open>The fields of \<open>appleFDClientInfo\<close> in the order of their keys, which is the order \<open>json.Marshal\<close> prints them in.\<close>

definition fd_client_info :: "string \<Rightarrow> gotime \<Rightarrow> (string \<times> string) list" where
  "fd_client_info agent now =
     [(''F'', compressed_fingerprint now), (''L'', ''zh-CN''), (''U'', first_nonempty [agent, apple_account_user_agent]), (''V'', ''1.1''), (''Z'', ''GMT+08:00'')]"

end
