(* ===== verification/AppleFingerprintProps.thy ===== *)
theory AppleFingerprintProps
  imports AppleFingerprint Codec GoUrlProps
begin

text \<open>
  The fingerprint as its receiver reads it: a decoder for the code, the tokens and the checksum gives back
  the payload.
\<close>

unbundle bit_operations_syntax

section \<open>The checksum is CRC-16\<close>

text \<open>The usual definition, bit by bit, with the polynomial \<open>x^16 + x^12 + x^5 + 1\<close>.\<close>

definition crc_bit :: "int \<Rightarrow> int" where
  "crc_bit c = (push_bit 1 c AND 0xFFFF) XOR (if bit c 15 then 0x1021 else 0)"

definition crc_byte :: "int \<Rightarrow> char \<Rightarrow> int" where
  "crc_byte c v = (crc_bit ^^ 8) (c XOR push_bit 8 (of_char v))"

definition crc16 :: "string \<Rightarrow> int" where
  "crc16 s = foldl crc_byte 0xFFFF s"

definition xor_linear :: "(int \<Rightarrow> int) \<Rightarrow> bool" where
  "xor_linear f \<longleftrightarrow> (\<forall>x y. f (x XOR y) = f x XOR f y)"

lemma linear_intros:
  "xor_linear (\<lambda>x. x)" "xor_linear (\<lambda>x. x AND m)" "xor_linear (push_bit n)" "xor_linear (drop_bit n)"
  by (simp_all add: xor_linear_def push_bit_xor drop_bit_xor bit.conj_xor_distrib2)

lemma linear_xor: "xor_linear f \<Longrightarrow> xor_linear g \<Longrightarrow> xor_linear (\<lambda>x. f x XOR g x)"
  by (simp add: xor_linear_def ac_simps)

lemma linear_comp: "xor_linear f \<Longrightarrow> xor_linear g \<Longrightarrow> xor_linear (\<lambda>x. f (g x))"
  by (simp add: xor_linear_def)

lemma linear_zero: "xor_linear f \<Longrightarrow> f 0 = 0"
  by (metis xor_linear_def xor_self_eq)

lemma linear_power: "xor_linear f \<Longrightarrow> xor_linear (f ^^ n)"
  by (induction n) (auto simp: xor_linear_def)

text \<open>Two linear functions that agree on the single bits agree.\<close>

lemma linear_determined:
  assumes "xor_linear f" and "xor_linear g" and "\<forall>i < n. f (push_bit i 1) = g (push_bit i 1)"
  shows "\<forall>i \<ge> n. \<not> bit w i \<Longrightarrow> f w = g w"
  using assms(3)
proof (induction n arbitrary: w)
  case 0
  then have "w = 0" by (simp add: bit_eq_iff)
  then show ?case using linear_zero [OF assms(1)] linear_zero [OF assms(2)] by simp
next
  case (Suc n)
  show ?case
  proof (cases "bit w n")
    case False
    then have "\<forall>i \<ge> n. \<not> bit w i" using Suc.prems(1) by (metis Suc_leI le_neq_implies_less)
    then show ?thesis using Suc by simp
  next
    case True
    let ?e = "push_bit n 1 :: int"
    have "\<not> bit (w XOR ?e) i" if "n \<le> i" for i
      using that Suc.prems(1) True by (cases "i = n") (auto simp: bit_simps)
    then have "f (w XOR ?e) = g (w XOR ?e)" using Suc by simp
    moreover have "f ?e = g ?e" using Suc.prems(2) by simp
    moreover have w: "w = (w XOR ?e) XOR ?e" by (simp add: xor.assoc)
    ultimately show ?thesis using assms(1,2) unfolding xor_linear_def by metis
  qed
qed

text \<open>The step of the code as a linear function of the state and the byte.\<close>

definition swap_bytes :: "int \<Rightarrow> int" where
  "swap_bytes c = (drop_bit 8 c XOR push_bit 8 c) AND 0xFFFF"

definition fold_state :: "int \<Rightarrow> int" where
  "fold_state d =
     (let c = swap_bytes d; c = c XOR drop_bit 4 (c AND 0xFF); c = c XOR (push_bit 12 c AND 0xFFFF)
      in c XOR (push_bit 5 (c AND 0xFF) AND 0xFFFF))"

lemma crc_bit_linear: "xor_linear crc_bit"
  by (simp add: xor_linear_def crc_bit_def push_bit_xor bit_xor_iff bit.conj_xor_distrib2 ac_simps)

lemma fold_state_linear: "xor_linear fold_state"
proof -
  have s: "xor_linear swap_bytes" unfolding swap_bytes_def
    by (rule linear_comp [OF linear_intros(2) linear_xor [OF linear_intros(4) linear_intros(3)]])
  have a: "xor_linear (\<lambda>c. c XOR drop_bit 4 (c AND 0xFF))"
    by (rule linear_xor [OF linear_intros(1) linear_comp [OF linear_intros(4) linear_intros(2)]])
  have b: "xor_linear (\<lambda>c. c XOR (push_bit 12 c AND 0xFFFF))"
    by (rule linear_xor [OF linear_intros(1) linear_comp [OF linear_intros(2) linear_intros(3)]])
  have c: "xor_linear (\<lambda>c. c XOR (push_bit 5 (c AND 0xFF) AND 0xFFFF))"
    by (rule linear_xor [OF linear_intros(1) linear_comp [OF linear_intros(2) linear_comp [OF linear_intros(3) linear_intros(2)]]])
  show ?thesis unfolding fold_state_def Let_def
    by (rule linear_comp [OF c linear_comp [OF b linear_comp [OF a s]]])
qed

lemma fold_state_crc: "\<forall>i \<ge> 16. \<not> bit d i \<Longrightarrow> fold_state d = (crc_bit ^^ 8) d"
proof (rule linear_determined [OF fold_state_linear linear_power [OF crc_bit_linear]])
  have "list_all (\<lambda>i. fold_state (push_bit i 1) = (crc_bit ^^ 8) (push_bit i 1)) [0..<16]" by code_simp
  then show "\<forall>i < 16. fold_state (push_bit i 1) = (crc_bit ^^ 8) (push_bit i 1)" by (simp add: list_all_iff)
qed

lemma mask_bits: "bit (0xFFFF :: int) i \<longleftrightarrow> i < 16" "bit (0xFF :: int) i \<longleftrightarrow> i < 8"
proof -
  have m: "(0xFFFF :: int) = mask 16" "(0xFF :: int) = mask 8" by (simp_all add: mask_eq_exp_minus_1)
  show "bit (0xFFFF :: int) i \<longleftrightarrow> i < 16" "bit (0xFF :: int) i \<longleftrightarrow> i < 8"
    unfolding m by (simp_all only: bit_mask_iff possible_bit_int simp_thms)
qed

lemma char_bits: "8 \<le> i \<Longrightarrow> \<not> bit (of_char c :: int) i"
proof -
  assume "8 \<le> i"
  moreover have "(of_char c :: int) = take_bit 8 (of_char c)" by (simp add: take_bit_eq_mod of_char_mod_256)
  ultimately show ?thesis by (metis bit_take_bit_iff not_le)
qed

lemma checksum_step_fold:
  assumes "\<forall>i \<ge> 16. \<not> bit c i"
  shows "checksum_step c v = fold_state (c XOR push_bit 8 (of_char v))"
proof -
  have "((drop_bit 8 c OR push_bit 8 c) AND 0xFFFF) XOR (of_char v AND 0xFF) = swap_bytes (c XOR push_bit 8 (of_char v))"
  proof (rule bit_eqI)
    fix i
    show "bit (((drop_bit 8 c OR push_bit 8 c) AND 0xFFFF) XOR (of_char v AND 0xFF)) i =
        bit (swap_bytes (c XOR push_bit 8 (of_char v))) i"
      using assms char_bits [of i v] char_bits [of "i - 8" v] char_bits [of "i - 16" v]
      by (cases "i < 8"; cases "i < 16") (auto simp: swap_bytes_def bit_simps mask_bits)
  qed
  then show ?thesis unfolding checksum_step_def fold_state_def Let_def by (simp only:)
qed

lemma crc_byte_bits:
  assumes "16 \<le> i"
  shows "\<not> bit (crc_byte c v) i"
proof -
  have e: "0x1021 AND 0xFFFF = (0x1021 :: int)" by simp
  have "\<not> bit (0x1021 AND 0xFFFF :: int) i" unfolding bit_and_iff mask_bits using assms by simp
  then have "\<not> bit (0x1021 :: int) i" unfolding e .
  then have "\<not> bit (crc_bit x) i" for x
    using assms by (simp only: crc_bit_def bit_xor_iff bit_and_iff mask_bits split: if_split) simp
  then show ?thesis by (simp add: crc_byte_def numeral_eq_Suc)
qed

lemma checksum_crc: "checksum s = crc16 s"
proof -
  have step: "checksum_step c v = crc_byte c v" if "\<forall>i \<ge> 16. \<not> bit c i" for c v
  proof -
    have "\<forall>i \<ge> 16. \<not> bit (c XOR push_bit 8 (of_char v)) i"
      using that char_bits [of "i - 8" v for i] by (auto simp: bit_simps)
    then show ?thesis using checksum_step_fold [OF that] by (simp add: fold_state_crc crc_byte_def)
  qed
  have "foldl checksum_step c s = foldl crc_byte c s" if "\<forall>i \<ge> 16. \<not> bit c i" for c
    using that
  proof (induction s arbitrary: c)
    case (Cons v s)
    have "\<forall>i \<ge> 16. \<not> bit (crc_byte c v) i" using crc_byte_bits by blast
    then show ?case using Cons step [OF Cons.prems] by simp
  qed simp
  moreover have "\<forall>i \<ge> 16. \<not> bit (65535 :: int) i" unfolding mask_bits(1) by simp
  ultimately show ?thesis by (simp add: checksum_def crc16_def)
qed

section \<open>Reading the code\<close>

definition bits_msb :: "nat \<Rightarrow> int \<Rightarrow> bool list" where
  "bits_msb n v = map (bit v) (rev [0..<n])"

datatype tree = Leaf int | Node tree tree

text \<open>The tree of the code, first branch for 0.\<close>

definition code_tree :: tree where
  "code_tree =
     Node (Node (Node (Node (Node (Leaf 54) (Leaf 52)) (Node (Node (Leaf 3) (Node (Leaf 70) (Node (Node (Leaf
     87) (Leaf 43)) (Leaf 73)))) (Leaf 2))) (Node (Node (Node (Node (Leaf 20) (Leaf 75)) (Node (Leaf 23) (Node
     (Leaf 85) (Leaf 86)))) (Leaf 49)) (Node (Leaf 53) (Node (Leaf 47) (Node (Leaf 106) (Leaf 21)))))) (Node
     (Node (Node (Node (Node (Node (Leaf 66) (Leaf 120)) (Leaf 22)) (Leaf 108)) (Leaf 51)) (Node (Leaf 50)
     (Node (Node (Leaf 37) (Leaf 24)) (Node (Leaf 76) (Node (Leaf 95) (Leaf 122)))))) (Node (Node (Node (Leaf
     14) (Leaf 115)) (Node (Leaf 83) (Leaf 114))) (Node (Node (Node (Leaf 67) (Leaf 19)) (Node (Node (Leaf 79)
     (Leaf 13)) (Leaf 119))) (Node (Node (Leaf 69) (Leaf 80)) (Node (Node (Leaf 78) (Leaf 121)) (Leaf 10)))))))
     (Node (Node (Node (Node (Node (Leaf 116) (Leaf 48)) (Node (Node (Leaf 65) (Leaf 18)) (Node (Leaf 77) (Leaf
     9)))) (Node (Node (Node (Leaf 8) (Leaf 17)) (Leaf 55)) (Node (Leaf 84) (Node (Leaf 100) (Node (Leaf 31)
     (Node (Leaf 68) (Leaf 102))))))) (Node (Node (Node (Leaf 112) (Leaf 117)) (Node (Node (Leaf 99) (Node
     (Leaf 12) (Leaf 98))) (Node (Node (Leaf 30) (Leaf 118)) (Node (Leaf 29) (Node (Leaf 81) (Node (Node (Node
     (Node (Node (Node (Node (Leaf 0) (Leaf 64)) (Leaf 42)) (Leaf 90)) (Leaf 107)) (Leaf 89)) (Leaf 113)) (Leaf
     88))))))) (Node (Node (Node (Leaf 16) (Node (Leaf 28) (Leaf 27))) (Node (Node (Leaf 72) (Leaf 11)) (Leaf
     15))) (Leaf 59)))) (Node (Node (Node (Node (Node (Leaf 45) (Leaf 7)) (Leaf 111)) (Node (Leaf 97) (Leaf
     46))) (Node (Node (Node (Leaf 6) (Node (Leaf 26) (Node (Leaf 82) (Leaf 103)))) (Node (Leaf 109) (Leaf 5)))
     (Node (Leaf 105) (Node (Leaf 4) (Leaf 104))))) (Node (Node (Leaf 101) (Node (Node (Node (Leaf 25) (Leaf
     71)) (Leaf 56)) (Node (Leaf 57) (Node (Leaf 74) (Leaf 110))))) (Leaf 1))))"

fun walk :: "tree \<Rightarrow> bool list \<Rightarrow> (int \<times> bool list) option" where
  "walk (Leaf s) bs = Some (s, bs)"
| "walk (Node l r) (b # bs) = walk (if b then r else l) bs"
| "walk (Node l r) [] = None"

definition code_bits :: "int \<Rightarrow> bool list" where
  "code_bits s = (case map_of fingerprint_codes s of None \<Rightarrow> [] | Some (w, v) \<Rightarrow> bits_msb w v)"

lemma codes_in_tree: "list_all (\<lambda>(s, w, v). walk code_tree (bits_msb w v) = Some (s, []) \<and> 0 \<le> v \<and> drop_bit w v = 0 \<and> 0 < w) fingerprint_codes"
  by code_simp

lemma walk_append: "walk t bs = Some (s, r) \<Longrightarrow> walk t (bs @ rest) = Some (s, r @ rest)"
  by (induction t bs rule: walk.induct) auto

lemma walk_shorter: "walk (Node l r) bs = Some (s, rest) \<Longrightarrow> length rest < length bs"
proof -
  have "walk t cs = Some (s, rest) \<Longrightarrow> length rest \<le> length cs" for t cs
    by (induction t cs rule: walk.induct) (auto split: if_splits)
  then show "walk (Node l r) bs = Some (s, rest) \<Longrightarrow> length rest < length bs"
    by (cases bs) (auto simp: less_Suc_eq_le split: if_splits)
qed

text \<open>Symbols up to the end mark; what follows it only fills the last character.\<close>

function decode_bits :: "bool list \<Rightarrow> int list option" where
  "decode_bits bs =
     (case walk code_tree bs of
        None \<Rightarrow> None
      | Some (s, rest) \<Rightarrow>
          (if s = 0 then (if length rest < 6 \<and> list_all Not rest then Some [] else None)
           else map_option (Cons s) (decode_bits rest)))"
  by pat_completeness auto
termination
proof (relation "measure length", goal_cases)
  case (2 bs p s rest)
  moreover obtain l r where "code_tree = Node l r" by (simp add: code_tree_def)
  ultimately show ?case using walk_shorter [of l r bs s rest] by simp
qed simp

declare decode_bits.simps [simp del]

definition code_of :: "int \<Rightarrow> bool" where
  "code_of s \<longleftrightarrow> s \<in> set (map fst fingerprint_codes)"

lemma code_walk:
  assumes "code_of s"
  shows "walk code_tree (code_bits s @ rest) = Some (s, rest)"
proof -
  obtain w v where wv: "map_of fingerprint_codes s = Some (w, v)"
    using assms unfolding code_of_def by (metis (no_types, opaque_lifting) map_of_eq_None_iff not_None_eq set_map surj_pair)
  then have "(s, w, v) \<in> set fingerprint_codes" by (rule map_of_SomeD)
  then have "walk code_tree (bits_msb w v) = Some (s, [])" using codes_in_tree by (auto simp: list_all_iff)
  then show ?thesis using walk_append wv by (fastforce simp: code_bits_def)
qed

lemma decode_codes:
  assumes "list_all (\<lambda>s. code_of s \<and> s \<noteq> 0) ss" and "code_of 0" and "length pad < 6" and "list_all Not pad"
  shows "decode_bits (concat (map code_bits ss) @ code_bits 0 @ pad) = Some ss"
  using assms(1)
proof (induction ss)
  case Nil
  show ?case using code_walk [OF assms(2), of pad] assms(3,4) by (simp add: decode_bits.simps)
next
  case (Cons s ss)
  then show ?case using code_walk [of s "concat (map code_bits ss) @ code_bits 0 @ pad"] by (simp add: decode_bits.simps [of "code_bits s @ _"])
qed

section \<open>Packing\<close>

lemma length_bits_msb [simp]: "length (bits_msb n v) = n"
  by (simp add: bits_msb_def)

lemma bits_msb_push:
  assumes "drop_bit w c = 0" and "0 \<le> c"
  shows "bits_msb (n + w) (push_bit w b OR c) = bits_msb n b @ bits_msb w c"
proof -
  have c: "\<not> bit c i" if "w \<le> i" for i
    using assms(1) that by (metis bit_0_eq bit_drop_bit_eq bot_apply bot_bool_def comp_apply le_add_diff_inverse)
  have "map (bit (push_bit w b OR c)) [0..<n + w] = map (bit c) [0..<w] @ map (bit b) [0..<n]"
    by (rule nth_equalityI) (auto simp: nth_append bit_simps c)
  from arg_cong [OF this, of rev] show ?thesis by (simp add: bits_msb_def rev_map)
qed

lemma bits_msb_flush:
  fixes b :: int and n :: nat
  defines "d \<equiv> drop_bit n b AND 63"
  shows "bits_msb 6 d @ bits_msb n (b XOR push_bit n d) = bits_msb (n + 6) b" "0 \<le> d" "d < 64"
proof -
  have m: "bit (63 :: int) i \<longleftrightarrow> i < 6" for i
  proof -
    have e: "(63 :: int) = mask 6" by (simp add: mask_eq_exp_minus_1)
    show ?thesis unfolding e by (simp only: bit_mask_iff possible_bit_int simp_thms)
  qed
  have "map (bit (b XOR push_bit n d)) [0..<n] @ map (bit d) [0..<6] = map (bit b) [0..<n + 6]"
    by (rule nth_equalityI) (auto simp: nth_append d_def bit_simps m)
  from arg_cong [OF this, of rev] show "bits_msb 6 d @ bits_msb n (b XOR push_bit n d) = bits_msb (n + 6) b"
    by (simp add: bits_msb_def rev_map)
  have "d = take_bit 6 (drop_bit n b)" by (rule bit_eqI) (auto simp: d_def bit_simps m)
  then show "0 \<le> d" "d < 64" using take_bit_int_less_exp [of 6 "drop_bit n b"] by simp_all
qed

text \<open>The bits a packer holds: those of the characters written, then the pending ones.\<close>

definition holds :: "packer \<Rightarrow> bool list \<Rightarrow> bool" where
  "holds p bs \<longleftrightarrow> (\<exists>ds. pk_out p = map (\<lambda>d. fingerprint_alphabet ! nat d) ds \<and> (\<forall>d\<in>set ds. 0 \<le> d \<and> d < 64) \<and>
     concat (map (bits_msb 6) ds) @ bits_msb (pk_count p) (pk_buffer p) = bs)"

lemma holds_flush: "holds p bs \<Longrightarrow> holds (pack_flush p) bs \<and> pk_count (pack_flush p) < 6"
proof (induction p rule: pack_flush.induct)
  case (1 p)
  show ?case
  proof (cases "pk_count p < 6")
    case True
    then show ?thesis using 1 by (simp add: pack_flush.simps)
  next
    case False
    let ?n = "pk_count p - 6" and ?d = "drop_bit (pk_count p - 6) (pk_buffer p) AND 63"
    let ?q = "\<lparr>pk_buffer = pk_buffer p XOR push_bit ?n ?d, pk_count = ?n, pk_out = pk_out p @ [fingerprint_alphabet ! nat ?d]\<rparr>"
    obtain ds where ds: "pk_out p = map (\<lambda>d. fingerprint_alphabet ! nat d) ds" "\<forall>d\<in>set ds. 0 \<le> d \<and> d < 64"
      "concat (map (bits_msb 6) ds) @ bits_msb (pk_count p) (pk_buffer p) = bs"
      using 1(2) by (auto simp: holds_def)
    have "bits_msb (pk_count p) (pk_buffer p) = bits_msb 6 ?d @ bits_msb ?n (pk_buffer p XOR push_bit ?n ?d)"
      using bits_msb_flush(1) [of ?n "pk_buffer p"] False by simp
    then have "holds ?q bs"
      unfolding holds_def using ds bits_msb_flush(2,3) [of ?n "pk_buffer p"] by (intro exI [of _ "ds @ [?d]"]) simp
    then show ?thesis using 1(1) [OF False refl] False by (subst (1 2) pack_flush.simps) (simp add: Let_def)
  qed
qed

lemma holds_push:
  assumes "holds p bs" and "drop_bit w c = 0" and "0 \<le> c"
  shows "holds (pack_push w c p) (bs @ bits_msb w c)" "pk_count (pack_push w c p) < 6"
proof -
  have "holds (p\<lparr>pk_buffer := push_bit w (pk_buffer p) OR c, pk_count := pk_count p + w\<rparr>) (bs @ bits_msb w c)"
    using assms bits_msb_push [OF assms(2,3), of "pk_count p" "pk_buffer p"] by (auto simp: holds_def)
  from holds_flush [OF this] show "holds (pack_push w c p) (bs @ bits_msb w c)" "pk_count (pack_push w c p) < 6"
    by (simp_all add: pack_push_def)
qed

lemma code_entry:
  assumes "map_of fingerprint_codes s = Some (w, v)"
  shows "drop_bit w v = 0" "0 \<le> v" "code_bits s = bits_msb w v" "code_of s"
  using assms codes_in_tree map_of_SomeD [OF assms]
  by (auto simp: code_bits_def list_all_iff code_of_def rev_image_eqI)

lemma holds_text:
  assumes "holds p bs" and "list_all (\<lambda>c. code_of (of_char c)) s"
  shows "\<exists>q. pack_text s p = Some q \<and> holds q (bs @ concat (map (\<lambda>c. code_bits (of_char c)) s))"
  using assms
proof (induction s arbitrary: p bs)
  case (Cons c s)
  obtain w v where wv: "map_of fingerprint_codes (of_char c) = Some (w, v)"
    using Cons.prems(2) unfolding code_of_def list.pred_inject
    by (metis (no_types, opaque_lifting) map_of_eq_None_iff not_None_eq set_map surj_pair)
  have "holds (pack_push w v p) (bs @ code_bits (of_char c))"
    using holds_push(1) [OF Cons.prems(1) code_entry(1,2) [OF wv]] code_entry(3) [OF wv] by simp
  then show ?case using Cons.IH [of "pack_push w v p"] Cons.prems(2) wv by fastforce
qed simp

lemma small_masks: "bit (7 :: int) i \<longleftrightarrow> i < 3" "bit (56 :: int) i \<Longrightarrow> i < 6"
proof -
  have e: "(7 :: int) = mask 3" by (simp add: mask_eq_exp_minus_1)
  show "bit (7 :: int) i \<longleftrightarrow> i < 3" unfolding e by (simp only: bit_mask_iff possible_bit_int simp_thms)
  have f: "(56 :: int) AND mask 6 = 56" by (simp add: mask_eq_exp_minus_1)
  have "bit ((56 :: int) AND mask 6) i \<Longrightarrow> i < 6" unfolding bit_and_iff bit_mask_iff by simp
  then show "bit (56 :: int) i \<Longrightarrow> i < 6" unfolding f .
qed

definition header_bits :: "nat \<Rightarrow> bool list" where
  "header_bits n = bits_msb 6 (push_bit 3 (int n AND 7)) @ bits_msb 6 ((int n AND 56) OR 1)"

lemma header_range:
  "drop_bit 6 (push_bit 3 (int n AND 7)) = 0" "drop_bit 6 ((int n AND 56) OR 1) = 0"
proof -
  show "drop_bit 6 (push_bit 3 (int n AND 7)) = 0" by (rule bit_eqI) (auto simp: bit_simps small_masks(1))
  show "drop_bit 6 ((int n AND 56) OR 1) = 0" by (rule bit_eqI) (auto simp: bit_simps dest: small_masks(2))
qed

lemma huffman_bits:
  assumes "list_all (\<lambda>c. code_of (of_char c)) s"
  obtains ds pad where "fingerprint_huffman s = Some (map (\<lambda>d. fingerprint_alphabet ! d) ds)" "\<forall>d\<in>set ds. d < 64"
    "concat (map (\<lambda>d. bits_msb 6 (int d)) ds) =
     header_bits (length s) @ concat (map (\<lambda>c. code_bits (of_char c)) s) @ code_bits 0 @ pad"
    "length pad < 6" "list_all Not pad"
proof -
  define p0 where "p0 = \<lparr>pk_buffer = 0, pk_count = 0, pk_out = []\<rparr>"
  define p1 where "p1 = pack_push 6 (push_bit 3 (int (length s) AND 7)) p0"
  define p2 where "p2 = pack_push 6 ((int (length s) AND 56) OR 1) p1"
  have "holds p0 []" by (simp add: p0_def holds_def bits_msb_def)
  then have "holds p1 ([] @ bits_msb 6 (push_bit 3 (int (length s) AND 7)))"
    unfolding p1_def by (rule holds_push(1) [OF _ header_range(1)]) simp
  then have "holds p2 (([] @ bits_msb 6 (push_bit 3 (int (length s) AND 7))) @ bits_msb 6 ((int (length s) AND 56) OR 1))"
    unfolding p2_def by (rule holds_push(1) [OF _ header_range(2)]) (simp add: or_nonnegative_int_iff)
  then have h2: "holds p2 (header_bits (length s))" by (simp add: header_bits_def)
  obtain p3 where p3: "pack_text s p2 = Some p3" "holds p3 (header_bits (length s) @ concat (map (\<lambda>c. code_bits (of_char c)) s))"
    using holds_text [OF h2 assms] by blast
  have z: "map_of fingerprint_codes 0 = Some (16, 44928)" by (simp add: fingerprint_codes_def)
  define p4 where "p4 = pack_push 16 44928 p3"
  have p4: "holds p4 (header_bits (length s) @ concat (map (\<lambda>c. code_bits (of_char c)) s) @ code_bits 0)" "pk_count p4 < 6"
    using holds_push [OF p3(2) code_entry(1,2) [OF z]] code_entry(3) [OF z] by (simp_all add: p4_def)
  define p5 where "p5 = (if 0 < pk_count p4 then pack_push (6 - pk_count p4) 0 p4 else p4)"
  define pad where "pad = (if 0 < pk_count p4 then bits_msb (6 - pk_count p4) 0 else [])"
  have p5: "holds p5 ((header_bits (length s) @ concat (map (\<lambda>c. code_bits (of_char c)) s) @ code_bits 0) @ pad)"
    using holds_push(1) [OF p4(1), of "6 - pk_count p4" 0] p4 by (simp add: p5_def pad_def)
  have empty: "pk_count p5 = 0"
  proof (cases "0 < pk_count p4")
    case True
    then have "pk_count p5 = 0" using p4(2) unfolding p5_def pack_push_def
      by (simp add: pack_flush.simps Let_def)
    then show ?thesis .
  qed (simp add: p5_def)
  obtain ds where ds: "pk_out p5 = map (\<lambda>d. fingerprint_alphabet ! nat d) ds" "\<forall>d\<in>set ds. 0 \<le> d \<and> d < 64"
    "concat (map (bits_msb 6) ds) = (header_bits (length s) @ concat (map (\<lambda>c. code_bits (of_char c)) s) @ code_bits 0) @ pad"
    using p5 empty by (auto simp: holds_def bits_msb_def)
  have "fingerprint_huffman s = Some (pk_out p5)"
    unfolding fingerprint_huffman_def Let_def p0_def [symmetric]
    unfolding p1_def [symmetric] unfolding p2_def [symmetric] p3(1) option.case z prod.case
    unfolding p4_def [symmetric] unfolding p5_def [symmetric] ..
  then have out: "fingerprint_huffman s = Some (map (\<lambda>d. fingerprint_alphabet ! d) (map nat ds))" using ds(1) by simp
  have eq: "map (\<lambda>d. bits_msb 6 (int d)) (map nat ds) = map (bits_msb 6) ds" using ds(2) by simp
  have range: "\<forall>d\<in>set (map nat ds). d < 64" using ds(2) by auto
  have pad: "length pad < 6" "list_all Not pad" by (auto simp: pad_def bits_msb_def list_all_iff)
  show thesis by (rule that [OF out range _ pad]) (simp only: eq ds(3) append_assoc)
qed

section \<open>Tokens\<close>

lemma set_replace_all: "set (replace_all s old new) \<subseteq> set s \<union> set new"
proof (induction s old new rule: replace_all.induct)
  case (2 c s old new)
  then show ?case using set_drop_subset [of "length old" "c # s"] by (auto simp del: drop.simps)
qed simp

lemma replace_back:
  assumes "c \<notin> set s" and "t \<noteq> []"
  shows "replace_all (replace_all s t [c]) [c] t = s"
  using assms
proof (induction s t "[c]" rule: replace_all.induct)
  case (2 x s t)
  show ?case
  proof (cases "has_prefix (x # s) t")
    case True
    then have d: "t @ drop (length t) (x # s) = x # s" by (auto simp: has_prefix_iff)
    have "c \<notin> set (drop (length t) (x # s))" using 2(3) set_drop_subset [of "length t" "x # s"] by blast
    then have "replace_all (replace_all (drop (length t) (x # s)) t [c]) [c] t = drop (length t) (x # s)"
      using 2(1) True 2(4) by blast
    then show ?thesis using True 2(4) d by (simp add: has_prefix_def del: drop.simps)
  next
    case False
    then have "replace_all (replace_all s t [c]) [c] t = s" using 2(2) 2(3,4) by auto
    then show ?thesis using False 2(3) by (auto simp: has_prefix_def)
  qed
qed simp

definition expand_tokens :: "string \<Rightarrow> string" where
  "expand_tokens s = foldr (\<lambda>(i, token) s. replace_all s [char_of (i + 1)] token) (enumerate (0 :: nat) fingerprint_dictionary) s"

lemma expand_fold:
  assumes "distinct (map f ps)" and "\<forall>p\<in>set ps. f p \<notin> set s \<and> g p \<noteq> []"
  shows "foldr (\<lambda>p s. replace_all s [f p] (g p)) ps (foldl (\<lambda>s p. replace_all s (g p) [f p]) s ps) = s"
  using assms
proof (induction ps arbitrary: s)
  case (Cons p ps)
  have "\<forall>q\<in>set ps. f q \<notin> set (replace_all s (g p) [f p]) \<and> g q \<noteq> []"
  proof
    fix q
    assume q: "q \<in> set ps"
    then have "f q \<noteq> f p" using Cons.prems(1) by (metis distinct.simps(2) image_eqI list.map(2) set_map)
    then show "f q \<notin> set (replace_all s (g p) [f p]) \<and> g q \<noteq> []"
      using q Cons.prems(2) set_replace_all [of s "g p" "[f p]"] by auto
  qed
  then have "foldr (\<lambda>p s. replace_all s [f p] (g p)) ps (foldl (\<lambda>s p. replace_all s (g p) [f p]) (replace_all s (g p) [f p]) ps) =
      replace_all s (g p) [f p]"
    using Cons by simp
  then show ?case using Cons.prems replace_back by simp
qed simp

lemma dictionary_facts:
  "list_all (\<lambda>p. 1 \<le> fst p + 1 \<and> fst p + 1 < 32 \<and> snd p \<noteq> []) (enumerate (0 :: nat) fingerprint_dictionary)"
  "distinct (map (\<lambda>p. char_of (fst p + 1) :: char) (enumerate (0 :: nat) fingerprint_dictionary))"
  by code_simp+

lemma expand_replace:
  assumes "\<forall>c\<in>set s. 32 \<le> (of_char c :: nat)"
  shows "expand_tokens (replace_tokens s) = s"
proof -
  have "char_of (fst p + 1) \<notin> set s \<and> snd p \<noteq> []" if "p \<in> set (enumerate (0 :: nat) fingerprint_dictionary)" for p
  proof -
    have r: "fst p + 1 < 32" "snd p \<noteq> []" using dictionary_facts(1) that unfolding list_all_iff by auto
    then have "(of_char (char_of (fst p + 1) :: char) :: nat) < 32" by (simp add: of_char_of)
    then show ?thesis using assms r by auto
  qed
  then show ?thesis
    using expand_fold [of "\<lambda>p. char_of (fst p + 1)" "enumerate (0 :: nat) fingerprint_dictionary" s snd, OF dictionary_facts(2)]
    unfolding expand_tokens_def replace_tokens_def case_prod_beta' by blast
qed

section \<open>The characters of a payload\<close>

definition alnum_chars :: string where
  "alnum_chars = ''0123456789ABCDEFGHIJKLMNOPQRSTUVWXYZabcdefghijklmnopqrstuvwxyz''"

lemma alnum_chars_map: "alnum_chars = map char_of ([48..<58] @ [65..<91] @ [97..<(123 :: nat)])"
  by code_simp

lemma alnum_listed: "is_alnum c \<Longrightarrow> c \<in> set alnum_chars"
proof -
  assume "is_alnum c"
  then have "(48 \<le> n \<and> n < 58) \<or> (65 \<le> n \<and> n < 91) \<or> (97 \<le> n \<and> n < 123)" if "n = of_char c" for n :: nat
    using that unfolding is_alnum_def Let_def by linarith
  then have "of_char c \<in> set ([48..<58] @ [65..<91] @ [97..<(123 :: nat)])"
    unfolding set_append set_upt Un_iff atLeastLessThan_iff by blast
  then have "char_of (of_char c :: nat) \<in> set alnum_chars" unfolding alnum_chars_map set_map by (rule imageI)
  then show ?thesis by simp
qed

definition payload_chars :: string where
  "payload_chars = alnum_chars @ ''@*_+-./%;''"

lemma payload_chars_coded:
  "list_all (\<lambda>c. code_of (of_char c) \<and> (of_char c :: int) \<noteq> 0 \<and> 32 \<le> (of_char c :: int)) payload_chars"
  "list_all (\<lambda>n. code_of (of_char (char_of (n + 1) :: char)) \<and> (of_char (char_of (n + 1) :: char) :: int) \<noteq> 0) [0..<31]"
  by code_simp+

lemma payload_specials: "set alnum_chars \<subseteq> set payload_chars" "set ''@*_+-./%;'' \<subseteq> set payload_chars" "CHR ''u'' \<in> set alnum_chars"
proof -
  show "set alnum_chars \<subseteq> set payload_chars" "set ''@*_+-./%;'' \<subseteq> set payload_chars"
    unfolding payload_chars_def set_append by blast+
  show "CHR ''u'' \<in> set alnum_chars" by (simp add: alnum_chars_def)
qed

lemma escape_rune_chars: "set (escape_rune r) \<subseteq> set payload_chars"
proof -
  have h: "hex_digit (d mod 16) \<in> set payload_chars" for d
    using hex_digit_range [of "d mod 16"] alnum_listed payload_specials(1) by simp blast
  have p: "CHR ''%'' \<in> set payload_chars" "CHR ''u'' \<in> set payload_chars" using payload_specials by auto
  have plain: "char_of r \<in> set payload_chars"
    if "(r < 256 \<and> is_alnum (char_of r)) \<or> (r < 128 \<and> char_of r \<in> set ''@*_+-./'')"
    using that alnum_listed [of "char_of r"] payload_specials(1,2) by auto
  show ?thesis
  proof (cases "(r < 256 \<and> is_alnum (char_of r)) \<or> (r < 128 \<and> char_of r \<in> set ''@*_+-./'')")
    case True
    then have "escape_rune r = [char_of r]" unfolding escape_rune_def by (rule if_P)
    then show ?thesis using plain [OF True] by simp
  next
    case False
    then have e: "escape_rune r = (if r \<le> 255 then [CHR ''%'', hex_digit (r div 16 mod 16), hex_digit (r mod 16)]
      else ''%u'' @ [hex_digit (r div 4096 mod 16), hex_digit (r div 256 mod 16), hex_digit (r div 16 mod 16), hex_digit (r mod 16)])"
      unfolding escape_rune_def by (rule if_not_P)
    show ?thesis unfolding e
      by (cases "r \<le> 255") (simp_all only: if_True if_False list.set append.simps insert_subset empty_subsetI h p simp_thms)
  qed
qed

lemma payload_in_chars: "set (fingerprint_payload now) \<subseteq> set payload_chars"
proof
  fix c
  assume "c \<in> set (fingerprint_payload now)"
  then obtain v where "c \<in> set (escape_fingerprint v) \<or> c = CHR '';''" by (auto simp: fingerprint_payload_def split: if_splits)
  then show "c \<in> set payload_chars" using escape_rune_chars payload_specials(2) by (auto simp: escape_fingerprint_def)
qed

lemma replaced_chars:
  assumes "c \<in> set (replace_tokens s)"
  shows "c \<in> set s \<or> (\<exists>n < (31 :: nat). c = char_of (n + 1))"
proof -
  have "x \<in> set (foldl (\<lambda>s p. replace_all s (snd p) [char_of (fst p + 1)]) s ps) \<Longrightarrow> x \<in> set s \<or> (\<exists>p \<in> set ps. x = char_of (fst p + 1))"
    for ps :: "(nat \<times> string) list" and s x
  proof (induction ps arbitrary: s)
    case (Cons p ps)
    from Cons.IH [of "replace_all s (snd p) [char_of (fst p + 1)]"] Cons.prems
    have "x \<in> set (replace_all s (snd p) [char_of (fst p + 1)]) \<or> (\<exists>p \<in> set ps. x = char_of (fst p + 1))" by simp
    then show ?case using set_replace_all [of s "snd p" "[char_of (fst p + 1)]"] by auto
  qed simp
  then have "c \<in> set s \<or> (\<exists>p \<in> set (enumerate (0 :: nat) fingerprint_dictionary). c = char_of (fst p + 1))"
    using assms unfolding replace_tokens_def case_prod_beta' by blast
  moreover have "fst p < 31" if "p \<in> set (enumerate (0 :: nat) fingerprint_dictionary)" for p
  proof -
    have "fst p + 1 < 32" using dictionary_facts(1) that unfolding list_all_iff by blast
    then show ?thesis by simp
  qed
  ultimately show ?thesis by blast
qed

section \<open>The receiver\<close>

text \<open>
  Reads a fingerprint, not part of the program: the header gives the length of the packed text modulo 64,
  the last three characters the checksum of the payload.
\<close>

definition read_fingerprint :: "string \<Rightarrow> string option" where
  "read_fingerprint s =
     (let n = length s - 3 in
      case digit_values fingerprint_alphabet (take n s) of
        None \<Rightarrow> None
      | Some ds \<Rightarrow>
          (let bits = concat (map (\<lambda>d. bits_msb 6 (int d)) ds) in
           case decode_bits (drop 12 bits) of
             None \<Rightarrow> None
           | Some symbols \<Rightarrow>
               (let raw = expand_tokens (map char_of symbols)
                in if take 12 bits = header_bits (length symbols) \<and> drop n s = checksum_text (crc16 raw) then Some raw else None)))"

lemma alphabet_digits: "distinct fingerprint_alphabet" "length fingerprint_alphabet = 64"
  by code_simp+

lemma length_header [simp]: "length (header_bits n) = 12"
  by (simp add: header_bits_def)

text \<open>
  C37. The fingerprint can be read back. At every instant the text that the code sends, decoded with the
  tree of its Huffman code and with the tokens put back, is the payload, with the right length in the header
  and the CRC-16 of the payload at the end: no character is without a code, no two codes are confused, the
  replacement of the tokens loses nothing, and the shifts and masks of the checksum compute the polynomial.
\<close>

theorem fingerprint_roundtrip:
  "read_fingerprint (compressed_fingerprint now) = Some (fingerprint_payload now)"
proof -
  let ?raw = "fingerprint_payload now"
  let ?v = "replace_tokens ?raw"
  have pc: "code_of (of_char c) \<and> (of_char c :: int) \<noteq> 0 \<and> 32 \<le> (of_char c :: int)" if "c \<in> set payload_chars" for c
    using payload_chars_coded(1) that unfolding list_all_iff by blast
  have low: "32 \<le> (of_char c :: nat)" if "c \<in> set ?raw" for c
  proof -
    have "32 \<le> (of_char c :: int)" using pc [of c] payload_in_chars that by blast
    then have "int 32 \<le> int (of_char c)" unfolding of_nat_of_char by simp
    then show ?thesis by (simp only: of_nat_le_iff)
  qed
  have ok: "code_of (of_char c) \<and> (of_char c :: int) \<noteq> 0" if c: "c \<in> set ?v" for c
    using replaced_chars [OF c] pc payload_in_chars payload_chars_coded(2) unfolding list_all_iff by fastforce
  obtain ds pad where h: "fingerprint_huffman ?v = Some (map (\<lambda>d. fingerprint_alphabet ! d) ds)" "\<forall>d\<in>set ds. d < 64"
    "concat (map (\<lambda>d. bits_msb 6 (int d)) ds) = header_bits (length ?v) @ concat (map (\<lambda>c. code_bits (of_char c)) ?v) @ code_bits 0 @ pad"
    "length pad < 6" "list_all Not pad"
    by (rule huffman_bits [of ?v]) (use ok in \<open>auto simp: list_all_iff\<close>)
  let ?syms = "map of_char ?v :: int list"
  have z: "code_of 0" by (simp add: code_of_def fingerprint_codes_def)
  have dec: "decode_bits (concat (map (\<lambda>c. code_bits (of_char c)) ?v) @ code_bits 0 @ pad) = Some ?syms"
    using decode_codes [of ?syms pad] ok z h(4,5) by (simp add: list_all_iff comp_def)
  have len: "length (checksum_text k) = 3" for k by (simp add: checksum_text_def)
  have out: "compressed_fingerprint now = map (\<lambda>d. fingerprint_alphabet ! d) ds @ checksum_text (crc16 ?raw)"
    by (simp add: compressed_fingerprint_def Let_def h(1) checksum_crc)
  have dv: "digit_values fingerprint_alphabet (map (\<lambda>d. fingerprint_alphabet ! d) ds) = Some ds"
    using digit_values_map [OF alphabet_digits(1)] h(2) alphabet_digits(2) by simp
  have restored: "expand_tokens (map char_of ?syms) = ?raw" using expand_replace [of ?raw] low by (simp add: comp_def)
  show ?thesis unfolding read_fingerprint_def out using dec restored
    by (simp add: len dv h(3) Let_def)
qed

end
