(* ===== verification/AppleLogin.thy ===== *)
theory AppleLogin
  imports Channels AppleSrp AppleFingerprint "HOL-Library.AList"
begin

text \<open>
  The Apple login (\<open>modules/mail/backend/apple_auth.go\<close> and the web part of \<open>apple_protocol.go\<close>): one
  session walks through sign-in, federation, SRP and the second factor, and ends as a configuration of the
  iCloud Web channel or as a session of the Apple Account channel.

  The service answers by a list of replies, one per request; random bytes are a list as well. The requests
  are recorded with their headers and bodies.
\<close>

section \<open>Sessions\<close>

record auth_endpoints =
  ep_home :: string
  ep_setup :: string
  ep_auth :: string
  ep_host :: string

record apple_session =
  as_channel :: string
  as_endpoints :: auth_endpoints
  as_apple_id :: string
  as_client_id :: string
  as_frame_id :: string
  as_user_agent :: string
  as_session_token :: string
  as_scnt :: string
  as_manage_scnt :: string
  as_session_id :: string
  as_country :: string
  as_trust_token :: string
  as_attributes :: string
  as_hc_bits :: int
  as_hc_challenge :: string
  as_complete_hc_bits :: int
  as_complete_hc_challenge :: string
  as_phone :: "jmap option"
  as_method :: string
  as_cookies :: "apple_cookie list"

definition two_factor_device :: string where "two_factor_device = ''trusted_device''"
definition two_factor_phone :: string where "two_factor_phone = ''phone''"

definition web_client_id :: string where
  "web_client_id = ''d39ba9916b7251055b22c7f910e2ea796ee65e98b2ddecea8f5dde8d9d1a815d''"

definition manage_client_id :: string where
  "manage_client_id = ''af1139274f266b22b68c2a3e7ad932cb3c0bbe854e13a79af78dcc73136882c3''"

definition auth_user_agent :: string where
  "auth_user_agent = ''Mozilla/5.0 (Macintosh; Intel Mac OS X 10_15_7) AppleWebKit/605.1.15 (KHTML, like Gecko) Version/18.3.1 Safari/605.1.15''"

definition new_session :: "string \<Rightarrow> auth_endpoints \<Rightarrow> string \<Rightarrow> string \<Rightarrow> string \<Rightarrow> string \<Rightarrow> string \<Rightarrow> apple_session" where
  "new_session channel endpoints apple_id client_id frame_id agent meth =
     \<lparr>as_channel = channel, as_endpoints = endpoints, as_apple_id = apple_id, as_client_id = client_id, as_frame_id = frame_id,
      as_user_agent = agent, as_session_token = [], as_scnt = [], as_manage_scnt = [], as_session_id = [], as_country = [],
      as_trust_token = [], as_attributes = [], as_hc_bits = 0, as_hc_challenge = [], as_complete_hc_bits = 0,
      as_complete_hc_challenge = [], as_phone = None, as_method = meth, as_cookies = []\<rparr>"

definition normalize_channel :: "string \<Rightarrow> string" where
  "normalize_channel v = (if equal_fold (trim_space v) channel_account then channel_account else channel_web)"

definition normalize_method :: "string \<Rightarrow> string" where
  "normalize_method v = (if equal_fold (trim_space v) two_factor_phone then two_factor_phone else two_factor_device)"

definition web_endpoints :: "string \<Rightarrow> auth_endpoints" where
  "web_endpoints region =
     (if equal_fold (trim_space region) ''china''
      then \<lparr>ep_home = ''https://www.icloud.com.cn'', ep_setup = ''https://setup.icloud.com.cn/setup/ws/1'',
            ep_auth = ''https://idmsa.apple.com.cn/appleauth/auth'', ep_host = ''www.icloud.com.cn''\<rparr>
      else \<lparr>ep_home = ''https://www.icloud.com'', ep_setup = ''https://setup.icloud.com/setup/ws/1'',
            ep_auth = ''https://idmsa.apple.com/appleauth/auth'', ep_host = ''www.icloud.com''\<rparr>)"

text \<open>\<^const>\<open>None\<close> stands for the empty endpoints.\<close>

definition endpoints_for_country :: "string \<Rightarrow> auth_endpoints option" where
  "endpoints_for_country country =
     (let c = to_upper (trim_space country) in
      if c = [] then None
      else if c = ''CN'' \<or> c = ''CHN'' then Some (web_endpoints ''china'')
      else Some (web_endpoints ''international''))"

definition account_endpoints :: auth_endpoints where
  "account_endpoints = \<lparr>ep_home = ''https://account.apple.com'', ep_setup = [],
     ep_auth = ''https://idmsa.apple.com/appleauth/auth'', ep_host = ''appleid.apple.com''\<rparr>"

section \<open>The client\<close>

record auth_request =
  aq_method :: string
  aq_url :: string
  aq_headers :: "(string \<times> string) list"
  aq_cookie :: string
  aq_body :: "json option"

text \<open>\<open>ar_header\<close> is \<open>Header.Get\<close>, empty for a header that is absent.\<close>

record auth_response =
  ar_status :: int
  ar_host :: string
  ar_header :: "string \<Rightarrow> string"
  ar_cookies :: "set_cookie list"
  ar_text :: string
  ar_json :: "json option"

datatype auth_outcome =
    AuthError go_error
  | AuthBodyError go_error auth_response
  | AuthReply auth_response

record auth_pending =
  ap_session :: apple_session
  ap_expires :: gotime

record auth_client =
  ac_net :: net
  ac_replies :: "(nat \<times> auth_outcome) list"
  ac_sent :: "auth_request list"
  ac_random :: "string list"
  ac_pending :: "(string \<times> auth_pending) list"

text \<open>What the code takes from cryptographic and JSON libraries.\<close>

record crypto =
  cr_sha256 :: hasher
  cr_sha1 :: hasher
  cr_pbkdf2 :: "string \<Rightarrow> string \<Rightarrow> int \<Rightarrow> nat \<Rightarrow> go_error + string"
  cr_quote :: "string \<Rightarrow> string"
  cr_marshal :: "(string \<times> string) list \<Rightarrow> string"
  cr_unmarshal :: "string \<Rightarrow> json option"

type_synonym auth_state = "apple_session \<times> auth_client"
type_synonym 'a auth_op = "auth_state \<Rightarrow> (go_error + 'a) \<times> auth_state"

definition auth_bind :: "'a auth_op \<Rightarrow> ('a \<Rightarrow> 'b auth_op) \<Rightarrow> 'b auth_op" where
  "auth_bind m f st = (case m st of (Inl e, st1) \<Rightarrow> (Inl e, st1) | (Inr x, st1) \<Rightarrow> f x st1)"

definition auth_return :: "'a \<Rightarrow> 'a auth_op" where
  "auth_return x st = (Inr x, st)"

definition auth_fail :: "go_error \<Rightarrow> 'a auth_op" where
  "auth_fail e st = (Inl e, st)"

definition auth_now :: "auth_client \<Rightarrow> gotime" where
  "auth_now c = net_now (ac_net c)"

text \<open>\<open>rand.Read\<close> of Go 1.24 does not fail; a script that has run out gives zero bytes.\<close>

definition take_random :: "nat \<Rightarrow> auth_client \<Rightarrow> string \<times> auth_client" where
  "take_random n c =
     (case ac_random c of
        [] \<Rightarrow> (replicate n (CHR 0x00), c)
      | bs # rest \<Rightarrow> (take n (bs @ replicate n (CHR 0x00)), c\<lparr>ac_random := rest\<rparr>))"

definition fresh_uuid :: "auth_client \<Rightarrow> string \<times> auth_client" where
  "fresh_uuid c = (let (bs, c) = take_random 16 c in (random_uuid bs, c))"

definition fresh_token :: "nat \<Rightarrow> auth_client \<Rightarrow> string \<times> auth_client" where
  "fresh_token n c = (let (bs, c) = take_random n c in (b64_encode url_alphabet bs, c))"

section \<open>Base64 with padding\<close>

definition b64_std :: "string \<Rightarrow> string" where
  "b64_std s =
     (let e = b64_encode std_alphabet s in e @ replicate ((4 - length e mod 4) mod 4) (CHR ''=''))"

definition b64_std_decode :: "string \<Rightarrow> string option" where
  "b64_std_decode s =
     (let t = filter (\<lambda>c. c \<noteq> CHR 0x0A \<and> c \<noteq> CHR 0x0D) s;
          body = (if has_suffix t ''=='' then take (length t - 2) t else if has_suffix t ''='' then butlast t else t)
      in if length t mod 4 \<noteq> 0 \<or> CHR ''='' \<in> set body then None else b64_decode std_alphabet body)"

section \<open>Headers\<close>

definition hput :: "string \<Rightarrow> string \<Rightarrow> (string \<times> string) list \<Rightarrow> (string \<times> string) list" where
  "hput k v h = filter (\<lambda>e. fst e \<noteq> k) h @ [(k, v)]"

definition hdelete :: "string \<Rightarrow> (string \<times> string) list \<Rightarrow> (string \<times> string) list" where
  "hdelete k h = filter (\<lambda>e. fst e \<noteq> k) h"

definition hput_some :: "string \<Rightarrow> string \<Rightarrow> (string \<times> string) list \<Rightarrow> (string \<times> string) list" where
  "hput_some k v h = (if v \<noteq> [] then hput k v h else h)"

definition browser_hints :: "(string \<times> string) list" where
  "browser_hints = [(''Sec-CH-UA'', [CHR 0x22] @ ''Google Chrome'' @ [CHR 0x22] @ '';v='' @ [CHR 0x22] @ ''149'' @ [CHR 0x22] @ '', '' @
       [CHR 0x22] @ ''Chromium'' @ [CHR 0x22] @ '';v='' @ [CHR 0x22] @ ''149'' @ [CHR 0x22] @ '', '' @
       [CHR 0x22] @ ''Not)A;Brand'' @ [CHR 0x22] @ '';v='' @ [CHR 0x22] @ ''24'' @ [CHR 0x22]),
     (''Sec-CH-UA-Mobile'', ''?0''), (''Sec-CH-UA-Platform'', [CHR 0x22] @ ''macOS'' @ [CHR 0x22])]"

definition hput_all :: "(string \<times> string) list \<Rightarrow> (string \<times> string) list \<Rightarrow> (string \<times> string) list" where
  "hput_all kvs h = foldl (\<lambda>h (k, v). hput k v h) h kvs"

definition plain_client_info :: "string \<Rightarrow> string" where
  "plain_client_info agent =
     (let q = [CHR 0x22] in ''{'' @ q @ ''U'' @ q @ '':'' @ q @ agent @ q @ '','' @ q @ ''L'' @ q @ '':'' @ q @ ''zh-CN'' @ q @ '','' @
      q @ ''Z'' @ q @ '':'' @ q @ ''GMT+08:00'' @ q @ '','' @ q @ ''V'' @ q @ '':'' @ q @ ''1.1'' @ q @ '','' @ q @ ''F'' @ q @ '':'' @ q @ q @ ''}'')"

definition srp_headers :: "crypto \<Rightarrow> gotime \<Rightarrow> apple_session \<Rightarrow> (string \<times> string) list" where
  "srp_headers cr now s =
     (let frame = ''auth-'' @ as_frame_id s; base = trim_suffix (ep_auth (as_endpoints s)) ''/appleauth/auth'';
          info = (if as_channel s = channel_account then cr_marshal cr (fd_client_info (as_user_agent s) now)
                  else plain_client_info (as_user_agent s));
          h = [(''Accept'', ''application/json''), (''Content-Type'', ''application/json''), (''Origin'', base), (''Referer'', base @ ''/''),
               (''X-Apple-Widget-Key'', as_client_id s), (''X-Apple-OAuth-Client-Id'', as_client_id s),
               (''X-Apple-OAuth-Client-Type'', ''firstPartyAuth''), (''X-Apple-OAuth-Redirect-URI'', ep_home (as_endpoints s)),
               (''X-Apple-OAuth-Require-Grant-Code'', ''true''), (''X-Apple-OAuth-Response-Mode'', ''web_message''),
               (''X-Apple-OAuth-Response-Type'', ''code''), (''X-Apple-OAuth-State'', frame), (''X-Apple-Frame-Id'', frame),
               (''X-Requested-With'', ''XMLHttpRequest''), (''X-Apple-Mandate-Security-Upgrade'', ''0''),
               (''X-Apple-I-Require-UE'', ''true''), (''X-Apple-I-FD-Client-Info'', info)];
          h = hput_some ''scnt'' (as_scnt s) h; h = hput_some ''X-Apple-ID-Session-Id'' (as_session_id s) h;
          h = hput_some ''X-Apple-Session-Token'' (as_session_token s) h; h = hput_some ''X-Apple-Auth-Attributes'' (as_attributes s) h
      in if as_channel s = channel_account
         then hdelete ''X-Apple-OAuth-Require-Grant-Code'' (hdelete ''X-Apple-Mandate-Security-Upgrade'' (hdelete ''X-Apple-I-Require-UE''
           (hput_all ([(''Accept'', ''application/json, text/javascript, */*; q=0.01''), (''Accept-Language'', ''zh-CN,zh;q=0.9,en;q=0.8'')] @
              browser_hints @ [(''Sec-Fetch-Dest'', ''empty''), (''Sec-Fetch-Mode'', ''cors''), (''Sec-Fetch-Site'', ''same-origin''),
               (''X-Apple-Domain-Id'', ''11''), (''X-Apple-Privacy-Consent'', ''true''), (''X-Apple-Privacy-Consent-Accepted'', ''true'')]) h)))
         else h)"

definition two_factor_headers :: "crypto \<Rightarrow> gotime \<Rightarrow> apple_session \<Rightarrow> (string \<times> string) list" where
  "two_factor_headers cr now s =
     (let h = srp_headers cr now s in
      if as_channel s = channel_account
      then hdelete ''X-Requested-With'' (hput ''X-Apple-App-Id'' (as_client_id s) (hput ''Accept'' ''application/json, text/plain, */*'' h))
      else h)"

section \<open>One request\<close>

text \<open>\<open>strconv.Atoi\<close>, where only a positive result matters.\<close>

definition positive_int :: "string \<Rightarrow> int option" where
  "positive_int s =
     (if s = [] then None
      else case parse_uint 63 (if has_prefix s ''+'' then tl s else s) of
        Some n \<Rightarrow> (if 0 < n then Some (int n) else None)
      | None \<Rightarrow> None)"

definition extract_response :: "auth_response \<Rightarrow> apple_session \<Rightarrow> apple_session" where
  "extract_response r s =
     (let get = (\<lambda>k old. if ar_header r k \<noteq> [] then ar_header r k else old);
          s = s\<lparr>as_cookies := merge_apple_cookies (ar_host r) (ar_cookies r) (as_cookies s),
                as_country := get ''X-Apple-ID-Account-Country'' (as_country s),
                as_session_id := get ''X-Apple-ID-Session-Id'' (as_session_id s),
                as_session_token := get ''X-Apple-Session-Token'' (as_session_token s),
                as_trust_token := get ''X-Apple-TwoSV-Trust-Token'' (as_trust_token s),
                as_scnt := get ''scnt'' (as_scnt s),
                as_attributes := get ''X-Apple-Auth-Attributes'' (as_attributes s),
                as_hc_challenge := get ''X-Apple-HC-Challenge'' (as_hc_challenge s)\<rparr>
      in case positive_int (ar_header r ''X-Apple-HC-Bits'') of Some b \<Rightarrow> s\<lparr>as_hc_bits := b\<rparr> | None \<Rightarrow> s)"

definition auth_request_of ::
  "string \<Rightarrow> string \<Rightarrow> (string \<times> string) list \<Rightarrow> json option \<Rightarrow> gotime \<Rightarrow> apple_session \<Rightarrow> auth_request" where
  "auth_request_of meth url headers body now s =
     (let h = hput_all (filter (\<lambda>e. trim_space (snd e) \<noteq> []) headers)
                [(''User-Agent'', first_nonempty [as_user_agent s, auth_user_agent])];
          h = (if body \<noteq> None \<and> ''Content-Type'' \<notin> fst ` set h then hput ''Content-Type'' ''application/json'' h else h)
      in \<lparr>aq_method = meth, aq_url = url, aq_headers = h, aq_cookie = apple_cookie_header now (as_cookies s) url, aq_body = body\<rparr>)"

definition send_auth :: "auth_request \<Rightarrow> auth_client \<Rightarrow> auth_outcome \<times> auth_client" where
  "send_auth rq c =
     (let c = c\<lparr>ac_sent := ac_sent c @ [rq]\<rparr> in
      case ac_replies c of
        [] \<Rightarrow> (AuthError Canceled, c)
      | (elapsed, out) # rest \<Rightarrow>
          (out, c\<lparr>ac_replies := rest, ac_net := (ac_net c)\<lparr>net_now := net_now (ac_net c) + int elapsed\<rparr>\<rparr>))"

definition refused_error :: "int \<Rightarrow> go_error" where
  "refused_error st =
     apple_protocol_error ''APPLE_PROTOCOL_ERROR''
       ((if 500 \<le> st then msg_login_down else msg_login_refused) @ msg_login_http @ dec_int st @ msg_close_paren) (500 \<le> st)"

text \<open>
  \<open>do\<close>: the status and the response that was read, if any, with the error. \<open>decodes\<close> tells whether the
  result asked for accepts the body; a blank body is not decoded.
\<close>

definition auth_do ::
  "string \<Rightarrow> string \<Rightarrow> (string \<times> string) list \<Rightarrow> json option \<Rightarrow> (json option \<Rightarrow> bool) \<Rightarrow> bool \<Rightarrow> auth_state \<Rightarrow>
   (int \<times> auth_response option \<times> go_error option) \<times> auth_state" where
  "auth_do meth url headers body decodes allow_conflict st =
     (let (s, c) = st; (out, c) = send_auth (auth_request_of meth url headers body (auth_now c) s) c in
      case out of
        AuthError e \<Rightarrow> ((0, None, Some (Wrapped msg_login_network e)), s, c)
      | AuthBodyError e r \<Rightarrow> ((ar_status r, None, Some e), extract_response r s, c)
      | AuthReply r \<Rightarrow>
          ((ar_status r, Some r,
            if allow_conflict \<and> ar_status r = 409 then None
            else if ar_status r < 200 \<or> 300 \<le> ar_status r then Some (refused_error (ar_status r))
            else if trim_space (ar_text r) \<noteq> [] \<and> \<not> decodes (ar_json r)
            then Some (apple_protocol_error ''APPLE_BAD_RESPONSE'' msg_login_unreadable True)
            else None), extract_response r s, c))"

definition no_decoding :: "json option \<Rightarrow> bool" where
  "no_decoding j = True"

text \<open>A request of which only the error matters, and one that must succeed for its body to be read.\<close>

definition auth_call ::
  "string \<Rightarrow> string \<Rightarrow> (apple_session \<Rightarrow> auth_client \<Rightarrow> (string \<times> string) list) \<Rightarrow> json option \<Rightarrow> unit auth_op" where
  "auth_call meth path headers body st =
     (case auth_do meth (ep_auth (as_endpoints (fst st)) @ path) (headers (fst st) (snd st)) body no_decoding False st of
        ((_, _, Some e), st1) \<Rightarrow> (Inl e, st1)
      | ((_, _, None), st1) \<Rightarrow> (Inr (), st1))"

section \<open>Signing in\<close>

definition encode_query :: "(string \<times> string) list \<Rightarrow> string" where
  "encode_query kvs = str_join (map (\<lambda>(k, v). url_escape InQuery k @ ''='' @ url_escape InQuery v) kvs) ''&''"

text \<open>The keys in the order \<open>Encode\<close> sorts them.\<close>

definition signin_url :: "apple_session \<Rightarrow> string" where
  "signin_url s =
     (let frame = ''auth-'' @ as_frame_id s; account = (as_channel s = channel_account)
      in ep_auth (as_endpoints s) @ ''/authorize/signin?'' @ encode_query
        ([(''authVersion'', if account then ''8.0.2'' else ''latest''), (''client_id'', as_client_id s), (''frame_id'', frame),
          (''iframeId'', frame)] @ (if account then [] else [(''language'', ''zh_CN'')]) @
         [(''redirect_uri'', ep_home (as_endpoints s)), (''response_mode'', ''web_message''), (''response_type'', ''code''),
          (''skVersion'', ''7''), (''state'', frame)]))"

definition signin_headers :: "apple_session \<Rightarrow> (string \<times> string) list" where
  "signin_headers s =
     (if as_channel s = channel_account
      then [(''Referer'', ep_home (as_endpoints s) @ ''/''),
            (''Accept'', ''text/html,application/xhtml+xml,application/xml;q=0.9,image/avif,image/webp,image/apng,*/*;q=0.8,application/signed-exchange;v=b3;q=0.7''),
            (''Accept-Language'', ''zh-CN,zh;q=0.9,en;q=0.8'')] @ browser_hints @
           [(''Sec-Fetch-Dest'', ''iframe''), (''Sec-Fetch-Mode'', ''navigate''), (''Sec-Fetch-Site'', ''same-site'')]
      else [(''Accept'', ''*/*'')])"

definition auth_start :: "unit auth_op" where
  "auth_start st =
     (case auth_do ''GET'' (signin_url (fst st)) (signin_headers (fst st)) None no_decoding False st of
        ((_, _, e), s, c) \<Rightarrow>
          (let s = (if as_channel s = channel_account
                    then s\<lparr>as_complete_hc_bits := as_hc_bits s, as_complete_hc_challenge := as_hc_challenge s\<rparr> else s)
           in (case e of Some err \<Rightarrow> Inl err | None \<Rightarrow> Inr (), s, c)))"

definition auth_device_key :: "crypto \<Rightarrow> unit auth_op" where
  "auth_device_key cr =
     auth_call ''POST'' ''/verify/device/key/challenge''
       (\<lambda>s c. hdelete ''scnt'' (hdelete ''X-Apple-ID-Session-Id'' (srp_headers cr (auth_now c) s)))
       (Some (JObj [(''passkeyAutofill'', JBool False)]))"

definition auth_federate :: "crypto \<Rightarrow> unit auth_op" where
  "auth_federate cr st =
     auth_call ''POST'' ''/federate?isRememberMeEnabled=true'' (\<lambda>s c. srp_headers cr (auth_now c) s)
       (Some (JObj [(''accountName'', JStr (as_apple_id (fst st))), (''rememberMe'', JBool True)])) st"

record challenge =
  ch_iteration :: int
  ch_salt :: string
  ch_protocol :: string
  ch_b :: string
  ch_c :: string

definition decode_challenge :: "json option \<Rightarrow> challenge option" where
  "decode_challenge j =
     Option.bind (Option.bind j dec_struct) (\<lambda>m.
       case (dec_integer (jget m ''iteration''), dec_string (jget m ''salt''), dec_string (jget m ''protocol''),
             dec_string (jget m ''b''), dec_string (jget m ''c'')) of
         (Some i, Some s, Some p, Some b, Some c) \<Rightarrow>
           Some \<lparr>ch_iteration = i, ch_salt = s, ch_protocol = p, ch_b = b, ch_c = c\<rparr>
       | _ \<Rightarrow> None)"

definition challenge_of :: "auth_response option \<Rightarrow> challenge" where
  "challenge_of r =
     (case Option.bind r (\<lambda>r. if trim_space (ar_text r) = [] then None else decode_challenge (ar_json r)) of
        Some c \<Rightarrow> c
      | None \<Rightarrow> \<lparr>ch_iteration = 0, ch_salt = [], ch_protocol = [], ch_b = [], ch_c = []\<rparr>)"

definition srp_init_body :: "srp_client \<Rightarrow> string \<Rightarrow> json" where
  "srp_init_body client apple_id =
     JObj [(''a'', JStr (b64_std (srp_pad (sc_public client)))), (''accountName'', JStr apple_id),
           (''protocols'', JArr [JStr ''s2k'', JStr ''s2k_fo''])]"

text \<open>Everything that is computed from the password: the two proofs, or an error.\<close>

definition srp_answer :: "crypto \<Rightarrow> srp_client \<Rightarrow> string \<Rightarrow> string \<Rightarrow> challenge \<Rightarrow> go_error + string \<times> string" where
  "srp_answer cr client apple_id password ch =
     (case b64_std_decode (ch_b ch) of
        None \<Rightarrow> Inl (Plain ''illegal base64 data'')
      | Some server_b \<Rightarrow>
          (case b64_std_decode (ch_salt ch) of
             None \<Rightarrow> Inl (Plain ''illegal base64 data'')
           | Some salt \<Rightarrow>
               (case derive_srp_password (cr_quote cr) (cr_sha256 cr) (cr_pbkdf2 cr) password salt (ch_iteration ch) (ch_protocol ch) of
                  Inl e \<Rightarrow> Inl e
                | Inr derived \<Rightarrow> process_challenge (cr_sha256 cr) client apple_id derived salt server_b)))"

definition srp_complete_body :: "apple_session \<Rightarrow> challenge \<Rightarrow> string \<Rightarrow> string \<Rightarrow> json" where
  "srp_complete_body s ch m1 m2 =
     JObj ([(''accountName'', JStr (as_apple_id s)), (''m1'', JStr (b64_std m1)), (''m2'', JStr (b64_std m2)),
            (''c'', JStr (ch_c ch)), (''rememberMe'', JBool True)] @
       (if as_channel s = channel_account then []
        else [(''trustTokens'', JArr (if as_trust_token s \<noteq> [] then [JStr (as_trust_token s)] else []))]))"

definition credentials_error :: go_error where
  "credentials_error = apple_protocol_error ''APPLE_CREDENTIALS_INVALID'' msg_login_wrong False"

definition srp_complete :: "crypto \<Rightarrow> challenge \<Rightarrow> string \<Rightarrow> string \<Rightarrow> bool auth_op" where
  "srp_complete cr ch m1 m2 st =
     (let (s, c) = st;
          hc = (if as_channel s = channel_account
                then map_sum id Some (generate_hashcash (cr_sha1 cr) (as_complete_hc_bits s) (as_complete_hc_challenge s) (auth_now c))
                else Inr None) in
      case hc of
        Inl e \<Rightarrow> (Inl e, st)
      | Inr hashcash \<Rightarrow>
          (let h = srp_headers cr (auth_now c) s; h = (case hashcash of Some v \<Rightarrow> hput ''X-Apple-HC'' v h | None \<Rightarrow> h) in
           case auth_do ''POST'' (ep_auth (as_endpoints s) @ ''/signin/complete?isRememberMeEnabled=true'') h
                  (Some (srp_complete_body s ch m1 m2)) no_decoding True st of
             ((status, _, e), st1) \<Rightarrow>
               (if status = 401 \<or> status = 403 then (Inl credentials_error, st1)
                else case e of Some err \<Rightarrow> (Inl err, st1) | None \<Rightarrow> (Inr (status = 409), st1))))"

definition auth_srp :: "crypto \<Rightarrow> string \<Rightarrow> bool auth_op" where
  "auth_srp cr password st =
     (let (s, c) = st; (secret, c) = take_random 32 c in
      case new_srp_client (cr_sha256 cr) (Inr secret) of
        Inl e \<Rightarrow> (Inl e, s, c)
      | Inr client \<Rightarrow>
          (case auth_do ''POST'' (ep_auth (as_endpoints s) @ ''/signin/init'') (srp_headers cr (auth_now c) s)
                  (Some (srp_init_body client (as_apple_id s))) (\<lambda>j. decode_challenge j \<noteq> None) False (s, c) of
             ((_, _, Some e), st1) \<Rightarrow> (Inl e, st1)
           | ((_, r, None), st1) \<Rightarrow>
               (case srp_answer cr client (as_apple_id (fst st1)) password (challenge_of r) of
                  Inl e \<Rightarrow> (Inl e, st1)
                | Inr (m1, m2) \<Rightarrow> srp_complete cr (challenge_of r) m1 m2 st1)))"

section \<open>The second factor\<close>

text \<open>\<open>normalizeApplePhone\<close> and \<open>findApplePhone\<close>; the entries of a map are visited in list order.\<close>

definition normalize_phone :: "json \<Rightarrow> jmap option" where
  "normalize_phone v =
     (case v of
        JObj m \<Rightarrow>
          (if jget m ''id'' = JNull then None
           else Some ((''id'', jget m ''id'') # (case map_of m ''nonFTEU'' of Some x \<Rightarrow> [(''nonFTEU'', x)] | None \<Rightarrow> [])))
      | _ \<Rightarrow> None)"

fun first_some :: "'a option list \<Rightarrow> 'a option" where
  "first_some [] = None"
| "first_some (x # xs) = (case x of Some v \<Rightarrow> Some v | None \<Rightarrow> first_some xs)"

text \<open>The number is how many levels may still be entered.\<close>

fun find_phone :: "nat \<Rightarrow> json \<Rightarrow> jmap option" where
  "find_phone 0 v = None"
| "find_phone (Suc n) v =
     (case v of
        JObj m \<Rightarrow>
          first_some (map normalize_phone (case jget m ''trustedPhoneNumbers'' of JArr xs \<Rightarrow> xs | _ \<Rightarrow> []) @
            [normalize_phone (jget m ''phoneNumber'')] @ map (\<lambda>e. find_phone n (snd e)) m)
      | JArr xs \<Rightarrow> first_some (map (\<lambda>x. find_phone n x) xs)
      | _ \<Rightarrow> None)"

definition phone_depth :: nat where
  "phone_depth = 17"

fun config_script :: "string list \<Rightarrow> string \<Rightarrow> string option" where
  "config_script [] s = None"
| "config_script (marker # markers) s =
     (case str_index s marker of
        None \<Rightarrow> config_script markers s
      | Some i \<Rightarrow>
          (case str_index (drop i s) ''>'' of
             None \<Rightarrow> config_script markers s
           | Some k \<Rightarrow>
               (let inner = drop (Suc k) (drop i s) in
                case str_index inner ''</script>'' of
                  None \<Rightarrow> config_script markers s
                | Some e \<Rightarrow> Some (take e inner))))"

definition config_markers :: "string list" where
  "config_markers = [''id='' @ [CHR 0x22] @ ''app_config'' @ [CHR 0x22], ''id='' @ [CHR 0x27] @ ''app_config'' @ [CHR 0x27]]"

definition remember_phone :: "crypto \<Rightarrow> string \<Rightarrow> apple_session \<Rightarrow> apple_session" where
  "remember_phone cr data s =
     (let found = (case cr_unmarshal cr data of
            Some v \<Rightarrow> Some v
          | None \<Rightarrow> Option.bind (config_script config_markers data) (cr_unmarshal cr))
      in case Option.bind found (find_phone phone_depth) of Some phone \<Rightarrow> s\<lparr>as_phone := Some phone\<rparr> | None \<Rightarrow> s)"

definition refresh_auth_state :: "crypto \<Rightarrow> auth_state \<Rightarrow> auth_state" where
  "refresh_auth_state cr st =
     (let (s, c) = st; base = trim_suffix (ep_auth (as_endpoints s)) ''/appleauth/auth'';
          h = hdelete ''Origin'' (hput ''Referer'' (base @ ''/'') (hput ''Accept'' ''text/html'' (srp_headers cr (auth_now c) s))) in
      case auth_do ''GET'' (ep_auth (as_endpoints s)) h None no_decoding False st of
        ((_, Some r, None), s1, c1) \<Rightarrow> (remember_phone cr (ar_text r) s1, c1)
      | (_, st1) \<Rightarrow> st1)"

definition phone_payload :: "jmap option \<Rightarrow> bool \<Rightarrow> go_error + jmap" where
  "phone_payload raw include_fteu =
     (let phone = (case raw of Some m \<Rightarrow> m | None \<Rightarrow> [(''id'', JNum 1 ''1''), (''nonFTEU'', JBool True)]) in
      if jget phone ''id'' = JNull then Inl (apple_protocol_error ''APPLE_PHONE_MISSING'' msg_phone_missing False)
      else Inr (if include_fteu then phone else filter (\<lambda>e. fst e \<noteq> ''nonFTEU'') phone))"

definition request_device_code :: "crypto \<Rightarrow> unit auth_op" where
  "request_device_code cr = auth_call ''PUT'' ''/verify/trusteddevice/securitycode'' (\<lambda>s c. two_factor_headers cr (auth_now c) s) None"

definition code_object :: "string \<Rightarrow> json" where
  "code_object code = JObj [(''code'', JStr code)]"

definition replace_error :: "go_error \<Rightarrow> 'a auth_op \<Rightarrow> 'a auth_op" where
  "replace_error e m st = (case m st of (Inl _, st1) \<Rightarrow> (Inl e, st1) | (Inr x, st1) \<Rightarrow> (Inr x, st1))"

definition validate_device_code :: "crypto \<Rightarrow> string \<Rightarrow> unit auth_op" where
  "validate_device_code cr code =
     replace_error (apple_protocol_error ''APPLE_2FA_FAILED'' msg_code_wrong True)
       (auth_call ''POST'' ''/verify/trusteddevice/securitycode'' (\<lambda>s c. two_factor_headers cr (auth_now c) s)
          (Some (JObj [(''securityCode'', code_object code)])))"

definition request_phone_code :: "crypto \<Rightarrow> unit auth_op" where
  "request_phone_code cr st =
     (case phone_payload (as_phone (fst st)) False of
        Inl e \<Rightarrow> (Inl e, st)
      | Inr phone \<Rightarrow>
          auth_call ''PUT'' ''/verify/phone'' (\<lambda>s c. two_factor_headers cr (auth_now c) s)
            (Some (JObj [(''phoneNumber'', JObj phone), (''mode'', JStr ''sms'')])) st)"

definition validate_phone_code :: "crypto \<Rightarrow> string \<Rightarrow> unit auth_op" where
  "validate_phone_code cr code st =
     (case phone_payload (as_phone (fst st)) True of
        Inl e \<Rightarrow> (Inl e, st)
      | Inr phone \<Rightarrow>
          replace_error (apple_protocol_error ''APPLE_2FA_FAILED'' msg_sms_wrong True)
            (auth_call ''POST'' ''/verify/phone/securitycode'' (\<lambda>s c. two_factor_headers cr (auth_now c) s)
               (Some (JObj [(''phoneNumber'', JObj phone), (''securityCode'', code_object code), (''mode'', JStr ''sms'')]))) st)"

definition auth_trust :: "crypto \<Rightarrow> unit auth_op" where
  "auth_trust cr = auth_call ''GET'' ''/2sv/trust'' (\<lambda>s c. srp_headers cr (auth_now c) s) None"

section \<open>Pending logins\<close>

definition pending_ttl :: duration where
  "pending_ttl = 10 * minute"

definition clean_pending :: "auth_client \<Rightarrow> auth_client" where
  "clean_pending c = c\<lparr>ac_pending := filter (\<lambda>(_, p). \<not> ap_expires p < auth_now c) (ac_pending c)\<rparr>"

definition put_pending :: "auth_state \<Rightarrow> string \<times> gotime \<times> auth_client" where
  "put_pending st =
     (let (s, c) = st; (key, c) = fresh_token 18 c; expires = auth_now c + pending_ttl; c = clean_pending c
      in (key, expires, c\<lparr>ac_pending := AList.update key \<lparr>ap_session = s, ap_expires = expires\<rparr> (ac_pending c)\<rparr>))"

definition get_pending :: "string \<Rightarrow> auth_client \<Rightarrow> auth_pending option \<times> auth_client" where
  "get_pending key c = (let c = clean_pending c in (map_of (ac_pending c) (trim_space key), c))"

definition delete_pending :: "string \<Rightarrow> auth_client \<Rightarrow> auth_client" where
  "delete_pending key c = c\<lparr>ac_pending := AList.delete (trim_space key) (ac_pending c)\<rparr>"

definition pending_channel :: "string \<Rightarrow> auth_client \<Rightarrow> string \<times> auth_client" where
  "pending_channel key c =
     (let (p, c) = get_pending key c in (case p of Some p \<Rightarrow> as_channel (ap_session p) | None \<Rightarrow> [], c))"

section \<open>Finishing\<close>

record start_result =
  st_channel :: string
  st_needs_2fa :: bool
  st_pending :: string
  st_expires :: "unixtime option"
  st_message :: string
  st_apple_id :: string
  st_web :: "icloud_config option"
  st_account :: "apple_account option"

definition done_result :: "apple_session \<Rightarrow> string \<Rightarrow> start_result" where
  "done_result s message =
     \<lparr>st_channel = as_channel s, st_needs_2fa = False, st_pending = [], st_expires = None, st_message = message,
      st_apple_id = as_apple_id s, st_web = None, st_account = None\<rparr>"

definition pending_result :: "apple_session \<Rightarrow> string \<Rightarrow> gotime \<Rightarrow> string \<Rightarrow> start_result" where
  "pending_result s key expires message =
     (done_result s message)\<lparr>st_needs_2fa := True, st_pending := key, st_expires := unix_pointer expires\<rparr>"

record ds_info =
  di_dsid :: string
  di_apple_id :: string
  di_primary :: string

definition blank_info :: ds_info where
  "blank_info = \<lparr>di_dsid = [], di_apple_id = [], di_primary = []\<rparr>"

definition decode_info :: "jmap \<Rightarrow> ds_info option" where
  "decode_info m =
     Option.bind (dec_struct (jget m ''dsInfo'')) (\<lambda>d.
       case (dec_string (jget d ''dsid''), dec_string (jget d ''appleId''), dec_string (jget d ''primaryEmail'')) of
         (Some i, Some a, Some p) \<Rightarrow> Some \<lparr>di_dsid = i, di_apple_id = a, di_primary = p\<rparr>
       | _ \<Rightarrow> None)"

definition decode_account :: "json option \<Rightarrow> ds_info option" where
  "decode_account j = Option.bind (Option.bind j dec_struct) decode_info"

text \<open>The URL of each service; a service that is no object, or whose URL is no text, is a decoding error.\<close>

definition decode_services :: "json \<Rightarrow> (string \<times> string) list option" where
  "decode_services v =
     Option.bind (dec_struct v) (\<lambda>m.
       if list_all (\<lambda>(k, x). Option.bind (dec_struct x) (\<lambda>f. dec_string (jget f ''url'')) \<noteq> None) m
       then Some (map (\<lambda>(k, x). (k, lenient_string (jget (as_map x) ''url''))) m) else None)"

definition decode_validation :: "json option \<Rightarrow> (ds_info \<times> string) option" where
  "decode_validation j =
     Option.bind (Option.bind j dec_struct) (\<lambda>m.
       case (decode_info m, decode_services (jget m ''webservices'')) of
         (Some i, Some ws) \<Rightarrow> Some (i, case map_of ws ''premiummailsettings'' of Some u \<Rightarrow> u | None \<Rightarrow> [])
       | _ \<Rightarrow> None)"

definition validate_build :: string where
  "validate_build = ''2626Build21''"

definition validate_url :: "apple_session \<Rightarrow> string \<Rightarrow> string \<Rightarrow> string" where
  "validate_url s client_id request_id =
     ''https://'' @ (if has_suffix (ep_host (as_endpoints s)) ''.com.cn'' then ''setup.icloud.com.cn'' else ''setup.icloud.com'') @
     ''/setup/ws/1/validate?'' @ encode_query [(''clientBuildNumber'', validate_build), (''clientId'', client_id),
       (''clientMasteringNumber'', validate_build), (''requestId'', request_id)]"

definition validated_config :: "gotime \<Rightarrow> apple_session \<Rightarrow> string \<Rightarrow> ds_info \<Rightarrow> string \<Rightarrow> go_error + icloud_config" where
  "validated_config now s client_id info premium =
     (case parse_url premium of
        None \<Rightarrow> Inl (apple_protocol_error ''ICLOUD_HME_UNAVAILABLE'' msg_hme_missing False)
      | Some u \<Rightarrow>
          (if url_hostname u = [] then Inl (apple_protocol_error ''ICLOUD_HME_UNAVAILABLE'' msg_hme_missing False)
           else
             (let cookie = apple_cookie_header now (as_cookies s) premium in
              if cookie = [] then Inl (apple_protocol_error ''ICLOUD_COOKIE_MISSING'' msg_cookie_missing True)
              else
                let c = apply_defaults \<lparr>ic_apple_id = first_nonempty [di_apple_id info, di_primary info, as_apple_id s],
                      ic_host = url_hostname u, ic_dsid = di_dsid info, ic_client_id = client_id,
                      ic_build_number = validate_build, ic_mastering_number = validate_build, ic_cookie = cookie,
                      ic_lang_code = [], ic_origin = [], ic_referer = [], ic_user_agent = auth_user_agent\<rparr>
                in case validate_config c of Some e \<Rightarrow> Inl e | None \<Rightarrow> Inr c)))"

definition validate_icloud_web :: "icloud_config auth_op" where
  "validate_icloud_web st =
     (let (s, c) = st; (client_id, c) = fresh_uuid c; (request_id, c) = fresh_uuid c; url = validate_url s client_id request_id;
          (out, c) = send_auth \<lparr>aq_method = ''POST'', aq_url = url,
            aq_headers = [(''Accept'', ''*/*''), (''Content-Type'', ''text/plain;charset=UTF-8''), (''Origin'', ep_home (as_endpoints s)),
              (''Referer'', ep_home (as_endpoints s) @ ''/''), (''User-Agent'', auth_user_agent)],
            aq_cookie = apple_cookie_header (auth_now c) (as_cookies s) url, aq_body = None\<rparr> c;
          absorb = (\<lambda>r. s\<lparr>as_cookies := merge_apple_cookies (ar_host r) (ar_cookies r) (as_cookies s)\<rparr>) in
      case out of
        AuthError e \<Rightarrow> (Inl (Wrapped msg_validate_network e), s, c)
      | AuthBodyError e r \<Rightarrow> (Inl e, absorb r, c)
      | AuthReply r \<Rightarrow>
          (if ar_status r < 200 \<or> 300 \<le> ar_status r
           then (Inl (apple_protocol_error ''ICLOUD_VALIDATE_FAILED'' (msg_validate_http @ dec_int (ar_status r)) True), absorb r, c)
           else
             (case decode_validation (ar_json r) of
                None \<Rightarrow> (Inl (apple_protocol_error ''ICLOUD_VALIDATE_BAD_RESPONSE'' msg_validate_unreadable True), absorb r, c)
              | Some (info, premium) \<Rightarrow> (validated_config (auth_now c) (absorb r) client_id info premium, absorb r, c))))"

definition account_login_body :: "apple_session \<Rightarrow> json" where
  "account_login_body s =
     JObj [(''accountCountryCode'', JStr (as_country s)), (''dsWebAuthToken'', JStr (as_session_token s)),
           (''extended_login'', JBool True), (''trustToken'', JStr (as_trust_token s))]"

definition account_login :: "ds_info auth_op" where
  "account_login st =
     (let s = fst st; home = ep_home (as_endpoints s) in
      case auth_do ''POST'' (ep_setup (as_endpoints s) @ ''/accountLogin'')
             [(''Accept'', ''application/json''), (''Content-Type'', ''application/json''), (''Origin'', home), (''Referer'', home @ ''/'')]
             (Some (account_login_body s)) (\<lambda>j. decode_account j \<noteq> None) False st of
        ((_, _, Some e), st1) \<Rightarrow> (Inl e, st1)
      | ((_, r, None), st1) \<Rightarrow>
          (Inr (case Option.bind r (\<lambda>r. if trim_space (ar_text r) = [] then None else decode_account (ar_json r)) of
                  Some i \<Rightarrow> i | None \<Rightarrow> blank_info), st1))"

definition named_config :: "ds_info \<Rightarrow> icloud_config \<Rightarrow> icloud_config auth_op" where
  "named_config info cfg st =
     (Inr (cfg\<lparr>ic_apple_id := first_nonempty [di_apple_id info, di_primary info, as_apple_id (fst st)]\<rparr>), st)"

definition finish_icloud_web :: "icloud_config auth_op" where
  "finish_icloud_web st =
     (if as_session_token (fst st) = []
      then (Inl (apple_protocol_error ''APPLE_SESSION_TOKEN_MISSING'' msg_token_missing True), st)
      else auth_bind account_login (\<lambda>info. auth_bind validate_icloud_web (named_config info)) st)"

definition finish_account :: "apple_account auth_op" where
  "finish_account st =
     (let (s, c) = st;
          a = blank_account\<lparr>aa_apple_id := as_apple_id s, aa_host := ''appleid.apple.com'', aa_origin := ''https://account.apple.com'',
                aa_saved_at := auth_now c, aa_cookies := as_cookies s, aa_scnt := first_nonempty [as_scnt s, as_manage_scnt s],
                aa_session_id := as_session_id s\<rparr>;
          (res, a1, n1) = refresh_apple_account a (ac_net c)
      in (case res of Inl e \<Rightarrow> Inl e | Inr _ \<Rightarrow> Inr a1, s, c\<lparr>ac_net := n1\<rparr>))"

definition finish_login :: "start_result auth_op" where
  "finish_login st =
     (if as_channel (fst st) = channel_account then
        (case finish_account st of
           (Inl e, st1) \<Rightarrow> (Inl e, st1)
         | (Inr a, st1) \<Rightarrow> (Inr ((done_result (fst st) msg_login_account_ok)\<lparr>st_account := Some a\<rparr>), st1))
      else
        (case finish_icloud_web st of
           (Inl e, st1) \<Rightarrow> (Inl e, st1)
         | (Inr cfg, st1) \<Rightarrow> (Inr ((done_result (fst st) msg_login_web_ok)\<lparr>st_web := Some cfg\<rparr>), st1)))"

section \<open>Starting\<close>

text \<open>\<open>primeAppleAccount\<close>: a refused token request is fine when its answer carries a page token.\<close>

definition prime_account :: "unit auth_op" where
  "prime_account st =
     (let (s, c) = st;
          a = blank_account\<lparr>aa_host := ''appleid.apple.com'', aa_origin := ''https://account.apple.com'', aa_cookies := as_cookies s\<rparr> in
      case warm_apple_account a (ac_net c) of
        (Inl e, _, n1) \<Rightarrow> (Inl e, s, c\<lparr>ac_net := n1\<rparr>)
      | (Inr _, a1, n1) \<Rightarrow>
          (let a2 = a1\<lparr>aa_scnt := []\<rparr>; path = ''/account/manage/gs/ws/token'';
               raw = fst (do_apple_http (account_request_of ''GET'' path [] None a2 (net_now n1)) (request_retryable ''GET'' path) n1);
               scnt = (case raw of Inl _ \<Rightarrow> [] | Inr r \<Rightarrow> rs_scnt r);
               (res, a3, n2) = apple_account_request ''GET'' path [] None decode_timeout 0 a2 n1;
               s = s\<lparr>as_cookies := aa_cookies a3, as_session_id := first_nonempty [aa_session_id a3, as_session_id s]\<rparr>;
               s = (if scnt \<noteq> [] then s\<lparr>as_manage_scnt := scnt\<rparr> else s)
           in (case res of Inl e \<Rightarrow> (if scnt \<noteq> [] then Inr () else Inl e) | Inr _ \<Rightarrow> Inr (), s, c\<lparr>ac_net := n2\<rparr>)))"

text \<open>From the first request to the answer to the proofs: whether a second factor is asked for.\<close>

definition sign_in :: "crypto \<Rightarrow> string \<Rightarrow> bool auth_op" where
  "sign_in cr password =
     auth_bind auth_start (\<lambda>_.
     auth_bind (\<lambda>st. if as_channel (fst st) = channel_account then auth_device_key cr st else (Inr (), st)) (\<lambda>_.
     auth_bind (auth_federate cr) (\<lambda>_. auth_srp cr password)))"

text \<open>The message of the result; only the phone request can fail the login.\<close>

definition request_code :: "crypto \<Rightarrow> string auth_op" where
  "request_code cr st =
     (if as_method (fst st) = two_factor_phone then
        (case request_phone_code cr st of (Inl e, st1) \<Rightarrow> (Inl e, st1) | (Inr _, st1) \<Rightarrow> (Inr msg_login_phone_sent, st1))
      else if as_channel (fst st) = channel_web then
        (case request_device_code cr st of (Inl _, st1) \<Rightarrow> (Inr msg_login_look, st1) | (Inr _, st1) \<Rightarrow> (Inr msg_login_device_sent, st1))
      else (Inr msg_login_device_sent, st))"

definition await_code :: "string \<Rightarrow> start_result auth_op" where
  "await_code message st =
     (let (key, expires, c) = put_pending st in (Inr (pending_result (fst st) key expires message), fst st, c))"

definition after_sign_in :: "crypto \<Rightarrow> bool \<Rightarrow> start_result auth_op" where
  "after_sign_in cr needs_2fa st =
     (if needs_2fa then auth_bind (request_code cr) await_code (refresh_auth_state cr st)
      else
        (case finish_login st of
           (Inr r, st1) \<Rightarrow> (Inr r, st1)
         | (Inl e, st1) \<Rightarrow>
             (if as_channel (fst st1) \<noteq> channel_web \<or> as_session_token (fst st1) = [] then (Inl e, st1)
              else await_code msg_login_second st1)))"

definition switched_session :: "auth_endpoints \<Rightarrow> auth_state \<Rightarrow> auth_state" where
  "switched_session endpoints st =
     (let (s, c) = st; (frame, c) = fresh_uuid c
      in (new_session (as_channel s) endpoints (as_apple_id s) (as_client_id s) (to_lower frame) (as_user_agent s) (as_method s), c))"

text \<open>The endpoints of the account's country, when the login has to start again there.\<close>

definition switch_to :: "apple_session \<Rightarrow> auth_endpoints option" where
  "switch_to s =
     (if as_channel s \<noteq> channel_web then None
      else case endpoints_for_country (as_country s) of
        Some ep \<Rightarrow> (if ep_host ep \<noteq> ep_host (as_endpoints s) then Some ep else None)
      | None \<Rightarrow> None)"

text \<open>\<open>startWithSession\<close>. \<^const>\<open>None\<close>: still calling itself after so many levels.\<close>

fun start_with_session :: "nat \<Rightarrow> crypto \<Rightarrow> string \<Rightarrow> auth_state \<Rightarrow> ((go_error + start_result) \<times> auth_state) option" where
  "start_with_session 0 cr password st = None"
| "start_with_session (Suc fuel) cr password st =
     (case sign_in cr password st of
        (Inl e, st1) \<Rightarrow> Some (Inl e, st1)
      | (Inr needs_2fa, st1) \<Rightarrow>
          (case switch_to (fst st1) of
             Some ep \<Rightarrow> start_with_session fuel cr password (switched_session ep st1)
           | None \<Rightarrow> Some (after_sign_in cr needs_2fa st1)))"

record login_input =
  li_apple_id :: string
  li_password :: string
  li_channel :: string
  li_region :: string
  li_method :: string

definition auth_login :: "nat \<Rightarrow> crypto \<Rightarrow> login_input \<Rightarrow> auth_client \<Rightarrow> ((go_error + start_result) \<times> auth_client) option" where
  "auth_login fuel cr i c =
     (let apple_id = to_lower (trim_space (li_apple_id i)); channel = normalize_channel (li_channel i); meth = normalize_method (li_method i) in
      if apple_id = [] \<or> li_password i = []
      then Some (Inl (apple_protocol_error ''APPLE_CREDENTIALS_MISSING'' msg_login_credentials False), c)
      else
        let (frame, c) = fresh_uuid c in
        if channel = channel_account then
          (case prime_account (new_session channel account_endpoints apple_id manage_client_id (to_lower frame) apple_account_user_agent meth, c) of
             (Inl e, st1) \<Rightarrow> Some (Inl e, snd st1)
           | (Inr _, st1) \<Rightarrow> map_option (\<lambda>(r, st2). (r, snd st2)) (start_with_session fuel cr (li_password i) st1))
        else
          map_option (\<lambda>(r, st2). (r, snd st2)) (start_with_session fuel cr (li_password i)
            (new_session channel (web_endpoints (li_region i)) apple_id web_client_id (to_lower frame) auth_user_agent meth, c)))"

definition code_ok :: "string \<Rightarrow> bool" where
  "code_ok code \<longleftrightarrow> length code = 6 \<and> list_all is_digit code"

text \<open>\<open>Verify\<close>; the session is shared with the pending login, which keeps what the requests changed.\<close>

definition store_session :: "string \<Rightarrow> auth_state \<Rightarrow> auth_client" where
  "store_session key st =
     (let (s, c) = st in
      c\<lparr>ac_pending := map (\<lambda>(k, p). if k = trim_space key then (k, p\<lparr>ap_session := s\<rparr>) else (k, p)) (ac_pending c)\<rparr>)"

definition verify_code :: "crypto \<Rightarrow> string \<Rightarrow> start_result auth_op" where
  "verify_code cr code st =
     (case (if as_method (fst st) = two_factor_phone then validate_phone_code cr code st else validate_device_code cr code st) of
        (Inl e, st1) \<Rightarrow> (Inl e, st1)
      | (Inr _, st1) \<Rightarrow>
          (case auth_trust cr st1 of
             (Inl e, st2) \<Rightarrow> (if as_channel (fst st2) \<noteq> channel_account then (Inl e, st2) else finish_login st2)
           | (Inr _, st2) \<Rightarrow> finish_login st2))"

definition auth_verify :: "crypto \<Rightarrow> string \<Rightarrow> string \<Rightarrow> auth_client \<Rightarrow> (go_error + start_result) \<times> auth_client" where
  "auth_verify cr key code c =
     (let code = trim_space code in
      if \<not> code_ok code then (Inl (apple_protocol_error ''INVALID_2FA_CODE'' msg_login_code False), c)
      else
        (case get_pending key c of
           (None, c) \<Rightarrow> (Inl (apple_protocol_error ''APPLE_LOGIN_EXPIRED'' msg_login_expired False), c)
         | (Some p, c) \<Rightarrow>
             (case verify_code cr code (ap_session p, c) of
                (Inl e, st1) \<Rightarrow> (Inl e, store_session key st1)
              | (Inr r, st1) \<Rightarrow> (Inr r, delete_pending key (snd st1)))))"

section \<open>In the session manager\<close>

definition manager_result :: "start_result \<Rightarrow> login_result" where
  "manager_result r = \<lparr>lr_web = st_web r, lr_account = st_account r, lr_needs_2fa = st_needs_2fa r\<rparr>"

definition conclude_login ::
  "bool \<Rightarrow> string \<Rightarrow> (go_error + start_result) \<times> auth_client \<Rightarrow> session_manager \<Rightarrow>
   (go_error + start_result) \<times> auth_client \<times> session_manager" where
  "conclude_login verifying expected answer sm =
     (let (r, c) = answer; sm = sm\<lparr>sm_net := ac_net c\<rparr>;
          (e, sm) = complete_login verifying (map_sum id manager_result r) expected sm
      in (case e of Some err \<Rightarrow> Inl err | None \<Rightarrow> r, c\<lparr>ac_net := sm_net sm\<rparr>, sm))"

definition start_apple_login ::
  "nat \<Rightarrow> crypto \<Rightarrow> login_input \<Rightarrow> string \<Rightarrow> auth_client \<Rightarrow> session_manager \<Rightarrow>
   ((go_error + start_result) \<times> auth_client \<times> session_manager) option" where
  "start_apple_login fuel cr i expected c sm =
     map_option (\<lambda>answer. conclude_login False expected answer sm) (auth_login fuel cr i (c\<lparr>ac_net := sm_net sm\<rparr>))"

definition verify_apple_login ::
  "crypto \<Rightarrow> string \<Rightarrow> string \<Rightarrow> string \<Rightarrow> auth_client \<Rightarrow> session_manager \<Rightarrow>
   (go_error + start_result) \<times> auth_client \<times> session_manager" where
  "verify_apple_login cr key code expected c sm =
     conclude_login True expected (auth_verify cr key code (c\<lparr>ac_net := sm_net sm\<rparr>)) sm"

end
