(* ===== verification/AppleLoginProps.thy ===== *)
theory AppleLoginProps
  imports AppleLogin
begin

text \<open>
  Logging in to Apple: the change of region settles, codes are taken once and in time, and what is stored
  belongs to the account that was asked for.
\<close>

section \<open>What a request leaves alone\<close>

text \<open>Replies that name no country but \<open>k\<close>.\<close>

definition names_only :: "string \<Rightarrow> (nat \<times> auth_outcome) list \<Rightarrow> bool" where
  "names_only k replies \<longleftrightarrow>
     (\<forall>e\<in>set replies. case snd e of
        AuthError _ \<Rightarrow> True
      | AuthBodyError _ r \<Rightarrow> ar_header r ''X-Apple-ID-Account-Country'' \<in> {[], k}
      | AuthReply r \<Rightarrow> ar_header r ''X-Apple-ID-Account-Country'' \<in> {[], k})"

definition request_frame :: "string \<Rightarrow> auth_state \<Rightarrow> auth_state \<Rightarrow> bool" where
  "request_frame k st st1 \<longleftrightarrow>
     as_channel (fst st1) = as_channel (fst st) \<and> as_endpoints (fst st1) = as_endpoints (fst st) \<and>
     suffix (ac_replies (snd st1)) (ac_replies (snd st)) \<and> ac_pending (snd st1) = ac_pending (snd st) \<and>
     (names_only k (ac_replies (snd st)) \<longrightarrow> as_country (fst st1) \<in> {as_country (fst st), k})"

lemma names_only_suffix: "suffix ys xs \<Longrightarrow> names_only k xs \<Longrightarrow> names_only k ys"
  unfolding names_only_def using set_mono_suffix by blast

lemma frame_refl [simp]: "request_frame k st st"
  by (simp add: request_frame_def)

lemma frame_trans: "request_frame k a b \<Longrightarrow> request_frame k b c \<Longrightarrow> request_frame k a c"
  unfolding request_frame_def using names_only_suffix suffix_order.trans by (metis insert_iff singletonD)

lemma extract_frame:
  "as_channel (extract_response r s) = as_channel s" "as_endpoints (extract_response r s) = as_endpoints s"
  "as_country (extract_response r s) =
     (if ar_header r ''X-Apple-ID-Account-Country'' \<noteq> [] then ar_header r ''X-Apple-ID-Account-Country'' else as_country s)"
  unfolding extract_response_def Let_def
  by (cases "positive_int (ar_header r ''X-Apple-HC-Bits'')",
      simp_all only: option.case, simp_all split del: if_split)+

lemma names_only_member:
  assumes "names_only k replies" and "out \<in> snd ` set replies" and "out = AuthReply r \<or> (\<exists>e. out = AuthBodyError e r)"
  shows "ar_header r ''X-Apple-ID-Account-Country'' \<in> {[], k}"
proof -
  obtain e where "e \<in> set replies" "out = snd e" using assms(2) by (rule imageE)
  then have "case out of AuthError _ \<Rightarrow> True
      | AuthBodyError _ r \<Rightarrow> ar_header r ''X-Apple-ID-Account-Country'' \<in> {[], k}
      | AuthReply r \<Rightarrow> ar_header r ''X-Apple-ID-Account-Country'' \<in> {[], k}"
    using assms(1) unfolding names_only_def by blast
  then show ?thesis using assms(3) by (elim disjE exE) simp_all
qed

lemma send_auth_replies:
  assumes "send_auth rq c = (out, c1)"
  shows "suffix (ac_replies c1) (ac_replies c)" "ac_pending c1 = ac_pending c"
    "out = AuthError Canceled \<or> out \<in> snd ` set (ac_replies c) \<and> length (ac_replies c1) < length (ac_replies c)"
  using assms by (auto simp: send_auth_def Let_def image_def split: list.splits prod.splits intro: suffix_ConsI)

lemma do_frame:
  assumes "auth_do meth url h body decodes conflict st = (res, st1)"
  shows "request_frame k st st1"
proof -
  obtain s c where st: "st = (s, c)" by (cases st)
  obtain out c1 where out: "send_auth (auth_request_of meth url h body (auth_now c) s) c = (out, c1)"
    by (cases "send_auth (auth_request_of meth url h body (auth_now c) s) c")
  note f = send_auth_replies [OF out]
  show ?thesis
  proof (cases out)
    case (AuthError e)
    then have "st1 = (s, c1)" using assms out st by (auto simp: auth_do_def)
    then show ?thesis using f st by (simp add: request_frame_def)
  next
    case (AuthBodyError e r)
    then have s1: "st1 = (extract_response r s, c1)" using assms out st by (auto simp: auth_do_def)
    have "names_only k (ac_replies c) \<Longrightarrow> ar_header r ''X-Apple-ID-Account-Country'' \<in> {[], k}"
      using f(3) AuthBodyError names_only_member [of k "ac_replies c" out r] by auto
    then show ?thesis using f(1,2) st s1 extract_frame by (auto simp: request_frame_def)
  next
    case (AuthReply r)
    then have s1: "st1 = (extract_response r s, c1)" using assms out st by (auto simp: auth_do_def)
    have "names_only k (ac_replies c) \<Longrightarrow> ar_header r ''X-Apple-ID-Account-Country'' \<in> {[], k}"
      using f(3) AuthReply names_only_member [of k "ac_replies c" out r] by auto
    then show ?thesis using f(1,2) st s1 extract_frame by (auto simp: request_frame_def)
  qed
qed

lemma do_consumes:
  assumes "auth_do meth url h body decodes conflict st = ((status, r, None), st1)"
  shows "length (ac_replies (snd st1)) < length (ac_replies (snd st))"
proof -
  obtain s c where st: "st = (s, c)" by (cases st)
  obtain out c1 where out: "send_auth (auth_request_of meth url h body (auth_now c) s) c = (out, c1)"
    by (cases "send_auth (auth_request_of meth url h body (auth_now c) s) c")
  obtain x where "out = AuthReply x" "snd st1 = c1" using assms out st by (cases out) (auto simp: auth_do_def split: if_splits)
  then show ?thesis using send_auth_replies(3) [OF out] st by auto
qed

lemma call_frame: "auth_call meth path h body st = (res, st1) \<Longrightarrow> request_frame k st st1"
  by (auto simp: auth_call_def split: prod.splits option.splits dest: do_frame)

lemma start_frame: "auth_start st = (res, st1) \<Longrightarrow> request_frame k st st1"
  by (auto simp: auth_start_def Let_def request_frame_def split: prod.splits option.splits if_splits dest!: do_frame [of _ _ _ _ _ _ _ _ _ k])

lemma start_consumes: "auth_start st = (Inr x, st1) \<Longrightarrow> length (ac_replies (snd st1)) < length (ac_replies (snd st))"
  by (auto simp: auth_start_def Let_def split: prod.splits option.splits if_splits dest!: do_consumes)

lemma device_key_frame: "auth_device_key cr st = (res, st1) \<Longrightarrow> request_frame k st st1"
  unfolding auth_device_key_def by (rule call_frame)

lemma federate_frame: "auth_federate cr st = (res, st1) \<Longrightarrow> request_frame k st st1"
  unfolding auth_federate_def by (rule call_frame)

lemma take_random_frame: "take_random n c = (bs, c1) \<Longrightarrow> ac_replies c1 = ac_replies c \<and> ac_pending c1 = ac_pending c"
  by (auto simp: take_random_def split: list.splits)

lemma complete_frame: "srp_complete cr ch m1 m2 st = (res, st1) \<Longrightarrow> request_frame k st st1"
  unfolding srp_complete_def Let_def
  by (auto split: prod.splits option.splits sum.splits if_splits dest: do_frame [of _ _ _ _ _ _ _ _ _ k])

lemma srp_frame:
  assumes "auth_srp cr password st = (res, st1)"
  shows "request_frame k st st1"
proof -
  obtain s c where st: "st = (s, c)" by (cases st)
  obtain secret c1 where r: "take_random 32 c = (secret, c1)" by (cases "take_random 32 c")
  have f1: "request_frame k st (s, c1)" using take_random_frame [OF r] st by (simp add: request_frame_def)
  obtain client where cl: "new_srp_client (cr_sha256 cr) (Inr secret) = Inr client" by (simp add: new_srp_client_def Let_def)
  obtain res1 st2 where d: "auth_do ''POST'' (ep_auth (as_endpoints s) @ ''/signin/init'') (srp_headers cr (auth_now c1) s)
      (Some (srp_init_body client (as_apple_id s))) (\<lambda>j. decode_challenge j \<noteq> None) False (s, c1) = (res1, st2)"
    by (cases "auth_do ''POST'' (ep_auth (as_endpoints s) @ ''/signin/init'') (srp_headers cr (auth_now c1) s)
      (Some (srp_init_body client (as_apple_id s))) (\<lambda>j. decode_challenge j \<noteq> None) False (s, c1)")
  note f2 = frame_trans [OF f1 do_frame [OF d]]
  show ?thesis
  proof (cases "st1 = st2")
    case True
    then show ?thesis using f2 by simp
  next
    case False
    then obtain ch m1 m2 where "srp_complete cr ch m1 m2 st2 = (res, st1)"
      using assms st r cl d by (auto simp: auth_srp_def Let_def split: option.splits sum.splits prod.splits)
    then show ?thesis using frame_trans [OF f2 complete_frame] by blast
  qed
qed

lemma sign_in_frame:
  assumes "sign_in cr password st = (res, st1)"
  shows "request_frame k st st1"
proof -
  obtain r1 a where a: "auth_start st = (r1, a)" by (cases "auth_start st")
  obtain r2 b where b: "(if as_channel (fst a) = channel_account then auth_device_key cr a else (Inr (), a)) = (r2, b)"
    by (cases "if as_channel (fst a) = channel_account then auth_device_key cr a else (Inr (), a)")
  obtain r3 c where c: "auth_federate cr b = (r3, c)" by (cases "auth_federate cr b")
  obtain r4 d where d: "auth_srp cr password c = (r4, d)" by (cases "auth_srp cr password c")
  have fb: "request_frame k a b" using b device_key_frame by (auto split: if_splits)
  note f = start_frame [OF a, of k] frame_trans [OF start_frame [OF a] fb]
    frame_trans [OF frame_trans [OF start_frame [OF a] fb] federate_frame [OF c]]
    frame_trans [OF frame_trans [OF frame_trans [OF start_frame [OF a] fb] federate_frame [OF c]] srp_frame [OF d]]
  have "st1 = a \<or> st1 = b \<or> st1 = c \<or> st1 = d"
    using assms a b c d by (auto simp: sign_in_def auth_bind_def split: sum.splits if_splits)
  then show ?thesis using f by blast
qed

lemma sign_in_consumes:
  assumes "sign_in cr password st = (Inr x, st1)"
  shows "length (ac_replies (snd st1)) < length (ac_replies (snd st))"
proof -
  obtain r1 a where a: "auth_start st = (r1, a)" by (cases "auth_start st")
  obtain y where y: "r1 = Inr y" using assms a by (cases r1) (simp_all add: sign_in_def auth_bind_def)
  obtain b where b: "(if as_channel (fst a) = channel_account then auth_device_key cr a else (Inr (), a)) = (Inr (), b)"
    using assms a y by (simp add: sign_in_def auth_bind_def split: if_splits prod.splits sum.splits)
  have fb: "request_frame k a b" for k using b device_key_frame by (auto split: if_splits)
  obtain r3 c where c: "auth_federate cr b = (r3, c)" by (cases "auth_federate cr b")
  have "auth_srp cr password c = (Inr x, st1)"
    using assms a y b c by (auto simp: sign_in_def auth_bind_def split: sum.splits)
  then have "request_frame [] a st1" using frame_trans [OF fb frame_trans [OF federate_frame [OF c] srp_frame]] by blast
  then have "length (ac_replies (snd st1)) \<le> length (ac_replies (snd a))"
    by (auto simp: request_frame_def dest: suffix_length_le)
  then show ?thesis using start_consumes a y by (metis le_less_trans)
qed

section \<open>The region settles\<close>

lemma switched_frame:
  "as_country (fst (switched_session ep st)) = []" "as_endpoints (fst (switched_session ep st)) = ep"
  "ac_replies (snd (switched_session ep st)) = ac_replies (snd st)"
  "ac_pending (snd (switched_session ep st)) = ac_pending (snd st)"
  by (auto simp: switched_session_def fresh_uuid_def new_session_def Let_def split: prod.splits dest: take_random_frame)

lemma start_ends: "length (ac_replies (snd st)) < fuel \<Longrightarrow> start_with_session fuel cr password st \<noteq> None"
proof (induction fuel arbitrary: st)
  case (Suc fuel)
  obtain res st1 where s: "sign_in cr password st = (res, st1)" by (cases "sign_in cr password st")
  show ?case
  proof (cases res)
    case (Inl e)
    then show ?thesis using s by simp
  next
    case (Inr x)
    then have less: "length (ac_replies (snd st1)) < fuel" using sign_in_consumes s Suc.prems by fastforce
    show ?thesis
    proof (cases "switch_to (fst st1)")
      case None
      then show ?thesis using s Inr by simp
    next
      case (Some ep)
      then show ?thesis using s Inr Suc.IH [of "switched_session ep st1"] less by (simp add: switched_frame)
    qed
  qed
qed simp

lemma no_country: "endpoints_for_country [] = None"
  by (simp add: endpoints_for_country_def to_upper_def)

lemma switch_country: "switch_to s = Some ep \<Longrightarrow> endpoints_for_country (as_country s) = Some ep \<and> ep_host ep \<noteq> ep_host (as_endpoints s)"
  by (auto simp: switch_to_def split: if_splits option.splits)

lemma start_settles:
  assumes "as_country (fst st) = []" and "names_only k (ac_replies (snd st))"
  shows "start_with_session (Suc (Suc 0)) cr password st \<noteq> None"
proof -
  obtain res st1 where s: "sign_in cr password st = (res, st1)" by (cases "sign_in cr password st")
  note f1 = sign_in_frame [OF s, of k]
  show ?thesis
  proof (cases "\<exists>x ep. res = Inr x \<and> switch_to (fst st1) = Some ep")
    case False
    then show ?thesis using s by (cases res; cases "switch_to (fst st1)") auto
  next
    case True
    then obtain x ep where x: "res = Inr x" "switch_to (fst st1) = Some ep" by blast
    have k: "as_country (fst st1) = k" "endpoints_for_country k = Some ep"
      using f1 assms switch_country [OF x(2)] no_country by (auto simp: request_frame_def)
    let ?st = "switched_session ep st1"
    obtain res2 st2 where s2: "sign_in cr password ?st = (res2, st2)" by (cases "sign_in cr password ?st")
    have "names_only k (ac_replies (snd ?st))" using f1 assms(2) names_only_suffix by (auto simp: request_frame_def switched_frame)
    then have "as_country (fst st2) \<in> {[], k}" "as_endpoints (fst st2) = ep"
      using sign_in_frame [OF s2, of k] by (auto simp: request_frame_def switched_frame)
    then have "switch_to (fst st2) = None"
      using switch_country [of "fst st2"] k(2) no_country by (cases "switch_to (fst st2)") auto
    then show ?thesis using s x s2 by (cases res2) auto
  qed
qed

lemma prime_frame:
  assumes "prime_account st = (res, st1)"
  shows "as_country (fst st1) = as_country (fst st)" "ac_replies (snd st1) = ac_replies (snd st)" "ac_pending (snd st1) = ac_pending (snd st)"
  using assms unfolding prime_account_def Let_def by (auto split: prod.splits sum.splits if_splits)

lemma login_starts:
  assumes "\<And>st. as_country (fst st) = [] \<Longrightarrow> ac_replies (snd st) = ac_replies c \<Longrightarrow>
    start_with_session fuel cr (li_password i) st \<noteq> None"
  shows "auth_login fuel cr i c \<noteq> None"
proof -
  obtain frame c1 where f: "fresh_uuid c = (frame, c1)" by (cases "fresh_uuid c")
  then have r: "ac_replies c1 = ac_replies c" by (auto simp: fresh_uuid_def split: prod.splits dest: take_random_frame)
  have n: "as_country (new_session a b d e g h j) = []" for a b d e g h j by (simp add: new_session_def)
  have p: "as_country (fst st1) = [] \<and> ac_replies (snd st1) = ac_replies c"
    if "prime_account (new_session a b d e g h j, c1) = (res, st1)" for a b d e g h j res st1
    using prime_frame [OF that] r n by simp
  have go: "start_with_session fuel cr (li_password i) (s, c2) \<noteq> None" if "as_country s = []" "ac_replies c2 = ac_replies c" for s c2
    using assms [of "(s, c2)"] that by simp
  show ?thesis unfolding auth_login_def Let_def f
    by (simp add: option.map_disc_iff go r n del: not_None_eq split: prod.split sum.split) (use p go in fastforce)
qed


section \<open>Codes\<close>

definition keeps_pending :: "'a auth_op \<Rightarrow> bool" where
  "keeps_pending m \<longleftrightarrow> (\<forall>st. ac_pending (snd (snd (m st))) = ac_pending (snd st))"

lemma keeps_call: "keeps_pending (auth_call meth path h body)"
  unfolding keeps_pending_def
proof
  fix st
  obtain r st1 where "auth_call meth path h body st = (r, st1)" by (cases "auth_call meth path h body st")
  then show "ac_pending (snd (snd (auth_call meth path h body st))) = ac_pending (snd st)"
    using call_frame [of meth path h body st r st1] by (simp add: request_frame_def)
qed

lemma keeps_replace: "keeps_pending m \<Longrightarrow> keeps_pending (replace_error e m)"
  by (auto simp: keeps_pending_def replace_error_def split: prod.splits sum.splits) (metis snd_conv)+

lemma keeps_phone: "keeps_pending (validate_phone_code cr code)"
  using keeps_replace [OF keeps_call] by (auto simp: keeps_pending_def validate_phone_code_def split: sum.splits)

lemma keeps_device: "keeps_pending (validate_device_code cr code)"
  unfolding validate_device_code_def by (rule keeps_replace [OF keeps_call])

lemma keeps_trust: "keeps_pending (auth_trust cr)"
  unfolding auth_trust_def by (rule keeps_call)

lemma uuid_pending: "fresh_uuid c = (u, c1) \<Longrightarrow> ac_pending c1 = ac_pending c"
  by (auto simp: fresh_uuid_def split: prod.splits dest: take_random_frame)

lemma keeps_validate: "keeps_pending validate_icloud_web"
  unfolding keeps_pending_def validate_icloud_web_def Let_def
  by (auto split: prod.splits auth_outcome.splits option.splits dest!: uuid_pending send_auth_replies(2))

lemma keeps_bind:
  assumes "keeps_pending m" and "\<And>x. keeps_pending (f x)"
  shows "keeps_pending (auth_bind m f)"
  unfolding keeps_pending_def auth_bind_def
proof
  fix st
  obtain r st1 where m: "m st = (r, st1)" by (cases "m st")
  then have "ac_pending (snd st1) = ac_pending (snd st)" using assms(1) unfolding keeps_pending_def by (metis snd_conv)
  then show "ac_pending (snd (snd (case m st of (Inl e, st1) \<Rightarrow> (Inl e, st1) | (Inr x, st1) \<Rightarrow> f x st1))) = ac_pending (snd st)"
    using m assms(2) unfolding keeps_pending_def by (cases r) (simp_all del: split_paired_All)
qed

lemma keeps_account_login: "keeps_pending account_login"
  unfolding keeps_pending_def account_login_def Let_def
  by (auto simp: request_frame_def split: prod.splits option.splits dest!: do_frame [of _ _ _ _ _ _ _ _ _ "[]"])

lemma keeps_web: "keeps_pending finish_icloud_web"
proof -
  have "keeps_pending (named_config info cfg)" for info cfg by (simp add: keeps_pending_def named_config_def)
  then have "keeps_pending (auth_bind account_login (\<lambda>info. auth_bind validate_icloud_web (named_config info)))"
    by (intro keeps_bind keeps_account_login keeps_validate)
  then show ?thesis by (simp add: keeps_pending_def finish_icloud_web_def)
qed

lemma keeps_account: "keeps_pending finish_account"
  by (auto simp: keeps_pending_def finish_account_def split: prod.splits)

lemma keeps_finish: "keeps_pending finish_login"
  using keeps_web keeps_account unfolding keeps_pending_def finish_login_def
  by (auto split: prod.splits sum.splits) (metis snd_conv)+

lemma keeps_verify: "keeps_pending (verify_code cr code)"
  unfolding keeps_pending_def
proof
  fix st
  obtain r1 st1 where v: "(if as_method (fst st) = two_factor_phone then validate_phone_code cr code st else validate_device_code cr code st) = (r1, st1)"
    by (cases "if as_method (fst st) = two_factor_phone then validate_phone_code cr code st else validate_device_code cr code st")
  have p1: "ac_pending (snd st1) = ac_pending (snd st)"
    using v keeps_phone keeps_device unfolding keeps_pending_def by (metis snd_conv)
  obtain r2 st2 where t: "auth_trust cr st1 = (r2, st2)" by (cases "auth_trust cr st1")
  have p2: "ac_pending (snd st2) = ac_pending (snd st)" using t keeps_trust p1 unfolding keeps_pending_def by (metis snd_conv)
  have "snd (verify_code cr code st) \<in> {st1, st2, snd (finish_login st2)}"
    unfolding verify_code_def v using t by (auto split: sum.splits)
  then show "ac_pending (snd (snd (verify_code cr code st))) = ac_pending (snd st)"
    using p1 p2 keeps_finish unfolding keeps_pending_def by (auto simp del: split_paired_All)
qed

lemma get_pending_live:
  assumes "get_pending key c = (Some p, c1)"
  shows "(trim_space key, p) \<in> set (ac_pending c)" "auth_now c \<le> ap_expires p"
  using assms by (auto simp: get_pending_def clean_pending_def Let_def dest!: map_of_SomeD)

lemma get_pending_gone:
  assumes "map_of (ac_pending c) (trim_space key) = None"
  shows "fst (get_pending key c) = None"
proof -
  have "trim_space key \<notin> fst ` set (ac_pending c)" using assms by (simp add: map_of_eq_None_iff)
  then have "trim_space key \<notin> fst ` set (filter (\<lambda>(_, p). \<not> ap_expires p < auth_now c) (ac_pending c))" by auto
  then show ?thesis by (simp add: get_pending_def clean_pending_def Let_def map_of_eq_None_iff)
qed

definition expired_error :: go_error where
  "expired_error = apple_protocol_error ''APPLE_LOGIN_EXPIRED'' msg_login_expired False"

definition code_error :: go_error where
  "code_error = apple_protocol_error ''INVALID_2FA_CODE'' msg_login_code False"

lemma verify_dead:
  assumes "fst (get_pending key c) = None"
  shows "fst (auth_verify cr key code c) = Inl (if code_ok (trim_space code) then expired_error else code_error)"
    "ac_sent (snd (auth_verify cr key code c)) = ac_sent c"
  using assms
  by (cases "get_pending key c"; auto simp: auth_verify_def expired_error_def code_error_def get_pending_def clean_pending_def Let_def)+

text \<open>
  C39. A login is finished once, in time, with a code of six digits. When \<open>Verify\<close> succeeds, the pending
  login it names was there and not older than ten minutes, the code had six digits, and the login is gone
  afterwards: whoever tries again, with any code, gets an error, and nothing is sent to Apple.
\<close>

theorem code_finishes_once:
  assumes "auth_verify cr key code c = (Inr r, c1)"
  shows "code_ok (trim_space code) \<and>
    (\<exists>p. (trim_space key, p) \<in> set (ac_pending c) \<and> auth_now c \<le> ap_expires p) \<and>
    fst (auth_verify cr key code2 c1) = Inl (if code_ok (trim_space code2) then expired_error else code_error) \<and>
    ac_sent (snd (auth_verify cr key code2 c1)) = ac_sent c1"
proof -
  have ok: "code_ok (trim_space code)" using assms by (auto simp: auth_verify_def Let_def split: if_splits)
  obtain p c2 where p: "get_pending key c = (Some p, c2)"
    using assms ok by (cases "get_pending key c"; cases "fst (get_pending key c)") (auto simp: auth_verify_def Let_def)
  obtain st1 where v: "verify_code cr (trim_space code) (ap_session p, c2) = (Inr r, st1)" "c1 = delete_pending key (snd st1)"
    using assms ok p by (auto simp: auth_verify_def Let_def split: prod.splits sum.splits)
  have "map_of (ac_pending c1) (trim_space key) = None" by (simp add: v(2) delete_pending_def AList.delete_conv')
  then show ?thesis using ok get_pending_live [OF p] verify_dead [OF get_pending_gone] by blast
qed

section \<open>What a login stores\<close>

definition valid_result :: "start_result \<Rightarrow> bool" where
  "valid_result r \<longleftrightarrow> (\<forall>cfg. st_web r = Some cfg \<longrightarrow> validate_config cfg = None)"

definition gives_valid :: "start_result auth_op \<Rightarrow> bool" where
  "gives_valid m \<longleftrightarrow> (\<forall>st r st1. m st = (Inr r, st1) \<longrightarrow> valid_result r)"

lemma validated_valid: "validated_config now s cid info premium = Inr cfg \<Longrightarrow> validate_config cfg = None"
  by (auto simp: validated_config_def Let_def split: option.splits if_splits)

lemma named_valid: "validate_config (cfg\<lparr>ic_apple_id := a\<rparr>) = validate_config cfg"
  by (simp add: validate_config_def)

lemma bind_result: "auth_bind m f st = (Inr y, st2) \<Longrightarrow> \<exists>x st1. m st = (Inr x, st1) \<and> f x st1 = (Inr y, st2)"
  by (cases "m st"; cases "fst (m st)") (auto simp: auth_bind_def)

lemma gives_validD: "gives_valid m \<Longrightarrow> m st = (Inr r, st1) \<Longrightarrow> valid_result r"
  unfolding gives_valid_def by blast

lemma web_valid: "finish_icloud_web st = (Inr cfg, st1) \<Longrightarrow> validate_config cfg = None"
proof -
  have v: "validate_icloud_web st = (Inr cfg, st1) \<Longrightarrow> validate_config cfg = None" for st cfg st1
    unfolding validate_icloud_web_def Let_def
    by (auto split: prod.splits auth_outcome.splits option.splits if_splits dest!: validated_valid)
  assume "finish_icloud_web st = (Inr cfg, st1)"
  then have "auth_bind account_login (\<lambda>info. auth_bind validate_icloud_web (named_config info)) st = (Inr cfg, st1)"
    by (simp add: finish_icloud_web_def split: if_splits)
  from bind_result [OF this] obtain info sta where "auth_bind validate_icloud_web (named_config info) sta = (Inr cfg, st1)" by blast
  from bind_result [OF this] obtain cfg1 stb where "validate_icloud_web sta = (Inr cfg1, stb)" "named_config info cfg1 stb = (Inr cfg, st1)"
    by blast
  then show "validate_config cfg = None" using v [of sta cfg1 stb] by (auto simp: named_config_def named_valid)
qed

lemma finish_valid: "gives_valid finish_login"
  unfolding gives_valid_def finish_login_def
  by (auto simp: valid_result_def done_result_def split: if_splits prod.splits sum.splits dest!: web_valid)

lemma await_valid: "gives_valid (await_code message)"
  by (auto simp: gives_valid_def await_code_def valid_result_def pending_result_def done_result_def split: prod.splits)

lemma after_valid: "gives_valid (after_sign_in cr needs)"
  unfolding gives_valid_def
proof (intro allI impI)
  fix st r st1
  assume a: "after_sign_in cr needs st = (Inr r, st1)"
  show "valid_result r"
  proof (cases needs)
    case True
    then have "auth_bind (request_code cr) await_code (refresh_auth_state cr st) = (Inr r, st1)" using a by (simp add: after_sign_in_def)
    from bind_result [OF this] show ?thesis using gives_validD [OF await_valid] by blast
  next
    case False
    obtain res st2 where f: "finish_login st = (res, st2)" by (cases "finish_login st")
    then show ?thesis using a False gives_validD [OF await_valid, of msg_login_second st2 r st1]
      by (cases res) (auto simp: after_sign_in_def split: if_splits dest: gives_validD [OF finish_valid])
  qed
qed

lemma start_valid: "start_with_session fuel cr password st = Some (Inr r, st1) \<Longrightarrow> valid_result r"
proof (induction fuel arbitrary: st)
  case (Suc fuel)
  obtain res st2 where s: "sign_in cr password st = (res, st2)" by (cases "sign_in cr password st")
  show ?case
  proof (cases "switch_to (fst st2)")
    case None
    then show ?thesis using Suc.prems s gives_validD [OF after_valid] by (cases res) auto
  next
    case (Some ep)
    then show ?thesis using Suc.prems s Suc.IH [of "switched_session ep st2"] by (cases res) auto
  qed
qed simp

lemma login_valid: "auth_login fuel cr i c = Some (Inr r, c1) \<Longrightarrow> valid_result r"
  unfolding auth_login_def Let_def by (auto split: if_splits prod.splits sum.splits dest!: start_valid)

lemma verify_code_valid: "gives_valid (verify_code cr code)"
  unfolding gives_valid_def verify_code_def
  by (auto split: if_splits prod.splits sum.splits dest: gives_validD [OF finish_valid])

lemma verify_valid: "auth_verify cr key code c = (Inr r, c1) \<Longrightarrow> valid_result r"
  unfolding auth_verify_def Let_def
  by (auto split: if_splits prod.splits sum.splits option.splits dest: gives_validD [OF verify_code_valid])

definition config_doc :: "session_manager \<Rightarrow> icloud_config option" where
  "config_doc s = cell_doc (sm_config s)"

lemma cell_write_either: "cell_doc (snd (cell_write d c)) = cell_doc c \<or> cell_doc (snd (cell_write d c)) = Some d"
  by (auto simp: cell_write_def split: list.splits)

lemma config_doc_frames [simp]:
  "config_doc (snd (read_account s)) = config_doc s" "config_doc (snd (write_account a s)) = config_doc s"
  "config_doc (snd (load_config s)) = config_doc s" "config_doc (record_create_success ch s) = config_doc s"
  "config_doc (s\<lparr>sm_net := n\<rparr>) = config_doc s"
  by (simp_all add: config_doc_def read_account_def write_account_def load_config_def record_create_success_def update_runtime_def
      cell_read_def Let_def split: prod.split list.split)

lemma store_config: "config_doc (snd (store_web_session cfg s)) = config_doc s \<or> config_doc (snd (store_web_session cfg s)) = Some cfg"
  using cell_write_either [of cfg "sm_config s"]
  by (auto simp: store_web_session_def config_doc_def Let_def split: prod.splits)

lemma persist_config:
  assumes "persist_login_result r s = (e, s1)"
  shows "config_doc s1 = config_doc s \<or> (\<exists>cfg. lr_web r = Some cfg \<and> config_doc s1 = Some cfg)"
proof -
  have w: "config_doc (snd (persist_login_web cfg t)) = config_doc (snd (store_web_session cfg t))" for cfg t
  proof -
    obtain ok t1 where o: "store_web_session cfg t = (ok, t1)" by (cases "store_web_session cfg t")
    obtain d t2 where d: "read_account t1 = (d, t2)" by (cases "read_account t1")
    have "config_doc t2 = config_doc t1" using config_doc_frames(1) [of t1] d by simp
    then show ?thesis using o d by (auto simp: persist_login_web_def Let_def split: option.split)
  qed
  have a: "config_doc (snd (persist_login_account b t)) = config_doc t" for b t
  proof -
    obtain cfg t1 where c: "load_config t = (cfg, t1)" by (cases "load_config t")
    obtain ok t2 where o: "write_account b t1 = (ok, t2)" by (cases "write_account b t1")
    have "config_doc t1 = config_doc t" "config_doc t2 = config_doc t1"
      using config_doc_frames(3) [of t] config_doc_frames(2) [of b t1] c o by simp_all
    then show ?thesis using c o by (simp add: persist_login_account_def Let_def split: sum.split)
  qed
  show ?thesis
  proof (cases "lr_web r")
    case None
    then show ?thesis using assms a by (auto simp: persist_login_result_def split: option.splits) (metis snd_conv)
  next
    case (Some cfg)
    obtain err t where t: "persist_login_web cfg s = (err, t)" by (cases "persist_login_web cfg s")
    have t1: "config_doc t = config_doc s \<or> config_doc t = Some cfg" using w [of cfg s] store_config [of cfg s] t by simp
    have "config_doc s1 = config_doc t"
      using assms t Some a by (auto simp: persist_login_result_def split: option.splits) (metis snd_conv)
    then show ?thesis using t1 Some by auto
  qed
qed

lemma conclude_config:
  assumes "conclude_login verifying expected (ans, c) sm = (r, c1, sm1)" and "\<And>x. ans = Inr x \<Longrightarrow> valid_result x"
  shows "config_doc sm1 = config_doc sm \<or>
    (\<exists>cfg. config_doc sm1 = Some cfg \<and> validate_config cfg = None \<and> (trim_space expected \<noteq> [] \<longrightarrow> ic_dsid cfg = trim_space expected))"
proof (cases ans)
  case (Inl e)
  then show ?thesis using assms(1) by (auto simp: conclude_login_def complete_login_def Let_def)
next
  case (Inr x)
  let ?m = "manager_result x" and ?s = "sm\<lparr>sm_net := ac_net c\<rparr>"
  show ?thesis
  proof (cases "(\<not> verifying \<and> lr_needs_2fa ?m) \<or> ensure_login_account ?m expected \<noteq> None")
    case True
    then show ?thesis using assms(1) Inr by (auto simp: conclude_login_def complete_login_def Let_def split: if_splits)
  next
    case False
    then have "complete_login verifying (Inr ?m) expected ?s = persist_login_result ?m ?s" by (auto simp: complete_login_def)
    then obtain e where p: "persist_login_result ?m ?s = (e, sm1)"
      using assms(1) Inr by (auto simp: conclude_login_def Let_def split: prod.splits)
    have ens: "ensure_login_account ?m expected = None" using False by simp
    from persist_config [OF p] show ?thesis
    proof
      assume "config_doc sm1 = config_doc ?s"
      then show ?thesis by simp
    next
      assume "\<exists>cfg. lr_web ?m = Some cfg \<and> config_doc sm1 = Some cfg"
      then obtain cfg where cfg: "st_web x = Some cfg" "config_doc sm1 = Some cfg" by (auto simp: manager_result_def)
      have "trim_space expected \<noteq> [] \<Longrightarrow> ic_dsid cfg = trim_space expected"
        using ens cfg(1) by (simp add: ensure_login_account_def manager_result_def Let_def split: if_splits)
      then show ?thesis using cfg assms(2) [OF Inr] by (simp add: valid_result_def)
    qed
  qed
qed

text \<open>
  C40. A login replaces the stored iCloud session only by one that can be used, of the account that was
  asked for. Whatever Apple answers and however the disk fails, after \<open>StartAppleLogin\<close> and after
  \<open>VerifyAppleLogin\<close> the configuration on disk is either what it was or one that passes the validation, so
  that its host belongs to the mail domain service; and when the caller is bound to a numeric account, as
  the queue of batch creations is, its account is that one.
\<close>

theorem login_stores_expected:
  assumes "start_apple_login fuel cr i expected c sm = Some (r, c1, sm1) \<or> verify_apple_login cr key code expected c sm = (r, c1, sm1)"
  shows "config_doc sm1 = config_doc sm \<or>
    (\<exists>cfg. config_doc sm1 = Some cfg \<and> validate_config cfg = None \<and> is_mail_domain_host (ic_host cfg) \<and>
       (trim_space expected \<noteq> [] \<longrightarrow> ic_dsid cfg = trim_space expected))"
proof -
  have host: "validate_config cfg = None \<Longrightarrow> is_mail_domain_host (ic_host cfg)" for cfg
    by (rule ccontr) (simp add: validate_config_def Let_def split: if_split_asm)
  obtain verifying ans c2 where "conclude_login verifying expected (ans, c2) sm = (r, c1, sm1)" "\<And>x. ans = Inr x \<Longrightarrow> valid_result x"
    using assms
  proof
    assume "start_apple_login fuel cr i expected c sm = Some (r, c1, sm1)"
    then obtain a where "auth_login fuel cr i (c\<lparr>ac_net := sm_net sm\<rparr>) = Some a" "conclude_login False expected a sm = (r, c1, sm1)"
      by (auto simp: start_apple_login_def)
    then show thesis using that [of False "fst a" "snd a"] login_valid [of fuel cr i "c\<lparr>ac_net := sm_net sm\<rparr>"] by (cases a) auto
  next
    assume "verify_apple_login cr key code expected c sm = (r, c1, sm1)"
    then have "conclude_login True expected (auth_verify cr key code (c\<lparr>ac_net := sm_net sm\<rparr>)) sm = (r, c1, sm1)"
      by (simp add: verify_apple_login_def)
    then show thesis using that [of True "fst (auth_verify cr key code (c\<lparr>ac_net := sm_net sm\<rparr>))" "snd (auth_verify cr key code (c\<lparr>ac_net := sm_net sm\<rparr>))"]
      verify_valid [of cr key code "c\<lparr>ac_net := sm_net sm\<rparr>"] by (metis prod.collapse)
  qed
  from conclude_config [OF this] show ?thesis using host by blast
qed

end
