(* ===== verification/AppleLoginExamples.thy ===== *)
theory AppleLoginExamples
  imports AppleLoginProps
begin

text \<open>A login to iCloud Web that waits for its code, and the answers of Apple to the right one.\<close>

definition example_crypto :: crypto where
  "example_crypto = \<lparr>cr_sha256 = (\<lambda>_. [CHR 0x01]), cr_sha1 = (\<lambda>_. [CHR 0x00]), cr_pbkdf2 = (\<lambda>p s i n. Inr p),
     cr_quote = id, cr_marshal = (\<lambda>_. ''{}''), cr_unmarshal = (\<lambda>_. None)\<rparr>"

definition example_reply :: "json option \<Rightarrow> string \<Rightarrow> set_cookie list \<Rightarrow> nat \<times> auth_outcome" where
  "example_reply j t cookies = (1, AuthReply \<lparr>ar_status = 200, ar_host = ''setup.icloud.com'',
     ar_header = (\<lambda>k. []), ar_cookies = cookies, ar_text = t, ar_json = j\<rparr>)"

definition example_validation :: json where
  "example_validation = JObj [(''dsInfo'', JObj [(''dsid'', JStr ''7''), (''appleId'', JStr ''a@b.c'')]),
     (''webservices'', JObj [(''premiummailsettings'', JObj [(''url'', JStr ''https://p1-maildomainws.icloud.com:443'')])])]"

definition example_set_cookie :: set_cookie where
  "example_set_cookie = \<lparr>sc_name = ''X'', sc_value = ''v'', sc_domain = ''icloud.com'', sc_path = ''/'', sc_expires = 0,
     sc_max_age = 0, sc_secure = True, sc_http_only = True\<rparr>"

definition example_endpoints :: auth_endpoints where
  "example_endpoints = \<lparr>ep_home = ''https://h'', ep_setup = ''https://s'', ep_auth = ''https://i'', ep_host = ''h''\<rparr>"

definition example_login_session :: apple_session where
  "example_login_session = (new_session channel_web example_endpoints ''a@b.c'' ''c'' ''f'' ''u'' two_factor_device)
     \<lparr>as_session_token := ''T''\<rparr>"

definition example_auth_client :: auth_client where
  "example_auth_client = \<lparr>ac_net = \<lparr>net_ready = True, net_now = 0, net_events = [], net_sent = []\<rparr>,
     ac_replies = [example_reply None [] [], example_reply None [] [], example_reply None [] [],
       example_reply (Some example_validation) ''{}'' [example_set_cookie]],
     ac_sent = [], ac_random = [], ac_pending = [(''k'', \<lparr>ap_session = example_login_session, ap_expires = 100\<rparr>)]\<rparr>"

definition example_login_manager :: session_manager where
  "example_login_manager = (let c = \<lparr>cell_doc = None, read_faults = [], write_faults = []\<rparr> in
     \<lparr>sm_config = c, sm_metadata = \<lparr>cell_doc = None, read_faults = [], write_faults = []\<rparr>,
      sm_state = \<lparr>cell_doc = None, read_faults = [], write_faults = []\<rparr>,
      sm_account = \<lparr>cell_doc = None, read_faults = [], write_faults = []\<rparr>,
      sm_channels = \<lparr>cell_doc = None, read_faults = [], write_faults = []\<rparr>,
      sm_stamps = \<lparr>cell_doc = None, read_faults = [], write_faults = []\<rparr>,
      sm_net = \<lparr>net_ready = True, net_now = 0, net_events = [], net_sent = []\<rparr>\<rparr>)"

lemma example_verifies:
  "map_sum id (\<lambda>r. map_option ic_host (st_web r)) (fst (auth_verify example_crypto ''k'' ''123456'' example_auth_client)) =
   Inr (Some ''p1-maildomainws.icloud.com'')"
  by code_simp

lemma code_finishes_once_witness:
  "\<exists>r c1. auth_verify example_crypto ''k'' ''123456'' example_auth_client = (Inr r, c1) \<and>
     fst (auth_verify example_crypto ''k'' ''123456'' c1) = Inl expired_error"
proof -
  obtain r c1 where v: "auth_verify example_crypto ''k'' ''123456'' example_auth_client = (Inr r, c1)"
    using example_verifies
    by (cases "auth_verify example_crypto ''k'' ''123456'' example_auth_client";
        cases "fst (auth_verify example_crypto ''k'' ''123456'' example_auth_client)") auto
  have "code_ok (trim_space ''123456'')" by code_simp
  then show ?thesis using code_finishes_once [OF v, of "''123456''"] v by auto
qed

lemma example_names: "names_only ''CHN'' (ac_replies example_auth_client)"
  by (simp add: names_only_def example_auth_client_def example_reply_def)

definition example_login_input :: login_input where
  "example_login_input = \<lparr>li_apple_id = ''a@b.c'', li_password = ''p'', li_channel = [], li_region = [], li_method = []\<rparr>"


lemma login_stores_expected_witness:
  "\<exists>r c1 sm1. verify_apple_login example_crypto ''k'' ''123456'' ''7'' example_auth_client example_login_manager = (r, c1, sm1) \<and>
     (config_doc sm1 = None \<or> (\<exists>cfg. config_doc sm1 = Some cfg \<and> is_mail_domain_host (ic_host cfg) \<and> ic_dsid cfg = ''7''))"
proof -
  obtain r c1 sm1 where v: "verify_apple_login example_crypto ''k'' ''123456'' ''7'' example_auth_client example_login_manager = (r, c1, sm1)"
    by (cases "verify_apple_login example_crypto ''k'' ''123456'' ''7'' example_auth_client example_login_manager")
  have t: "trim_space ''7'' = ''7''" by code_simp
  have n: "config_doc example_login_manager = None" by (simp add: config_doc_def example_login_manager_def Let_def)
  have "config_doc sm1 = None \<or> (\<exists>cfg. config_doc sm1 = Some cfg \<and> is_mail_domain_host (ic_host cfg) \<and> ic_dsid cfg = ''7'')"
    using login_stores_expected [where key = "''k''" and code = "''123456''" and expected = "''7''", OF disjI2 [OF v]] t n by auto
  then show ?thesis using v by blast
qed

end
