(* ===== verification/Spec2Isabelle.thy ===== *)
theory Spec2Isabelle
  imports GoText GoSort GoErrors Storage QueueProps AliasTime ChannelsProps ScheduleProps Refresh ShareProps AuthProps GoRegexp MailMessageProps MailBackend MailTextProps MailAppsProps MailWorker MailSyncExamples Proxy ProxyProps MailRegistry MailImportProps AppleSrpProps AppleFingerprintProps AppleLoginExamples
begin

text \<open>
  A verification library for Running Tools (\<open>github.com/Bringbasket/running-tools\<close>), a Go server that
  manages the hidden e-mail addresses of iCloud accounts. It keeps the cookies of two Apple channels
  (iCloud Web and Apple Account), creates addresses in batches and on a schedule, keeps the sessions
  alive, mirrors the mailbox the addresses forward to over IMAP, and hands out read-only share links.
  State lives in JSON files, in Postgres, or in both.

  \<^bold>\<open>Parts and theories.\<close> Every definition is translated from the Go function its section names; a
  theory ending in \<open>Props\<close> proves what the theory before it promises.

  \<^item> Prelude: \<open>GoBase\<close>, \<open>GoText\<close>, \<open>GoSort\<close>, \<open>GoRunes\<close>, \<open>GoRegexp\<close>, \<open>Codec\<close> model what the code uses of Go's
    \<open>strings\<close>, \<open>sort\<close>, \<open>unicode/utf8\<close>, \<open>regexp\<close>, \<open>encoding/base64\<close> and \<open>fmt\<close>; \<open>Messages\<close> holds the Chinese
    texts as bytes, \<open>GoErrors\<close> the error values of \<open>errors.go\<close> with their redaction.
  \<^item> Storage: \<open>Storage\<close> (\<open>internal/platform/storage/jsonfile.go\<close>), with the interface \<open>document\<close> every
    worker has to its state file, and \<open>Sql\<close>, a connection whose statements fail by a script.
  \<^item> Apple channels: \<open>Http\<close> (transport of \<open>apple_protocol.go\<close>), \<open>AppleAccount\<close> (the management session),
    \<open>WebClient\<close> (\<open>client.go\<close>), \<open>Channels\<close> (\<open>session.go\<close>, \<open>create_channels.go\<close>), \<open>AliasTime\<close>.
  \<^item> Workers: \<open>Timers\<close> (the contract of a wake-up delay), \<open>Queue\<close> (\<open>alias_queue.go\<close>), \<open>Schedule\<close>
    (\<open>create_schedule.go\<close>), \<open>Refresh\<close> (\<open>autorefresh.go\<close>).
  \<^item> Credentials: \<open>Revocation\<close> (withdrawn for good), \<open>Share\<close> (\<open>share_links.go\<close>), \<open>Password\<close>, \<open>AuthStore\<close>,
    \<open>Auth\<close> (\<open>internal/platform/auth\<close>).
  \<^item> Mail: \<open>MailMessages\<close> (messages, merging, queries), \<open>MailRepo\<close>, \<open>MailStore\<close>, \<open>MailBackend\<close> (the three
    repositories of \<open>mailbox_repository.go\<close> and their contract), \<open>MailText\<close> (parsing, the HTML filter,
    codes).

  \<^bold>\<open>How code becomes definitions.\<close> A struct is a record, a string a list of bytes, a mutex-protected
  method one function on the state it protects; where a goroutine releases the lock between two
  sections, each section is a step of an inductive relation and the answers of the outside world are
  inputs. An error is a value of \<open>go_error\<close>. Instants are integers (nanoseconds) or, where the code
  stores seconds as \<open>float64\<close>, reals. Clocks, random numbers, digests and the answers of remote services
  are arguments; disks and databases fail by scripts of booleans.

  \<^bold>\<open>Interfaces.\<close> \<open>go_less\<close> (comparisons for sorting), \<open>document\<close> (one JSON file), \<open>wake_timer\<close>,
  \<open>revocable\<close>, \<open>share_backend\<close>, \<open>message_store\<close> are locales; each is interpreted on every provider the
  code has, and clients use the interpreted facts.

  \<^bold>\<open>Fuel.\<close> Loops whose rounds shrink their input are functions with a measure. The HTML filter runs
  with one unit of fuel per byte, which theorem \<open>sanitize_terminates\<close> shows is always enough.

  \<^bold>\<open>Not modelled.\<close> The ent client under \<open>persistence/ent\<close> is generated; the statements it builds are
  written out on lists of rows. Also left out are the HTTP routing and middleware, the embedded web
  interface, configuration from the environment, TLS fingerprints and connections, and pure logging.
\<close>

end
